(* ===== verification/Prelude.thy ===== *)
theory Prelude
  imports Complex_Main
begin

text \<open>
  Shared vocabulary of the development: the exceptions the services raise, the result of an
  asynchronous operation on the state, and the generic lemmas on lists that the components share.

  \<^item> \<open>exn\<close> lists the exceptions of the code: the NestJS HTTP exceptions with their message, plain
    \<open>Error\<close>s and \<open>TypeError\<close>s of the language, and the three known request errors of the database
    client that the repository relies on (P2002 unique constraint, P2003 foreign key, P2025 record
    not found; \<open>src/src/common/filters/prisma-exception.filter.ts\<close> maps them to responses).
  \<^item> A stateful operation returns a pair of a result and the new state; the state is kept when the
    operation raises, because a write before a \<open>throw\<close> stays unless it ran in a transaction.
  \<^item> \<open>await\<close> is \<open>await\<close>: the continuation runs only when the awaited operation returned.
  \<^item> \<open>promise_all\<close> is \<open>Promise.all\<close>: every operation runs, the first error wins. The operations run
    in the order they are listed.
  \<^item> \<open>transaction\<close> is \<open>prisma.$transaction\<close>: an error restores the state before it.
  \<^item> \<open>catching\<close> is \<open>try ... catch\<close>.

  Messages that the code writes in Vietnamese are spelt without diacritics; messages of an enum of
  \<open>src/src/common/constants\<close> are spelt by their key.
\<close>

named_theorems repo_defs \<open>definitions of the repository methods\<close>
named_theorems service_defs \<open>definitions of the service methods\<close>
named_theorems row_frame \<open>what an operation leaves unchanged\<close>

section \<open>Exceptions and results\<close>

datatype exn =
    BadRequest string
  | NotFound string
  | Forbidden string
  | Unauthorized string
  | ConflictExn string
  | TooManyRequests string
  | InternalServerError
  | JsError string
  | TypeError
  | P2002
  | P2003
  | P2025

type_synonym 'a res = "exn + 'a"
type_synonym ('s, 'a) eff = "'s \<Rightarrow> 'a res \<times> 's"

definition await :: "'a res \<times> 's \<Rightarrow> ('a \<Rightarrow> 's \<Rightarrow> 'b res \<times> 's) \<Rightarrow> 'b res \<times> 's" where
  "await r k = (case r of (Inl e, s) \<Rightarrow> (Inl e, s) | (Inr x, s) \<Rightarrow> k x s)"

definition throw :: "exn \<Rightarrow> ('s, 'a) eff" where
  "throw e s = (Inl e, s)"

definition ret :: "'a \<Rightarrow> ('s, 'a) eff" where
  "ret x s = (Inr x, s)"

definition promise_all :: "('s, 'a) eff \<Rightarrow> ('s, 'b) eff \<Rightarrow> ('s, 'a \<times> 'b) eff" where
  "promise_all f g s =
     (case f s of
        (Inl e, s') \<Rightarrow> (Inl e, snd (g s'))
      | (Inr x, s') \<Rightarrow>
          (case g s' of
             (Inl e, s'') \<Rightarrow> (Inl e, s'')
           | (Inr y, s'') \<Rightarrow> (Inr (x, y), s'')))"

primrec promise_all_list :: "('s, 'a) eff list \<Rightarrow> ('s, 'a list) eff" where
  "promise_all_list [] s = (Inr [], s)"
| "promise_all_list (f # fs) s =
     (case promise_all f (promise_all_list fs) s of
        (Inl e, s') \<Rightarrow> (Inl e, s')
      | (Inr (x, xs), s') \<Rightarrow> (Inr (x # xs), s'))"

definition transaction :: "('s, 'a) eff \<Rightarrow> ('s, 'a) eff" where
  "transaction f s = (case f s of (Inl e, s') \<Rightarrow> (Inl e, s) | (Inr x, s') \<Rightarrow> (Inr x, s'))"

definition catching :: "'a res \<times> 's \<Rightarrow> (exn \<Rightarrow> 's \<Rightarrow> 'a res \<times> 's) \<Rightarrow> 'a res \<times> 's" where
  "catching r h = (case r of (Inl e, s) \<Rightarrow> h e s | (Inr x, s) \<Rightarrow> (Inr x, s))"

lemma await_simps [simp]:
  "await (Inl e, s) k = (Inl e, s)"
  "await (Inr x, s) k = k x s"
  by (simp_all add: await_def)

lemma catching_simps [simp]:
  "catching (Inl e, s) h = h e s"
  "catching (Inr x, s) h = (Inr x, s)"
  by (simp_all add: catching_def)

lemma throw_simp [simp]: "throw e s = (Inl e, s)"
  by (simp add: throw_def)

lemma ret_simp [simp]: "ret x s = (Inr x, s)"
  by (simp add: ret_def)

lemma await_InrD:
  assumes "await r k = (Inr y, s')"
  obtains x s where "r = (Inr x, s)" and "k x s = (Inr y, s')"
  using assms by (cases r; cases "fst r") auto

lemma await_assoc: "await (await r k) k' = await r (\<lambda>x s. await (k x s) k')"
  by (cases r; cases "fst r") auto

lemma transaction_atomic:
  "transaction f s = (Inl e, s') \<Longrightarrow> s' = s"
  by (auto simp: transaction_def split: prod.splits sum.splits)

lemma transaction_InrD:
  "transaction f s = (Inr x, s') \<Longrightarrow> f s = (Inr x, s')"
  by (auto simp: transaction_def split: prod.splits sum.splits)

lemma transaction_Inr [simp]: "f s = (Inr x, s') \<Longrightarrow> transaction f s = (Inr x, s')"
  by (simp add: transaction_def)

lemma transaction_Inl [simp]: "f s = (Inl e, s') \<Longrightarrow> transaction f s = (Inl e, s)"
  by (simp add: transaction_def)

lemma promise_all_Inr [simp]:
  "f s = (Inr x, s') \<Longrightarrow> g s' = (Inr y, s'') \<Longrightarrow> promise_all f g s = (Inr (x, y), s'')"
  by (simp add: promise_all_def)

section \<open>Generic lemmas on lists\<close>

lemma find_map_same_key:
  assumes "\<And>r. P (f r) = P r"
  shows "List.find P (map f rs) = map_option f (List.find P rs)"
  by (induction rs) (auto simp: assms)

lemma find_None_filter: "List.find P rs = None \<longleftrightarrow> filter P rs = []"
  by (induction rs) auto

lemma find_Some_in: "List.find P rs = Some r \<Longrightarrow> r \<in> set rs \<and> P r"
  by (induction rs) (auto split: if_splits)

lemma find_append:
  "List.find P (xs @ ys) = (case List.find P xs of None \<Rightarrow> List.find P ys | Some x \<Rightarrow> Some x)"
  by (induction xs) auto

lemma find_unique:
  assumes "distinct (map key rs)" and "r \<in> set rs"
  shows "List.find (\<lambda>x. key x = key r) rs = Some r"
  using assms by (induction rs) (auto simp: image_iff)

lemma distinct_map_same_key:
  assumes "\<And>r. key (f r) = key r"
  shows "distinct (map key (map f rs)) = distinct (map key rs)"
proof -
  have "map (key \<circ> f) rs = map key rs" by (simp add: assms)
  then show ?thesis by (simp add: map_map del: map_eq_conv)
qed

lemma sum_list_map_update:
  fixes q :: "'r \<Rightarrow> int"
  assumes "distinct (map key rs)" and "r \<in> set rs"
    and "\<And>x. x \<in> set rs \<Longrightarrow> key x \<noteq> key r \<Longrightarrow> q (f x) = q x"
  shows "sum_list (map (q \<circ> f) rs) = sum_list (map q rs) - q r + q (f r)"
  using assms
proof (induction rs)
  case Nil
  then show ?case by simp
next
  case (Cons x xs)
  show ?case
  proof (cases "x = r")
    case True
    then have "\<And>y. y \<in> set xs \<Longrightarrow> q (f y) = q y"
      using Cons.prems by (metis image_eqI list.set_intros(2) list.set_map list.simps(9) distinct.simps(2))
    then have "map (q \<circ> f) xs = map q xs" by simp
    then have "sum_list (map (q \<circ> f) xs) = sum_list (map q xs)" by (rule arg_cong)
    with True show ?thesis by (simp add: comp_def)
  next
    case False
    then have "r \<in> set xs" using Cons.prems by simp
    moreover from this Cons.prems have "key x \<noteq> key r" by (auto simp: image_iff)
    ultimately show ?thesis using Cons by simp
  qed
qed

lemma those_length: "those xs = Some ys \<Longrightarrow> length ys = length xs"
  by (induction xs arbitrary: ys) (auto split: option.splits)

lemma those_map_Some: "(\<And>x. x \<in> set xs \<Longrightarrow> f x = Some (g x)) \<Longrightarrow> those (map f xs) = Some (map g xs)"
  by (induction xs) auto

text \<open>\<open>Promise.all\<close> of an action whose value is dropped.\<close>

lemma snd_await_unit [simp]: "snd (await r (\<lambda>_ d. (Inr (), d))) = snd r"
  by (cases r; cases "fst r") auto

section \<open>What an operation keeps\<close>

text \<open>A property of the state that every part of an operation keeps is kept by the operation.\<close>

lemma await_keeps:
  assumes "P (snd r)" and "\<And>x s. P s \<Longrightarrow> P (snd (k x s))"
  shows "P (snd (await r k))"
  using assms by (cases r; cases "fst r") auto

lemma promise_all_keeps:
  assumes "P s" and "\<And>s. P s \<Longrightarrow> P (snd (f s))" and "\<And>s. P s \<Longrightarrow> P (snd (g s))"
  shows "P (snd (promise_all f g s))"
proof -
  obtain x s1 where f: "f s = (x, s1)" by (cases "f s")
  obtain y s2 where g: "g s1 = (y, s2)" by (cases "g s1")
  have "P s2" using assms f g by (metis snd_conv)
  then show ?thesis using f g by (cases x; cases y) (simp_all add: promise_all_def)
qed

lemma promise_all_list_keeps:
  assumes "P s" and "\<And>f s. f \<in> set fs \<Longrightarrow> P s \<Longrightarrow> P (snd (f s))"
  shows "P (snd (promise_all_list fs s))"
  using assms
proof (induction fs arbitrary: s)
  case (Cons f fs)
  have "P (snd (promise_all f (promise_all_list fs) s))"
    by (rule promise_all_keeps) (use Cons in auto)
  then show ?case by (auto split: prod.split sum.split)
qed simp

lemma transaction_keeps:
  assumes "P s" and "\<And>s. P s \<Longrightarrow> P (snd (f s))"
  shows "P (snd (transaction f s))"
  using assms(1) assms(2) [OF assms(1)] by (auto simp: transaction_def split: prod.split sum.split)

lemma catching_keeps:
  assumes "P (snd r)" and "\<And>e s. P s \<Longrightarrow> P (snd (h e s))"
  shows "P (snd (catching r h))"
  using assms by (cases r; cases "fst r") auto

lemma await_InrE:
  assumes "fst (await r k) = Inr y"
  obtains x s where "r = (Inr x, s)" and "fst (k x s) = Inr y"
  using assms by (cases r; cases "fst r") auto

end
