(* ===== verification/Store.thy ===== *)
theory Store
  imports Prelude
begin

text \<open>
  A table of the relational database: its rows in insertion order and the next value of its
  identifier. The repositories of the program issue declarative queries through the Prisma client;
  the operations here are the documented meaning of those queries, and each repository method of the
  components is written with them:

  \<^item> \<open>find_row\<close> is \<open>findFirst\<close>/\<open>findUnique\<close>, \<open>select_rows\<close> is \<open>findMany\<close>, \<open>count_rows\<close> is \<open>count\<close>;
  \<^item> \<open>map_rows\<close> is \<open>updateMany\<close>, and \<open>update_row\<close> is \<open>update\<close>, which raises P2025 without a row;
  \<^item> \<open>insert_row\<close> is \<open>create\<close>; a method that can hit a unique index states the check itself;
  \<^item> \<open>delete_rows\<close> is \<open>deleteMany\<close>.

  A row without an explicit order is returned in insertion order. An identifier that the client draws
  (\<open>autoincrement\<close>, \<open>uuid\<close>, \<open>cuid\<close>) is opaque to the program: it is the serial number of the row.
  The locale \<open>row_store\<close> is the interface of one table inside a larger state: what a lookup by
  identifier returns after an update.
\<close>

record 'r table =
  rows :: "'r list"
  serial :: int

definition empty_table :: "'r table" where
  "empty_table = \<lparr>rows = [], serial = 1\<rparr>"

definition find_row :: "('r \<Rightarrow> bool) \<Rightarrow> 'r table \<Rightarrow> 'r option" where
  "find_row P t = List.find P (rows t)"

definition select_rows :: "('r \<Rightarrow> bool) \<Rightarrow> 'r table \<Rightarrow> 'r list" where
  "select_rows P t = filter P (rows t)"

definition count_rows :: "('r \<Rightarrow> bool) \<Rightarrow> 'r table \<Rightarrow> int" where
  "count_rows P t = int (length (filter P (rows t)))"

definition map_rows :: "('r \<Rightarrow> bool) \<Rightarrow> ('r \<Rightarrow> 'r) \<Rightarrow> 'r table \<Rightarrow> 'r table" where
  "map_rows P f t = t\<lparr>rows := map (\<lambda>r. if P r then f r else r) (rows t)\<rparr>"

definition delete_rows :: "('r \<Rightarrow> bool) \<Rightarrow> 'r table \<Rightarrow> 'r table" where
  "delete_rows P t = t\<lparr>rows := filter (\<lambda>r. \<not> P r) (rows t)\<rparr>"

definition insert_row :: "(int \<Rightarrow> 'r) \<Rightarrow> 'r table \<Rightarrow> 'r table" where
  "insert_row mk t = t\<lparr>rows := rows t @ [mk (serial t)], serial := serial t + 1\<rparr>"

definition insert_rows :: "(int \<Rightarrow> 'r) list \<Rightarrow> 'r table \<Rightarrow> 'r table" where
  "insert_rows mks t = foldl (\<lambda>t mk. insert_row mk t) t mks"

definition wf_table :: "('r \<Rightarrow> int) \<Rightarrow> 'r table \<Rightarrow> bool" where
  "wf_table key t \<longleftrightarrow> distinct (map key (rows t)) \<and> (\<forall>r\<in>set (rows t). key r < serial t)"

section \<open>Rows after an operation\<close>

lemma rows_empty_table [simp]: "rows empty_table = []"
  by (simp add: empty_table_def)

lemma rows_map_rows [simp]: "rows (map_rows P f t) = map (\<lambda>r. if P r then f r else r) (rows t)"
  by (simp add: map_rows_def)

lemma rows_delete_rows [simp]: "rows (delete_rows P t) = filter (\<lambda>r. \<not> P r) (rows t)"
  by (simp add: delete_rows_def)

lemma rows_insert_row [simp]: "rows (insert_row mk t) = rows t @ [mk (serial t)]"
  by (simp add: insert_row_def)

lemma serial_simps [simp]:
  "serial (map_rows P f t) = serial t"
  "serial (delete_rows P t) = serial t"
  "serial (insert_row mk t) = serial t + 1"
  by (simp_all add: map_rows_def delete_rows_def insert_row_def)

lemma insert_rows_simps [simp]:
  "insert_rows [] t = t"
  "insert_rows (mk # mks) t = insert_rows mks (insert_row mk t)"
  by (simp_all add: insert_rows_def)

lemma find_row_SomeD: "find_row P t = Some r \<Longrightarrow> r \<in> set (rows t) \<and> P r"
  unfolding find_row_def by (rule find_Some_in)

lemma find_row_None: "find_row P t = None \<longleftrightarrow> (\<forall>r\<in>set (rows t). \<not> P r)"
  by (auto simp: find_row_def find_None_iff)

lemma find_row_empty [simp]: "find_row P empty_table = None"
  by (simp add: find_row_def)

lemma set_select_rows [simp]: "set (select_rows P t) = {r \<in> set (rows t). P r}"
  by (simp add: select_rows_def)

lemma count_rows_nonneg [simp]: "0 \<le> count_rows P t"
  by (simp add: count_rows_def)

lemma find_row_insert:
  "find_row P (insert_row mk t) =
     (case find_row P t of None \<Rightarrow> if P (mk (serial t)) then Some (mk (serial t)) else None
      | Some r \<Rightarrow> Some r)"
  by (auto simp: find_row_def find_append split: option.splits)

lemma find_row_map_rows_same:
  assumes "\<And>r. P (f r) = P r"
  shows "find_row P (map_rows Q f t) = map_option (\<lambda>r. if Q r then f r else r) (find_row P t)"
  unfolding find_row_def rows_map_rows using assms by (intro find_map_same_key) simp

lemma select_rows_map_rows_same:
  assumes "\<And>r. P (f r) = P r"
  shows "select_rows P (map_rows Q f t) = map (\<lambda>r. if Q r then f r else r) (select_rows P t)"
proof -
  have "filter P (map g xs) = map g (filter P xs)" if "\<And>r. P (g r) = P r" for g xs
    by (induction xs) (simp_all add: that)
  then show ?thesis using assms by (simp add: select_rows_def)
qed

lemma find_row_key:
  assumes "wf_table key t" and "r \<in> set (rows t)"
  shows "find_row (\<lambda>x. key x = key r) t = Some r"
  using assms unfolding find_row_def wf_table_def by (simp add: find_unique)

lemma wf_empty_table [simp]: "wf_table key empty_table"
  by (simp add: wf_table_def)

lemma wf_map_rows:
  assumes "\<And>r. key (f r) = key r" and "wf_table key t"
  shows "wf_table key (map_rows P f t)"
proof -
  let ?g = "\<lambda>r. if P r then f r else r"
  have g: "key (?g r) = key r" for r using assms(1) by simp
  have "distinct (map key (map ?g (rows t)))"
    using assms(2) unfolding wf_table_def distinct_map_same_key [of key ?g, OF g] by simp
  then show ?thesis using assms unfolding wf_table_def by auto
qed

lemma wf_delete_rows: "wf_table key t \<Longrightarrow> wf_table key (delete_rows P t)"
  by (auto simp: wf_table_def intro: distinct_map_filter)

lemma wf_insert_row:
  assumes "key (mk (serial t)) = serial t" and "wf_table key t"
  shows "wf_table key (insert_row mk t)"
  using assms by (auto simp: wf_table_def)

lemma wf_insert_rows:
  assumes "\<And>mk n. mk \<in> set mks \<Longrightarrow> key (mk n) = n" and "wf_table key t"
  shows "wf_table key (insert_rows mks t)"
  using assms by (induction mks arbitrary: t) (simp_all add: wf_insert_row)

section \<open>The interface of a table\<close>

text \<open>
  \<open>lookup k s\<close> is the row with key \<open>k\<close> and \<open>modify k f s\<close> applies \<open>f\<close> to it; \<open>keeps f\<close> says that
  \<open>f\<close> does not change the key.
\<close>

locale row_store =
  fixes lookup :: "'k \<Rightarrow> 's \<Rightarrow> 'r option"
    and modify :: "'k \<Rightarrow> ('r \<Rightarrow> 'r) \<Rightarrow> 's \<Rightarrow> 's"
    and keeps :: "('r \<Rightarrow> 'r) \<Rightarrow> bool"
  assumes lookup_modify:
      "keeps f \<Longrightarrow> lookup k (modify k f s) = map_option f (lookup k s)"
    and lookup_modify_other:
      "keeps f \<Longrightarrow> j \<noteq> k \<Longrightarrow> lookup j (modify k f s) = lookup j s"
begin

lemma lookup_modify_if:
  "keeps f \<Longrightarrow> lookup j (modify k f s) = (if j = k then map_option f (lookup k s) else lookup j s)"
  by (simp add: lookup_modify lookup_modify_other)

text \<open>A batch of updates, one per key, is the pointwise update.\<close>

lemma lookup_modify_batch:
  assumes "distinct (map fst kfs)" and "\<And>k f. (k, f) \<in> set kfs \<Longrightarrow> keeps f"
  shows "lookup j (foldl (\<lambda>s (k, f). modify k f s) s kfs) =
           (case map_of kfs j of None \<Rightarrow> lookup j s | Some f \<Rightarrow> map_option f (lookup j s))"
  using assms
proof (induction kfs arbitrary: s)
  case Nil
  then show ?case by simp
next
  case (Cons kf kfs)
  obtain k f where kf: "kf = (k, f)" by (cases kf)
  have step: "lookup j (modify k f s) = (if j = k then map_option f (lookup k s) else lookup j s)"
    using Cons.prems(2) kf by (intro lookup_modify_if) auto
  have absent: "map_of kfs k = None"
    using Cons.prems(1) kf by (simp add: map_of_eq_None_iff)
  have rest: "lookup j (foldl (\<lambda>s (k, f). modify k f s) (modify k f s) kfs) =
      (case map_of kfs j of None \<Rightarrow> lookup j (modify k f s)
       | Some f' \<Rightarrow> map_option f' (lookup j (modify k f s)))"
    using Cons.prems by (intro Cons.IH) auto
  show ?case using rest kf step absent by (cases "j = k") (auto split: option.split)
qed

lemma lookup_modify_twice:
  assumes "keeps f" and "keeps g" and "\<And>r. lookup k s = Some r \<Longrightarrow> g (f r) = r"
  shows "lookup j (modify k g (modify k f s)) = lookup j s"
  using assms by (cases "lookup k s") (auto simp: lookup_modify_if)

end

text \<open>Every table with its key is such a store.\<close>

definition lookup_key :: "('r \<Rightarrow> 'k) \<Rightarrow> 'k \<Rightarrow> 'r table \<Rightarrow> 'r option" where
  "lookup_key key k t = find_row (\<lambda>r. key r = k) t"

definition modify_key :: "('r \<Rightarrow> 'k) \<Rightarrow> 'k \<Rightarrow> ('r \<Rightarrow> 'r) \<Rightarrow> 'r table \<Rightarrow> 'r table" where
  "modify_key key k f t = map_rows (\<lambda>r. key r = k) f t"

lemma find_key_modify:
  assumes "\<And>r. key (f r) = key r"
  shows "find_row (\<lambda>r. key r = j) (map_rows (\<lambda>r. key r = k) f t) =
           (if j = k then map_option f (find_row (\<lambda>r. key r = j) t) else find_row (\<lambda>r. key r = j) t)"
proof -
  have "find_row (\<lambda>r. key r = j) (map_rows (\<lambda>r. key r = k) f t) =
          map_option (\<lambda>r. if key r = k then f r else r) (find_row (\<lambda>r. key r = j) t)"
    by (rule find_row_map_rows_same) (simp add: assms)
  then show ?thesis
    by (cases "find_row (\<lambda>r. key r = j) t") (auto dest: find_row_SomeD)
qed

interpretation keyed_table: row_store "lookup_key key" "modify_key key" "\<lambda>f. \<forall>r. key (f r) = key r"
  for key :: "'r \<Rightarrow> 'k"
  by unfold_locales (simp_all add: lookup_key_def modify_key_def find_key_modify)

section \<open>Invariants of a sequence of operations\<close>

text \<open>
  A component whose operations all keep an invariant keeps it along every sequence of calls,
  whichever results they return.
\<close>

locale machine =
  fixes step :: "'c \<Rightarrow> 's \<Rightarrow> 's"
    and inv :: "'s \<Rightarrow> bool"
  assumes step_inv: "inv s \<Longrightarrow> inv (step c s)"
begin

lemma run_inv: "inv s \<Longrightarrow> inv (fold step cs s)"
  by (induction cs arbitrary: s) (simp_all add: step_inv)

lemma run_inv_prefix: "inv s \<Longrightarrow> inv (fold step (take n cs) s)"
  by (rule run_inv)

end

end
