(* ===== verification/Schema.thy ===== *)
theory Schema
  imports Store
begin

text \<open>
  The data model of \<open>src/prisma/schema.prisma\<close>: its enumerations, one record per table and the
  state \<open>db\<close> that the operations read and write: all tables, the stock counters and the
  key-value cache in Redis. A nullable column is an \<open>option\<close>, a date is milliseconds since the epoch,
  a DECIMAL column holds the rational that was written to it (the amounts of the program have at most
  the two decimals the columns keep). The texts of the catalogue and the names of authors and publishers are
  lists of code points (\<open>utext\<close>), other strings are lists of characters. Columns that no modelled operation
  reads are left out: \<open>updatedAt\<close> except of carts and wishlists, the JSON columns of events and audit logs,
  the creation dates of reference tables.
\<close>

section \<open>Enumerations\<close>

datatype book_format = HARDCOVER | PAPERBACK | EBOOK | AUDIOBOOK

datatype currency_code = VND | USD | EUR | GBP | JPY | SGD | THB | AUD | CAD | KRW

datatype order_status =
    Ord_PENDING_PAYMENT | Ord_PAID | Ord_CONFIRMED | Ord_PACKING | Ord_SHIPPING | Ord_DELIVERED
  | Ord_CANCELLED | Ord_RETURN_REQUESTED | Ord_RETURNED | Ord_REFUNDED | Ord_NOT_FOUND_ORDER_CODE

datatype payment_gateway = COD | VNPAY | MOMO | STRIPE | PAYPAL | SEPAY | Gateway_OTHER

datatype payment_status =
    Pay_PENDING | Pay_SUCCESS | Pay_FAILED | Pay_REFUNDED | Pay_SHORTFALL | Pay_OVERAGE
  | Pay_PARTIAL_REFUND | Pay_EXPIRED | Pay_NOT_FOUND_ORDER_CODE

datatype job_status = Job_PENDING | Job_PROCESSING | Job_DONE | Job_FAILED | Job_CANCELLED

datatype email_status = Mail_PENDING | Mail_SENDING | Mail_SENT | Mail_FAILED | Mail_CANCELLED

datatype purchase_order_type = Transfer_PENDING | Transfer_PROCESSING | Transfer_PURCHASE | Transfer_RETURN

datatype purchase_order_status = PO_PENDING | PO_APPROVED | PO_REJECTED

datatype session_status = Ses_ACTIVE | Ses_REVOKED | Ses_EXPIRED

datatype user_status = User_ACTIVE | User_INACTIVE | User_BLOCKED

datatype verification_type = REGISTER | FORGOT_PASSWORD | CHANGE_EMAIL | CHANGE_PASSWORD

datatype role_code = GUEST | ADMIN | STAFF | CUSTOMER | WAREHOUSE

datatype address_type = HOME | WORK | Address_OTHER

datatype event_type =
    VIEW_BOOK | SEARCH | ADD_TO_CART | REMOVE_FROM_CART | CHECKOUT_START | PLACE_ORDER
  | PAYMENT_SUCCESS | PAYMENT_FAILED | LOGIN | LOGOUT

datatype badge = Badge_NEW | Badge_LIMITED | Badge_BESTSELLER | Badge_EDITION

type_synonym utext = "nat list"

text \<open>The code points of a plain string.\<close>

definition points :: "string \<Rightarrow> utext" where
  "points s = map of_char s"

section \<open>Identity\<close>

record user_row =
  usr_id :: int
  usr_email :: string
  usr_phone :: "string option"
  usr_first_name :: "string option"
  usr_last_name :: "string option"
  usr_password :: string
  usr_password_changed_at :: "int option"
  usr_is_email_verified :: bool
  usr_verify_email_at :: "int option"
  usr_status :: user_status
  usr_last_login_at :: "int option"
  usr_created_at :: int
  usr_deleted_at :: "int option"

record verification_row =
  vc_id :: int
  vc_user_id :: "int option"
  vc_email :: "string option"
  vc_type :: verification_type
  vc_code_hash :: "string option"
  vc_expires_at :: int
  vc_used_at :: "int option"
  vc_created_at :: int

record login_attempt_row =
  la_id :: int
  la_user_id :: "int option"
  la_ip :: "string option"
  la_user_agent :: "string option"
  la_success :: "bool option"
  la_failure_reason :: "string option"
  la_created_at :: int

record device_row =
  dev_id :: int
  dev_user_id :: int
  dev_fingerprint :: string
  dev_name :: "string option"
  dev_first_seen_at :: "int option"
  dev_last_seen_at :: "int option"
  dev_revoked_at :: "int option"

record session_row =
  ses_id :: int
  ses_user_id :: int
  ses_device_id :: "int option"
  ses_ip :: "string option"
  ses_status :: session_status
  ses_refresh_hash :: string
  ses_user_agent :: "string option"
  ses_created_at :: int
  ses_expires_at :: "int option"
  ses_revoked_at :: "int option"

record revoked_token_row =
  rt_id :: int
  rt_token_hash :: string
  rt_expires_at :: int

record address_row =
  ua_id :: int
  ua_user_id :: int
  ua_type :: address_type
  ua_recipient_name :: string
  ua_phone :: string
  ua_detail :: string
  ua_ward :: string
  ua_district :: string
  ua_city :: string
  ua_is_default :: "bool option"
  ua_created_at :: int
  ua_deleted_at :: "int option"

record guest_session_row =
  gs_id :: int
  gs_ip_first :: "string option"
  gs_user_agent_hash :: "string option"
  gs_created_at :: int
  gs_last_seen_at :: "int option"
  gs_converted_user_id :: "int option"
  gs_converted_at :: "int option"

section \<open>Access control\<close>

record role_row =
  role_id :: int
  role_code :: role_code
  role_name :: string
  role_is_active :: bool
  role_deleted_at :: "int option"
  role_description :: "string option"

record user_role_row =
  ur_user_id :: int
  ur_role_id :: int
  ur_deleted_at :: "int option"
  ur_created_by :: "int option"
  ur_updated_by :: "int option"
  ur_deleted_by :: "int option"

record permission_row =
  perm_id :: int
  perm_code :: string
  perm_description :: "utext option"
  perm_method :: string
  perm_path_pattern :: string
  perm_is_active :: bool
  perm_deleted_at :: "int option"
  perm_created_by :: "int option"
  perm_updated_by :: "int option"

record role_permission_row =
  rp_role_id :: int
  rp_permission_id :: int

section \<open>Catalogue\<close>

record language_row =
  lang_id :: int
  lang_code :: string
  lang_name :: string
  lang_is_active :: bool

record book_asset_row =
  bas_id :: int
  bas_book_id :: int
  bas_url :: string
  bas_type :: "string option"
  bas_sort_order :: "int option"

record category_row =
  cat_id :: int
  cat_parent_id :: "int option"
  cat_is_active :: bool
  cat_sort_order :: int
  cat_deleted_at :: "int option"
  cat_created_by :: "int option"

record category_translation_row =
  ct_id :: int
  ct_category_id :: int
  ct_language_id :: int
  ct_name :: utext
  ct_description :: "utext option"
  ct_slug :: "string option"

record author_row =
  au_id :: int
  au_name :: utext

record publisher_row =
  pub_id :: int
  pub_name :: utext

record book_row =
  bk_id :: int
  bk_publisher_id :: "int option"
  bk_publication_year :: "int option"
  bk_weight_grams :: "int option"
  bk_page_count :: "int option"
  bk_cover_image_url :: "string option"
  bk_is_active :: bool
  bk_created_at :: int
  bk_deleted_at :: "int option"
  bk_created_by :: "int option"
  bk_updated_by :: "int option"

record book_translation_row =
  bt_id :: int
  bt_book_id :: int
  bt_language_id :: int
  bt_title :: utext
  bt_description :: "utext option"
  bt_slug :: "string option"

record book_author_row =
  ba_book_id :: int
  ba_author_id :: int
  ba_is_primary :: bool

record book_spec_row =
  bs_book_id :: int
  bs_width_cm :: "rat option"
  bs_height_cm :: "rat option"
  bs_thickness_cm :: "rat option"
  bs_packaging :: "string option"

record book_category_row =
  bc_book_id :: int
  bc_category_id :: int

record book_badge_row =
  bb_id :: int
  bb_book_id :: int
  bb_code :: badge

section \<open>Stock\<close>

record variant_row =
  bv_id :: int
  bv_book_id :: int
  bv_format :: book_format
  bv_isbn :: string
  bv_price :: "rat option"
  bv_currency :: currency_code
  bv_stock :: int
  bv_available :: int
  bv_is_active :: bool
  bv_reserved :: int
  bv_edition :: int
  bv_publication_year :: "int option"
  bv_supplier_id :: "int option"

record snapshot_row =
  bvs_id :: int
  bvs_variant_id :: int
  bvs_content_hash :: "string option"
  bvs_price :: rat
  bvs_format :: book_format
  bvs_isbn :: "string option"

section \<open>Commerce\<close>

record cart_row =
  cart_id :: int
  cart_user_id :: "int option"
  cart_guest_session_id :: "int option"
  cart_created_at :: int
  cart_updated_at :: int

record cart_item_row =
  ci_id :: int
  ci_cart_id :: int
  ci_variant_id :: int
  ci_quantity :: int
  ci_added_at :: int

record wishlist_row =
  wl_id :: int
  wl_user_id :: "int option"
  wl_guest_session_id :: "int option"
  wl_created_at :: int
  wl_updated_at :: int
  wl_delete_at :: "int option"

record wishlist_item_row =
  wi_id :: int
  wi_wishlist_id :: int
  wi_variant_id :: int
  wi_added_at :: int

record order_row =
  ord_id :: int
  ord_code :: string
  ord_user_id :: "int option"
  ord_address_id :: "int option"
  ord_cart_hash :: "string option"
  ord_guest_session_id :: "int option"
  ord_guest_email :: "string option"
  ord_status :: "order_status option"
  ord_payment_status :: "payment_status option"
  ord_subtotal :: "rat option"
  ord_discount :: "rat option"
  ord_shipping_fee :: "rat option"
  ord_total :: "rat option"
  ord_currency :: currency_code
  ord_idempotency_key :: "string option"
  ord_note :: "string option"
  ord_placed_at :: "int option"
  ord_created_at :: int
  ord_expired_at :: int

record order_item_row =
  oi_id :: int
  oi_order_id :: int
  oi_snapshot_id :: int
  oi_quantity :: int
  oi_unit_price :: rat
  oi_line_total :: rat
  oi_created_at :: int

record order_address_row =
  oa_id :: int
  oa_order_id :: int
  oa_recipient_name :: string
  oa_phone :: string
  oa_line :: string
  oa_ward :: "string option"
  oa_district :: "string option"
  oa_city :: string
  oa_country_code :: "string option"
  oa_note :: "string option"

record payment_transaction_row =
  pt_id :: int
  pt_order_id :: "int option"
  pt_user_id :: "int option"
  pt_gateway :: payment_gateway
  pt_status :: "payment_status option"
  pt_amount :: rat
  pt_created_at :: int

record payment_intent_row =
  pi_id :: int
  pi_order_code :: string
  pi_content :: "string option"
  pi_gateway :: payment_gateway
  pi_status :: "payment_status option"
  pi_token_url :: string
  pi_payment_url :: "string option"
  pi_expired_at :: int
  pi_created_at :: int

section \<open>Procurement\<close>

record supplier_row =
  sup_id :: int
  sup_code :: string
  sup_name :: string
  sup_is_active :: bool
  sup_created_at :: int

record purchase_order_row =
  po_id :: int
  po_code :: string
  po_supplier_id :: int
  po_created_by :: int
  po_approved_by :: "int option"
  po_status :: purchase_order_status
  po_status_transfer :: purchase_order_type
  po_note :: "string option"
  po_total_amount :: rat
  po_real_pay_price :: "rat option"
  po_tax_amount :: rat
  po_approved_at :: "int option"
  po_created_at :: int
  po_update_transfer_id :: "int option"

record purchase_order_item_row =
  poi_id :: int
  poi_purchase_order_id :: int
  poi_variant_id :: int
  poi_quantity :: int
  poi_unit_price :: rat
  poi_price :: rat
  poi_discount_price :: rat
  poi_total_price :: rat
  poi_created_at :: int

record stock_import_row =
  si_id :: int
  si_purchase_order_id :: int
  si_created_by :: int
  si_created_at :: int
  si_note :: "string option"
  si_total_amount :: rat

record stock_import_item_row =
  sii_id :: int
  sii_stock_import_id :: int
  sii_purchase_order_item_id :: int
  sii_real_quantity :: int
  sii_lack_quantity :: int
  sii_total_price :: rat

section \<open>Engagement\<close>

record user_event_row =
  ue_id :: int
  ue_user_id :: "int option"
  ue_event_type :: event_type
  ue_object_type :: "string option"
  ue_object_id :: "string option"
  ue_amount :: "rat option"
  ue_created_at :: int

record audit_log_row =
  al_id :: int
  al_actor_user_id :: int
  al_action :: string
  al_entity_type :: string
  al_entity_id :: string
  al_ip :: "string option"
  al_created_at :: int

section \<open>Integration\<close>

record email_row =
  eo_id :: int
  eo_to_email :: string
  eo_to_name :: "string option"
  eo_subject :: "string option"
  eo_template_key :: "string option"
  eo_status :: "email_status option"
  eo_scheduled_at :: "int option"
  eo_sent_at :: "int option"
  eo_attempts :: "int option"
  eo_last_error :: "string option"
  eo_created_at :: int
  eo_payload :: "(string \<times> string) list"

record webhook_row =
  wh_id :: int
  wh_gateway :: payment_gateway
  wh_idempotency_key :: int
  wh_received_at :: int
  wh_processed_at :: "int option"
  wh_status :: "job_status option"
  wh_attempts :: "int option"

section \<open>The state\<close>

record db =
  users :: "user_row table"
  verification_codes :: "verification_row table"
  login_attempts :: "login_attempt_row table"
  devices :: "device_row table"
  sessions :: "session_row table"
  revoked_tokens :: "revoked_token_row table"
  addresses :: "address_row table"
  guest_sessions :: "guest_session_row table"
  roles :: "role_row table"
  user_roles :: "user_role_row table"
  permissions :: "permission_row table"
  role_permissions :: "role_permission_row table"
  languages :: "language_row table"
  categories :: "category_row table"
  category_translations :: "category_translation_row table"
  authors :: "author_row table"
  publishers :: "publisher_row table"
  books :: "book_row table"
  book_translations :: "book_translation_row table"
  book_authors :: "book_author_row table"
  book_specs :: "book_spec_row table"
  book_categories :: "book_category_row table"
  book_badges :: "book_badge_row table"
  variants :: "variant_row table"
  snapshots :: "snapshot_row table"
  book_assets :: "book_asset_row table"
  carts :: "cart_row table"
  cart_items :: "cart_item_row table"
  wishlists :: "wishlist_row table"
  wishlist_items :: "wishlist_item_row table"
  orders :: "order_row table"
  order_items :: "order_item_row table"
  order_addresses :: "order_address_row table"
  payment_transactions :: "payment_transaction_row table"
  payment_intents :: "payment_intent_row table"
  suppliers :: "supplier_row table"
  purchase_orders :: "purchase_order_row table"
  purchase_order_items :: "purchase_order_item_row table"
  stock_imports :: "stock_import_row table"
  stock_import_items :: "stock_import_item_row table"
  user_events :: "user_event_row table"
  audit_logs :: "audit_log_row table"
  email_outbox :: "email_row table"
  webhook_inbox :: "webhook_row table"
  available_counters :: "int \<Rightarrow> int option"

definition empty_db :: db where
  "empty_db = \<lparr>
     users = empty_table, verification_codes = empty_table, login_attempts = empty_table,
     devices = empty_table, sessions = empty_table, revoked_tokens = empty_table,
     addresses = empty_table, guest_sessions = empty_table, roles = empty_table,
     user_roles = empty_table, permissions = empty_table, role_permissions = empty_table,
     languages = empty_table, categories = empty_table, category_translations = empty_table,
     authors = empty_table, publishers = empty_table, books = empty_table,
     book_translations = empty_table, book_authors = empty_table, book_specs = empty_table,
     book_categories = empty_table, book_badges = empty_table,
     variants = empty_table, snapshots = empty_table, book_assets = empty_table, carts = empty_table,
     cart_items = empty_table, wishlists = empty_table, wishlist_items = empty_table,
     orders = empty_table, order_items = empty_table, order_addresses = empty_table,
     payment_transactions = empty_table, payment_intents = empty_table, suppliers = empty_table,
     purchase_orders = empty_table, purchase_order_items = empty_table,
     stock_imports = empty_table, stock_import_items = empty_table,
     user_events = empty_table, audit_logs = empty_table, email_outbox = empty_table,
     webhook_inbox = empty_table, available_counters = (\<lambda>_. None)\<rparr>"

type_synonym 'a action = "(db, 'a) eff"

section \<open>Lookups the components share\<close>

definition variant_of :: "db \<Rightarrow> int \<Rightarrow> variant_row option" where
  "variant_of d i = find_row (\<lambda>v. bv_id v = i) (variants d)"

definition order_of :: "db \<Rightarrow> int \<Rightarrow> order_row option" where
  "order_of d i = find_row (\<lambda>r. ord_id r = i) (orders d)"

definition user_of :: "db \<Rightarrow> int \<Rightarrow> user_row option" where
  "user_of d i = find_row (\<lambda>u. usr_id u = i) (users d)"

definition items_of_order :: "db \<Rightarrow> int \<Rightarrow> order_item_row list" where
  "items_of_order d i = select_rows (\<lambda>x. oi_order_id x = i) (order_items d)"

definition snapshot_of :: "db \<Rightarrow> int \<Rightarrow> snapshot_row option" where
  "snapshot_of d i = find_row (\<lambda>s. bvs_id s = i) (snapshots d)"

text \<open>
  Interpretations of the table interface for the tables the services update by identifier.
\<close>

interpretation variant_store: row_store "\<lambda>i d. variant_of d i"
  "\<lambda>i f d. d\<lparr>variants := map_rows (\<lambda>v. bv_id v = i) f (variants d)\<rparr>"
  "\<lambda>f. \<forall>v. bv_id (f v) = bv_id v"
  by unfold_locales (simp_all add: variant_of_def find_key_modify)

interpretation order_store: row_store "\<lambda>i d. order_of d i"
  "\<lambda>i f d. d\<lparr>orders := map_rows (\<lambda>r. ord_id r = i) f (orders d)\<rparr>"
  "\<lambda>f. \<forall>r. ord_id (f r) = ord_id r"
  by unfold_locales (simp_all add: order_of_def find_key_modify)

interpretation user_store: row_store "\<lambda>i d. user_of d i"
  "\<lambda>i f d. d\<lparr>users := map_rows (\<lambda>u. usr_id u = i) f (users d)\<rparr>"
  "\<lambda>f. \<forall>u. usr_id (f u) = usr_id u"
  by unfold_locales (simp_all add: user_of_def find_key_modify)

end
