(* ===== verification/Js_Number.thy ===== *)
theory Js_Number
  imports Prelude
begin

text \<open>
  Numbers of the language. A money value is a decimal column of the database and a double in the
  services: \<open>f64\<close> rounds a rational to the nearest double (ties to even, 53 bits of mantissa), and
  each arithmetic operation of the code is the exact operation followed by \<open>f64\<close>. The magnitudes of
  the program (amounts below \<open>10\<^sup>1\<^sup>6\<close>, at least one cent) stay far from the overflow and subnormal
  ranges of doubles, which \<open>f64\<close> leaves out. \<open>f64_of_int\<close> is the fact the components use:
  arithmetic on whole amounts up to \<open>2\<^sup>5\<^sup>3\<close> is exact, as VND amounts are.
\<close>

fun bit_length :: "nat \<Rightarrow> nat" where
  "bit_length n = (if n = 0 then 0 else Suc (bit_length (n div 2)))"

declare bit_length.simps [simp del]

definition round_half_even :: "rat \<Rightarrow> int" where
  "round_half_even x =
     (let n = \<lfloor>x\<rfloor>; d = x - of_int n
      in if d < 1 / 2 then n else if d > 1 / 2 then n + 1 else if even n then n else n + 1)"

definition scale2 :: "int \<Rightarrow> rat" where
  "scale2 e = (if 0 \<le> e then 2 ^ nat e else 1 / 2 ^ nat (- e))"

text \<open>The weight of the last bit of the double next to \<open>n / d\<close>.\<close>

definition ulp_exponent :: "nat \<Rightarrow> nat \<Rightarrow> int" where
  "ulp_exponent n d =
     (let k = int (bit_length n) - int (bit_length d)
      in (if scale2 k * of_nat d \<le> of_nat n then k else k - 1) - 52)"

definition f64 :: "rat \<Rightarrow> rat" where
  "f64 x =
     (if x = 0 then 0
      else (let (n, d) = quotient_of x; e = ulp_exponent (nat \<bar>n\<bar>) (nat d)
            in of_int (round_half_even (x / scale2 e)) * scale2 e))"

definition js_add :: "rat \<Rightarrow> rat \<Rightarrow> rat" where "js_add x y = f64 (x + y)"
definition js_sub :: "rat \<Rightarrow> rat \<Rightarrow> rat" where "js_sub x y = f64 (x - y)"
definition js_mul :: "rat \<Rightarrow> rat \<Rightarrow> rat" where "js_mul x y = f64 (x * y)"
definition js_div :: "rat \<Rightarrow> rat \<Rightarrow> rat" where "js_div x y = f64 (x / y)"

text \<open>\<open>Number(v)\<close> of a decimal column that may be NULL.\<close>

definition number_of_decimal :: "rat option \<Rightarrow> rat" where
  "number_of_decimal v = (case v of None \<Rightarrow> 0 | Some d \<Rightarrow> f64 d)"

definition js_max :: "int \<Rightarrow> int \<Rightarrow> int" where "js_max x y = (if x < y then y else x)"
definition js_min :: "int \<Rightarrow> int \<Rightarrow> int" where "js_min x y = (if y < x then y else x)"

section \<open>Whole amounts are exact\<close>

lemma bit_length_bounds: "n < 2 ^ bit_length n \<and> (0 < n \<longrightarrow> 2 ^ (bit_length n - 1) \<le> n)"
proof (induction n rule: bit_length.induct)
  case (1 n)
  show ?case
  proof (cases "n = 0")
    case True
    then show ?thesis by (simp add: bit_length.simps)
  next
    case False
    with 1 have ih: "n div 2 < 2 ^ bit_length (n div 2)"
      "0 < n div 2 \<longrightarrow> 2 ^ (bit_length (n div 2) - 1) \<le> n div 2" by auto
    have len: "bit_length n = Suc (bit_length (n div 2))"
      using False by (simp add: bit_length.simps)
    have upper: "n < 2 ^ bit_length n"
      using ih(1) by (simp add: len)
    have "2 ^ (bit_length n - 1) \<le> n"
    proof (cases "n div 2 = 0")
      case True
      with False show ?thesis by (simp add: len bit_length.simps)
    next
      case half: False
      then obtain m where m: "bit_length (n div 2) = Suc m"
        by (metis bit_length.simps)
      with half ih(2) have "2 ^ m \<le> n div 2" by simp
      then have "2 * 2 ^ m \<le> n" by linarith
      then show ?thesis by (simp add: len m)
    qed
    with upper show ?thesis by simp
  qed
qed

lemma bit_length_0 [simp]: "bit_length 0 = 0"
  by (simp add: bit_length.simps)

lemma bit_length_1 [simp]: "bit_length (Suc 0) = 1"
  by (simp add: bit_length.simps)

lemma bit_length_le:
  assumes "n < 2 ^ k"
  shows "bit_length n \<le> k"
proof (rule ccontr)
  assume long: "\<not> bit_length n \<le> k"
  then have "n \<noteq> 0" by (intro notI) simp
  have "(2::nat) ^ k \<le> 2 ^ (bit_length n - 1)"
    using long by (intro power_increasing) auto
  also have "\<dots> \<le> n" using \<open>n \<noteq> 0\<close> bit_length_bounds [of n] by simp
  finally show False using assms by simp
qed

lemma round_half_even_of_int [simp]: "round_half_even (of_int n) = n"
  by (simp add: round_half_even_def)

lemma round_scale2_exact:
  assumes "e \<le> 0"
  shows "of_int (round_half_even (of_int n / scale2 e)) * scale2 e = of_int n"
proof -
  have scale: "scale2 e = 1 / 2 ^ nat (- e)" using assms by (auto simp: scale2_def)
  then have "of_int n / scale2 e = of_int (n * 2 ^ nat (- e))" by simp
  then have "round_half_even (of_int n / scale2 e) = n * 2 ^ nat (- e)"
    by (simp only: round_half_even_of_int)
  then show ?thesis by (simp add: scale)
qed

lemma bit_length_top: "bit_length (2 ^ 53) = 54"
  by (simp add: bit_length.simps)

lemma f64_of_int:
  assumes "\<bar>n\<bar> \<le> 2 ^ 53"
  shows "f64 (of_int n) = of_int n"
proof (cases "n = 0")
  case True
  then show ?thesis by (simp add: f64_def)
next
  case nonzero: False
  define m where "m = nat \<bar>n\<bar>"
  define e where "e = ulp_exponent m 1"
  have unfold: "f64 (of_int n) = of_int (round_half_even (of_int n / scale2 e)) * scale2 e"
    using nonzero by (simp add: f64_def Let_def quotient_of_int e_def m_def)
  show ?thesis
  proof (cases "m < 2 ^ 53")
    case True
    then have "bit_length m \<le> 53" by (rule bit_length_le)
    then have "e \<le> 0" by (simp add: e_def ulp_exponent_def Let_def)
    then show ?thesis by (simp add: unfold round_scale2_exact)
  next
    case False
    then have "2 ^ 53 \<le> m" by simp
    moreover have "m \<le> 2 ^ 53" using assms by (simp add: m_def nat_le_iff)
    ultimately have m: "m = 2 ^ 53" by (rule order_antisym [rotated])
    have "e = 1"
      unfolding e_def m ulp_exponent_def bit_length_top by (simp add: scale2_def)
    then have scale: "scale2 e = 2" by (simp add: scale2_def)
    have "\<bar>n\<bar> = 2 ^ 53" using m by (simp add: m_def)
    then have "n = 2 ^ 53 \<or> n = - (2 ^ 53)" by (auto simp: abs_if split: if_splits)
    then have "of_int n / (2::rat) = of_int (n div 2)" by auto
    then have "round_half_even (of_int n / scale2 e) = n div 2"
      unfolding scale by (simp only: round_half_even_of_int)
    moreover have "n = 2 * (n div 2)" using \<open>n = 2 ^ 53 \<or> n = - (2 ^ 53)\<close> by auto
    then have "of_int n = (of_int (2 * (n div 2)) :: rat)" by (rule arg_cong)
    ultimately show ?thesis unfolding unfold scale by simp
  qed
qed

lemma js_add_of_int [simp]:
  "\<bar>a + b\<bar> \<le> 2 ^ 53 \<Longrightarrow> js_add (of_int a) (of_int b) = of_int (a + b)"
  unfolding js_add_def of_int_add [symmetric] by (rule f64_of_int)

lemma js_sub_of_int [simp]:
  "\<bar>a - b\<bar> \<le> 2 ^ 53 \<Longrightarrow> js_sub (of_int a) (of_int b) = of_int (a - b)"
  unfolding js_sub_def of_int_diff [symmetric] by (rule f64_of_int)

lemma js_mul_of_int [simp]:
  "\<bar>a * b\<bar> \<le> 2 ^ 53 \<Longrightarrow> js_mul (of_int a) (of_int b) = of_int (a * b)"
  unfolding js_mul_def of_int_mult [symmetric] by (rule f64_of_int)

end
