(* ===== verification/Inventory.thy ===== *)
theory Inventory
  imports Schema Js_Number
begin

text \<open>
  Book variants and their stock: \<open>src/src/modules/book/variant\<close> (\<open>BookVariantRepository\<close>,
  \<open>BookVariantService\<close>), \<open>src/src/modules/book/snapshot\<close> (the price snapshots of a variant), the raw
  stock updates of \<open>src/src/modules/order/repository/order.repository.ts\<close> and the stock operations of
  \<open>src/src/modules/admin/book-variant\<close>. A \<open>Map<string, number>\<close> from the decimal form of a variant
  identifier to a quantity is an association list over identifiers with distinct keys, in insertion
  order. The locale \<open>stock_ledger\<close> states what a settlement of a paid order promises its clients.
\<close>

type_synonym variant_quantities = "(int \<times> int) list"

record checkout_item =
  item_variant_id :: int
  item_quantity :: int

section \<open>Variants\<close>

definition find_variants_by_ids :: "int list \<Rightarrow> db \<Rightarrow> variant_row list" where
  [repo_defs]: "find_variants_by_ids ids d = select_rows (\<lambda>v. bv_id v \<in> set ids) (variants d)"

definition find_variant_inventory :: "int \<Rightarrow> db \<Rightarrow> variant_row option" where
  [repo_defs]: "find_variant_inventory i d = variant_of d i"

text \<open>
  The raw update of \<open>updateReservedByIds\<close>: the first \<open>WHEN\<close> of a variant applies, a variant without
  enough free stock gets \<open>+ 0\<close>. Joining an empty list raises a \<open>TypeError\<close> in the client.
\<close>

definition case_quantity :: "checkout_item list \<Rightarrow> int \<Rightarrow> int option" where
  "case_quantity payload i =
     map_option item_quantity (List.find (\<lambda>p. item_variant_id p = i) payload)"

definition reserve_variant :: "checkout_item list \<Rightarrow> variant_row \<Rightarrow> variant_row" where
  "reserve_variant payload v =
     (case case_quantity payload (bv_id v) of
        None \<Rightarrow> v
      | Some q \<Rightarrow>
          v\<lparr>bv_reserved := bv_reserved v + (if bv_stock v - bv_reserved v \<ge> q then q else 0)\<rparr>)"

definition update_reserved_by_ids :: "checkout_item list \<Rightarrow> int action" where
  [repo_defs]: "update_reserved_by_ids payload d =
     (if payload = [] then (Inl TypeError, d)
      else let ids = map item_variant_id payload in
        (Inr (count_rows (\<lambda>v. bv_id v \<in> set ids) (variants d)),
         d\<lparr>variants := map_rows (\<lambda>v. bv_id v \<in> set ids) (reserve_variant payload) (variants d)\<rparr>))"

definition update_variant_inventory :: "int \<Rightarrow> int \<Rightarrow> rat \<Rightarrow> unit action" where
  [repo_defs]: "update_variant_inventory i stock price d =
     (case variant_of d i of
        None \<Rightarrow> (Inl P2025, d)
      | Some _ \<Rightarrow>
          (Inr (), d\<lparr>variants := map_rows (\<lambda>v. bv_id v = i)
             (\<lambda>v. v\<lparr>bv_stock := stock, bv_price := Some price\<rparr>) (variants d)\<rparr>))"

definition update_reserved_by_id :: "int \<Rightarrow> int \<Rightarrow> unit action" where
  [repo_defs]: "update_reserved_by_id i quantity d =
     (case variant_of d i of
        None \<Rightarrow> (Inl P2025, d)
      | Some _ \<Rightarrow>
          (Inr (), d\<lparr>variants := map_rows (\<lambda>v. bv_id v = i)
             (\<lambda>v. v\<lparr>bv_reserved := bv_reserved v + quantity\<rparr>) (variants d)\<rparr>))"

text \<open>\<open>applyStockImport\<close>: a missing variant is silently skipped; a NULL price becomes 0.\<close>

definition apply_stock_import :: "int \<Rightarrow> int \<Rightarrow> unit action" where
  [service_defs]: "apply_stock_import i quantity d =
     (case find_variant_inventory i d of
        None \<Rightarrow> (Inr (), d)
      | Some v \<Rightarrow> update_variant_inventory i (bv_stock v + quantity) (number_of_decimal (bv_price v)) d)"

section \<open>Settlement of an order\<close>

definition missing_quantity :: "int list \<Rightarrow> variant_quantities \<Rightarrow> bool" where
  "missing_quantity keys m \<longleftrightarrow>
     (\<exists>k\<in>set keys. case map_of m k of None \<Rightarrow> True | Some q \<Rightarrow> q = 0)"

definition shift_stock :: "int \<Rightarrow> variant_quantities \<Rightarrow> variant_row \<Rightarrow> variant_row" where
  "shift_stock sign m v =
     (case map_of m (bv_id v) of
        None \<Rightarrow> v
      | Some q \<Rightarrow> v\<lparr>bv_stock := bv_stock v + sign * q, bv_reserved := bv_reserved v + sign * q\<rparr>)"

definition decrement_variants_stock :: "int list \<Rightarrow> variant_quantities \<Rightarrow> int action" where
  [repo_defs]: "decrement_variants_stock keys m d =
     (if keys = [] then (Inr 0, d)
      else if missing_quantity keys m then (Inl (JsError ''Missing quantity for variant id''), d)
      else (Inr (count_rows (\<lambda>v. bv_id v \<in> set keys) (variants d)),
            d\<lparr>variants := map_rows (\<lambda>v. bv_id v \<in> set keys) (shift_stock (- 1) m) (variants d)\<rparr>))"

definition increment_variants_stock :: "int list \<Rightarrow> variant_quantities \<Rightarrow> int action" where
  [repo_defs]: "increment_variants_stock keys m d =
     (if keys = [] then (Inr 0, d)
      else if missing_quantity keys m then (Inl (JsError ''Missing quantity for variant id''), d)
      else (Inr (count_rows (\<lambda>v. bv_id v \<in> set keys) (variants d)),
            d\<lparr>variants := map_rows (\<lambda>v. bv_id v \<in> set keys) (shift_stock 1 m) (variants d)\<rparr>))"

section \<open>Administration of variants\<close>

definition increment_stock_row :: "int \<times> int \<Rightarrow> unit action" where
  "increment_stock_row item d =
     (case item of (i, q) \<Rightarrow>
        (case variant_of d i of
           None \<Rightarrow> (Inl P2025, d)
         | Some _ \<Rightarrow>
             (Inr (), d\<lparr>variants := map_rows (\<lambda>v. bv_id v = i)
                (\<lambda>v. v\<lparr>bv_stock := bv_stock v + q\<rparr>) (variants d)\<rparr>)))"

definition increment_stock_by_id :: "(int \<times> int) list \<Rightarrow> unit list action" where
  [repo_defs]: "increment_stock_by_id items = promise_all_list (map increment_stock_row items)"

definition update_price_variant :: "int \<Rightarrow> rat \<Rightarrow> variant_row action" where
  [repo_defs]: "update_price_variant i price d =
     (case variant_of d i of
        None \<Rightarrow> (Inl P2025, d)
      | Some v \<Rightarrow>
          (Inr (v\<lparr>bv_price := Some price\<rparr>),
           d\<lparr>variants := map_rows (\<lambda>v. bv_id v = i) (\<lambda>v. v\<lparr>bv_price := Some price\<rparr>) (variants d)\<rparr>))"

record create_variant_input =
  cv_format :: book_format
  cv_isbn :: string
  cv_edition :: int
  cv_publication_year :: int

definition variant_clash :: "int \<Rightarrow> create_variant_input \<Rightarrow> variant_row \<Rightarrow> bool" where
  "variant_clash book item v \<longleftrightarrow>
     bv_isbn v = cv_isbn item
     \<or> bv_book_id v = book \<and> bv_format v = cv_format item \<and> bv_edition v = cv_edition item"

definition new_variant :: "int \<Rightarrow> create_variant_input \<Rightarrow> int \<Rightarrow> variant_row" where
  "new_variant book item i =
     \<lparr>bv_id = i, bv_book_id = book, bv_format = cv_format item, bv_isbn = cv_isbn item,
      bv_price = None, bv_currency = VND, bv_stock = 0, bv_available = 0, bv_is_active = True,
      bv_reserved = 0, bv_edition = cv_edition item,
      bv_publication_year = Some (cv_publication_year item), bv_supplier_id = None\<rparr>"

text \<open>\<open>createMany\<close> with \<open>skipDuplicates\<close>: a row that breaks a unique index is left out.\<close>

primrec create_variants_loop :: "int \<Rightarrow> create_variant_input list \<Rightarrow> int \<Rightarrow> int action" where
  "create_variants_loop book [] n d = (Inr n, d)"
| "create_variants_loop book (item # items) n d =
     (if \<exists>v\<in>set (rows (variants d)). variant_clash book item v
      then create_variants_loop book items n d
      else create_variants_loop book items (n + 1)
             (d\<lparr>variants := insert_row (new_variant book item) (variants d)\<rparr>))"

definition create_variants :: "int \<Rightarrow> create_variant_input list \<Rightarrow> int action" where
  [repo_defs]: "create_variants book items d =
     (if items = [] then (Inr 0, d) else create_variants_loop book items 0 d)"

section \<open>Snapshots\<close>

record snapshot_input =
  sn_content_hash :: string
  sn_variant_id :: int
  sn_price :: rat
  sn_format :: book_format
  sn_isbn :: "string option"

definition new_snapshot :: "snapshot_input \<Rightarrow> int \<Rightarrow> snapshot_row" where
  "new_snapshot i n =
     \<lparr>bvs_id = n, bvs_variant_id = sn_variant_id i, bvs_content_hash = Some (sn_content_hash i),
      bvs_price = sn_price i, bvs_format = sn_format i, bvs_isbn = sn_isbn i\<rparr>"

definition has_hash :: "string \<Rightarrow> snapshot_row \<Rightarrow> bool" where
  "has_hash h s \<longleftrightarrow> bvs_content_hash s = Some h"

primrec create_snapshots_loop :: "snapshot_input list \<Rightarrow> int \<Rightarrow> int action" where
  "create_snapshots_loop [] n d = (Inr n, d)"
| "create_snapshots_loop (i # is) n d =
     (if \<exists>s\<in>set (rows (snapshots d)). has_hash (sn_content_hash i) s
      then create_snapshots_loop is n d
      else create_snapshots_loop is (n + 1)
             (d\<lparr>snapshots := insert_row (new_snapshot i) (snapshots d)\<rparr>))"

definition create_many_snapshots :: "snapshot_input list \<Rightarrow> int action" where
  [repo_defs]: "create_many_snapshots is d = create_snapshots_loop is 0 d"

definition find_snapshots_by_hashes :: "string list \<Rightarrow> db \<Rightarrow> snapshot_row list" where
  [repo_defs]: "find_snapshots_by_hashes hs d =
     select_rows (\<lambda>s. \<exists>h\<in>set hs. bvs_content_hash s = Some h) (snapshots d)"

definition find_snapshot_by_hash :: "string \<Rightarrow> db \<Rightarrow> snapshot_row option" where
  [repo_defs]: "find_snapshot_by_hash h d = find_row (has_hash h) (snapshots d)"

definition upsert_snapshot_by_hash :: "snapshot_input \<Rightarrow> snapshot_row action" where
  [repo_defs]: "upsert_snapshot_by_hash i d =
     (case find_snapshot_by_hash (sn_content_hash i) d of
        Some s \<Rightarrow> (Inr s, d)
      | None \<Rightarrow>
          (Inr (new_snapshot i (serial (snapshots d))),
           d\<lparr>snapshots := insert_row (new_snapshot i) (snapshots d)\<rparr>))"

definition find_snapshot_ids_by_variant_ids :: "int list \<Rightarrow> db \<Rightarrow> int list" where
  [repo_defs]: "find_snapshot_ids_by_variant_ids ids d =
     map bvs_id (select_rows (\<lambda>s. bvs_variant_id s \<in> set ids) (snapshots d))"

definition find_variant_ids_by_snapshot_ids :: "int list \<Rightarrow> db \<Rightarrow> (int \<times> int) list" where
  [repo_defs]: "find_variant_ids_by_snapshot_ids ids d =
     map (\<lambda>s. (bvs_id s, bvs_variant_id s)) (select_rows (\<lambda>s. bvs_id s \<in> set ids) (snapshots d))"

section \<open>What the updates do to a variant\<close>

lemma variant_of_map_rows:
  assumes "\<And>v. bv_id (f v) = bv_id v"
  shows "variant_of (d\<lparr>variants := map_rows P f (variants d)\<rparr>) i =
           map_option (\<lambda>v. if P v then f v else v) (variant_of d i)"
  using assms by (simp add: variant_of_def find_row_map_rows_same)

lemma variant_of_id: "variant_of d i = Some v \<Longrightarrow> bv_id v = i"
  by (auto simp: variant_of_def dest: find_row_SomeD)

lemma variant_of_in: "variant_of d i = Some v \<Longrightarrow> v \<in> set (rows (variants d))"
  by (auto simp: variant_of_def dest: find_row_SomeD)

lemma reserve_variant_keeps [simp]:
  "bv_id (reserve_variant p v) = bv_id v" "bv_stock (reserve_variant p v) = bv_stock v"
  "bv_price (reserve_variant p v) = bv_price v"
  by (simp_all add: reserve_variant_def split: option.splits)

lemma shift_stock_keeps [simp]:
  "bv_id (shift_stock sg m v) = bv_id v" "bv_price (shift_stock sg m v) = bv_price v"
  by (simp_all add: shift_stock_def split: option.splits)

definition qty :: "variant_quantities \<Rightarrow> int \<Rightarrow> int" where
  "qty m k = (case map_of m k of None \<Rightarrow> 0 | Some q \<Rightarrow> q)"

lemma shift_stock_qty:
  "shift_stock sg m v =
     v\<lparr>bv_stock := bv_stock v + sg * qty m (bv_id v), bv_reserved := bv_reserved v + sg * qty m (bv_id v)\<rparr>"
  by (auto simp: shift_stock_def qty_def split: option.splits)

text \<open>A map is settled when every key has a quantity, which the code demands to be nonzero.\<close>

definition settleable :: "variant_quantities \<Rightarrow> bool" where
  "settleable m \<longleftrightarrow> \<not> missing_quantity (map fst m) m"

lemma qty_outside: "k \<notin> fst ` set m \<Longrightarrow> qty m k = 0"
  by (force simp: qty_def dest: map_of_SomeD split: option.split)

lemma decrement_result:
  assumes "settleable m"
  shows "fst (decrement_variants_stock (map fst m) m d) =
           Inr (count_rows (\<lambda>v. bv_id v \<in> set (map fst m)) (variants d))"
  using assms by (auto simp: decrement_variants_stock_def settleable_def count_rows_def)

lemma variant_of_decrement:
  assumes "settleable m"
  shows "variant_of (snd (decrement_variants_stock (map fst m) m d)) i =
           map_option (shift_stock (- 1) m) (variant_of d i)"
proof (cases "m = []")
  case True
  then show ?thesis
    by (cases "variant_of d i") (simp_all add: decrement_variants_stock_def shift_stock_def)
next
  case False
  have "shift_stock (- 1) m v = v" if "bv_id v \<notin> fst ` set m" for v
    using qty_outside [OF that] by (simp add: shift_stock_qty)
  with False assms show ?thesis
    by (cases "variant_of d i")
       (simp_all add: decrement_variants_stock_def settleable_def variant_of_map_rows)
qed

lemma variant_of_increment:
  assumes "settleable m"
  shows "variant_of (snd (increment_variants_stock (map fst m) m d)) i =
           map_option (shift_stock 1 m) (variant_of d i)"
proof (cases "m = []")
  case True
  then show ?thesis
    by (cases "variant_of d i") (simp_all add: increment_variants_stock_def shift_stock_def)
next
  case False
  have "shift_stock 1 m v = v" if "bv_id v \<notin> fst ` set m" for v
    using qty_outside [OF that] by (simp add: shift_stock_qty)
  with False assms show ?thesis
    by (cases "variant_of d i")
       (simp_all add: increment_variants_stock_def settleable_def variant_of_map_rows)
qed

lemma decrement_frame [row_frame]:
  "orders (snd (decrement_variants_stock ks m d)) = orders d"
  "order_items (snd (decrement_variants_stock ks m d)) = order_items d"
  "snapshots (snd (decrement_variants_stock ks m d)) = snapshots d"
  "payment_intents (snd (decrement_variants_stock ks m d)) = payment_intents d"
  "payment_transactions (snd (decrement_variants_stock ks m d)) = payment_transactions d"
  "webhook_inbox (snd (decrement_variants_stock ks m d)) = webhook_inbox d"
  "email_outbox (snd (decrement_variants_stock ks m d)) = email_outbox d"
  "users (snd (decrement_variants_stock ks m d)) = users d"
  by (simp_all add: decrement_variants_stock_def Let_def)

section \<open>The interface of the stock\<close>

text \<open>
  \<open>settle m\<close> takes the quantities of a paid order out of the stock and out of the reservations;
  \<open>restore m\<close> puts them back.
\<close>

locale stock_ledger =
  fixes stock_of :: "'s \<Rightarrow> int \<Rightarrow> int option"
    and reserved_of :: "'s \<Rightarrow> int \<Rightarrow> int option"
    and settle :: "variant_quantities \<Rightarrow> 's \<Rightarrow> 's"
    and restore :: "variant_quantities \<Rightarrow> 's \<Rightarrow> 's"
    and valid :: "variant_quantities \<Rightarrow> bool"
  assumes settle_stock:
      "valid m \<Longrightarrow> stock_of (settle m s) k = map_option (\<lambda>n. n - qty m k) (stock_of s k)"
    and settle_reserved:
      "valid m \<Longrightarrow> reserved_of (settle m s) k = map_option (\<lambda>n. n - qty m k) (reserved_of s k)"
    and restore_stock:
      "valid m \<Longrightarrow> stock_of (restore m s) k = map_option (\<lambda>n. n + qty m k) (stock_of s k)"
    and restore_reserved:
      "valid m \<Longrightarrow> reserved_of (restore m s) k = map_option (\<lambda>n. n + qty m k) (reserved_of s k)"
begin

definition free_stock :: "'s \<Rightarrow> int \<Rightarrow> int option" where
  "free_stock s k =
     (case (stock_of s k, reserved_of s k) of (Some a, Some b) \<Rightarrow> Some (a - b) | _ \<Rightarrow> None)"

lemma restore_settle:
  assumes "valid m"
  shows "stock_of (restore m (settle m s)) k = stock_of s k"
    and "reserved_of (restore m (settle m s)) k = reserved_of s k"
  using assms
  by (simp_all add: settle_stock settle_reserved restore_stock restore_reserved
        option.map_comp comp_def option.map_ident)

text \<open>A settlement never touches the free stock: it turns a reservation into a sale.\<close>

lemma settle_free: "valid m \<Longrightarrow> free_stock (settle m s) k = free_stock s k"
  by (simp add: free_stock_def settle_stock settle_reserved split: option.splits)

lemma settle_twice:
  assumes "valid m" and "valid m'"
  shows "stock_of (settle m' (settle m s)) k =
           map_option (\<lambda>n. n - qty m k - qty m' k) (stock_of s k)"
  using assms by (simp add: settle_stock option.map_comp comp_def)

lemma settle_order_irrelevant:
  assumes "valid m" and "valid m'"
  shows "stock_of (settle m' (settle m s)) k = stock_of (settle m (settle m' s)) k"
  using assms by (simp add: settle_twice algebra_simps)

end

definition stock_of :: "db \<Rightarrow> int \<Rightarrow> int option" where
  "stock_of d i = map_option bv_stock (variant_of d i)"

definition reserved_of :: "db \<Rightarrow> int \<Rightarrow> int option" where
  "reserved_of d i = map_option bv_reserved (variant_of d i)"

definition settle_variants :: "variant_quantities \<Rightarrow> db \<Rightarrow> db" where
  "settle_variants m d = snd (decrement_variants_stock (map fst m) m d)"

definition restore_variants :: "variant_quantities \<Rightarrow> db \<Rightarrow> db" where
  "restore_variants m d = snd (increment_variants_stock (map fst m) m d)"

interpretation stock: stock_ledger stock_of reserved_of settle_variants restore_variants settleable
proof
  fix m d k
  assume m: "settleable m"
  have id: "variant_of d k = Some v \<Longrightarrow> bv_id v = k" for d v by (rule variant_of_id)
  show "stock_of (settle_variants m d) k = map_option (\<lambda>n. n - qty m k) (stock_of d k)"
    and "reserved_of (settle_variants m d) k = map_option (\<lambda>n. n - qty m k) (reserved_of d k)"
    and "stock_of (restore_variants m d) k = map_option (\<lambda>n. n + qty m k) (stock_of d k)"
    and "reserved_of (restore_variants m d) k = map_option (\<lambda>n. n + qty m k) (reserved_of d k)"
    using m id [of d]
    by (cases "variant_of d k"; simp add: stock_of_def reserved_of_def settle_variants_def
          restore_variants_def variant_of_decrement variant_of_increment shift_stock_qty)+
qed

section \<open>Reservations\<close>

definition stock_bounded :: "db \<Rightarrow> bool" where
  "stock_bounded d \<longleftrightarrow> (\<forall>v\<in>set (rows (variants d)). bv_reserved v \<le> bv_stock v)"

lemma stock_boundedD: "stock_bounded d \<Longrightarrow> v \<in> set (rows (variants d)) \<Longrightarrow> bv_reserved v \<le> bv_stock v"
  by (simp add: stock_bounded_def)

lemma reserve_variant_bounded:
  "bv_reserved v \<le> bv_stock v \<Longrightarrow> bv_reserved (reserve_variant p v) \<le> bv_stock v"
  by (simp add: reserve_variant_def split: option.splits)

lemma variant_of_reserve:
  assumes "payload \<noteq> []"
  shows "variant_of (snd (update_reserved_by_ids payload d)) i =
           map_option (reserve_variant payload) (variant_of d i)"
proof -
  have "reserve_variant payload v = v" if "bv_id v \<notin> item_variant_id ` set payload" for v
    using that by (force simp: reserve_variant_def case_quantity_def find_None_iff split: option.split
        dest: find_Some_in)
  with assms show ?thesis
    by (cases "variant_of d i") (simp_all add: update_reserved_by_ids_def Let_def variant_of_map_rows)
qed

lemma reserve_variant_qty:
  "reserve_variant p v =
     (case case_quantity p (bv_id v) of
        None \<Rightarrow> v
      | Some q \<Rightarrow> if q \<le> bv_stock v - bv_reserved v then v\<lparr>bv_reserved := bv_reserved v + q\<rparr> else v)"
  by (simp add: reserve_variant_def split: option.split)

section \<open>Properties\<close>

text \<open>
  C9: a reservation never promises more copies than there are: whatever quantities are asked for,
  \<open>updateReservedByIds\<close> keeps \<open>reserved \<le> stock\<close> for every variant.
\<close>
theorem reservation_bounded:
  assumes "stock_bounded d"
  shows "stock_bounded (snd (update_reserved_by_ids payload d))"
  using assms reserve_variant_bounded
  by (auto simp: stock_bounded_def update_reserved_by_ids_def Let_def)

definition sample_variant :: "int \<Rightarrow> int \<Rightarrow> int \<Rightarrow> variant_row" where
  "sample_variant i stock reserved =
     \<lparr>bv_id = i, bv_book_id = 10, bv_format = PAPERBACK, bv_isbn = ''9780132350884'',
      bv_price = Some 50000, bv_currency = VND, bv_stock = stock, bv_available = 0,
      bv_is_active = True, bv_reserved = reserved, bv_edition = 1, bv_publication_year = None, bv_supplier_id = None\<rparr>"

definition sample_stock :: db where
  "sample_stock = empty_db\<lparr>variants := \<lparr>rows = [sample_variant 1 5 2, sample_variant 2 9 0], serial = 3\<rparr>\<rparr>"

definition sample_payload :: "checkout_item list" where
  "sample_payload =
     [\<lparr>item_variant_id = 1, item_quantity = 4\<rparr>, \<lparr>item_variant_id = 2, item_quantity = 3\<rparr>]"

lemma sample_stock_variants [simp]:
  "variant_of sample_stock 1 = Some (sample_variant 1 5 2)"
  "variant_of sample_stock 2 = Some (sample_variant 2 9 0)"
  "stock_bounded sample_stock"
  by (simp_all add: variant_of_def find_row_def sample_stock_def stock_bounded_def sample_variant_def)

lemma reservation_bounded_witness:
  "stock_bounded (snd (update_reserved_by_ids sample_payload sample_stock))"
  by (rule reservation_bounded) simp

text \<open>
  A reservation that does not fit is dropped without an error: the query succeeds and the
  reserved count of the variant is unchanged, while one that fits is added in full.
\<close>
theorem reservation_all_or_nothing:
  assumes "case_quantity payload i = Some q" and "variant_of d i = Some v"
  shows "fst (update_reserved_by_ids payload d) \<noteq> Inl e
       \<and> reserved_of (snd (update_reserved_by_ids payload d)) i =
           Some (if q \<le> bv_stock v - bv_reserved v then bv_reserved v + q else bv_reserved v)
       \<and> stock_of (snd (update_reserved_by_ids payload d)) i = Some (bv_stock v)"
proof -
  have "payload \<noteq> []" using assms(1) by (auto simp: case_quantity_def)
  moreover have "bv_id v = i" using assms(2) by (rule variant_of_id)
  ultimately have "variant_of (snd (update_reserved_by_ids payload d)) i = Some (reserve_variant payload v)"
    and "fst (update_reserved_by_ids payload d) \<noteq> Inl e"
    using assms by (simp_all add: variant_of_reserve) (simp add: update_reserved_by_ids_def Let_def)
  with assms \<open>bv_id v = i\<close> show ?thesis
    by (simp add: reserved_of_def stock_of_def reserve_variant_qty)
qed

lemma reservation_all_or_nothing_witness:
  "fst (update_reserved_by_ids sample_payload sample_stock) \<noteq> Inl P2025
   \<and> reserved_of (snd (update_reserved_by_ids sample_payload sample_stock)) 1 = Some 2
   \<and> stock_of (snd (update_reserved_by_ids sample_payload sample_stock)) 1 = Some 5"
  using reservation_all_or_nothing [of sample_payload 1 4 sample_stock "sample_variant 1 5 2" P2025]
  by (simp add: case_quantity_def sample_payload_def sample_variant_def)

text \<open>
  Putting a settled order back restores the stock and the reservation of every variant:
  \<open>incrementVariantsStock\<close> undoes \<open>decrementVariantsStock\<close> on the same quantities.
\<close>
theorem settlement_roundtrip:
  assumes "\<not> missing_quantity (map fst m) m"
  shows "stock_of (snd (increment_variants_stock (map fst m) m
            (snd (decrement_variants_stock (map fst m) m d)))) k = stock_of d k
       \<and> reserved_of (snd (increment_variants_stock (map fst m) m
            (snd (decrement_variants_stock (map fst m) m d)))) k = reserved_of d k"
  using stock.restore_settle [of m d k] assms
  by (simp add: settleable_def settle_variants_def restore_variants_def)

lemma settlement_roundtrip_witness:
  "stock_of (snd (increment_variants_stock [1, 2] [(1, 2), (2, 3)]
      (snd (decrement_variants_stock [1, 2] [(1, 2), (2, 3)] sample_stock)))) 2 = Some 9
   \<and> stock_of (snd (decrement_variants_stock [1, 2] [(1, 2), (2, 3)] sample_stock)) 2 = Some 6"
proof
  show "stock_of (snd (increment_variants_stock [1, 2] [(1, 2), (2, 3)]
      (snd (decrement_variants_stock [1, 2] [(1, 2), (2, 3)] sample_stock)))) 2 = Some 9"
    using settlement_roundtrip [of "[(1, 2), (2, 3)]" sample_stock 2]
    by (simp add: missing_quantity_def stock_of_def sample_variant_def)
  show "stock_of (snd (decrement_variants_stock [1, 2] [(1, 2), (2, 3)] sample_stock)) 2 = Some 6"
    by (simp add: stock_of_def variant_of_def find_row_def decrement_variants_stock_def
        missing_quantity_def map_rows_def sample_stock_def sample_variant_def shift_stock_def)
qed

end
