(* ===== verification/Js_Text.thy ===== *)
theory Js_Text
  imports Js_Number "HOL-Library.Char_ord"
begin

text \<open>
  The string operations of the language that the program uses, on lists of 8-bit characters: \<open>trim\<close>,
  \<open>split\<close>, \<open>join\<close>, \<open>toLowerCase\<close>, \<open>toUpperCase\<close>, \<open>padStart\<close>, \<open>toString\<close> of a number and the
  form encoding of \<open>URLSearchParams\<close>. Case conversion covers the ASCII letters, the only letters of
  the headers, codes and addresses the program converts.
\<close>

section \<open>Characters\<close>

definition char_code :: "char \<Rightarrow> nat" where
  "char_code c = of_char c"

definition is_white :: "char \<Rightarrow> bool" where
  "is_white c \<longleftrightarrow> char_code c \<in> {9, 10, 11, 12, 13, 32, 160}"

definition is_digit :: "char \<Rightarrow> bool" where
  "is_digit c \<longleftrightarrow> 48 \<le> char_code c \<and> char_code c \<le> 57"

definition is_upper :: "char \<Rightarrow> bool" where
  "is_upper c \<longleftrightarrow> 65 \<le> char_code c \<and> char_code c \<le> 90"

definition is_lower :: "char \<Rightarrow> bool" where
  "is_lower c \<longleftrightarrow> 97 \<le> char_code c \<and> char_code c \<le> 122"

definition lower_char :: "char \<Rightarrow> char" where
  "lower_char c = (if is_upper c then char_of (char_code c + 32) else c)"

definition upper_char :: "char \<Rightarrow> char" where
  "upper_char c = (if is_lower c then char_of (char_code c - 32) else c)"

definition to_lower :: "string \<Rightarrow> string" where "to_lower s = map lower_char s"
definition to_upper :: "string \<Rightarrow> string" where "to_upper s = map upper_char s"

definition digit_char :: "nat \<Rightarrow> char" where
  "digit_char n = char_of (48 + n)"

definition digit_value :: "char \<Rightarrow> int" where
  "digit_value c = int (char_code c) - 48"

lemma char_code_char_of [simp]: "n < 256 \<Longrightarrow> char_code (char_of n) = n"
  by (simp add: char_code_def)

lemma is_digit_digit_char [simp]: "n < 10 \<Longrightarrow> is_digit (digit_char n)"
  by (simp add: is_digit_def digit_char_def)

lemma digit_value_digit_char [simp]: "n < 10 \<Longrightarrow> digit_value (digit_char n) = int n"
  by (simp add: digit_value_def digit_char_def)

section \<open>Strings\<close>

definition js_trim :: "string \<Rightarrow> string" where
  "js_trim s = rev (dropWhile is_white (rev (dropWhile is_white s)))"

definition js_truthy :: "string option \<Rightarrow> bool" where
  "js_truthy s \<longleftrightarrow> (case s of None \<Rightarrow> False | Some t \<Rightarrow> t \<noteq> [])"

fun js_split :: "char \<Rightarrow> string \<Rightarrow> string list" where
  "js_split sep [] = [[]]"
| "js_split sep (c # cs) =
     (if c = sep then [] # js_split sep cs
      else (case js_split sep cs of [] \<Rightarrow> [[c]] | w # ws \<Rightarrow> (c # w) # ws))"

fun js_join :: "string \<Rightarrow> string list \<Rightarrow> string" where
  "js_join sep [] = []"
| "js_join sep [w] = w"
| "js_join sep (w # ws) = w @ sep @ js_join sep ws"

definition pad_start :: "nat \<Rightarrow> char \<Rightarrow> string \<Rightarrow> string" where
  "pad_start n c s = replicate (n - length s) c @ s"

fun nat_string :: "nat \<Rightarrow> string" where
  "nat_string n = (if n < 10 then [digit_char n] else nat_string (n div 10) @ [digit_char (n mod 10)])"

declare nat_string.simps [simp del]

definition int_string :: "int \<Rightarrow> string" where
  "int_string i = (if i < 0 then CHR ''-'' # nat_string (nat (- i)) else nat_string (nat i))"

text \<open>
  \<open>toString\<close> of a number: the digits of a whole number, and otherwise the fewest decimals that read
  back as the same double (for magnitudes between \<open>10\<^sup>-\<^sup>6\<close> and \<open>10\<^sup>2\<^sup>1\<close>, where no exponent is written;
  at most 20 decimals are needed).
\<close>

fun decimals_needed :: "nat \<Rightarrow> nat \<Rightarrow> rat \<Rightarrow> nat" where
  "decimals_needed 0 k x = k"
| "decimals_needed (Suc fuel) k x =
     (if f64 (of_int (round_half_even (x * 10 ^ k)) / 10 ^ k) = x then k
      else decimals_needed fuel (Suc k) x)"

definition number_string :: "rat \<Rightarrow> string" where
  "number_string x =
     (if x = of_int \<lfloor>x\<rfloor> then int_string \<lfloor>x\<rfloor>
      else let k = decimals_needed 20 1 \<bar>x\<bar>; n = nat (round_half_even (\<bar>x\<bar> * 10 ^ k))
           in (if x < 0 then ''-'' else []) @ nat_string (n div 10 ^ k) @ ''.''
              @ pad_start k (CHR ''0'') (nat_string (n mod 10 ^ k)))"

text \<open>\<open>Number(x).toFixed(2)\<close> of a nonnegative number.\<close>

definition to_fixed2 :: "rat \<Rightarrow> string" where
  "to_fixed2 x =
     (let n = \<lfloor>x * 100 + 1 / 2\<rfloor>
      in int_string (n div 100) @ ''.'' @ pad_start 2 (CHR ''0'') (int_string (n mod 100)))"

text \<open>\<open>URLSearchParams.toString\<close>: unreserved characters stay, a space is \<open>+\<close>, the rest is percent-encoded.\<close>

definition hex_digit :: "nat \<Rightarrow> char" where
  "hex_digit n = (if n < 10 then char_of (48 + n) else char_of (55 + n))"

definition utf8_bytes :: "nat \<Rightarrow> nat list" where
  "utf8_bytes c = (if c < 128 then [c] else [192 + c div 64, 128 + c mod 64])"

definition percent_encode :: "char \<Rightarrow> string" where
  "percent_encode c =
     concat (map (\<lambda>b. [CHR ''%'', hex_digit (b div 16), hex_digit (b mod 16)]) (utf8_bytes (char_code c)))"

definition form_encode_char :: "char \<Rightarrow> string" where
  "form_encode_char c =
     (if is_digit c \<or> is_upper c \<or> is_lower c \<or> c \<in> {CHR ''*'', CHR ''-'', CHR ''.'', CHR ''_''} then [c]
      else if c = CHR '' '' then ''+'' else percent_encode c)"

text \<open>\<open>encodeURIComponent\<close>.\<close>

definition encode_uri_component :: "string \<Rightarrow> string" where
  "encode_uri_component s = concat (map (\<lambda>c.
     if is_digit c \<or> is_upper c \<or> is_lower c \<or> char_code c \<in> {33, 39, 40, 41, 42, 45, 46, 95, 126}
     then [c] else percent_encode c) s)"

definition form_encode :: "string \<Rightarrow> string" where
  "form_encode s = concat (map form_encode_char s)"

definition query_string :: "(string \<times> string) list \<Rightarrow> string" where
  "query_string kvs = js_join ''&'' (map (\<lambda>(k, v). form_encode k @ ''='' @ form_encode v) kvs)"

section \<open>Lemmas\<close>

lemma js_trim_Nil [simp]: "js_trim [] = []"
  by (simp add: js_trim_def)

lemma dropWhile_idem [simp]: "dropWhile P (dropWhile P xs) = dropWhile P xs"
  by (induction xs) auto

lemma dropWhile_rev_dropWhile:
  "dropWhile P (rev (dropWhile P (rev (dropWhile P xs)))) = rev (dropWhile P (rev (dropWhile P xs)))"
proof (induction xs)
  case Nil
  then show ?case by simp
next
  case (Cons x xs)
  show ?case
  proof (cases "P x")
    case True
    with Cons show ?thesis by simp
  next
    case False
    then have "dropWhile P (rev xs @ [x]) = dropWhile P (rev xs) @ [x]"
      by (induction "rev xs" arbitrary: xs) (auto simp: dropWhile_append)
    with False show ?thesis by simp
  qed
qed

lemma js_trim_idem [simp]: "js_trim (js_trim s) = js_trim s"
  by (simp add: js_trim_def dropWhile_rev_dropWhile)

lemma nat_string_digits: "c \<in> set (nat_string n) \<Longrightarrow> is_digit c"
proof (induction n rule: nat_string.induct)
  case (1 n)
  then show ?case
    by (cases "n < 10") (auto simp: nat_string.simps [of n])
qed

lemma nat_string_nonempty [simp]: "nat_string n \<noteq> []"
  by (simp add: nat_string.simps [of n])

definition digits_value :: "string \<Rightarrow> int" where
  "digits_value s = foldl (\<lambda>a c. a * 10 + digit_value c) 0 s"

lemma digits_value_nat_string: "digits_value (nat_string n) = int n"
proof (induction n rule: nat_string.induct)
  case (1 n)
  show ?case
  proof (cases "n < 10")
    case True
    then show ?thesis by (simp add: nat_string.simps [of n] digits_value_def)
  next
    case False
    with 1 have "digits_value (nat_string (n div 10)) = int (n div 10)" by blast
    then have "digits_value (nat_string n) = int (n div 10) * 10 + int (n mod 10)"
      using False by (simp add: nat_string.simps [of n] digits_value_def)
    also have "\<dots> = int (n div 10 * 10 + n mod 10)"
      by (simp only: of_nat_add of_nat_mult of_nat_numeral)
    also have "\<dots> = int n" by (simp only: div_mult_mod_eq)
    finally show ?thesis .
  qed
qed

lemma nat_string_inject: "nat_string m = nat_string n \<longleftrightarrow> m = n"
  by (metis digits_value_nat_string of_nat_eq_iff)

lemma length_pad_start: "length (pad_start n c s) = max n (length s)"
  by (simp add: pad_start_def)

end
