(* ===== verification/Payments.thy ===== *)
theory Payments
  imports Inventory Js_Text
begin

text \<open>
  Payment intents and payment transactions: \<open>src/src/modules/payment\<close>. An intent is the expected bank
  transfer of one order, found by the content of the transfer or by a secret token; a transaction is
  one received transfer. \<open>now\<close> is the clock reading of the request in milliseconds.
\<close>

definition PAYMENT_INTENT_EXPIRES_IN_MS :: int where
  "PAYMENT_INTENT_EXPIRES_IN_MS = 60 * 60 * 1000"

section \<open>The intent repository\<close>

definition order_by_code :: "db \<Rightarrow> string \<Rightarrow> order_row option" where
  "order_by_code d code = find_row (\<lambda>r. ord_code r = code) (orders d)"

definition with_order :: "db \<Rightarrow> payment_intent_row \<Rightarrow> payment_intent_row \<times> order_row option" where
  "with_order d p = (p, order_by_code d (pi_order_code p))"

definition find_payment_by_order_code :: "string \<Rightarrow> db \<Rightarrow> payment_intent_row option" where
  [repo_defs]: "find_payment_by_order_code code d =
     find_row (\<lambda>p. pi_order_code p = code) (payment_intents d)"

definition find_intent_by_order_code ::
    "string \<Rightarrow> db \<Rightarrow> (payment_intent_row \<times> order_row option) option" where
  [repo_defs]: "find_intent_by_order_code code d =
     map_option (with_order d) (find_row (\<lambda>p. pi_order_code p = code) (payment_intents d))"

definition find_intent_by_content ::
    "string \<Rightarrow> db \<Rightarrow> (payment_intent_row \<times> order_row option) option" where
  [repo_defs]: "find_intent_by_content content d =
     map_option (with_order d) (find_row (\<lambda>p. pi_content p = Some content) (payment_intents d))"

definition find_intent_by_token_url ::
    "string \<Rightarrow> db \<Rightarrow> (payment_intent_row \<times> order_row option) option" where
  [repo_defs]: "find_intent_by_token_url token d =
     map_option (with_order d) (find_row (\<lambda>p. pi_token_url p = token) (payment_intents d))"

record intent_params =
  ip_gateway :: payment_gateway
  ip_order_code :: string
  ip_content :: "string option"
  ip_status :: "payment_status option"
  ip_payment_url :: string
  ip_expired_at :: int
  ip_token_url :: string

definition new_intent :: "int \<Rightarrow> intent_params \<Rightarrow> int \<Rightarrow> payment_intent_row" where
  "new_intent now p i =
     \<lparr>pi_id = i, pi_order_code = ip_order_code p, pi_content = ip_content p,
      pi_gateway = ip_gateway p,
      pi_status = Some (case ip_status p of None \<Rightarrow> Pay_PENDING | Some s \<Rightarrow> s),
      pi_token_url = ip_token_url p, pi_payment_url = Some (ip_payment_url p),
      pi_expired_at = ip_expired_at p, pi_created_at = now\<rparr>"

text \<open>The unique columns \<open>orderCode\<close>, \<open>content\<close> and \<open>tokenUrl\<close>, and the reference to the order.\<close>

definition intent_clash :: "intent_params \<Rightarrow> payment_intent_row \<Rightarrow> bool" where
  "intent_clash p r \<longleftrightarrow>
     pi_order_code r = ip_order_code p \<or> pi_token_url r = ip_token_url p
     \<or> (\<exists>c. ip_content p = Some c \<and> pi_content r = Some c)"

definition create_intent :: "int \<Rightarrow> intent_params \<Rightarrow> payment_intent_row action" where
  [repo_defs]: "create_intent now p d =
     (if \<exists>r\<in>set (rows (payment_intents d)). intent_clash p r then (Inl P2002, d)
      else if order_by_code d (ip_order_code p) = None then (Inl P2003, d)
      else (Inr (new_intent now p (serial (payment_intents d))),
            d\<lparr>payment_intents := insert_row (new_intent now p) (payment_intents d)\<rparr>))"

definition expired_pending :: "int \<Rightarrow> db \<Rightarrow> payment_intent_row \<Rightarrow> bool" where
  "expired_pending cutoff d p \<longleftrightarrow>
     pi_expired_at p < cutoff \<and> pi_status p = Some Pay_PENDING
     \<and> (case order_by_code d (pi_order_code p) of
          None \<Rightarrow> False | Some r \<Rightarrow> ord_status r = Some Ord_PENDING_PAYMENT)"

definition delete_expired_pending :: "int \<Rightarrow> int action" where
  [repo_defs]: "delete_expired_pending cutoff d =
     (Inr (count_rows (expired_pending cutoff d) (payment_intents d)),
      d\<lparr>payment_intents := delete_rows (expired_pending cutoff d) (payment_intents d)\<rparr>)"

definition update_intent_status :: "string \<Rightarrow> payment_status \<Rightarrow> int action" where
  [repo_defs]: "update_intent_status code status d =
     (Inr (count_rows (\<lambda>p. pi_order_code p = code) (payment_intents d)),
      d\<lparr>payment_intents := map_rows (\<lambda>p. pi_order_code p = code)
          (\<lambda>p. p\<lparr>pi_status := Some status\<rparr>) (payment_intents d)\<rparr>)"

section \<open>The transaction repository\<close>

definition new_transaction ::
    "int \<Rightarrow> int option \<Rightarrow> int option \<Rightarrow> payment_gateway \<Rightarrow> payment_status option \<Rightarrow> rat \<Rightarrow> int
       \<Rightarrow> payment_transaction_row" where
  "new_transaction now order user gateway status amount i =
     \<lparr>pt_id = i, pt_order_id = order, pt_user_id = user, pt_gateway = gateway, pt_status = status,
      pt_amount = amount, pt_created_at = now\<rparr>"

definition insert_transaction ::
    "(int \<Rightarrow> payment_transaction_row) \<Rightarrow> payment_transaction_row action" where
  "insert_transaction mk d =
     (Inr (mk (serial (payment_transactions d))),
      d\<lparr>payment_transactions := insert_row mk (payment_transactions d)\<rparr>)"

definition create_payment_transaction ::
    "int \<Rightarrow> int \<Rightarrow> int \<Rightarrow> payment_gateway \<Rightarrow> rat \<Rightarrow> payment_transaction_row action" where
  [repo_defs]: "create_payment_transaction now user order gateway amount d =
     (if order_of d order = None \<or> user_of d user = None then (Inl P2003, d)
      else insert_transaction
             (new_transaction now (Some order) (Some user) gateway (Some Pay_PENDING) amount) d)"

definition create_payment_transaction_guest ::
    "int \<Rightarrow> int \<Rightarrow> payment_gateway \<Rightarrow> rat \<Rightarrow> payment_transaction_row action" where
  [repo_defs]: "create_payment_transaction_guest now order gateway amount d =
     (if order_of d order = None then (Inl P2003, d)
      else insert_transaction
             (new_transaction now (Some order) None gateway (Some Pay_PENDING) amount) d)"

text \<open>
  \<open>createWebhookSepayTransaction\<close>: the references come from an order that was just read, so they hold.
\<close>

definition create_webhook_transaction ::
    "int \<Rightarrow> rat \<Rightarrow> int option \<Rightarrow> int option \<Rightarrow> payment_status \<Rightarrow> payment_transaction_row action" where
  [repo_defs]: "create_webhook_transaction now amount order user status =
     insert_transaction (new_transaction now order user SEPAY (Some status) amount)"

definition find_transactions_by_order :: "int \<Rightarrow> nat \<Rightarrow> db \<Rightarrow> payment_transaction_row list" where
  [repo_defs]: "find_transactions_by_order order limit d =
     take limit (sort_key (\<lambda>t. - pt_created_at t)
       (select_rows (\<lambda>t. pt_order_id t = Some order) (payment_transactions d)))"

section \<open>The services\<close>

record payment_config =
  BANK_ID :: string
  ACCOUNT_NO :: string
  TEMPLATE_OR :: string
  NAME_RECEIVER :: string

record payment_url =
  pu_token_url :: string
  pu_payment_url :: string
  pu_content :: string

text \<open>\<open>token\<close> is the hexadecimal form of the 32 random bytes.\<close>

definition generate_qr_url :: "payment_config \<Rightarrow> string \<Rightarrow> rat \<Rightarrow> string \<Rightarrow> payment_url" where
  [service_defs]: "generate_qr_url cfg token amount order_code =
     \<lparr>pu_token_url = token,
      pu_payment_url = ''https://qr.sepay.vn/img?'' @
        query_string [(''bank'', BANK_ID cfg), (''acc'', ACCOUNT_NO cfg),
          (''template'', TEMPLATE_OR cfg), (''amount'', number_string amount), (''des'', order_code)],
      pu_content = order_code\<rparr>"

definition create_payment_intent ::
    "int \<Rightarrow> payment_gateway \<Rightarrow> string \<Rightarrow> payment_url \<Rightarrow> payment_intent_row action" where
  [service_defs]: "create_payment_intent now gateway order_code url =
     create_intent now \<lparr>ip_gateway = gateway, ip_order_code = order_code,
       ip_content = Some (pu_content url), ip_status = None, ip_payment_url = pu_payment_url url,
       ip_expired_at = now + PAYMENT_INTENT_EXPIRES_IN_MS, ip_token_url = pu_token_url url\<rparr>"

text \<open>\<open>deleteExpiredPaymentIntents\<close> answers the number of deleted rows and the cutoff.\<close>

definition delete_expired_payment_intents :: "int \<Rightarrow> (int \<times> int) action" where
  [service_defs]: "delete_expired_payment_intents cutoff d =
     await (delete_expired_pending cutoff d) (\<lambda>n. ret (n, cutoff))"

definition mark_payment_intent :: "string \<Rightarrow> payment_status \<Rightarrow> unit action" where
  [service_defs]: "mark_payment_intent order_code status d =
     await (update_intent_status order_code status d) (\<lambda>_. ret ())"

record payment_intent_response =
  pir_id :: int
  pir_gateway :: payment_gateway
  pir_order_code :: string
  pir_status :: "payment_status option"
  pir_payment_url :: "string option"
  pir_token_url :: string
  pir_content :: "string option"
  pir_total_amount :: "rat option"
  pir_expired_at :: int
  pir_bank_name :: string
  pir_stk :: string
  pir_name_account :: string

text \<open>The mapper reads \<open>paymentIntent.order.totalAmount\<close>, a \<open>TypeError\<close> without an order.\<close>

definition to_intent_response ::
    "payment_config \<Rightarrow> payment_intent_row \<times> order_row option \<Rightarrow> payment_intent_response res" where
  [service_defs]: "to_intent_response cfg p =
     (case p of
        (_, None) \<Rightarrow> Inl TypeError
      | (r, Some order) \<Rightarrow>
          Inr \<lparr>pir_id = pi_id r, pir_gateway = pi_gateway r, pir_order_code = pi_order_code r,
            pir_status = pi_status r, pir_payment_url = pi_payment_url r,
            pir_token_url = pi_token_url r, pir_content = pi_content r,
            pir_total_amount = ord_total order, pir_expired_at = pi_expired_at r,
            pir_bank_name = BANK_ID cfg, pir_stk = ACCOUNT_NO cfg,
            pir_name_account = NAME_RECEIVER cfg\<rparr>)"

definition get_payment_intent ::
    "payment_config \<Rightarrow> string \<Rightarrow> payment_intent_response option action" where
  [service_defs]: "get_payment_intent cfg token d =
     (case find_intent_by_token_url token d of
        None \<Rightarrow> (Inr None, d)
      | Some p \<Rightarrow>
          (case to_intent_response cfg p of Inl e \<Rightarrow> (Inl e, d) | Inr r \<Rightarrow> (Inr (Some r), d)))"

record payment_history_row =
  ph_id :: int
  ph_order_id :: "int option"
  ph_user_id :: "int option"
  ph_gateway :: payment_gateway
  ph_status :: "payment_status option"
  ph_amount :: string
  ph_created_at :: int

definition get_payment_history_by_order :: "int \<Rightarrow> nat \<Rightarrow> db \<Rightarrow> payment_history_row list" where
  [service_defs]: "get_payment_history_by_order order limit d =
     map (\<lambda>t. \<lparr>ph_id = pt_id t, ph_order_id = pt_order_id t, ph_user_id = pt_user_id t,
                 ph_gateway = pt_gateway t, ph_status = pt_status t,
                 ph_amount = number_string (pt_amount t), ph_created_at = pt_created_at t\<rparr>)
       (find_transactions_by_order order limit d)"

section \<open>Lemmas\<close>

lemma find_intent_update_status:
  "find_row (\<lambda>p. pi_content p = c) (payment_intents (snd (update_intent_status code s d))) =
     map_option (\<lambda>p. if pi_order_code p = code then p\<lparr>pi_status := Some s\<rparr> else p)
       (find_row (\<lambda>p. pi_content p = c) (payment_intents d))"
  by (simp add: update_intent_status_def find_row_map_rows_same)

lemma mark_payment_intent_simp [simp]:
  "mark_payment_intent code s d = (Inr (), snd (update_intent_status code s d))"
  by (simp add: mark_payment_intent_def update_intent_status_def)

lemma update_intent_status_frame [row_frame, simp]:
  "orders (snd (update_intent_status code s d)) = orders d"
  "order_items (snd (update_intent_status code s d)) = order_items d"
  "snapshots (snd (update_intent_status code s d)) = snapshots d"
  "variants (snd (update_intent_status code s d)) = variants d"
  "payment_transactions (snd (update_intent_status code s d)) = payment_transactions d"
  "webhook_inbox (snd (update_intent_status code s d)) = webhook_inbox d"
  by (simp_all add: update_intent_status_def)

text \<open>
  The QR address and the intent of an order carry the order code as the transfer content, and
  the intent just created is the one a transfer with that content finds.
\<close>
theorem created_intent_found_by_content:
  assumes "create_payment_intent now SEPAY code (generate_qr_url cfg token amount code) d = (Inr p, d')"
  shows "\<exists>order. find_intent_by_content code d' = Some (p, Some order) \<and> ord_code order = code
       \<and> pi_status p = Some Pay_PENDING \<and> pi_expired_at p = now + 3600000
       \<and> orders d' = orders d"
proof -
  let ?q = "generate_qr_url cfg token amount code"
  have q: "pu_content ?q = code" by (simp add: generate_qr_url_def)
  from assms obtain order where order: "order_by_code d code = Some order"
    and fresh: "\<forall>r\<in>set (rows (payment_intents d)). pi_content r \<noteq> Some code"
    and p: "pi_content p = Some code" "pi_order_code p = code" "pi_status p = Some Pay_PENDING"
      "pi_expired_at p = now + 3600000"
    and d': "d' = d\<lparr>payment_intents := payment_intents d'\<rparr>"
      "rows (payment_intents d') = rows (payment_intents d) @ [p]"
    by (auto simp: create_payment_intent_def create_intent_def new_intent_def q intent_clash_def
        PAYMENT_INTENT_EXPIRES_IN_MS_def split: if_splits)
  have "List.find (\<lambda>r. pi_content r = Some code) (rows (payment_intents d)) = None"
    using fresh by (auto simp: find_None_iff)
  then have "find_intent_by_content code d' = Some (p, order_by_code d' code)"
    using p d'(2) by (simp add: find_intent_by_content_def find_row_def find_append with_order_def)
  moreover have "orders d' = orders d" by (subst d'(1)) simp
  moreover have "ord_code order = code"
    using order by (auto simp: order_by_code_def dest: find_row_SomeD)
  ultimately show ?thesis using order p by (simp add: order_by_code_def)
qed

definition sample_config :: payment_config where
  "sample_config = \<lparr>BANK_ID = ''MBBank'', ACCOUNT_NO = ''17979220797979'',
     TEMPLATE_OR = ''compact'', NAME_RECEIVER = ''Book Store''\<rparr>"

definition sample_order :: "int \<Rightarrow> string \<Rightarrow> rat \<Rightarrow> order_row" where
  "sample_order i code amt =
     \<lparr>ord_id = i, ord_code = code, ord_user_id = Some 7, ord_address_id = Some 4,
      ord_cart_hash = None, ord_guest_session_id = None, ord_guest_email = None,
      ord_status = Some Ord_PENDING_PAYMENT, ord_payment_status = Some Pay_PENDING,
      ord_subtotal = Some (amt - 20000), ord_discount = None, ord_shipping_fee = Some 20000,
      ord_total = Some amt, ord_currency = VND, ord_idempotency_key = None, ord_note = None,
      ord_placed_at = Some 0, ord_created_at = 0, ord_expired_at = 6000000\<rparr>"

lemma created_intent_found_by_content_witness:
  "\<exists>p d'. create_payment_intent 5 SEPAY ''VLR1'' (generate_qr_url sample_config ''tk'' 120000 ''VLR1'')
        (empty_db\<lparr>orders := \<lparr>rows = [sample_order 1 ''VLR1'' 120000], serial = 2\<rparr>\<rparr>) = (Inr p, d')
     \<and> map_option fst (find_intent_by_content ''VLR1'' d') = Some p"
proof -
  let ?d = "empty_db\<lparr>orders := \<lparr>rows = [sample_order 1 ''VLR1'' 120000], serial = 2\<rparr>\<rparr>"
  let ?q = "generate_qr_url sample_config ''tk'' 120000 ''VLR1''"
  have "\<exists>p d'. create_payment_intent 5 SEPAY ''VLR1'' ?q ?d = (Inr p, d')"
    by (simp add: create_payment_intent_def create_intent_def empty_db_def order_by_code_def
        find_row_def sample_order_def)
  then obtain p d' where "create_payment_intent 5 SEPAY ''VLR1'' ?q ?d = (Inr p, d')" by blast
  moreover from created_intent_found_by_content [OF this]
  have "map_option fst (find_intent_by_content ''VLR1'' d') = Some p" by auto
  ultimately show ?thesis by blast
qed

end
