(* ===== verification/Pagination.thy ===== *)
theory Pagination
  imports Prelude
begin

text \<open>
  Pages of a list: \<open>src/src/common/pagination\<close>. The repositories read one page with
  \<open>skip: (page - 1) * limit, take: limit\<close>; the answer carries the number of pages.
\<close>

definition page_slice :: "int \<Rightarrow> int \<Rightarrow> 'a list \<Rightarrow> 'a list" where
  "page_slice page limit xs = take (nat limit) (drop (nat ((page - 1) * limit)) xs)"

text \<open>\<open>page && page > 0 ? page : 1\<close> on a number that may be undefined.\<close>

definition get_pagination_params :: "int option \<Rightarrow> int option \<Rightarrow> int \<times> int \<times> int" where
  "get_pagination_params page limit =
     (let p = (case page of None \<Rightarrow> 1 | Some n \<Rightarrow> if n \<noteq> 0 \<and> n > 0 then n else 1);
          l = (case limit of None \<Rightarrow> 20 | Some n \<Rightarrow> if n \<noteq> 0 \<and> n > 0 then n else 20)
      in (p, l, (p - 1) * l))"

record 'a paginated =
  pg_page :: int
  pg_limit :: int
  pg_total :: int
  pg_total_pages :: int
  pg_items :: "'a list"

definition ceil_div :: "int \<Rightarrow> int \<Rightarrow> int" where
  "ceil_div a b = - ((- a) div b)"

definition build_paginated_result :: "'a list \<Rightarrow> int \<Rightarrow> int \<Rightarrow> int \<Rightarrow> 'a paginated" where
  "build_paginated_result items n page limit =
     \<lparr>pg_page = page, pg_limit = limit, pg_total = n,
      pg_total_pages = (if n > 0 then ceil_div n limit else 0), pg_items = items\<rparr>"

section \<open>The pages partition the list\<close>

lemma length_page_slice:
  "0 \<le> limit \<Longrightarrow> int (length (page_slice page limit xs)) \<le> limit"
  by (simp add: page_slice_def)

lemma set_page_slice: "set (page_slice page limit xs) \<subseteq> set xs"
  unfolding page_slice_def by (meson set_drop_subset set_take_subset subset_trans)

lemma page_slice_map: "page_slice p l (map f xs) = map f (page_slice p l xs)"
  by (simp add: page_slice_def take_map drop_map)

lemma concat_slices:
  "concat (map (\<lambda>k. take n (drop (k * n) xs)) [0..<m]) = take (m * n) xs"
proof (induction m)
  case 0
  then show ?case by simp
next
  case (Suc m)
  have "take (m * n) xs @ take n (drop (m * n) xs) = take (m * n + n) xs"
    by (rule take_add [symmetric])
  with Suc show ?case by (simp add: add.commute)
qed

lemma concat_pages:
  assumes "0 < limit"
  shows "concat (map (\<lambda>k. page_slice (int k + 1) limit xs) [0..<m]) = take (m * nat limit) xs"
proof -
  have "page_slice (int k + 1) limit xs = take (nat limit) (drop (k * nat limit) xs)" for k
    using assms by (simp add: page_slice_def nat_mult_distrib)
  then show ?thesis by (simp add: concat_slices)
qed

lemma ceil_div_covers:
  assumes "0 < b"
  shows "a \<le> ceil_div a b * b" and "ceil_div a b * b < a + b"
proof -
  have "ceil_div a b * b = - ((- a) div b * b)" by (simp add: ceil_div_def)
  also have "\<dots> = a + (- a) mod b" by (simp only: minus_mod_eq_div_mult [symmetric])
  finally have "ceil_div a b * b = a + (- a) mod b" .
  moreover have "0 \<le> (- a) mod b" "(- a) mod b < b" using assms by simp_all
  ultimately show "a \<le> ceil_div a b * b" and "ceil_div a b * b < a + b" by linarith+
qed

text \<open>
  Reading the pages \<open>1, \<dots>, totalPages\<close> that the paginated answer announces gives every item
  exactly once and in order, and no page is longer than the limit.
\<close>
theorem pages_cover_list:
  assumes "0 < limit"
  shows "concat (map (\<lambda>k. page_slice (int k + 1) limit xs)
           [0..<nat (pg_total_pages (build_paginated_result ys (int (length xs)) page limit))]) = xs
       \<and> int (length (page_slice page limit xs)) \<le> limit"
proof -
  define m where "m = nat (pg_total_pages (build_paginated_result ys (int (length xs)) page limit))"
  have "length xs \<le> m * nat limit"
  proof (cases "xs = []")
    case False
    have "int (length xs) \<le> ceil_div (int (length xs)) limit * limit"
      using assms by (rule ceil_div_covers)
    also have "\<dots> \<le> int m * limit"
      using False assms by (simp add: m_def build_paginated_result_def)
    also have "\<dots> = int (m * nat limit)" using assms by simp
    finally show ?thesis by linarith
  qed simp
  then show ?thesis
    using concat_pages [OF assms, of xs m] length_page_slice [of limit page xs] assms
    by (simp add: m_def)
qed

lemma pages_cover_list_witness:
  "concat (map (\<lambda>k. page_slice (int k + 1) 2 [1, 2, 3, 4, 5 :: int])
     [0..<nat (pg_total_pages (build_paginated_result [1, 2 :: int] 5 1 2))]) = [1, 2, 3, 4, 5]"
  using pages_cover_list [of 2 "[1, 2, 3, 4, 5 :: int]" "[1, 2 :: int]" 1] by simp

end
