(* ===== verification/Orders.thy ===== *)
theory Orders
  imports Payments Pagination "HOL-Library.List_Lexorder"
begin

text \<open>
  Orders, their items and their addresses: \<open>src/src/modules/order\<close> (repositories, \<open>OrderService\<close>
  without the checkout, \<open>OrderMapper\<close>, \<open>OrderCleanupJob\<close>, the list routes of \<open>OrderController\<close>). The
  columns of the catalogue that an order detail shows are read through the argument \<open>book_card\<close>.
\<close>

definition SHIPPING_FEE :: int where "SHIPPING_FEE = 20000"
definition ORDER_EXPIRED_SECONDS :: int where "ORDER_EXPIRED_SECONDS = 100 * 60"

section \<open>The order repository\<close>

text \<open>Unique columns and references of a new order.\<close>

definition order_clash :: "order_row \<Rightarrow> order_row \<Rightarrow> bool" where
  "order_clash new r \<longleftrightarrow>
     ord_code r = ord_code new
     \<or> ord_cart_hash new \<noteq> None \<and> ord_cart_hash r = ord_cart_hash new
     \<or> ord_idempotency_key new \<noteq> None \<and> ord_idempotency_key r = ord_idempotency_key new"

definition order_references :: "db \<Rightarrow> order_row \<Rightarrow> bool" where
  "order_references d r \<longleftrightarrow>
     (\<forall>u. ord_user_id r = Some u \<longrightarrow> user_of d u \<noteq> None)
     \<and> (\<forall>a. ord_address_id r = Some a \<longrightarrow> find_row (\<lambda>x. ua_id x = a) (addresses d) \<noteq> None)
     \<and> (\<forall>g. ord_guest_session_id r = Some g \<longrightarrow> find_row (\<lambda>x. gs_id x = g) (guest_sessions d) \<noteq> None)"

lemma order_references_code [code]:
  "order_references d r \<longleftrightarrow>
     (case ord_user_id r of None \<Rightarrow> True | Some u \<Rightarrow> user_of d u \<noteq> None)
     \<and> (case ord_address_id r of None \<Rightarrow> True | Some a \<Rightarrow> find_row (\<lambda>x. ua_id x = a) (addresses d) \<noteq> None)
     \<and> (case ord_guest_session_id r of None \<Rightarrow> True
         | Some g \<Rightarrow> find_row (\<lambda>x. gs_id x = g) (guest_sessions d) \<noteq> None)"
  by (simp add: order_references_def split: option.splits)

definition create_order :: "(int \<Rightarrow> order_row) \<Rightarrow> order_row action" where
  [repo_defs]: "create_order mk d =
     (let new = mk (serial (orders d)) in
      if \<exists>r\<in>set (rows (orders d)). order_clash new r then (Inl P2002, d)
      else if \<not> order_references d new then (Inl P2003, d)
      else (Inr new, d\<lparr>orders := insert_row mk (orders d)\<rparr>))"

definition blank_order :: "int \<Rightarrow> string \<Rightarrow> int \<Rightarrow> order_row" where
  "blank_order now code i =
     \<lparr>ord_id = i, ord_code = code, ord_user_id = None, ord_address_id = None, ord_cart_hash = None,
      ord_guest_session_id = None, ord_guest_email = None, ord_status = None,
      ord_payment_status = None, ord_subtotal = None, ord_discount = None,
      ord_shipping_fee = None, ord_total = None, ord_currency = VND, ord_idempotency_key = None,
      ord_note = None, ord_placed_at = Some now, ord_created_at = now, ord_expired_at = now\<rparr>"

definition create_orders_by_user_id :: "int \<Rightarrow> string \<Rightarrow> int \<Rightarrow> order_row action" where
  [repo_defs]: "create_orders_by_user_id now code user =
     create_order (\<lambda>i. (blank_order now code i)
       \<lparr>ord_user_id := Some user, ord_payment_status := Some Pay_PENDING,
        ord_shipping_fee := Some (of_int SHIPPING_FEE),
        ord_expired_at := now + ORDER_EXPIRED_SECONDS * 1000\<rparr>)"

definition upsert_orders_by_guest_id ::
    "int \<Rightarrow> string \<Rightarrow> int \<Rightarrow> string \<Rightarrow> rat \<Rightarrow> order_row action" where
  [repo_defs]: "upsert_orders_by_guest_id now code guest key amount d =
     (case find_row (\<lambda>r. ord_idempotency_key r = Some key) (orders d) of
        Some r \<Rightarrow> (Inr r, d)
      | None \<Rightarrow> create_order (\<lambda>i. (blank_order now code i)
          \<lparr>ord_idempotency_key := Some key, ord_total := Some amount,
           ord_guest_session_id := Some guest, ord_payment_status := Some Pay_PENDING,
           ord_shipping_fee := Some (of_int SHIPPING_FEE),
           ord_expired_at := now + ORDER_EXPIRED_SECONDS * 1000\<rparr>) d)"

text \<open>
  \<open>deleteById\<close>, with the cascades of the schema: the items, the address, the payment transactions
  and the payment intents of the order go with it.
\<close>

definition delete_order_cascade :: "order_row \<Rightarrow> db \<Rightarrow> db" where
  "delete_order_cascade r d =
     d\<lparr>orders := delete_rows (\<lambda>x. ord_id x = ord_id r) (orders d),
       order_items := delete_rows (\<lambda>x. oi_order_id x = ord_id r) (order_items d),
       order_addresses := delete_rows (\<lambda>x. oa_order_id x = ord_id r) (order_addresses d),
       payment_transactions := delete_rows (\<lambda>x. pt_order_id x = Some (ord_id r)) (payment_transactions d),
       payment_intents := delete_rows (\<lambda>x. pi_order_code x = ord_code r) (payment_intents d)\<rparr>"

definition delete_order_by_id :: "int \<Rightarrow> order_row action" where
  [repo_defs]: "delete_order_by_id i d =
     (case order_of d i of
        None \<Rightarrow> (Inl P2025, d)
      | Some r \<Rightarrow> (Inr r, delete_order_cascade r d))"

definition find_orders_with_items :: "int list \<Rightarrow> db \<Rightarrow> (int \<times> order_item_row list) list" where
  [repo_defs]: "find_orders_with_items ids d =
     (if ids = [] then []
      else map (\<lambda>r. (ord_id r, items_of_order d (ord_id r)))
             (select_rows (\<lambda>r. ord_id r \<in> set ids) (orders d)))"

definition update_order_by_id :: "int \<Rightarrow> (order_row \<Rightarrow> order_row) \<Rightarrow> order_row action" where
  [repo_defs]: "update_order_by_id i f d =
     (case order_of d i of
        None \<Rightarrow> (Inl P2025, d)
      | Some r \<Rightarrow> (Inr (f r), d\<lparr>orders := map_rows (\<lambda>x. ord_id x = i) f (orders d)\<rparr>))"

definition update_order_status_by_id :: "int \<Rightarrow> order_status \<Rightarrow> order_row action" where
  [repo_defs]: "update_order_status_by_id i status =
     update_order_by_id i (\<lambda>r. r\<lparr>ord_status := Some status\<rparr>)"

text \<open>The variant of an item, through its snapshot; the references are required by the schema.\<close>

definition variant_id_of_item :: "db \<Rightarrow> order_item_row \<Rightarrow> int option" where
  "variant_id_of_item d x = map_option bvs_variant_id (snapshot_of d (oi_snapshot_id x))"

definition item_quantities :: "db \<Rightarrow> order_item_row list \<Rightarrow> (int \<times> int) list res" where
  "item_quantities d xs =
     (case those (map (\<lambda>x. map_option (\<lambda>v. (v, oi_quantity x)) (variant_id_of_item d x)) xs) of
        None \<Rightarrow> Inl TypeError
      | Some ps \<Rightarrow> Inr ps)"

definition find_order_items_with_variant :: "int \<Rightarrow> (int \<times> (int \<times> int) list) option action" where
  [repo_defs]: "find_order_items_with_variant i d =
     (case order_of d i of
        None \<Rightarrow> (Inr None, d)
      | Some r \<Rightarrow>
          (case item_quantities d (items_of_order d i) of
             Inl e \<Rightarrow> (Inl e, d)
           | Inr ps \<Rightarrow> (Inr (Some (i, ps)), d)))"

definition find_orders_by_guest :: "int \<Rightarrow> int \<Rightarrow> int \<Rightarrow> db \<Rightarrow> order_row list" where
  [repo_defs]: "find_orders_by_guest guest page limit d =
     page_slice page limit (sort_key (\<lambda>r. - ord_created_at r)
       (select_rows (\<lambda>r. ord_guest_session_id r = Some guest) (orders d)))"

definition find_orders_by_user :: "int \<Rightarrow> int \<Rightarrow> int \<Rightarrow> db \<Rightarrow> order_row list" where
  [repo_defs]: "find_orders_by_user user page limit d =
     page_slice page limit (sort_key (\<lambda>r. - ord_created_at r)
       (select_rows (\<lambda>r. ord_user_id r = Some user) (orders d)))"

definition find_order_items_by_user_page :: "int \<Rightarrow> int \<Rightarrow> int \<Rightarrow> db \<Rightarrow> order_item_row list list" where
  [repo_defs]: "find_order_items_by_user_page user page limit d =
     map (\<lambda>r. items_of_order d (ord_id r)) (find_orders_by_user user page limit d)"

definition latest_payment :: "payment_status list \<Rightarrow> db \<Rightarrow> int \<Rightarrow> payment_transaction_row list" where
  "latest_payment statuses d i =
     take 1 (sort_key (\<lambda>t. - pt_created_at t)
       (select_rows (\<lambda>t. pt_order_id t = Some i \<and> (\<exists>s\<in>set statuses. pt_status t = Some s))
          (payment_transactions d)))"

definition find_by_cart_hash ::
    "string \<Rightarrow> db \<Rightarrow> (order_row \<times> payment_transaction_row list) option" where
  [repo_defs]: "find_by_cart_hash h d =
     map_option (\<lambda>r. (r, latest_payment [Pay_PENDING] d (ord_id r)))
       (find_row (\<lambda>r. ord_cart_hash r = Some h) (orders d))"

definition find_order_not_success_by_cart_hash ::
    "string \<Rightarrow> db \<Rightarrow> (order_row \<times> payment_transaction_row list) option" where
  [repo_defs]: "find_order_not_success_by_cart_hash h d =
     map_option (\<lambda>r. (r, latest_payment [Pay_PENDING, Pay_OVERAGE, Pay_SHORTFALL] d (ord_id r)))
       (find_row (\<lambda>r. ord_cart_hash r = Some h) (orders d))"

section \<open>Expired orders\<close>

text \<open>
  Both queries compare \<open>expiredAt\<close> with one hour after the clock; only the first asks for a pending
  payment.
\<close>

definition expires_before :: "int \<Rightarrow> order_row \<Rightarrow> bool" where
  "expires_before now r \<longleftrightarrow>
     ord_expired_at r < now + PAYMENT_INTENT_EXPIRES_IN_MS \<and> ord_status r = Some Ord_PENDING_PAYMENT"

definition find_order_is_expire :: "int \<Rightarrow> (int \<times> int) list list action" where
  [repo_defs]: "find_order_is_expire now d =
     (let expired = select_rows (\<lambda>r. expires_before now r \<and> ord_payment_status r = Some Pay_PENDING) (orders d)
      in case those (map (\<lambda>r. case item_quantities d (items_of_order d (ord_id r)) of
                                 Inl _ \<Rightarrow> None | Inr ps \<Rightarrow> Some ps) expired) of
           None \<Rightarrow> (Inl TypeError, d)
         | Some qs \<Rightarrow> (Inr qs, d))"

definition release_variant :: "int \<times> int \<Rightarrow> db \<Rightarrow> db" where
  "release_variant kv d =
     (case kv of (i, q) \<Rightarrow>
        d\<lparr>variants := map_rows (\<lambda>v. bv_id v = i)
            (\<lambda>v. v\<lparr>bv_stock := bv_stock v + q, bv_reserved := bv_reserved v - q\<rparr>) (variants d)\<rparr>)"

definition cancel_expired_orders :: "int \<Rightarrow> db \<Rightarrow> db" where
  "cancel_expired_orders now d =
     d\<lparr>orders := map_rows (expires_before now)
        (\<lambda>r. r\<lparr>ord_status := Some Ord_CANCELLED, ord_payment_status := Some Pay_EXPIRED\<rparr>) (orders d)\<rparr>"

definition clear_order :: "int \<Rightarrow> variant_quantities \<Rightarrow> unit action" where
  [repo_defs]: "clear_order now m =
     transaction (\<lambda>d. (Inr (), cancel_expired_orders now (fold release_variant m d)))"

section \<open>Items\<close>

definition create_order_item :: "int \<Rightarrow> int \<Rightarrow> int \<Rightarrow> int \<Rightarrow> rat \<Rightarrow> rat \<Rightarrow> order_item_row action" where
  [repo_defs]: "create_order_item now order snapshot quantity unit_price line_total d =
     (let mk = (\<lambda>i. \<lparr>oi_id = i, oi_order_id = order, oi_snapshot_id = snapshot,
                     oi_quantity = quantity, oi_unit_price = unit_price,
                     oi_line_total = line_total, oi_created_at = now\<rparr>) in
      if order_of d order = None \<or> snapshot_of d snapshot = None then (Inl P2003, d)
      else (Inr (mk (serial (order_items d))), d\<lparr>order_items := insert_row mk (order_items d)\<rparr>))"

definition create_order_item_priced :: "int \<Rightarrow> int \<Rightarrow> int \<Rightarrow> int \<Rightarrow> rat \<Rightarrow> order_item_row action" where
  [repo_defs]: "create_order_item_priced now order snapshot quantity price =
     create_order_item now order snapshot quantity price (js_mul (of_int quantity) price)"

record item_payload =
  ipl_snapshot_id :: int
  ipl_quantity :: int
  ipl_unit_price :: rat
  ipl_line_total :: rat

definition new_order_item :: "int \<Rightarrow> int \<Rightarrow> item_payload \<Rightarrow> int \<Rightarrow> order_item_row" where
  "new_order_item now order p i =
     \<lparr>oi_id = i, oi_order_id = order, oi_snapshot_id = ipl_snapshot_id p,
      oi_quantity = ipl_quantity p, oi_unit_price = ipl_unit_price p,
      oi_line_total = ipl_line_total p, oi_created_at = now\<rparr>"

text \<open>\<open>createMany\<close>: all rows or none.\<close>

definition create_many_order_items :: "int \<Rightarrow> int \<Rightarrow> item_payload list \<Rightarrow> int action" where
  [repo_defs]: "create_many_order_items now order ps d =
     (if ps \<noteq> [] \<and> order_of d order = None \<or> (\<exists>p\<in>set ps. snapshot_of d (ipl_snapshot_id p) = None)
      then (Inl P2003, d)
      else (Inr (int (length ps)),
            d\<lparr>order_items := insert_rows (map (new_order_item now order) ps) (order_items d)\<rparr>))"

definition item_of_user :: "db \<Rightarrow> int \<Rightarrow> order_item_row \<Rightarrow> bool" where
  "item_of_user d user x \<longleftrightarrow>
     (case order_of d (oi_order_id x) of None \<Rightarrow> False | Some r \<Rightarrow> ord_user_id r = Some user)"

definition item_of_guest :: "db \<Rightarrow> int \<Rightarrow> order_item_row \<Rightarrow> bool" where
  "item_of_guest d guest x \<longleftrightarrow>
     (case order_of d (oi_order_id x) of None \<Rightarrow> False | Some r \<Rightarrow> ord_guest_session_id r = Some guest)"

text \<open>\<open>findByUserId\<close>: quantity, snapshot, variant and book of every item a user ordered.\<close>

definition find_order_items_by_user :: "int \<Rightarrow> db \<Rightarrow> (int \<times> int \<times> int option \<times> int option) list" where
  [repo_defs]: "find_order_items_by_user user d =
     map (\<lambda>x. (oi_quantity x, oi_snapshot_id x, variant_id_of_item d x,
               Option.bind (variant_id_of_item d x) (\<lambda>v. map_option bv_book_id (variant_of d v))))
       (select_rows (item_of_user d user) (order_items d))"

definition find_order_ids_by_snapshot_ids :: "int list \<Rightarrow> db \<Rightarrow> int list" where
  [repo_defs]: "find_order_ids_by_snapshot_ids ids d =
     map oi_order_id (select_rows (\<lambda>x. oi_snapshot_id x \<in> set ids) (order_items d))"

definition find_snapshot_ids_by_order_ids :: "int list \<Rightarrow> db \<Rightarrow> int list" where
  [repo_defs]: "find_snapshot_ids_by_order_ids ids d =
     map oi_snapshot_id (select_rows (\<lambda>x. oi_order_id x \<in> set ids) (order_items d))"

definition find_purchased_snapshot_ids_by_user :: "int \<Rightarrow> db \<Rightarrow> int list" where
  [repo_defs]: "find_purchased_snapshot_ids_by_user user d =
     map oi_snapshot_id (select_rows (item_of_user d user) (order_items d))"

text \<open>\<open>groupAlsoBoughtSnapshotCandidates\<close>: snapshots of the given orders by number of items, most first.\<close>

definition group_also_bought :: "int list \<Rightarrow> int list \<Rightarrow> nat \<Rightarrow> db \<Rightarrow> (int \<times> nat) list" where
  [repo_defs]: "group_also_bought order_ids exclude n d =
     (let ids = map oi_snapshot_id (select_rows
                  (\<lambda>x. oi_order_id x \<in> set order_ids \<and> oi_snapshot_id x \<notin> set exclude) (order_items d))
      in take n (sort_key (\<lambda>(_, c). - int c) (map (\<lambda>s. (s, count_list ids s)) (remdups ids))))"

definition order_detail_rows ::
    "(int \<Rightarrow> 'b) \<Rightarrow> db \<Rightarrow> order_item_row list
       \<Rightarrow> (int \<times> int \<times> (snapshot_row \<times> 'b) option) list" where
  "order_detail_rows book_card d xs =
     map (\<lambda>x. (oi_quantity x, oi_snapshot_id x,
               map_option (\<lambda>s. (s, book_card (bvs_variant_id s))) (snapshot_of d (oi_snapshot_id x))))
       (sort_key (\<lambda>x. - oi_created_at x) xs)"

definition find_order_detail_by_user ::
    "(int \<Rightarrow> 'b) \<Rightarrow> int \<Rightarrow> int \<Rightarrow> db \<Rightarrow> (int \<times> int \<times> (snapshot_row \<times> 'b) option) list" where
  [repo_defs]: "find_order_detail_by_user book_card order user d =
     order_detail_rows book_card d
       (select_rows (\<lambda>x. oi_order_id x = order \<and> item_of_user d user x) (order_items d))"

definition find_order_detail_by_guest ::
    "(int \<Rightarrow> 'b) \<Rightarrow> int \<Rightarrow> int \<Rightarrow> db \<Rightarrow> (int \<times> int \<times> (snapshot_row \<times> 'b) option) list" where
  [repo_defs]: "find_order_detail_by_guest book_card order guest d =
     order_detail_rows book_card d
       (select_rows (\<lambda>x. oi_order_id x = order \<and> item_of_guest d guest x) (order_items d))"

section \<open>Addresses\<close>

record order_address_dto =
  oad_country :: string
  oad_recipient_name :: "string option"
  oad_first_name :: "string option"
  oad_last_name :: "string option"
  oad_address_line :: string
  oad_city :: string
  oad_ward :: "string option"
  oad_district :: "string option"
  oad_phone :: string
  oad_country_code :: "string option"
  oad_note :: "string option"

definition truthy_parts :: "string option list \<Rightarrow> string list" where
  "truthy_parts ps = map the (filter js_truthy ps)"

definition build_recipient_name :: "order_address_dto \<Rightarrow> string" where
  "build_recipient_name body =
     (if js_truthy (oad_recipient_name body) then js_trim (the (oad_recipient_name body))
      else js_trim (js_join '' '' (map js_trim (truthy_parts [oad_first_name body, oad_last_name body]))))"

definition if_truthy :: "string option \<Rightarrow> string option" where
  "if_truthy s = (if js_truthy s then s else None)"

definition guest_address_row :: "int \<Rightarrow> order_address_dto \<Rightarrow> string option \<Rightarrow> int \<Rightarrow> order_address_row" where
  "guest_address_row order body note i =
     \<lparr>oa_id = i, oa_order_id = order, oa_recipient_name = build_recipient_name body,
      oa_phone = oad_phone body, oa_line = oad_address_line body,
      oa_ward = if_truthy (oad_ward body), oa_district = if_truthy (oad_district body),
      oa_city = oad_city body,
      oa_country_code = if_truthy (Some (case oad_country_code body of Some c \<Rightarrow> c | None \<Rightarrow> oad_country body)),
      oa_note = if_truthy (case oad_note body of Some n \<Rightarrow> Some n | None \<Rightarrow> note)\<rparr>"

definition create_order_address :: "(int \<Rightarrow> order_address_row) \<Rightarrow> order_address_row action" where
  [repo_defs]: "create_order_address mk d =
     (let new = mk (serial (order_addresses d)) in
      if \<exists>a\<in>set (rows (order_addresses d)). oa_order_id a = oa_order_id new then (Inl P2002, d)
      else if order_of d (oa_order_id new) = None then (Inl P2003, d)
      else (Inr new, d\<lparr>order_addresses := insert_row mk (order_addresses d)\<rparr>))"

definition create_guest_address :: "int \<Rightarrow> order_address_dto \<Rightarrow> string option \<Rightarrow> order_address_row action" where
  [repo_defs]: "create_guest_address order body note =
     create_order_address (guest_address_row order body note)"

section \<open>The service\<close>

text \<open>
  \<open>getCartHash\<close>: the items in the order of their identifiers as text, hashed by the parameter \<open>md5\<close>.
  On digit strings \<open>localeCompare\<close> is the lexicographic order of the character codes.
\<close>

definition get_cart_hash :: "(string \<Rightarrow> string) \<Rightarrow> cart_item_row list \<Rightarrow> string" where
  [service_defs]: "get_cart_hash md5 items =
     md5 (js_join ''|'' (map (\<lambda>x. int_string (ci_variant_id x) @ '':'' @ int_string (ci_quantity x))
       (sort_key (\<lambda>x. map (of_char :: char \<Rightarrow> nat) (int_string (ci_id x))) items)))"

definition create_guest_order :: "int \<Rightarrow> int \<Rightarrow> string \<Rightarrow> rat \<Rightarrow> rat \<Rightarrow> order_row action" where
  [service_defs]: "create_guest_order now guest code amount sub =
     create_order (\<lambda>i. (blank_order now code i)
       \<lparr>ord_guest_session_id := Some guest, ord_status := Some Ord_PENDING_PAYMENT,
        ord_payment_status := Some Pay_PENDING, ord_currency := VND,
        ord_shipping_fee := Some (of_int SHIPPING_FEE),
        ord_expired_at := now + ORDER_EXPIRED_SECONDS * 1000,
        ord_total := Some amount, ord_subtotal := Some sub\<rparr>)"

definition create_user_order :: "int \<Rightarrow> int \<Rightarrow> string \<Rightarrow> rat \<Rightarrow> rat \<Rightarrow> int \<Rightarrow> order_row action" where
  [service_defs]: "create_user_order now user code amount sub address =
     create_order (\<lambda>i. (blank_order now code i)
       \<lparr>ord_user_id := Some user, ord_status := Some Ord_PENDING_PAYMENT,
        ord_payment_status := Some Pay_PENDING, ord_currency := VND,
        ord_shipping_fee := Some (of_int SHIPPING_FEE),
        ord_expired_at := now + ORDER_EXPIRED_SECONDS * 1000,
        ord_total := Some amount, ord_subtotal := Some sub, ord_address_id := Some address\<rparr>)"

definition delete_order :: "int \<Rightarrow> order_row action" where
  [service_defs]: "delete_order i = delete_order_by_id i"

record order_list_item =
  oli_id :: int
  oli_code :: string
  oli_status :: "order_status option"
  oli_placed_at :: int
  oli_subtotal :: "rat option"
  oli_shipping_fee :: "rat option"
  oli_discount :: "rat option"
  oli_total :: "rat option"

definition to_list_item :: "order_row \<Rightarrow> order_list_item" where
  [service_defs]: "to_list_item r =
     \<lparr>oli_id = ord_id r, oli_code = ord_code r, oli_status = ord_status r,
      oli_placed_at = (case ord_placed_at r of Some t \<Rightarrow> t | None \<Rightarrow> ord_created_at r),
      oli_subtotal = map_option f64 (ord_subtotal r),
      oli_shipping_fee = map_option f64 (ord_shipping_fee r),
      oli_discount = map_option f64 (ord_discount r), oli_total = map_option f64 (ord_total r)\<rparr>"

definition get_order_guest :: "int \<Rightarrow> int \<Rightarrow> int \<Rightarrow> db \<Rightarrow> order_list_item list" where
  [service_defs]: "get_order_guest guest page limit d = map to_list_item (find_orders_by_guest guest page limit d)"

definition get_order_user :: "int \<Rightarrow> int \<Rightarrow> int \<Rightarrow> db \<Rightarrow> order_list_item list" where
  [service_defs]: "get_order_user user page limit d = map to_list_item (find_orders_by_user user page limit d)"

text \<open>The list and detail routes: a guest session wins over a signed-in user.\<close>

definition get_orders :: "int option \<Rightarrow> int option \<Rightarrow> int option \<Rightarrow> int option \<Rightarrow> db \<Rightarrow> order_list_item list res" where
  [service_defs]: "get_orders guest user page limit d =
     (let p = (case page of Some n \<Rightarrow> n | None \<Rightarrow> 1); l = (case limit of Some n \<Rightarrow> n | None \<Rightarrow> 12) in
      case guest of
        Some g \<Rightarrow> Inr (get_order_guest g p l d)
      | None \<Rightarrow> (case user of None \<Rightarrow> Inl (Unauthorized []) | Some u \<Rightarrow> Inr (get_order_user u p l d)))"

definition get_order_detail ::
    "(int \<Rightarrow> 'b) \<Rightarrow> int option \<Rightarrow> int option \<Rightarrow> int \<Rightarrow> db
       \<Rightarrow> (int \<times> int \<times> (snapshot_row \<times> 'b) option) list res" where
  [service_defs]: "get_order_detail book_card guest user order d =
     (case guest of
        Some g \<Rightarrow> Inr (find_order_detail_by_guest book_card order g d)
      | None \<Rightarrow> (case user of None \<Rightarrow> Inl (Unauthorized [])
                  | Some u \<Rightarrow> Inr (find_order_detail_by_user book_card order u d)))"

text \<open>\<open>Map.set\<close> on an insertion-ordered map, and \<open>Map.get(key) ?? 0\<close>.\<close>

definition js_map_set :: "'k \<Rightarrow> 'v \<Rightarrow> ('k \<times> 'v) list \<Rightarrow> ('k \<times> 'v) list" where
  "js_map_set k v m =
     (if k \<in> fst ` set m then map (\<lambda>(k', v'). if k' = k then (k', v) else (k', v')) m else m @ [(k, v)])"

definition add_quantity :: "int \<times> int \<Rightarrow> variant_quantities \<Rightarrow> variant_quantities" where
  "add_quantity kq m = (case kq of (k, q) \<Rightarrow> js_map_set k (qty m k + q) m)"

definition clean_order :: "int \<Rightarrow> int option action" where
  [service_defs]: "clean_order now d =
     await (find_order_is_expire now d) (\<lambda>expired d.
       if expired = [] then (Inr (Some 0), d)
       else let m = fold add_quantity (concat expired) []
            in await (clear_order now m d) (\<lambda>_ d. (Inr None, d)))"

text \<open>The scheduled job swallows every error.\<close>

definition cleanup_order_job :: "int \<Rightarrow> db \<Rightarrow> db" where
  [service_defs]: "cleanup_order_job now d = snd (clean_order now d)"

text \<open>
  The two calls of \<open>Promise.all\<close>: the raw update raises before the second call is made when a
  quantity is missing, otherwise both run.
\<close>

definition update_order_done :: "variant_quantities \<Rightarrow> int \<Rightarrow> unit action" where
  [service_defs]: "update_order_done m i d =
     await (decrement_variants_stock (map fst m) m d) (\<lambda>_ d.
       await (update_order_status_by_id i Ord_PAID d) (\<lambda>_ d. (Inr (), d)))"

definition update_order_not_done :: "variant_quantities \<Rightarrow> int \<Rightarrow> unit action" where
  [service_defs]: "update_order_not_done m i d =
     await (increment_variants_stock (map fst m) m d) (\<lambda>_ d.
       await (update_order_status_by_id i Ord_PENDING_PAYMENT d) (\<lambda>_ d. (Inr (), d)))"

section \<open>Lemmas: insertion-ordered maps\<close>

lemma map_of_replace:
  "map_of (map (\<lambda>(k', v'). if k' = k then (k', v) else (k', v')) m) j =
     (if j = k then map_option (\<lambda>_. v) (map_of m k) else map_of m j)"
  by (induction m) auto

lemma map_of_js_map_set: "map_of (js_map_set k v m) = (map_of m)(k \<mapsto> v)"
proof (rule ext)
  fix j
  show "map_of (js_map_set k v m) j = ((map_of m)(k \<mapsto> v)) j"
  proof (cases "map_of m k")
    case None
    then have "k \<notin> fst ` set m" by (simp add: map_of_eq_None_iff)
    with None show ?thesis by (simp add: js_map_set_def map_add_def split: option.split)
  next
    case (Some w)
    then have "k \<in> fst ` set m" by (metis domI dom_map_of_conv_image_fst)
    with Some show ?thesis by (simp add: js_map_set_def map_of_replace)
  qed
qed

lemma fst_js_map_set:
  "map fst (js_map_set k v m) = (if k \<in> fst ` set m then map fst m else map fst m @ [k])"
  by (auto simp: js_map_set_def)

lemma distinct_js_map_set: "distinct (map fst m) \<Longrightarrow> distinct (map fst (js_map_set k v m))"
  by (simp add: fst_js_map_set)

lemma qty_js_map_set: "qty (js_map_set k v m) j = (if j = k then v else qty m j)"
  by (simp add: qty_def map_of_js_map_set)

definition quantity_of :: "(int \<times> int) list \<Rightarrow> int \<Rightarrow> int" where
  "quantity_of ps j = sum_list (map snd (filter (\<lambda>p. fst p = j) ps))"

lemma quantity_of_simps [simp]:
  "quantity_of [] j = 0"
  "quantity_of ((k, q) # ps) j = (if k = j then q else 0) + quantity_of ps j"
  by (simp_all add: quantity_of_def)

lemma fold_add_quantity:
  "qty (fold add_quantity ps m) j = qty m j + quantity_of ps j"
  "distinct (map fst m) \<Longrightarrow> distinct (map fst (fold add_quantity ps m))"
  by (induction ps arbitrary: m) (auto simp: add_quantity_def qty_js_map_set distinct_js_map_set)

section \<open>Lemmas: released variants\<close>

definition released :: "int \<Rightarrow> variant_row \<Rightarrow> variant_row" where
  "released q v = v\<lparr>bv_stock := bv_stock v + q, bv_reserved := bv_reserved v - q\<rparr>"

lemma released_0 [simp]: "released 0 v = v"
  by (simp add: released_def)

lemma variant_of_release_all:
  assumes "distinct (map fst m)"
  shows "variant_of (fold release_variant m d) j = map_option (released (qty m j)) (variant_of d j)"
proof -
  let ?m = "map (\<lambda>(k, q). (k, released q)) m"
  let ?step = "\<lambda>s (k, f). s\<lparr>variants := map_rows (\<lambda>v. bv_id v = k) f (variants s)\<rparr>"
  have fold: "fold release_variant m d = foldl ?step d ?m" for d
  proof (induction m arbitrary: d)
    case (Cons kq m)
    then show ?case
      by (cases kq) (simp add: release_variant_def released_def [abs_def])
  qed simp
  have keys: "distinct (map fst ?m)"
    using assms by (simp add: comp_def case_prod_beta)
  have ids: "\<forall>v. bv_id (f v) = bv_id v" if "(k, f) \<in> set ?m" for k f
    using that by (auto simp: released_def)
  have "map_of ?m j = map_option released (map_of m j)"
    by (induction m) auto
  then have "variant_of (foldl ?step d ?m) j =
      (case map_option released (map_of m j) of None \<Rightarrow> variant_of d j
       | Some f \<Rightarrow> map_option f (variant_of d j))"
    using variant_store.lookup_modify_batch [OF keys ids, where j = j and s = d] by simp
  then show ?thesis
    unfolding fold
    by (cases "map_of m j"; cases "variant_of d j") (simp_all add: qty_def)
qed

lemma release_frame [simp]:
  "orders (fold release_variant m d) = orders d"
  "order_items (fold release_variant m d) = order_items d"
  by (induction m arbitrary: d) (auto simp: release_variant_def)

lemma cancel_expired_variant [simp]: "variant_of (cancel_expired_orders now d) j = variant_of d j"
  by (simp add: cancel_expired_orders_def variant_of_def)

lemma clean_order_state:
  assumes "find_order_is_expire now d = (Inr expired, d)" and "expired \<noteq> []"
  shows "clean_order now d =
           (Inr None, cancel_expired_orders now (fold release_variant (fold add_quantity (concat expired) []) d))"
  using assms by (simp add: clean_order_def clear_order_def transaction_def)

lemma find_order_is_expire_state [simp]: "snd (find_order_is_expire now d) = d"
  by (simp add: find_order_is_expire_def Let_def split: option.split)

lemma order_of_update:
  assumes "\<And>r. ord_id (f r) = ord_id r"
  shows "order_of (snd (update_order_by_id i f d)) j =
           (if j = i then map_option f (order_of d j) else order_of d j)"
proof (cases "order_of d i")
  case None
  then show ?thesis by (simp add: update_order_by_id_def)
next
  case (Some r)
  then show ?thesis
    using order_store.lookup_modify_if [where f = f and j = j and k = i and s = d] assms by (simp add: update_order_by_id_def)
qed

lemma update_order_frame [row_frame]:
  "variants (snd (update_order_by_id i f d)) = variants d"
  "order_items (snd (update_order_by_id i f d)) = order_items d"
  "snapshots (snd (update_order_by_id i f d)) = snapshots d"
  "payment_intents (snd (update_order_by_id i f d)) = payment_intents d"
  "payment_transactions (snd (update_order_by_id i f d)) = payment_transactions d"
  "webhook_inbox (snd (update_order_by_id i f d)) = webhook_inbox d"
  by (simp_all add: update_order_by_id_def split: option.split)

section \<open>The invariant of orders and items\<close>

text \<open>
  Identifiers and codes of orders are unique and every item belongs to an order. Each operation of
  the repositories keeps it, so every sequence of calls does.
\<close>

definition order_inv :: "db \<Rightarrow> bool" where
  "order_inv d \<longleftrightarrow>
     wf_table ord_id (orders d) \<and> distinct (map ord_code (rows (orders d)))
     \<and> (\<forall>x\<in>set (rows (order_items d)). oi_order_id x \<in> ord_id ` set (rows (orders d)))"

lemma order_of_in: "order_of d i = Some r \<Longrightarrow> r \<in> set (rows (orders d)) \<and> ord_id r = i"
  by (auto simp: order_of_def dest: find_row_SomeD)

lemma order_of_unique:
  assumes "wf_table ord_id (orders d)" and "r \<in> set (rows (orders d))"
  shows "order_of d (ord_id r) = Some r"
  using find_row_key [OF assms] by (simp add: order_of_def)

lemma order_inv_create:
  assumes "order_inv d" and "\<And>n. ord_id (mk n) = n"
  shows "order_inv (snd (create_order mk d))"
  using assms
  by (auto simp: order_inv_def create_order_def Let_def order_clash_def wf_insert_row)

lemma order_inv_map_orders:
  assumes "order_inv d" and "\<And>r. ord_id (f r) = ord_id r" and "\<And>r. ord_code (f r) = ord_code r"
  shows "order_inv (d\<lparr>orders := map_rows P f (orders d)\<rparr>)"
proof -
  let ?g = "\<lambda>r. if P r then f r else r"
  have g: "ord_code (?g r) = ord_code r" "ord_id (?g r) = ord_id r" for r
    using assms(2,3) by simp_all
  have "distinct (map ord_code (map ?g (rows (orders d))))"
    using assms(1) unfolding order_inv_def distinct_map_same_key [of ord_code ?g, OF g(1)] by simp
  moreover have "ord_id ` set (map ?g (rows (orders d))) = ord_id ` set (rows (orders d))"
    by (simp only: set_map image_image g(2))
  ultimately show ?thesis
    using assms unfolding order_inv_def by (simp add: wf_map_rows)
qed

lemma order_inv_update:
  assumes "order_inv d" and "\<And>r. ord_id (f r) = ord_id r" and "\<And>r. ord_code (f r) = ord_code r"
  shows "order_inv (snd (update_order_by_id i f d))"
  using order_inv_map_orders [OF assms] assms(1)
  by (simp add: update_order_by_id_def split: option.split)

lemma order_inv_delete:
  assumes "order_inv d"
  shows "order_inv (snd (delete_order_by_id i d))"
proof (cases "order_of d i")
  case None
  with assms show ?thesis by (simp add: delete_order_by_id_def)
next
  case (Some r)
  have "\<exists>y\<in>set (rows (orders d)). ord_id y \<noteq> ord_id r \<and> oi_order_id x = ord_id y"
    if "x \<in> set (rows (order_items d))" "oi_order_id x \<noteq> ord_id r" for x
    using assms that unfolding order_inv_def image_iff by metis
  with assms Some show ?thesis
    by (simp add: order_inv_def delete_order_by_id_def delete_order_cascade_def wf_delete_rows
        distinct_map_filter image_iff) blast
qed

lemma order_inv_items:
  assumes "order_inv d"
  shows "order_inv (snd (create_many_order_items now i ps d))"
proof -
  have rows: "rows (insert_rows mks t) = rows t @ map (\<lambda>(mk, k). mk (serial t + int k)) (zip mks [0..<length mks])"
    for mks and t :: "order_item_row table"
  proof (induction mks rule: rev_induct)
    case (snoc mk mks)
    have "serial (insert_rows mks t) = serial t + int (length mks)"
      by (induction mks arbitrary: t) simp_all
    with snoc show ?case by (simp add: insert_rows_def)
  qed simp
  have "oi_order_id x = i"
    if "x \<in> set (rows (insert_rows (map (new_order_item now i) ps) (order_items d)))"
      and "x \<notin> set (rows (order_items d))" for x
    using that by (auto simp: rows new_order_item_def dest!: set_zip_leftD)
  moreover have "i \<in> ord_id ` set (rows (orders d))" if "order_of d i \<noteq> None"
    using that by (force dest: order_of_in)
  ultimately show ?thesis
    using assms unfolding order_inv_def create_many_order_items_def
    by (cases "ps = []") (simp_all split: if_split, metis)
qed

lemma order_inv_variants: "order_inv d \<Longrightarrow> order_inv (d\<lparr>variants := t\<rparr>)"
  by (simp add: order_inv_def)

lemma order_inv_decrement: "order_inv d \<Longrightarrow> order_inv (snd (decrement_variants_stock ks m d))"
  by (simp add: decrement_variants_stock_def Let_def order_inv_variants)

lemma order_inv_increment: "order_inv d \<Longrightarrow> order_inv (snd (increment_variants_stock ks m d))"
  by (simp add: increment_variants_stock_def Let_def order_inv_variants)

lemma order_inv_clean:
  assumes "order_inv d"
  shows "order_inv (snd (clean_order now d))"
proof -
  have release: "order_inv (fold release_variant m d)" for m
    using assms by (induction m rule: rev_induct) (auto simp: release_variant_def order_inv_variants)
  have "order_inv (cancel_expired_orders now (fold release_variant m d))" for m
    unfolding cancel_expired_orders_def by (intro order_inv_map_orders release) simp_all
  with assms show ?thesis
    by (simp add: clean_order_def find_order_is_expire_def clear_order_def transaction_def Let_def
        split: option.split)
qed

datatype order_call =
    Place_guest_order int int string rat rat
  | Place_user_order int int string rat rat int
  | Remove_order int
  | Set_order_status int order_status
  | Add_order_items int int "item_payload list"
  | Order_done variant_quantities int
  | Order_not_done variant_quantities int
  | Clean_orders int

fun order_step :: "order_call \<Rightarrow> db \<Rightarrow> db" where
  "order_step (Place_guest_order now g code a s) d = snd (create_guest_order now g code a s d)"
| "order_step (Place_user_order now u code a s ad) d = snd (create_user_order now u code a s ad d)"
| "order_step (Remove_order i) d = snd (delete_order i d)"
| "order_step (Set_order_status i s) d = snd (update_order_status_by_id i s d)"
| "order_step (Add_order_items now i ps) d = snd (create_many_order_items now i ps d)"
| "order_step (Order_done m i) d = snd (update_order_done m i d)"
| "order_step (Order_not_done m i) d = snd (update_order_not_done m i d)"
| "order_step (Clean_orders now) d = snd (clean_order now d)"

lemma order_inv_done: "order_inv d \<Longrightarrow> order_inv (snd (update_order_done m i d))"
  using order_inv_decrement [of d "map fst m" m]
  by (cases "decrement_variants_stock (map fst m) m d"; cases "fst (decrement_variants_stock (map fst m) m d)")
     (auto simp: update_order_done_def update_order_status_by_id_def intro: order_inv_update)

lemma order_inv_not_done: "order_inv d \<Longrightarrow> order_inv (snd (update_order_not_done m i d))"
  using order_inv_increment [of d "map fst m" m]
  by (cases "increment_variants_stock (map fst m) m d"; cases "fst (increment_variants_stock (map fst m) m d)")
     (auto simp: update_order_not_done_def update_order_status_by_id_def intro: order_inv_update)

interpretation order_machine: machine order_step order_inv
proof
  fix d c
  assume "order_inv d"
  then show "order_inv (order_step c d)"
    by (cases c)
       (simp_all add: create_guest_order_def create_user_order_def delete_order_def
         update_order_status_by_id_def order_inv_create blank_order_def order_inv_delete
         order_inv_update order_inv_items order_inv_done order_inv_not_done order_inv_clean)
qed

section \<open>Properties\<close>

text \<open>
  Whatever sequence of order operations runs, with whatever results, order identifiers and order
  codes stay unique and no order item is left without its order (deleting an order takes its items
  along).
\<close>
theorem order_calls_keep_invariant:
  assumes "order_inv d"
  shows "order_inv (fold order_step calls d)"
  using assms by (rule order_machine.run_inv)

lemma order_inv_empty: "order_inv empty_db"
  by (simp add: order_inv_def empty_db_def)

lemma order_calls_keep_invariant_witness:
  "order_inv (fold order_step
     [Place_user_order 0 7 ''VLR1'' 120000 100000 4, Add_order_items 0 1 [], Remove_order 1] empty_db)"
  using order_calls_keep_invariant [OF order_inv_empty] .

text \<open>
  Deleting an order leaves no item, address, payment transaction or payment intent of it, and
  keeps every other order with its items.
\<close>
theorem delete_order_cascades:
  assumes "order_inv d" and "order_of d i = Some r"
  defines "d' \<equiv> snd (delete_order i d)"
  shows "order_of d' i = None \<and> items_of_order d' i = []
       \<and> (\<forall>a\<in>set (rows (order_addresses d')). oa_order_id a \<noteq> i)
       \<and> (\<forall>p\<in>set (rows (payment_transactions d')). pt_order_id p \<noteq> Some i)
       \<and> (\<forall>p\<in>set (rows (payment_intents d')). pi_order_code p \<noteq> ord_code r)
       \<and> (j \<noteq> i \<longrightarrow> order_of d' j = order_of d j \<and> items_of_order d' j = items_of_order d j)"
proof -
  have i: "ord_id r = i" using assms(2) by (auto dest: order_of_in)
  have d': "d' = delete_order_cascade r d"
    using assms(2) by (simp add: d'_def delete_order_def delete_order_by_id_def)
  have "List.find (\<lambda>r. ord_id r = j) (filter (\<lambda>x. ord_id x \<noteq> i) xs) = List.find (\<lambda>r. ord_id r = j) xs"
    if "j \<noteq> i" for xs
    using that by (induction xs) auto
  then have "j \<noteq> i \<Longrightarrow> order_of d' j = order_of d j"
    by (simp add: d' delete_order_cascade_def order_of_def find_row_def i)
  moreover have "j \<noteq> i \<Longrightarrow> items_of_order d' j = items_of_order d j"
    by (auto simp: d' delete_order_cascade_def items_of_order_def select_rows_def i intro: filter_cong)
  ultimately show ?thesis
    by (auto simp: d' delete_order_cascade_def items_of_order_def select_rows_def order_of_def
        find_row_None i)
qed

definition sample_items :: "order_item_row list" where
  "sample_items =
     [\<lparr>oi_id = 1, oi_order_id = 1, oi_snapshot_id = 5, oi_quantity = 2, oi_unit_price = 50000,
       oi_line_total = 100000, oi_created_at = 0\<rparr>]"

definition sample_snapshot :: snapshot_row where
  "sample_snapshot = \<lparr>bvs_id = 5, bvs_variant_id = 1, bvs_content_hash = None, bvs_price = 50000,
     bvs_format = PAPERBACK, bvs_isbn = None\<rparr>"

definition sample_shop :: db where
  "sample_shop = sample_stock
     \<lparr>orders := \<lparr>rows = [sample_order 1 ''VLR1'' 120000, sample_order 2 ''VLR2'' 70000], serial = 3\<rparr>,
      order_items := \<lparr>rows = sample_items, serial = 2\<rparr>,
      snapshots := \<lparr>rows = [sample_snapshot], serial = 6\<rparr>\<rparr>"

lemma sample_shop_orders [simp]:
  "order_of sample_shop 1 = Some (sample_order 1 ''VLR1'' 120000)"
  "order_of sample_shop 2 = Some (sample_order 2 ''VLR2'' 70000)"
  "order_inv sample_shop"
  by (simp_all add: sample_shop_def order_of_def find_row_def sample_order_def order_inv_def
      wf_table_def sample_items_def)

lemma delete_order_cascades_witness:
  "order_of (snd (delete_order 1 sample_shop)) 1 = None
   \<and> items_of_order (snd (delete_order 1 sample_shop)) 1 = []
   \<and> order_of (snd (delete_order 1 sample_shop)) 2 = Some (sample_order 2 ''VLR2'' 70000)"
  using delete_order_cascades [of sample_shop 1 "sample_order 1 ''VLR1'' 120000" 2] by simp

text \<open>
  The order list of a user shows orders of that user only, newest first, and not more than the
  page size.
\<close>
theorem order_list_is_own:
  assumes "0 \<le> limit"
  shows "set (find_orders_by_user u page limit d) \<subseteq> {r \<in> set (rows (orders d)). ord_user_id r = Some u}
       \<and> sorted (map (\<lambda>r. - ord_created_at r) (find_orders_by_user u page limit d))
       \<and> int (length (get_order_user u page limit d)) \<le> limit
       \<and> map oli_id (get_order_user u page limit d) = map ord_id (find_orders_by_user u page limit d)"
proof -
  let ?xs = "sort_key (\<lambda>r. - ord_created_at r) (select_rows (\<lambda>r. ord_user_id r = Some u) (orders d))"
  have "set (page_slice page limit ?xs) \<subseteq> set ?xs" by (rule set_page_slice)
  moreover have "sorted (map (\<lambda>r. - ord_created_at r) (page_slice page limit ?xs))"
    unfolding page_slice_map [symmetric] by (simp add: page_slice_def sorted_wrt_take sorted_wrt_drop)
  ultimately show ?thesis
    using length_page_slice [OF assms, of page ?xs]
    by (auto simp: find_orders_by_user_def get_order_user_def to_list_item_def)
qed

lemma order_list_is_own_witness:
  "int (length (get_order_user 7 1 1 sample_shop)) \<le> 1
   \<and> set (find_orders_by_user 7 1 1 sample_shop) \<subseteq> {r \<in> set (rows (orders sample_shop)). ord_user_id r = Some 7}"
  using order_list_is_own [OF zero_le_one, of 7 1 sample_shop] by blast

text \<open>
  Cleaning up expired orders changes the stock itself: for every variant the ordered quantity
  \<open>q\<close> is taken out of \<open>reserved\<close> and also added to \<open>stock\<close>, so the free stock grows by \<open>2 q\<close>
  although placing the order had only reserved \<open>q\<close>.
\<close>
theorem cleanup_stock_effect:
  assumes "fst (find_order_is_expire now d) = Inr expired" and "expired \<noteq> []"
    and "variant_of d k = Some v"
  defines "q \<equiv> quantity_of (concat expired) k"
  shows "variant_of (snd (clean_order now d)) k =
           Some (v\<lparr>bv_stock := bv_stock v + q, bv_reserved := bv_reserved v - q\<rparr>)
       \<and> (let v' = the (variant_of (snd (clean_order now d)) k)
          in bv_stock v' - bv_reserved v' = bv_stock v - bv_reserved v + 2 * q)"
proof -
  have expired: "find_order_is_expire now d = (Inr expired, d)"
    using assms(1) by (metis find_order_is_expire_state prod.collapse)
  have "distinct (map fst (fold add_quantity (concat expired) []))"
    by (rule fold_add_quantity) simp
  then have "variant_of (snd (clean_order now d)) k = Some (released q v)"
    using assms(3) fold_add_quantity(1) [of "concat expired" "[]" k]
    by (simp add: clean_order_state [OF expired assms(2)] variant_of_release_all q_def qty_def)
  then show ?thesis by (simp add: released_def)
qed

lemma sample_shop_expired:
  "fst (find_order_is_expire 3000000 sample_shop) = Inr [[(1, 2)], []]"
  by (simp add: find_order_is_expire_def sample_shop_def select_rows_def sample_order_def
      expires_before_def PAYMENT_INTENT_EXPIRES_IN_MS_def item_quantities_def items_of_order_def
      sample_items_def variant_id_of_item_def snapshot_of_def find_row_def sample_snapshot_def)

lemma sample_shop_variant [simp]: "variant_of sample_shop 1 = Some (sample_variant 1 5 2)"
  by (simp add: sample_shop_def variant_of_def find_row_def sample_stock_def sample_variant_def)

lemma cleanup_stock_effect_witness:
  "stock_of (snd (clean_order 3000000 sample_shop)) 1 = Some 7
   \<and> reserved_of (snd (clean_order 3000000 sample_shop)) 1 = Some 0"
  using cleanup_stock_effect [OF sample_shop_expired, of 1 "sample_variant 1 5 2"]
  by (simp add: stock_of_def reserved_of_def sample_variant_def)

text \<open>
  The cleanup cancels orders before they expire: a pending order whose expiry lies ahead of the
  clock by less than one hour is set to cancelled and its payment to expired.
\<close>
theorem cleanup_cancels_before_expiry:
  assumes "order_inv d" and "order_of d i = Some r"
    and "ord_status r = Some Ord_PENDING_PAYMENT" and "ord_payment_status r = Some Pay_PENDING"
    and "now \<le> ord_expired_at r" and "ord_expired_at r < now + 3600000"
    and "fst (find_order_is_expire now d) = Inr expired"
  shows "order_of (snd (clean_order now d)) i =
           Some (r\<lparr>ord_status := Some Ord_CANCELLED, ord_payment_status := Some Pay_EXPIRED\<rparr>)"
proof -
  have query: "find_order_is_expire now d = (Inr expired, d)"
    using assms(7) by (metis find_order_is_expire_state prod.collapse)
  have r: "r \<in> set (rows (orders d))" "ord_id r = i" using assms(2) by (auto dest: order_of_in)
  have due: "expires_before now r"
    using assms(3,6) by (simp add: expires_before_def PAYMENT_INTENT_EXPIRES_IN_MS_def)
  have "length expired = length (select_rows (\<lambda>r. expires_before now r
      \<and> ord_payment_status r = Some Pay_PENDING) (orders d))"
    using assms(7) by (auto simp: find_order_is_expire_def Let_def split: option.splits
        dest!: arg_cong [where f = "map_option length"] those_length)
  moreover have "r \<in> set (select_rows (\<lambda>r. expires_before now r
      \<and> ord_payment_status r = Some Pay_PENDING) (orders d))"
    using r due assms(4) by simp
  ultimately have "expired \<noteq> []" by (metis length_0_conv length_pos_if_in_set less_irrefl)
  then have state: "snd (clean_order now d) =
      cancel_expired_orders now (fold release_variant (fold add_quantity (concat expired) []) d)"
    using clean_order_state [OF query] by simp
  have frame: "order_of (fold release_variant m d) i = order_of d i" for m
    by (simp add: order_of_def)
  have cancelled: "order_of (cancel_expired_orders now d') i = map_option
      (\<lambda>r. if expires_before now r
           then r\<lparr>ord_status := Some Ord_CANCELLED, ord_payment_status := Some Pay_EXPIRED\<rparr> else r)
      (order_of d' i)" for d'
    by (simp add: cancel_expired_orders_def order_of_def find_row_map_rows_same)
  then show ?thesis
    using assms(2) due by (simp add: state cancelled frame)
qed

lemma cleanup_cancels_before_expiry_witness:
  "map_option ord_status (order_of (snd (clean_order 3000000 sample_shop)) 1) = Some (Some Ord_CANCELLED)
   \<and> (3000000 :: int) < ord_expired_at (sample_order 1 ''VLR1'' 120000)"
  using cleanup_cancels_before_expiry
    [of sample_shop 1 "sample_order 1 ''VLR1'' 120000" 3000000, OF _ _ _ _ _ _ sample_shop_expired]
  by (simp add: sample_order_def)

end
