(* ===== verification/Webhook.thy ===== *)
theory Webhook
  imports Orders
begin

text \<open>
  The payment webhook of the bank gateway: \<open>src/src/modules/hooks\<close> (\<open>HooksService\<close>,
  \<open>HooksRepository\<close>). \<open>handle_sepay_webhook\<close> is the whole handler with every early return: the event
  is stored in the inbox, matched with a payment intent by the transfer content, checked for expiry
  and amount, recorded as a payment transaction, and on an exact payment the order is marked paid and
  its items are taken out of the stock.
\<close>

record sepay_body =
  sb_id :: int
  sb_content :: "string option"
  sb_amount :: rat

section \<open>The repository\<close>

definition is_sepay_event :: "int \<Rightarrow> webhook_row \<Rightarrow> bool" where
  "is_sepay_event key w \<longleftrightarrow> wh_gateway w = SEPAY \<and> wh_idempotency_key w = key"

definition new_webhook :: "int \<Rightarrow> int \<Rightarrow> int \<Rightarrow> webhook_row" where
  "new_webhook now key i =
     \<lparr>wh_id = i, wh_gateway = SEPAY, wh_idempotency_key = key, wh_received_at = now,
      wh_processed_at = None, wh_status = Some Job_PENDING, wh_attempts = Some 0\<rparr>"

definition save_sepay_webhook :: "int \<Rightarrow> int \<Rightarrow> webhook_row action" where
  [repo_defs]: "save_sepay_webhook now key d =
     (case find_row (is_sepay_event key) (webhook_inbox d) of
        None \<Rightarrow>
          (Inr (new_webhook now key (serial (webhook_inbox d))),
           d\<lparr>webhook_inbox := insert_row (new_webhook now key) (webhook_inbox d)\<rparr>)
      | Some w \<Rightarrow>
          (Inr (w\<lparr>wh_received_at := now, wh_status := Some Job_PENDING\<rparr>),
           d\<lparr>webhook_inbox := map_rows (is_sepay_event key)
               (\<lambda>w. w\<lparr>wh_received_at := now, wh_status := Some Job_PENDING\<rparr>) (webhook_inbox d)\<rparr>))"

definition find_webhook_by_key :: "int \<Rightarrow> payment_gateway \<Rightarrow> db \<Rightarrow> webhook_row option" where
  [repo_defs]: "find_webhook_by_key key gateway d =
     find_row (\<lambda>w. wh_gateway w = gateway \<and> wh_idempotency_key w = key) (webhook_inbox d)"

definition find_webhooks_by_criteria ::
    "payment_gateway option \<Rightarrow> int \<Rightarrow> job_status option \<Rightarrow> db \<Rightarrow> webhook_row list" where
  [repo_defs]: "find_webhooks_by_criteria gateway key status d =
     sort_key (\<lambda>w. - wh_received_at w) (select_rows (\<lambda>w.
       (case gateway of None \<Rightarrow> True | Some g \<Rightarrow> wh_gateway w = g) \<and> wh_idempotency_key w = key
       \<and> (case status of None \<Rightarrow> True | Some s \<Rightarrow> wh_status w = Some s)) (webhook_inbox d))"

definition processed :: "int \<Rightarrow> job_status \<Rightarrow> int \<Rightarrow> webhook_row \<Rightarrow> webhook_row" where
  "processed now status attempts w =
     w\<lparr>wh_status := Some status, wh_attempts := Some attempts, wh_processed_at := Some now\<rparr>"

definition update_webhook_status :: "int \<Rightarrow> int \<Rightarrow> job_status \<Rightarrow> int \<Rightarrow> webhook_row action" where
  [repo_defs]: "update_webhook_status now i status attempts d =
     (case find_row (\<lambda>w. wh_id w = i) (webhook_inbox d) of
        None \<Rightarrow> (Inl P2025, d)
      | Some w \<Rightarrow>
          (Inr (processed now status attempts w),
           d\<lparr>webhook_inbox := map_rows (\<lambda>w. wh_id w = i) (processed now status attempts) (webhook_inbox d)\<rparr>))"

definition mark_order_and_payment_success :: "int \<Rightarrow> order_row action" where
  [repo_defs]: "mark_order_and_payment_success i = transaction (\<lambda>d.
     await (update_order_by_id i
              (\<lambda>r. r\<lparr>ord_status := Some Ord_PAID, ord_payment_status := Some Pay_SUCCESS\<rparr>) d)
       (\<lambda>order d. (Inr order,
          d\<lparr>payment_transactions := map_rows (\<lambda>t. pt_order_id t = Some i)
              (\<lambda>t. t\<lparr>pt_status := Some Pay_SUCCESS\<rparr>) (payment_transactions d)\<rparr>)))"

definition mark_payment_not_success :: "int \<Rightarrow> payment_status \<Rightarrow> unit action" where
  [repo_defs]: "mark_payment_not_success i status = transaction (\<lambda>d.
     if find_row (\<lambda>t. pt_id t = i) (payment_transactions d) = None then (Inl P2025, d)
     else (Inr (), d\<lparr>payment_transactions := map_rows (\<lambda>t. pt_id t = i)
              (\<lambda>t. t\<lparr>pt_status := Some status\<rparr>) (payment_transactions d)\<rparr>))"

section \<open>The handler\<close>

datatype webhook_response =
    Already_processed int int
  | Missing_content int
  | Intent_not_found string int
  | Intent_expired string int string
  | Already_success int string int
  | Mismatch int string int int string payment_status
  | Paid int string int int string "order_status option" "payment_status option"

fun response_success :: "webhook_response \<Rightarrow> bool" where
  "response_success (Already_processed _ _) = True"
| "response_success (Missing_content _) = True"
| "response_success (Intent_not_found _ _) = False"
| "response_success (Intent_expired _ _ _) = False"
| "response_success (Already_success _ _ _) = True"
| "response_success (Mismatch _ _ _ _ _ _) = False"
| "response_success (Paid _ _ _ _ _ _ _) = True"

definition save_payment_transaction ::
    "int \<Rightarrow> sepay_body \<Rightarrow> payment_status \<Rightarrow> (int \<times> int option) option \<Rightarrow> payment_transaction_row action" where
  [service_defs]: "save_payment_transaction now body status order =
     create_webhook_transaction now (sb_amount body) (map_option fst order)
       (Option.bind order snd) status"

definition handle_intent_expired ::
    "int \<Rightarrow> string \<Rightarrow> int \<Rightarrow> int \<Rightarrow> string \<Rightarrow> webhook_response action" where
  [service_defs]: "handle_intent_expired now content inbox attempts code d =
     await (promise_all (mark_payment_intent code Pay_EXPIRED)
              (update_webhook_status now inbox Job_FAILED attempts) d)
       (\<lambda>_. ret (Intent_expired content inbox code))"

definition handle_intent_not_found :: "int \<Rightarrow> string \<Rightarrow> int \<Rightarrow> int \<Rightarrow> webhook_response action" where
  [service_defs]: "handle_intent_not_found now content inbox attempts d =
     await (update_webhook_status now inbox Job_FAILED attempts d)
       (\<lambda>_. ret (Intent_not_found content inbox))"

definition handle_already_processed_intent ::
    "int \<Rightarrow> string \<Rightarrow> string \<Rightarrow> int \<Rightarrow> int \<Rightarrow> int \<Rightarrow> webhook_response action" where
  [service_defs]: "handle_already_processed_intent now content code inbox attempts key d =
     await (promise_all (mark_payment_intent code Pay_SUCCESS)
              (update_webhook_status now inbox Job_DONE attempts) d)
       (\<lambda>_. ret (Already_success key content inbox))"

definition handle_without_content :: "int \<Rightarrow> sepay_body \<Rightarrow> int \<Rightarrow> int \<Rightarrow> webhook_response action" where
  [service_defs]: "handle_without_content now body inbox attempts d =
     await (save_payment_transaction now body Pay_NOT_FOUND_ORDER_CODE None d) (\<lambda>_ d.
       await (update_webhook_status now inbox Job_DONE attempts d) (\<lambda>w. ret (Missing_content (wh_id w))))"

text \<open>\<open>new Map(entries)\<close>: the last quantity of a variant wins.\<close>

definition map_of_entries :: "(int \<times> int) list \<Rightarrow> variant_quantities" where
  "map_of_entries ps = foldl (\<lambda>m (k, q). js_map_set k q m) [] ps"

definition webhook_mark_done ::
    "int \<Rightarrow> int \<Rightarrow> int \<Rightarrow> int \<Rightarrow> string \<Rightarrow> (order_row \<times> webhook_row) action" where
  [service_defs]: "webhook_mark_done now order_id inbox attempts code d =
     await (promise_all (mark_order_and_payment_success order_id)
              (promise_all (update_webhook_status now inbox Job_DONE attempts)
                 (mark_payment_intent code Pay_SUCCESS)) d) (\<lambda>(paid, inbox_row, _) d.
       await (find_order_items_with_variant (ord_id paid) d) (\<lambda>found d.
         let m = map_of_entries (case found of None \<Rightarrow> [] | Some (_, ps) \<Rightarrow> ps) in
         await (catching (update_order_done m (ord_id paid) d) (\<lambda>_ d.
                  await (update_order_not_done m (ord_id paid) d) (\<lambda>_. throw InternalServerError)))
           (\<lambda>_. ret (paid, inbox_row))))"

definition handle_mismatch ::
    "int \<Rightarrow> sepay_body \<Rightarrow> string \<Rightarrow> int \<Rightarrow> int \<Rightarrow> payment_intent_row \<Rightarrow> order_row \<Rightarrow> webhook_response action" where
  [service_defs]: "handle_mismatch now body content inbox attempts intent order d =
     (let status = (if sb_amount body < number_of_decimal (ord_total order)
                    then Pay_SHORTFALL else Pay_OVERAGE) in
      await (save_payment_transaction now body status (Some (ord_id order, ord_user_id order)) d) (\<lambda>t d.
      await (mark_payment_not_success (pt_id t) status d) (\<lambda>_ d.
      await (update_webhook_status now inbox Job_FAILED attempts d) (\<lambda>_ d.
        if status = Pay_OVERAGE
        then handle_already_processed_intent now content (pi_order_code intent) inbox attempts (sb_id body) d
        else (Inr (Mismatch (sb_id body) content inbox (ord_id order) (ord_code order) status), d)))))"

definition handle_known_order ::
    "int \<Rightarrow> sepay_body \<Rightarrow> string \<Rightarrow> int \<Rightarrow> int \<Rightarrow> payment_intent_row \<Rightarrow> order_row \<Rightarrow> webhook_response action" where
  [service_defs]: "handle_known_order now body content inbox attempts intent order d =
     (let ref = Some (ord_id order, ord_user_id order) in
      if pi_expired_at intent < now
      then await (save_payment_transaction now body Pay_EXPIRED ref d)
             (\<lambda>_. handle_intent_expired now content inbox attempts (pi_order_code intent))
      else if pi_status intent = Some Pay_SUCCESS
      then await (save_payment_transaction now body Pay_SUCCESS ref d)
             (\<lambda>_. handle_already_processed_intent now content (pi_order_code intent) inbox attempts (sb_id body))
      else if sb_amount body \<noteq> number_of_decimal (ord_total order)
      then handle_mismatch now body content inbox attempts intent order d
      else await (save_payment_transaction now body Pay_SUCCESS ref d) (\<lambda>_ d.
             await (webhook_mark_done now (ord_id order) inbox attempts (pi_order_code intent) d)
               (\<lambda>(paid, inbox_row). ret (Paid (sb_id body) content (wh_id inbox_row) (ord_id paid)
                  (ord_code paid) (ord_status paid) (ord_payment_status paid)))))"

definition handle_sepay_webhook :: "int \<Rightarrow> sepay_body \<Rightarrow> webhook_response action" where
  [service_defs]: "handle_sepay_webhook now body d =
     (if sb_id body = 0 then (Inl (BadRequest ''MISSING_WEBHOOK_EVENT_ID''), d)
      else await (save_sepay_webhook now (sb_id body) d) (\<lambda>inbox d.
        if wh_status inbox = Some Job_DONE then (Inr (Already_processed (sb_id body) (wh_id inbox)), d)
        else let attempts = (case wh_attempts inbox of None \<Rightarrow> 0 | Some n \<Rightarrow> n) + 1;
                 content = map_option js_trim (sb_content body) in
          if \<not> js_truthy content then handle_without_content now body (wh_id inbox) attempts d
          else case find_intent_by_content (the content) d of
                 None \<Rightarrow>
                   await (save_payment_transaction now body Pay_NOT_FOUND_ORDER_CODE None d)
                     (\<lambda>_. handle_intent_not_found now (the content) (wh_id inbox) attempts)
               | Some (intent, None) \<Rightarrow>
                   await (save_payment_transaction now body Pay_NOT_FOUND_ORDER_CODE None d) (\<lambda>_ d.
                     await (update_webhook_status now (wh_id inbox) Job_FAILED attempts d)
                       (\<lambda>_. throw (BadRequest ''ORDER_NOT_FOUND'')))
               | Some (intent, Some order) \<Rightarrow>
                   handle_known_order now body (the content) (wh_id inbox) attempts intent order d))"

definition get_payment_status :: "string \<Rightarrow> payment_status option action" where
  [service_defs]: "get_payment_status code d =
     (case find_payment_by_order_code code d of
        None \<Rightarrow> (Inl (NotFound ''ORDER_NOT_FOUND''), d)
      | Some p \<Rightarrow>
          await (if pi_status p = Some Pay_SUCCESS
                 then case order_by_code d code of
                        None \<Rightarrow> (Inl (NotFound ''ORDER_NOT_FOUND''), d)
                      | Some r \<Rightarrow>
                          if ord_status r \<noteq> Some Ord_PAID \<or> ord_payment_status r \<noteq> Some Pay_SUCCESS
                          then await (mark_order_and_payment_success (ord_id r) d) (\<lambda>_. ret ())
                          else (Inr (), d)
                 else (Inr (), d))
            (\<lambda>_. ret (pi_status p)))"

definition get_payment_history :: "int \<Rightarrow> db \<Rightarrow> payment_history_row list" where
  [service_defs]: "get_payment_history order d = get_payment_history_by_order order 10 d"

section \<open>Lemmas: what each step leaves alone\<close>

lemma webhook_inbox_frame [simp]:
  "order_of (d\<lparr>webhook_inbox := t\<rparr>) i = order_of d i"
  "order_by_code (d\<lparr>webhook_inbox := t\<rparr>) c = order_by_code d c"
  "variant_of (d\<lparr>webhook_inbox := t\<rparr>) i = variant_of d i"
  "snapshot_of (d\<lparr>webhook_inbox := t\<rparr>) i = snapshot_of d i"
  "find_intent_by_content c (d\<lparr>webhook_inbox := t\<rparr>) = find_intent_by_content c d"
  "items_of_order (d\<lparr>webhook_inbox := t\<rparr>) i = items_of_order d i"
  by (simp_all add: order_of_def order_by_code_def variant_of_def snapshot_of_def
      find_intent_by_content_def with_order_def [abs_def] items_of_order_def)

lemma transactions_frame [simp]:
  "order_of (d\<lparr>payment_transactions := t\<rparr>) i = order_of d i"
  "order_by_code (d\<lparr>payment_transactions := t\<rparr>) c = order_by_code d c"
  "variant_of (d\<lparr>payment_transactions := t\<rparr>) i = variant_of d i"
  "snapshot_of (d\<lparr>payment_transactions := t\<rparr>) i = snapshot_of d i"
  "find_intent_by_content c (d\<lparr>payment_transactions := t\<rparr>) = find_intent_by_content c d"
  "items_of_order (d\<lparr>payment_transactions := t\<rparr>) i = items_of_order d i"
  by (simp_all add: order_of_def order_by_code_def variant_of_def snapshot_of_def
      find_intent_by_content_def with_order_def [abs_def] items_of_order_def)

lemma save_webhook_cases:
  obtains w t where "save_sepay_webhook now key d = (Inr w, d\<lparr>webhook_inbox := t\<rparr>)"
    and "w \<in> set (rows t)" and "wh_status w = Some Job_PENDING" and "is_sepay_event key w"
proof (cases "find_row (is_sepay_event key) (webhook_inbox d)")
  case None
  then show ?thesis
    by (intro that [of "new_webhook now key (serial (webhook_inbox d))"
          "insert_row (new_webhook now key) (webhook_inbox d)"])
       (simp_all add: save_sepay_webhook_def new_webhook_def is_sepay_event_def)
next
  case (Some w)
  then have "w \<in> set (rows (webhook_inbox d))" "is_sepay_event key w"
    by (auto dest: find_row_SomeD)
  with Some show ?thesis
    by (intro that [of "w\<lparr>wh_received_at := now, wh_status := Some Job_PENDING\<rparr>"
          "map_rows (is_sepay_event key) (\<lambda>w. w\<lparr>wh_received_at := now, wh_status := Some Job_PENDING\<rparr>)
             (webhook_inbox d)"])
       (auto simp: save_sepay_webhook_def is_sepay_event_def)
qed

lemma processed_id [simp]: "wh_id (processed now s a w) = wh_id w"
  by (simp add: processed_def)

lemma update_webhook_cases:
  assumes "w \<in> set (rows (webhook_inbox d))"
  obtains w' t where "update_webhook_status now (wh_id w) s a d = (Inr w', d\<lparr>webhook_inbox := t\<rparr>)"
    and "wh_id w' = wh_id w" and "processed now s a w \<in> set (rows t)"
proof (cases "find_row (\<lambda>x. wh_id x = wh_id w) (webhook_inbox d)")
  case None
  with assms show ?thesis by (auto simp: find_row_None)
next
  case (Some x)
  then have "wh_id x = wh_id w" by (auto dest: find_row_SomeD)
  moreover have "processed now s a w \<in> set (rows (map_rows (\<lambda>x. wh_id x = wh_id w) (processed now s a)
      (webhook_inbox d)))"
    using assms by force
  ultimately show ?thesis
    using Some
    by (intro that [of "processed now s a x" "map_rows (\<lambda>x. wh_id x = wh_id w) (processed now s a)
          (webhook_inbox d)"])
       (simp_all add: update_webhook_status_def)
qed

lemma update_webhook_state:
  "\<exists>t. snd (update_webhook_status now i s a d) = d\<lparr>webhook_inbox := t\<rparr>"
  by (rule exI [of _ "webhook_inbox (snd (update_webhook_status now i s a d))"])
     (simp add: update_webhook_status_def split: option.split)

lemma save_transaction_simp [simp]:
  "save_payment_transaction now body status ref d =
     (Inr (new_transaction now (map_option fst ref) (Option.bind ref snd) SEPAY (Some status)
             (sb_amount body) (serial (payment_transactions d))),
      d\<lparr>payment_transactions := insert_row (new_transaction now (map_option fst ref)
          (Option.bind ref snd) SEPAY (Some status) (sb_amount body)) (payment_transactions d)\<rparr>)"
  by (simp add: save_payment_transaction_def create_webhook_transaction_def insert_transaction_def)

section \<open>Lemmas: marking an order paid\<close>

definition paid_order :: "order_row \<Rightarrow> order_row" where
  "paid_order r = r\<lparr>ord_status := Some Ord_PAID, ord_payment_status := Some Pay_SUCCESS\<rparr>"

lemma paid_order_simps [simp]:
  "ord_id (paid_order r) = ord_id r" "ord_code (paid_order r) = ord_code r"
  "ord_status (paid_order r) = Some Ord_PAID" "ord_payment_status (paid_order r) = Some Pay_SUCCESS"
  "(paid_order r)\<lparr>ord_status := Some Ord_PAID\<rparr> = paid_order r"
  by (simp_all add: paid_order_def)

lemma mark_success_simp:
  assumes "order_of d i = Some r"
  shows "mark_order_and_payment_success i d =
           (Inr (paid_order r),
            d\<lparr>orders := map_rows (\<lambda>x. ord_id x = i) paid_order (orders d),
              payment_transactions := map_rows (\<lambda>t. pt_order_id t = Some i)
                (\<lambda>t. t\<lparr>pt_status := Some Pay_SUCCESS\<rparr>) (payment_transactions d)\<rparr>)"
  using assms
  by (simp add: mark_order_and_payment_success_def update_order_by_id_def transaction_def
      paid_order_def [abs_def])

lemma item_quantities_frame:
  "snapshots d' = snapshots d \<Longrightarrow> item_quantities d' xs = item_quantities d xs"
  by (simp add: item_quantities_def variant_id_of_item_def snapshot_of_def)

lemma decrement_settleable:
  assumes "settleable m"
  obtains n t where "decrement_variants_stock (map fst m) m d = (Inr n, d\<lparr>variants := t\<rparr>)"
    and "\<And>k. find_row (\<lambda>v. bv_id v = k) t = map_option (shift_stock (- 1) m) (variant_of d k)"
proof -
  define t where "t = variants (snd (decrement_variants_stock (map fst m) m d))"
  have state: "snd (decrement_variants_stock (map fst m) m d) = d\<lparr>variants := t\<rparr>"
    by (simp add: t_def decrement_variants_stock_def Let_def)
  show ?thesis
  proof (rule that)
    show "decrement_variants_stock (map fst m) m d =
        (Inr (count_rows (\<lambda>v. bv_id v \<in> set (map fst m)) (variants d)), d\<lparr>variants := t\<rparr>)"
      using decrement_result [OF assms] state by (simp add: prod_eq_iff)
    show "find_row (\<lambda>v. bv_id v = k) t = map_option (shift_stock (- 1) m) (variant_of d k)" for k
      using variant_of_decrement [OF assms, of d k] by (simp add: state) (simp add: variant_of_def)
  qed
qed

lemma order_of_paid:
  "find_row (\<lambda>x. ord_id x = j) (map_rows (\<lambda>x. ord_id x = i) paid_order (orders d)) =
     (if j = i then map_option paid_order (order_of d j) else order_of d j)"
  unfolding order_of_def by (rule find_key_modify) simp

lemma update_done_paid:
  assumes "settleable m" and "order_of d i = Some r"
  obtains t where "update_order_done m i d = (Inr (), d\<lparr>variants := t,
      orders := map_rows (\<lambda>x. ord_id x = i) (\<lambda>r. r\<lparr>ord_status := Some Ord_PAID\<rparr>) (orders d)\<rparr>)"
    and "\<And>k. find_row (\<lambda>v. bv_id v = k) t = map_option (shift_stock (- 1) m) (variant_of d k)"
proof -
  obtain n t where dec: "decrement_variants_stock (map fst m) m d = (Inr n, d\<lparr>variants := t\<rparr>)"
    and t: "\<And>k. find_row (\<lambda>v. bv_id v = k) t = map_option (shift_stock (- 1) m) (variant_of d k)"
    using decrement_settleable [OF assms(1)] by blast
  have "order_of (d\<lparr>variants := t\<rparr>) i = Some r" using assms(2) by (simp add: order_of_def)
  then show ?thesis
    using t by (intro that [of t])
      (simp_all add: update_order_done_def dec update_order_status_by_id_def update_order_by_id_def)
qed

lemma webhook_mark_done_paid:
  assumes r: "order_of d i = Some r"
    and items: "item_quantities d (items_of_order d i) = Inr ps"
    and m: "settleable (map_of_entries ps)"
    and w: "w \<in> set (rows (webhook_inbox d))"
  obtains w' d' where "webhook_mark_done now i (wh_id w) a code d = (Inr (paid_order r, w'), d')"
    and "wh_id w' = wh_id w" and "order_of d' i = Some (paid_order r)"
    and "\<And>k. variant_of d' k = map_option (shift_stock (- 1) (map_of_entries ps)) (variant_of d k)"
    and "processed now Job_DONE a w \<in> set (rows (webhook_inbox d'))"
    and "payment_transactions d' = map_rows (\<lambda>t. pt_order_id t = Some i)
           (\<lambda>t. t\<lparr>pt_status := Some Pay_SUCCESS\<rparr>) (payment_transactions d)"
    and "payment_intents d' = map_rows (\<lambda>p. pi_order_code p = code)
           (\<lambda>p. p\<lparr>pi_status := Some Pay_SUCCESS\<rparr>) (payment_intents d)"
    and "j \<noteq> i \<Longrightarrow> order_of d' j = order_of d j"
proof -
  have i: "ord_id r = i" using r by (auto dest: order_of_in)
  define d1 where "d1 = d\<lparr>orders := map_rows (\<lambda>x. ord_id x = i) paid_order (orders d),
      payment_transactions := map_rows (\<lambda>t. pt_order_id t = Some i)
        (\<lambda>t. t\<lparr>pt_status := Some Pay_SUCCESS\<rparr>) (payment_transactions d)\<rparr>"
  have mark: "mark_order_and_payment_success i d = (Inr (paid_order r), d1)"
    unfolding d1_def by (rule mark_success_simp [OF r])
  have "w \<in> set (rows (webhook_inbox d1))" using w by (simp add: d1_def)
  then obtain w' t where upd: "update_webhook_status now (wh_id w) Job_DONE a d1 = (Inr w', d1\<lparr>webhook_inbox := t\<rparr>)"
    and w': "wh_id w' = wh_id w" "processed now Job_DONE a w \<in> set (rows t)"
    by (rule update_webhook_cases)
  define d2 where "d2 = snd (update_intent_status code Pay_SUCCESS (d1\<lparr>webhook_inbox := t\<rparr>))"
  have d2: "d2 = d1\<lparr>webhook_inbox := t, payment_intents := map_rows (\<lambda>p. pi_order_code p = code)
      (\<lambda>p. p\<lparr>pi_status := Some Pay_SUCCESS\<rparr>) (payment_intents d)\<rparr>"
    by (simp add: d2_def update_intent_status_def d1_def)
  have order2: "order_of d2 i = Some (paid_order r)"
    using order_of_paid [of i i d] r unfolding order_of_def by (simp add: d2 d1_def)
  have "item_quantities d2 (items_of_order d2 i) = Inr ps"
    using items item_quantities_frame [of d2 d] by (simp add: items_of_order_def d2 d1_def)
  then have found: "find_order_items_with_variant i d2 = (Inr (Some (i, ps)), d2)"
    by (simp add: find_order_items_with_variant_def order2)
  obtain tv where finish: "update_order_done (map_of_entries ps) i d2 = (Inr (),
      d2\<lparr>variants := tv, orders := map_rows (\<lambda>x. ord_id x = i) (\<lambda>r. r\<lparr>ord_status := Some Ord_PAID\<rparr>) (orders d2)\<rparr>)"
    and tv: "\<And>k. find_row (\<lambda>v. bv_id v = k) tv =
        map_option (shift_stock (- 1) (map_of_entries ps)) (variant_of d2 k)"
    using update_done_paid [OF m order2] by blast
  define d' where "d' = d2\<lparr>variants := tv, orders := map_rows (\<lambda>x. ord_id x = i)
      (\<lambda>r. r\<lparr>ord_status := Some Ord_PAID\<rparr>) (orders d2)\<rparr>"
  have orders: "order_of d' j = (if j = i then Some (paid_order r) else order_of d j)" for j
  proof -
    have "order_of d' j = (if j = i then map_option (\<lambda>r. r\<lparr>ord_status := Some Ord_PAID\<rparr>) (order_of d2 j)
        else order_of d2 j)"
      unfolding order_of_def d'_def by (simp add: find_key_modify)
    moreover have "order_of d2 j = (if j = i then map_option paid_order (order_of d j) else order_of d j)"
      using order_of_paid [of j i d] unfolding order_of_def by (simp add: d2 d1_def)
    ultimately show ?thesis using order2 by (cases "j = i") simp_all
  qed
  show ?thesis
  proof (rule that)
    show "webhook_mark_done now i (wh_id w) a code d = (Inr (paid_order r, w'), d')"
      using finish by (simp add: webhook_mark_done_def promise_all_def mark upd d2_def [symmetric]
          found i d'_def)
    show "variant_of d' k = map_option (shift_stock (- 1) (map_of_entries ps)) (variant_of d k)" for k
      using tv [of k] by (simp add: variant_of_def d'_def) (simp add: variant_of_def d2 d1_def)
    show "order_of d' i = Some (paid_order r)" and "j \<noteq> i \<Longrightarrow> order_of d' j = order_of d j"
      by (simp_all add: orders)
  qed (use w' in \<open>simp_all add: d'_def d2 d1_def\<close>)
qed

section \<open>Lemmas: the paths that do not settle\<close>

definition same_shop :: "db \<Rightarrow> db \<Rightarrow> bool" where
  "same_shop d d' \<longleftrightarrow> orders d' = orders d \<and> variants d' = variants d
     \<and> order_items d' = order_items d \<and> snapshots d' = snapshots d"

lemma same_shop_refl [simp]: "same_shop d d"
  by (simp add: same_shop_def)

lemma same_shop_trans: "same_shop d d' \<Longrightarrow> same_shop d' d'' \<Longrightarrow> same_shop d d''"
  by (simp add: same_shop_def)

lemma same_shop_tables [simp]:
  "same_shop d (d\<lparr>webhook_inbox := t\<rparr>)"
  "same_shop d (d\<lparr>payment_transactions := u\<rparr>)"
  "same_shop d (snd (update_intent_status code s d))"
  "same_shop d (snd (update_webhook_status now i js a d))"
  "same_shop d (snd (mark_payment_not_success j ps d))"
  by (simp_all add: same_shop_def update_webhook_status_def mark_payment_not_success_def
      transaction_def split: option.split)

lemma same_shop_via_transaction: "same_shop (d\<lparr>payment_transactions := u\<rparr>) d' \<Longrightarrow> same_shop d d'"
  by (simp add: same_shop_def)

lemma same_shop_via_inbox: "same_shop (d\<lparr>webhook_inbox := t\<rparr>) d' \<Longrightarrow> same_shop d d'"
  by (simp add: same_shop_def)

lemmas same_shop_tables_after [simp] = same_shop_tables [THEN same_shop_via_transaction]

lemma same_shop_await:
  assumes "same_shop d (snd r)" and "\<And>x. same_shop (snd r) (snd (k x (snd r)))"
  shows "same_shop d (snd (await r k))"
proof (cases r)
  case (Pair x s)
  then show ?thesis using assms same_shop_trans by (cases x) auto
qed

lemma same_shop_promise_all:
  assumes "\<And>d. same_shop d (snd (f d))" and "\<And>d. same_shop d (snd (g d))"
  shows "same_shop d (snd (promise_all f g d))"
proof -
  obtain x s where f: "f d = (x, s)" by (cases "f d")
  obtain y u where g: "g s = (y, u)" by (cases "g s")
  have "same_shop d u"
    using assms(1) [of d] assms(2) [of s] f g same_shop_trans by simp
  then show ?thesis using f g by (cases x; cases y) (simp_all add: promise_all_def)
qed

lemma same_shop_handlers [simp]:
  "same_shop d (snd (handle_intent_expired now c i a code d))"
  "same_shop d (snd (handle_intent_not_found now c i a d))"
  "same_shop d (snd (handle_already_processed_intent now c code i a key d))"
  "same_shop d (snd (handle_without_content now body i a d))"
  by (simp_all add: handle_intent_expired_def handle_intent_not_found_def
      handle_already_processed_intent_def handle_without_content_def same_shop_await
      same_shop_promise_all)

lemma same_shop_mismatch [simp]:
  "same_shop d (snd (handle_mismatch now body c i a p r d))"
  by (simp add: handle_mismatch_def Let_def same_shop_await)

lemmas same_shop_handlers_after [simp] =
  same_shop_handlers [THEN same_shop_via_transaction] same_shop_handlers [THEN same_shop_via_inbox]

text \<open>The event is a payment that settles its order.\<close>

definition settles :: "int \<Rightarrow> sepay_body \<Rightarrow> payment_intent_row \<Rightarrow> order_row \<Rightarrow> bool" where
  "settles now body p r \<longleftrightarrow>
     \<not> pi_expired_at p < now \<and> pi_status p \<noteq> Some Pay_SUCCESS
     \<and> sb_amount body = number_of_decimal (ord_total r)"

lemma same_shop_known_order:
  assumes "\<not> settles now body p r"
  shows "same_shop d (snd (handle_known_order now body c i a p r d))"
  using assms by (auto simp: handle_known_order_def settles_def Let_def)

lemma same_shop_webhook:
  assumes "\<And>c p r. sb_content body = Some c \<Longrightarrow> find_intent_by_content (js_trim c) d = Some (p, Some r)
             \<Longrightarrow> \<not> settles now body p r"
  shows "same_shop d (snd (handle_sepay_webhook now body d))"
proof -
  obtain w t where save: "save_sepay_webhook now (sb_id body) d = (Inr w, d\<lparr>webhook_inbox := t\<rparr>)"
    by (rule save_webhook_cases)
  have known: "same_shop d (snd (handle_known_order now body (js_trim c) i a p r (d\<lparr>webhook_inbox := t\<rparr>)))"
    if "sb_content body = Some c" and "find_intent_by_content (js_trim c) d = Some (p, Some r)" for c p r i a
    using same_shop_known_order [OF assms [OF that]] by (rule same_shop_via_inbox)
  have no_intent: "same_shop d (snd (await (save_payment_transaction now body s None (d\<lparr>webhook_inbox := t\<rparr>))
      (\<lambda>_. handle_intent_not_found now c i a)))" for s c i a
    by (rule same_shop_via_inbox [where t = t]) simp
  have no_order: "same_shop d (snd (await (save_payment_transaction now body s None (d\<lparr>webhook_inbox := t\<rparr>))
      (\<lambda>_ d. await (update_webhook_status now i js a d) (\<lambda>_. throw e :: webhook_response action))))"
    for s i js a and e :: exn
    by (rule same_shop_via_inbox [where t = t]) (simp add: same_shop_await)
  show ?thesis
    using known no_intent no_order
    by (simp add: handle_sepay_webhook_def save Let_def js_truthy_def split: option.split
        del: save_transaction_simp)
qed

section \<open>Lemmas: an exact payment\<close>

lemma map_of_entries_distinct:
  assumes "distinct (map fst ps)"
  shows "map_of_entries ps = ps"
proof -
  have "foldl (\<lambda>m (k, q). js_map_set k q m) acc ps = acc @ ps"
    if "distinct (map fst (acc @ ps))" for acc
    using that
  proof (induction ps arbitrary: acc)
    case (Cons kq ps)
    obtain k q where kq: "kq = (k, q)" by (cases kq)
    then have "js_map_set k q acc = acc @ [(k, q)]"
      using Cons.prems by (auto simp: js_map_set_def)
    with Cons.IH [of "acc @ [(k, q)]"] Cons.prems kq show ?case by simp
  qed simp
  from this [of "[]"] assms show ?thesis by (simp add: map_of_entries_def)
qed

lemma settleable_distinct:
  assumes "distinct (map fst ps)" and "\<forall>(k, q)\<in>set ps. q \<noteq> 0"
  shows "settleable ps"
  using assms by (auto simp: settleable_def missing_quantity_def split: option.split
      simp: map_of_eq_None_iff dest: map_of_SomeD)

lemma find_intent_order:
  assumes "order_inv d" and "find_intent_by_content c d = Some (p, Some r)"
  shows "order_of d (ord_id r) = Some r" and "pi_order_code p = ord_code r"
    and "find_row (\<lambda>p. pi_content p = Some c) (payment_intents d) = Some p"
proof -
  show intent: "find_row (\<lambda>p. pi_content p = Some c) (payment_intents d) = Some p"
    using assms(2) by (auto simp: find_intent_by_content_def with_order_def)
  with assms(2) have "order_by_code d (pi_order_code p) = Some r"
    by (simp add: find_intent_by_content_def with_order_def)
  then have r: "r \<in> set (rows (orders d))" "ord_code r = pi_order_code p"
    by (auto simp: order_by_code_def dest: find_row_SomeD)
  then show "pi_order_code p = ord_code r" by simp
  show "order_of d (ord_id r) = Some r"
    using assms(1) r by (intro order_of_unique) (simp_all add: order_inv_def)
qed

lemma exact_payment:
  assumes inv: "order_inv d" and id: "sb_id body \<noteq> 0"
    and content: "sb_content body = Some c" "js_trim c \<noteq> []"
    and intent: "find_intent_by_content (js_trim c) d = Some (p, Some r)"
    and pays: "settles now body p r"
    and items: "item_quantities d (items_of_order d (ord_id r)) = Inr ps"
      "distinct (map fst ps)" "\<forall>(k, q)\<in>set ps. q \<noteq> 0"
  obtains w d' where "handle_sepay_webhook now body d =
        (Inr (Paid (sb_id body) (js_trim c) w (ord_id r) (ord_code r) (Some Ord_PAID) (Some Pay_SUCCESS)), d')"
    and "order_of d' (ord_id r) = Some (paid_order r)"
    and "\<And>k. stock_of d' k = map_option (\<lambda>n. n - qty ps k) (stock_of d k)"
    and "\<And>k. reserved_of d' k = map_option (\<lambda>n. n - qty ps k) (reserved_of d k)"
    and "map_option fst (find_intent_by_content (js_trim c) d') = Some (p\<lparr>pi_status := Some Pay_SUCCESS\<rparr>)"
    and "\<exists>x\<in>set (rows (webhook_inbox d')). is_sepay_event (sb_id body) x \<and> wh_status x = Some Job_DONE"
    and "\<exists>x\<in>set (rows (payment_transactions d')). pt_order_id x = Some (ord_id r)
           \<and> pt_amount x = sb_amount body \<and> pt_status x = Some Pay_SUCCESS"
proof -
  note r = find_intent_order [OF inv intent]
  obtain w t where save: "save_sepay_webhook now (sb_id body) d = (Inr w, d\<lparr>webhook_inbox := t\<rparr>)"
    and w: "w \<in> set (rows t)" "wh_status w = Some Job_PENDING" "is_sepay_event (sb_id body) w"
    by (rule save_webhook_cases)
  define a where "a = (case wh_attempts w of None \<Rightarrow> 0 | Some n \<Rightarrow> n) + 1"
  define mk where "mk = new_transaction now (Some (ord_id r)) (ord_user_id r) SEPAY (Some Pay_SUCCESS) (sb_amount body)"
  define d2 where "d2 = d\<lparr>webhook_inbox := t, payment_transactions := insert_row mk (payment_transactions d)\<rparr>"
  have d2: "order_of d2 (ord_id r) = Some r" "w \<in> set (rows (webhook_inbox d2))"
      "variant_of d2 k = variant_of d k" for k
    using r w by (simp_all add: d2_def)
  have "item_quantities d2 (items_of_order d2 (ord_id r)) = Inr ps"
    using items item_quantities_frame [of d2 d] by (simp add: d2_def)
  moreover have "settleable (map_of_entries ps)"
    using items by (simp add: map_of_entries_distinct settleable_distinct)
  ultimately obtain w' d' where paid: "webhook_mark_done now (ord_id r) (wh_id w) a (pi_order_code p) d2 =
        (Inr (paid_order r, w'), d')"
    and d': "order_of d' (ord_id r) = Some (paid_order r)"
      "\<And>k. variant_of d' k = map_option (shift_stock (- 1) (map_of_entries ps)) (variant_of d2 k)"
      "processed now Job_DONE a w \<in> set (rows (webhook_inbox d'))"
      "payment_transactions d' = map_rows (\<lambda>t. pt_order_id t = Some (ord_id r))
           (\<lambda>t. t\<lparr>pt_status := Some Pay_SUCCESS\<rparr>) (payment_transactions d2)"
      "payment_intents d' = map_rows (\<lambda>x. pi_order_code x = pi_order_code p)
           (\<lambda>x. x\<lparr>pi_status := Some Pay_SUCCESS\<rparr>) (payment_intents d2)"
    using webhook_mark_done_paid [OF d2(1) _ _ d2(2), of ps now a "pi_order_code p"] by metis
  have stock: "variant_of d' k = map_option (\<lambda>v. v\<lparr>bv_stock := bv_stock v - qty ps k,
      bv_reserved := bv_reserved v - qty ps k\<rparr>) (variant_of d k)" for k
    using d'(2) [of k] items(2) variant_of_id [of d k]
    by (cases "variant_of d k") (simp_all add: d2(3) map_of_entries_distinct shift_stock_qty)
  show ?thesis
  proof (rule that)
    show "handle_sepay_webhook now body d =
        (Inr (Paid (sb_id body) (js_trim c) (wh_id w') (ord_id r) (ord_code r) (Some Ord_PAID) (Some Pay_SUCCESS)), d')"
      using id content intent pays w(2) paid [unfolded d2_def mk_def]
      by (simp add: handle_sepay_webhook_def save js_truthy_def a_def [symmetric] handle_known_order_def
          settles_def)
    show "stock_of d' k = map_option (\<lambda>n. n - qty ps k) (stock_of d k)"
      and "reserved_of d' k = map_option (\<lambda>n. n - qty ps k) (reserved_of d k)" for k
      using stock [of k] by (simp_all add: stock_of_def reserved_of_def option.map_comp comp_def)
    show "map_option fst (find_intent_by_content (js_trim c) d') = Some (p\<lparr>pi_status := Some Pay_SUCCESS\<rparr>)"
      using r(3) by (simp add: find_intent_by_content_def d'(5) d2_def find_row_map_rows_same with_order_def)
    show "\<exists>x\<in>set (rows (webhook_inbox d')). is_sepay_event (sb_id body) x \<and> wh_status x = Some Job_DONE"
      using d'(3) w(3) by (intro bexI [OF _ d'(3)]) (simp add: processed_def is_sepay_event_def)
    show "\<exists>x\<in>set (rows (payment_transactions d')). pt_order_id x = Some (ord_id r)
        \<and> pt_amount x = sb_amount body \<and> pt_status x = Some Pay_SUCCESS"
      by (simp add: d'(4) d2_def mk_def new_transaction_def)
  qed (rule d'(1))
qed

lemma exact_payment_stock:
  assumes "order_inv d" and "sb_id body \<noteq> 0" and "sb_content body = Some c" and "js_trim c \<noteq> []"
    and "find_intent_by_content (js_trim c) d = Some (p, Some r)" and "settles now body p r"
    and "item_quantities d (items_of_order d (ord_id r)) = Inr ps"
    and "distinct (map fst ps)" and "\<forall>(k, q)\<in>set ps. q \<noteq> 0"
  shows "stock_of (snd (handle_sepay_webhook now body d)) k = map_option (\<lambda>n. n - qty ps k) (stock_of d k)"
  by (rule exact_payment [OF assms]) simp

section \<open>Properties\<close>

text \<open>
  C2: an exact payment in time settles its order once and completely: the handler answers success,
  the order is paid, its intent and the recorded transaction are successful, the event is done, and
  every ordered copy leaves both the stock and the reservations of its variant.
\<close>
theorem exact_payment_settles_order:
  assumes "order_inv d" and "sb_id body \<noteq> 0" and "sb_content body = Some c" and "js_trim c \<noteq> []"
    and "find_intent_by_content (js_trim c) d = Some (p, Some r)"
    and "now \<le> pi_expired_at p" and "pi_status p \<noteq> Some Pay_SUCCESS"
    and "sb_amount body = number_of_decimal (ord_total r)"
    and "item_quantities d (items_of_order d (ord_id r)) = Inr ps"
    and "distinct (map fst ps)" and "\<forall>(k, q)\<in>set ps. q \<noteq> 0"
  defines "d' \<equiv> snd (handle_sepay_webhook now body d)"
  shows "(\<exists>w. fst (handle_sepay_webhook now body d) = Inr (Paid (sb_id body) (js_trim c) w (ord_id r)
              (ord_code r) (Some Ord_PAID) (Some Pay_SUCCESS)))
       \<and> order_of d' (ord_id r) = Some (r\<lparr>ord_status := Some Ord_PAID, ord_payment_status := Some Pay_SUCCESS\<rparr>)
       \<and> (\<forall>k. stock_of d' k = map_option (\<lambda>n. n - qty ps k) (stock_of d k)
            \<and> reserved_of d' k = map_option (\<lambda>n. n - qty ps k) (reserved_of d k))
       \<and> map_option fst (find_intent_by_content (js_trim c) d') = Some (p\<lparr>pi_status := Some Pay_SUCCESS\<rparr>)
       \<and> (\<exists>x\<in>set (rows (webhook_inbox d')). is_sepay_event (sb_id body) x \<and> wh_status x = Some Job_DONE)
       \<and> (\<exists>x\<in>set (rows (payment_transactions d')). pt_order_id x = Some (ord_id r)
            \<and> pt_amount x = sb_amount body \<and> pt_status x = Some Pay_SUCCESS)"
proof -
  have "settles now body p r" using assms(6-8) by (simp add: settles_def)
  from exact_payment [OF assms(1-5) this assms(9-11)] obtain w d1 where
    "handle_sepay_webhook now body d = (Inr (Paid (sb_id body) (js_trim c) w (ord_id r) (ord_code r)
        (Some Ord_PAID) (Some Pay_SUCCESS)), d1)"
    and rest: "order_of d1 (ord_id r) = Some (paid_order r)"
      "\<And>k. stock_of d1 k = map_option (\<lambda>n. n - qty ps k) (stock_of d k)"
      "\<And>k. reserved_of d1 k = map_option (\<lambda>n. n - qty ps k) (reserved_of d k)"
      "map_option fst (find_intent_by_content (js_trim c) d1) = Some (p\<lparr>pi_status := Some Pay_SUCCESS\<rparr>)"
      "\<exists>x\<in>set (rows (webhook_inbox d1)). is_sepay_event (sb_id body) x \<and> wh_status x = Some Job_DONE"
      "\<exists>x\<in>set (rows (payment_transactions d1)). pt_order_id x = Some (ord_id r)
         \<and> pt_amount x = sb_amount body \<and> pt_status x = Some Pay_SUCCESS" by blast
  then show ?thesis by (simp add: d'_def paid_order_def)
qed

definition sample_intent :: payment_intent_row where
  "sample_intent = \<lparr>pi_id = 1, pi_order_code = ''VLR1'', pi_content = Some ''VLR1'', pi_gateway = SEPAY,
     pi_status = Some Pay_PENDING, pi_token_url = ''tk'', pi_payment_url = None,
     pi_expired_at = 3600000, pi_created_at = 0\<rparr>"

definition paying_shop :: db where
  "paying_shop = sample_shop\<lparr>payment_intents := \<lparr>rows = [sample_intent], serial = 2\<rparr>\<rparr>"

definition sample_event :: "rat \<Rightarrow> sepay_body" where
  "sample_event amount = \<lparr>sb_id = 77, sb_content = Some '' VLR1 '', sb_amount = amount\<rparr>"

lemma sample_trim: "js_trim '' VLR1 '' = ''VLR1''"
  by (simp add: js_trim_def is_white_def char_code_def)

lemma f64_total: "f64 120000 = 120000"
  using f64_of_int [of 120000] by simp

lemma paying_shop_facts:
  "order_inv paying_shop"
  "find_intent_by_content ''VLR1'' paying_shop = Some (sample_intent, Some (sample_order 1 ''VLR1'' 120000))"
  "item_quantities paying_shop (items_of_order paying_shop 1) = Inr [(1, 2)]"
  "stock_of paying_shop 1 = Some 5" "reserved_of paying_shop 1 = Some 2"
  "order_of paying_shop 1 = Some (sample_order 1 ''VLR1'' 120000)"
proof -
  show "order_inv paying_shop"
    using sample_shop_orders(3) by (simp add: paying_shop_def order_inv_def)
  show "find_intent_by_content ''VLR1'' paying_shop = Some (sample_intent, Some (sample_order 1 ''VLR1'' 120000))"
    by (simp add: find_intent_by_content_def with_order_def paying_shop_def find_row_def sample_intent_def
        order_by_code_def sample_shop_def sample_order_def)
  show "item_quantities paying_shop (items_of_order paying_shop 1) = Inr [(1, 2)]"
    by (simp add: paying_shop_def sample_shop_def items_of_order_def select_rows_def sample_items_def
        item_quantities_def variant_id_of_item_def snapshot_of_def find_row_def sample_snapshot_def)
  show "stock_of paying_shop 1 = Some 5" "reserved_of paying_shop 1 = Some 2"
    by (simp_all add: paying_shop_def stock_of_def reserved_of_def variant_of_def find_row_def
        sample_shop_def sample_stock_def sample_variant_def)
  show "order_of paying_shop 1 = Some (sample_order 1 ''VLR1'' 120000)"
    using sample_shop_orders(1) by (simp add: order_of_def paying_shop_def)
qed

lemma exact_payment_settles_order_witness:
  "stock_of (snd (handle_sepay_webhook 1000 (sample_event 120000) paying_shop)) 1 = Some 3
   \<and> reserved_of (snd (handle_sepay_webhook 1000 (sample_event 120000) paying_shop)) 1 = Some 0"
  using exact_payment_settles_order [of paying_shop "sample_event 120000" "'' VLR1 ''" sample_intent
      "sample_order 1 ''VLR1'' 120000" 1000 "[(1, 2)]"]
  by (simp add: paying_shop_facts sample_trim sample_event_def sample_order_def sample_intent_def
      number_of_decimal_def f64_total qty_def)

text \<open>
  A further event for a transfer whose intent is already successful never settles again:
  orders, items and the stock stay as they are, whatever amount it reports.
\<close>
theorem paid_intent_settles_only_once:
  assumes "order_inv d" and "sb_id body \<noteq> 0" and "sb_content body = Some c" and "js_trim c \<noteq> []"
    and "find_intent_by_content (js_trim c) d = Some (p, Some r)" and "settles now body p r"
    and "item_quantities d (items_of_order d (ord_id r)) = Inr ps"
    and "distinct (map fst ps)" and "\<forall>(k, q)\<in>set ps. q \<noteq> 0"
    and "map_option js_trim (sb_content again) = Some (js_trim c)"
  defines "d' \<equiv> snd (handle_sepay_webhook now body d)"
  shows "orders (snd (handle_sepay_webhook later again d')) = orders d'
       \<and> variants (snd (handle_sepay_webhook later again d')) = variants d'"
proof -
  from exact_payment [OF assms(1-9)]
  have intent: "map_option fst (find_intent_by_content (js_trim c) d') = Some (p\<lparr>pi_status := Some Pay_SUCCESS\<rparr>)"
    unfolding d'_def by (metis snd_conv)
  have "same_shop d' (snd (handle_sepay_webhook later again d'))"
  proof (rule same_shop_webhook)
    fix c' p' r'
    assume "sb_content again = Some c'" "find_intent_by_content (js_trim c') d' = Some (p', Some r')"
    then have "pi_status p' = Some Pay_SUCCESS" using assms(10) intent by auto
    then show "\<not> settles later again p' r'" by (simp add: settles_def)
  qed
  then show ?thesis by (simp add: same_shop_def)
qed

lemma paid_intent_settles_only_once_witness:
  "variants (snd (handle_sepay_webhook 2000 (sample_event 120000)
      (snd (handle_sepay_webhook 1000 (sample_event 120000) paying_shop))))
   = variants (snd (handle_sepay_webhook 1000 (sample_event 120000) paying_shop))"
  using paid_intent_settles_only_once [of paying_shop "sample_event 120000" "'' VLR1 ''" sample_intent
      "sample_order 1 ''VLR1'' 120000" 1000 "[(1, 2)]" "sample_event 120000" 2000]
  by (simp add: paying_shop_facts sample_trim sample_event_def sample_order_def sample_intent_def
      number_of_decimal_def f64_total settles_def)

text \<open>
  C10: the stock and the orders change only for a payment of exactly the order total, in time, on an
  intent that is not yet successful; a missing or unknown content, an expired intent, a shortfall and
  an overage leave both unchanged.
\<close>
theorem only_exact_payments_settle:
  assumes "variants (snd (handle_sepay_webhook now body d)) \<noteq> variants d
         \<or> orders (snd (handle_sepay_webhook now body d)) \<noteq> orders d"
  shows "\<exists>c p r. sb_content body = Some c \<and> find_intent_by_content (js_trim c) d = Some (p, Some r)
           \<and> now \<le> pi_expired_at p \<and> pi_status p \<noteq> Some Pay_SUCCESS
           \<and> sb_amount body = number_of_decimal (ord_total r)"
proof (rule ccontr)
  assume none: "\<not> ?thesis"
  have "same_shop d (snd (handle_sepay_webhook now body d))"
    by (rule same_shop_webhook) (use none in \<open>auto simp: settles_def not_less\<close>)
  with assms show False by (simp add: same_shop_def)
qed

lemma only_exact_payments_settle_witness:
  "\<exists>p r. find_intent_by_content ''VLR1'' paying_shop = Some (p, Some r)
     \<and> (120000 :: rat) = number_of_decimal (ord_total r)"
proof -
  have "stock_of (snd (handle_sepay_webhook 1000 (sample_event 120000) paying_shop)) 1 = Some 3"
    using exact_payment_stock [of paying_shop "sample_event 120000" "'' VLR1 ''" sample_intent
        "sample_order 1 ''VLR1'' 120000" 1000 "[(1, 2)]" 1]
    by (simp add: paying_shop_facts sample_trim sample_event_def sample_order_def sample_intent_def
        number_of_decimal_def f64_total settles_def qty_def)
  then have "variants (snd (handle_sepay_webhook 1000 (sample_event 120000) paying_shop)) \<noteq> variants paying_shop"
    using paying_shop_facts(4) by (auto simp: stock_of_def variant_of_def)
  then show ?thesis
    using only_exact_payments_settle [of 1000 "sample_event 120000" paying_shop]
    by (auto simp: sample_event_def sample_trim)
qed

section \<open>Lemmas: one transaction for each event\<close>

definition recorded :: "db \<Rightarrow> nat" where
  "recorded d = length (rows (payment_transactions d))"

lemma recorded_steps [simp]:
  "recorded (d\<lparr>webhook_inbox := t\<rparr>) = recorded d"
  "recorded (snd (update_webhook_status now i s a d)) = recorded d"
  "recorded (snd (update_intent_status code ps d)) = recorded d"
  "recorded (snd (mark_payment_not_success j ps d)) = recorded d"
  "recorded (snd (update_order_by_id k f d)) = recorded d"
  "recorded (snd (find_order_items_with_variant k d)) = recorded d"
  "recorded (snd (decrement_variants_stock ks m d)) = recorded d"
  "recorded (snd (increment_variants_stock ks m d)) = recorded d"
  "recorded (d\<lparr>payment_transactions := insert_row mk (payment_transactions d)\<rparr>) = Suc (recorded d)"
  "recorded (d\<lparr>webhook_inbox := t, payment_transactions := insert_row mk (payment_transactions d)\<rparr>)
     = Suc (recorded d)"
  by (simp_all add: recorded_def update_webhook_status_def update_intent_status_def
      mark_payment_not_success_def transaction_def update_order_by_id_def
      find_order_items_with_variant_def decrement_variants_stock_def increment_variants_stock_def Let_def
      split: option.split sum.split)

lemma recorded_await:
  assumes "recorded (snd r) = n" and "\<And>x s. recorded s = n \<Longrightarrow> recorded (snd (k x s)) = n"
  shows "recorded (snd (await r k)) = n"
  using assms by (rule await_keeps [where P = "\<lambda>s. recorded s = n"])

lemma recorded_promise_all:
  assumes "\<And>s. recorded (snd (f s)) = recorded s" and "\<And>s. recorded (snd (g s)) = recorded s"
  shows "recorded (snd (promise_all f g s)) = recorded s"
  by (rule promise_all_keeps [where P = "\<lambda>s'. recorded s' = recorded s"]) (simp_all add: assms)

lemma recorded_mark_success [simp]: "recorded (snd (mark_order_and_payment_success i d)) = recorded d"
proof -
  have "recorded (snd (mark_order_and_payment_success i d)) = recorded d"
    unfolding mark_order_and_payment_success_def
  proof (rule transaction_keeps [where P = "\<lambda>s'. recorded s' = recorded d"])
    fix s
    assume s: "recorded s = recorded d"
    show "recorded (snd (await (update_order_by_id i
        (\<lambda>r. r\<lparr>ord_status := Some Ord_PAID, ord_payment_status := Some Pay_SUCCESS\<rparr>) s)
        (\<lambda>order d. (Inr order, d\<lparr>payment_transactions := map_rows (\<lambda>t. pt_order_id t = Some i)
           (\<lambda>t. t\<lparr>pt_status := Some Pay_SUCCESS\<rparr>) (payment_transactions d)\<rparr>)))) = recorded d"
      by (rule recorded_await) (simp_all add: s, simp add: recorded_def)
  qed simp
  then show ?thesis .
qed

lemma recorded_done [simp]:
  "recorded (snd (update_order_done m i d)) = recorded d"
  "recorded (snd (update_order_not_done m i d)) = recorded d"
  by (simp_all add: update_order_done_def update_order_not_done_def update_order_status_by_id_def
      recorded_await)

lemma recorded_catching:
  assumes "\<And>e s. recorded (snd (h e s)) = recorded s"
  shows "recorded (snd (catching r h)) = recorded (snd r)"
  by (rule catching_keeps [where P = "\<lambda>s'. recorded s' = recorded (snd r)"]) (simp_all add: assms)

lemma recorded_mark_done [simp]: "recorded (snd (webhook_mark_done now i w a code d)) = recorded d"
  unfolding webhook_mark_done_def
proof (rule recorded_await, goal_cases)
  case 1
  show ?case by (simp add: recorded_promise_all)
next
  case (2 x s)
  then show ?case by (simp add: case_prod_beta Let_def recorded_await recorded_catching)
qed

lemma recorded_handlers [simp]:
  "recorded (snd (handle_intent_expired now c i a code d)) = recorded d"
  "recorded (snd (handle_intent_not_found now c i a d)) = recorded d"
  "recorded (snd (handle_already_processed_intent now c code i a key d)) = recorded d"
  "recorded (snd (handle_without_content now body i a d)) = Suc (recorded d)"
  "recorded (snd (handle_mismatch now body c i a p r d)) = Suc (recorded d)"
  by (simp_all add: handle_intent_expired_def handle_intent_not_found_def
      handle_already_processed_intent_def handle_without_content_def handle_mismatch_def Let_def
      recorded_await recorded_promise_all)

lemma recorded_known_order [simp]:
  "recorded (snd (handle_known_order now body c i a p r d)) = Suc (recorded d)"
  by (auto simp: handle_known_order_def Let_def intro!: recorded_await)

definition not_recognised :: "webhook_response res \<Rightarrow> bool" where
  "not_recognised r \<longleftrightarrow> (\<forall>k i. r \<noteq> Inr (Already_processed k i))"

lemma not_recognised_simps [simp]:
  "not_recognised (Inl e)"
  "not_recognised (Inr (Missing_content i))" "not_recognised (Inr (Intent_not_found c i))"
  "not_recognised (Inr (Intent_expired c i code))" "not_recognised (Inr (Already_success key c i))"
  "not_recognised (Inr (Mismatch key c i oid code s))"
  "not_recognised (Inr (Paid key c i oid code os ps))"
  by (simp_all add: not_recognised_def)

lemma not_recognised_await:
  assumes "\<And>x s. not_recognised (fst (k x s))"
  shows "not_recognised (fst (await r k))"
  using assms by (auto simp: not_recognised_def elim!: await_InrE)

lemma not_recognised_handlers [simp]:
  "not_recognised (fst (handle_intent_expired now c i a code d))"
  "not_recognised (fst (handle_intent_not_found now c i a d))"
  "not_recognised (fst (handle_already_processed_intent now c code i a key d))"
  "not_recognised (fst (handle_without_content now body i a d))"
  "not_recognised (fst (handle_mismatch now body c i a p r d))"
  by (simp_all add: handle_intent_expired_def handle_intent_not_found_def handle_mismatch_def Let_def
      handle_already_processed_intent_def handle_without_content_def not_recognised_await)

lemma not_recognised_known_order [simp]:
  "not_recognised (fst (handle_known_order now body c i a p r d))"
  by (simp add: handle_known_order_def Let_def not_recognised_await case_prod_beta)

text \<open>
  Every event with an identifier is recorded as exactly one payment transaction, on every path;
  an event that was already handled is not recognised when it is delivered again, because storing it
  puts it back to pending, so the answer for a processed event is never given.
\<close>
theorem every_delivery_recorded_again:
  assumes "sb_id body \<noteq> 0"
  shows "length (rows (payment_transactions (snd (handle_sepay_webhook now body d))))
           = length (rows (payment_transactions d)) + 1
       \<and> fst (handle_sepay_webhook now body d) \<noteq> Inr (Already_processed key i)"
proof -
  obtain w t where save: "save_sepay_webhook now (sb_id body) d = (Inr w, d\<lparr>webhook_inbox := t\<rparr>)"
    and w: "wh_status w = Some Job_PENDING"
    by (rule save_webhook_cases)
  have "recorded (snd (handle_sepay_webhook now body d)) = Suc (recorded d)"
    using assms w
    by (simp add: handle_sepay_webhook_def save Let_def recorded_await split: option.split)
  moreover have "not_recognised (fst (handle_sepay_webhook now body d))"
    using assms w
    by (simp add: handle_sepay_webhook_def save Let_def not_recognised_await split: option.split)
  ultimately show ?thesis by (simp add: recorded_def not_recognised_def)
qed

definition done_event :: webhook_row where
  "done_event = \<lparr>wh_id = 1, wh_gateway = SEPAY, wh_idempotency_key = 77, wh_received_at = 0,
     wh_processed_at = Some 0, wh_status = Some Job_DONE, wh_attempts = Some 1\<rparr>"

lemma every_delivery_recorded_again_witness:
  "length (rows (payment_transactions (snd (handle_sepay_webhook 5 (sample_event 120000)
      (empty_db\<lparr>webhook_inbox := \<lparr>rows = [done_event], serial = 2\<rparr>\<rparr>))))) = 1"
  using every_delivery_recorded_again [of "sample_event 120000" 5
      "empty_db\<lparr>webhook_inbox := \<lparr>rows = [done_event], serial = 2\<rparr>\<rparr>"]
  by (simp add: sample_event_def empty_db_def)

section \<open>An overage\<close>

lemma mismatch_overage:
  assumes "w \<in> set (rows (webhook_inbox d))" and "number_of_decimal (ord_total r) < sb_amount body"
  obtains u t where "handle_mismatch now body c (wh_id w) a p r d =
      (Inr (Already_success (sb_id body) c (wh_id w)),
       d\<lparr>payment_transactions := u, webhook_inbox := t,
         payment_intents := map_rows (\<lambda>x. pi_order_code x = pi_order_code p)
           (\<lambda>x. x\<lparr>pi_status := Some Pay_SUCCESS\<rparr>) (payment_intents d)\<rparr>)"
proof -
  define mk where "mk = new_transaction now (Some (ord_id r)) (ord_user_id r) SEPAY (Some Pay_OVERAGE) (sb_amount body)"
  define u where "u = map_rows (\<lambda>t. pt_id t = serial (payment_transactions d))
      (\<lambda>t. t\<lparr>pt_status := Some Pay_OVERAGE\<rparr>) (insert_row mk (payment_transactions d))"
  define n where "n = serial (payment_transactions d)"
  have mk: "pt_id (mk n) = n" for n by (simp add: mk_def new_transaction_def)
  have inserted: "pt_id (mk n) = serial (payment_transactions d)" by (simp add: mk n_def)
  have "find_row (\<lambda>t. pt_id t = serial (payment_transactions d)) (insert_row mk (payment_transactions d)) \<noteq> None"
    using inserted by (auto simp: find_row_None n_def)
  then have marked: "mark_payment_not_success (serial (payment_transactions d)) Pay_OVERAGE
      (d\<lparr>payment_transactions := insert_row mk (payment_transactions d)\<rparr>) = (Inr (), d\<lparr>payment_transactions := u\<rparr>)"
    by (simp add: mark_payment_not_success_def transaction_def u_def)
  obtain w1 t1 where one: "update_webhook_status now (wh_id w) Job_FAILED a (d\<lparr>payment_transactions := u\<rparr>) =
      (Inr w1, d\<lparr>payment_transactions := u, webhook_inbox := t1\<rparr>)" "wh_id w1 = wh_id w"
    and w1: "processed now Job_FAILED a w \<in> set (rows t1)"
    using update_webhook_cases [of w "d\<lparr>payment_transactions := u\<rparr>" now Job_FAILED a] assms(1) by auto
  define d3 where "d3 = snd (update_intent_status (pi_order_code p) Pay_SUCCESS
      (d\<lparr>payment_transactions := u, webhook_inbox := t1\<rparr>))"
  have "processed now Job_FAILED a w \<in> set (rows (webhook_inbox d3))" using w1 by (simp add: d3_def)
  then obtain w2 t2 where two: "update_webhook_status now (wh_id w) Job_DONE a d3 = (Inr w2, d3\<lparr>webhook_inbox := t2\<rparr>)"
    by (rule update_webhook_cases [of "processed now Job_FAILED a w" d3 now Job_DONE a]) simp
  have "handle_mismatch now body c (wh_id w) a p r d =
      (Inr (Already_success (sb_id body) c (wh_id w)), d3\<lparr>webhook_inbox := t2\<rparr>)"
    using assms(2) marked one two
    by (simp add: handle_mismatch_def Let_def mk_def [symmetric] n_def [symmetric] mk
        handle_already_processed_intent_def promise_all_def d3_def)
  moreover have "d3\<lparr>webhook_inbox := t2\<rparr> = d\<lparr>payment_transactions := u, webhook_inbox := t2,
      payment_intents := map_rows (\<lambda>x. pi_order_code x = pi_order_code p)
           (\<lambda>x. x\<lparr>pi_status := Some Pay_SUCCESS\<rparr>) (payment_intents d)\<rparr>"
    by (simp add: d3_def update_intent_status_def)
  ultimately show ?thesis using that by metis
qed

text \<open>
  A transfer above the order total is answered as a success and closes the intent, but the order
  is not marked paid and nothing leaves the stock; asking for the payment status afterwards marks the
  order paid and still leaves the stock and the reservation untouched, so the sale is never settled.
\<close>
theorem overage_is_paid_without_settlement:
  assumes "order_inv d" and "sb_id body \<noteq> 0" and "sb_content body = Some c" and "js_trim c \<noteq> []"
    and "find_intent_by_content (js_trim c) d = Some (p, Some r)"
    and "now \<le> pi_expired_at p" and "pi_status p \<noteq> Some Pay_SUCCESS"
    and "number_of_decimal (ord_total r) < sb_amount body" and "ord_status r \<noteq> Some Ord_PAID"
  defines "d' \<equiv> snd (handle_sepay_webhook now body d)"
  shows "(\<exists>i. fst (handle_sepay_webhook now body d) = Inr (Already_success (sb_id body) (js_trim c) i))
       \<and> order_of d' (ord_id r) = Some r \<and> variants d' = variants d
       \<and> fst (get_payment_status (ord_code r) d') = Inr (Some Pay_SUCCESS)
       \<and> order_of (snd (get_payment_status (ord_code r) d')) (ord_id r)
           = Some (r\<lparr>ord_status := Some Ord_PAID, ord_payment_status := Some Pay_SUCCESS\<rparr>)
       \<and> variants (snd (get_payment_status (ord_code r) d')) = variants d"
proof -
  note r = find_intent_order [OF assms(1,5)]
  have code: "order_by_code d (ord_code r) = Some r"
    using assms(5) r(2) by (auto simp: find_intent_by_content_def with_order_def)
  obtain w t where save: "save_sepay_webhook now (sb_id body) d = (Inr w, d\<lparr>webhook_inbox := t\<rparr>)"
    and w: "w \<in> set (rows t)" "wh_status w = Some Job_PENDING"
    by (rule save_webhook_cases)
  define a where "a = (case wh_attempts w of None \<Rightarrow> 0 | Some n \<Rightarrow> n) + 1"
  obtain u t' where mis: "handle_mismatch now body (js_trim c) (wh_id w) a p r (d\<lparr>webhook_inbox := t\<rparr>) =
      (Inr (Already_success (sb_id body) (js_trim c) (wh_id w)),
       d\<lparr>payment_transactions := u, webhook_inbox := t',
         payment_intents := map_rows (\<lambda>x. pi_order_code x = ord_code r)
           (\<lambda>x. x\<lparr>pi_status := Some Pay_SUCCESS\<rparr>) (payment_intents d)\<rparr>)"
    by (rule mismatch_overage [of w "d\<lparr>webhook_inbox := t\<rparr>" r body now "js_trim c" a p])
       (use w assms(8) r(2) in simp_all)
  have result: "handle_sepay_webhook now body d =
      (Inr (Already_success (sb_id body) (js_trim c) (wh_id w)),
       d\<lparr>payment_transactions := u, webhook_inbox := t',
         payment_intents := map_rows (\<lambda>x. pi_order_code x = ord_code r)
           (\<lambda>x. x\<lparr>pi_status := Some Pay_SUCCESS\<rparr>) (payment_intents d)\<rparr>)"
    using assms(2-8) w mis
    by (simp add: handle_sepay_webhook_def save js_truthy_def a_def [symmetric] handle_known_order_def)
  then have d': "d' = d\<lparr>payment_transactions := u, webhook_inbox := t',
         payment_intents := map_rows (\<lambda>x. pi_order_code x = ord_code r)
           (\<lambda>x. x\<lparr>pi_status := Some Pay_SUCCESS\<rparr>) (payment_intents d)\<rparr>"
    by (simp add: d'_def)
  have same: "order_of d' i = order_of d i" "order_by_code d' x = order_by_code d x" for i x
    by (simp_all add: d' order_of_def order_by_code_def)
  have "p \<in> set (rows (payment_intents d))" using r(3) by (auto dest: find_row_SomeD)
  then obtain q where "find_row (\<lambda>p. pi_order_code p = ord_code r) (payment_intents d) = Some q"
    using r(2) by (cases "find_row (\<lambda>p. pi_order_code p = ord_code r) (payment_intents d)")
      (auto simp: find_row_None)
  moreover from this have "pi_order_code q = ord_code r" by (auto dest: find_row_SomeD)
  ultimately have "find_payment_by_order_code (ord_code r) d' = Some (q\<lparr>pi_status := Some Pay_SUCCESS\<rparr>)"
    by (simp add: find_payment_by_order_code_def d' find_row_map_rows_same)
  then have status: "get_payment_status (ord_code r) d' =
      (Inr (Some Pay_SUCCESS), snd (mark_order_and_payment_success (ord_id r) d'))"
    using code assms(9) same r(1) by (simp add: get_payment_status_def mark_success_simp)
  show ?thesis
    using result status same r(1) order_of_paid [of "ord_id r" "ord_id r" d']
    by (simp add: mark_success_simp, simp add: d' order_of_def paid_order_def)
qed

lemma overage_is_paid_without_settlement_witness:
  "map_option ord_status (order_of (snd (get_payment_status ''VLR1''
      (snd (handle_sepay_webhook 1000 (sample_event 150000) paying_shop)))) 1) = Some (Some Ord_PAID)
   \<and> variants (snd (get_payment_status ''VLR1''
      (snd (handle_sepay_webhook 1000 (sample_event 150000) paying_shop)))) = variants paying_shop"
  using overage_is_paid_without_settlement [of paying_shop "sample_event 150000" "'' VLR1 ''" sample_intent
      "sample_order 1 ''VLR1'' 120000" 1000]
  by (simp add: paying_shop_facts sample_trim sample_event_def sample_order_def sample_intent_def
      number_of_decimal_def f64_total)

end
