(* ===== verification/Text_Utils.thy ===== *)
theory Text_Utils
  imports Schema Js_Text
begin

text \<open>
  The text utilities of \<open>src/src/utils\<close>: order codes, content hashes, links and one-time codes, slugs,
  ISBN check digits, the embedding text of a variant and the user-agent summary. Random numbers, the
  formatted date, hash functions and the Unicode tables of the runtime (\<open>normalize\<close>, \<open>toLowerCase\<close> on
  arbitrary text) are arguments.
\<close>

definition is_alnum_upper :: "char \<Rightarrow> bool" where
  "is_alnum_upper c \<longleftrightarrow> is_digit c \<or> is_upper c"

section \<open>Order codes\<close>

definition ORDER_ALPHABET :: string where
  "ORDER_ALPHABET = ''0123456789ABCDEFGHIJKLMNOPQRSTUVWXYZ''"

text \<open>\<open>rs\<close> are the values of \<open>randomInt(0, 36)\<close>, one for each of the six characters.\<close>

definition generate_random_code :: "nat list \<Rightarrow> string" where
  "generate_random_code rs = map (\<lambda>r. ORDER_ALPHABET ! r) (take 6 rs)"

definition generate_order_code :: "string \<Rightarrow> nat list \<Rightarrow> string" where
  "generate_order_code yymmdd rs = ''VLR'' @ yymmdd @ generate_random_code rs"

text \<open>
  The pattern \<open>OD[-_\s]*\d{6}[-_\s]*[A-Z0-9]{6,}\<close>; its character classes are disjoint where one
  repetition follows another, so the greedy match is the only one.
\<close>

definition is_code_separator :: "char \<Rightarrow> bool" where
  "is_code_separator c \<longleftrightarrow> c = CHR ''-'' \<or> c = CHR ''_'' \<or> is_white c"

definition match_order_code :: "string \<Rightarrow> string option" where
  "match_order_code s =
     (if take 2 s \<noteq> ''OD'' then None
      else let r = dropWhile is_code_separator (drop 2 s);
               digits = take 6 r;
               run = takeWhile is_alnum_upper (dropWhile is_code_separator (drop 6 r))
           in if length digits = 6 \<and> (\<forall>c\<in>set digits. is_digit c) \<and> 6 \<le> length run
              then Some (''OD'' @ digits @ run) else None)"

fun first_order_code :: "string \<Rightarrow> string option" where
  "first_order_code [] = None"
| "first_order_code (c # cs) =
     (case match_order_code (c # cs) of Some m \<Rightarrow> Some m | None \<Rightarrow> first_order_code cs)"

definition extract_normalized_order_code :: "string \<Rightarrow> string option" where
  "extract_normalized_order_code content =
     (if content = [] then None else first_order_code (to_upper content))"

section \<open>Hashes, links and one-time codes\<close>

definition format_name :: "book_format \<Rightarrow> string" where
  "format_name f = (case f of HARDCOVER \<Rightarrow> ''HARDCOVER'' | PAPERBACK \<Rightarrow> ''PAPERBACK''
     | EBOOK \<Rightarrow> ''EBOOK'' | AUDIOBOOK \<Rightarrow> ''AUDIOBOOK'')"

definition content_hash_text :: "int \<Rightarrow> rat \<Rightarrow> book_format \<Rightarrow> string \<Rightarrow> string" where
  "content_hash_text i price format isbn =
     isbn @ ''-'' @ int_string i @ ''-'' @ format_name format @ ''-'' @ number_string price"

definition generate_content_hash :: "(string \<Rightarrow> string) \<Rightarrow> int \<Rightarrow> rat \<Rightarrow> book_format \<Rightarrow> string \<Rightarrow> string" where
  "generate_content_hash sha256 i price format isbn = sha256 (content_hash_text i price format isbn)"

datatype verify_path = VERIFY_EMAIL | PATH_FORGOT_PASSWORD | RESET_PASSWORD | PATH_CHANGE_EMAIL

definition verify_path_text :: "verify_path \<Rightarrow> string" where
  "verify_path_text p = (case p of VERIFY_EMAIL \<Rightarrow> ''verify'' | PATH_FORGOT_PASSWORD \<Rightarrow> ''forgot-password''
     | RESET_PASSWORD \<Rightarrow> ''reset-password'' | PATH_CHANGE_EMAIL \<Rightarrow> ''change-email'')"

definition token_param_key :: "verify_path \<Rightarrow> string" where
  "token_param_key p = (case p of VERIFY_EMAIL \<Rightarrow> ''token'' | PATH_FORGOT_PASSWORD \<Rightarrow> ''forgot-password''
     | RESET_PASSWORD \<Rightarrow> ''verify-token'' | PATH_CHANGE_EMAIL \<Rightarrow> ''change-email'')"

definition generate_link_with_type :: "string option \<Rightarrow> verify_path \<Rightarrow> string \<Rightarrow> string" where
  "generate_link_with_type origin path token =
     (let base = (if js_truthy origin
                  then if last (the origin) = CHR ''/'' then butlast (the origin) else the origin
                  else ''http://localhost:3000/vi'')
      in base @ ''/'' @ verify_path_text path @ ''?'' @ token_param_key path @ ''='' @ encode_uri_component token)"

definition generate_otp :: "nat \<Rightarrow> string" where
  "generate_otp n = pad_start 5 (CHR ''0'') (nat_string n)"

section \<open>Slugs\<close>

text \<open>Text is a list of code points here; \<open>nfd\<close> and \<open>lower\<close> are the runtime's \<open>normalize('NFD')\<close> and \<open>toLowerCase\<close>.\<close>

definition slug_letter :: "nat \<Rightarrow> bool" where
  "slug_letter c \<longleftrightarrow> 97 \<le> c \<and> c \<le> 122 \<or> 48 \<le> c \<and> c \<le> 57"

definition white_point :: "nat \<Rightarrow> bool" where
  "white_point c \<longleftrightarrow> c \<in> {9, 10, 11, 12, 13, 32, 160, 5760, 8232, 8233, 8239, 8287, 12288, 65279} \<or> 8192 \<le> c \<and> c \<le> 8202"

definition trim_points :: "nat list \<Rightarrow> nat list" where
  "trim_points s = rev (dropWhile white_point (rev (dropWhile white_point s)))"

text \<open>\<open>replace(/[^a-z0-9]+/g, '-')\<close>; the flag says that the previous character was replaced.\<close>

fun dash_runs :: "bool \<Rightarrow> nat list \<Rightarrow> nat list" where
  "dash_runs b [] = []"
| "dash_runs b (c # cs) =
     (if slug_letter c then c # dash_runs False cs
      else if b then dash_runs True cs else 45 # dash_runs True cs)"

text \<open>\<open>replace(/-{2,}/g, '-')\<close>.\<close>

fun squeeze_dashes :: "nat list \<Rightarrow> nat list" where
  "squeeze_dashes (a # b # cs) =
     (if a = 45 \<and> b = 45 then squeeze_dashes (b # cs) else a # squeeze_dashes (b # cs))"
| "squeeze_dashes cs = cs"

definition strip_dashes :: "nat list \<Rightarrow> nat list" where
  "strip_dashes s = rev (dropWhile (\<lambda>c. c = 45) (rev (dropWhile (\<lambda>c. c = 45) s)))"

definition generate_slug :: "(nat list \<Rightarrow> nat list) \<Rightarrow> (nat list \<Rightarrow> nat list) \<Rightarrow> nat list \<Rightarrow> nat list" where
  "generate_slug nfd lower v =
     strip_dashes (squeeze_dashes (dash_runs False (lower
       (map (\<lambda>c. if c = 272 then 68 else c) (map (\<lambda>c. if c = 273 then 100 else c)
         (filter (\<lambda>c. \<not> (768 \<le> c \<and> c \<le> 879)) (nfd (trim_points v))))))))"

section \<open>ISBN\<close>

definition isbn10_value :: "char \<Rightarrow> int" where
  "isbn10_value c = (if upper_char c = CHR ''X'' then 10 else digit_value c)"

definition isbn_sum :: "(char \<Rightarrow> int) \<Rightarrow> (nat \<Rightarrow> int) \<Rightarrow> string \<Rightarrow> int" where
  "isbn_sum value weight s = foldl (\<lambda>acc (i, c). acc + value c * weight i) 0 (zip [0..<length s] s)"

definition isbn13_weight :: "nat \<Rightarrow> int" where
  "isbn13_weight i = (if i mod 2 = 0 then 1 else 3)"

definition clean_isbn :: "string \<Rightarrow> string" where
  "clean_isbn s = filter (\<lambda>c. c \<noteq> CHR ''-'' \<and> c \<noteq> CHR '' '') s"

definition validate_isbn :: "string \<Rightarrow> bool" where
  "validate_isbn isbn =
     (let s = clean_isbn isbn in
      if length s = 10
      then (\<forall>c\<in>set (take 9 s). is_digit c) \<and> (is_digit (s ! 9) \<or> upper_char (s ! 9) = CHR ''X'')
           \<and> isbn_sum isbn10_value (\<lambda>i. 10 - int i) s mod 11 = 0
      else if length s = 13
      then (\<forall>c\<in>set s. is_digit c) \<and> isbn_sum digit_value isbn13_weight s mod 10 = 0
      else False)"

section \<open>Embedding text and user agents\<close>

definition unique_non_empty :: "string list \<Rightarrow> string list" where
  "unique_non_empty items = rev (remdups (rev (filter (\<lambda>s. 0 < length s) (map js_trim items))))"

record embedding_source =
  es_titles :: "string list"
  es_descriptions :: "string list"
  es_publisher :: "string option"
  es_categories :: "string list"

definition build_embedding_text :: "embedding_source \<Rightarrow> string" where
  "build_embedding_text src =
     (let titles = unique_non_empty (es_titles src);
          descriptions = unique_non_empty (es_descriptions src);
          categories = unique_non_empty (es_categories src)
      in js_join ''\<newline>'' (filter (\<lambda>s. s \<noteq> [])
           [if titles \<noteq> [] then ''Titles: '' @ js_join '' | '' titles else [],
            if descriptions \<noteq> [] then ''Descriptions: '' @ js_join '' | '' descriptions else [],
            if js_truthy (es_publisher src) then ''Publisher: '' @ the (es_publisher src) else [],
            if categories \<noteq> [] then ''Categories: '' @ js_join '', '' categories else []]))"

fun str_includes :: "string \<Rightarrow> string \<Rightarrow> bool" where
  "str_includes [] w = (w = [])"
| "str_includes (c # cs) w = (take (length w) (c # cs) = w \<or> str_includes cs w)"

datatype device_platform = WEB | ANDROID | IOS | DESKTOP | Platform_OTHER

definition parse_platform :: "string \<Rightarrow> device_platform" where
  "parse_platform ua =
     (let l = to_lower ua in
      if str_includes l ''android'' then ANDROID
      else if str_includes l ''iphone'' \<or> str_includes l ''ipad'' \<or> str_includes l ''ios'' then IOS
      else if str_includes l ''electron'' \<or> str_includes l ''desktop'' then DESKTOP
      else WEB)"

definition normalize_device_name :: "string \<Rightarrow> string" where
  "normalize_device_name ua =
     (let t = js_trim ua in if length t \<le> 200 then t else take 200 t)"

definition parse_device_name :: "string \<Rightarrow> string" where
  "parse_device_name ua =
     (let l = to_lower ua in
      if str_includes l ''iphone'' then ''iPhone''
      else if str_includes l ''ipad'' then ''iPad''
      else if str_includes l ''android'' then ''Android''
      else if str_includes l ''windows'' then ''Windows''
      else if str_includes l ''macintosh'' \<or> str_includes l ''mac os x'' then ''Mac''
      else normalize_device_name ua)"

section \<open>Order codes and their reader\<close>

lemma match_order_code_long: "match_order_code s = Some m \<Longrightarrow> 14 \<le> length s \<and> take 2 s = ''OD''"
proof -
  assume m: "match_order_code s = Some m"
  let ?r = "dropWhile is_code_separator (drop 2 s)"
  let ?run = "takeWhile is_alnum_upper (dropWhile is_code_separator (drop 6 ?r))"
  from m have od: "take 2 s = ''OD''" and six: "length (take 6 ?r) = 6" and run: "6 \<le> length ?run"
    by (auto simp: match_order_code_def Let_def split: if_splits)
  have "length ?run \<le> length (drop 6 ?r)"
    by (meson le_trans length_dropWhile_le length_takeWhile_le)
  moreover have "length ?r \<le> length (drop 2 s)" by (rule length_dropWhile_le)
  moreover have "2 \<le> length s" using arg_cong [OF od, of length] by simp
  ultimately show ?thesis using od six run by simp
qed

lemma first_order_code_suffix:
  "first_order_code s = Some m \<Longrightarrow> \<exists>n. match_order_code (drop n s) = Some m"
proof (induction s)
  case Nil
  then show ?case by simp
next
  case (Cons c cs)
  then show ?case
    by (cases "match_order_code (c # cs)") (auto intro: exI [of _ 0] dest: Cons.IH, metis drop_Suc_Cons)
qed

text \<open>
  The reader of order codes in transfer contents, which looks for codes that start with \<open>OD\<close>,
  recognises no code that \<open>generateOrderCode\<close> produces: these start with \<open>VLR\<close> and are too short.
\<close>
theorem generated_codes_not_extracted:
  assumes "length yymmdd = 6"
  shows "extract_normalized_order_code (generate_order_code yymmdd rs) = None"
proof (rule ccontr)
  assume "extract_normalized_order_code (generate_order_code yymmdd rs) \<noteq> None"
  then obtain m where "first_order_code (to_upper (generate_order_code yymmdd rs)) = Some m"
    by (auto simp: extract_normalized_order_code_def split: if_splits)
  then obtain n where m: "match_order_code (drop n (to_upper (generate_order_code yymmdd rs))) = Some m"
    using first_order_code_suffix by blast
  let ?code = "to_upper (generate_order_code yymmdd rs)"
  note long = match_order_code_long [OF m]
  have "length ?code \<le> 15" using assms by (simp add: to_upper_def generate_order_code_def generate_random_code_def)
  moreover have "14 \<le> length ?code - n" using long by simp
  ultimately have "n < 2" by linarith
  then have "n = 0 \<or> n = 1" by auto
  moreover have "upper_char (CHR ''V'') = CHR ''V''" "upper_char (CHR ''L'') = CHR ''L''" "upper_char (CHR ''R'') = CHR ''R''"
    by (simp_all add: upper_char_def is_lower_def char_code_def)
  ultimately have "hd (drop n ?code) \<noteq> CHR ''O''"
    by (auto simp: to_upper_def generate_order_code_def)
  moreover have "hd (drop n ?code) = CHR ''O''"
  proof -
    have "take 2 (drop n ?code) = ''OD''" using long by simp
    then show ?thesis by (cases "drop n ?code") (simp_all add: numeral_2_eq_2)
  qed
  ultimately show False by simp
qed

lemma generated_codes_not_extracted_witness:
  "extract_normalized_order_code (generate_order_code ''260701'' [24, 13, 3, 4, 5, 35]) = None"
  by (rule generated_codes_not_extracted) simp

section \<open>Slugs are well formed\<close>

lemma dash_runs_set: "set (dash_runs b s) \<subseteq> {c. slug_letter c \<or> c = 45}"
  by (induction b s rule: dash_runs.induct) auto

lemma squeeze_set: "set (squeeze_dashes s) \<subseteq> set s"
  by (induction s rule: squeeze_dashes.induct) auto

definition no_double_dash :: "nat list \<Rightarrow> bool" where
  "no_double_dash s \<longleftrightarrow> successively (\<lambda>a b. \<not> (a = 45 \<and> b = 45)) s"

lemma dash_runs_no_double:
  "no_double_dash (dash_runs b s) \<and> (b \<and> dash_runs b s \<noteq> [] \<longrightarrow> hd (dash_runs b s) \<noteq> 45)"
proof (induction b s rule: dash_runs.induct)
  case (2 b c cs)
  have "slug_letter c \<Longrightarrow> c \<noteq> 45" by (auto simp: slug_letter_def)
  with 2 show ?case by (auto simp: no_double_dash_def successively_Cons)
qed (simp add: no_double_dash_def)

lemma squeeze_id: "no_double_dash s \<Longrightarrow> squeeze_dashes s = s"
  by (induction s rule: squeeze_dashes.induct) (auto simp: no_double_dash_def)

lemma no_double_dropWhile:
  assumes "no_double_dash s"
  shows "no_double_dash (dropWhile P s)"
  using assms takeWhile_dropWhile_id [of P s]
  unfolding no_double_dash_def by (metis successively_append_iff)

lemma no_double_rev: "no_double_dash (rev s) = no_double_dash s"
  unfolding no_double_dash_def successively_rev
  by (rule arg_cong [where f = "\<lambda>P. successively P s"]) auto

lemma hd_dropWhile_not: "dropWhile P s \<noteq> [] \<Longrightarrow> \<not> P (hd (dropWhile P s))"
  by (rule hd_dropWhile)

text \<open>
  A slug consists of lower-case letters, digits and single inner dashes only: no other character,
  no two dashes in a row, none at either end, whatever the runtime's Unicode tables are.
\<close>
theorem slug_well_formed:
  shows "set (generate_slug nfd lower v) \<subseteq> {c. slug_letter c \<or> c = 45}
       \<and> no_double_dash (generate_slug nfd lower v)
       \<and> (generate_slug nfd lower v \<noteq> [] \<longrightarrow>
            hd (generate_slug nfd lower v) \<noteq> 45 \<and> last (generate_slug nfd lower v) \<noteq> 45)"
proof -
  obtain u where slug: "generate_slug nfd lower v = strip_dashes (squeeze_dashes (dash_runs False u))"
    by (simp add: generate_slug_def)
  define w where "w = dash_runs False u"
  have w: "no_double_dash w" "set w \<subseteq> {c. slug_letter c \<or> c = 45}"
    using dash_runs_no_double [of False u] dash_runs_set [of False u] by (simp_all add: w_def)
  define x where "x = dropWhile (\<lambda>c. c = 45) w"
  define y where "y = dropWhile (\<lambda>c. c = 45) (rev x)"
  have s: "generate_slug nfd lower v = rev y"
    using w(1) by (simp add: slug strip_dashes_def w_def [symmetric] squeeze_id x_def y_def)
  have "set y \<subseteq> set w"
    unfolding x_def y_def by (metis set_dropWhileD set_rev subsetI)
  moreover have "no_double_dash (rev y)"
    unfolding no_double_rev y_def x_def by (intro no_double_dropWhile iffD2 [OF no_double_rev] w(1))
  moreover have "y \<noteq> [] \<Longrightarrow> last (rev y) \<noteq> 45"
    using hd_dropWhile_not [of "\<lambda>c. c = 45" "rev x"] by (simp add: y_def last_rev)
  moreover have "hd (rev y) \<noteq> 45" if "y \<noteq> []"
  proof -
    obtain z where z: "rev x = z @ y"
      unfolding y_def by (metis takeWhile_dropWhile_id)
    then have "x = rev y @ rev z" by (metis rev_append rev_rev_ident)
    then have "hd x = hd (rev y)" and "x \<noteq> []" using that by simp_all
    then show ?thesis using hd_dropWhile_not [of "\<lambda>c. c = 45" w] by (simp add: x_def)
  qed
  ultimately show ?thesis using w(2) unfolding s by auto
qed

lemma slug_well_formed_witness:
  "(let s = generate_slug (\<lambda>s. s) (\<lambda>s. s) [45, 115, 225, 99, 104, 32, 32, 49, 45] in
     s = [115, 45, 99, 104, 45, 49] \<and> hd s \<noteq> 45 \<and> last s \<noteq> 45)"
proof -
  have "generate_slug (\<lambda>s. s) (\<lambda>s. s) [45, 115, 225, 99, 104, 32, 32, 49, 45] = [115, 45, 99, 104, 45, 49]"
    by (simp add: generate_slug_def strip_dashes_def trim_points_def white_point_def slug_letter_def)
  then show ?thesis
    using slug_well_formed [of "\<lambda>s. s" "\<lambda>s. s" "[45, 115, 225, 99, 104, 32, 32, 49, 45]"] by (simp add: Let_def)
qed

section \<open>ISBN-13 detects a wrong digit\<close>

lemma isbn_sum_append:
  "isbn_sum value weight (s @ [c]) = isbn_sum value weight s + value c * weight (length s)"
  by (simp add: isbn_sum_def)

lemma isbn_sum_sum:
  "isbn_sum value weight s = (\<Sum>i<length s. value (s ! i) * weight i)"
proof (induction s rule: rev_induct)
  case (snoc c s)
  have "(\<Sum>i<length s. value ((s @ [c]) ! i) * weight i) = (\<Sum>i<length s. value (s ! i) * weight i)"
    by (rule sum.cong) (simp_all add: nth_append)
  with snoc show ?case by (simp add: isbn_sum_append)
qed (simp add: isbn_sum_def)

lemma isbn_sum_update:
  assumes "k < length s"
  shows "isbn_sum value weight (s[k := c]) - isbn_sum value weight s = (value c - value (s ! k)) * weight k"
proof -
  have "isbn_sum value weight (s[k := c]) - isbn_sum value weight s =
      (\<Sum>i<length s. (value (s[k := c] ! i) - value (s ! i)) * weight i)"
    by (simp add: isbn_sum_sum sum_subtractf [symmetric] left_diff_distrib)
  also have "\<dots> = (\<Sum>i<length s. if i = k then (value c - value (s ! k)) * weight k else 0)"
    using assms by (intro sum.cong) auto
  also have "\<dots> = (value c - value (s ! k)) * weight k" using assms by simp
  finally show ?thesis .
qed

text \<open>
  The ISBN-13 check accepts no number that differs from an accepted one in a single digit.
\<close>
theorem isbn13_detects_single_digit:
  assumes "validate_isbn s" and "length s = 13" and "clean_isbn s = s"
    and "k < 13" and "is_digit c" and "c \<noteq> s ! k"
  shows "\<not> validate_isbn (s[k := c])"
proof
  assume changed: "validate_isbn (s[k := c])"
  have clean: "clean_isbn (s[k := c]) = s[k := c]"
  proof -
    have keep: "\<forall>x\<in>set s. x \<noteq> CHR ''-'' \<and> x \<noteq> CHR '' ''"
      using assms(3) unfolding clean_isbn_def by (simp add: filter_id_conv)
    have "c \<noteq> CHR ''-'' \<and> c \<noteq> CHR '' ''" using assms(5) by (auto simp: is_digit_def char_code_def)
    with keep have "\<forall>x\<in>set (s[k := c]). x \<noteq> CHR ''-'' \<and> x \<noteq> CHR '' ''"
      using set_update_subset_insert [of s k c] by blast
    then show ?thesis unfolding clean_isbn_def by (simp add: filter_id_conv)
  qed
  have "isbn_sum digit_value isbn13_weight s mod 10 = 0"
    and "isbn_sum digit_value isbn13_weight (s[k := c]) mod 10 = 0"
    and digits: "\<forall>x\<in>set s. is_digit x"
    using assms(1,2,3) changed clean by (simp_all add: validate_isbn_def Let_def)
  then have "10 dvd isbn_sum digit_value isbn13_weight (s[k := c]) - isbn_sum digit_value isbn13_weight s"
    by (intro dvd_diff) (simp_all add: dvd_eq_mod_eq_0)
  then have dvd: "10 dvd (digit_value c - digit_value (s ! k)) * isbn13_weight k"
    using assms(2,4) by (simp add: isbn_sum_update)
  have "is_digit (s ! k)" using digits assms(2,4) by (simp add: nth_mem)
  then have range: "digit_value c - digit_value (s ! k) \<in> {- 9..9}"
    using assms(5) by (auto simp: is_digit_def digit_value_def)
  have differ: "digit_value c \<noteq> digit_value (s ! k)"
    using assms(6) by (simp add: digit_value_def char_code_def)
  show False
    using dvd range differ by (auto simp: isbn13_weight_def dvd_def split: if_splits) presburger+
qed

lemma isbn13_detects_single_digit_witness:
  "validate_isbn ''9783161484100'' \<and> \<not> validate_isbn (''9783161484100''[4 := CHR ''8''])"
proof
  show valid: "validate_isbn ''9783161484100''" by code_simp
  show "\<not> validate_isbn (''9783161484100''[4 := CHR ''8''])"
    by (rule isbn13_detects_single_digit [OF valid]) (simp_all add: clean_isbn_def is_digit_def char_code_def)
qed

section \<open>One-time codes\<close>

lemma otp_digits:
  assumes "n < 100000"
  shows "length (generate_otp n) = 5" and "\<forall>c\<in>set (generate_otp n). is_digit c"
proof -
  have "length (nat_string n) \<le> 5"
    using assms by (simp add: nat_string.simps)
  then show "length (generate_otp n) = 5" by (simp add: generate_otp_def length_pad_start)
  have "is_digit (CHR ''0'')" by (simp add: is_digit_def char_code_def)
  then show "\<forall>c\<in>set (generate_otp n). is_digit c"
    using nat_string_digits [of _ n] by (auto simp: generate_otp_def pad_start_def)
qed

end
