(* ===== verification/User_Address.thy ===== *)
theory User_Address
  imports Schema
begin

text \<open>
  The address book of a user: \<open>src/src/modules/user/repository/user-address.repository.ts\<close> and its
  service. Each operation is one transaction (or one query). The invariant is the rule the schema
  states in a comment and the code implements: among the active addresses of a user exactly one is
  the default.
\<close>

definition active_of :: "int \<Rightarrow> address_row \<Rightarrow> bool" where
  "active_of user a \<longleftrightarrow> ua_user_id a = user \<and> ua_deleted_at a = None"

text \<open>\<open>orderBy\<close> with several keys is a stable sort from the last key to the first; NULL sorts last in a descending order.\<close>

definition default_rank :: "address_row \<Rightarrow> int" where
  "default_rank a = (case ua_is_default a of None \<Rightarrow> 2 | Some b \<Rightarrow> if b then 0 else 1)"

definition newest_first :: "address_row list \<Rightarrow> address_row list" where
  "newest_first as = sort_key (\<lambda>a. - ua_created_at a) (sort_key (\<lambda>a. - ua_id a) as)"

definition get_user_addresses :: "int \<Rightarrow> db \<Rightarrow> address_row list" where
  [repo_defs]: "get_user_addresses user d =
     sort_key default_rank (newest_first (select_rows (active_of user) (addresses d)))"

record address_body =
  ab_type :: "string option"
  ab_recipient_name :: "string option"
  ab_phone :: string
  ab_detail :: string
  ab_ward :: string
  ab_district :: string
  ab_city :: string

text \<open>An address type outside the enumeration is refused by the database client.\<close>

definition parse_address_type :: "string option \<Rightarrow> address_type option" where
  "parse_address_type t =
     (case t of None \<Rightarrow> Some HOME
      | Some s \<Rightarrow> if s = ''HOME'' then Some HOME else if s = ''WORK'' then Some WORK
                  else if s = ''OTHER'' then Some Address_OTHER else None)"

definition new_address :: "int \<Rightarrow> int \<Rightarrow> address_body \<Rightarrow> address_type \<Rightarrow> string \<Rightarrow> bool \<Rightarrow> int \<Rightarrow> address_row" where
  "new_address now user body ty name is_default i =
     \<lparr>ua_id = i, ua_user_id = user, ua_type = ty, ua_recipient_name = name, ua_phone = ab_phone body,
      ua_detail = ab_detail body, ua_ward = ab_ward body, ua_district = ab_district body,
      ua_city = ab_city body, ua_is_default = Some is_default, ua_created_at = now,
      ua_deleted_at = None\<rparr>"

definition create_user_address :: "int \<Rightarrow> int \<Rightarrow> address_body \<Rightarrow> address_row action" where
  [repo_defs]: "create_user_address now user body = transaction (\<lambda>d.
     let active_count = count_rows (active_of user) (addresses d) in
     case (parse_address_type (ab_type body), ab_recipient_name body) of
       (Some ty, Some name) \<Rightarrow>
         let mk = new_address now user body ty name (active_count = 0) in
         if user_of d user = None then (Inl P2003, d)
         else (Inr (mk (serial (addresses d))), d\<lparr>addresses := insert_row mk (addresses d)\<rparr>)
     | _ \<Rightarrow> (Inl (JsError ''PrismaClientValidationError''), d))"

record address_update =
  au_type :: "string option"
  au_recipient_name :: "string option"
  au_phone :: "string option"
  au_detail :: "string option"
  au_ward :: "string option"
  au_district :: "string option"
  au_city :: "string option"

definition or_else :: "'a option \<Rightarrow> 'a \<Rightarrow> 'a" where
  "or_else x y = (case x of None \<Rightarrow> y | Some v \<Rightarrow> v)"

definition apply_address_update :: "address_update \<Rightarrow> address_row \<Rightarrow> address_row" where
  "apply_address_update b a =
     a\<lparr>ua_type := (case au_type b of None \<Rightarrow> ua_type a
                   | Some s \<Rightarrow> or_else (parse_address_type (Some s)) (ua_type a)),
       ua_recipient_name := or_else (au_recipient_name b) (ua_recipient_name a),
       ua_phone := or_else (au_phone b) (ua_phone a),
       ua_detail := or_else (au_detail b) (ua_detail a),
       ua_ward := or_else (au_ward b) (ua_ward a),
       ua_district := or_else (au_district b) (ua_district a),
       ua_city := or_else (au_city b) (ua_city a)\<rparr>"

definition find_active_address :: "int \<Rightarrow> int \<Rightarrow> db \<Rightarrow> address_row option" where
  "find_active_address i user d = find_row (\<lambda>a. ua_id a = i \<and> active_of user a) (addresses d)"

definition update_address_row :: "int \<Rightarrow> (address_row \<Rightarrow> address_row) \<Rightarrow> db \<Rightarrow> db" where
  "update_address_row i f d = d\<lparr>addresses := map_rows (\<lambda>a. ua_id a = i) f (addresses d)\<rparr>"

definition update_user_address :: "int \<Rightarrow> int \<Rightarrow> address_update \<Rightarrow> address_row action" where
  [repo_defs]: "update_user_address i user body d =
     (case find_active_address i user d of
        None \<Rightarrow> (Inl (NotFound ''USER_ADDRESS_NOT_FOUND''), d)
      | Some a \<Rightarrow>
          if parse_address_type (au_type body) = None
          then (Inl (JsError ''PrismaClientValidationError''), d)
          else (Inr (apply_address_update body a), update_address_row i (apply_address_update body) d))"

definition clear_defaults :: "int \<Rightarrow> db \<Rightarrow> db" where
  "clear_defaults user d =
     d\<lparr>addresses := map_rows (active_of user) (\<lambda>a. a\<lparr>ua_is_default := Some False\<rparr>) (addresses d)\<rparr>"

definition set_default_address :: "int \<Rightarrow> int \<Rightarrow> address_row action" where
  [repo_defs]: "set_default_address i user = transaction (\<lambda>d.
     case find_active_address i user d of
       None \<Rightarrow> (Inl (NotFound ''USER_ADDRESS_NOT_FOUND''), d)
     | Some a \<Rightarrow>
         (Inr (a\<lparr>ua_is_default := Some True\<rparr>),
          update_address_row (ua_id a) (\<lambda>a. a\<lparr>ua_is_default := Some True\<rparr>) (clear_defaults user d)))"

definition newest_active :: "int \<Rightarrow> db \<Rightarrow> address_row option" where
  "newest_active user d =
     (case newest_first (select_rows (active_of user) (addresses d)) of [] \<Rightarrow> None | a # _ \<Rightarrow> Some a)"

definition soft_delete_address :: "int \<Rightarrow> int \<Rightarrow> int \<Rightarrow> int action" where
  [repo_defs]: "soft_delete_address now i user = transaction (\<lambda>d.
     case find_active_address i user d of
       None \<Rightarrow> (Inl (NotFound ''USER_ADDRESS_NOT_FOUND''), d)
     | Some a \<Rightarrow>
         let d1 = update_address_row (ua_id a)
                    (\<lambda>a. a\<lparr>ua_deleted_at := Some now, ua_is_default := Some False\<rparr>) d;
             d2 = (if ua_is_default a = Some True
                   then case newest_active user d1 of
                          None \<Rightarrow> d1
                        | Some n \<Rightarrow> update_address_row (ua_id n) (\<lambda>a. a\<lparr>ua_is_default := Some True\<rparr>)
                                     (clear_defaults user d1)
                   else d1)
         in (Inr (ua_id a), d2))"

definition find_by_address_id_and_user_id :: "int \<Rightarrow> int \<Rightarrow> db \<Rightarrow> (address_row \<times> string) option" where
  [repo_defs]: "find_by_address_id_and_user_id i user d =
     Option.bind (find_active_address i user d)
       (\<lambda>a. map_option (\<lambda>u. (a, usr_email u)) (user_of d (ua_user_id a)))"

section \<open>One default address\<close>

definition actives :: "db \<Rightarrow> int \<Rightarrow> address_row list" where
  "actives d user = select_rows (active_of user) (addresses d)"

definition defaults :: "address_row list \<Rightarrow> address_row list" where
  "defaults as = filter (\<lambda>a. ua_is_default a = Some True) as"

definition address_inv :: "db \<Rightarrow> bool" where
  "address_inv d \<longleftrightarrow>
     wf_table ua_id (addresses d) \<and> (\<forall>u. actives d u \<noteq> [] \<longrightarrow> length (defaults (actives d u)) = 1)"

lemma address_invI:
  assumes "wf_table ua_id (addresses d)"
    and "\<And>u. actives d u \<noteq> [] \<Longrightarrow> length (defaults (actives d u)) = 1"
  shows "address_inv d"
  using assms by (simp add: address_inv_def)

lemma actives_map_rows:
  "actives (d\<lparr>addresses := map_rows P f (addresses d)\<rparr>) u =
     filter (active_of u) (map (\<lambda>a. if P a then f a else a) (rows (addresses d)))"
  by (simp add: actives_def select_rows_def)

lemma one_default_set:
  assumes "distinct (map ua_id as)" and "a \<in> set as"
  shows "length (filter (\<lambda>x. ua_id x = ua_id a) as) = 1"
  using assms by (induction as) (auto simp: filter_empty_conv image_iff)

text \<open>Clearing the defaults of a user and setting one active address.\<close>

definition promoted :: "int \<Rightarrow> int \<Rightarrow> address_row \<Rightarrow> address_row" where
  "promoted i user a =
     (if active_of user a then a\<lparr>ua_is_default := Some (ua_id a = i)\<rparr>
      else if ua_id a = i then a\<lparr>ua_is_default := Some True\<rparr> else a)"

lemma promoted_simps [simp]:
  "ua_id (promoted i user a) = ua_id a" "active_of u (promoted i user a) = active_of u a"
  by (simp_all add: promoted_def active_of_def)

lemma promote_state:
  "rows (addresses (update_address_row i (\<lambda>a. a\<lparr>ua_is_default := Some True\<rparr>) (clear_defaults user d))) =
     map (promoted i user) (rows (addresses d))"
  by (auto simp: update_address_row_def clear_defaults_def promoted_def active_of_def)

lemma address_inv_promote:
  assumes wf: "wf_table ua_id (addresses d)"
    and a: "a \<in> set (rows (addresses d))" "active_of user a"
    and others: "\<And>u. u \<noteq> user \<Longrightarrow> actives d u \<noteq> [] \<Longrightarrow> length (defaults (actives d u)) = 1"
  shows "address_inv (update_address_row (ua_id a) (\<lambda>a. a\<lparr>ua_is_default := Some True\<rparr>) (clear_defaults user d))"
    (is "address_inv ?d'")
proof (rule address_invI)
  have rows: "rows (addresses ?d') = map (promoted (ua_id a) user) (rows (addresses d))"
    by (rule promote_state)
  have ids: "distinct (map ua_id (rows (addresses d)))" using wf by (simp add: wf_table_def)
  show "wf_table ua_id (addresses ?d')"
    using wf by (simp add: update_address_row_def clear_defaults_def wf_map_rows)
  have actives: "actives ?d' u = map (promoted (ua_id a) user) (actives d u)" for u
    by (simp add: actives_def select_rows_def rows filter_map comp_def)
  fix u
  assume nonempty: "actives ?d' u \<noteq> []"
  show "length (defaults (actives ?d' u)) = 1"
  proof (cases "u = user")
    case True
    have "defaults (actives ?d' u) =
        map (promoted (ua_id a) user) (filter (\<lambda>x. ua_id x = ua_id a) (actives d u))"
      unfolding actives defaults_def filter_map comp_def
      by (rule arg_cong, rule filter_cong) (auto simp: True actives_def promoted_def)
    moreover have "distinct (map ua_id (actives d u))"
      using ids by (simp add: actives_def select_rows_def distinct_map_filter)
    moreover have "a \<in> set (actives d u)" using a True by (simp add: actives_def)
    ultimately show ?thesis by (simp add: one_default_set)
  next
    case False
    have "x = promoted (ua_id a) user x" if "x \<in> set (actives d u)" for x
    proof -
      have x: "x \<in> set (rows (addresses d))" "ua_user_id x = u"
        using that by (auto simp: actives_def active_of_def)
      then have "ua_id x \<noteq> ua_id a"
        using a False ids by (auto simp: active_of_def dest: inj_on_eq_iff [THEN iffD1, rotated 2]
            simp: distinct_map)
      then show ?thesis using x False by (simp add: promoted_def active_of_def)
    qed
    then have "actives ?d' u = actives d u" unfolding actives by (intro map_idI) simp
    with others [OF False] nonempty show ?thesis by simp
  qed
qed

lemma address_inv_wf: "address_inv d \<Longrightarrow> wf_table ua_id (addresses d)"
  by (simp add: address_inv_def)

lemma address_inv_one: "address_inv d \<Longrightarrow> actives d u \<noteq> [] \<Longrightarrow> length (defaults (actives d u)) = 1"
  by (simp add: address_inv_def)

lemma find_active_addressD:
  "find_active_address i user d = Some a \<Longrightarrow>
     a \<in> set (rows (addresses d)) \<and> ua_id a = i \<and> active_of user a"
  by (auto simp: find_active_address_def dest: find_row_SomeD)

lemma address_inv_create:
  assumes "address_inv d"
  shows "address_inv (snd (create_user_address now user body d))"
proof -
  have insert: "address_inv (d\<lparr>addresses := insert_row
      (new_address now user body ty name (count_rows (active_of user) (addresses d) = 0)) (addresses d)\<rparr>)" for ty name
  proof (rule address_invI)
    let ?mk = "new_address now user body ty name (count_rows (active_of user) (addresses d) = 0)"
    show "wf_table ua_id (addresses (d\<lparr>addresses := insert_row ?mk (addresses d)\<rparr>))"
      using address_inv_wf [OF assms] by (simp add: wf_insert_row new_address_def)
    fix u
    have act: "actives (d\<lparr>addresses := insert_row ?mk (addresses d)\<rparr>) u =
        actives d u @ (if u = user then [?mk (serial (addresses d))] else [])"
      by (auto simp: actives_def select_rows_def new_address_def active_of_def)
    have none: "count_rows (active_of user) (addresses d) = 0 \<longleftrightarrow> actives d user = []"
      by (simp add: count_rows_def actives_def select_rows_def)
    assume "actives (d\<lparr>addresses := insert_row ?mk (addresses d)\<rparr>) u \<noteq> []"
    then show "length (defaults (actives (d\<lparr>addresses := insert_row ?mk (addresses d)\<rparr>) u)) = 1"
      using address_inv_one [OF assms, of u] none unfolding act
      by (auto simp: defaults_def new_address_def)
  qed
  show ?thesis
    using assms insert
    by (simp add: create_user_address_def transaction_def Let_def split: option.split)
qed

lemma apply_address_update_keeps [simp]:
  "ua_id (apply_address_update b a) = ua_id a"
  "active_of u (apply_address_update b a) = active_of u a"
  "ua_is_default (apply_address_update b a) = ua_is_default a"
  by (simp_all add: apply_address_update_def active_of_def)

lemma address_inv_update:
  assumes "address_inv d"
  shows "address_inv (snd (update_user_address i user body d))"
proof -
  have "address_inv (update_address_row i (apply_address_update body) d)" (is "address_inv ?d'")
  proof (rule address_invI)
    let ?g = "\<lambda>a. if ua_id a = i then apply_address_update body a else a"
    show "wf_table ua_id (addresses ?d')"
      using address_inv_wf [OF assms] by (simp add: update_address_row_def wf_map_rows)
    fix u
    have act: "actives ?d' u = map ?g (actives d u)"
      by (simp add: actives_def select_rows_def update_address_row_def filter_map comp_def if_distrib cong: if_cong)
    have "defaults (map ?g xs) = map ?g (defaults xs)" for xs
      by (simp add: defaults_def filter_map comp_def if_distrib cong: if_cong)
    then show "actives ?d' u \<noteq> [] \<Longrightarrow> length (defaults (actives ?d' u)) = 1"
      using address_inv_one [OF assms, of u] by (simp add: act)
  qed
  with assms show ?thesis by (simp add: update_user_address_def split: option.split)
qed

lemma address_inv_set_default:
  assumes "address_inv d"
  shows "address_inv (snd (set_default_address i user d))"
proof (cases "find_active_address i user d")
  case None
  with assms show ?thesis by (simp add: set_default_address_def transaction_def)
next
  case (Some a)
  then have "address_inv (update_address_row (ua_id a) (\<lambda>a. a\<lparr>ua_is_default := Some True\<rparr>) (clear_defaults user d))"
    using find_active_addressD [OF Some] address_inv_wf [OF assms] address_inv_one [OF assms]
    by (intro address_inv_promote) auto
  with Some show ?thesis by (simp add: set_default_address_def transaction_def)
qed

lemma newest_active_in:
  "newest_active user d = Some n \<Longrightarrow> n \<in> set (rows (addresses d)) \<and> active_of user n"
proof -
  assume "newest_active user d = Some n"
  then have "n \<in> set (newest_first (select_rows (active_of user) (addresses d)))"
    by (auto simp: newest_active_def split: list.splits)
  then show ?thesis by (simp add: newest_first_def)
qed

lemma newest_active_None: "newest_active user d = None \<longleftrightarrow> actives d user = []"
proof -
  have "newest_first xs = [] \<longleftrightarrow> xs = []" for xs
    by (metis newest_first_def set_empty set_sort)
  then have "newest_first (select_rows (active_of user) (addresses d)) = [] \<longleftrightarrow> actives d user = []"
    by (simp add: actives_def)
  then show ?thesis
    by (cases "newest_first (select_rows (active_of user) (addresses d))") (simp_all add: newest_active_def)
qed

text \<open>Deleting an address removes it from the active ones of its user and touches no other user.\<close>

lemma actives_delete:
  assumes "wf_table ua_id (addresses d)" and "find_active_address i user d = Some a"
  shows "actives (update_address_row (ua_id a) (\<lambda>a. a\<lparr>ua_deleted_at := Some now, ua_is_default := Some False\<rparr>) d) u
           = filter (\<lambda>x. ua_id x \<noteq> i) (actives d u)"
proof -
  have "filter (active_of u) (map (\<lambda>x. if ua_id x = i
          then x\<lparr>ua_deleted_at := Some now, ua_is_default := Some False\<rparr> else x) xs) =
      filter (\<lambda>x. ua_id x \<noteq> i) (filter (active_of u) xs)" for xs
    by (induction xs) (auto simp: active_of_def)
  moreover have "ua_id a = i" using find_active_addressD [OF assms(2)] by simp
  ultimately show ?thesis by (simp add: update_address_row_def actives_def select_rows_def)
qed

lemma filter_other_user:
  assumes "wf_table ua_id (addresses d)" and "find_active_address i user d = Some a" and "u \<noteq> user"
  shows "filter (\<lambda>x. ua_id x \<noteq> i) (actives d u) = actives d u"
proof (rule filter_True, rule ballI)
  fix x
  assume "x \<in> set (actives d u)"
  then have x: "x \<in> set (rows (addresses d))" "ua_user_id x = u" by (auto simp: actives_def active_of_def)
  have a: "a \<in> set (rows (addresses d))" "ua_id a = i" "ua_user_id a = user"
    using find_active_addressD [OF assms(2)] by (auto simp: active_of_def)
  show "ua_id x \<noteq> i"
  proof
    assume "ua_id x = i"
    then have "x = a"
      using find_row_key [OF assms(1) x(1)] find_row_key [OF assms(1) a(1)] a(2) by simp
    with x a assms(3) show False by simp
  qed
qed

lemma address_inv_delete:
  assumes inv: "address_inv d"
  shows "address_inv (snd (soft_delete_address now i user d))"
proof (cases "find_active_address i user d")
  case None
  with inv show ?thesis by (simp add: soft_delete_address_def transaction_def)
next
  case (Some a)
  let ?d1 = "update_address_row (ua_id a) (\<lambda>a. a\<lparr>ua_deleted_at := Some now, ua_is_default := Some False\<rparr>) d"
  note a = find_active_addressD [OF Some] and wf = address_inv_wf [OF inv]
  have wf1: "wf_table ua_id (addresses ?d1)" using wf by (simp add: update_address_row_def wf_map_rows)
  note act = actives_delete [OF wf Some, of now]
  have others: "actives ?d1 u \<noteq> [] \<Longrightarrow> length (defaults (actives ?d1 u)) = 1" if "u \<noteq> user" for u
    using address_inv_one [OF inv, of u] act filter_other_user [OF wf Some that] by simp
  show ?thesis
  proof (cases "ua_is_default a = Some True")
    case True
    show ?thesis
    proof (cases "newest_active user ?d1")
      case None
      then have "address_inv ?d1"
        using wf1 others newest_active_None [of user ?d1] unfolding address_inv_def by metis
      with Some True None show ?thesis
        by (simp add: soft_delete_address_def transaction_def Let_def)
    next
      case (Some n)
      then have "address_inv (update_address_row (ua_id n) (\<lambda>a. a\<lparr>ua_is_default := Some True\<rparr>)
          (clear_defaults user ?d1))"
        using newest_active_in [OF Some] wf1 others by (intro address_inv_promote) auto
      with \<open>find_active_address i user d = Some a\<close> True Some show ?thesis
        by (simp add: soft_delete_address_def transaction_def Let_def)
    qed
  next
    case False
    have "defaults (filter (\<lambda>x. ua_id x \<noteq> i) (actives d user)) = defaults (actives d user)"
    proof -
      have "ua_id x \<noteq> i" if "x \<in> set (actives d user)" "ua_is_default x = Some True" for x
      proof
        assume "ua_id x = i"
        then have "x = a"
          using that a find_row_key [OF wf, of x] find_row_key [OF wf, of a] by (simp add: actives_def)
        with that False show False by simp
      qed
      then show ?thesis unfolding defaults_def filter_filter by (intro filter_cong) auto
    qed
    moreover have "actives d user \<noteq> []" if "filter (\<lambda>x. ua_id x \<noteq> i) (actives d user) \<noteq> []"
      using that by auto
    ultimately have "address_inv ?d1"
      using others wf1 act address_inv_one [OF inv, of user] unfolding address_inv_def by metis
    with Some False show ?thesis by (simp add: soft_delete_address_def transaction_def Let_def)
  qed
qed

datatype address_call =
    Create_address int int address_body
  | Update_address int int address_update
  | Set_default int int
  | Delete_address int int int

fun address_step :: "address_call \<Rightarrow> db \<Rightarrow> db" where
  "address_step (Create_address now u b) d = snd (create_user_address now u b d)"
| "address_step (Update_address i u b) d = snd (update_user_address i u b d)"
| "address_step (Set_default i u) d = snd (set_default_address i u d)"
| "address_step (Delete_address now i u) d = snd (soft_delete_address now i u d)"

interpretation address_machine: machine address_step address_inv
proof
  fix d c
  assume "address_inv d"
  then show "address_inv (address_step c d)"
    by (cases c) (simp_all add: address_inv_create address_inv_update address_inv_set_default address_inv_delete)
qed

section \<open>Properties\<close>

text \<open>
  C19: after any sequence of calls on the address book, each user with an active address has exactly
  one default address: the first address becomes the default, setting another default moves it, and
  deleting the default promotes the newest remaining address.
\<close>
theorem one_default_address:
  assumes "address_inv d" and "actives (fold address_step calls d) u \<noteq> []"
  shows "length (defaults (actives (fold address_step calls d) u)) = 1"
  using address_machine.run_inv [OF assms(1)] assms(2) by (rule address_inv_one)

definition sample_user :: "int \<Rightarrow> user_row" where
  "sample_user i = \<lparr>usr_id = i, usr_email = ''reader@example.com'', usr_phone = None, usr_first_name = None,
     usr_last_name = None, usr_password = ''hash'', usr_password_changed_at = None,
     usr_is_email_verified = True, usr_verify_email_at = None, usr_status = User_ACTIVE,
     usr_last_login_at = None, usr_created_at = 0, usr_deleted_at = None\<rparr>"

definition sample_address_body :: address_body where
  "sample_address_body = \<lparr>ab_type = None, ab_recipient_name = Some ''A'', ab_phone = ''09'', ab_detail = ''x'',
     ab_ward = ''w'', ab_district = ''d'', ab_city = ''c''\<rparr>"

definition one_user_db :: db where
  "one_user_db = empty_db\<lparr>users := \<lparr>rows = [sample_user 7], serial = 8\<rparr>\<rparr>"

lemma one_default_address_witness:
  "length (defaults (actives (fold address_step
     [Create_address 0 7 sample_address_body, Create_address 1 7 sample_address_body,
      Set_default 2 7, Delete_address 5 2 7] one_user_db) 7)) = 1"
proof (rule one_default_address)
  show "address_inv one_user_db"
    by (simp add: address_inv_def one_user_db_def actives_def select_rows_def empty_db_def)
  show "actives (fold address_step
     [Create_address 0 7 sample_address_body, Create_address 1 7 sample_address_body,
      Set_default 2 7, Delete_address 5 2 7] one_user_db) 7 \<noteq> []"
    by code_simp
qed

text \<open>
  Setting a default changes no address of another user, and an address that is not an active
  address of the caller is refused without any change.
\<close>
theorem set_default_own_addresses_only:
  assumes "wf_table ua_id (addresses d)" and "a \<in> set (rows (addresses d))" and "ua_user_id a \<noteq> user"
  shows "a \<in> set (rows (addresses (snd (set_default_address i user d))))
       \<and> (find_active_address i user d = None \<longrightarrow>
            set_default_address i user d = (Inl (NotFound ''USER_ADDRESS_NOT_FOUND''), d))"
proof (cases "find_active_address i user d")
  case None
  with assms show ?thesis by (simp add: set_default_address_def transaction_def)
next
  case (Some b)
  have "ua_id a \<noteq> ua_id b"
  proof
    assume "ua_id a = ua_id b"
    then have "a = b"
      using find_row_key [OF assms(1,2)] find_row_key [OF assms(1), of b] find_active_addressD [OF Some] by simp
    then show False using find_active_addressD [OF Some] assms(3) by (simp add: active_of_def)
  qed
  then have "promoted (ua_id b) user a = a" using assms(3) by (simp add: promoted_def active_of_def)
  then have "a \<in> promoted (ua_id b) user ` set (rows (addresses d))" using assms(2) by force
  then show ?thesis
    using Some by (simp add: set_default_address_def transaction_def promote_state del: rows_map_rows)
qed

lemma set_default_own_addresses_only_witness:
  "set_default_address 1 8 (fold address_step [Create_address 0 7 sample_address_body] one_user_db)
     = (Inl (NotFound ''USER_ADDRESS_NOT_FOUND''), fold address_step [Create_address 0 7 sample_address_body] one_user_db)"
proof -
  let ?d = "fold address_step [Create_address 0 7 sample_address_body] one_user_db"
  have "wf_table ua_id (addresses ?d)"
    by (intro address_inv_wf address_machine.run_inv)
       (simp add: address_inv_def one_user_db_def actives_def select_rows_def empty_db_def)
  moreover have "new_address 0 7 sample_address_body HOME ''A'' True 1 \<in> set (rows (addresses ?d))"
    by (simp add: create_user_address_def transaction_def sample_address_body_def parse_address_type_def
        one_user_db_def user_of_def find_row_def sample_user_def empty_db_def count_rows_def empty_table_def
        Let_def)
  moreover have "find_active_address 1 8 ?d = None" by code_simp
  ultimately show ?thesis
    using set_default_own_addresses_only [of ?d "new_address 0 7 sample_address_body HOME ''A'' True 1" 8 1]
    by (simp add: new_address_def)
qed

end
