(* ===== verification/Checkout.thy ===== *)
theory Checkout
  imports Orders Text_Utils User_Address
begin

text \<open>
  Placing an order: \<open>createCheckout\<close> of \<open>src/src/modules/order/service/order.service.ts\<close> and the
  background job of \<open>src/src/queue/checkout\<close>. The request validates the buyer, takes the quantities
  out of the stock counters in Redis, falls back to the reservation in the database when that fails,
  creates the order and the payment intent and enqueues the job; the job writes the price snapshots,
  the items and the address and reserves the stock in the database.

  \<open>available_counters\<close> of the state holds the keys \<open>available:<id>\<close>. Redis answers either every
  command of a request or none (\<open>env_redis_up\<close>); the expiry of a key after an hour is a separate
  event, \<open>expire_counter\<close>. The job queue takes the job as the last step of a successful request, so
  the job is part of the result.
\<close>

record guest_address_dto =
  ga_name :: string
  ga_address_line :: string
  ga_city :: string
  ga_ward :: "string option"
  ga_district :: "string option"
  ga_phone :: string
  ga_note :: "string option"

record checkout_body =
  cb_is_guest :: bool
  cb_guest_email :: "string option"
  cb_guest_address :: "guest_address_dto option"
  cb_address_id :: "int option"
  cb_gateway :: payment_gateway
  cb_items :: "checkout_item list"

record checkout_env =
  env_now :: int
  env_yymmdd :: string
  env_random :: "nat list"
  env_token :: string
  env_config :: payment_config
  env_redis_up :: bool

record checkout_job =
  cj_order_id :: int
  cj_is_guest :: bool
  cj_order_code :: string
  cj_total :: rat
  cj_subtotal :: rat
  cj_variants :: "variant_row list"
  cj_quantities :: "int \<Rightarrow> int option"
  cj_guest_email :: "string option"
  cj_guest_session :: "int option"
  cj_guest_address :: "guest_address_dto option"
  cj_address_id :: "int option"
  cj_user_id :: "int option"
  cj_email :: "string option"
  cj_is_error :: bool
  cj_payment :: payment_gateway

record checkout_response =
  cr_is_transfer :: bool
  cr_order_code :: string
  cr_total :: rat
  cr_variants :: "variant_row list"
  cr_ship_fee :: int
  cr_payment :: "payment_url option"

section \<open>The request\<close>

definition falsy_id :: "int option \<Rightarrow> bool" where
  "falsy_id i \<longleftrightarrow> i = None \<or> i = Some 0"

text \<open>The checks on the buyer; the value is the e-mail address of a signed-in user.\<close>

definition validate_buyer :: "checkout_body \<Rightarrow> int option \<Rightarrow> int option \<Rightarrow> db \<Rightarrow> string option res" where
  "validate_buyer body guest user d =
     (if cb_is_guest body then
        if guest = None then Inl (BadRequest ''Ban khong phai la khach vang lai'')
        else if cb_guest_address body = None then Inl (BadRequest ''Address required'')
        else Inr None
      else if falsy_id (cb_address_id body) then Inl (BadRequest ''Ban can phai tao dia chi'')
      else case user of
             None \<Rightarrow> Inl (JsError ''PrismaClientValidationError'')
           | Some u \<Rightarrow>
               (case find_by_address_id_and_user_id (the (cb_address_id body)) u d of
                  None \<Rightarrow> Inl (BadRequest ''Ban can phai tao dia chi'')
                | Some (_, email) \<Rightarrow> Inr (Some email)))"

definition map_variant_ids :: "checkout_item list \<Rightarrow> int \<Rightarrow> int option" where
  "map_variant_ids items = foldl (\<lambda>m i. m(item_variant_id i \<mapsto> item_quantity i)) Map.empty items"

text \<open>\<open>SET key value NX\<close> for each variant, \<open>DECRBY\<close> for each item, and the check of the results.\<close>

definition set_counter_nx :: "variant_row \<Rightarrow> (int \<Rightarrow> int option) \<Rightarrow> int \<Rightarrow> int option" where
  "set_counter_nx v c = (if c (bv_id v) = None then c(bv_id v \<mapsto> bv_stock v - bv_reserved v) else c)"

primrec decrby_all :: "checkout_item list \<Rightarrow> (int \<Rightarrow> int option) \<Rightarrow> int list \<times> (int \<Rightarrow> int option)" where
  "decrby_all [] c = ([], c)"
| "decrby_all (i # is) c =
     (let n = (case c (item_variant_id i) of None \<Rightarrow> 0 | Some m \<Rightarrow> m) - item_quantity i;
          (rs, c') = decrby_all is (c(item_variant_id i \<mapsto> n))
      in (n # rs, c'))"

fun check_remaining :: "checkout_item list \<Rightarrow> int list \<Rightarrow> (int \<Rightarrow> int option) \<Rightarrow> bool \<times> (int \<Rightarrow> int option)" where
  "check_remaining (i # is) (r # rs) c =
     (if r < 0
      then (False, c(item_variant_id i \<mapsto>
              (case c (item_variant_id i) of None \<Rightarrow> 0 | Some m \<Rightarrow> m) + item_quantity i))
      else check_remaining is rs c)"
| "check_remaining _ _ c = (True, c)"

definition redis_reserve :: "variant_row list \<Rightarrow> checkout_item list \<Rightarrow> (int \<Rightarrow> int option) \<Rightarrow> bool \<times> (int \<Rightarrow> int option)" where
  "redis_reserve vs items c =
     (let c1 = fold set_counter_nx vs c; (rs, c2) = decrby_all items c1 in check_remaining items rs c2)"

definition expire_counter :: "int \<Rightarrow> db \<Rightarrow> db" where
  "expire_counter i d = d\<lparr>available_counters := (available_counters d)(i := None)\<rparr>"

text \<open>
  The \<open>try\<close>/\<open>catch\<close> around Redis: every failure, the "sold out" raised inside included, ends in the
  fallback, which asks for some free stock of each variant and reserves in the database. The value
  is \<open>isError\<close>.
\<close>

definition reserve_stock :: "bool \<Rightarrow> variant_row list \<Rightarrow> checkout_item list \<Rightarrow> bool action" where
  "reserve_stock redis_up vs items d =
     (let (ok, c) = (if redis_up then redis_reserve vs items (available_counters d)
                     else (False, available_counters d));
          d1 = d\<lparr>available_counters := c\<rparr>
      in if ok then (Inr False, d1)
         else if \<exists>v\<in>set vs. bv_stock v - bv_reserved v \<le> 0 then (Inl (BadRequest ''Het hang''), d1)
         else await (transaction (update_reserved_by_ids items) d1) (\<lambda>_. ret True))"

definition order_subtotal :: "variant_row list \<Rightarrow> (int \<Rightarrow> int option) \<Rightarrow> rat" where
  "order_subtotal vs m =
     foldl (\<lambda>sum v. js_add sum (js_mul (number_of_decimal (bv_price v)) (of_int (the (m (bv_id v)))))) 0 vs"

definition create_checkout ::
    "checkout_env \<Rightarrow> checkout_body \<Rightarrow> int option \<Rightarrow> int option \<Rightarrow> (checkout_response \<times> checkout_job) action" where
  [service_defs]: "create_checkout env body guest user d =
     (case validate_buyer body guest user d of
        Inl e \<Rightarrow> (Inl e, d)
      | Inr email \<Rightarrow>
          let items = cb_items body; m = map_variant_ids items;
              vs = find_variants_by_ids (map item_variant_id items) d in
          if length vs \<noteq> length items then (Inl (BadRequest ''Co san pham da bi xoa''), d)
          else await (reserve_stock (env_redis_up env) vs items d) (\<lambda>is_error d.
            let sub = order_subtotal vs m; amount = js_add sub (of_int SHIPPING_FEE);
                code = generate_order_code (env_yymmdd env) (env_random env) in
            await (if cb_is_guest body
                   then create_guest_order (env_now env) (the guest) code amount sub d
                   else create_user_order (env_now env) (the user) code amount sub (the (cb_address_id body)) d)
              (\<lambda>order d.
                let url = (if cb_gateway body \<noteq> COD
                           then Some (generate_qr_url (env_config env) (env_token env) amount code) else None) in
                await (case url of
                         None \<Rightarrow> (Inr (), d)
                       | Some u \<Rightarrow> await (create_payment_intent (env_now env) SEPAY code u d) (\<lambda>_. ret ()))
                  (\<lambda>_. ret
                    (\<lparr>cr_is_transfer = (cb_gateway body \<noteq> COD), cr_order_code = code, cr_total = amount,
                      cr_variants = vs, cr_ship_fee = SHIPPING_FEE, cr_payment = url\<rparr>,
                     \<lparr>cj_order_id = ord_id order, cj_is_guest = cb_is_guest body, cj_order_code = code,
                      cj_total = amount, cj_subtotal = sub, cj_variants = vs, cj_quantities = m,
                      cj_guest_email = cb_guest_email body,
                      cj_guest_session = (if cb_is_guest body then guest else None),
                      cj_guest_address = (if cb_is_guest body then cb_guest_address body else None),
                      cj_address_id = (if cb_is_guest body then None else cb_address_id body),
                      cj_user_id = (if cb_is_guest body then None else user), cj_email = email,
                      cj_is_error = is_error, cj_payment = cb_gateway body\<rparr>)))))"

section \<open>The job\<close>

definition snapshot_of_variant :: "(string \<Rightarrow> string) \<Rightarrow> variant_row \<Rightarrow> snapshot_input" where
  "snapshot_of_variant sha256 v =
     (let price = number_of_decimal (bv_price v) in
      \<lparr>sn_content_hash = generate_content_hash sha256 (bv_id v) price (bv_format v) (bv_isbn v),
       sn_variant_id = bv_id v, sn_price = price, sn_format = bv_format v, sn_isbn = None\<rparr>)"

text \<open>\<open>new Map(found.map(s => [s.contentHash, s.id])).get(hash)\<close>.\<close>

definition snapshot_id_of :: "snapshot_row list \<Rightarrow> string \<Rightarrow> int option" where
  "snapshot_id_of found h = map_option bvs_id (List.find (has_hash h) (rev found))"

definition job_item :: "snapshot_row list \<Rightarrow> (int \<Rightarrow> int option) \<Rightarrow> snapshot_input \<Rightarrow> item_payload option" where
  "job_item found m s =
     map_option (\<lambda>sid. let q = the (m (sn_variant_id s)) in
        \<lparr>ipl_snapshot_id = sid, ipl_quantity = q, ipl_unit_price = sn_price s,
         ipl_line_total = js_mul (sn_price s) (of_int q)\<rparr>)
       (snapshot_id_of found (sn_content_hash s))"

definition guest_job_address :: "int \<Rightarrow> guest_address_dto \<Rightarrow> int \<Rightarrow> order_address_row" where
  "guest_job_address order a i =
     \<lparr>oa_id = i, oa_order_id = order, oa_recipient_name = ga_name a, oa_phone = ga_phone a,
      oa_line = ga_address_line a, oa_ward = ga_ward a, oa_district = ga_district a,
      oa_city = ga_city a, oa_country_code = Some ''VN'', oa_note = ga_note a\<rparr>"

text \<open>An item without a snapshot identifier is refused by the client before any row is written.\<close>

definition create_job_items :: "int \<Rightarrow> int \<Rightarrow> item_payload option list \<Rightarrow> int action" where
  "create_job_items now order items d =
     (case those items of
        None \<Rightarrow> (Inl (JsError ''PrismaClientValidationError''), d)
      | Some ps \<Rightarrow> create_many_order_items now order ps d)"

definition job_reservation :: "checkout_job \<Rightarrow> checkout_item list" where
  "job_reservation job =
     map (\<lambda>v. \<lparr>item_variant_id = bv_id v, item_quantity = the (cj_quantities job (bv_id v))\<rparr>) (cj_variants job)"

definition fill_order :: "int \<Rightarrow> checkout_job \<Rightarrow> item_payload option list \<Rightarrow> unit action" where
  "fill_order now job items d =
     await (create_job_items now (cj_order_id job) items d) (\<lambda>_ d.
       await (if cj_is_guest job
              then case cj_guest_address job of
                     None \<Rightarrow> (Inl TypeError, d)
                   | Some a \<Rightarrow> await (create_order_address (guest_job_address (cj_order_id job) a) d) (\<lambda>_. ret ())
              else (Inr (), d)) (\<lambda>_ d.
         if \<not> cj_is_error job \<and> (cj_is_guest job \<longrightarrow> cj_payment job = COD)
         then await (update_reserved_by_ids (job_reservation job) d) (\<lambda>_. ret ())
         else (Inr (), d)))"

definition process_checkout :: "(string \<Rightarrow> string) \<Rightarrow> int \<Rightarrow> checkout_job \<Rightarrow> unit action" where
  [service_defs]: "process_checkout sha256 now job d =
     (let inputs = map (snapshot_of_variant sha256) (cj_variants job) in
      await (create_many_snapshots inputs d) (\<lambda>_ d.
        let found = find_snapshots_by_hashes (map sn_content_hash inputs) d;
            items = map (job_item found (cj_quantities job)) inputs
        in catching (fill_order now job items d)
             (\<lambda>e d. await (delete_order (cj_order_id job) d) (\<lambda>_. throw e))))"

section \<open>Lemmas: the counters\<close>

lemma set_counters_dom:
  "k \<in> bv_id ` set vs \<Longrightarrow> fold set_counter_nx vs c k \<noteq> None"
proof (induction vs rule: rev_induct)
  case (snoc v vs)
  then show ?case by (auto simp: set_counter_nx_def)
qed simp

lemma decrby_all_other: "k \<notin> item_variant_id ` set items \<Longrightarrow> snd (decrby_all items c) k = c k"
  by (induction items arbitrary: c) (auto simp: case_prod_beta Let_def)

lemma decrby_all_result:
  assumes "distinct (map item_variant_id items)" and "i \<in> set items"
  shows "snd (decrby_all items c) (item_variant_id i) =
           Some ((case c (item_variant_id i) of None \<Rightarrow> 0 | Some m \<Rightarrow> m) - item_quantity i)"
  using assms
proof (induction items arbitrary: c)
  case (Cons j items)
  let ?n = "(case c (item_variant_id j) of None \<Rightarrow> 0 | Some m \<Rightarrow> m) - item_quantity j"
  show ?case
  proof (cases "i = j")
    case True
    with Cons.prems have "item_variant_id i \<notin> item_variant_id ` set items" by auto
    from decrby_all_other [OF this, of "c(item_variant_id j \<mapsto> ?n)"] True show ?thesis
      by (simp add: case_prod_beta Let_def)
  next
    case False
    with Cons.prems have "i \<in> set items" and "item_variant_id i \<noteq> item_variant_id j"
      by (auto simp: image_iff)
    moreover from this have "snd (decrby_all items (c(item_variant_id j \<mapsto> ?n))) (item_variant_id i) =
        Some ((case c (item_variant_id i) of None \<Rightarrow> 0 | Some m \<Rightarrow> m) - item_quantity i)"
      using Cons.IH [of "c(item_variant_id j \<mapsto> ?n)"] Cons.prems(1)
      by (simp only: fun_upd_other list.map distinct.simps not_False_eq_True simp_thms)
    ultimately show ?thesis by (simp add: case_prod_beta Let_def)
  qed
qed simp

lemma decrby_all_values:
  assumes "distinct (map item_variant_id items)"
  shows "fst (decrby_all items c) =
           map (\<lambda>i. (case c (item_variant_id i) of None \<Rightarrow> 0 | Some m \<Rightarrow> m) - item_quantity i) items"
  using assms
proof (induction items arbitrary: c)
  case (Cons j items)
  let ?n = "(case c (item_variant_id j) of None \<Rightarrow> 0 | Some m \<Rightarrow> m) - item_quantity j"
  have "fst (decrby_all items (c(item_variant_id j \<mapsto> ?n))) =
      map (\<lambda>i. (case c (item_variant_id i) of None \<Rightarrow> 0 | Some m \<Rightarrow> m) - item_quantity i) items"
    using Cons by (auto intro!: map_cong simp: image_iff)
  then show ?case by (simp add: case_prod_beta Let_def)
qed simp

lemma check_remaining_ok:
  assumes "length rs = length items"
  shows "fst (check_remaining items rs c) \<longleftrightarrow> (\<forall>r\<in>set rs. 0 \<le> r)"
    and "fst (check_remaining items rs c) \<Longrightarrow> snd (check_remaining items rs c) = c"
  using assms by (induction items rs c rule: check_remaining.induct) auto

lemma set_counters:
  assumes "distinct (map bv_id vs)" and "v \<in> set vs"
  shows "fold set_counter_nx vs c (bv_id v) =
           Some (case c (bv_id v) of None \<Rightarrow> bv_stock v - bv_reserved v | Some n \<Rightarrow> n)"
  using assms
proof (induction vs arbitrary: c)
  case (Cons w vs)
  have other: "fold set_counter_nx vs c k = c k" if "k \<notin> bv_id ` set vs" for k c
    using that by (induction vs arbitrary: c) (auto simp: set_counter_nx_def)
  show ?case
  proof (cases "v = w")
    case True
    with Cons.prems have "bv_id w \<notin> bv_id ` set vs" by auto
    moreover have "set_counter_nx w c (bv_id w) =
        Some (case c (bv_id w) of None \<Rightarrow> bv_stock w - bv_reserved w | Some n \<Rightarrow> n)"
      by (simp add: set_counter_nx_def split: option.split)
    ultimately show ?thesis using other unfolding True by simp
  next
    case False
    with Cons.prems have "v \<in> set vs" "bv_id v \<noteq> bv_id w" by (auto simp: image_iff)
    moreover from this have "set_counter_nx w c (bv_id v) = c (bv_id v)" by (simp add: set_counter_nx_def)
    ultimately show ?thesis using Cons by simp
  qed
qed simp

definition counter_before :: "variant_row list \<Rightarrow> (int \<Rightarrow> int option) \<Rightarrow> checkout_item \<Rightarrow> int" where
  "counter_before vs c i =
     (case fold set_counter_nx vs c (item_variant_id i) of None \<Rightarrow> 0 | Some m \<Rightarrow> m)"

lemma check_remaining_failed:
  assumes "length rs = length items" and "\<not> fst (check_remaining items rs c)"
  obtains i where "i \<in> set items"
    and "snd (check_remaining items rs c) = c(item_variant_id i \<mapsto>
           (case c (item_variant_id i) of None \<Rightarrow> 0 | Some m \<Rightarrow> m) + item_quantity i)"
proof -
  have "\<exists>i\<in>set items. snd (check_remaining items rs c) = c(item_variant_id i \<mapsto>
           (case c (item_variant_id i) of None \<Rightarrow> 0 | Some m \<Rightarrow> m) + item_quantity i)"
    using assms by (induction items rs c rule: check_remaining.induct) auto
  then show ?thesis using that by blast
qed

lemma redis_reserve_unfold:
  assumes "distinct (map item_variant_id items)"
  shows "redis_reserve vs items c =
           check_remaining items (map (\<lambda>i. counter_before vs c i - item_quantity i) items)
             (snd (decrby_all items (fold set_counter_nx vs c)))"
  using decrby_all_values [OF assms, of "fold set_counter_nx vs c"]
  by (simp add: redis_reserve_def Let_def case_prod_beta counter_before_def)

section \<open>Lemmas: amounts\<close>

lemma subtotal_of_int:
  assumes "\<And>v. v \<in> set vs \<Longrightarrow> bv_price v = Some (of_int (p v)) \<and> m (bv_id v) = Some (q v) \<and> 0 \<le> p v \<and> 0 \<le> q v"
    and "0 \<le> a" and "a + (\<Sum>v\<leftarrow>vs. p v * q v) \<le> 2 ^ 53"
    and "\<And>v. v \<in> set vs \<Longrightarrow> p v \<le> 2 ^ 53"
  shows "foldl (\<lambda>sum v. js_add sum (js_mul (number_of_decimal (bv_price v)) (of_int (the (m (bv_id v))))))
           (of_int a) vs = of_int (a + (\<Sum>v\<leftarrow>vs. p v * q v))"
  using assms
proof (induction vs arbitrary: a)
  case (Cons v vs)
  have v: "bv_price v = Some (of_int (p v))" "m (bv_id v) = Some (q v)" "0 \<le> p v" "0 \<le> q v" "p v \<le> 2 ^ 53"
    using Cons.prems by simp_all
  have rest: "0 \<le> (\<Sum>v\<leftarrow>vs. p v * q v)"
    using Cons.prems(1) by (intro sum_list_nonneg) auto
  have pq: "0 \<le> p v * q v" using v by simp
  have "a + p v * q v \<le> 2 ^ 53" using Cons.prems(3) rest by simp
  then have "js_mul (f64 (of_int (p v))) (of_int (q v)) = of_int (p v * q v)"
    and "js_add (of_int a) (of_int (p v * q v)) = of_int (a + p v * q v)"
    using v pq Cons.prems(2) by (simp_all add: f64_of_int del: of_int_mult of_int_add)
  moreover have "foldl (\<lambda>sum v. js_add sum (js_mul (number_of_decimal (bv_price v)) (of_int (the (m (bv_id v))))))
      (of_int (a + p v * q v)) vs = of_int (a + p v * q v + (\<Sum>v\<leftarrow>vs. p v * q v))"
    using Cons.prems v pq by (intro Cons.IH) (simp_all add: add.assoc)
  ultimately show ?case
    using v by (simp add: number_of_decimal_def add.assoc del: of_int_mult of_int_add)
qed simp

section \<open>Properties\<close>

text \<open>
  C11: a reservation in Redis that succeeds takes exactly the ordered quantity off the counter of each
  item, and no counter falls below zero; a missing counter starts from the free stock of the variant.
\<close>
theorem redis_reservation_exact:
  assumes "distinct (map bv_id vs)" and "distinct (map item_variant_id items)"
    and "fst (redis_reserve vs items c)"
    and "i \<in> set items" and "v \<in> set vs" and "bv_id v = item_variant_id i"
  shows "(let before = (case c (bv_id v) of None \<Rightarrow> bv_stock v - bv_reserved v | Some n \<Rightarrow> n)
          in item_quantity i \<le> before
             \<and> snd (redis_reserve vs items c) (item_variant_id i) = Some (before - item_quantity i))"
proof -
  have before: "counter_before vs c i = (case c (bv_id v) of None \<Rightarrow> bv_stock v - bv_reserved v | Some n \<Rightarrow> n)"
    using set_counters [OF assms(1,5), of c] assms(6) by (simp add: counter_before_def)
  note unfold = redis_reserve_unfold [OF assms(2), of vs c]
  have "\<forall>j\<in>set items. 0 \<le> counter_before vs c j - item_quantity j"
    using assms(3) by (simp add: unfold check_remaining_ok)
  then have fits: "item_quantity i \<le> counter_before vs c i" using assms(4) by fastforce
  have "snd (redis_reserve vs items c) (item_variant_id i) = Some (counter_before vs c i - item_quantity i)"
    using assms(3) decrby_all_result [OF assms(2,4), of "fold set_counter_nx vs c"]
    by (simp add: unfold check_remaining_ok counter_before_def)
  with fits show ?thesis unfolding Let_def before by blast
qed

lemma redis_reservation_exact_witness:
  "snd (redis_reserve [sample_variant 1 5 2] [\<lparr>item_variant_id = 1, item_quantity = 3\<rparr>] Map.empty) 1 = Some 0"
  using redis_reservation_exact [of "[sample_variant 1 5 2]" "[\<lparr>item_variant_id = 1, item_quantity = 3\<rparr>]"
      Map.empty "\<lparr>item_variant_id = 1, item_quantity = 3\<rparr>" "sample_variant 1 5 2"]
  by (simp add: sample_variant_def redis_reserve_def set_counter_nx_def)

text \<open>
  A reservation in Redis that fails gives back one item only: the counter of the item that did not
  fit is restored, every other item of the same order stays taken off its counter for good.
\<close>
theorem redis_failure_keeps_other_items:
  assumes "distinct (map item_variant_id items)" and "\<not> fst (redis_reserve vs items c)"
  shows "\<exists>i\<in>set items.
           snd (redis_reserve vs items c) (item_variant_id i) = Some (counter_before vs c i)
         \<and> (\<forall>j\<in>set items. j \<noteq> i \<longrightarrow>
              snd (redis_reserve vs items c) (item_variant_id j) = Some (counter_before vs c j - item_quantity j))"
proof -
  let ?c = "snd (decrby_all items (fold set_counter_nx vs c))"
  note unfold = redis_reserve_unfold [OF assms(1), of vs c]
  have taken: "?c (item_variant_id j) = Some (counter_before vs c j - item_quantity j)" if "j \<in> set items" for j
    using decrby_all_result [OF assms(1) that, of "fold set_counter_nx vs c"] by (simp add: counter_before_def)
  obtain i where i: "i \<in> set items" and state: "snd (redis_reserve vs items c) = ?c(item_variant_id i \<mapsto>
      (case ?c (item_variant_id i) of None \<Rightarrow> 0 | Some m \<Rightarrow> m) + item_quantity i)"
    using assms(2) unfolding unfold by (rule check_remaining_failed [rotated]) simp_all
  have "item_variant_id j \<noteq> item_variant_id i" if "j \<in> set items" "j \<noteq> i" for j
    using assms(1) i that by (auto simp: distinct_map dest: inj_onD)
  then show ?thesis
    using i taken state by (intro bexI [OF _ i]) auto
qed

lemma redis_failure_keeps_other_items_witness:
  "\<exists>i\<in>{\<lparr>item_variant_id = 1, item_quantity = 3\<rparr>, \<lparr>item_variant_id = 2, item_quantity = 99\<rparr>}.
     \<forall>j\<in>{\<lparr>item_variant_id = 1, item_quantity = 3\<rparr>, \<lparr>item_variant_id = 2, item_quantity = 99\<rparr>}. j \<noteq> i \<longrightarrow>
       snd (redis_reserve [sample_variant 1 5 2, sample_variant 2 9 0]
              [\<lparr>item_variant_id = 1, item_quantity = 3\<rparr>, \<lparr>item_variant_id = 2, item_quantity = 99\<rparr>] Map.empty)
         (item_variant_id j)
       = Some (counter_before [sample_variant 1 5 2, sample_variant 2 9 0] Map.empty j - item_quantity j)"
proof -
  have "\<not> fst (redis_reserve [sample_variant 1 5 2, sample_variant 2 9 0]
      [\<lparr>item_variant_id = 1, item_quantity = 3\<rparr>, \<lparr>item_variant_id = 2, item_quantity = 99\<rparr>] Map.empty)"
    by (simp add: redis_reserve_def set_counter_nx_def sample_variant_def)
  from redis_failure_keeps_other_items [OF _ this] show ?thesis by auto
qed

text \<open>
  When the background job fails, the order it was filling is gone and the error is raised again
  (the job runs once, so no order is left half filled).
\<close>
theorem failed_job_removes_order:
  assumes "fst (process_checkout sha256 now job d) = Inl e"
  shows "order_of (snd (process_checkout sha256 now job d)) (cj_order_id job) = None"
proof -
  have snapshots: "\<exists>n d1. create_snapshots_loop is k s = (Inr n, d1)" for "is" k s
    by (induction "is" arbitrary: k s) auto
  let ?inputs = "map (snapshot_of_variant sha256) (cj_variants job)"
  obtain n d1 where d1: "create_many_snapshots ?inputs d = (Inr n, d1)"
    using snapshots [of ?inputs 0 d] by (auto simp: create_many_snapshots_def)
  let ?items = "map (job_item (find_snapshots_by_hashes (map sn_content_hash ?inputs) d1) (cj_quantities job)) ?inputs"
  have run: "process_checkout sha256 now job d =
      catching (fill_order now job ?items d1) (\<lambda>e d. await (delete_order (cj_order_id job) d) (\<lambda>_. throw e))"
    by (simp add: process_checkout_def d1 Let_def)
  obtain r d2 where fill: "fill_order now job ?items d1 = (r, d2)" by (cases "fill_order now job ?items d1")
  with run assms obtain e' where "r = Inl e'" by (cases r) auto
  then have "snd (process_checkout sha256 now job d) =
      snd (await (delete_order (cj_order_id job) d2) (\<lambda>_. throw e' :: unit action))"
    by (simp only: run fill catching_simps)
  moreover have "order_of (snd (await (delete_order i s) (\<lambda>_. throw e' :: unit action))) i = None" for i s
  proof (cases "order_of s i")
    case None
    then show ?thesis by (simp add: delete_order_def delete_order_by_id_def)
  next
    case (Some q)
    then have "ord_id q = i" by (auto dest: order_of_in)
    with Some show ?thesis
      by (simp add: delete_order_def delete_order_by_id_def delete_order_cascade_def order_of_def find_row_None)
  qed
  ultimately show ?thesis by simp
qed

definition broken_job :: checkout_job where
  "broken_job = \<lparr>cj_order_id = 1, cj_is_guest = True, cj_order_code = ''VLR1'', cj_total = 120000,
     cj_subtotal = 100000, cj_variants = [], cj_quantities = Map.empty, cj_guest_email = None,
     cj_guest_session = Some 3, cj_guest_address = None, cj_address_id = None, cj_user_id = None,
     cj_email = None, cj_is_error = False, cj_payment = COD\<rparr>"

lemma failed_job_removes_order_witness:
  "order_of sample_shop 1 \<noteq> None
   \<and> order_of (snd (process_checkout (\<lambda>s. s) 0 broken_job sample_shop)) 1 = None"
proof -
  have "fst (process_checkout (\<lambda>s. s) 0 broken_job sample_shop) = Inl TypeError"
    by (simp add: process_checkout_def create_many_snapshots_def broken_job_def fill_order_def
        create_job_items_def create_many_order_items_def delete_order_def delete_order_by_id_def
        order_of_def sample_shop_def find_row_def sample_order_def)
  from failed_job_removes_order [OF this] show ?thesis by (simp add: broken_job_def)
qed

section \<open>Accepted orders\<close>

lemma create_order_InrD:
  "create_order mk d = (Inr r, d') \<Longrightarrow>
     r = mk (serial (orders d)) \<and> d' = d\<lparr>orders := insert_row mk (orders d)\<rparr>"
  by (auto simp: create_order_def Let_def split: if_splits)

lemma create_intent_InrD:
  "create_intent now p d = (Inr r, d') \<Longrightarrow>
     r = new_intent now p (serial (payment_intents d))
     \<and> d' = d\<lparr>payment_intents := insert_row (new_intent now p) (payment_intents d)\<rparr>"
  by (auto simp: create_intent_def split: if_splits)

lemma map_variant_ids_in:
  assumes "k \<in> item_variant_id ` set items"
  shows "\<exists>i\<in>set items. map_variant_ids items k = Some (item_quantity i)"
  using assms by (induction items rule: rev_induct) (auto simp: map_variant_ids_def)

text \<open>What a successful request did, step by step.\<close>

lemma create_checkout_steps:
  assumes "create_checkout env body guest user d = (Inr (resp, job), d')"
  obtains email is_error d1 order d2 where
    "validate_buyer body guest user d = Inr email"
    and "reserve_stock (env_redis_up env) (cr_variants resp) (cb_items body) d = (Inr is_error, d1)"
    and "cr_variants resp = find_variants_by_ids (map item_variant_id (cb_items body)) d"
    and "cr_total resp = js_add (order_subtotal (cr_variants resp) (map_variant_ids (cb_items body))) (of_int SHIPPING_FEE)"
    and "d2 = d1\<lparr>orders := orders d2\<rparr>" and "rows (orders d2) = rows (orders d1) @ [order]"
    and "ord_id order = cj_order_id job" and "ord_code order = cr_order_code resp"
    and "ord_total order = Some (cr_total resp)" and "ord_status order = Some Ord_PENDING_PAYMENT"
    and "ord_payment_status order = Some Pay_PENDING"
    and "ord_expired_at order = env_now env + 6000000"
    and "cj_is_error job = is_error" and "cj_is_guest job = cb_is_guest body" and "cj_variants job = cr_variants resp"
    and "cj_quantities job = map_variant_ids (cb_items body)"
    and "d' = (if cb_gateway body = COD then d2
               else snd (create_payment_intent (env_now env) SEPAY (cr_order_code resp)
                 (generate_qr_url (env_config env) (env_token env) (cr_total resp) (cr_order_code resp)) d2))"
    and "cb_gateway body \<noteq> COD \<Longrightarrow> \<exists>p. fst (create_payment_intent (env_now env) SEPAY (cr_order_code resp)
                 (generate_qr_url (env_config env) (env_token env) (cr_total resp) (cr_order_code resp)) d2) = Inr p"
proof -
  let ?vs = "find_variants_by_ids (map item_variant_id (cb_items body)) d"
  let ?sub = "order_subtotal ?vs (map_variant_ids (cb_items body))"
  let ?amount = "js_add ?sub (of_int SHIPPING_FEE)"
  let ?code = "generate_order_code (env_yymmdd env) (env_random env)"
  let ?url = "if cb_gateway body \<noteq> COD then Some (generate_qr_url (env_config env) (env_token env) ?amount ?code) else None"
  from assms obtain email where email: "validate_buyer body guest user d = Inr email"
    by (auto simp: create_checkout_def split: sum.splits)
  from assms email obtain is_error d1 where reserved: "reserve_stock (env_redis_up env) ?vs (cb_items body) d = (Inr is_error, d1)"
    by (auto simp: create_checkout_def Let_def split: if_splits elim: await_InrD)
  obtain order d2 where order: "(if cb_is_guest body
        then create_guest_order (env_now env) (the guest) ?code ?amount ?sub d1
        else create_user_order (env_now env) (the user) ?code ?amount ?sub (the (cb_address_id body)) d1) = (Inr order, d2)"
    using assms email reserved
    by (auto simp: create_checkout_def Let_def split: if_splits elim!: await_InrD)
  obtain u where url: "(case ?url of None \<Rightarrow> (Inr (), d2)
       | Some u \<Rightarrow> await (create_payment_intent (env_now env) SEPAY ?code u d2) (\<lambda>_. ret ())) = (Inr (), u)"
    and resp: "cr_variants resp = ?vs" "cr_total resp = ?amount" "cr_order_code resp = ?code"
    and job: "cj_order_id job = ord_id order" "cj_is_error job = is_error" "cj_variants job = ?vs"
      "cj_quantities job = map_variant_ids (cb_items body)" "cj_is_guest job = cb_is_guest body" and u: "d' = u"
    using assms email reserved order
    by (auto simp: create_checkout_def Let_def split: if_splits elim!: await_InrD)
  have new: "d2 = d1\<lparr>orders := orders d2\<rparr> \<and> rows (orders d2) = rows (orders d1) @ [order]
      \<and> ord_code order = ?code \<and> ord_total order = Some ?amount \<and> ord_status order = Some Ord_PENDING_PAYMENT
      \<and> ord_payment_status order = Some Pay_PENDING \<and> ord_expired_at order = env_now env + 6000000"
    using order
    by (auto simp: create_guest_order_def create_user_order_def blank_order_def ORDER_EXPIRED_SECONDS_def
        dest!: create_order_InrD split: if_splits)
  show ?thesis
  proof (rule that [of email is_error d1 d2 order])
    show "d' = (if cb_gateway body = COD then d2
        else snd (create_payment_intent (env_now env) SEPAY (cr_order_code resp)
          (generate_qr_url (env_config env) (env_token env) (cr_total resp) (cr_order_code resp)) d2))"
      using url u resp by (auto elim!: await_InrD split: if_splits)
    show "cb_gateway body \<noteq> COD \<Longrightarrow> \<exists>p. fst (create_payment_intent (env_now env) SEPAY (cr_order_code resp)
        (generate_qr_url (env_config env) (env_token env) (cr_total resp) (cr_order_code resp)) d2) = Inr p"
      using url resp by (auto elim!: await_InrD)
  qed (use email reserved resp job new in simp_all)
qed

lemma intent_keeps_orders:
  "orders (snd (create_payment_intent now g code url d)) = orders d"
  "variants (snd (create_payment_intent now g code url d)) = variants d"
  by (auto simp: create_payment_intent_def create_intent_def)

lemma created_intent_present:
  assumes "fst (create_payment_intent now g code url d) = Inr p"
  shows "find_intent_by_content (pu_content url) (snd (create_payment_intent now g code url d)) \<noteq> None"
proof -
  obtain d' where "create_payment_intent now g code url d = (Inr p, d')"
    using assms by (cases "create_payment_intent now g code url d") simp
  from create_intent_InrD [OF this [unfolded create_payment_intent_def]] this
  show ?thesis
    by (auto simp: find_intent_by_content_def find_row_None new_intent_def)
qed

text \<open>
  C6: a successful checkout charges the sum of price times quantity over the ordered variants plus the
  shipping fee, exactly for whole amounts; the order is stored with that total, pending and expiring
  after 100 minutes, and unless it is paid on delivery an intent with its code waits for the transfer.
\<close>
theorem checkout_charges_exact_total:
  assumes "create_checkout env body guest user d = (Inr (resp, job), d')"
    and "\<And>v. v \<in> set (cr_variants resp) \<Longrightarrow> bv_price v = Some (of_int (p v)) \<and> 0 \<le> p v \<and> p v \<le> 2 ^ 53"
    and "\<And>i. i \<in> set (cb_items body) \<Longrightarrow> 0 \<le> item_quantity i"
    and "(\<Sum>v\<leftarrow>cr_variants resp. p v * the (cj_quantities job (bv_id v))) + 20000 \<le> 2 ^ 53"
  defines "amount \<equiv> of_int ((\<Sum>v\<leftarrow>cr_variants resp. p v * the (cj_quantities job (bv_id v))) + 20000)"
  shows "cr_total resp = amount
       \<and> (\<exists>r\<in>set (rows (orders d')). ord_id r = cj_order_id job \<and> ord_code r = cr_order_code resp
            \<and> ord_total r = Some amount \<and> ord_status r = Some Ord_PENDING_PAYMENT
            \<and> ord_expired_at r = env_now env + 6000000)
       \<and> (cb_gateway body \<noteq> COD \<longrightarrow> find_intent_by_content (cr_order_code resp) d' \<noteq> None)"
proof (rule create_checkout_steps [OF assms(1)])
  fix email is_error d1 order d2
  assume
    vs: "cr_variants resp = find_variants_by_ids (map item_variant_id (cb_items body)) d"
    and amt: "cr_total resp = js_add (order_subtotal (cr_variants resp) (map_variant_ids (cb_items body))) (of_int SHIPPING_FEE)"
    and order: "rows (orders d2) = rows (orders d1) @ [order]" "ord_id order = cj_order_id job"
      "ord_code order = cr_order_code resp" "ord_total order = Some (cr_total resp)"
      "ord_status order = Some Ord_PENDING_PAYMENT" "ord_expired_at order = env_now env + 6000000"
    and job: "cj_quantities job = map_variant_ids (cb_items body)"
    and d': "d' = (if cb_gateway body = COD then d2
               else snd (create_payment_intent (env_now env) SEPAY (cr_order_code resp)
                 (generate_qr_url (env_config env) (env_token env) (cr_total resp) (cr_order_code resp)) d2))"
    and intent: "cb_gateway body \<noteq> COD \<Longrightarrow> \<exists>p. fst (create_payment_intent (env_now env) SEPAY (cr_order_code resp)
                 (generate_qr_url (env_config env) (env_token env) (cr_total resp) (cr_order_code resp)) d2) = Inr p"
  let ?q = "\<lambda>v. the (cj_quantities job (bv_id v))"
  let ?sum = "\<Sum>v\<leftarrow>cr_variants resp. p v * ?q v"
  have known: "map_variant_ids (cb_items body) (bv_id v) = Some (?q v) \<and> 0 \<le> ?q v" if "v \<in> set (cr_variants resp)" for v
  proof -
    have "bv_id v \<in> item_variant_id ` set (cb_items body)"
      using that by (simp add: vs find_variants_by_ids_def)
    from map_variant_ids_in [OF this] assms(3) job show ?thesis by auto
  qed
  have "0 \<le> ?sum" using known assms(2) by (intro sum_list_nonneg) auto
  moreover have "order_subtotal (cr_variants resp) (map_variant_ids (cb_items body)) = of_int ?sum"
    using subtotal_of_int [of "cr_variants resp" p "map_variant_ids (cb_items body)" ?q 0] known assms(2,4)
    by (simp add: order_subtotal_def)
  ultimately have total: "cr_total resp = amount"
    using assms(4) amt js_add_of_int [of ?sum 20000] by (simp add: amount_def SHIPPING_FEE_def)
  moreover have "order \<in> set (rows (orders d'))"
    using order(1) by (simp add: d' intent_keeps_orders)
  moreover have "find_intent_by_content (cr_order_code resp) d' \<noteq> None" if "cb_gateway body \<noteq> COD"
    using intent [OF that] created_intent_present that by (fastforce simp: d' generate_qr_url_def)
  ultimately show ?thesis using order by (intro conjI bexI [of _ order]) simp_all
qed

definition sample_env :: "bool \<Rightarrow> checkout_env" where
  "sample_env up = \<lparr>env_now = 0, env_yymmdd = ''260701'', env_random = [0, 1, 2, 3, 4, 5], env_token = ''tk'',
     env_config = sample_config, env_redis_up = up\<rparr>"

definition guest_body :: "int \<Rightarrow> checkout_body" where
  "guest_body q = \<lparr>cb_is_guest = True, cb_guest_email = None,
     cb_guest_address = Some \<lparr>ga_name = ''A'', ga_address_line = ''x'', ga_city = ''c'', ga_ward = None,
       ga_district = None, ga_phone = ''09'', ga_note = None\<rparr>,
     cb_address_id = None, cb_gateway = COD, cb_items = [\<lparr>item_variant_id = 1, item_quantity = q\<rparr>]\<rparr>"

definition guest_shop :: db where
  "guest_shop = sample_stock\<lparr>guest_sessions := \<lparr>rows = [\<lparr>gs_id = 3, gs_ip_first = None, gs_user_agent_hash = None,
     gs_created_at = 0, gs_last_seen_at = None, gs_converted_user_id = None, gs_converted_at = None\<rparr>], serial = 4\<rparr>\<rparr>"

lemma guest_shop_variants: "find_variants_by_ids [1] guest_shop = [sample_variant 1 5 2]"
  by (simp add: find_variants_by_ids_def select_rows_def guest_shop_def sample_stock_def sample_variant_def)

lemma guest_shop_order:
  "create_order mk (guest_shop\<lparr>available_counters := c\<rparr>) =
     (Inr (mk 1), guest_shop\<lparr>available_counters := c, orders := insert_row mk (orders guest_shop)\<rparr>)"
  if "ord_user_id (mk 1) = None" "ord_address_id (mk 1) = None" "ord_guest_session_id (mk 1) = Some 3"
  using that
  by (simp add: create_order_def guest_shop_def sample_stock_def empty_db_def empty_table_def
      order_references_def find_row_def)

lemma guest_shop_checkout:
  "\<exists>resp job d'. create_checkout (sample_env True) (guest_body 3) (Some 3) None guest_shop = (Inr (resp, job), d')
     \<and> cr_variants resp = [sample_variant 1 5 2] \<and> cj_quantities job = [1 \<mapsto> 3]"
proof -
  have "reserve_stock True [sample_variant 1 5 2] (cb_items (guest_body 3)) guest_shop =
      (Inr False, guest_shop\<lparr>available_counters := [1 \<mapsto> 0]\<rparr>)"
    by (simp add: reserve_stock_def redis_reserve_def set_counter_nx_def guest_body_def sample_variant_def
        guest_shop_def sample_stock_def empty_db_def)
  then show ?thesis
    by (simp add: create_checkout_def sample_env_def validate_buyer_def Let_def guest_shop_variants
        create_guest_order_def guest_shop_order blank_order_def guest_body_def map_variant_ids_def)
qed

lemma checkout_charges_exact_total_witness:
  "\<exists>resp job d'. create_checkout (sample_env True) (guest_body 3) (Some 3) None guest_shop = (Inr (resp, job), d')
     \<and> cr_total resp = 170000"
proof -
  obtain resp job d' where run: "create_checkout (sample_env True) (guest_body 3) (Some 3) None guest_shop = (Inr (resp, job), d')"
    and vs: "cr_variants resp = [sample_variant 1 5 2]" and m: "cj_quantities job = [1 \<mapsto> 3]"
    using guest_shop_checkout by blast
  have "cr_total resp = of_int ((\<Sum>v\<leftarrow>cr_variants resp. 50000 * the (cj_quantities job (bv_id v))) + 20000)"
    using checkout_charges_exact_total [OF run, of "\<lambda>_. 50000"]
    by (simp add: vs m sample_variant_def guest_body_def)
  then have "cr_total resp = 170000" by (simp add: vs m sample_variant_def)
  with run show ?thesis by blast
qed

section \<open>Oversold orders\<close>

lemma create_many_snapshots_Inr: "\<exists>n d1. create_many_snapshots is d = (Inr n, d1) \<and> variants d1 = variants d
    \<and> orders d1 = orders d \<and> order_items d1 = order_items d \<and> order_addresses d1 = order_addresses d
    \<and> payment_intents d1 = payment_intents d"
proof -
  have "\<exists>n d1. create_snapshots_loop is k s = (Inr n, d1) \<and> variants d1 = variants s
    \<and> orders d1 = orders s \<and> order_items d1 = order_items s \<and> order_addresses d1 = order_addresses s
    \<and> payment_intents d1 = payment_intents s" for k s
  proof (induction "is" arbitrary: k s)
    case (Cons i "is")
    show ?case
    proof (cases "\<exists>x\<in>set (rows (snapshots s)). has_hash (sn_content_hash i) x")
      case True
      then show ?thesis using Cons [of k s] by simp
    next
      case False
      then show ?thesis
        using Cons [of "k + 1" "s\<lparr>snapshots := insert_row (new_snapshot i) (snapshots s)\<rparr>"] by simp
    qed
  qed simp
  then show ?thesis by (simp add: create_many_snapshots_def)
qed

lemma snd_await_ret [simp]: "snd (await r (\<lambda>_. ret x)) = snd r"
  by (cases r; cases "fst r") auto

lemma order_writes_keep_variants:
  "variants (snd (create_job_items now i items d)) = variants d"
  "variants (snd (create_order_address mk d)) = variants d"
  "variants (snd (delete_order i d)) = variants d"
  by (simp_all add: create_job_items_def create_many_order_items_def create_order_address_def Let_def
      delete_order_def delete_order_by_id_def delete_order_cascade_def split: option.split)

lemma failed_reservation_job_keeps_stock:
  assumes "cj_is_error job"
  shows "variants (snd (process_checkout sha256 now job d)) = variants d"
proof -
  obtain n d1 where d1: "create_many_snapshots (map (snapshot_of_variant sha256) (cj_variants job)) d = (Inr n, d1)"
    and same: "variants d1 = variants d"
    using create_many_snapshots_Inr by blast
  let ?P = "\<lambda>s. variants s = variants d"
  have fill: "?P (snd (fill_order now job items d1))" for items
    unfolding fill_order_def
    by (rule await_keeps [where P = ?P], simp add: order_writes_keep_variants same,
        rule await_keeps [where P = ?P])
       (use assms in \<open>auto simp: order_writes_keep_variants split: option.split\<close>)
  have undo: "?P (snd (await (delete_order i s) (\<lambda>_. throw e :: unit action)))" if "?P s" for i s e
    by (rule await_keeps [where P = ?P]) (use that in \<open>simp_all add: order_writes_keep_variants\<close>)
  have "?P (snd (catching (fill_order now job items d1)
      (\<lambda>e d. await (delete_order (cj_order_id job) d) (\<lambda>_. throw e))))" for items
    by (rule catching_keeps [where P = ?P]) (use fill undo in simp_all)
  then show ?thesis by (simp add: process_checkout_def d1 Let_def)
qed

lemma fallback_InrD:
  assumes "reserve_stock False vs items d = (Inr is_error, d1)"
  shows "is_error \<and> (\<forall>v\<in>set vs. 0 < bv_stock v - bv_reserved v)
       \<and> variants d1 = variants (snd (update_reserved_by_ids items d))"
proof (cases "items = []")
  case True
  with assms show ?thesis
    by (auto simp: reserve_stock_def Let_def update_reserved_by_ids_def transaction_def split: if_splits)
next
  case False
  with assms show ?thesis
    by (auto simp: reserve_stock_def Let_def update_reserved_by_ids_def transaction_def split: if_splits)
qed

text \<open>
  While Redis is down, an order of one variant for more copies than are free is accepted as soon
  as one copy is free, and it reserves nothing: neither the request nor the background job changes the
  stock or the reservations.
\<close>
theorem oversold_checkout_reserves_nothing:
  assumes "create_checkout env body guest user d = (Inr (resp, job), d')"
    and "\<not> env_redis_up env" and "cb_items body = [i]" and "cr_variants resp = [v]"
    and "bv_stock v - bv_reserved v < item_quantity i"
  shows "0 < bv_stock v - bv_reserved v
       \<and> rows (variants d') = rows (variants d)
       \<and> rows (variants (snd (process_checkout sha256 now job d'))) = rows (variants d)"
proof (rule create_checkout_steps [OF assms(1)])
  fix email is_error d1 order d2
  assume res: "reserve_stock (env_redis_up env) (cr_variants resp) (cb_items body) d = (Inr is_error, d1)"
    and vs: "cr_variants resp = find_variants_by_ids (map item_variant_id (cb_items body)) d"
    and d2: "d2 = d1\<lparr>orders := orders d2\<rparr>" and err: "cj_is_error job = is_error"
    and d': "d' = (if cb_gateway body = COD then d2
               else snd (create_payment_intent (env_now env) SEPAY (cr_order_code resp)
                 (generate_qr_url (env_config env) (env_token env) (cr_total resp) (cr_order_code resp)) d2))"
  have fallback: "is_error" "0 < bv_stock v - bv_reserved v"
      "variants d1 = variants (snd (update_reserved_by_ids [i] d))"
    using fallback_InrD [of "[v]" "[i]" d is_error d1] res assms(2,3,4) by simp_all
  have "w = v" if "w \<in> set (rows (variants d))" "bv_id w = item_variant_id i" for w
    using that vs assms(3,4) by (force simp: find_variants_by_ids_def select_rows_def filter_eq_Cons_iff
        dest: arg_cong [where f = set])
  then have "rows (variants d1) = rows (variants d)"
    unfolding fallback(3) using assms(5)
    by (auto simp: update_reserved_by_ids_def Let_def reserve_variant_def case_quantity_def intro!: map_idI)
  moreover have "variants d2 = variants d1" by (subst d2) simp
  ultimately have "rows (variants d') = rows (variants d)"
    by (simp add: d' intent_keeps_orders)
  with fallback err show ?thesis by (simp add: failed_reservation_job_keeps_stock)
qed

lemma guest_shop_oversold:
  "\<exists>resp job d'. create_checkout (sample_env False) (guest_body 5) (Some 3) None guest_shop = (Inr (resp, job), d')
     \<and> cr_variants resp = [sample_variant 1 5 2]"
proof -
  have "reserve_stock False [sample_variant 1 5 2] (cb_items (guest_body 5)) guest_shop =
      (Inr True, guest_shop\<lparr>available_counters := Map.empty\<rparr>)"
    by (simp add: reserve_stock_def guest_body_def sample_variant_def update_reserved_by_ids_def
        transaction_def guest_shop_def sample_stock_def empty_db_def map_rows_def reserve_variant_def
        case_quantity_def)
  then show ?thesis
    by (simp add: create_checkout_def sample_env_def validate_buyer_def Let_def guest_shop_variants
        create_guest_order_def guest_shop_order blank_order_def guest_body_def map_variant_ids_def)
qed

lemma oversold_checkout_reserves_nothing_witness:
  "\<exists>resp job d'. create_checkout (sample_env False) (guest_body 5) (Some 3) None guest_shop = (Inr (resp, job), d')
     \<and> rows (variants (snd (process_checkout (\<lambda>s. s) 0 job d'))) = rows (variants guest_shop)"
proof -
  obtain resp job d' where run: "create_checkout (sample_env False) (guest_body 5) (Some 3) None guest_shop = (Inr (resp, job), d')"
    and vs: "cr_variants resp = [sample_variant 1 5 2]"
    using guest_shop_oversold by blast
  from oversold_checkout_reserves_nothing [OF run _ _ vs]
  have "rows (variants (snd (process_checkout (\<lambda>s. s) 0 job d'))) = rows (variants guest_shop)"
    by (simp add: sample_env_def guest_body_def sample_variant_def)
  with run show ?thesis by blast
qed

section \<open>The job fills the order\<close>

lemma create_snapshots_present:
  assumes "create_many_snapshots is d = (Inr n, d1)" and "i \<in> set is"
  shows "\<exists>s\<in>set (rows (snapshots d1)). has_hash (sn_content_hash i) s"
proof -
  have kept: "set (rows (snapshots d)) \<subseteq> set (rows (snapshots (snd (create_snapshots_loop is k d))))" for "is" k d
    by (induction "is" arbitrary: k d) (auto simp: subset_iff)
  have "\<exists>s\<in>set (rows (snapshots (snd (create_snapshots_loop is k d)))). has_hash (sn_content_hash i) s" for k
    using assms(2)
  proof (induction "is" arbitrary: k d)
    case (Cons j "is")
    let ?d = "d\<lparr>snapshots := insert_row (new_snapshot j) (snapshots d)\<rparr>"
    have "has_hash (sn_content_hash j) (new_snapshot j n)" for n
      by (simp add: has_hash_def new_snapshot_def)
    then have "\<exists>s\<in>set (rows (snapshots ?d)). has_hash (sn_content_hash j) s" by auto
    with Cons kept [of d "is" k] kept [of ?d "is" "k + 1"] show ?case
      by (cases "\<exists>s\<in>set (rows (snapshots d)). has_hash (sn_content_hash j) s") (auto simp: subset_iff)
  qed simp
  from this [of 0] show ?thesis using assms(1) by (simp add: create_many_snapshots_def)
qed

lemma snapshot_id_found:
  assumes "\<exists>s\<in>set (rows (snapshots d)). has_hash h s" and "h \<in> set hs"
  obtains s where "snapshot_id_of (find_snapshots_by_hashes hs d) h = Some (bvs_id s)"
    and "s \<in> set (rows (snapshots d))" and "has_hash h s"
proof -
  let ?found = "find_snapshots_by_hashes hs d"
  have "List.find (has_hash h) (rev ?found) \<noteq> None"
    using assms by (auto simp: find_None_iff find_snapshots_by_hashes_def has_hash_def)
  then obtain s where s: "List.find (has_hash h) (rev ?found) = Some s" by blast
  then have "s \<in> set ?found \<and> has_hash h s" by (auto dest: find_Some_in)
  with s show ?thesis using that by (auto simp: snapshot_id_of_def find_snapshots_by_hashes_def)
qed

lemma insert_rows_new_items:
  "rows (insert_rows (map (new_order_item now order) ps) t) =
     rows t @ map (\<lambda>(p, i). new_order_item now order p i) (zip ps (map (\<lambda>k. serial t + int k) [0..<length ps]))"
proof (induction ps arbitrary: t)
  case (Cons p ps)
  have "map (\<lambda>k. serial t + int k) [0..<length (p # ps)] =
      serial t # map (\<lambda>k. serial t + 1 + int k) [0..<length ps]"
    by (simp add: upt_conv_Cons map_Suc_upt [symmetric] del: upt_Suc)
  with Cons [of "insert_row (new_order_item now order p) t"] show ?case by simp
qed simp

text \<open>What an item row says, apart from its identifiers.\<close>

definition item_line :: "order_item_row \<Rightarrow> int \<times> rat \<times> rat" where
  "item_line x = (oi_quantity x, oi_unit_price x, oi_line_total x)"

definition job_line :: "checkout_job \<Rightarrow> variant_row \<Rightarrow> int \<times> rat \<times> rat" where
  "job_line job v =
     (let q = the (cj_quantities job (bv_id v)); price = number_of_decimal (bv_price v)
      in (q, price, js_mul price (of_int q)))"

text \<open>The payloads the job writes: one for each variant of the job, in order.\<close>

lemma job_items_payloads:
  assumes "create_many_snapshots (map (snapshot_of_variant sha256) vs) d = (Inr n, d1)"
  obtains ps where "those (map (job_item (find_snapshots_by_hashes (map sn_content_hash
        (map (snapshot_of_variant sha256) vs)) d1) m) (map (snapshot_of_variant sha256) vs)) = Some ps"
    and "map (\<lambda>p. (ipl_quantity p, ipl_unit_price p, ipl_line_total p)) ps =
         map (\<lambda>v. let q = the (m (bv_id v)); price = number_of_decimal (bv_price v)
              in (q, price, js_mul price (of_int q))) vs"
    and "\<And>p. p \<in> set ps \<Longrightarrow> snapshot_of d1 (ipl_snapshot_id p) \<noteq> None"
    and "map ipl_snapshot_id ps = map (\<lambda>v. the (snapshot_id_of (find_snapshots_by_hashes (map sn_content_hash
           (map (snapshot_of_variant sha256) vs)) d1) (sn_content_hash (snapshot_of_variant sha256 v)))) vs"
proof -
  let ?inputs = "map (snapshot_of_variant sha256) vs"
  let ?found = "find_snapshots_by_hashes (map sn_content_hash ?inputs) d1"
  let ?sid = "\<lambda>i. the (snapshot_id_of ?found (sn_content_hash i))"
  let ?g = "\<lambda>i. let q = the (m (sn_variant_id i)) in
      \<lparr>ipl_snapshot_id = ?sid i, ipl_quantity = q, ipl_unit_price = sn_price i,
       ipl_line_total = js_mul (sn_price i) (of_int q)\<rparr>"
  have found: "\<exists>s. snapshot_id_of ?found (sn_content_hash i) = Some (bvs_id s) \<and> s \<in> set (rows (snapshots d1))"
    if "i \<in> set ?inputs" for i
    using snapshot_id_found [OF create_snapshots_present [OF assms that], of "map sn_content_hash ?inputs"] that
    by (metis image_eqI list.set_map)
  have "those (map (job_item ?found m) ?inputs) = Some (map ?g ?inputs)"
  proof (rule those_map_Some)
    fix i assume "i \<in> set ?inputs"
    from found [OF this] show "job_item ?found m i = Some (?g i)" by (auto simp: job_item_def)
  qed
  moreover have "snapshot_of d1 (ipl_snapshot_id p) \<noteq> None" if p: "p \<in> set (map ?g ?inputs)" for p
  proof -
    from p obtain i where "i \<in> set ?inputs" and "p = ?g i" unfolding set_map [of ?g] by blast
    moreover from this have "ipl_snapshot_id p = ?sid i" by (simp add: Let_def)
    ultimately show ?thesis using found [of i] by (auto simp: snapshot_of_def find_row_None)
  qed
  moreover have "map (\<lambda>p. (ipl_quantity p, ipl_unit_price p, ipl_line_total p)) (map ?g ?inputs) =
      map (\<lambda>v. let q = the (m (bv_id v)); price = number_of_decimal (bv_price v)
              in (q, price, js_mul price (of_int q))) vs"
    by (simp add: snapshot_of_variant_def Let_def)
  moreover have "map ipl_snapshot_id (map ?g ?inputs) = map (\<lambda>v. ?sid (snapshot_of_variant sha256 v)) vs"
    by (simp add: Let_def)
  ultimately show ?thesis using that by blast
qed

lemma item_line_new: "item_line (new_order_item now order p i) = (ipl_quantity p, ipl_unit_price p, ipl_line_total p)"
  by (simp add: item_line_def new_order_item_def)

lemma new_items_of_order:
  assumes "rows t = rows (order_items d) @ map (\<lambda>(p, i). new_order_item now order p i) (zip ps is)"
    and "length is = length ps" and "order_items d' = t"
  shows "map item_line (items_of_order d' order) = map item_line (items_of_order d order)
       @ map (\<lambda>p. (ipl_quantity p, ipl_unit_price p, ipl_line_total p)) ps"
proof -
  have order: "oi_order_id (case x of (p, i) \<Rightarrow> new_order_item now order p i) = order" for x
    by (cases x) (simp add: new_order_item_def)
  have "map item_line (map (\<lambda>(p, i). new_order_item now order p i) (zip ps is)) =
      map (\<lambda>p. (ipl_quantity p, ipl_unit_price p, ipl_line_total p)) (map fst (zip ps is))"
    by (simp add: item_line_new case_prod_beta del: map_fst_zip)
  then show ?thesis
    using assms(2,3) order by (simp add: items_of_order_def select_rows_def assms(1) filter_map comp_def)
qed

lemma fill_order_runs:
  assumes items: "create_job_items now (cj_order_id job) items d1 = (Inr n, d2)"
    and "orders d2 = orders d" "order_addresses d2 = order_addresses d" "variants d2 = variants d"
    and "order_of d (cj_order_id job) \<noteq> None"
    and "find_row (\<lambda>a. oa_order_id a = cj_order_id job) (order_addresses d) = None"
    and "cj_is_guest job \<Longrightarrow> cj_guest_address job \<noteq> None" and "cj_variants job \<noteq> []"
  shows "\<exists>d3. fill_order now job items d1 = (Inr (), d3) \<and> order_items d3 = order_items d2
       \<and> orders d3 = orders d2 \<and> payment_intents d3 = payment_intents d2 \<and> snapshots d3 = snapshots d2
       \<and> variants d3 = (if \<not> cj_is_error job \<and> (cj_is_guest job \<longrightarrow> cj_payment job = COD)
                        then variants (snd (update_reserved_by_ids (job_reservation job) d)) else variants d)"
proof -
  have "job_reservation job \<noteq> []" using assms(8) by (simp add: job_reservation_def)
  then have reserve: "\<exists>k. update_reserved_by_ids (job_reservation job) s =
      (Inr k, s\<lparr>variants := variants (snd (update_reserved_by_ids (job_reservation job) d))\<rparr>)"
    if "variants s = variants d" for s
    using that by (simp add: update_reserved_by_ids_def Let_def)
  have last: "\<exists>d3. (if \<not> cj_is_error job \<and> (cj_is_guest job \<longrightarrow> cj_payment job = COD)
         then await (update_reserved_by_ids (job_reservation job) s) (\<lambda>_. ret ()) else (Inr (), s)) = (Inr (), d3)
       \<and> order_items d3 = order_items s
       \<and> orders d3 = orders s \<and> payment_intents d3 = payment_intents s \<and> snapshots d3 = snapshots s
       \<and> variants d3 = (if \<not> cj_is_error job \<and> (cj_is_guest job \<longrightarrow> cj_payment job = COD)
                        then variants (snd (update_reserved_by_ids (job_reservation job) d)) else variants d)"
    if "variants s = variants d" for s
    using reserve [OF that] that by auto
  show ?thesis
  proof (cases "cj_is_guest job")
    case True
    then obtain a where a: "cj_guest_address job = Some a" using assms(7) by blast
    let ?mk = "guest_job_address (cj_order_id job) a"
    have "create_order_address ?mk d2 = (Inr (?mk (serial (order_addresses d2))),
        d2\<lparr>order_addresses := insert_row ?mk (order_addresses d2)\<rparr>)"
      using assms(2,3,5,6) by (auto simp: create_order_address_def guest_job_address_def find_row_None order_of_def)
    then show ?thesis
      using True a last [of "d2\<lparr>order_addresses := insert_row ?mk (order_addresses d2)\<rparr>"] assms(4)
      by (simp add: fill_order_def items)
  next
    case False
    then show ?thesis using last [of d2] assms(4) by (simp add: fill_order_def items)
  qed
qed

text \<open>What a run of the job leaves: the payloads \<open>ps\<close> as items, and the reservation.\<close>

lemma job_runs:
  assumes "order_of d (cj_order_id job) \<noteq> None"
    and "find_row (\<lambda>a. oa_order_id a = cj_order_id job) (order_addresses d) = None"
    and "cj_is_guest job \<Longrightarrow> cj_guest_address job \<noteq> None" and "cj_variants job \<noteq> []"
  obtains n d1 d3 ps js where
    "create_many_snapshots (map (snapshot_of_variant sha256) (cj_variants job)) d = (Inr n, d1)"
    and "process_checkout sha256 now job d = (Inr (), d3)"
    and "map (\<lambda>p. (ipl_quantity p, ipl_unit_price p, ipl_line_total p)) ps = map (job_line job) (cj_variants job)"
    and "map ipl_snapshot_id ps = map (\<lambda>v. the (snapshot_id_of (find_snapshots_by_hashes (map sn_content_hash
           (map (snapshot_of_variant sha256) (cj_variants job))) d1) (sn_content_hash (snapshot_of_variant sha256 v))))
         (cj_variants job)"
    and "rows (order_items d3) = rows (order_items d) @ map (\<lambda>(p, i). new_order_item now (cj_order_id job) p i) (zip ps js)"
    and "length js = length ps"
    and "variants d3 = (if \<not> cj_is_error job \<and> (cj_is_guest job \<longrightarrow> cj_payment job = COD)
          then variants (snd (update_reserved_by_ids (job_reservation job) d)) else variants d)"
    and "orders d3 = orders d" and "payment_intents d3 = payment_intents d" and "snapshots d3 = snapshots d1"
proof -
  let ?inputs = "map (snapshot_of_variant sha256) (cj_variants job)"
  obtain n d1 where d1: "create_many_snapshots ?inputs d = (Inr n, d1)" and same: "variants d1 = variants d"
      "orders d1 = orders d" "order_items d1 = order_items d" "order_addresses d1 = order_addresses d"
      "payment_intents d1 = payment_intents d"
    using create_many_snapshots_Inr by blast
  let ?items = "map (job_item (find_snapshots_by_hashes (map sn_content_hash ?inputs) d1) (cj_quantities job)) ?inputs"
  obtain ps where ps: "those ?items = Some ps"
    and line: "map (\<lambda>p. (ipl_quantity p, ipl_unit_price p, ipl_line_total p)) ps = map (job_line job) (cj_variants job)"
    and snaps: "\<And>p. p \<in> set ps \<Longrightarrow> snapshot_of d1 (ipl_snapshot_id p) \<noteq> None"
    and sids: "map ipl_snapshot_id ps = map (\<lambda>v. the (snapshot_id_of (find_snapshots_by_hashes (map sn_content_hash ?inputs) d1)
        (sn_content_hash (snapshot_of_variant sha256 v)))) (cj_variants job)"
    by (rule job_items_payloads [OF d1, where m = "cj_quantities job", folded job_line_def]) blast
  let ?t = "insert_rows (map (new_order_item now (cj_order_id job)) ps) (order_items d1)"
  let ?d2 = "d1\<lparr>order_items := ?t\<rparr>"
  have items: "create_job_items now (cj_order_id job) ?items d1 = (Inr (int (length ps)), ?d2)"
    using ps snaps assms(1) same by (auto simp: create_job_items_def create_many_order_items_def order_of_def)
  have "orders ?d2 = orders d" "order_addresses ?d2 = order_addresses d" "variants ?d2 = variants d"
    using same by simp_all
  from fill_order_runs [OF items this assms] obtain d3 where fill: "fill_order now job ?items d1 = (Inr (), d3)"
    and frame: "order_items d3 = ?t" "orders d3 = orders d" "payment_intents d3 = payment_intents d" "snapshots d3 = snapshots d1"
    and vars: "variants d3 = (if \<not> cj_is_error job \<and> (cj_is_guest job \<longrightarrow> cj_payment job = COD)
          then variants (snd (update_reserved_by_ids (job_reservation job) d)) else variants d)"
    using same by auto
  have run: "process_checkout sha256 now job d = (Inr (), d3)"
    by (simp only: process_checkout_def d1 Let_def await_simps fill catching_simps)
  have rows: "rows (order_items d3) = rows (order_items d) @ map (\<lambda>(p, i). new_order_item now (cj_order_id job) p i)
      (zip ps (map (\<lambda>k. serial (order_items d1) + int k) [0..<length ps]))"
    by (simp add: insert_rows_new_items same frame)
  show ?thesis by (rule that [OF d1 run line sids rows _ vars frame(2-4)]) simp
qed


definition filled_job :: checkout_job where
  "filled_job = broken_job\<lparr>cj_variants := [sample_variant 1 5 2], cj_quantities := [1 \<mapsto> 3],
     cj_guest_address := cb_guest_address (guest_body 3)\<rparr>"

definition guest_shop_ordered :: db where
  "guest_shop_ordered = guest_shop\<lparr>orders := \<lparr>rows = [sample_order 1 ''VLR1'' 120000], serial = 2\<rparr>\<rparr>"


end
