(* ===== verification/Order_Flow.thy ===== *)
theory Order_Flow
  imports Checkout Webhook
begin

text \<open>
  From the checkout to the settled order: what the request, the background job and the payment event leave for each
  other. The lemmas follow the order through the three; the theorem on the whole way is in the root theory.
\<close>

section \<open>Price snapshots tell their variant\<close>

definition snapshot_hash :: "(string \<Rightarrow> string) \<Rightarrow> variant_row \<Rightarrow> string" where
  "snapshot_hash sha v = sn_content_hash (snapshot_of_variant sha v)"

text \<open>No snapshot of another variant has the digest of one that is ordered.\<close>

definition digests_tell :: "(string \<Rightarrow> string) \<Rightarrow> variant_row list \<Rightarrow> db \<Rightarrow> bool" where
  "digests_tell sha vs d \<longleftrightarrow>
     wf_table bvs_id (snapshots d)
     \<and> (\<forall>v\<in>set vs. \<forall>s\<in>set (rows (snapshots d)). has_hash (snapshot_hash sha v) s \<longrightarrow> bvs_variant_id s = bv_id v)
     \<and> (\<forall>v\<in>set vs. \<forall>w\<in>set vs. snapshot_hash sha v = snapshot_hash sha w \<longrightarrow> bv_id v = bv_id w)"

lemma digests_tell_insert:
  assumes "digests_tell sha vs d" and "w \<in> set vs"
  shows "digests_tell sha vs (d\<lparr>snapshots := insert_row (new_snapshot (snapshot_of_variant sha w)) (snapshots d)\<rparr>)"
  using assms
  by (auto simp: digests_tell_def wf_insert_row new_snapshot_def has_hash_def snapshot_hash_def snapshot_of_variant_def Let_def)

lemma digests_tell_created:
  assumes "create_many_snapshots (map (snapshot_of_variant sha) vs) d = (Inr n, d')" and "digests_tell sha vs d"
  shows "digests_tell sha vs d'"
proof -
  have "digests_tell sha vs (snd (create_snapshots_loop (map (snapshot_of_variant sha) ws) k s))"
    if "set ws \<subseteq> set vs" "digests_tell sha vs s" for ws k s
    using that by (induction ws arbitrary: k s) (auto intro: digests_tell_insert)
  from this [of vs d 0] assms show ?thesis by (simp add: create_many_snapshots_def)
qed

lemma found_snapshot_variant:
  assumes "create_many_snapshots (map (snapshot_of_variant sha) vs) d = (Inr n, d1)" and "digests_tell sha vs d"
    and "v \<in> set vs"
  shows "map_option bvs_variant_id (snapshot_of d1 (the (snapshot_id_of (find_snapshots_by_hashes
      (map sn_content_hash (map (snapshot_of_variant sha) vs)) d1) (snapshot_hash sha v)))) = Some (bv_id v)"
proof -
  let ?found = "find_snapshots_by_hashes (map sn_content_hash (map (snapshot_of_variant sha) vs)) d1"
  have "snapshot_of_variant sha v \<in> set (map (snapshot_of_variant sha) vs)" using assms(3) by simp
  from create_snapshots_present [OF assms(1) this]
  have present: "\<exists>s\<in>set (rows (snapshots d1)). has_hash (snapshot_hash sha v) s" by (simp only: snapshot_hash_def)
  have member: "snapshot_hash sha v \<in> set (map sn_content_hash (map (snapshot_of_variant sha) vs))"
    using assms(3) by (simp add: snapshot_hash_def)
  from snapshot_id_found [OF present member] obtain s where s: "snapshot_id_of ?found (snapshot_hash sha v) = Some (bvs_id s)"
    "s \<in> set (rows (snapshots d1))" "has_hash (snapshot_hash sha v) s" .
  have "digests_tell sha vs d1" using assms(1,2) by (rule digests_tell_created)
  then have "snapshot_of d1 (bvs_id s) = Some s" and "bvs_variant_id s = bv_id v"
    using s(2,3) assms(3) find_row_key [of bvs_id "snapshots d1" s] unfolding digests_tell_def snapshot_of_def by blast+
  with s(1) show ?thesis by (simp only: option.sel option.map)
qed

section \<open>The items the payment counts\<close>

definition ordered :: "checkout_job \<Rightarrow> (int \<times> int) list" where
  "ordered job = map (\<lambda>v. (bv_id v, the (cj_quantities job (bv_id v)))) (cj_variants job)"

lemma those_Some: "those (map Some xs) = Some xs"
  by (induction xs) simp_all

lemma new_items_counted:
  assumes "rows (order_items d') = rows (order_items d) @ map (\<lambda>(p, i). new_order_item now order p i) (zip ps js)"
    and "length js = length ps" and "items_of_order d order = []"
    and "\<And>n. n < length ps \<Longrightarrow> map_option bvs_variant_id (snapshot_of d' (ipl_snapshot_id (ps ! n))) = Some (fst (qs ! n))
           \<and> ipl_quantity (ps ! n) = snd (qs ! n)"
    and "length qs = length ps"
  shows "item_quantities d' (items_of_order d' order) = Inr qs"
proof -
  have "items_of_order d' order = map (\<lambda>(p, i). new_order_item now order p i) (zip ps js)"
    using assms(1,3) by (auto simp: items_of_order_def select_rows_def new_order_item_def filter_id_conv)
  moreover have "map (\<lambda>x. map_option (\<lambda>v. (v, oi_quantity x)) (variant_id_of_item d' x))
      (map (\<lambda>(p, i). new_order_item now order p i) (zip ps js)) = map Some qs"
    using assms(2,4,5) by (intro nth_equalityI) (auto simp: variant_id_of_item_def new_order_item_def prod_eq_iff)
  ultimately show ?thesis by (simp add: item_quantities_def those_Some)
qed

text \<open>The background job of a signed-in buyer: its items are what was ordered, and the copies are reserved.\<close>

lemma job_of_user:
  assumes "order_of d (cj_order_id job) \<noteq> None" and "items_of_order d (cj_order_id job) = []"
    and "find_row (\<lambda>a. oa_order_id a = cj_order_id job) (order_addresses d) = None"
    and "\<not> cj_is_guest job" and "\<not> cj_is_error job" and "cj_variants job \<noteq> []"
    and "digests_tell sha (cj_variants job) d"
  obtains d' where "process_checkout sha now job d = (Inr (), d')"
    and "item_quantities d' (items_of_order d' (cj_order_id job)) = Inr (ordered job)"
    and "variants d' = variants (snd (update_reserved_by_ids (job_reservation job) d))"
    and "orders d' = orders d" and "payment_intents d' = payment_intents d"
    and "\<forall>x\<in>set (rows (order_items d')). x \<in> set (rows (order_items d)) \<or> oi_order_id x = cj_order_id job"
proof (rule job_runs [OF assms(1,3) _ assms(6), where ?sha256.0 = sha and now = now])
  fix n d1 d' ps js
  assume snaps: "create_many_snapshots (map (snapshot_of_variant sha) (cj_variants job)) d = (Inr n, d1)"
    and run: "process_checkout sha now job d = (Inr (), d')"
    and lines: "map (\<lambda>p. (ipl_quantity p, ipl_unit_price p, ipl_line_total p)) ps = map (job_line job) (cj_variants job)"
    and sids: "map ipl_snapshot_id ps = map (\<lambda>v. the (snapshot_id_of (find_snapshots_by_hashes (map sn_content_hash
        (map (snapshot_of_variant sha) (cj_variants job))) d1) (sn_content_hash (snapshot_of_variant sha v)))) (cj_variants job)"
    and items: "rows (order_items d') = rows (order_items d) @ map (\<lambda>(p, i). new_order_item now (cj_order_id job) p i) (zip ps js)"
      "length js = length ps"
    and vars: "variants d' = (if \<not> cj_is_error job \<and> (cj_is_guest job \<longrightarrow> cj_payment job = COD)
          then variants (snd (update_reserved_by_ids (job_reservation job) d)) else variants d)"
    and frame: "orders d' = orders d" "payment_intents d' = payment_intents d" "snapshots d' = snapshots d1"
  have len: "length ps = length (cj_variants job)" using lines by (rule map_eq_imp_length_eq)
  have "ipl_quantity (ps ! k) = the (cj_quantities job (bv_id (cj_variants job ! k)))" if "k < length ps" for k
    using arg_cong [OF lines, of "\<lambda>xs. xs ! k"] that len by (simp add: job_line_def Let_def)
  moreover have "map_option bvs_variant_id (snapshot_of d' (ipl_snapshot_id (ps ! k))) = Some (bv_id (cj_variants job ! k))"
    if "k < length ps" for k
  proof -
    have "ipl_snapshot_id (ps ! k) = the (snapshot_id_of (find_snapshots_by_hashes (map sn_content_hash
        (map (snapshot_of_variant sha) (cj_variants job))) d1) (snapshot_hash sha (cj_variants job ! k)))"
      using arg_cong [OF sids, of "\<lambda>xs. xs ! k"] that len by (simp add: snapshot_hash_def)
    moreover have "snapshot_of d' = snapshot_of d1" by (simp add: fun_eq_iff snapshot_of_def frame)
    ultimately show ?thesis
      using found_snapshot_variant [OF snaps assms(7), of "cj_variants job ! k"] that len by simp
  qed
  ultimately have "item_quantities d' (items_of_order d' (cj_order_id job)) = Inr (ordered job)"
    by (intro new_items_counted [OF items assms(2)]) (simp_all add: ordered_def len)
  moreover have "\<forall>x\<in>set (rows (order_items d')). x \<in> set (rows (order_items d)) \<or> oi_order_id x = cj_order_id job"
    by (auto simp: items(1) new_order_item_def dest: set_zip_leftD)
  ultimately show ?thesis using run vars frame assms(4,5) by (intro that) simp_all
qed (use assms(4) in simp)

section \<open>Reserved and settled copies\<close>

lemma case_quantity_job: "case_quantity (job_reservation job) k = map_of (ordered job) k"
proof -
  have "map_option item_quantity (List.find (\<lambda>p. item_variant_id p = k)
      (map (\<lambda>v. \<lparr>item_variant_id = bv_id v, item_quantity = q v\<rparr>) vs)) = map_of (map (\<lambda>v. (bv_id v, q v)) vs) k" for q vs
    by (induction vs) auto
  then show ?thesis by (simp add: case_quantity_def job_reservation_def ordered_def)
qed

lemma job_reserves:
  assumes "variants d' = variants (snd (update_reserved_by_ids (job_reservation job) d))" and "cj_variants job \<noteq> []"
    and "\<And>v. v \<in> set (cj_variants job) \<Longrightarrow> variant_of d (bv_id v) = Some v
           \<and> the (cj_quantities job (bv_id v)) \<le> bv_stock v - bv_reserved v"
  shows "stock_of d' k = stock_of d k"
    and "reserved_of d' k = map_option (\<lambda>n. n + qty (ordered job) k) (reserved_of d k)"
proof -
  have "variant_of d' k = map_option (reserve_variant (job_reservation job)) (variant_of d k)"
    using assms(1,2) variant_of_reserve [of "job_reservation job" d k] by (simp add: variant_of_def job_reservation_def)
  moreover have "reserve_variant (job_reservation job) v = v\<lparr>bv_reserved := bv_reserved v + qty (ordered job) k\<rparr>"
    if "variant_of d k = Some v" for v
  proof (cases "map_of (ordered job) k")
    case None
    with that show ?thesis by (simp add: reserve_variant_qty case_quantity_job variant_of_id qty_def)
  next
    case (Some q)
    then obtain w where "w \<in> set (cj_variants job)" "k = bv_id w" "q = the (cj_quantities job (bv_id w))"
      by (auto simp: ordered_def dest!: map_of_SomeD)
    with assms(3) [of w] that Some show ?thesis
      by (simp add: reserve_variant_qty case_quantity_job variant_of_id qty_def)
  qed
  ultimately show "stock_of d' k = stock_of d k"
    and "reserved_of d' k = map_option (\<lambda>n. n + qty (ordered job) k) (reserved_of d k)"
    by (cases "variant_of d k"; simp add: stock_of_def reserved_of_def)+
qed

section \<open>What the request leaves for the job\<close>

lemma checkout_keeps_order_inv:
  assumes "order_inv d"
  shows "order_inv (snd (create_checkout env body guest user d))"
proof -
  have counters: "order_inv (s\<lparr>available_counters := c\<rparr>)" if "order_inv s" for s c
    using that by (simp add: order_inv_def)
  have reserved: "order_inv (snd (update_reserved_by_ids is s))" if "order_inv s" for s "is"
    using that by (auto simp: update_reserved_by_ids_def Let_def order_inv_def)
  then have "order_inv (snd (reserve_stock up vs items s))" if "order_inv s" for up vs items s
    unfolding reserve_stock_def Let_def
    using that counters
    by (auto split: prod.split intro!: await_keeps [where P = order_inv] transaction_keeps [where P = order_inv])
  moreover have "order_inv (snd (create_payment_intent now g code url s))" if "order_inv s" for now g code url s
    using that by (auto simp: create_payment_intent_def create_intent_def order_inv_def)
  moreover have "order_inv (snd (create_guest_order now g code amount sub s))" "order_inv (snd (create_user_order now u code amount sub a s))"
    if "order_inv s" for now g code amount sub s u a
    using that by (auto simp: create_guest_order_def create_user_order_def blank_order_def intro!: order_inv_create)
  ultimately show ?thesis
    unfolding create_checkout_def Let_def
    using assms
    by (auto split: sum.split option.split intro!: await_keeps [where P = order_inv])
qed

lemma checkout_of_user:
  assumes run: "create_checkout env body guest (Some user) d = (Inr (resp, job), d')"
    and "\<not> cb_is_guest body" and "cb_gateway body \<noteq> COD" and "\<not> cj_is_error job" and "order_inv d"
    and addresses: "\<forall>a\<in>set (rows (order_addresses d)). oa_order_id a \<in> ord_id ` set (rows (orders d))"
  obtains order p where "order_of d' (cj_order_id job) = Some order"
    and "find_intent_by_content (cr_order_code resp) d' = Some (p, Some order)"
    and "pi_status p = Some Pay_PENDING" and "pi_expired_at p = env_now env + 3600000"
    and "ord_id order = cj_order_id job" and "ord_total order = Some (cr_total resp)" and "order_inv d'"
    and "items_of_order d' (cj_order_id job) = []"
    and "find_row (\<lambda>a. oa_order_id a = cj_order_id job) (order_addresses d') = None"
    and "variants d' = variants d" and "snapshots d' = snapshots d" and "\<not> cj_is_guest job"
    and "cj_variants job = find_variants_by_ids (map item_variant_id (cb_items body)) d"
    and "cj_quantities job = map_variant_ids (cb_items body)" and "cr_variants resp = cj_variants job"
proof (rule create_checkout_steps [OF run])
  fix email is_error d1 order d2
  let ?url = "generate_qr_url (env_config env) (env_token env) (cr_total resp) (cr_order_code resp)"
  let ?intent = "create_payment_intent (env_now env) SEPAY (cr_order_code resp) ?url d2"
  assume res: "reserve_stock (env_redis_up env) (cr_variants resp) (cb_items body) d = (Inr is_error, d1)"
    and vs: "cr_variants resp = find_variants_by_ids (map item_variant_id (cb_items body)) d"
    and d2: "d2 = d1\<lparr>orders := orders d2\<rparr>" and new: "rows (orders d2) = rows (orders d1) @ [order]"
    and order: "ord_id order = cj_order_id job" "ord_code order = cr_order_code resp" "ord_total order = Some (cr_total resp)"
    and job: "cj_is_error job = is_error" "cj_is_guest job = cb_is_guest body" "cj_variants job = cr_variants resp"
      "cj_quantities job = map_variant_ids (cb_items body)"
    and d': "d' = (if cb_gateway body = COD then d2 else snd ?intent)"
    and paid: "cb_gateway body \<noteq> COD \<Longrightarrow> \<exists>p. fst ?intent = Inr p"
  obtain c where d1: "d1 = d\<lparr>available_counters := c\<rparr>"
    using res assms(4) job(1) by (auto simp: reserve_stock_def Let_def split: prod.splits if_splits elim!: await_InrD)
  from paid [OF assms(3)] obtain p where "fst ?intent = Inr p" by blast
  then have intent: "?intent = (Inr p, d')" using assms(3) by (simp add: d' prod_eq_iff)
  from created_intent_found_by_content [OF intent] obtain found where
    found: "find_intent_by_content (cr_order_code resp) d' = Some (p, Some found)" "ord_code found = cr_order_code resp"
    and p: "pi_status p = Some Pay_PENDING" "pi_expired_at p = env_now env + 3600000" and same: "orders d' = orders d2"
    by blast
  have frame: "variants d' = variants d" "snapshots d' = snapshots d" "order_items d' = order_items d"
    "order_addresses d' = order_addresses d"
    using d2 d1 intent
    by (auto simp: create_payment_intent_def create_intent_def split: if_splits dest: arg_cong [of _ _ variants]
        arg_cong [of _ _ snapshots] arg_cong [of _ _ order_items] arg_cong [of _ _ order_addresses])
  have rows': "rows (orders d') = rows (orders d) @ [order]" using same new by (simp add: d1)
  have inv: "order_inv d'" using checkout_keeps_order_inv [OF assms(5), of env body guest "Some user"] run by simp
  then have wf: "wf_table ord_id (orders d')" and codes: "distinct (map ord_code (rows (orders d')))"
    by (simp_all add: order_inv_def)
  then have fresh: "cj_order_id job \<notin> ord_id ` set (rows (orders d))" using rows' order(1) by (simp add: wf_table_def)
  have "order_of d' (cj_order_id job) = Some order" using order_of_unique [OF wf, of order] rows' order(1) by simp
  moreover have "found = order"
  proof -
    have "found \<in> set (rows (orders d'))"
      using found(1) by (auto simp: find_intent_by_content_def with_order_def order_by_code_def dest: find_row_SomeD)
    moreover have "order \<in> set (rows (orders d'))" by (simp add: rows')
    ultimately show ?thesis using codes found(2) order(2) by (metis distinct_map inj_onD)
  qed
  moreover have "items_of_order d' (cj_order_id job) = []"
    using fresh assms(5) by (force simp: items_of_order_def select_rows_def filter_empty_conv frame order_inv_def)
  moreover have "find_row (\<lambda>a. oa_order_id a = cj_order_id job) (order_addresses d') = None"
    using fresh addresses by (force simp: find_row_None frame)
  ultimately show ?thesis using found p inv frame order job vs assms(2) by (intro that) simp_all
qed

section \<open>A sample\<close>

text \<open>A shop with one signed-in buyer, who orders the last three free copies by bank transfer.\<close>

definition member_shop :: db where
  "member_shop = sample_stock\<lparr>users := \<lparr>rows = [User_Address.sample_user 1], serial = 2\<rparr>,
     addresses := \<lparr>rows = [\<lparr>ua_id = 4, ua_user_id = 1, ua_type = HOME, ua_recipient_name = ''A'', ua_phone = ''09'',
       ua_detail = ''x'', ua_ward = ''w'', ua_district = ''d'', ua_city = ''c'', ua_is_default = Some True,
       ua_created_at = 0, ua_deleted_at = None\<rparr>], serial = 5\<rparr>\<rparr>"

definition member_body :: checkout_body where
  "member_body = \<lparr>cb_is_guest = False, cb_guest_email = None, cb_guest_address = None, cb_address_id = Some 4,
     cb_gateway = SEPAY, cb_items = [\<lparr>item_variant_id = 1, item_quantity = 3\<rparr>]\<rparr>"

definition transfer_of :: "checkout_response \<Rightarrow> sepay_body" where
  "transfer_of resp = \<lparr>sb_id = 77, sb_content = Some (cr_order_code resp), sb_amount = number_of_decimal (Some (cr_total resp))\<rparr>"

lemma member_shop_checkout:
  obtains resp job d1 where "create_checkout (sample_env True) member_body None (Some 1) member_shop = (Inr (resp, job), d1)"
    and "cr_variants resp = [sample_variant 1 5 2]" and "cj_variants job = [sample_variant 1 5 2]"
    and "cj_quantities job = [1 \<mapsto> 3]" and "\<not> cj_is_error job" and "cr_order_code resp = ''VLR260701012345''"
proof -
  have vs: "find_variants_by_ids [1] member_shop = [sample_variant 1 5 2]"
    by (simp add: find_variants_by_ids_def select_rows_def member_shop_def sample_stock_def sample_variant_def)
  have "find_by_address_id_and_user_id 4 1 member_shop = Some (hd (rows (addresses member_shop)), usr_email (User_Address.sample_user 1))"
    by (simp add: find_by_address_id_and_user_id_def find_active_address_def active_of_def find_row_def member_shop_def
        sample_stock_def empty_db_def user_of_def User_Address.sample_user_def)
  then have buyer: "validate_buyer member_body None (Some 1) member_shop = Inr (Some (usr_email (User_Address.sample_user 1)))"
    by (simp add: validate_buyer_def member_body_def falsy_id_def)
  have stock: "reserve_stock True [sample_variant 1 5 2] (cb_items member_body) member_shop =
      (Inr False, member_shop\<lparr>available_counters := [1 \<mapsto> 0]\<rparr>)"
    by (simp add: reserve_stock_def redis_reserve_def set_counter_nx_def member_body_def sample_variant_def
        member_shop_def sample_stock_def empty_db_def)
  have code: "generate_order_code (env_yymmdd (sample_env True)) (env_random (sample_env True)) = ''VLR260701012345''"
    by code_simp
  have orders: "create_order mk (member_shop\<lparr>available_counters := c\<rparr>) =
      (Inr (mk 1), member_shop\<lparr>available_counters := c, orders := insert_row mk (orders member_shop)\<rparr>)"
    if "ord_user_id (mk 1) = Some 1" "ord_address_id (mk 1) = Some 4" "ord_guest_session_id (mk 1) = None" for mk c
    using that
    by (simp add: create_order_def member_shop_def sample_stock_def empty_db_def empty_table_def
        order_references_def find_row_def user_of_def User_Address.sample_user_def)
  have created: "await (create_payment_intent now SEPAY code u
      (member_shop\<lparr>available_counters := c, orders := insert_row mk (orders member_shop)\<rparr>)) f
      = f (new_intent now \<lparr>ip_gateway = SEPAY, ip_order_code = code, ip_content = Some (pu_content u), ip_status = None,
            ip_payment_url = pu_payment_url u, ip_expired_at = now + PAYMENT_INTENT_EXPIRES_IN_MS, ip_token_url = pu_token_url u\<rparr> 1)
          (member_shop\<lparr>available_counters := c, orders := insert_row mk (orders member_shop),
            payment_intents := insert_row (new_intent now \<lparr>ip_gateway = SEPAY, ip_order_code = code,
              ip_content = Some (pu_content u), ip_status = None, ip_payment_url = pu_payment_url u,
              ip_expired_at = now + PAYMENT_INTENT_EXPIRES_IN_MS, ip_token_url = pu_token_url u\<rparr>) (payment_intents member_shop)\<rparr>)"
    if "ord_code (mk 1) = code" for now code u mk c and f :: "payment_intent_row \<Rightarrow> db \<Rightarrow> 'a res \<times> db"
    using that
    by (simp add: create_payment_intent_def create_intent_def member_shop_def sample_stock_def empty_db_def empty_table_def
        order_by_code_def find_row_def)
  have "\<exists>resp job d1. create_checkout (sample_env True) member_body None (Some 1) member_shop = (Inr (resp, job), d1)
      \<and> cr_variants resp = [sample_variant 1 5 2] \<and> cj_variants job = [sample_variant 1 5 2]
      \<and> cj_quantities job = [1 \<mapsto> 3] \<and> \<not> cj_is_error job \<and> cr_order_code resp = ''VLR260701012345''"
    using buyer stock code
    by (simp add: create_checkout_def sample_env_def Let_def vs create_user_order_def orders blank_order_def
        member_body_def map_variant_ids_def created)
  then show thesis using that by blast
qed

end
