(* ===== verification/Admin_Order.thy ===== *)
theory Admin_Order
  imports Webhook "HOL-Library.Product_Lexorder" "HOL-Library.Multiset"
begin

text \<open>
  Orders in the administration: \<open>src/src/modules/admin/order\<close> (\<open>AdminOrderService\<close>, \<open>AdminOrderRepository\<close>, the
  selections and the mapper): the list of guest orders, the list of user orders, the items of an order, and the
  change of the status by an administrator. The display columns of a snapshot (title, cover, SKU, edition) that the
  detail copies are not kept by theory Schema. The properties say how the two lists divide the orders and what
  the change of a status means for the other components that settle or release an order.
\<close>

section \<open>Queries\<close>

definition newest_orders :: "order_row list \<Rightarrow> order_row list" where
  "newest_orders rs = sort_key (\<lambda>r. (- ord_created_at r, - ord_id r)) rs"

definition is_guest_order :: "order_row \<Rightarrow> bool" where
  "is_guest_order r \<longleftrightarrow> ord_user_id r = None"

definition count_guest_orders :: "db \<Rightarrow> int" where
  [repo_defs]: "count_guest_orders d = count_rows is_guest_order (orders d)"

definition count_user_orders :: "db \<Rightarrow> int" where
  [repo_defs]: "count_user_orders d = count_rows (\<lambda>r. \<not> is_guest_order r) (orders d)"

definition find_guest_orders :: "int \<Rightarrow> int \<Rightarrow> db \<Rightarrow> order_row list" where
  [repo_defs]: "find_guest_orders page limit d =
     page_slice page limit (newest_orders (select_rows is_guest_order (orders d)))"

definition find_user_orders :: "int \<Rightarrow> int \<Rightarrow> db \<Rightarrow> order_row list" where
  [repo_defs]: "find_user_orders page limit d =
     page_slice page limit (newest_orders (select_rows (\<lambda>r. \<not> is_guest_order r) (orders d)))"

definition find_order_status_by_id :: "int \<Rightarrow> db \<Rightarrow> (int \<times> order_status option) option" where
  [repo_defs]: "find_order_status_by_id i d = map_option (\<lambda>r. (ord_id r, ord_status r)) (order_of d i)"

definition set_order_status :: "int \<Rightarrow> order_status \<Rightarrow> string option \<Rightarrow> order_row action" where
  [repo_defs]: "set_order_status i status note = update_order_by_id i (\<lambda>r. r\<lparr>ord_status := Some status, ord_note := note\<rparr>)"

section \<open>Answers\<close>

definition admin_decimal_text :: "rat option \<Rightarrow> string option" where
  "admin_decimal_text v = map_option (\<lambda>x. to_fixed2 (f64 x)) v"

record admin_order_base =
  aob_id :: string
  aob_code :: string
  aob_status :: "order_status option"
  aob_payment_status :: "payment_status option"
  aob_subtotal :: "string option"
  aob_discount :: "string option"
  aob_shipping_fee :: "string option"
  aob_total :: "string option"
  aob_currency :: currency_code
  aob_placed_at :: "int option"
  aob_created_at :: int
  aob_expired_at :: int

definition to_order_item_base :: "order_row \<Rightarrow> admin_order_base" where
  "to_order_item_base r =
     \<lparr>aob_id = int_string (ord_id r), aob_code = ord_code r, aob_status = ord_status r,
      aob_payment_status = ord_payment_status r, aob_subtotal = admin_decimal_text (ord_subtotal r),
      aob_discount = admin_decimal_text (ord_discount r), aob_shipping_fee = admin_decimal_text (ord_shipping_fee r),
      aob_total = admin_decimal_text (ord_total r), aob_currency = ord_currency r, aob_placed_at = ord_placed_at r,
      aob_created_at = ord_created_at r, aob_expired_at = ord_expired_at r\<rparr>"

record admin_guest_order =
  ago_base :: admin_order_base
  ago_guest_session_id :: "int option"
  ago_guest_email :: "string option"
  ago_address :: "order_address_row option"

definition to_order_item_guest :: "db \<Rightarrow> order_row \<Rightarrow> admin_guest_order" where
  "to_order_item_guest d r =
     \<lparr>ago_base = to_order_item_base r, ago_guest_session_id = ord_guest_session_id r,
      ago_guest_email = ord_guest_email r,
      ago_address = find_row (\<lambda>a. oa_order_id a = ord_id r) (order_addresses d)\<rparr>"

record admin_order_user =
  aou_email :: string
  aou_first_name :: "string option"
  aou_last_name :: "string option"

record admin_address =
  aad_row :: address_row
  aad_is_default :: bool

definition to_order_user_summary :: "user_row option \<Rightarrow> admin_order_user option" where
  "to_order_user_summary u =
     map_option (\<lambda>u. \<lparr>aou_email = usr_email u, aou_first_name = usr_first_name u, aou_last_name = usr_last_name u\<rparr>) u"

definition to_address_user :: "address_row option \<Rightarrow> admin_address option" where
  "to_address_user a =
     map_option (\<lambda>a. \<lparr>aad_row = a, aad_is_default = (case ua_is_default a of None \<Rightarrow> False | Some b \<Rightarrow> b)\<rparr>) a"

record admin_user_order =
  auo_base :: admin_order_base
  auo_user_id :: "string option"
  auo_user :: "admin_order_user option"
  auo_address :: "admin_address option"

text \<open>\<open>row.userId ? \<dots> : null\<close>: the number 0 counts as absent.\<close>

definition to_order_item_user :: "db \<Rightarrow> order_row \<Rightarrow> admin_user_order" where
  "to_order_item_user d r =
     \<lparr>auo_base = to_order_item_base r,
      auo_user_id = (case ord_user_id r of None \<Rightarrow> None | Some u \<Rightarrow> if u \<noteq> 0 then Some (int_string u) else None),
      auo_user = to_order_user_summary (Option.bind (ord_user_id r) (user_of d)),
      auo_address = to_address_user (Option.bind (ord_address_id r) (\<lambda>a. find_row (\<lambda>x. ua_id x = a) (addresses d)))\<rparr>"

record admin_detail_item =
  adi_id :: string
  adi_snapshot_id :: string
  adi_quantity :: int
  adi_unit_price :: "string option"
  adi_line_total :: "string option"
  adi_created_at :: int
  adi_price_snapshot :: "string option"
  adi_format :: book_format
  adi_isbn :: "string option"

definition to_detail_item :: "db \<Rightarrow> order_item_row \<Rightarrow> admin_detail_item option" where
  "to_detail_item d x =
     map_option (\<lambda>s. \<lparr>adi_id = int_string (oi_id x), adi_snapshot_id = int_string (oi_snapshot_id x),
        adi_quantity = oi_quantity x, adi_unit_price = admin_decimal_text (Some (oi_unit_price x)),
        adi_line_total = admin_decimal_text (Some (oi_line_total x)), adi_created_at = oi_created_at x,
        adi_price_snapshot = admin_decimal_text (Some (bvs_price s)), adi_format = bvs_format s,
        adi_isbn = bvs_isbn s\<rparr>) (snapshot_of d (oi_snapshot_id x))"

section \<open>The service\<close>

definition get_guest_orders :: "int option \<Rightarrow> int option \<Rightarrow> db \<Rightarrow> admin_guest_order paginated" where
  [service_defs]: "get_guest_orders page limit d =
     (let p = (case page of None \<Rightarrow> 1 | Some n \<Rightarrow> n); l = (case limit of None \<Rightarrow> 20 | Some n \<Rightarrow> n) in
      build_paginated_result (map (to_order_item_guest d) (find_guest_orders p l d)) (count_guest_orders d) p l)"

definition get_user_orders :: "int option \<Rightarrow> int option \<Rightarrow> db \<Rightarrow> admin_user_order paginated" where
  [service_defs]: "get_user_orders page limit d =
     (let p = (case page of None \<Rightarrow> 1 | Some n \<Rightarrow> n); l = (case limit of None \<Rightarrow> 20 | Some n \<Rightarrow> n) in
      build_paginated_result (map (to_order_item_user d) (find_user_orders p l d)) (count_user_orders d) p l)"

definition get_admin_order_detail :: "int \<Rightarrow> db \<Rightarrow> admin_detail_item list res" where
  [service_defs]: "get_admin_order_detail i d =
     (case order_of d i of
        None \<Rightarrow> Inl (NotFound ''ORDER_NOT_FOUND'')
      | Some r \<Rightarrow>
          (case those (map (to_detail_item d) (sort_key oi_id (items_of_order d i))) of
             None \<Rightarrow> Inl TypeError
           | Some xs \<Rightarrow> Inr xs))"

text \<open>The statuses the validation of the request admits.\<close>

definition admin_order_statuses :: "order_status list" where
  "admin_order_statuses = [Ord_CONFIRMED, Ord_CANCELLED]"

definition update_order_status :: "int \<Rightarrow> order_status \<Rightarrow> string option \<Rightarrow> unit action" where
  [service_defs]: "update_order_status i status note d =
     (if status \<notin> set admin_order_statuses then (Inl (BadRequest ''status''), d)
      else case find_order_status_by_id i d of
        None \<Rightarrow> (Inl (NotFound ''ORDER_NOT_FOUND''), d)
      | Some (_, current) \<Rightarrow>
          if current \<noteq> Some Ord_PENDING_PAYMENT
          then (Inl (BadRequest ''ORDER_STATUS_UPDATE_ONLY_PENDING_PAYMENT''), d)
          else await (set_order_status i status note d) (\<lambda>_. ret ()))"

section \<open>Lemmas\<close>

lemma in_newest_orders [simp]: "set (newest_orders rs) = set rs" "length (newest_orders rs) = length rs"
  by (simp_all add: newest_orders_def)

text \<open>What a successful change does: the status and the note of one order, nothing else.\<close>

lemma update_order_status_InrD:
  assumes "update_order_status i status note d = (Inr (), d')"
  obtains r where "order_of d i = Some r" and "ord_status r = Some Ord_PENDING_PAYMENT"
    and "status \<in> set admin_order_statuses"
    and "d' = d\<lparr>orders := map_rows (\<lambda>x. ord_id x = i) (\<lambda>r. r\<lparr>ord_status := Some status, ord_note := note\<rparr>) (orders d)\<rparr>"
  using assms
  by (auto simp: update_order_status_def find_order_status_by_id_def set_order_status_def update_order_by_id_def
      split: if_splits option.splits)

text \<open>Every page that an answer announces, read one after the other.\<close>

definition read_pages :: "(int option \<Rightarrow> 'a paginated) \<Rightarrow> 'a list" where
  "read_pages answer = concat (map (\<lambda>k. pg_items (answer (Some (int k + 1)))) [0..<nat (pg_total_pages (answer None))])"

lemma read_pages_all:
  assumes "0 < limit"
    and "\<And>page. answer page = build_paginated_result (map f (page_slice (case page of None \<Rightarrow> 1 | Some n \<Rightarrow> n) limit xs))
           (int (length xs)) (case page of None \<Rightarrow> 1 | Some n \<Rightarrow> n) limit"
  shows "read_pages answer = map f xs"
proof -
  have items: "pg_items (answer (Some (int k + 1))) = map f (page_slice (int k + 1) limit xs)" for k
    by (simp add: assms(2) build_paginated_result_def)
  have "read_pages answer = map f (concat (map (\<lambda>k. page_slice (int k + 1) limit xs) [0..<nat (pg_total_pages (answer None))]))"
    unfolding read_pages_def items map_concat map_map comp_def ..
  then show ?thesis
    using pages_cover_list [OF assms(1), of xs "map f (page_slice 1 limit xs)" 1] by (simp add: assms(2))
qed

lemma read_guest_pages:
  "0 < limit \<Longrightarrow> read_pages (\<lambda>page. get_guest_orders page (Some limit) d) =
     map (to_order_item_guest d) (newest_orders (select_rows is_guest_order (orders d)))"
  by (rule read_pages_all) (simp_all add: get_guest_orders_def find_guest_orders_def count_guest_orders_def
      count_rows_def select_rows_def Let_def)

lemma read_user_pages:
  "0 < limit \<Longrightarrow> read_pages (\<lambda>page. get_user_orders page (Some limit) d) =
     map (to_order_item_user d) (newest_orders (select_rows (\<lambda>r. \<not> is_guest_order r) (orders d)))"
  by (rule read_pages_all) (simp_all add: get_user_orders_def find_user_orders_def count_user_orders_def
      count_rows_def select_rows_def Let_def)

lemma order_of_decided:
  assumes "order_of d i = Some r"
  shows "order_of (d\<lparr>orders := map_rows (\<lambda>x. ord_id x = i) (\<lambda>r. r\<lparr>ord_status := Some status, ord_note := note\<rparr>) (orders d)\<rparr>) i
           = Some (r\<lparr>ord_status := Some status, ord_note := note\<rparr>)"
  using order_store.lookup_modify_if [where f = "\<lambda>r. r\<lparr>ord_status := Some status, ord_note := note\<rparr>" and j = i and k = i and s = d]
    assms by simp

section \<open>Decisions over time\<close>

text \<open>What else changes the status of an order without a payment: further decisions and the cleanup job.\<close>

datatype decision_call =
    Change int order_status "string option"
  | Cleanup int

primrec decision_step :: "decision_call \<Rightarrow> db \<Rightarrow> db" where
  "decision_step (Change i status note) d = snd (update_order_status i status note d)"
| "decision_step (Cleanup now) d = cleanup_order_job now d"

definition order_decided :: "int \<Rightarrow> order_row \<Rightarrow> db \<Rightarrow> bool" where
  "order_decided i r d \<longleftrightarrow> order_of d i = Some r \<and> ord_status r \<noteq> Some Ord_PENDING_PAYMENT"

lemma decided_change:
  assumes "order_decided i r d"
  shows "order_decided i r (snd (update_order_status j status note d))"
proof (cases "j = i")
  case True
  then show ?thesis
    using assms by (auto simp: order_decided_def update_order_status_def find_order_status_by_id_def dest: order_of_in)
next
  case False
  have "order_of (snd (set_order_status j status note d)) i = order_of d i"
    using False unfolding set_order_status_def by (subst order_of_update) simp_all
  then have "order_of (snd (await (set_order_status j status note d) (\<lambda>_. ret ()))) i = order_of d i"
    by (cases "set_order_status j status note d"; cases "fst (set_order_status j status note d)") simp_all
  then show ?thesis
    using assms by (auto simp: order_decided_def update_order_status_def split: option.split)
qed

lemma decided_cleanup:
  assumes "order_decided i r d"
  shows "order_decided i r (cleanup_order_job now d)"
proof -
  have "order_of (cancel_expired_orders now (fold release_variant m d)) i = Some r" for m
    using assms by (simp add: order_decided_def cancel_expired_orders_def order_of_def find_row_map_rows_same expires_before_def)
  then show ?thesis
    using assms by (auto simp: order_decided_def cleanup_order_job_def clean_order_def clear_order_def transaction_def
        find_order_is_expire_def Let_def split: option.split)
qed

interpretation admin_decisions: machine decision_step "order_decided i r" for i r
proof
  show "order_decided i r (decision_step c d)" if "order_decided i r d" for c d
    using that by (cases c) (simp_all add: decided_change decided_cleanup)
qed

section \<open>Properties\<close>

text \<open>
  An administrator decides an order once: the change sets the status and the note of that order only, and no
  sequence of further changes and cleanups alters the order again.
\<close>
theorem order_decided_once:
  assumes "update_order_status i status note d = (Inr (), d')"
  shows "\<exists>r. order_of d i = Some r \<and> ord_status r = Some Ord_PENDING_PAYMENT \<and> status \<in> {Ord_CONFIRMED, Ord_CANCELLED}
     \<and> order_of (fold decision_step calls d') i = Some (r\<lparr>ord_status := Some status, ord_note := note\<rparr>)"
proof -
  from assms obtain r where r: "order_of d i = Some r" "ord_status r = Some Ord_PENDING_PAYMENT"
    and status: "status \<in> set admin_order_statuses"
    and d': "d' = d\<lparr>orders := map_rows (\<lambda>x. ord_id x = i) (\<lambda>r. r\<lparr>ord_status := Some status, ord_note := note\<rparr>) (orders d)\<rparr>"
    by (rule update_order_status_InrD)
  let ?r = "r\<lparr>ord_status := Some status, ord_note := note\<rparr>"
  have "order_decided i ?r d'"
    using order_of_decided [OF r(1)] status by (auto simp: order_decided_def d' admin_order_statuses_def)
  then have "order_decided i ?r (fold decision_step calls d')" by (rule admin_decisions.run_inv)
  with r status show ?thesis by (auto simp: order_decided_def admin_order_statuses_def)
qed

lemma order_decided_once_witness:
  "\<exists>r. order_of (fold decision_step [Cleanup 9000000, Change 1 Ord_CONFIRMED None]
       (snd (update_order_status 1 Ord_CANCELLED (Some ''n'') sample_shop))) 1 = Some r \<and> ord_status r = Some Ord_CANCELLED"
proof -
  have "ord_status (sample_order 1 ''VLR1'' 120000) = Some Ord_PENDING_PAYMENT" by (simp add: sample_order_def)
  then have "fst (update_order_status 1 Ord_CANCELLED (Some ''n'') sample_shop) = Inr ()"
    by (simp add: update_order_status_def admin_order_statuses_def find_order_status_by_id_def
        set_order_status_def update_order_by_id_def)
  then have "update_order_status 1 Ord_CANCELLED (Some ''n'') sample_shop =
      (Inr (), snd (update_order_status 1 Ord_CANCELLED (Some ''n'') sample_shop))"
    by (simp add: prod_eq_iff)
  from order_decided_once [OF this, of "[Cleanup 9000000, Change 1 Ord_CONFIRMED None]"] show ?thesis by auto
qed

text \<open>
  C33: a cancellation by an administrator neither gives the copies back nor stops the payment: the cleanup treats the
  cancelled order as if it did not exist, so its reservation stays, and an exact transfer in time still settles it:
  the order becomes paid and its copies leave the stock.
\<close>
theorem cancelled_order_still_settles:
  assumes "update_order_status i Ord_CANCELLED note d = (Inr (), d')" and "order_inv d"
    and "sb_id body \<noteq> 0" and "sb_content body = Some c" and "js_trim c \<noteq> []"
    and "find_intent_by_content (js_trim c) d = Some (p, Some r)" and "ord_id r = i" and "settles now body p r"
    and "item_quantities d (items_of_order d i) = Inr ps" and "distinct (map fst ps)" and "\<forall>(k, q)\<in>set ps. q \<noteq> 0"
  shows "fst (find_order_is_expire t d') =
      fst (find_order_is_expire t (d\<lparr>orders := delete_rows (\<lambda>x. ord_id x = i) (orders d)\<rparr>))
    \<and> (\<exists>r'. order_of (snd (handle_sepay_webhook now body d')) i = Some r'
          \<and> ord_status r' = Some Ord_PAID \<and> ord_payment_status r' = Some Pay_SUCCESS)
    \<and> stock_of (snd (handle_sepay_webhook now body d')) k = map_option (\<lambda>n. n - qty ps k) (stock_of d k)"
proof -
  let ?f = "\<lambda>r :: order_row. r\<lparr>ord_status := Some Ord_CANCELLED, ord_note := note\<rparr>"
  have d': "d' = d\<lparr>orders := map_rows (\<lambda>x. ord_id x = i) ?f (orders d)\<rparr>"
    using assms(1) by (rule update_order_status_InrD)
  have inv: "order_inv d'" unfolding d' using assms(2) by (rule order_inv_map_orders) simp_all
  have frame: "payment_intents d' = payment_intents d" "order_items d' = order_items d" "snapshots d' = snapshots d"
    "stock_of d' k = stock_of d k"
    by (simp_all add: d' stock_of_def variant_of_def)
  have items: "item_quantities d' (items_of_order d' j) = item_quantities d (items_of_order d j)" for j
    using frame by (simp add: item_quantities_frame [of d' d] items_of_order_def)
  have "filter (\<lambda>r. expires_before t r \<and> ord_payment_status r = Some Pay_PENDING) (map (\<lambda>r. if ord_id r = i then ?f r else r) rs)
      = filter (\<lambda>r. expires_before t r \<and> ord_payment_status r = Some Pay_PENDING) (filter (\<lambda>r. ord_id r \<noteq> i) rs)" for rs
    by (induction rs) (simp_all add: expires_before_def)
  then have "select_rows (\<lambda>r. expires_before t r \<and> ord_payment_status r = Some Pay_PENDING) (orders d') =
      select_rows (\<lambda>r. expires_before t r \<and> ord_payment_status r = Some Pay_PENDING) (delete_rows (\<lambda>x. ord_id x = i) (orders d))"
    by (simp add: select_rows_def d')
  moreover have "item_quantities (d\<lparr>orders := x\<rparr>) (items_of_order (d\<lparr>orders := x\<rparr>) j) = item_quantities d (items_of_order d j)" for x j
    by (simp add: item_quantities_frame [of "d\<lparr>orders := x\<rparr>" d] items_of_order_def)
  ultimately have cleanup: "fst (find_order_is_expire t d') =
      fst (find_order_is_expire t (d\<lparr>orders := delete_rows (\<lambda>x. ord_id x = i) (orders d)\<rparr>))"
    by (simp add: find_order_is_expire_def items Let_def split: option.split)
  have "ord_code (?f x) = ord_code x" for x by simp
  then have "order_by_code d' code = map_option (\<lambda>r. if ord_id r = i then ?f r else r) (order_by_code d code)" for code
    by (simp add: d' order_by_code_def find_row_map_rows_same)
  then have intent: "find_intent_by_content (js_trim c) d' = Some (p, Some (?f r))"
    using assms(6,7) frame(1) by (auto simp: find_intent_by_content_def with_order_def)
  have pays: "settles now body p (?f r)" using assms(8) by (simp add: settles_def)
  have ordered: "item_quantities d' (items_of_order d' (ord_id (?f r))) = Inr ps" using assms(7,9) items by simp
  note facts = inv assms(3-5) intent pays ordered assms(10,11)
  obtain w d2 where run: "handle_sepay_webhook now body d' = (Inr (Paid (sb_id body) (js_trim c) w (ord_id (?f r))
      (ord_code (?f r)) (Some Ord_PAID) (Some Pay_SUCCESS)), d2)" and paid: "order_of d2 (ord_id (?f r)) = Some (paid_order (?f r))"
    by (rule exact_payment [OF facts])
  show ?thesis
    using cleanup exact_payment_stock [OF facts, of k] run paid assms(7) frame(4) by (simp add: paid_order_def)
qed

lemma cancelled_order_still_settles_witness:
  "stock_of (snd (handle_sepay_webhook 1000 (sample_event 120000)
      (snd (update_order_status 1 Ord_CANCELLED None paying_shop)))) 1 = Some 3"
proof -
  have "ord_status (sample_order 1 ''VLR1'' 120000) = Some Ord_PENDING_PAYMENT" by (simp add: sample_order_def)
  then have "fst (update_order_status 1 Ord_CANCELLED None paying_shop) = Inr ()"
    by (simp add: update_order_status_def admin_order_statuses_def find_order_status_by_id_def paying_shop_facts
        set_order_status_def update_order_by_id_def)
  then have "update_order_status 1 Ord_CANCELLED None paying_shop =
      (Inr (), snd (update_order_status 1 Ord_CANCELLED None paying_shop))"
    by (simp add: prod_eq_iff)
  from cancelled_order_still_settles [OF this, of "sample_event 120000" "'' VLR1 ''" sample_intent
      "sample_order 1 ''VLR1'' 120000" 1000 "[(1, 2)]" 0 1] show ?thesis
    by (simp add: paying_shop_facts sample_trim sample_event_def sample_order_def sample_intent_def settles_def
        number_of_decimal_def f64_total qty_def)
qed

text \<open>
  The two lists of the administration divide the orders: reading all announced pages of both lists shows every
  order exactly once, the orders without a user in the first list and the others in the second, newest first.
\<close>
theorem admin_lists_divide_orders:
  assumes "0 < limit"
  shows "mset (map (aob_id \<circ> ago_base) (read_pages (\<lambda>page. get_guest_orders page (Some limit) d)))
       + mset (map (aob_id \<circ> auo_base) (read_pages (\<lambda>page. get_user_orders page (Some limit) d)))
       = mset (map (int_string \<circ> ord_id) (rows (orders d)))
     \<and> read_pages (\<lambda>page. get_guest_orders page (Some limit) d) =
         map (to_order_item_guest d) (newest_orders (filter (\<lambda>r. ord_user_id r = None) (rows (orders d))))
     \<and> read_pages (\<lambda>page. get_user_orders page (Some limit) d) =
         map (to_order_item_user d) (newest_orders (filter (\<lambda>r. ord_user_id r \<noteq> None) (rows (orders d))))"
proof -
  have "mset (filter is_guest_order rs) + mset (filter (\<lambda>r. \<not> is_guest_order r) rs) = mset rs" for rs
    by (induction rs) simp_all
  then have "image_mset f (mset (filter is_guest_order rs)) + image_mset f (mset (filter (\<lambda>r. \<not> is_guest_order r) rs))
      = image_mset f (mset rs)" for f :: "order_row \<Rightarrow> string" and rs
    by (metis image_mset_union)
  then have "mset (map (aob_id \<circ> ago_base) (read_pages (\<lambda>page. get_guest_orders page (Some limit) d)))
       + mset (map (aob_id \<circ> auo_base) (read_pages (\<lambda>page. get_user_orders page (Some limit) d)))
       = mset (map (int_string \<circ> ord_id) (rows (orders d)))"
    by (simp add: read_guest_pages [OF assms] read_user_pages [OF assms] newest_orders_def select_rows_def
        to_order_item_guest_def to_order_item_user_def to_order_item_base_def comp_def)
  moreover have "is_guest_order = (\<lambda>r. ord_user_id r = None)" "(\<lambda>r. \<not> is_guest_order r) = (\<lambda>r. ord_user_id r \<noteq> None)"
    by (simp_all add: is_guest_order_def fun_eq_iff)
  ultimately show ?thesis by (simp add: read_guest_pages [OF assms] read_user_pages [OF assms] select_rows_def)
qed

lemma admin_lists_divide_orders_witness:
  "mset (map (aob_id \<circ> ago_base) (read_pages (\<lambda>page. get_guest_orders page (Some 1) sample_shop)))
   + mset (map (aob_id \<circ> auo_base) (read_pages (\<lambda>page. get_user_orders page (Some 1) sample_shop)))
   = mset (map (int_string \<circ> ord_id) (rows (orders sample_shop)))"
  by (rule admin_lists_divide_orders [THEN conjunct1]) simp

end
