(* ===== verification/Cart.thy ===== *)
theory Cart
  imports Inventory Js_Text
begin

text \<open>
  The shopping cart: \<open>src/src/modules/cart\<close> (both repositories, both services, the mapper and the
  controller). A cart belongs to a user, to a guest session or, after a merge, to both. The texts of
  a book that a cart shows are arguments; a day \<open>YYYY-MM-DD\<close> is the number of days since the epoch.
\<close>

section \<open>The repositories\<close>

definition cart_of :: "db \<Rightarrow> int \<Rightarrow> cart_row option" where
  "cart_of d i = find_row (\<lambda>c. cart_id c = i) (carts d)"

text \<open>\<open>findFirst\<close> ordered by \<open>updatedAt desc\<close>.\<close>

definition latest_cart :: "(cart_row \<Rightarrow> bool) \<Rightarrow> db \<Rightarrow> cart_row option" where
  "latest_cart P d =
     (case sort_key (\<lambda>c. - cart_updated_at c) (select_rows P (carts d)) of [] \<Rightarrow> None | c # _ \<Rightarrow> Some c)"

definition of_user :: "int \<Rightarrow> cart_row \<Rightarrow> bool" where
  "of_user user c \<longleftrightarrow> cart_user_id c = Some user"

definition of_guest :: "int \<Rightarrow> cart_row \<Rightarrow> bool" where
  "of_guest guest c \<longleftrightarrow> cart_guest_session_id c = Some guest"

definition find_cart_by_user :: "int \<Rightarrow> db \<Rightarrow> cart_row option" where
  [repo_defs]: "find_cart_by_user user = latest_cart (of_user user)"

definition find_cart_by_guest :: "int \<Rightarrow> db \<Rightarrow> cart_row option" where
  [repo_defs]: "find_cart_by_guest guest = latest_cart (of_guest guest)"

definition find_by_cart_id_and_user :: "int \<Rightarrow> int \<Rightarrow> db \<Rightarrow> cart_row option" where
  [repo_defs]: "find_by_cart_id_and_user i user d = find_row (\<lambda>c. cart_id c = i \<and> of_user user c) (carts d)"

definition items_of_cart :: "db \<Rightarrow> int \<Rightarrow> cart_item_row list" where
  "items_of_cart d i = select_rows (\<lambda>x. ci_cart_id x = i) (cart_items d)"

definition items_newest_first :: "db \<Rightarrow> int \<Rightarrow> cart_item_row list" where
  "items_newest_first d i = sort_key (\<lambda>x. - ci_added_at x) (items_of_cart d i)"

definition new_cart :: "int \<Rightarrow> int option \<Rightarrow> int option \<Rightarrow> int \<Rightarrow> cart_row" where
  "new_cart now user guest i =
     \<lparr>cart_id = i, cart_user_id = user, cart_guest_session_id = guest, cart_created_at = now,
      cart_updated_at = now\<rparr>"

definition create_cart_by_user :: "int \<Rightarrow> int \<Rightarrow> cart_row action" where
  [repo_defs]: "create_cart_by_user now user d =
     (if user_of d user = None then (Inl P2003, d)
      else (Inr (new_cart now (Some user) None (serial (carts d))),
            d\<lparr>carts := insert_row (new_cart now (Some user) None) (carts d)\<rparr>))"

definition create_cart_by_guest :: "int \<Rightarrow> int \<Rightarrow> cart_row action" where
  [repo_defs]: "create_cart_by_guest now guest d =
     (if find_row (\<lambda>g. gs_id g = guest) (guest_sessions d) = None then (Inl P2003, d)
      else (Inr (new_cart now None (Some guest) (serial (carts d))),
            d\<lparr>carts := insert_row (new_cart now None (Some guest)) (carts d)\<rparr>))"

text \<open>\<open>updateGuestCart\<close> sets the user and leaves the guest session of the cart as it is.\<close>

definition update_guest_cart :: "int \<Rightarrow> int \<Rightarrow> int \<Rightarrow> unit action" where
  [repo_defs]: "update_guest_cart now i user d =
     (if cart_of d i = None then (Inl P2025, d)
      else if user_of d user = None then (Inl P2003, d)
      else (Inr (), d\<lparr>carts := map_rows (\<lambda>c. cart_id c = i)
              (\<lambda>c. c\<lparr>cart_user_id := Some user, cart_updated_at := now\<rparr>) (carts d)\<rparr>))"

definition delete_carts :: "(cart_row \<Rightarrow> bool) \<Rightarrow> db \<Rightarrow> db" where
  "delete_carts P d =
     d\<lparr>carts := delete_rows P (carts d),
       cart_items := delete_rows (\<lambda>x. \<exists>c\<in>set (rows (carts d)). P c \<and> cart_id c = ci_cart_id x) (cart_items d)\<rparr>"

definition delete_carts_by_user :: "int \<Rightarrow> int action" where
  [repo_defs]: "delete_carts_by_user user d = (Inr (count_rows (of_user user) (carts d)), delete_carts (of_user user) d)"

definition delete_carts_by_guest :: "int \<Rightarrow> int action" where
  [repo_defs]: "delete_carts_by_guest guest d =
     (Inr (count_rows (of_guest guest) (carts d)), delete_carts (of_guest guest) d)"

text \<open>
  The nested \<open>upsert\<close> of \<open>updateCartByUserId\<close>; without a column of its own the update writes nothing
  to the cart row.
\<close>

definition new_cart_item :: "int \<Rightarrow> int \<Rightarrow> int \<Rightarrow> int \<Rightarrow> int \<Rightarrow> cart_item_row" where
  "new_cart_item now cart variant quantity i =
     \<lparr>ci_id = i, ci_cart_id = cart, ci_variant_id = variant, ci_quantity = quantity, ci_added_at = now\<rparr>"

definition find_item_by_variant :: "int \<Rightarrow> int \<Rightarrow> db \<Rightarrow> cart_item_row option" where
  [repo_defs]: "find_item_by_variant cart variant d =
     find_row (\<lambda>x. ci_cart_id x = cart \<and> ci_variant_id x = variant) (cart_items d)"

definition upsert_cart_item :: "int \<Rightarrow> int \<Rightarrow> int \<times> int \<Rightarrow> unit action" where
  "upsert_cart_item now cart item d =
     (case item of (variant, quantity) \<Rightarrow>
        (case find_item_by_variant cart variant d of
           Some _ \<Rightarrow> (Inr (), d\<lparr>cart_items := map_rows (\<lambda>x. ci_cart_id x = cart \<and> ci_variant_id x = variant)
                       (\<lambda>x. x\<lparr>ci_quantity := quantity\<rparr>) (cart_items d)\<rparr>)
         | None \<Rightarrow>
             if variant_of d variant = None then (Inl P2003, d)
             else (Inr (), d\<lparr>cart_items := insert_row (new_cart_item now cart variant quantity) (cart_items d)\<rparr>)))"

primrec upsert_cart_items :: "int \<Rightarrow> int \<Rightarrow> (int \<times> int) list \<Rightarrow> unit action" where
  "upsert_cart_items now cart [] d = (Inr (), d)"
| "upsert_cart_items now cart (i # is) d =
     await (upsert_cart_item now cart i d) (\<lambda>_. upsert_cart_items now cart is)"

definition update_cart_by_user :: "int \<Rightarrow> int \<Rightarrow> (int \<times> int) list \<Rightarrow> unit action" where
  [repo_defs]: "update_cart_by_user now cart items = transaction (\<lambda>d.
     if cart_of d cart = None then (Inl P2025, d)
     else upsert_cart_items now cart items d)"

definition item_in :: "db \<Rightarrow> (cart_row \<Rightarrow> bool) \<Rightarrow> cart_item_row \<Rightarrow> bool" where
  "item_in d P x \<longleftrightarrow> (case cart_of d (ci_cart_id x) of None \<Rightarrow> False | Some c \<Rightarrow> P c)"

definition find_item_of :: "(cart_row \<Rightarrow> bool) \<Rightarrow> int \<Rightarrow> db \<Rightarrow> cart_item_row option" where
  [repo_defs]: "find_item_of P i d = find_row (\<lambda>x. ci_id x = i \<and> item_in d P x) (cart_items d)"

definition delete_item_of :: "(cart_row \<Rightarrow> bool) \<Rightarrow> int \<Rightarrow> int action" where
  [repo_defs]: "delete_item_of P i d =
     (Inr (count_rows (\<lambda>x. ci_id x = i \<and> item_in d P x) (cart_items d)),
      d\<lparr>cart_items := delete_rows (\<lambda>x. ci_id x = i \<and> item_in d P x) (cart_items d)\<rparr>)"

definition update_quantity_by_id :: "int \<Rightarrow> int \<Rightarrow> cart_item_row action" where
  [repo_defs]: "update_quantity_by_id i quantity d =
     (case find_row (\<lambda>x. ci_id x = i) (cart_items d) of
        None \<Rightarrow> (Inl P2025, d)
      | Some x \<Rightarrow>
          (Inr (x\<lparr>ci_quantity := quantity\<rparr>),
           d\<lparr>cart_items := map_rows (\<lambda>x. ci_id x = i) (\<lambda>x. x\<lparr>ci_quantity := quantity\<rparr>) (cart_items d)\<rparr>))"

definition create_cart_item :: "int \<Rightarrow> int \<Rightarrow> int \<Rightarrow> int \<Rightarrow> cart_item_row action" where
  [repo_defs]: "create_cart_item now cart variant quantity d =
     (if find_item_by_variant cart variant d \<noteq> None then (Inl P2002, d)
      else if cart_of d cart = None \<or> variant_of d variant = None then (Inl P2003, d)
      else (Inr (new_cart_item now cart variant quantity (serial (cart_items d))),
            d\<lparr>cart_items := insert_row (new_cart_item now cart variant quantity) (cart_items d)\<rparr>))"

definition stock_available :: "int \<Rightarrow> db \<Rightarrow> int option" where
  [repo_defs]: "stock_available variant d = map_option bv_available (variant_of d variant)"

section \<open>The services\<close>

definition add_new_item :: "int \<Rightarrow> int \<Rightarrow> int \<Rightarrow> int \<Rightarrow> cart_item_row action" where
  [service_defs]: "add_new_item now cart variant quantity d =
     (case stock_available variant d of
        None \<Rightarrow> (Inl (JsError ''Book variant not found''), d)
      | Some a \<Rightarrow> if a < quantity then (Inl (JsError ''Not enough stock''), d)
                  else create_cart_item now cart variant quantity d)"

record cart_item_dto =
  cid_item_key :: string
  cid_variant_id :: int
  cid_quantity :: int

definition cart_item_to_dto :: "cart_item_row \<Rightarrow> cart_item_dto" where
  "cart_item_to_dto x =
     \<lparr>cid_item_key = int_string (ci_id x), cid_variant_id = ci_variant_id x, cid_quantity = ci_quantity x\<rparr>"

datatype cart_reply = Cart_Item cart_item_dto | Cart_Item_Removed cart_item_dto | Cart_Success

text \<open>The quantity an item gets; an item that falls to zero is deleted before the stock is read.\<close>

definition resolve_adjusted_quantity :: "int option \<Rightarrow> int option \<Rightarrow> int \<Rightarrow> int \<Rightarrow> int \<Rightarrow> int \<Rightarrow> int action" where
  [service_defs]: "resolve_adjusted_quantity guest user item variant current delta d =
     (let desired = max 0 (current + delta) in
      await (if desired = 0
             then case guest of
                    Some g \<Rightarrow> delete_item_of (of_guest g) item d
                  | None \<Rightarrow> (case user of
                              Some u \<Rightarrow> if u \<noteq> 0 then delete_item_of (of_user u) item d else (Inr 0, d)
                            | None \<Rightarrow> (Inr 0, d))
             else (Inr 0, d))
        (\<lambda>_ d. case stock_available variant d of
                 None \<Rightarrow> (Inl (NotFound ''San pham da het hang''), d)
               | Some a \<Rightarrow> let stock = max 0 a in
                   if stock = 0 then (Inl (NotFound ''San pham da het hang''), d)
                   else (Inr (min desired stock), d)))"

definition find_or_create :: "cart_row option \<Rightarrow> cart_row action \<Rightarrow> cart_row action" where
  "find_or_create found create d = (case found of Some c \<Rightarrow> (Inr c, d) | None \<Rightarrow> create d)"

definition add_cart_item :: "int \<Rightarrow> int option \<Rightarrow> int option \<Rightarrow> int \<Rightarrow> int option \<Rightarrow> cart_reply action" where
  [service_defs]: "add_cart_item now guest user variant quantity_opt d =
     (let quantity = (case quantity_opt of None \<Rightarrow> 1 | Some q \<Rightarrow> q) in
      case user of
        Some u \<Rightarrow>
          (case user_of d u of
             None \<Rightarrow> (Inl (Forbidden ''Forbidden''), d)
           | Some _ \<Rightarrow>
               await (find_or_create (find_cart_by_user u d) (create_cart_by_user now u) d) (\<lambda>cart d.
                 case find_item_by_variant (cart_id cart) variant d of
                   Some x \<Rightarrow>
                     await (resolve_adjusted_quantity None (Some u) (ci_id x) variant (ci_quantity x) quantity d)
                       (\<lambda>q d. await (update_quantity_by_id (ci_id x) q d) (\<lambda>y. ret (Cart_Item (cart_item_to_dto y))))
                 | None \<Rightarrow>
                     await (add_new_item now (cart_id cart) variant quantity d)
                       (\<lambda>y. ret (Cart_Item (cart_item_to_dto y)))))
      | None \<Rightarrow>
          (case guest of
             Some g \<Rightarrow>
               await (find_or_create (find_cart_by_guest g d) (create_cart_by_guest now g) d) (\<lambda>cart d.
                 case List.find (\<lambda>x. ci_variant_id x = variant) (items_newest_first d (cart_id cart)) of
                   Some x \<Rightarrow>
                     await (resolve_adjusted_quantity (Some g) None (ci_id x) variant (ci_quantity x) quantity d)
                       (\<lambda>q d. if q = 0 then (Inr Cart_Success, d)
                              else await (update_quantity_by_id (ci_id x) q d)
                                     (\<lambda>y. ret (Cart_Item (cart_item_to_dto y))))
                 | None \<Rightarrow>
                     await (add_new_item now (cart_id cart) variant quantity d)
                       (\<lambda>y. ret (Cart_Item (cart_item_to_dto y))))
           | None \<Rightarrow> (Inl (Forbidden ''Guest session or user is required''), d)))"

definition change_item :: "int option \<Rightarrow> int option \<Rightarrow> cart_item_row option \<Rightarrow> int \<Rightarrow> cart_reply action" where
  "change_item guest user item delta d =
     (case item of
        None \<Rightarrow> (Inl (NotFound ''CART_ITEM_NOT_FOUND''), d)
      | Some x \<Rightarrow>
          await (resolve_adjusted_quantity guest user (ci_id x) (ci_variant_id x) (ci_quantity x) delta d)
            (\<lambda>q d. if q = 0
                   then (Inr (Cart_Item_Removed (cart_item_to_dto x\<lparr>cid_quantity := q\<rparr>)), d)
                   else await (update_quantity_by_id (ci_id x) q d)
                          (\<lambda>y. ret (Cart_Item (cart_item_to_dto y)))))"

definition update_cart_item_delta :: "int option \<Rightarrow> int option \<Rightarrow> int \<Rightarrow> int \<Rightarrow> cart_reply action" where
  [service_defs]: "update_cart_item_delta guest user item delta d =
     (case user of
        Some u \<Rightarrow> if user_of d u = None then (Inl (Forbidden ''Forbidden''), d)
                  else change_item None (Some u) (find_item_of (of_user u) item d) delta d
      | None \<Rightarrow>
          (case guest of
             Some g \<Rightarrow> change_item (Some g) None (find_item_of (of_guest g) item d) delta d
           | None \<Rightarrow> (Inl (Forbidden ''Guest session or user is required''), d)))"

definition removed_or_404 :: "int res \<times> db \<Rightarrow> cart_reply res \<times> db" where
  "removed_or_404 r =
     await r (\<lambda>deleted d. if deleted = 0 then (Inl (NotFound ''CART_ITEM_NOT_FOUND''), d) else (Inr Cart_Success, d))"

definition remove_cart_item :: "int \<Rightarrow> int option \<Rightarrow> int option \<Rightarrow> cart_reply action" where
  [service_defs]: "remove_cart_item item guest user d =
     (case user of
        Some u \<Rightarrow> if user_of d u = None then (Inl (Forbidden ''Forbidden''), d)
                  else removed_or_404 (delete_item_of (of_user u) item d)
      | None \<Rightarrow>
          (case guest of
             Some g \<Rightarrow> removed_or_404 (delete_item_of (of_guest g) item d)
           | None \<Rightarrow> (Inl (Forbidden ''Vui long thu lai sau''), d)))"

definition clear_cart :: "int option \<Rightarrow> int option \<Rightarrow> cart_reply action" where
  [service_defs]: "clear_cart guest user d =
     (case user of
        Some u \<Rightarrow> if user_of d u = None then (Inl (Forbidden ''Forbidden''), d)
                  else await (delete_carts_by_user u d) (\<lambda>_. ret Cart_Success)
      | None \<Rightarrow>
          (case guest of
             Some g \<Rightarrow> await (delete_carts_by_guest g d) (\<lambda>_. ret Cart_Success)
           | None \<Rightarrow> (Inl (Forbidden ''Forbidden''), d)))"

text \<open>\<open>Number(user?.sub)\<close> that is no identifier, and a missing guest session, are refused by the controller.\<close>

definition quantity_map :: "cart_item_row list \<Rightarrow> int \<Rightarrow> int option" where
  "quantity_map xs = foldl (\<lambda>m x. m(ci_variant_id x \<mapsto> ci_quantity x)) Map.empty xs"

definition merged_item :: "(int \<Rightarrow> int option) \<Rightarrow> cart_item_row \<Rightarrow> int \<times> int" where
  "merged_item m x = (ci_variant_id x, (case m (ci_variant_id x) of None \<Rightarrow> 0 | Some q \<Rightarrow> q) + ci_quantity x)"

definition merge_cart_user :: "int \<Rightarrow> int \<Rightarrow> int \<Rightarrow> (int \<times> int) list \<Rightarrow> unit action" where
  [service_defs]: "merge_cart_user now cart guest items = transaction (\<lambda>d.
     await (update_cart_by_user now cart items d) (\<lambda>_ d.
       await (delete_carts_by_guest guest d) (\<lambda>_. ret ())))"

definition merge_cart :: "int \<Rightarrow> int \<Rightarrow> int \<Rightarrow> nat action" where
  [service_defs]: "merge_cart now guest user d =
     (case find_cart_by_guest guest d of
        None \<Rightarrow> (Inr 0, d)
      | Some gc \<Rightarrow>
          (case find_cart_by_user user d of
             None \<Rightarrow> await (update_guest_cart now (cart_id gc) user d)
                       (\<lambda>_. ret (length (items_of_cart d (cart_id gc))))
           | Some uc \<Rightarrow>
               let m = quantity_map (items_of_cart d (cart_id uc));
                   guest_items = items_of_cart d (cart_id gc);
                   fresh = filter (\<lambda>x. m (ci_variant_id x) = None \<or> m (ci_variant_id x) = Some 0) guest_items
               in await (merge_cart_user now (cart_id uc) guest (map (merged_item m) guest_items) d)
                    (\<lambda>_. ret (length fresh))))"

definition merge_cart_route :: "int \<Rightarrow> int option \<Rightarrow> int option \<Rightarrow> nat action" where
  [service_defs]: "merge_cart_route now user guest d =
     (case user of
        None \<Rightarrow> (Inl (JsError ''User is required to merge cart''), d)
      | Some u \<Rightarrow> if u = 0 then (Inl (JsError ''User is required to merge cart''), d)
                  else (case guest of
                          None \<Rightarrow> (Inl (JsError ''Guest session is required to merge cart''), d)
                        | Some g \<Rightarrow> merge_cart now g u d))"

definition clear_cart_route :: "int option \<Rightarrow> int option \<Rightarrow> cart_reply action" where
  [service_defs]: "clear_cart_route user guest d =
     (if guest = None \<and> user = None
      then (Inl (JsError ''Guest session or user is required to clear cart''), d)
      else clear_cart guest user d)"

section \<open>The cart a client sees\<close>

definition day_of_ms :: "int \<Rightarrow> int" where
  "day_of_ms t = t div 86400000"

primrec put_group :: "int \<Rightarrow> 'a \<Rightarrow> (int \<times> 'a list) list \<Rightarrow> (int \<times> 'a list) list" where
  "put_group k x [] = [(k, [x])]"
| "put_group k x (g # gs) = (if fst g = k then (k, snd g @ [x]) # gs else g # put_group k x gs)"

definition group_by_day :: "('a \<Rightarrow> int) \<Rightarrow> 'a list \<Rightarrow> (int \<times> 'a list) list" where
  "group_by_day time xs =
     sort_key (\<lambda>g. - fst g) (foldl (\<lambda>gs x. put_group (day_of_ms (time x)) x gs) [] xs)"

record cart_item_view =
  civ_id :: int
  civ_variant_id :: int
  civ_quantity :: int
  civ_added_at :: int
  civ_price :: string
  civ_format :: book_format
  civ_currency :: currency_code
  civ_stock :: int
  civ_book_id :: int
  civ_cover :: "string option"
  civ_title :: string
  civ_slug :: string

text \<open>
  The argument \<open>translation\<close> gives cover, title and slug of a book in the language of the request; a book
  without one ends the request with the \<open>TypeError\<close> of \<open>translations[0].title\<close>.
\<close>

definition cart_item_to_view :: "(int \<Rightarrow> (string option \<times> string \<times> string) option) \<Rightarrow> db \<Rightarrow> cart_item_row \<Rightarrow> cart_item_view option" where
  "cart_item_to_view translation d x =
     Option.bind (variant_of d (ci_variant_id x)) (\<lambda>v.
       map_option (\<lambda>(cover, title, slug).
         \<lparr>civ_id = ci_id x, civ_variant_id = ci_variant_id x, civ_quantity = ci_quantity x,
          civ_added_at = ci_added_at x, civ_price = to_fixed2 (number_of_decimal (bv_price v)),
          civ_format = bv_format v, civ_currency = bv_currency v, civ_stock = bv_stock v,
          civ_book_id = bv_book_id v, civ_cover = cover, civ_title = title, civ_slug = slug\<rparr>)
         (translation (bv_book_id v)))"

definition to_grouped_cart ::
    "(int \<Rightarrow> (string option \<times> string \<times> string) option) \<Rightarrow> cart_row \<Rightarrow> (int \<times> (int \<times> cart_item_view list) list) action" where
  [service_defs]: "to_grouped_cart translation cart d =
     (case those (map (cart_item_to_view translation d) (items_newest_first d (cart_id cart))) of
        None \<Rightarrow> (Inl TypeError, d)
      | Some views \<Rightarrow> (Inr (cart_id cart, group_by_day civ_added_at views), d))"

definition get_cart_user ::
    "int \<Rightarrow> (int \<Rightarrow> (string option \<times> string \<times> string) option) \<Rightarrow> int \<Rightarrow> (int \<times> (int \<times> cart_item_view list) list) action" where
  [service_defs]: "get_cart_user now translation user d =
     await (find_or_create (find_cart_by_user user d) (create_cart_by_user now user) d)
       (to_grouped_cart translation)"

definition get_cart_guest ::
    "int \<Rightarrow> (int \<Rightarrow> (string option \<times> string \<times> string) option) \<Rightarrow> int \<Rightarrow> (int \<times> (int \<times> cart_item_view list) list) action" where
  [service_defs]: "get_cart_guest now translation guest d =
     await (find_or_create (find_cart_by_guest guest d) (create_cart_by_guest now guest) d)
       (to_grouped_cart translation)"

definition get_cart_route ::
    "int \<Rightarrow> (int \<Rightarrow> (string option \<times> string \<times> string) option) \<Rightarrow> int option \<Rightarrow> int option
       \<Rightarrow> (int \<times> (int \<times> cart_item_view list) list) action" where
  [service_defs]: "get_cart_route now translation guest user d =
     (case user of
        Some u \<Rightarrow> get_cart_user now translation u d
      | None \<Rightarrow>
          (case guest of
             Some g \<Rightarrow> get_cart_guest now translation g d
           | None \<Rightarrow> (Inl (JsError ''Guest session or user is required''), d)))"

section \<open>The invariant\<close>

definition cart_inv :: "db \<Rightarrow> bool" where
  "cart_inv d \<longleftrightarrow>
     wf_table cart_id (carts d) \<and> wf_table ci_id (cart_items d)
     \<and> distinct (map (\<lambda>x. (ci_cart_id x, ci_variant_id x)) (rows (cart_items d)))
     \<and> (\<forall>x\<in>set (rows (cart_items d)). 1 \<le> ci_quantity x
          \<and> (\<exists>c\<in>set (rows (carts d)). cart_id c = ci_cart_id x))"

lemma cart_inv_same:
  "carts d' = carts d \<Longrightarrow> cart_items d' = cart_items d \<Longrightarrow> cart_inv d' = cart_inv d"
  by (simp add: cart_inv_def)

lemma cart_inv_new_cart:
  assumes "cart_inv d" and "\<And>i. cart_id (mk i) = i"
  shows "cart_inv (d\<lparr>carts := insert_row mk (carts d)\<rparr>)"
  using assms by (auto simp: cart_inv_def intro!: wf_insert_row)

lemma cart_inv_cart_update:
  assumes "cart_inv d" and "\<And>c. cart_id (f c) = cart_id c"
  shows "cart_inv (d\<lparr>carts := map_rows P f (carts d)\<rparr>)"
proof -
  have "\<exists>c'\<in>(\<lambda>c. if P c then f c else c) ` set (rows (carts d)). cart_id c' = i"
    if "\<exists>c\<in>set (rows (carts d)). cart_id c = i" for i
    using that assms(2) by (auto simp: image_iff)
  with assms show ?thesis by (simp add: cart_inv_def wf_map_rows)
qed

lemma distinct_key_delete_rows:
  "distinct (map key (rows t)) \<Longrightarrow> distinct (map key (rows (delete_rows P t)))"
  by (simp add: distinct_map_filter)

lemma cart_inv_delete_carts:
  assumes "cart_inv d" shows "cart_inv (delete_carts P d)"
proof -
  have "\<exists>c\<in>set (rows (delete_rows P (carts d))). cart_id c = ci_cart_id x"
    if "x \<in> set (rows (cart_items d))" "\<not> (\<exists>c\<in>set (rows (carts d)). P c \<and> cart_id c = ci_cart_id x)" for x
    using assms that by (fastforce simp: cart_inv_def)
  with assms show ?thesis
    by (auto simp: cart_inv_def delete_carts_def intro!: wf_delete_rows distinct_map_filter)
qed

lemma cart_inv_delete_items:
  assumes "cart_inv d" shows "cart_inv (d\<lparr>cart_items := delete_rows P (cart_items d)\<rparr>)"
  using assms by (auto simp: cart_inv_def intro!: wf_delete_rows distinct_map_filter)

lemma cart_inv_quantity:
  assumes "cart_inv d" and "1 \<le> q"
  shows "cart_inv (d\<lparr>cart_items := map_rows P (\<lambda>x. x\<lparr>ci_quantity := q\<rparr>) (cart_items d)\<rparr>)"
proof -
  let ?f = "\<lambda>x. if P x then x\<lparr>ci_quantity := q\<rparr> else x"
  have "distinct (map (\<lambda>x. (ci_cart_id x, ci_variant_id x)) (map ?f (rows (cart_items d))))"
    using assms(1) by (subst distinct_map_same_key) (simp_all add: cart_inv_def)
  moreover have "wf_table ci_id (map_rows P (\<lambda>x. x\<lparr>ci_quantity := q\<rparr>) (cart_items d))"
    using assms(1) by (intro wf_map_rows) (simp_all add: cart_inv_def)
  ultimately show ?thesis
    using assms by (auto simp: cart_inv_def simp del: map_map)
qed

lemma cart_inv_new_item:
  assumes "cart_inv d" and "1 \<le> q" and "find_item_by_variant cart variant d = None" and "cart_of d cart \<noteq> None"
  shows "cart_inv (d\<lparr>cart_items := insert_row (new_cart_item now cart variant q) (cart_items d)\<rparr>)"
proof -
  have "\<exists>c\<in>set (rows (carts d)). cart_id c = cart"
    using assms(4) by (auto simp: cart_of_def find_row_None)
  then show ?thesis
    using assms by (auto simp: cart_inv_def find_item_by_variant_def find_row_None new_cart_item_def
        intro!: wf_insert_row)
qed

section \<open>Every operation keeps the invariant\<close>

lemma resolve_result:
  assumes "fst (resolve_adjusted_quantity guest user item variant current delta d) = Inr n"
  shows "\<exists>a. stock_available variant d = Some a \<and> 0 < a \<and> n = min (max 0 (current + delta)) a"
proof -
  have stock: "stock_available variant (d\<lparr>cart_items := t\<rparr>) = stock_available variant d" for t
    by (simp add: stock_available_def variant_of_def)
  from assms show ?thesis
    by (auto simp: resolve_adjusted_quantity_def Let_def delete_item_of_def stock
        split: if_splits option.splits)
qed

lemma resolve_keeps: "cart_inv d \<Longrightarrow> cart_inv (snd (resolve_adjusted_quantity guest user item variant current delta d))"
  unfolding resolve_adjusted_quantity_def Let_def
  by (rule await_keeps [where P = cart_inv])
     (auto simp: delete_item_of_def cart_inv_delete_items split: option.split)

lemma update_quantity_keeps: "cart_inv d \<Longrightarrow> 1 \<le> q \<Longrightarrow> cart_inv (snd (update_quantity_by_id i q d))"
  by (auto simp: update_quantity_by_id_def cart_inv_quantity split: option.split)

lemma add_new_item_keeps: "cart_inv d \<Longrightarrow> 1 \<le> q \<Longrightarrow> cart_inv (snd (add_new_item now cart variant q d))"
  by (auto simp: add_new_item_def create_cart_item_def cart_inv_new_item split: option.split)

lemma find_or_create_keeps:
  "cart_inv d \<Longrightarrow> cart_inv (snd (find_or_create found (create_cart_by_user now u) d))"
  "cart_inv d \<Longrightarrow> cart_inv (snd (find_or_create found (create_cart_by_guest now g) d))"
  by (auto simp: find_or_create_def create_cart_by_user_def create_cart_by_guest_def new_cart_def
      cart_inv_new_cart split: option.split)

lemma delete_item_keeps: "cart_inv d \<Longrightarrow> cart_inv (snd (delete_item_of P i d))"
  by (simp add: delete_item_of_def cart_inv_delete_items)

text \<open>An item whose resolved quantity is then written.\<close>

lemma resolve_then_update_keeps:
  assumes "cart_inv d" and "\<And>q d. cart_inv d \<Longrightarrow> 1 \<le> q \<Longrightarrow> cart_inv (snd (k q d))"
    and "\<And>d. cart_inv d \<Longrightarrow> 0 < current + delta \<or> cart_inv (snd (k 0 d))"
  shows "cart_inv (snd (await (resolve_adjusted_quantity guest user item variant current delta d) k))"
proof (cases "resolve_adjusted_quantity guest user item variant current delta d")
  case (Pair r d1)
  have inv: "cart_inv d1" using resolve_keeps [OF assms(1), of guest user item variant current delta] Pair by simp
  show ?thesis
  proof (cases r)
    case (Inr n)
    with Pair resolve_result [of guest user item variant current delta d n]
    obtain a where "0 < a" "n = min (max 0 (current + delta)) a" by auto
    then have "1 \<le> n \<or> n = 0 \<and> \<not> 0 < current + delta" by (auto simp: min_def max_def)
    then show ?thesis using assms(2,3) inv Pair Inr by auto
  qed (use inv Pair in simp)
qed

lemma found_item_quantity:
  assumes "cart_inv d" and "find_item_by_variant cart variant d = Some x"
  shows "1 \<le> ci_quantity x"
  using assms by (auto simp: find_item_by_variant_def cart_inv_def dest: find_row_SomeD)

lemma listed_item_quantity:
  assumes "cart_inv d" and "List.find P (items_newest_first d cart) = Some x"
  shows "1 \<le> ci_quantity x"
  using assms find_Some_in [OF assms(2)]
  by (auto simp: items_newest_first_def items_of_cart_def cart_inv_def)

lemma written_quantity_keeps:
  "cart_inv d \<Longrightarrow> 1 \<le> q \<Longrightarrow> cart_inv (snd (await (update_quantity_by_id i q d) (\<lambda>y. ret (f y))))"
  by (rule await_keeps [where P = cart_inv]) (simp_all add: update_quantity_keeps)

lemma added_item_keeps:
  "cart_inv d \<Longrightarrow> 1 \<le> q \<Longrightarrow> cart_inv (snd (await (add_new_item now cart variant q d) (\<lambda>y. ret (f y))))"
  by (rule await_keeps [where P = cart_inv]) (simp_all add: add_new_item_keeps)

lemma add_cart_item_keeps:
  assumes "cart_inv d" and "case quantity of None \<Rightarrow> True | Some q \<Rightarrow> 1 \<le> q"
  shows "cart_inv (snd (add_cart_item now guest user variant quantity d))"
proof -
  define q where "q = (case quantity of None \<Rightarrow> (1 :: int) | Some q \<Rightarrow> q)"
  have q: "1 \<le> q" using assms(2) by (simp add: q_def split: option.splits)
  have user: "cart_inv (snd (case find_item_by_variant cart variant d of
      Some x \<Rightarrow> await (resolve_adjusted_quantity None u (ci_id x) variant (ci_quantity x) q d)
        (\<lambda>q d. await (update_quantity_by_id (ci_id x) q d) (\<lambda>y. ret (Cart_Item (cart_item_to_dto y))))
    | None \<Rightarrow> await (add_new_item now cart variant q d) (\<lambda>y. ret (Cart_Item (cart_item_to_dto y)))))"
    if "cart_inv d" for d cart u
  proof (cases "find_item_by_variant cart variant d")
    case None
    then show ?thesis using added_item_keeps [OF that q] by simp
  next
    case (Some x)
    have "0 < ci_quantity x + q" using found_item_quantity [OF that Some] q by simp
    then show ?thesis unfolding Some option.case
      by (intro resolve_then_update_keeps that written_quantity_keeps disjI1)
  qed
  have guest: "cart_inv (snd (case List.find (\<lambda>x. ci_variant_id x = variant) (items_newest_first d cart) of
      Some x \<Rightarrow> await (resolve_adjusted_quantity g None (ci_id x) variant (ci_quantity x) q d)
        (\<lambda>q d. if q = 0 then (Inr Cart_Success, d)
               else await (update_quantity_by_id (ci_id x) q d) (\<lambda>y. ret (Cart_Item (cart_item_to_dto y))))
    | None \<Rightarrow> await (add_new_item now cart variant q d) (\<lambda>y. ret (Cart_Item (cart_item_to_dto y)))))"
    if "cart_inv d" for d cart g
  proof (cases "List.find (\<lambda>x. ci_variant_id x = variant) (items_newest_first d cart)")
    case None
    then show ?thesis using added_item_keeps [OF that q] by simp
  next
    case (Some x)
    show ?thesis unfolding Some option.case
      by (rule resolve_then_update_keeps [OF that]) (auto simp: written_quantity_keeps)
  qed
  have keeps: "cart_inv (snd (await (find_or_create found create d) k))"
    if "cart_inv (snd (find_or_create found create d))" "\<And>c d. cart_inv d \<Longrightarrow> cart_inv (snd (k c d))"
    for found create and k :: "cart_row \<Rightarrow> cart_reply action"
    by (rule await_keeps [where P = cart_inv, OF that])
  show ?thesis
    unfolding add_cart_item_def q_def [symmetric] Let_def
    using assms(1) by (auto split: option.split simp del: option.case
        intro!: keeps find_or_create_keeps user guest)
qed

lemma update_cart_item_delta_keeps:
  assumes "cart_inv d" shows "cart_inv (snd (update_cart_item_delta guest user item delta d))"
proof -
  have "cart_inv (snd (change_item g u found delta d))" for g u found
  proof (cases found)
    case (Some x)
    show ?thesis unfolding change_item_def Some option.case
      by (rule resolve_then_update_keeps [OF assms]) (auto simp: written_quantity_keeps)
  qed (simp add: change_item_def assms)
  then show ?thesis using assms by (simp add: update_cart_item_delta_def split: option.split)
qed

lemma remove_cart_item_keeps:
  assumes "cart_inv d" shows "cart_inv (snd (remove_cart_item item guest user d))"
  using assms delete_item_keeps
  by (auto simp: remove_cart_item_def removed_or_404_def split: option.split
      intro!: await_keeps [where P = cart_inv])

lemma clear_cart_keeps:
  assumes "cart_inv d" shows "cart_inv (snd (clear_cart guest user d))"
  using assms by (auto simp: clear_cart_def delete_carts_by_user_def delete_carts_by_guest_def
      cart_inv_delete_carts split: option.split)

lemma upsert_cart_items_keeps:
  assumes "cart_inv d" and "cart_of d cart \<noteq> None" and "\<And>v q. (v, q) \<in> set is \<Longrightarrow> 1 \<le> q"
  shows "cart_inv (snd (upsert_cart_items now cart is d))"
  using assms
proof (induction "is" arbitrary: d)
  case (Cons i "is")
  obtain v q where i: "i = (v, q)" by (cases i)
  let ?P = "\<lambda>d. cart_inv d \<and> cart_of d cart \<noteq> None"
  have "1 \<le> q" using Cons.prems(3) i by (metis list.set_intros(1))
  then have "?P (snd (upsert_cart_item now cart i d))"
    using Cons.prems(1,2) cart_inv_quantity [of d q] cart_inv_new_item [of d q cart v]
    by (auto simp: upsert_cart_item_def i cart_of_def split: option.split)
  moreover have "cart_inv (snd (upsert_cart_items now cart is s))" if "?P s" for s
    using that Cons.prems(3) by (intro Cons.IH) auto
  ultimately show ?case
    by (cases "upsert_cart_item now cart i d"; cases "fst (upsert_cart_item now cart i d)") auto
qed simp

lemma merge_cart_keeps:
  assumes "cart_inv d" shows "cart_inv (snd (merge_cart now guest user d))"
proof -
  have quantity: "1 \<le> q" if "(v, q) \<in> set (map (merged_item m) (items_of_cart d i))"
      and "m = quantity_map (items_of_cart d j)" for v q m i j
  proof -
    have positive: "1 \<le> ci_quantity x" if "x \<in> set (items_of_cart d k)" for x k
      using that assms by (simp add: items_of_cart_def cart_inv_def)
    have "case quantity_map xs k of None \<Rightarrow> True | Some q \<Rightarrow> 1 \<le> q"
      if "\<And>x. x \<in> set xs \<Longrightarrow> 1 \<le> ci_quantity x" for xs k
      using that by (induction xs rule: rev_induct) (auto simp: quantity_map_def split: option.split)
    from this [of "items_of_cart d j"] positive that show ?thesis
      by (fastforce simp: merged_item_def split: option.splits)
  qed
  have merge: "cart_inv (snd (merge_cart_user now i guest items d))"
    if "\<And>v q. (v, q) \<in> set items \<Longrightarrow> 1 \<le> q" for i items
  proof -
    have update: "cart_inv (snd (update_cart_by_user now i items d))"
      unfolding update_cart_by_user_def transaction_def
      using upsert_cart_items_keeps [OF assms, of i items] that assms
      by (auto split: prod.split sum.split simp: prod_eq_iff)
    then show ?thesis
      unfolding merge_cart_user_def using assms
      by (cases "update_cart_by_user now i items d"; cases "fst (update_cart_by_user now i items d)")
         (auto simp: transaction_def delete_carts_by_guest_def cart_inv_delete_carts)
  qed
  have assign: "cart_inv (snd (update_guest_cart now i u d))" for i u
    using assms by (simp add: update_guest_cart_def cart_inv_cart_update)
  have unit: "snd (await r (\<lambda>_. ret x)) = snd r" for r :: "unit res \<times> db" and x :: nat
    by (cases r; cases "fst r") auto
  show ?thesis
    using assms assign merge [OF quantity [OF _ refl]]
    by (auto simp: merge_cart_def Let_def unit simp del: set_map split: option.split)
qed

section \<open>The cart as a machine\<close>

text \<open>The calls a client can make; the body of an addition is validated (\<open>@Min(1)\<close>) before the handler.\<close>

datatype cart_call =
    Get_Cart int "int option" "int option"
  | Add_Item int "int option" "int option" int "int option"
  | Change_Item "int option" "int option" int int
  | Remove_Item int "int option" "int option"
  | Clear_Cart "int option" "int option"
  | Merge_Cart int "int option" "int option"

definition valid_add_body :: "int \<Rightarrow> int option \<Rightarrow> bool" where
  "valid_add_body variant quantity \<longleftrightarrow>
     1 \<le> variant \<and> (case quantity of None \<Rightarrow> True | Some q \<Rightarrow> 1 \<le> q)"

fun cart_step :: "(int \<Rightarrow> (string option \<times> string \<times> string) option) \<Rightarrow> cart_call \<Rightarrow> db \<Rightarrow> db" where
  "cart_step tr (Get_Cart now guest user) d = snd (get_cart_route now tr guest user d)"
| "cart_step tr (Add_Item now guest user variant q) d =
     (if valid_add_body variant q then snd (add_cart_item now guest user variant q d) else d)"
| "cart_step tr (Change_Item guest user item delta) d = snd (update_cart_item_delta guest user item delta d)"
| "cart_step tr (Remove_Item item guest user) d = snd (remove_cart_item item guest user d)"
| "cart_step tr (Clear_Cart user guest) d = snd (clear_cart_route user guest d)"
| "cart_step tr (Merge_Cart now user guest) d = snd (merge_cart_route now user guest d)"

lemma get_cart_keeps:
  assumes "cart_inv d" shows "cart_inv (snd (get_cart_route now tr guest user d))"
proof -
  have view: "cart_inv (snd (to_grouped_cart tr c d))" if "cart_inv d" for c d
    using that by (simp add: to_grouped_cart_def split: option.split)
  have "cart_inv (snd (get_cart_user now tr u d))" "cart_inv (snd (get_cart_guest now tr g d))" for u g
    unfolding get_cart_user_def get_cart_guest_def
    by (rule await_keeps [where P = cart_inv]; simp add: find_or_create_keeps assms view)+
  then show ?thesis using assms by (simp add: get_cart_route_def split: option.split)
qed

interpretation cart_machine: machine "cart_step tr" cart_inv for tr
proof
  fix d c assume inv: "cart_inv d"
  then show "cart_inv (cart_step tr c d)"
    using get_cart_keeps add_cart_item_keeps update_cart_item_delta_keeps remove_cart_item_keeps
      clear_cart_keeps merge_cart_keeps
    by (cases c) (auto simp: valid_add_body_def clear_cart_route_def merge_cart_route_def split: option.split)
qed

section \<open>Properties\<close>

text \<open>
  C18: after any sequence of calls on the cart, whatever they return, cart and item identifiers are
  unique, every item belongs to a cart, a cart lists a variant at most once and every quantity is at
  least one.
\<close>
theorem cart_calls_keep_invariant:
  assumes "cart_inv d"
  shows "cart_inv (fold (cart_step translation) calls d)"
  using assms by (rule cart_machine.run_inv)

definition reader :: user_row where
  "reader = \<lparr>usr_id = 7, usr_email = ''a@b'', usr_phone = None, usr_first_name = None, usr_last_name = None,
     usr_password = ''h'', usr_password_changed_at = None, usr_is_email_verified = True,
     usr_verify_email_at = None, usr_status = User_ACTIVE, usr_last_login_at = None, usr_created_at = 0, usr_deleted_at = None\<rparr>"

definition available_variant :: "int \<Rightarrow> int \<Rightarrow> variant_row" where
  "available_variant i n = (sample_variant i n 0)\<lparr>bv_available := n\<rparr>"

definition cart_shop :: db where
  "cart_shop = empty_db\<lparr>users := \<lparr>rows = [reader], serial = 8\<rparr>,
     guest_sessions := \<lparr>rows = [\<lparr>gs_id = 3, gs_ip_first = None, gs_user_agent_hash = None,
       gs_created_at = 0, gs_last_seen_at = Some 0, gs_converted_user_id = None, gs_converted_at = None\<rparr>], serial = 4\<rparr>,
     variants := \<lparr>rows = [available_variant 1 5, available_variant 2 9], serial = 3\<rparr>\<rparr>"

lemma cart_shop_inv: "cart_inv cart_shop"
  by (simp add: cart_inv_def cart_shop_def empty_db_def)

lemma cart_calls_keep_invariant_witness:
  "cart_inv (fold (cart_step (\<lambda>_. None)) [Add_Item 1 (Some 3) None 1 (Some 2), Merge_Cart 2 (Some 7) (Some 3)] cart_shop)"
  by (rule cart_calls_keep_invariant) (rule cart_shop_inv)

lemma written_quantity:
  "update_quantity_by_id i q d = (Inr y, d') \<Longrightarrow> cid_quantity (cart_item_to_dto y) = q"
  by (auto simp: update_quantity_by_id_def cart_item_to_dto_def split: option.splits)

definition owned_by :: "int option \<Rightarrow> int option \<Rightarrow> cart_row \<Rightarrow> bool" where
  "owned_by user guest c =
     (case user of Some u \<Rightarrow> of_user u c | None \<Rightarrow> (case guest of Some g \<Rightarrow> of_guest g c | None \<Rightarrow> False))"

text \<open>
  A quantity is changed only on an item of the caller's own cart, and the new quantity is the old
  one plus the delta, cut off at the copies available, never below one.
\<close>
theorem changed_item_own_and_in_stock:
  assumes "fst (update_cart_item_delta guest user item delta d) = Inr (Cart_Item dto)"
  shows "\<exists>x a. x \<in> set (rows (cart_items d)) \<and> ci_id x = item \<and> item_in d (owned_by user guest) x
       \<and> stock_available (ci_variant_id x) d = Some a
       \<and> cid_quantity dto = min (ci_quantity x + delta) a \<and> 1 \<le> cid_quantity dto"
proof -
  have change: "\<exists>x a. found = Some x \<and> stock_available (ci_variant_id x) d = Some a
      \<and> cid_quantity dto = min (ci_quantity x + delta) a \<and> 1 \<le> cid_quantity dto"
    if changed: "fst (change_item g u found delta d) = Inr (Cart_Item dto)" for g u found
  proof -
    obtain x where x: "found = Some x" using changed by (cases found) (simp_all add: change_item_def)
    from changed obtain q d1 where run: "resolve_adjusted_quantity g u (ci_id x) (ci_variant_id x) (ci_quantity x) delta d = (Inr q, d1)"
      and "q \<noteq> 0" and "cid_quantity dto = q"
      by (auto simp: change_item_def x elim!: await_InrE split: if_splits) (blast dest: written_quantity)
    with resolve_result [of g u "ci_id x" "ci_variant_id x" "ci_quantity x" delta d q] show ?thesis
      using x by (auto simp: min_def max_def split: if_splits)
  qed
  have found: "find_item_of P item d = Some x \<Longrightarrow> x \<in> set (rows (cart_items d)) \<and> ci_id x = item \<and> item_in d P x"
    for P x by (auto simp: find_item_of_def dest: find_row_SomeD)
  have own: "owned_by (Some u) guest = of_user u" "owned_by None (Some g) = of_guest g" for u g
    by (simp_all add: owned_by_def fun_eq_iff)
  obtain g u P where P: "owned_by user guest = P"
    and run: "fst (change_item g u (find_item_of P item d) delta d) = Inr (Cart_Item dto)"
    using assms own by (auto simp: update_cart_item_delta_def split: option.splits if_splits)
  from change [OF run] found [of P] show ?thesis unfolding P by blast
qed

definition filled_cart :: db where
  "filled_cart = cart_shop\<lparr>carts := \<lparr>rows = [new_cart 1 (Some 7) None 1, new_cart 2 None (Some 3) 2], serial = 3\<rparr>,
     cart_items := \<lparr>rows = [new_cart_item 1 1 1 2 1, new_cart_item 2 2 1 4 2, new_cart_item 2 2 2 1 3], serial = 4\<rparr>\<rparr>"

lemma changed_item_own_and_in_stock_witness:
  "fst (update_cart_item_delta None (Some 7) 1 9 filled_cart)
     = Inr (Cart_Item \<lparr>cid_item_key = ''1'', cid_variant_id = 1, cid_quantity = 5\<rparr>)
   \<and> (\<exists>x\<in>set (rows (cart_items filled_cart)). ci_id x = 1 \<and> item_in filled_cart (owned_by (Some 7) None) x)"
proof -
  have run: "fst (update_cart_item_delta None (Some 7) 1 9 filled_cart)
     = Inr (Cart_Item \<lparr>cid_item_key = ''1'', cid_variant_id = 1, cid_quantity = 5\<rparr>)"
    by code_simp
  from changed_item_own_and_in_stock [OF this] show ?thesis using run by blast
qed

section \<open>Merging\<close>

lemma latest_cart_cases:
  "case latest_cart P d of None \<Rightarrow> \<forall>c\<in>set (rows (carts d)). \<not> P c | Some c \<Rightarrow> c \<in> set (rows (carts d)) \<and> P c"
proof -
  let ?cs = "sort_key (\<lambda>c. - cart_updated_at c) (select_rows P (carts d))"
  have "set ?cs = {c \<in> set (rows (carts d)). P c}" by simp
  then show ?thesis unfolding latest_cart_def by (cases ?cs) (auto simp del: set_sort)
qed

lemma latest_cart_SomeD: "latest_cart P d = Some c \<Longrightarrow> c \<in> set (rows (carts d)) \<and> P c"
  using latest_cart_cases [of d P] by simp

lemma latest_cart_None: "latest_cart P d = None \<longleftrightarrow> (\<forall>c\<in>set (rows (carts d)). \<not> P c)"
  using latest_cart_cases [of d P] by (cases "latest_cart P d") auto

definition cart_quantity :: "db \<Rightarrow> int \<Rightarrow> int \<Rightarrow> int" where
  "cart_quantity d cart v = (case find_item_by_variant cart v d of None \<Rightarrow> 0 | Some x \<Rightarrow> ci_quantity x)"

lemma find_filter: "List.find P (filter Q xs) = List.find (\<lambda>x. Q x \<and> P x) xs"
  by (induction xs) auto

lemma map_of_find: "map_of (map (\<lambda>x. (k x, f x)) xs) v = map_option f (List.find (\<lambda>x. k x = v) xs)"
  by (induction xs) auto

lemma listed_in_cart: "List.find (\<lambda>x. ci_variant_id x = v) (items_of_cart d cart) = find_item_by_variant cart v d"
  by (simp add: items_of_cart_def select_rows_def find_filter find_item_by_variant_def find_row_def)

lemma quantity_map_lookup:
  "distinct (map ci_variant_id xs) \<Longrightarrow>
     quantity_map xs v = map_option ci_quantity (List.find (\<lambda>x. ci_variant_id x = v) xs)"
proof (induction xs rule: rev_induct)
  case (snoc x xs)
  then have "v = ci_variant_id x \<Longrightarrow> List.find (\<lambda>y. ci_variant_id y = v) xs = None"
    by (auto simp: find_None_iff) (metis image_eqI)
  with snoc show ?case
    by (auto simp: quantity_map_def find_append split: option.split)
qed (simp add: quantity_map_def)

lemma distinct_variants_of_cart:
  assumes "cart_inv d" shows "distinct (map ci_variant_id (items_of_cart d cart))"
proof -
  have "distinct (map (\<lambda>x. (ci_cart_id x, ci_variant_id x)) (items_of_cart d cart))"
    using assms by (auto simp: cart_inv_def items_of_cart_def select_rows_def intro: distinct_map_filter)
  then show ?thesis
    by (auto simp: distinct_map inj_on_def items_of_cart_def)
qed

lemma upsert_quantity:
  assumes "upsert_cart_item now cart (v, q) d = (Inr (), d')"
  shows "cart_quantity d' cart w = (if w = v then q else cart_quantity d cart w) \<and> carts d' = carts d"
proof (cases "find_item_by_variant cart v d")
  case None
  with assms show ?thesis
    by (auto simp: upsert_cart_item_def cart_quantity_def find_item_by_variant_def find_row_insert
        new_cart_item_def split: if_splits option.splits)
next
  case (Some x)
  have "find_item_by_variant cart w d' =
      map_option (\<lambda>x. if ci_cart_id x = cart \<and> ci_variant_id x = v then x\<lparr>ci_quantity := q\<rparr> else x)
        (find_item_by_variant cart w d)"
    using assms Some by (auto simp: upsert_cart_item_def find_item_by_variant_def find_row_map_rows_same)
  with assms Some show ?thesis
    by (auto simp: upsert_cart_item_def cart_quantity_def find_item_by_variant_def
        dest!: find_row_SomeD split: option.splits)
qed

lemma upserts_quantity:
  assumes "upsert_cart_items now cart is d = (Inr (), d')" and "distinct (map fst is)"
  shows "cart_quantity d' cart w = (case map_of is w of None \<Rightarrow> cart_quantity d cart w | Some q \<Rightarrow> q)
       \<and> carts d' = carts d"
  using assms
proof (induction "is" arbitrary: d)
  case (Cons i "is")
  obtain v q where i: "i = (v, q)" by (cases i)
  from Cons.prems(1) obtain d1 where one: "upsert_cart_item now cart (v, q) d = (Inr (), d1)"
    and rest: "upsert_cart_items now cart is d1 = (Inr (), d')"
    by (auto simp: i elim!: await_InrD)
  have "map_of is v = None" using Cons.prems(2) i by (auto simp: map_of_eq_None_iff)
  then show ?case
    using Cons.IH [OF rest] Cons.prems(2) upsert_quantity [OF one, of w] upsert_quantity [OF one]
    by (auto simp: i split: option.split)
qed simp

lemma upserts_carts: "upsert_cart_items now cart is d = (Inr (), d') \<Longrightarrow> carts d' = carts d"
proof (induction "is" arbitrary: d)
  case (Cons i "is")
  obtain v q where i: "i = (v, q)" by (cases i)
  from Cons.prems obtain d1 where one: "upsert_cart_item now cart (v, q) d = (Inr (), d1)"
    and rest: "upsert_cart_items now cart is d1 = (Inr (), d')"
    by (auto simp: i elim!: await_InrD)
  then show ?case using Cons.IH [OF rest] upsert_quantity [OF one] by simp
qed simp

lemma merge_into_steps:
  assumes "merge_cart now guest user d = (Inr n, d')"
    and "find_cart_by_guest guest d = Some gc" and "find_cart_by_user user d = Some uc"
  obtains d1 where "upsert_cart_items now (cart_id uc)
      (map (merged_item (quantity_map (items_of_cart d (cart_id uc)))) (items_of_cart d (cart_id gc))) d = (Inr (), d1)"
    and "d' = delete_carts (of_guest guest) d1"
proof -
  obtain u where "merge_cart_user now (cart_id uc) guest
      (map (merged_item (quantity_map (items_of_cart d (cart_id uc)))) (items_of_cart d (cart_id gc))) d = (Inr u, d')"
    using assms by (auto simp: merge_cart_def Let_def elim!: await_InrD)
  from transaction_InrD [OF this [unfolded merge_cart_user_def]] obtain u' d1 where
    "update_cart_by_user now (cart_id uc)
      (map (merged_item (quantity_map (items_of_cart d (cart_id uc)))) (items_of_cart d (cart_id gc))) d = (Inr u', d1)"
    and d': "d' = delete_carts (of_guest guest) d1"
    by (auto simp: delete_carts_by_guest_def elim!: await_InrD)
  from transaction_InrD [OF this(1) [unfolded update_cart_by_user_def]] d' show ?thesis
    by (auto intro: that split: if_splits)
qed

text \<open>
  C12: merging a guest cart into another cart of the user adds up: afterwards the user's cart holds of
  every variant what both carts held before, and no cart of the guest session is left.
\<close>
theorem merge_adds_quantities:
  assumes "cart_inv d" and "merge_cart now guest user d = (Inr n, d')"
    and "find_cart_by_guest guest d = Some gc" and "find_cart_by_user user d = Some uc" and "\<not> of_guest guest uc"
  shows "cart_quantity d' (cart_id uc) v = cart_quantity d (cart_id uc) v + cart_quantity d (cart_id gc) v
       \<and> find_cart_by_guest guest d' = None"
proof -
  let ?m = "quantity_map (items_of_cart d (cart_id uc))" and ?gs = "items_of_cart d (cart_id gc)"
  let ?items = "map (merged_item ?m) ?gs"
  from merge_into_steps [OF assms(2,3,4)] obtain d1 where up: "upsert_cart_items now (cart_id uc) ?items d = (Inr (), d1)"
    and d': "d' = delete_carts (of_guest guest) d1" .
  have "map fst ?items = map ci_variant_id ?gs" by (simp add: merged_item_def)
  then have "distinct (map fst ?items)" using distinct_variants_of_cart [OF assms(1)] by (simp only:)
  note one = upserts_quantity [OF up this]
  have "map_of ?items v = map_option (\<lambda>x. cart_quantity d (cart_id uc) (ci_variant_id x) + ci_quantity x)
      (find_item_by_variant (cart_id gc) v d)"
    unfolding merged_item_def map_of_find listed_in_cart
    by (cases "find_item_by_variant (cart_id gc) v d")
       (auto simp: quantity_map_lookup [OF distinct_variants_of_cart [OF assms(1)]] listed_in_cart
         cart_quantity_def split: option.split)
  then have merged: "cart_quantity d1 (cart_id uc) v = cart_quantity d (cart_id uc) v + cart_quantity d (cart_id gc) v"
    using one [of v] by (auto simp: cart_quantity_def [of d "cart_id gc"] find_item_by_variant_def
        dest!: find_row_SomeD split: option.splits)
  have "uc \<in> set (rows (carts d))" using assms(4) latest_cart_SomeD by (auto simp: find_cart_by_user_def)
  then have "\<not> (of_guest guest c \<and> cart_id c = cart_id uc)" if "c \<in> set (rows (carts d1))" for c
    using that one assms(1,5) by (auto simp: cart_inv_def wf_table_def distinct_map dest: inj_onD)
  then have "find_item_by_variant (cart_id uc) v d' = find_item_by_variant (cart_id uc) v d1"
    by (auto simp: d' delete_carts_def find_item_by_variant_def find_row_def find_filter
        intro!: arg_cong [where f = "\<lambda>P. List.find P (rows (cart_items d1))"])
  moreover have "find_cart_by_guest guest d' = None"
    by (simp add: d' find_cart_by_guest_def latest_cart_None delete_carts_def)
  ultimately show ?thesis using merged by (simp add: cart_quantity_def)
qed

lemma filled_cart_facts:
  "cart_inv filled_cart"
  "find_cart_by_guest 3 filled_cart = Some (new_cart 2 None (Some 3) 2)"
  "find_cart_by_user 7 filled_cart = Some (new_cart 1 (Some 7) None 1)"
  "cart_quantity filled_cart 1 1 = 2" "cart_quantity filled_cart 2 1 = 4"
  by (simp_all add: cart_inv_def filled_cart_def cart_shop_def empty_db_def wf_table_def new_cart_def
      new_cart_item_def find_cart_by_guest_def find_cart_by_user_def latest_cart_def select_rows_def
      of_guest_def of_user_def cart_quantity_def find_item_by_variant_def find_row_def)

lemma merge_adds_quantities_witness:
  "\<exists>d'. merge_cart 9 3 7 filled_cart = (Inr 1, d') \<and> cart_quantity d' 1 1 = 6 \<and> find_cart_by_guest 3 d' = None"
proof -
  have "fst (merge_cart 9 3 7 filled_cart) = Inr 1" by code_simp
  then obtain d' where run: "merge_cart 9 3 7 filled_cart = (Inr 1, d')"
    by (cases "merge_cart 9 3 7 filled_cart") simp
  from merge_adds_quantities [OF filled_cart_facts(1) run filled_cart_facts(2,3), of 1]
  have "cart_quantity d' 1 1 = 6 \<and> find_cart_by_guest 3 d' = None"
    by (simp add: of_guest_def new_cart_def filled_cart_facts(4,5))
  with run show ?thesis by blast
qed

text \<open>
  A user without a cart who merges twice loses the cart: the first merge gives the guest cart to
  the user but keeps its guest session, the second finds the same cart on both sides and deletes it
  with all its items.
\<close>
theorem second_merge_loses_cart:
  assumes "cart_inv d" and "find_cart_by_guest guest d = Some gc" and "find_cart_by_user user d = None"
    and "merge_cart now guest user d = (Inr n, d1)" and "merge_cart later guest user d1 = (Inr m, d2)"
  shows "cart_quantity d1 (cart_id gc) v = cart_quantity d (cart_id gc) v
       \<and> find_cart_by_user user d1 \<noteq> None \<and> find_cart_by_user user d2 = None
       \<and> items_of_cart d2 (cart_id gc) = []"
proof -
  let ?f = "\<lambda>c. if cart_id c = cart_id gc then c\<lparr>cart_user_id := Some user, cart_updated_at := now\<rparr> else c"
  have gc: "gc \<in> set (rows (carts d))" "of_guest guest gc"
    using latest_cart_SomeD assms(2) by (auto simp: find_cart_by_guest_def)
  have d1: "rows (carts d1) = map ?f (rows (carts d))" "cart_items d1 = cart_items d"
    using assms(4) by (auto simp: merge_cart_def assms(2,3) update_guest_cart_def elim!: await_InrD split: if_splits)
  have others: "\<not> of_user user c" if "c \<in> set (rows (carts d))" for c
    using assms(3) that by (auto simp: find_cart_by_user_def latest_cart_None)
  have same: "c = gc" if "c \<in> set (rows (carts d))" "cart_id c = cart_id gc" for c
    using assms(1) gc(1) that by (auto simp: cart_inv_def wf_table_def distinct_map dest: inj_onD)
  have mine: "c = ?f gc" if "c \<in> set (rows (carts d1))" "of_user user c" for c
  proof -
    from that(1) obtain c0 where c0: "c0 \<in> set (rows (carts d))" and c: "c = ?f c0" by (auto simp: d1)
    have "cart_id c0 = cart_id gc" using others [OF c0] that(2) c by (cases "cart_id c0 = cart_id gc") simp_all
    with same [OF c0] c show ?thesis by simp
  qed
  define gc2 where "gc2 = gc\<lparr>cart_user_id := Some user, cart_updated_at := now\<rparr>"
  have gc2: "?f gc = gc2" by (simp add: gc2_def)
  have "gc2 \<in> set (rows (carts d1))" using gc(1) unfolding d1 gc2 [symmetric] by simp
  moreover have "of_guest guest gc2" "of_user user gc2" "cart_id gc2 = cart_id gc"
    using gc(2) by (simp_all add: gc2_def of_guest_def of_user_def)
  moreover note mine [unfolded gc2]
  ultimately have given: "of_guest guest gc2" "of_user user gc2" "cart_id gc2 = cart_id gc" "gc2 \<in> set (rows (carts d1))"
    and mine: "\<And>c. c \<in> set (rows (carts d1)) \<Longrightarrow> of_user user c \<Longrightarrow> c = gc2" by blast+
  obtain uc where uc: "find_cart_by_user user d1 = Some uc"
    using given by (cases "find_cart_by_user user d1") (auto simp: find_cart_by_user_def latest_cart_None)
  then have uc_gc: "uc = gc2" using latest_cart_SomeD [of "of_user user" d1 uc] mine by (simp add: find_cart_by_user_def)
  obtain gc' where gc': "find_cart_by_guest guest d1 = Some gc'"
    using given by (cases "find_cart_by_guest guest d1") (auto simp: find_cart_by_guest_def latest_cart_None)
  obtain d1' where up: "upsert_cart_items later (cart_id uc)
        (map (merged_item (quantity_map (items_of_cart d1 (cart_id uc)))) (items_of_cart d1 (cart_id gc'))) d1 = (Inr (), d1')"
    and d2: "d2 = delete_carts (of_guest guest) d1'"
    by (rule merge_into_steps [OF assms(5) gc' uc])
  have carts: "carts d1' = carts d1" using upserts_carts [OF up] .
  have left: "set (rows (carts d2)) = {c \<in> set (rows (carts d1)). \<not> of_guest guest c}"
    and items: "rows (cart_items d2) = filter (\<lambda>x. \<not> (\<exists>c\<in>set (rows (carts d1)). of_guest guest c \<and> cart_id c = ci_cart_id x))
       (rows (cart_items d1'))"
    by (simp_all add: d2 delete_carts_def carts)
  have "find_cart_by_user user d2 = None"
    unfolding find_cart_by_user_def latest_cart_None left using mine given(1) by blast
  moreover have "items_of_cart d2 (cart_id gc) = []"
    unfolding items_of_cart_def select_rows_def items filter_empty_conv using given by auto
  moreover have "cart_quantity d1 (cart_id gc) v = cart_quantity d (cart_id gc) v"
    by (simp add: cart_quantity_def find_item_by_variant_def d1)
  ultimately show ?thesis using uc by simp
qed

definition guest_only_cart :: db where
  "guest_only_cart = cart_shop\<lparr>carts := \<lparr>rows = [new_cart 2 None (Some 3) 2], serial = 3\<rparr>,
     cart_items := \<lparr>rows = [new_cart_item 2 2 1 4 2], serial = 4\<rparr>\<rparr>"

lemma guest_only_cart_facts:
  "cart_inv guest_only_cart" "find_cart_by_guest 3 guest_only_cart = Some (new_cart 2 None (Some 3) 2)"
  "find_cart_by_user 7 guest_only_cart = None"
  by (simp_all add: cart_inv_def guest_only_cart_def cart_shop_def empty_db_def wf_table_def new_cart_def
      new_cart_item_def find_cart_by_guest_def find_cart_by_user_def latest_cart_def select_rows_def
      of_guest_def of_user_def)

lemma second_merge_loses_cart_witness:
  "\<exists>d1 d2. merge_cart 9 3 7 guest_only_cart = (Inr 1, d1) \<and> merge_cart 10 3 7 d1 = (Inr 0, d2)
     \<and> find_cart_by_user 7 d2 = None \<and> items_of_cart d2 2 = []"
proof -
  have "fst (merge_cart 9 3 7 guest_only_cart) = Inr 1"
    and "fst (merge_cart 10 3 7 (snd (merge_cart 9 3 7 guest_only_cart))) = Inr 0" by code_simp+
  then obtain d1 d2 where run: "merge_cart 9 3 7 guest_only_cart = (Inr 1, d1)" "merge_cart 10 3 7 d1 = (Inr 0, d2)"
    by (metis prod.collapse)
  with second_merge_loses_cart [OF guest_only_cart_facts run] show ?thesis by (auto simp: new_cart_def)
qed

section \<open>Grouping by day\<close>

lemma put_group_lookup:
  "map_of (put_group k x gs) j =
     (if j = k then Some (case map_of gs k of None \<Rightarrow> [x] | Some ys \<Rightarrow> ys @ [x]) else map_of gs j)"
  by (induction gs) auto

lemma put_group_days: "fst ` set (put_group k x gs) = insert k (fst ` set gs)"
  by (induction gs) auto

lemma put_group_distinct: "distinct (map fst gs) \<Longrightarrow> distinct (map fst (put_group k x gs))"
  using put_group_days [of k x] by (induction gs) force+

lemma strictly_backwards:
  assumes "distinct (map fst gs)" and "sorted (map (\<lambda>g. - fst g :: int) gs)"
  shows "sorted_wrt (>) (map fst gs)"
  using assms by (induction gs) (auto simp: less_le image_iff)

text \<open>
  The day groups hold the items of each day in their order, no empty group, and the days go strictly
  backwards.
\<close>

lemma group_by_day_groups:
  "(k, ys) \<in> set (group_by_day time xs) \<longleftrightarrow> ys = filter (\<lambda>x. day_of_ms (time x) = k) xs \<and> ys \<noteq> []"
  "sorted_wrt (>) (map fst (group_by_day time xs))"
proof -
  let ?gs = "foldl (\<lambda>gs x. put_group (day_of_ms (time x)) x gs) [] xs"
  have gs: "distinct (map fst ?gs) \<and> map_of ?gs j =
      (let ys = filter (\<lambda>x. day_of_ms (time x) = j) xs in if ys = [] then None else Some ys)" for j
    by (induction xs rule: rev_induct) (auto simp: put_group_distinct put_group_lookup Let_def)
  have "(k, ys) \<in> set (group_by_day time xs) \<longleftrightarrow> map_of ?gs k = Some ys"
    using map_of_eq_Some_iff [OF conjunct1 [OF gs [of k]], of k ys] by (simp add: group_by_day_def)
  then show "(k, ys) \<in> set (group_by_day time xs) \<longleftrightarrow> ys = filter (\<lambda>x. day_of_ms (time x) = k) xs \<and> ys \<noteq> []"
    using gs [of k] by (auto simp: Let_def split: if_splits)
  have "distinct (map fst (group_by_day time xs))"
  proof -
    have "inj_on fst (set ?gs)" "distinct ?gs" using gs [of 0] by (simp_all add: distinct_map)
    then show ?thesis by (simp add: group_by_day_def distinct_map)
  qed
  moreover have "sorted (map (\<lambda>g. - fst g) (group_by_day time xs))" by (simp add: group_by_day_def)
  ultimately show "sorted_wrt (>) (map fst (group_by_day time xs))" by (rule strictly_backwards)
qed

end
