(* ===== verification/Guest_Session.thy ===== *)
theory Guest_Session
  imports Cart
begin

text \<open>
  Guest sessions: \<open>src/src/modules/guest-session\<close> (repository, service and the daily cleanup job). The
  identifier of a session is opaque; a client may bring one of its own (the cookie), which is then
  used for the new row.
\<close>

definition GUEST_INACTIVE_DAYS :: int where "GUEST_INACTIVE_DAYS = 3"

definition guest_of :: "db \<Rightarrow> int \<Rightarrow> guest_session_row option" where
  "guest_of d g = find_row (\<lambda>s. gs_id s = g) (guest_sessions d)"

definition convert_guest_session :: "int \<Rightarrow> int \<Rightarrow> int \<Rightarrow> int action" where
  [repo_defs]: "convert_guest_session now guest user d =
     (if guest_of d guest \<noteq> None \<and> user_of d user = None then (Inl P2003, d)
      else (Inr (count_rows (\<lambda>s. gs_id s = guest) (guest_sessions d)),
            d\<lparr>guest_sessions := map_rows (\<lambda>s. gs_id s = guest)
                (\<lambda>s. s\<lparr>gs_converted_user_id := Some user, gs_converted_at := Some now\<rparr>) (guest_sessions d)\<rparr>))"

definition update_guest_seen :: "int \<Rightarrow> int \<Rightarrow> guest_session_row option action" where
  [repo_defs]: "update_guest_seen now guest d =
     (let d1 = d\<lparr>guest_sessions := map_rows (\<lambda>s. gs_id s = guest)
                 (\<lambda>s. s\<lparr>gs_last_seen_at := Some now\<rparr>) (guest_sessions d)\<rparr>
      in if count_rows (\<lambda>s. gs_id s = guest) (guest_sessions d) = 0 then (Inr None, d1)
         else (Inr (guest_of d1 guest), d1))"

definition new_guest_session :: "int \<Rightarrow> string option \<Rightarrow> string option \<Rightarrow> int \<Rightarrow> guest_session_row" where
  "new_guest_session now ip agent i =
     \<lparr>gs_id = i, gs_ip_first = ip, gs_user_agent_hash = agent, gs_created_at = now,
      gs_last_seen_at = Some now, gs_converted_user_id = None, gs_converted_at = None\<rparr>"

text \<open>A row under a given identifier keeps later identifiers fresh.\<close>

definition insert_guest_as :: "guest_session_row \<Rightarrow> guest_session_row table \<Rightarrow> guest_session_row table" where
  "insert_guest_as s t = t\<lparr>rows := rows t @ [s], serial := max (serial t) (gs_id s + 1)\<rparr>"

definition create_guest_session :: "int \<Rightarrow> int option \<Rightarrow> string option \<Rightarrow> string option \<Rightarrow> guest_session_row action" where
  [service_defs]: "create_guest_session now guest ip agent d =
     (case guest of
        Some g \<Rightarrow>
          if guest_of d g \<noteq> None then (Inl P2002, d)
          else (Inr (new_guest_session now ip agent g),
                d\<lparr>guest_sessions := insert_guest_as (new_guest_session now ip agent g) (guest_sessions d)\<rparr>)
      | None \<Rightarrow>
          (Inr (new_guest_session now ip agent (serial (guest_sessions d))),
           d\<lparr>guest_sessions := insert_row (new_guest_session now ip agent) (guest_sessions d)\<rparr>))"

definition get_all_guest_sessions :: "db \<Rightarrow> guest_session_row list" where
  [repo_defs]: "get_all_guest_sessions d = sort_key (\<lambda>s. - gs_created_at s) (rows (guest_sessions d))"

section \<open>The cleanup\<close>

record guest_cleanup_result =
  gcr_cart_items :: int
  gcr_carts :: int
  gcr_sessions :: int

definition inactive_guest :: "int \<Rightarrow> guest_session_row \<Rightarrow> bool" where
  "inactive_guest cutoff s \<longleftrightarrow>
     gs_converted_user_id s = None
     \<and> (case gs_last_seen_at s of Some t \<Rightarrow> t < cutoff | None \<Rightarrow> gs_created_at s < cutoff)"

definition guest_in :: "int set \<Rightarrow> int option \<Rightarrow> bool" where
  "guest_in ids g \<longleftrightarrow> (case g of None \<Rightarrow> False | Some i \<Rightarrow> i \<in> ids)"

text \<open>
  Deleting sessions takes their wishlists with it and leaves their orders without a session, as the
  foreign keys of the schema say.
\<close>

definition delete_guest_sessions :: "int set \<Rightarrow> db \<Rightarrow> db" where
  "delete_guest_sessions ids d =
     (let lists = map wl_id (select_rows (\<lambda>w. guest_in ids (wl_guest_session_id w)) (wishlists d)) in
      delete_carts (\<lambda>c. guest_in ids (cart_guest_session_id c))
        (d\<lparr>guest_sessions := delete_rows (\<lambda>s. gs_id s \<in> ids) (guest_sessions d),
           wishlists := delete_rows (\<lambda>w. guest_in ids (wl_guest_session_id w)) (wishlists d),
           wishlist_items := delete_rows (\<lambda>x. wi_wishlist_id x \<in> set lists) (wishlist_items d),
           orders := map_rows (\<lambda>r. guest_in ids (ord_guest_session_id r))
                       (\<lambda>r. r\<lparr>ord_guest_session_id := None\<rparr>) (orders d)\<rparr>))"

definition cleanup_inactive_guests :: "int \<Rightarrow> guest_cleanup_result action" where
  [repo_defs]: "cleanup_inactive_guests cutoff = transaction (\<lambda>d.
     let ids = set (map gs_id (select_rows (inactive_guest cutoff) (guest_sessions d))) in
     if ids = {} then (Inr \<lparr>gcr_cart_items = 0, gcr_carts = 0, gcr_sessions = 0\<rparr>, d)
     else let carts_found = select_rows (\<lambda>c. guest_in ids (cart_guest_session_id c)) (carts d) in
       (Inr \<lparr>gcr_cart_items = count_rows (\<lambda>x. ci_cart_id x \<in> set (map cart_id carts_found)) (cart_items d),
             gcr_carts = int (length carts_found),
             gcr_sessions = count_rows (\<lambda>s. gs_id s \<in> ids) (guest_sessions d)\<rparr>,
        delete_guest_sessions ids d))"

definition cleanup_guest_sessions_daily :: "int \<Rightarrow> unit action" where
  [service_defs]: "cleanup_guest_sessions_daily now d =
     catching (await (cleanup_inactive_guests (now - GUEST_INACTIVE_DAYS * 24 * 60 * 60 * 1000) d) (\<lambda>_. ret ()))
       (\<lambda>_. ret ())"

section \<open>Properties\<close>

lemma cleanup_state:
  "snd (cleanup_guest_sessions_daily now d) =
     (let ids = set (map gs_id (select_rows (inactive_guest (now - 259200000)) (guest_sessions d)))
      in if ids = {} then d else delete_guest_sessions ids d)"
proof -
  have clock: "GUEST_INACTIVE_DAYS * 24 * 60 * 60 * 1000 = 259200000" by (simp add: GUEST_INACTIVE_DAYS_def)
  show ?thesis
    unfolding cleanup_guest_sessions_daily_def cleanup_inactive_guests_def clock
    by (cases "set (map gs_id (select_rows (inactive_guest (now - 259200000)) (guest_sessions d))) = {}")
       (simp_all only: simp_thms transaction_def Let_def if_True if_False await_simps ret_simp catching_simps
         prod.case sum.case snd_conv)
qed

lemma cleanup_carts:
  "rows (carts (delete_guest_sessions ids d)) = filter (\<lambda>c. \<not> guest_in ids (cart_guest_session_id c)) (rows (carts d))"
  by (simp add: delete_guest_sessions_def delete_carts_def Let_def)

lemma merge_assigns_cart:
  assumes "merge_cart now guest user d = (Inr n, d1)"
    and "find_cart_by_guest guest d = Some gc" and "find_cart_by_user user d = None"
  shows "guest_sessions d1 = guest_sessions d \<and> rows (carts d1) =
     map (\<lambda>c. if cart_id c = cart_id gc then c\<lparr>cart_user_id := Some user, cart_updated_at := now\<rparr> else c) (rows (carts d))"
  using assms by (auto simp: merge_cart_def update_guest_cart_def elim!: await_InrD split: if_splits)

text \<open>
  The cart a user took over from a guest session is deleted by the daily cleanup once the guest
  session has been idle for three days: the session was never converted and the cart still names it.
\<close>
theorem guest_cleanup_deletes_user_cart:
  assumes "cart_inv d" and "find_cart_by_guest guest d = Some gc" and "find_cart_by_user user d = None"
    and "merge_cart now guest user d = (Inr n, d1)"
    and "s \<in> set (rows (guest_sessions d))" and "gs_id s = guest"
    and "gs_converted_user_id s = None" and "gs_last_seen_at s = Some t" and "t + 3 * 86400000 < later"
  shows "find_cart_by_user user d1 \<noteq> None
       \<and> find_cart_by_user user (snd (cleanup_guest_sessions_daily later d1)) = None"
proof -
  let ?f = "\<lambda>c. if cart_id c = cart_id gc then c\<lparr>cart_user_id := Some user, cart_updated_at := now\<rparr> else c"
  have gc: "gc \<in> set (rows (carts d))" "cart_guest_session_id gc = Some guest"
    using latest_cart_SomeD [of "of_guest guest" d gc] assms(2) by (simp_all add: find_cart_by_guest_def of_guest_def)
  have others: "cart_user_id c \<noteq> Some user" if "c \<in> set (rows (carts d))" for c
    using assms(3) that by (simp add: find_cart_by_user_def latest_cart_None of_user_def)
  have same: "c = gc" if "c \<in> set (rows (carts d))" "cart_id c = cart_id gc" for c
    using assms(1) gc(1) that by (auto simp: cart_inv_def wf_table_def distinct_map dest: inj_onD)
  note d1 = merge_assigns_cart [OF assms(4,2,3)]
  have guest: "cart_guest_session_id (?f c) = Some guest"
    if "c \<in> set (rows (carts d))" "cart_user_id (?f c) = Some user" for c
    using others [OF that(1)] that(2) same [OF that(1)] gc(2) by (cases "cart_id c = cart_id gc") simp_all
  let ?ids = "set (map gs_id (select_rows (inactive_guest (later - 259200000)) (guest_sessions d1)))"
  have "inactive_guest (later - 259200000) s" using assms(7-9) by (simp add: inactive_guest_def)
  then have ids: "guest \<in> ?ids" using assms(5,6) d1 by force
  then have "snd (cleanup_guest_sessions_daily later d1) = delete_guest_sessions ?ids d1"
    by (auto simp: cleanup_state Let_def)
  then have "rows (carts (snd (cleanup_guest_sessions_daily later d1))) =
      filter (\<lambda>c. \<not> guest_in ?ids (cart_guest_session_id c)) (rows (carts d1))"
    by (simp only: cleanup_carts)
  moreover have "guest_in ?ids (cart_guest_session_id c)"
    if "c \<in> set (rows (carts d1))" "cart_user_id c = Some user" for c
  proof -
    from that(1) obtain c0 where c0: "c0 \<in> set (rows (carts d))" and c: "c = ?f c0" using d1 by auto
    have "cart_guest_session_id c = Some guest" using guest [OF c0] that(2) unfolding c by blast
    then show ?thesis using ids by (simp only: guest_in_def option.case)
  qed
  ultimately have "find_cart_by_user user (snd (cleanup_guest_sessions_daily later d1)) = None"
    by (auto simp: find_cart_by_user_def latest_cart_None of_user_def)
  moreover have "?f gc \<in> set (rows (carts d1))" using gc(1) d1 by simp
  then have "find_cart_by_user user d1 \<noteq> None"
    unfolding find_cart_by_user_def latest_cart_None of_user_def by force
  ultimately show ?thesis by blast
qed

lemma guest_cleanup_deletes_user_cart_witness:
  "\<exists>d1. merge_cart 9 3 7 guest_only_cart = (Inr 1, d1) \<and> find_cart_by_user 7 d1 \<noteq> None
     \<and> find_cart_by_user 7 (snd (cleanup_guest_sessions_daily 300000000 d1)) = None"
proof -
  have "fst (merge_cart 9 3 7 guest_only_cart) = Inr 1" by code_simp
  then obtain d1 where run: "merge_cart 9 3 7 guest_only_cart = (Inr 1, d1)"
    by (cases "merge_cart 9 3 7 guest_only_cart") simp
  have "\<lparr>gs_id = 3, gs_ip_first = None, gs_user_agent_hash = None, gs_created_at = 0, gs_last_seen_at = Some 0,
      gs_converted_user_id = None, gs_converted_at = None\<rparr> \<in> set (rows (guest_sessions guest_only_cart))"
    by (simp add: guest_only_cart_def cart_shop_def)
  from guest_cleanup_deletes_user_cart [OF guest_only_cart_facts run this, of 0 300000000] run
  show ?thesis by simp
qed

text \<open>A session that was seen within three days, or that was converted, survives with its carts.\<close>

lemma cleanup_keeps_active:
  assumes "wf_table gs_id (guest_sessions d)" and "s \<in> set (rows (guest_sessions d))"
    and "\<not> inactive_guest (now - 259200000) s"
  shows "s \<in> set (rows (guest_sessions (snd (cleanup_guest_sessions_daily now d))))
       \<and> (\<forall>c\<in>set (rows (carts d)). cart_guest_session_id c = Some (gs_id s) \<longrightarrow>
            c \<in> set (rows (carts (snd (cleanup_guest_sessions_daily now d)))))"
proof -
  let ?ids = "set (map gs_id (select_rows (inactive_guest (now - 259200000)) (guest_sessions d)))"
  have "gs_id s \<notin> ?ids"
    using assms by (auto simp: wf_table_def distinct_map dest: inj_onD)
  then show ?thesis
    using assms(2) by (auto simp: cleanup_state Let_def cleanup_carts guest_in_def delete_guest_sessions_def delete_carts_def)
qed

end
