(* ===== verification/Order_Life.thy ===== *)
theory Order_Life
  imports Order_Flow Admin_Order Guest_Session
begin

text \<open>
  The life of an order over all parts of the program that write orders: the checkout request and its background job,
  the payment webhook, the question for the payment status, the cleanup of expired orders, the decision of an
  administrator and the cleanup of guest sessions. The operations are those of theories Checkout, Webhook, Orders,
  Admin_Order and Guest_Session; here they are the steps of one transition system, and a small state machine says what
  any of them can do to one order.
\<close>

section \<open>The transition system\<close>

datatype shop_label =
    Requested
  | Job_of int
  | Payment_event
  | Status_question
  | Expiry_run
  | Admin_decision
  | Guest_cleanup

text \<open>One call, whatever its arguments and its result; a job is labelled with the order it fills.\<close>

inductive shop_step :: "db \<Rightarrow> shop_label \<Rightarrow> db \<Rightarrow> bool" where
  request: "shop_step d Requested (snd (create_checkout env body guest user d))"
| job: "shop_step d (Job_of (cj_order_id job)) (snd (process_checkout sha now job d))"
| payment: "shop_step d Payment_event (snd (handle_sepay_webhook now pay d))"
| question: "shop_step d Status_question (snd (get_payment_status code d))"
| expiry: "shop_step d Expiry_run (snd (clean_order now d))"
| decision: "shop_step d Admin_decision (snd (update_order_status i status note d))"
| guests: "shop_step d Guest_cleanup (snd (cleanup_guest_sessions_daily now d))"

inductive shop_run :: "db \<Rightarrow> shop_label list \<Rightarrow> db \<Rightarrow> bool" where
  start: "shop_run d [] d"
| further: "shop_run d ls d' \<Longrightarrow> shop_step d' l d'' \<Longrightarrow> shop_run d (ls @ [l]) d''"

section \<open>The state machine of one order\<close>

text \<open>What is fixed when an order is placed: its code, its user, its subtotal and its total.\<close>

type_synonym order_facts = "string \<times> int option \<times> rat option \<times> rat option"
type_synonym order_life = "(order_status option \<times> payment_status option \<times> order_facts) option"

definition life_row :: "order_row \<Rightarrow> order_status option \<times> payment_status option \<times> order_facts" where
  "life_row r = (ord_status r, ord_payment_status r, ord_code r, ord_user_id r, ord_subtotal r, ord_total r)"

definition life_of :: "db \<Rightarrow> int \<Rightarrow> order_life" where
  "life_of d i = map_option life_row (order_of d i)"

inductive life_step :: "int \<Rightarrow> shop_label \<Rightarrow> order_life \<Rightarrow> order_life \<Rightarrow> bool" for i where
  stay: "life_step i l s s"
| placed: "life_step i Requested None (Some (Some Ord_PENDING_PAYMENT, Some Pay_PENDING, f))"
| withdrawn: "life_step i (Job_of i) (Some s) None"
| settled: "l = Payment_event \<or> l = Status_question
    \<Longrightarrow> life_step i l (Some (s, p, f)) (Some (Some Ord_PAID, Some Pay_SUCCESS, f))"
| expired: "life_step i Expiry_run (Some (Some Ord_PENDING_PAYMENT, p, f)) (Some (Some Ord_CANCELLED, Some Pay_EXPIRED, f))"
| decided: "s \<in> set admin_order_statuses
    \<Longrightarrow> life_step i Admin_decision (Some (Some Ord_PENDING_PAYMENT, p, f)) (Some (Some s, p, f))"

inductive_cases life_step_placed: "life_step i l (Some (s, p, f)) t"

section \<open>What each call writes into the table of orders\<close>

lemma order_of_map_rows:
  assumes "\<And>r. ord_id (g r) = ord_id r" and "orders d' = map_rows P g (orders d)"
  shows "order_of d' i = map_option (\<lambda>r. if P r then g r else r) (order_of d i)"
  unfolding order_of_def assms(2) by (rule find_row_map_rows_same) (simp add: assms(1))

lemma life_of_same: "orders d' = orders d \<Longrightarrow> life_of d' i = life_of d i"
  by (simp add: life_of_def order_of_def)

lemma await_after:
  assumes "Q (snd r)" and "\<And>s. Q s \<Longrightarrow> P s" and "\<And>x s. Q s \<Longrightarrow> P (snd (k x s))"
  shows "P (snd (await r k))"
  using assms by (cases r; cases "fst r") auto

lemma reserve_stock_orders: "orders (snd (reserve_stock up vs items d)) = orders d"
proof -
  have "orders (snd (update_reserved_by_ids is s)) = orders s" for "is" s
    by (simp add: update_reserved_by_ids_def Let_def)
  then show ?thesis
    unfolding reserve_stock_def Let_def
    by (auto split: prod.split
        intro!: await_keeps [where P = "\<lambda>s. orders s = orders d"] transaction_keeps [where P = "\<lambda>s. orders s = orders d"])
qed

definition places :: "db \<Rightarrow> db \<Rightarrow> bool" where
  "places d d' \<longleftrightarrow> orders d' = orders d \<or> (\<exists>mk. orders d' = insert_row mk (orders d)
     \<and> (\<forall>n. ord_id (mk n) = n \<and> ord_status (mk n) = Some Ord_PENDING_PAYMENT \<and> ord_payment_status (mk n) = Some Pay_PENDING))"

lemma checkout_places: "places d (snd (create_checkout env body guest user d))"
proof -
  have guest: "places d (snd (create_guest_order now g code a sub s))"
    and user: "places d (snd (create_user_order now u code a sub ad s))"
    if "orders s = orders d" for now g code a sub s u ad
    using that by (auto simp: places_def create_guest_order_def create_user_order_def create_order_def Let_def blank_order_def)
  have intent: "places d (snd (create_payment_intent now g code url s))" if "places d s" for now g code url s
    using that by (simp add: create_payment_intent_def create_intent_def places_def)
  have start: "places d s" if "orders s = orders d" for s using that by (simp add: places_def)
  have ask: "places d (snd (case u of None \<Rightarrow> (Inr (), s) | Some u \<Rightarrow> await (create_payment_intent now g code u s) (\<lambda>_. ret ())))"
    if "places d s" for u now g code s
    using that intent [OF that] by (auto split: option.split intro: await_keeps)
  show ?thesis
    unfolding create_checkout_def Let_def
    apply (split sum.split, intro conjI allI impI)
     apply (simp add: start)
    apply (split if_split, intro conjI impI)
     apply (simp add: start)
    apply (rule await_after [where Q = "\<lambda>s. orders s = orders d" and P = "places d"])
      apply (simp add: reserve_stock_orders)
     apply (erule start)
    apply (rule await_keeps [where P = "places d"])
     apply (simp add: guest user)
    apply (rule await_keeps [where P = "places d"])
     apply (erule ask)
    apply simp
    done
qed

lemma fill_order_orders: "orders (snd (fill_order now job items d)) = orders d"
proof -
  have "orders (snd (create_job_items now i js s)) = orders s" for i js s
    by (simp add: create_job_items_def create_many_order_items_def split: option.split)
  moreover have "orders (snd (create_order_address a s)) = orders s" for a s
    by (simp add: create_order_address_def Let_def)
  moreover have "orders (snd (update_reserved_by_ids is s)) = orders s" for "is" s
    by (simp add: update_reserved_by_ids_def Let_def)
  ultimately show ?thesis
    unfolding fill_order_def
    by (auto split: option.split intro!: await_keeps [where P = "\<lambda>s. orders s = orders d"])
qed

lemma job_withdraws:
  "orders (snd (process_checkout sha now job d)) = orders d
   \<or> orders (snd (process_checkout sha now job d)) = delete_rows (\<lambda>x. ord_id x = cj_order_id job) (orders d)"
proof -
  obtain n d1 where snaps: "create_many_snapshots (map (snapshot_of_variant sha) (cj_variants job)) d = (Inr n, d1)"
    and same: "orders d1 = orders d"
    using create_many_snapshots_Inr by blast
  obtain x d2 where fill: "fill_order now job (map (job_item (find_snapshots_by_hashes (map sn_content_hash
      (map (snapshot_of_variant sha) (cj_variants job))) d1) (cj_quantities job)) (map (snapshot_of_variant sha) (cj_variants job))) d1 = (x, d2)"
    by (meson surj_pair)
  have "orders d2 = orders d" using fill_order_orders same fill by (metis snd_conv)
  then show ?thesis
    using snaps fill
    by (cases x)
       (auto simp: process_checkout_def Let_def delete_order_def delete_order_by_id_def delete_order_cascade_def
         split: option.split dest: order_of_in)
qed

text \<open>
  The compensation of a settlement that failed never reopens the order: giving the copies back fails for the same reason.
\<close>

lemma failed_settlement_keeps_orders:
  assumes "update_order_done m k d = (Inl e, d')"
  shows "orders (snd (update_order_not_done m k d')) = orders d"
  using assms
  by (cases "map fst m = []"; cases "missing_quantity (map fst m) m"; cases "order_of d k")
     (auto simp: update_order_done_def update_order_not_done_def decrement_variants_stock_def increment_variants_stock_def
       update_order_status_by_id_def update_order_by_id_def order_of_def)

lemma paid_again: "map_rows (\<lambda>x. ord_id x = k) (\<lambda>r. r\<lparr>ord_status := Some Ord_PAID\<rparr>)
    (map_rows (\<lambda>x. ord_id x = k) paid_order t) = map_rows (\<lambda>x. ord_id x = k) paid_order t"
  by (simp add: map_rows_def paid_order_def)

lemma update_done_orders:
  "orders d = map_rows (\<lambda>x. ord_id x = k) paid_order t \<Longrightarrow> orders (snd (update_order_done m k d)) = orders d"
  by (auto simp: update_order_done_def decrement_variants_stock_def update_order_status_by_id_def update_order_by_id_def
      paid_again split: option.split)

lemma mark_done_orders:
  "orders (snd (webhook_mark_done now k inbox a code d)) = orders d
   \<or> orders (snd (webhook_mark_done now k inbox a code d)) = map_rows (\<lambda>x. ord_id x = k) paid_order (orders d)"
proof (cases "order_of d k")
  case None
  then have "fst (mark_order_and_payment_success k d) = Inl P2025 \<and> snd (mark_order_and_payment_success k d) = d"
    by (simp add: mark_order_and_payment_success_def transaction_def update_order_by_id_def)
  then have mark: "mark_order_and_payment_success k d = (Inl P2025, d)" by (simp add: prod_eq_iff)
  have "orders (snd (promise_all (update_webhook_status now inbox Job_DONE a) (mark_payment_intent code Pay_SUCCESS) d)) = orders d"
    by (rule promise_all_keeps [where P = "\<lambda>s. orders s = orders d"]) (simp_all add: update_webhook_status_def split: option.split)
  then show ?thesis by (simp add: webhook_mark_done_def promise_all_def mark split: prod.split)
next
  case (Some r)
  let ?paid = "map_rows (\<lambda>x. ord_id x = k) paid_order (orders d)"
  let ?P = "\<lambda>s. orders s = ?paid"
  let ?both = "promise_all (update_webhook_status now inbox Job_DONE a) (mark_payment_intent code Pay_SUCCESS)"
  have both: "?P (snd (?both s))" if "?P s" for s
    using that by (intro promise_all_keeps [where P = ?P]) (simp_all add: update_webhook_status_def split: option.split)
  have id: "ord_id (paid_order r) = k" using Some by (auto simp: paid_order_def dest: order_of_in)
  obtain d1 where mark: "mark_order_and_payment_success k d = (Inr (paid_order r), d1)" and d1: "?P d1"
    using mark_success_simp [OF Some] by simp
  obtain x d2 where rest: "?both d1 = (x, d2)" by (meson surj_pair)
  with both [OF d1] have d2: "?P d2" by simp
  have settle: "?P (snd (catching (update_order_done m k s)
      (\<lambda>_ s. await (update_order_not_done m k s) (\<lambda>_. throw InternalServerError))))" if "?P s" for m s
  proof (cases "update_order_done m k s")
    case (Pair y s')
    have "?P s'" using update_done_orders [OF that, of m] Pair that by simp
    moreover have "?P (snd (update_order_not_done m k s'))" if "y = Inl e" for e
      using failed_settlement_keeps_orders [of m k s e s'] Pair that \<open>?P s\<close> by simp
    ultimately show ?thesis
      using Pair by (cases y) (auto intro: await_keeps [where P = ?P])
  qed
  have items: "?P (snd (find_order_items_with_variant k s))" if "?P s" for s
    using that by (simp add: find_order_items_with_variant_def split: option.split sum.split)
  have all: "promise_all (mark_order_and_payment_success k) ?both d =
      (case x of Inl e \<Rightarrow> (Inl e, d2) | Inr y \<Rightarrow> (Inr (paid_order r, y), d2))"
    by (simp add: promise_all_def [of "mark_order_and_payment_success k"] mark rest)
  have "?P (snd (webhook_mark_done now k inbox a code d))"
  proof (cases x)
    case (Inl e)
    then show ?thesis by (simp add: webhook_mark_done_def all d2)
  next
    case (Inr y)
    obtain w u where y: "y = (w, u)" by (cases y)
    show ?thesis
      unfolding webhook_mark_done_def all Inr y sum.case await_simps prod.case id Let_def
      by (rule await_keeps [where P = ?P], rule items [OF d2], rule await_keeps [where P = ?P], erule settle, simp)
  qed
  then show ?thesis ..
qed

lemma webhook_frames:
  "orders (snd (save_payment_transaction now pay s ref d)) = orders d"
  "orders (snd (update_webhook_status now k js a d)) = orders d"
  "orders (snd (save_sepay_webhook now k d)) = orders d"
  "orders (snd (mark_payment_not_success k s d)) = orders d"
  by (simp_all add: save_payment_transaction_def create_webhook_transaction_def insert_transaction_def
      update_webhook_status_def save_sepay_webhook_def mark_payment_not_success_def transaction_def split: option.split)

lemma intent_handlers_orders:
  "orders (snd (handle_intent_expired now c inbox a code d)) = orders d"
  "orders (snd (handle_already_processed_intent now c code inbox a key d)) = orders d"
  unfolding handle_intent_expired_def handle_already_processed_intent_def
  by (auto simp: webhook_frames intro!: await_keeps [where P = "\<lambda>s. orders s = orders d"]
      promise_all_keeps [where P = "\<lambda>s. orders s = orders d"])

lemma known_order_settles:
  "orders (snd (handle_known_order now pay c inbox a p r d)) = orders d
   \<or> orders (snd (handle_known_order now pay c inbox a p r d)) = map_rows (\<lambda>x. ord_id x = ord_id r) paid_order (orders d)"
  (is "?P (snd (handle_known_order now pay c inbox a p r d))")
proof -
  have mismatch: "orders (snd (handle_mismatch now pay c inbox a p r d)) = orders d"
    unfolding handle_mismatch_def Let_def
    by (auto simp: webhook_frames intent_handlers_orders intro!: await_keeps [where P = "\<lambda>s. orders s = orders d"])
  have settle: "?P (snd (webhook_mark_done now (ord_id r) inbox a code s))" if "orders s = orders d" for code s
    using mark_done_orders [of now "ord_id r" inbox a code s] that by simp
  show ?thesis
    unfolding handle_known_order_def Let_def
    apply (split if_split, intro conjI impI)
     apply (rule disjI1, rule await_keeps [where P = "\<lambda>s. orders s = orders d"])
      apply (simp_all only: webhook_frames intent_handlers_orders)
    apply (split if_split, intro conjI impI)
     apply (rule disjI1, rule await_keeps [where P = "\<lambda>s. orders s = orders d"])
      apply (simp_all only: webhook_frames intent_handlers_orders)
    apply (split if_split, intro conjI impI)
     apply (rule disjI1, rule mismatch)
    apply (rule await_after [where Q = "\<lambda>s. orders s = orders d" and P = ?P])
      apply (simp only: webhook_frames)
     apply simp
    apply (rule await_keeps [where P = ?P])
     apply (erule settle)
    apply (simp split: prod.split)
    done
qed

lemma webhook_settles:
  "orders (snd (handle_sepay_webhook now pay d)) = orders d
   \<or> (\<exists>k. orders (snd (handle_sepay_webhook now pay d)) = map_rows (\<lambda>x. ord_id x = k) paid_order (orders d))"
  (is "?P (snd (handle_sepay_webhook now pay d))")
proof -
  have known: "?P (snd (handle_known_order now pay c inbox a p r s))" if "orders s = orders d" for c inbox a p r s
    using known_order_settles [of now pay c inbox a p r s] that by auto
  have other: "orders (snd (handle_without_content now pay inbox a s)) = orders d"
    "orders (snd (await (save_payment_transaction now pay Pay_NOT_FOUND_ORDER_CODE None s)
       (\<lambda>_. handle_intent_not_found now c inbox a))) = orders d"
    "orders (snd (await (save_payment_transaction now pay Pay_NOT_FOUND_ORDER_CODE None s) (\<lambda>_ d.
       await (update_webhook_status now inbox Job_FAILED a d) (\<lambda>_. throw e)))) = orders d"
    if "orders s = orders d" for inbox a s c and e
    unfolding handle_without_content_def handle_intent_not_found_def
    using that by (auto simp: webhook_frames intro!: await_keeps [where P = "\<lambda>s. orders s = orders d"])
  show ?thesis
    unfolding handle_sepay_webhook_def Let_def
    apply (split if_split, intro conjI impI)
     apply simp
    apply (rule await_after [where Q = "\<lambda>s. orders s = orders d" and P = ?P])
      apply (simp only: webhook_frames)
     apply simp
    apply (split if_split, intro conjI impI)
     apply simp
    apply (split if_split, intro conjI impI)
     apply (rule disjI1, erule other(1))
    apply (rename_tac x s, case_tac "find_intent_by_content (the (map_option js_trim (sb_content pay))) s")
     apply (simp only: option.case)
     apply (rule disjI1, erule other(2))
    apply (rename_tac found, case_tac found, rename_tac intent known, case_tac known)
     apply (simp only: option.case prod.case)
     apply (rule disjI1, erule other(3))
    apply (simp only: option.case prod.case)
    apply (erule known)
    done
qed

lemma question_settles:
  "orders (snd (get_payment_status code d)) = orders d
   \<or> (\<exists>k. orders (snd (get_payment_status code d)) = map_rows (\<lambda>x. ord_id x = k) paid_order (orders d))"
proof -
  have "orders (snd (mark_order_and_payment_success k d)) = orders d
      \<or> orders (snd (mark_order_and_payment_success k d)) = map_rows (\<lambda>x. ord_id x = k) paid_order (orders d)" for k
    by (cases "order_of d k") (simp_all add: mark_success_simp mark_order_and_payment_success_def transaction_def update_order_by_id_def
        paid_order_def [abs_def])
  then show ?thesis
    by (auto simp: get_payment_status_def split: option.split intro: await_keeps)
qed

lemma cleanup_expires:
  "orders (snd (clean_order now d)) = orders d
   \<or> orders (snd (clean_order now d)) = map_rows (expires_before now)
        (\<lambda>r. r\<lparr>ord_status := Some Ord_CANCELLED, ord_payment_status := Some Pay_EXPIRED\<rparr>) (orders d)"
proof -
  have "orders (fold release_variant m d) = orders d" for m
    by (induction m rule: rev_induct) (auto simp: release_variant_def)
  moreover obtain x where "find_order_is_expire now d = (x, d)"
    by (metis find_order_is_expire_state prod.collapse)
  ultimately show ?thesis
    by (cases x) (simp_all add: clean_order_def clear_order_def transaction_def cancel_expired_orders_def Let_def)
qed

lemma guests_keep_life: "life_of (snd (cleanup_guest_sessions_daily now d)) i = life_of d i"
proof -
  have "life_of (delete_guest_sessions ids d) i = life_of d i" for ids
  proof -
    have rows: "orders (delete_guest_sessions ids d) =
        map_rows (\<lambda>r. guest_in ids (ord_guest_session_id r)) (\<lambda>r. r\<lparr>ord_guest_session_id := None\<rparr>) (orders d)"
      by (simp add: delete_guest_sessions_def Let_def delete_carts_def)
    show ?thesis
      using order_of_map_rows [OF _ rows, of i] by (cases "order_of d i") (simp_all add: life_of_def life_row_def)
  qed
  then show ?thesis by (simp add: cleanup_state Let_def)
qed

section \<open>Every call is a step of the state machine\<close>

lemma life_of_settled:
  assumes "orders d' = orders d \<or> (\<exists>k. orders d' = map_rows (\<lambda>x. ord_id x = k) paid_order (orders d))"
    and "l = Payment_event \<or> l = Status_question"
  shows "life_step i l (life_of d i) (life_of d' i)"
  using assms(1)
proof
  assume "orders d' = orders d"
  from life_of_same [OF this] show ?thesis by (simp add: stay)
next
  assume "\<exists>k. orders d' = map_rows (\<lambda>x. ord_id x = k) paid_order (orders d)"
  then obtain k where rows: "orders d' = map_rows (\<lambda>x. ord_id x = k) paid_order (orders d)" by blast
  have k: "order_of d' i = map_option (\<lambda>r. if ord_id r = k then paid_order r else r) (order_of d i)"
    by (rule order_of_map_rows [OF _ rows]) (simp add: paid_order_def)
  show ?thesis
  proof (cases "order_of d i")
    case None
    with k show ?thesis by (simp add: life_of_def stay)
  next
    case (Some r)
    with k show ?thesis
      by (cases "ord_id r = k") (simp_all add: life_of_def life_row_def paid_order_def stay settled [OF assms(2)])
  qed
qed

lemma life_of_placed:
  assumes "places d d'"
  shows "life_step i Requested (life_of d i) (life_of d' i)"
  using assms unfolding places_def
proof
  assume "orders d' = orders d"
  from life_of_same [OF this] show ?thesis by (simp add: stay)
next
  assume "\<exists>mk. orders d' = insert_row mk (orders d)
    \<and> (\<forall>n. ord_id (mk n) = n \<and> ord_status (mk n) = Some Ord_PENDING_PAYMENT \<and> ord_payment_status (mk n) = Some Pay_PENDING)"
  then obtain mk where rows: "orders d' = insert_row mk (orders d)"
    and mk: "\<And>n. ord_id (mk n) = n" "\<And>n. ord_status (mk n) = Some Ord_PENDING_PAYMENT"
      "\<And>n. ord_payment_status (mk n) = Some Pay_PENDING"
    by blast
  have "order_of d' i = (case order_of d i of Some r \<Rightarrow> Some r
      | None \<Rightarrow> if i = serial (orders d) then Some (mk i) else None)"
    by (auto simp: order_of_def rows find_row_def insert_row_def find_append mk(1) split: option.split)
  then show ?thesis
    by (cases "order_of d i") (simp_all add: life_of_def life_row_def mk stay placed)
qed

lemma life_of_withdrawn:
  assumes "orders d' = orders d \<or> orders d' = delete_rows (\<lambda>x. ord_id x = k) (orders d)"
  shows "life_step i (Job_of k) (life_of d i) (life_of d' i)"
  using assms
proof
  assume "orders d' = orders d"
  from life_of_same [OF this] show ?thesis by (simp add: stay)
next
  assume rows: "orders d' = delete_rows (\<lambda>x. ord_id x = k) (orders d)"
  have left: "List.find (\<lambda>r. ord_id r = i) (filter (\<lambda>x. ord_id x \<noteq> k) xs)
      = (if i = k then None else List.find (\<lambda>r. ord_id r = i) xs)" for xs
    by (induction xs) auto
  have "order_of d' i = (if i = k then None else order_of d i)"
    using left [of "rows (orders d)"] by (simp add: order_of_def rows find_row_def delete_rows_def)
  then show ?thesis
    by (cases "order_of d i"; cases "i = k") (auto simp: life_of_def intro: stay withdrawn)
qed

lemma life_of_expired:
  assumes "orders d' = orders d \<or> orders d' = map_rows (expires_before now)
      (\<lambda>r. r\<lparr>ord_status := Some Ord_CANCELLED, ord_payment_status := Some Pay_EXPIRED\<rparr>) (orders d)"
  shows "life_step i Expiry_run (life_of d i) (life_of d' i)"
  using assms
proof
  assume "orders d' = orders d"
  from life_of_same [OF this] show ?thesis by (simp add: stay)
next
  assume rows: "orders d' = map_rows (expires_before now)
      (\<lambda>r. r\<lparr>ord_status := Some Ord_CANCELLED, ord_payment_status := Some Pay_EXPIRED\<rparr>) (orders d)"
  have "ord_status r = Some Ord_PENDING_PAYMENT" if "expires_before now r" for r
    using that by (simp add: expires_before_def)
  moreover have "order_of d' i = map_option (\<lambda>r. if expires_before now r
      then r\<lparr>ord_status := Some Ord_CANCELLED, ord_payment_status := Some Pay_EXPIRED\<rparr> else r) (order_of d i)"
    by (rule order_of_map_rows [OF _ rows]) simp
  ultimately show ?thesis
    by (cases "order_of d i"; cases "expires_before now (the (order_of d i))")
       (simp_all add: life_of_def life_row_def stay expired)
qed

lemma life_of_decided:
  "life_step i Admin_decision (life_of d i) (life_of (snd (update_order_status k status note d)) i)"
proof (cases "update_order_status k status note d")
  case (Pair x d')
  show ?thesis
  proof (cases x)
    case (Inl e)
    then have "orders d' = orders d"
      using Pair by (auto simp: update_order_status_def set_order_status_def update_order_by_id_def
          split: if_splits option.splits elim: await_keeps)
    from life_of_same [OF this] show ?thesis by (simp add: Pair stay)
  next
    case (Inr u)
    from update_order_status_InrD [of k status "note" d d'] Pair Inr obtain r where r: "order_of d k = Some r"
      "ord_status r = Some Ord_PENDING_PAYMENT" "status \<in> set admin_order_statuses"
      and d': "d' = d\<lparr>orders := map_rows (\<lambda>x. ord_id x = k) (\<lambda>r. r\<lparr>ord_status := Some status, ord_note := note\<rparr>) (orders d)\<rparr>"
      by auto
    have "order_of d' i = map_option (\<lambda>r. if ord_id r = k then r\<lparr>ord_status := Some status, ord_note := note\<rparr> else r) (order_of d i)"
      by (rule order_of_map_rows) (simp_all add: d')
    then show ?thesis
      using r(1,2) decided [OF r(3)] by (cases "order_of d i"; cases "i = k")
        (auto simp: Pair life_of_def life_row_def stay dest: order_of_in)
  qed
qed

lemma shop_step_life: "shop_step d l d' \<Longrightarrow> life_step i l (life_of d i) (life_of d' i)"
  by (induction rule: shop_step.induct)
     (rule life_of_placed [OF checkout_places] life_of_withdrawn [OF job_withdraws] life_of_settled [OF webhook_settles]
        life_of_settled [OF question_settles] life_of_expired [OF cleanup_expires] life_of_decided
      | simp add: guests_keep_life stay)+

section \<open>Identifiers, codes and items\<close>

text \<open>Every call also keeps the invariant of theory Orders; it depends on the orders and their items only.\<close>

lemma order_inv_frame: "orders d' = orders d \<Longrightarrow> order_items d' = order_items d \<Longrightarrow> order_inv d' \<longleftrightarrow> order_inv d"
  by (simp add: order_inv_def)

lemma order_inv_tables:
  "order_inv (d\<lparr>payment_transactions := t\<rparr>) \<longleftrightarrow> order_inv d"
  "order_inv (snd (update_intent_status code s d)) \<longleftrightarrow> order_inv d"
  by (rule order_inv_frame; simp add: update_intent_status_def split: option.split)+

lemma webhook_parts_keep_inv:
  "order_inv (snd (save_payment_transaction now pay s ref d)) \<longleftrightarrow> order_inv d"
  "order_inv (snd (update_webhook_status now k js a d)) \<longleftrightarrow> order_inv d"
  "order_inv (snd (save_sepay_webhook now k d)) \<longleftrightarrow> order_inv d"
  "order_inv (snd (mark_payment_not_success k s d)) \<longleftrightarrow> order_inv d"
  "order_inv (snd (mark_payment_intent code s d)) \<longleftrightarrow> order_inv d"
  by (rule order_inv_frame; simp add: webhook_frames save_payment_transaction_def create_webhook_transaction_def
      insert_transaction_def update_webhook_status_def save_sepay_webhook_def mark_payment_not_success_def transaction_def
      split: option.split)+

lemma mark_success_keeps_inv: "order_inv d \<Longrightarrow> order_inv (snd (mark_order_and_payment_success k d))"
proof -
  assume inv: "order_inv d"
  have "order_inv (s\<lparr>payment_transactions := t\<rparr>) \<longleftrightarrow> order_inv s" for s t by (simp add: order_inv_def)
  then show ?thesis
    unfolding mark_order_and_payment_success_def using inv
    by (auto intro!: transaction_keeps [where P = order_inv] await_keeps [where P = order_inv] order_inv_update)
qed

lemma intent_handlers_keep_inv:
  "order_inv d \<Longrightarrow> order_inv (snd (handle_intent_expired now c inbox a code d))"
  "order_inv d \<Longrightarrow> order_inv (snd (handle_already_processed_intent now c code inbox a key d))"
  unfolding handle_intent_expired_def handle_already_processed_intent_def
  by (auto simp: order_inv_tables webhook_parts_keep_inv intro!: await_keeps [where P = order_inv] promise_all_keeps [where P = order_inv])

lemma mark_done_keeps_inv: "order_inv d \<Longrightarrow> order_inv (snd (webhook_mark_done now k inbox a code d))"
proof -
  assume inv: "order_inv d"
  have items: "order_inv (snd (find_order_items_with_variant i s))" if "order_inv s" for i s
    using that by (simp add: find_order_items_with_variant_def split: option.split sum.split)
  have settle: "order_inv (snd (catching (update_order_done m i s)
      (\<lambda>_ s. await (update_order_not_done m i s) (\<lambda>_. throw InternalServerError))))" if "order_inv s" for m i s
    by (rule catching_keeps [where P = order_inv], rule order_inv_done [OF that], rule await_keeps [where P = order_inv],
        erule order_inv_not_done, simp)
  have rest: "order_inv (snd (await (find_order_items_with_variant i s) (\<lambda>found s.
         let m = map_of_entries (case found of None \<Rightarrow> [] | Some (_, ps) \<Rightarrow> ps) in
         await (catching (update_order_done m i s) (\<lambda>_ s.
                  await (update_order_not_done m i s) (\<lambda>_. throw InternalServerError))) (\<lambda>_. ret z))))"
    if "order_inv s" for i s and z :: "order_row \<times> webhook_row"
    unfolding Let_def
    by (rule await_keeps [where P = order_inv], rule items [OF that], rule await_keeps [where P = order_inv],
        erule settle, simp)
  show ?thesis
    unfolding webhook_mark_done_def
    apply (rule await_keeps [where P = order_inv])
     apply (rule promise_all_keeps [where P = order_inv], rule inv, erule mark_success_keeps_inv)
     apply (rule promise_all_keeps [where P = order_inv], assumption)
      apply (simp_all only: webhook_parts_keep_inv)
    apply (simp only: split: prod.split)
    apply (intro allI impI)
    apply (erule rest)
    done
qed

lemma known_order_keeps_inv: "order_inv d \<Longrightarrow> order_inv (snd (handle_known_order now pay c inbox a p r d))"
proof -
  assume inv: "order_inv d"
  have mismatch: "order_inv (snd (handle_mismatch now pay c inbox a p r d))"
    unfolding handle_mismatch_def Let_def
    using inv by (auto simp: order_inv_tables webhook_parts_keep_inv intent_handlers_keep_inv intro!: await_keeps [where P = order_inv])
  show ?thesis
    unfolding handle_known_order_def Let_def
    using inv mismatch
    by (auto simp: order_inv_tables webhook_parts_keep_inv intent_handlers_keep_inv mark_done_keeps_inv split: prod.split
        intro!: await_keeps [where P = order_inv])
qed

lemma webhook_keeps_inv: "order_inv d \<Longrightarrow> order_inv (snd (handle_sepay_webhook now pay d))"
proof -
  assume inv: "order_inv d"
  have other: "order_inv (snd (handle_without_content now pay inbox a s))"
    "order_inv (snd (handle_intent_not_found now c inbox a s))" if "order_inv s" for inbox a c s
    unfolding handle_without_content_def handle_intent_not_found_def
    using that by (auto simp: order_inv_tables webhook_parts_keep_inv intro!: await_keeps [where P = order_inv])
  show ?thesis
    unfolding handle_sepay_webhook_def Let_def
    using inv
    by (auto simp: order_inv_tables webhook_parts_keep_inv other known_order_keeps_inv split: option.split
        intro!: await_keeps [where P = order_inv])
qed

lemma question_keeps_inv: "order_inv d \<Longrightarrow> order_inv (snd (get_payment_status code d))"
  unfolding get_payment_status_def
  by (auto simp: mark_success_keeps_inv split: option.split intro!: await_keeps [where P = order_inv])

lemma job_keeps_inv: "order_inv d \<Longrightarrow> order_inv (snd (process_checkout sha now job d))"
proof -
  assume inv: "order_inv d"
  obtain n d1 where snaps: "create_many_snapshots (map (snapshot_of_variant sha) (cj_variants job)) d = (Inr n, d1)"
    and same: "orders d1 = orders d" "order_items d1 = order_items d"
    using create_many_snapshots_Inr by blast
  have d1: "order_inv d1" using inv order_inv_frame [OF same] by simp
  have items: "order_inv (snd (create_job_items now i js s))" if "order_inv s" for i js s
    using that by (simp add: create_job_items_def order_inv_items split: option.split)
  have address: "order_inv (snd (create_order_address a s))" if "order_inv s" for a s
    using that by (auto simp: create_order_address_def Let_def order_inv_def)
  have reserved: "order_inv (snd (update_reserved_by_ids is s))" if "order_inv s" for "is" s
    using that by (auto simp: update_reserved_by_ids_def Let_def order_inv_def)
  have fill: "order_inv (snd (fill_order now job js s))" if "order_inv s" for js s
    unfolding fill_order_def
    using that items address reserved by (auto split: option.split intro!: await_keeps [where P = order_inv])
  have delete: "order_inv (snd (await (delete_order i s) (\<lambda>_. throw e :: unit action)))" if "order_inv s" for i s e
    by (rule await_keeps [where P = order_inv]) (simp_all add: delete_order_def order_inv_delete that)
  show ?thesis
    unfolding process_checkout_def Let_def snaps await_simps
    by (rule catching_keeps [where P = order_inv], rule fill [OF d1], erule delete)
qed

lemma guests_keep_inv: "order_inv d \<Longrightarrow> order_inv (snd (cleanup_guest_sessions_daily now d))"
proof -
  assume inv: "order_inv d"
  have "order_inv (delete_guest_sessions ids d)" for ids
  proof -
    let ?d = "d\<lparr>orders := map_rows (\<lambda>r. guest_in ids (ord_guest_session_id r)) (\<lambda>r. r\<lparr>ord_guest_session_id := None\<rparr>) (orders d)\<rparr>"
    have "order_inv ?d" using inv by (rule order_inv_map_orders) simp_all
    then show ?thesis
      using order_inv_frame [of "delete_guest_sessions ids d" ?d] by (simp add: delete_guest_sessions_def Let_def delete_carts_def)
  qed
  with inv show ?thesis by (simp add: cleanup_state Let_def)
qed

lemma decision_keeps_inv: "order_inv d \<Longrightarrow> order_inv (snd (update_order_status i status note d))"
  unfolding update_order_status_def set_order_status_def
  by (auto split: option.split intro!: await_keeps [where P = order_inv] order_inv_update)

lemma shop_step_keeps_inv: "shop_step d l d' \<Longrightarrow> order_inv d \<Longrightarrow> order_inv d'"
  by (induction rule: shop_step.induct)
     (simp_all add: checkout_keeps_order_inv job_keeps_inv webhook_keeps_inv question_keeps_inv order_inv_clean
       decision_keeps_inv guests_keep_inv)

section \<open>Properties\<close>

text \<open>
  C4: the state machine describes every call of the program: whatever request, job, payment event, question, cleanup or
  decision runs on whatever state and with whatever result, it does to each order what one step of the machine allows
  under its label, and it never touches the code, the user, the subtotal or the total of an order.
\<close>
theorem calls_follow_order_life:
  assumes "shop_step d l d'"
  shows "life_step i l (life_of d i) (life_of d' i)"
  using assms by (rule shop_step_life)

lemma calls_follow_order_life_witness:
  "life_step 1 Payment_event (life_of paying_shop 1)
     (life_of (snd (handle_sepay_webhook 1000 (sample_event 120000) paying_shop)) 1)"
  by (rule calls_follow_order_life [OF payment])

text \<open>
  C3: an order once paid stays paid, with its total, along every sequence of calls that does not fail its own background
  job; and an order that is not paid becomes paid only when a payment event is handled or the payment status asked for.
\<close>
theorem paid_order_is_final:
  assumes "shop_run d ls d'" and "life_of d i = Some (s, p, f)" and "Job_of i \<notin> set ls"
  shows "\<exists>s' p'. life_of d' i = Some (s', p', f)
       \<and> (s = Some Ord_PAID \<and> p = Some Pay_SUCCESS \<longrightarrow> s' = Some Ord_PAID \<and> p' = Some Pay_SUCCESS)
       \<and> (s' = Some Ord_PAID \<longrightarrow> s = Some Ord_PAID \<or> Payment_event \<in> set ls \<or> Status_question \<in> set ls)"
  using assms
proof (induction rule: shop_run.induct)
  case (further d ls d' l d'')
  then obtain s' p' where "life_of d' i = Some (s', p', f)"
    and final: "s = Some Ord_PAID \<and> p = Some Pay_SUCCESS \<longrightarrow> s' = Some Ord_PAID \<and> p' = Some Pay_SUCCESS"
    and paid: "s' = Some Ord_PAID \<longrightarrow> s = Some Ord_PAID \<or> Payment_event \<in> set ls \<or> Status_question \<in> set ls"
    by auto
  with shop_step_life [OF further(2), of i] further.prems(2)
  have "life_step i l (Some (s', p', f)) (life_of d'' i)" "l \<noteq> Job_of i" by auto
  then show ?case
    by (cases rule: life_step_placed [consumes 1]) (use final paid in \<open>auto simp: admin_order_statuses_def\<close>)
qed simp

lemma paid_shop:
  obtains f where "life_of (snd (handle_sepay_webhook 1000 (sample_event 120000) paying_shop)) 1
      = Some (Some Ord_PAID, Some Pay_SUCCESS, f)"
proof -
  have pays: "settles 1000 (sample_event 120000) sample_intent (sample_order 1 ''VLR1'' 120000)"
    by (simp add: settles_def sample_event_def sample_order_def sample_intent_def number_of_decimal_def f64_total)
  have "order_of (snd (handle_sepay_webhook 1000 (sample_event 120000) paying_shop)) 1
      = Some (paid_order (sample_order 1 ''VLR1'' 120000))"
    by (rule exact_payment [of paying_shop "sample_event 120000" "'' VLR1 ''" sample_intent
          "sample_order 1 ''VLR1'' 120000" 1000 "[(1, 2)]"])
       (use pays in \<open>simp_all add: paying_shop_facts sample_trim sample_event_def sample_order_def\<close>)
  then show thesis using that by (simp add: life_of_def life_row_def paid_order_def)
qed

lemma paid_order_is_final_witness:
  "\<exists>d. shop_run (snd (handle_sepay_webhook 1000 (sample_event 120000) paying_shop)) [Expiry_run, Payment_event, Admin_decision] d
     \<and> (\<exists>f. life_of d 1 = Some (Some Ord_PAID, Some Pay_SUCCESS, f))"
proof -
  let ?d = "snd (handle_sepay_webhook 1000 (sample_event 120000) paying_shop)"
  let ?d1 = "snd (clean_order 5000 ?d)"
  let ?d2 = "snd (handle_sepay_webhook 6000 (sample_event 120000) ?d1)"
  let ?d3 = "snd (update_order_status 1 Ord_CANCELLED None ?d2)"
  have "shop_run ?d ((([] @ [Expiry_run]) @ [Payment_event]) @ [Admin_decision]) ?d3"
    by (rule start further request job payment question expiry decision guests)+
  then have run: "shop_run ?d [Expiry_run, Payment_event, Admin_decision] ?d3" by simp
  obtain f where "life_of ?d 1 = Some (Some Ord_PAID, Some Pay_SUCCESS, f)" by (rule paid_shop)
  from paid_order_is_final [OF run this] have "life_of ?d3 1 = Some (Some Ord_PAID, Some Pay_SUCCESS, f)" by auto
  with run show ?thesis by blast
qed

text \<open>
  C5: whatever calls of the program write orders, in whatever order and with whatever results, the identifiers and the
  codes of the orders stay unique, so that an order is found again by its identifier and by the code a customer transfers
  money with, and every order item belongs to an order that is there: neither a job that fails and deletes its order nor a
  cleanup leaves an item behind.
\<close>
theorem shop_keeps_orders_sound:
  assumes "shop_run d ls d'" and "order_inv d"
  shows "order_inv d'
       \<and> (\<forall>r\<in>set (rows (orders d')). order_of d' (ord_id r) = Some r \<and> order_by_code d' (ord_code r) = Some r)
       \<and> (\<forall>x\<in>set (rows (order_items d')). \<exists>r. order_of d' (oi_order_id x) = Some r)"
proof -
  have inv: "order_inv d'"
    using assms by (induction rule: shop_run.induct) (simp_all add: shop_step_keeps_inv)
  have found: "order_of d' (ord_id r) = Some r" if "r \<in> set (rows (orders d'))" for r
    using inv that by (simp add: order_inv_def order_of_unique)
  have code: "order_by_code d' (ord_code r) = Some r" if "r \<in> set (rows (orders d'))" for r
    unfolding order_by_code_def find_row_def by (rule find_unique) (use inv that in \<open>simp_all add: order_inv_def\<close>)
  have "\<exists>r. order_of d' (oi_order_id x) = Some r" if "x \<in> set (rows (order_items d'))" for x
    using inv that found by (auto simp: order_inv_def)
  with inv found code show ?thesis by blast
qed

lemma shop_keeps_orders_sound_witness:
  "\<exists>d. shop_run paying_shop [Payment_event, Requested, Job_of 2, Expiry_run, Guest_cleanup] d
     \<and> order_inv d \<and> (\<forall>x\<in>set (rows (order_items d)). \<exists>r. order_of d (oi_order_id x) = Some r)"
proof -
  let ?d1 = "snd (handle_sepay_webhook 1000 (sample_event 120000) paying_shop)"
  let ?d2 = "snd (create_checkout (Checkout.sample_env True) member_body None (Some 7) ?d1)"
  let ?job = "\<lparr>cj_order_id = 2, cj_is_guest = False, cj_order_code = ''VLR2'', cj_total = 100, cj_subtotal = 100, cj_variants = [],
      cj_quantities = Map.empty, cj_guest_email = None, cj_guest_session = None, cj_guest_address = None, cj_address_id = None,
      cj_user_id = Some 7, cj_email = None, cj_is_error = True, cj_payment = SEPAY\<rparr>"
  let ?d3 = "snd (process_checkout id 2000 ?job ?d2)"
  let ?d4 = "snd (clean_order 5000 ?d3)"
  let ?d5 = "snd (cleanup_guest_sessions_daily 6000 ?d4)"
  have step: "shop_step ?d2 (Job_of 2) ?d3" using job [of ?d2 ?job id 2000] by simp
  then have "shop_run paying_shop ((((([] @ [Payment_event]) @ [Requested]) @ [Job_of 2]) @ [Expiry_run]) @ [Guest_cleanup]) ?d5"
    by (intro further [OF _ guests] further [OF _ expiry] further [OF _ step]
        further [OF _ request] further [OF _ payment] start)
  then have run: "shop_run paying_shop [Payment_event, Requested, Job_of 2, Expiry_run, Guest_cleanup] ?d5" by simp
  from shop_keeps_orders_sound [OF run paying_shop_facts(1)] run show ?thesis by blast
qed

end
