(* ===== verification/Email_Outbox.thy ===== *)
theory Email_Outbox
  imports Text_Utils
begin

text \<open>
  Verification codes and the mails that carry them: \<open>src/src/modules/verification-code\<close>,
  \<open>src/src/modules/email-outbox\<close> and the worker of \<open>src/src/queue/email\<close>. The mail server is an
  argument that accepts or rejects a mail; the mails it accepted are kept in the world the worker runs
  in. The HTML templates are arguments, their placeholders are filled as the code does. A mail
  without a payload has the empty list of entries.
\<close>

definition OTP_TIME_SECONDS :: int where "OTP_TIME_SECONDS = 3600"
definition OTP_EXPIRES_MINUTES :: int where "OTP_EXPIRES_MINUTES = OTP_TIME_SECONDS div 60"
definition OTP_REGISTER_TEMPLATE_KEY :: string where "OTP_REGISTER_TEMPLATE_KEY = ''OTP_REGISTER''"
definition OTP_FORGOT_PASSWORD_TEMPLATE_KEY :: string where
  "OTP_FORGOT_PASSWORD_TEMPLATE_KEY = ''OTP_FORGOT_PASSWORD''"
definition ORDER_EMAIL :: string where "ORDER_EMAIL = ''ORDER_EMAIL''"

section \<open>The outbox\<close>

definition new_email :: "int \<Rightarrow> string \<Rightarrow> string \<Rightarrow> (string \<times> string) list \<Rightarrow> int \<Rightarrow> email_row" where
  "new_email now to key payload i =
     \<lparr>eo_id = i, eo_to_email = to, eo_to_name = None, eo_subject = None, eo_template_key = Some key,
      eo_status = Some Mail_PENDING, eo_scheduled_at = None, eo_sent_at = None, eo_attempts = None,
      eo_last_error = None, eo_created_at = now, eo_payload = payload\<rparr>"

definition create_email :: "(int \<Rightarrow> email_row) \<Rightarrow> email_row action" where
  "create_email mk d = (Inr (mk (serial (email_outbox d))), d\<lparr>email_outbox := insert_row mk (email_outbox d)\<rparr>)"

definition create_otp_register_email :: "int \<Rightarrow> string \<Rightarrow> email_row action" where
  [repo_defs]: "create_otp_register_email now to = create_email (new_email now to OTP_REGISTER_TEMPLATE_KEY [])"

definition create_otp_forgot_password_email :: "int \<Rightarrow> string \<Rightarrow> email_row action" where
  [repo_defs]: "create_otp_forgot_password_email now to =
     create_email (new_email now to OTP_FORGOT_PASSWORD_TEMPLATE_KEY [])"

definition create_order_mail :: "int \<Rightarrow> string \<Rightarrow> string \<Rightarrow> string \<Rightarrow> int \<Rightarrow> email_row action" where
  [repo_defs]: "create_order_mail now to code status order =
     create_email (new_email now to ORDER_EMAIL
       [(''orderCode'', code), (''orderStatus'', status), (''orderId'', int_string order)])"

definition email_of :: "db \<Rightarrow> int \<Rightarrow> email_row option" where
  "email_of d i = find_row (\<lambda>m. eo_id m = i) (email_outbox d)"

definition find_email_pending :: "int \<Rightarrow> db \<Rightarrow> email_row option" where
  [repo_defs]: "find_email_pending i d =
     find_row (\<lambda>m. eo_id m = i \<and> eo_status m = Some Mail_PENDING) (email_outbox d)"

definition update_email_status :: "int \<Rightarrow> email_status \<Rightarrow> unit action" where
  [repo_defs]: "update_email_status i status d =
     (if email_of d i = None then (Inl P2025, d)
      else (Inr (), d\<lparr>email_outbox := map_rows (\<lambda>m. eo_id m = i)
              (\<lambda>m. m\<lparr>eo_status := Some status\<rparr>) (email_outbox d)\<rparr>))"

definition otp_register_since :: "string \<Rightarrow> int \<Rightarrow> email_row \<Rightarrow> bool" where
  "otp_register_since email since m \<longleftrightarrow>
     eo_to_email m = email \<and> eo_template_key m = Some OTP_REGISTER_TEMPLATE_KEY \<and> since \<le> eo_created_at m"

definition count_otp_register_since :: "string \<Rightarrow> int \<Rightarrow> db \<Rightarrow> int" where
  [repo_defs]: "count_otp_register_since email since d = count_rows (otp_register_since email since) (email_outbox d)"

definition find_latest_otp_register_since :: "string \<Rightarrow> int \<Rightarrow> db \<Rightarrow> email_row option" where
  [repo_defs]: "find_latest_otp_register_since email since d =
     (case sort_key (\<lambda>m. - eo_created_at m) (select_rows (otp_register_since email since) (email_outbox d)) of
        [] \<Rightarrow> None | m # _ \<Rightarrow> Some m)"

definition cancel_otp_register_in_progress :: "string \<Rightarrow> db \<Rightarrow> db" where
  [repo_defs]: "cancel_otp_register_in_progress email d =
     d\<lparr>email_outbox := map_rows
        (\<lambda>m. eo_to_email m = email \<and> eo_template_key m = Some OTP_REGISTER_TEMPLATE_KEY
             \<and> (eo_status m = Some Mail_PENDING \<or> eo_status m = Some Mail_SENDING))
        (\<lambda>m. m\<lparr>eo_status := Some Mail_CANCELLED\<rparr>) (email_outbox d)\<rparr>"

datatype otp_type_filter = Otp_Register | Otp_Forgot_Password

definition get_otp_email_outbox :: "otp_type_filter option \<Rightarrow> email_status option \<Rightarrow> nat option \<Rightarrow> db \<Rightarrow> email_row list" where
  [service_defs]: "get_otp_email_outbox otp status limit d =
     (let keys = (case otp of
            None \<Rightarrow> [OTP_REGISTER_TEMPLATE_KEY, OTP_FORGOT_PASSWORD_TEMPLATE_KEY]
          | Some Otp_Register \<Rightarrow> [OTP_REGISTER_TEMPLATE_KEY]
          | Some Otp_Forgot_Password \<Rightarrow> [OTP_FORGOT_PASSWORD_TEMPLATE_KEY])
      in take (case limit of None \<Rightarrow> 50 | Some n \<Rightarrow> n)
           (sort_key (\<lambda>m. - eo_created_at m)
             (select_rows (\<lambda>m. (case eo_template_key m of None \<Rightarrow> False | Some k \<Rightarrow> k \<in> set keys)
                               \<and> (status = None \<or> eo_status m = status)) (email_outbox d))))"

section \<open>Verification codes\<close>

definition new_verification :: "int \<Rightarrow> int \<Rightarrow> string \<Rightarrow> int \<Rightarrow> verification_type \<Rightarrow> int \<Rightarrow> verification_row" where
  "new_verification now user email expires ty i =
     \<lparr>vc_id = i, vc_user_id = Some user, vc_email = Some email, vc_type = ty, vc_code_hash = None,
      vc_expires_at = expires, vc_used_at = None, vc_created_at = now\<rparr>"

definition create_verification :: "int \<Rightarrow> int \<Rightarrow> string \<Rightarrow> int \<Rightarrow> verification_type \<Rightarrow> verification_row action" where
  [repo_defs]: "create_verification now user email expires ty d =
     (if user_of d user = None then (Inl P2003, d)
      else (Inr (new_verification now user email expires ty (serial (verification_codes d))),
            d\<lparr>verification_codes := insert_row (new_verification now user email expires ty) (verification_codes d)\<rparr>))"

definition verification_of :: "db \<Rightarrow> int \<Rightarrow> verification_row option" where
  "verification_of d i = find_row (\<lambda>v. vc_id v = i) (verification_codes d)"

definition update_verification :: "int \<Rightarrow> (verification_row \<Rightarrow> verification_row) \<Rightarrow> unit action" where
  "update_verification i f d =
     (if verification_of d i = None then (Inl P2025, d)
      else (Inr (), d\<lparr>verification_codes := map_rows (\<lambda>v. vc_id v = i) f (verification_codes d)\<rparr>))"

definition update_code_hash :: "int \<Rightarrow> string \<Rightarrow> unit action" where
  [repo_defs]: "update_code_hash i h = update_verification i (\<lambda>v. v\<lparr>vc_code_hash := Some h\<rparr>)"

definition mark_used_by_id :: "int \<Rightarrow> int \<Rightarrow> unit action" where
  [repo_defs]: "mark_used_by_id i now = update_verification i (\<lambda>v. v\<lparr>vc_used_at := Some now\<rparr>)"

definition find_active_register :: "string \<Rightarrow> db \<Rightarrow> verification_row option" where
  [repo_defs]: "find_active_register h d =
     find_row (\<lambda>v. vc_type v = REGISTER \<and> vc_code_hash v = Some h \<and> vc_used_at v = None) (verification_codes d)"

definition find_active_forgot :: "string \<Rightarrow> string option \<Rightarrow> db \<Rightarrow> verification_row option" where
  [repo_defs]: "find_active_forgot h email d =
     find_row (\<lambda>v. vc_type v = FORGOT_PASSWORD \<and> vc_code_hash v = Some h
                   \<and> (email = None \<or> vc_email v = email) \<and> vc_used_at v = None) (verification_codes d)"

definition mark_all_register_unused :: "string \<Rightarrow> int \<Rightarrow> db \<Rightarrow> db" where
  [repo_defs]: "mark_all_register_unused email now d =
     d\<lparr>verification_codes := map_rows
        (\<lambda>v. vc_email v = Some email \<and> vc_type v = REGISTER \<and> vc_used_at v = None)
        (\<lambda>v. v\<lparr>vc_used_at := Some now\<rparr>) (verification_codes d)\<rparr>"

definition create_register_verification :: "int \<Rightarrow> int \<Rightarrow> string \<Rightarrow> int \<Rightarrow> (verification_row \<times> email_row) action" where
  [service_defs]: "create_register_verification now user email expires d =
     await (create_verification now user email expires REGISTER d) (\<lambda>v d.
       await (create_otp_register_email now email d) (\<lambda>m. ret (v, m)))"

definition create_forgot_password_verification :: "int \<Rightarrow> int \<Rightarrow> string \<Rightarrow> int \<Rightarrow> (verification_row \<times> email_row) action" where
  [service_defs]: "create_forgot_password_verification now user email expires d =
     await (create_verification now user email expires FORGOT_PASSWORD d) (\<lambda>v d.
       await (create_otp_forgot_password_email now email d) (\<lambda>m. ret (v, m)))"

section \<open>The worker\<close>

definition is_key_char :: "char \<Rightarrow> bool" where
  "is_key_char c \<longleftrightarrow> is_digit c \<or> is_upper c \<or> is_lower c \<or> c = CHR ''_'' \<or> c = CHR ''.''"

text \<open>The pattern \<open>{{\s*([\w.]+)\s*}}\<close> at the start of a text: the key and what follows.\<close>

definition match_hole :: "string \<Rightarrow> (string \<times> string) option" where
  "match_hole s =
     (if take 2 s \<noteq> ''{{'' then None
      else let r = dropWhile is_white (drop 2 s);
               k = takeWhile is_key_char r;
               e = dropWhile is_white (drop (length k) r)
           in if k \<noteq> [] \<and> take 2 e = ''}}'' then Some (k, drop 2 e) else None)"

lemma match_hole_shorter: "match_hole s = Some (k, r) \<Longrightarrow> length r < length s"
proof -
  assume m: "match_hole s = Some (k, r)"
  have "length (dropWhile is_white t) \<le> length t" for t by (rule length_dropWhile_le)
  then have "length (dropWhile is_white (drop n (dropWhile is_white (drop 2 s)))) \<le> length s - 2" for n
    by (metis (no_types, lifting) diff_le_self le_trans length_drop)
  moreover have "2 \<le> length s" using m by (cases s rule: list.exhaust; cases "tl s") (auto simp: match_hole_def)
  ultimately show ?thesis using m
    by (auto simp: match_hole_def Let_def split: if_splits)
       (metis (no_types, lifting) diff_less le_less_trans less_le_trans pos2 diff_le_self)
qed

function apply_template :: "(string \<Rightarrow> string option) \<Rightarrow> string \<Rightarrow> string" where
  "apply_template values [] = []"
| "apply_template values (c # cs) =
     (case match_hole (c # cs) of
        Some (k, r) \<Rightarrow> (case values k of None \<Rightarrow> [] | Some v \<Rightarrow> v) @ apply_template values r
      | None \<Rightarrow> c # apply_template values cs)"
  by pat_completeness auto
termination
  by (relation "measure (\<lambda>(_, s). length s)") (auto dest: match_hole_shorter)

record mail =
  mail_to :: string
  mail_subject :: string
  mail_html :: string

record email_templates =
  tpl_verify :: string
  tpl_reset_password :: string
  tpl_order_success :: string

record mail_world =
  mw_db :: db
  mw_sent :: "mail list"

definition on_db :: "'a action \<Rightarrow> (mail_world, 'a) eff" where
  "on_db f w = (case f (mw_db w) of (r, d) \<Rightarrow> (r, w\<lparr>mw_db := d\<rparr>))"

text \<open>\<open>transporter.sendMail\<close>: \<open>deliver\<close> says whether the server accepts the mail.\<close>

definition send_mail :: "(mail \<Rightarrow> bool) \<Rightarrow> mail \<Rightarrow> (mail_world, unit) eff" where
  "send_mail deliver m w =
     (if deliver m then (Inr (), w\<lparr>mw_sent := mw_sent w @ [m]\<rparr>) else (Inl (JsError ''sendMail''), w))"

datatype email_job_name = SEND_EMAIL | SEND_ORDER_EMAIL

record email_job =
  ej_name :: email_job_name
  ej_outbox_id :: int
  ej_verification_id :: int
  ej_origin_url :: "string option"

definition verify_mail :: "email_templates \<Rightarrow> string \<Rightarrow> string \<Rightarrow> mail" where
  "verify_mail tpl to link =
     \<lparr>mail_to = to, mail_subject = ''Verify your email'',
      mail_html = apply_template (map_of [(''content'', ''Chao ban, vui long xac thuc tai khoan.''),
        (''link'', link), (''textLink'', ''Xac thuc tai khoan'')]) (tpl_verify tpl)\<rparr>"

definition reset_mail :: "email_templates \<Rightarrow> string \<Rightarrow> string \<Rightarrow> mail" where
  "reset_mail tpl to link =
     \<lparr>mail_to = to, mail_subject = ''Reset your password'',
      mail_html = apply_template (map_of
        [(''content'', ''Chung toi da nhan duoc yeu cau dat lai mat khau cho tai khoan cua ban.''),
         (''resetLink'', link), (''expireMinutes'', int_string OTP_EXPIRES_MINUTES)]) (tpl_reset_password tpl)\<rparr>"

text \<open>\<open>handleVerifyEmail\<close>; \<open>token\<close> is the value of \<open>randomKey()\<close>, \<open>sha256\<close> the digest of \<open>hashToken\<close>.\<close>

definition handle_verify_email ::
    "(mail \<Rightarrow> bool) \<Rightarrow> email_templates \<Rightarrow> (string \<Rightarrow> string) \<Rightarrow> string \<Rightarrow> email_row \<Rightarrow> string option \<Rightarrow> int
       \<Rightarrow> (mail_world, unit) eff" where
  [service_defs]: "handle_verify_email deliver tpl sha256 token m origin code w =
     (let forgot = (eo_template_key m = Some OTP_FORGOT_PASSWORD_TEMPLATE_KEY);
          register = (eo_template_key m = Some OTP_REGISTER_TEMPLATE_KEY) in
      if \<not> forgot \<and> \<not> register then (Inl (JsError ''Unsupported email template key''), w)
      else let link = generate_link_with_type origin (if forgot then RESET_PASSWORD else VERIFY_EMAIL) token in
        await (on_db (update_code_hash code (sha256 token)) w) (\<lambda>_ w.
          await (on_db (update_email_status (eo_id m) Mail_SENDING) w) (\<lambda>_.
            send_mail deliver (if register then verify_mail tpl (eo_to_email m) link
                               else reset_mail tpl (eo_to_email m) link))))"

definition order_mail :: "email_templates \<Rightarrow> email_row \<Rightarrow> mail" where
  "order_mail tpl m =
     (let field = map_of (eo_payload m) in
      \<lparr>mail_to = eo_to_email m,
       mail_subject = ''Thong tin don hang '' @ (case field ''orderCode'' of None \<Rightarrow> ''undefined'' | Some c \<Rightarrow> c),
       mail_html = apply_template (field(''email'' \<mapsto> eo_to_email m)) (tpl_order_success tpl)\<rparr>)"

definition handle_order_email :: "(mail \<Rightarrow> bool) \<Rightarrow> email_templates \<Rightarrow> email_row \<Rightarrow> (mail_world, unit) eff" where
  [service_defs]: "handle_order_email deliver tpl m w =
     (if eo_payload m = [] then (Inl (JsError ''Missing payload for order email''), w)
      else send_mail deliver (order_mail tpl m) w)"

definition process_email ::
    "(mail \<Rightarrow> bool) \<Rightarrow> email_templates \<Rightarrow> (string \<Rightarrow> string) \<Rightarrow> string \<Rightarrow> email_job \<Rightarrow> (mail_world, unit) eff" where
  [service_defs]: "process_email deliver tpl sha256 token job w =
     (case find_email_pending (ej_outbox_id job) (mw_db w) of
        None \<Rightarrow> (Inr (), w)
      | Some m \<Rightarrow>
          catching
            (await (case ej_name job of
                      SEND_EMAIL \<Rightarrow> handle_verify_email deliver tpl sha256 token m (ej_origin_url job) (ej_verification_id job) w
                    | SEND_ORDER_EMAIL \<Rightarrow>
                        if eo_template_key m = Some ORDER_EMAIL then handle_order_email deliver tpl m w
                        else (Inl (JsError ''Unsupported email template key''), w))
              (\<lambda>_. on_db (update_email_status (eo_id m) Mail_SENT)))
            (\<lambda>e w. await (on_db (update_email_status (eo_id m) Mail_FAILED) w) (\<lambda>_. throw e)))"

text \<open>
  The queue runs a job up to three times (\<open>attempts: 3\<close>), again only after an attempt that failed; the
  server may answer differently each time and every attempt draws a new token.
\<close>

fun run_email_job ::
    "nat \<Rightarrow> (nat \<Rightarrow> mail \<Rightarrow> bool) \<Rightarrow> (nat \<Rightarrow> string) \<Rightarrow> email_templates \<Rightarrow> (string \<Rightarrow> string) \<Rightarrow> email_job
       \<Rightarrow> (mail_world, unit) eff" where
  "run_email_job 0 deliver token tpl sha256 job w = (Inl (JsError ''attempts''), w)"
| "run_email_job (Suc n) deliver token tpl sha256 job w =
     (case process_email (deliver (Suc n)) tpl sha256 (token (Suc n)) job w of
        (Inr x, w') \<Rightarrow> (Inr x, w')
      | (Inl e, w') \<Rightarrow> if n = 0 then (Inl e, w') else run_email_job n deliver token tpl sha256 job w')"

section \<open>Lemmas\<close>

lemma on_db_simps [simp]:
  "mw_sent (snd (on_db f w)) = mw_sent w"
  "mw_db (snd (on_db f w)) = snd (f (mw_db w))"
  "fst (on_db f w) = fst (f (mw_db w))"
  by (simp_all add: on_db_def split: prod.split)

lemma email_of_update:
  "email_of (snd (update_email_status i status d)) j =
     (if j = i then map_option (\<lambda>m. m\<lparr>eo_status := Some status\<rparr>) (email_of d j) else email_of d j)"
  by (auto simp: update_email_status_def email_of_def find_key_modify)

lemma find_email_pendingD:
  assumes "wf_table eo_id (email_outbox d)" and "find_email_pending i d = Some m"
  shows "email_of d i = Some m \<and> eo_id m = i \<and> eo_status m = Some Mail_PENDING"
  using find_row_SomeD [OF assms(2) [unfolded find_email_pending_def]] find_row_key [OF assms(1), of m]
  by (auto simp: email_of_def)

lemma update_code_hash_outbox [simp]: "email_outbox (snd (update_code_hash i h d)) = email_outbox d"
  by (simp add: update_code_hash_def update_verification_def)

lemma update_email_status_keeps: "wf_table eo_id (email_outbox d) \<Longrightarrow>
    wf_table eo_id (email_outbox (snd (update_email_status i st d)))"
  by (simp add: update_email_status_def wf_map_rows)

lemma email_of_code_hash: "email_of (snd (update_code_hash c h d)) i = email_of d i"
  by (simp add: email_of_def)

text \<open>What an attempt leaves of the outbox: the rows stay, and a failed handler sent nothing.\<close>

definition outbox_kept :: "int \<Rightarrow> mail_world \<Rightarrow> bool" where
  "outbox_kept i w \<longleftrightarrow> wf_table eo_id (email_outbox (mw_db w)) \<and> email_of (mw_db w) i \<noteq> None"

lemma status_keeps_outbox:
  "outbox_kept i w \<Longrightarrow> outbox_kept i (snd (on_db (update_email_status j st) w))"
  "outbox_kept i w \<Longrightarrow> outbox_kept i (snd (on_db (update_code_hash c h) w))"
  by (auto simp: outbox_kept_def email_of_update update_email_status_keeps email_of_code_hash)

lemma status_succeeds: "outbox_kept i w \<Longrightarrow> fst (on_db (update_email_status i st) w) = Inr ()"
  by (auto simp: outbox_kept_def update_email_status_def)

lemma send_mail_world:
  "mw_db (snd (send_mail deliver m w)) = mw_db w"
  "fst (send_mail deliver m w) = Inl e \<Longrightarrow> mw_sent (snd (send_mail deliver m w)) = mw_sent w"
  by (auto simp: send_mail_def split: if_splits)

lemma handle_verify_email_world:
  assumes "outbox_kept i w"
  shows "outbox_kept i (snd (handle_verify_email deliver tpl sha256 token m origin code w))"
    and "fst (handle_verify_email deliver tpl sha256 token m origin code w) = Inl e \<Longrightarrow>
      mw_sent (snd (handle_verify_email deliver tpl sha256 token m origin code w)) = mw_sent w"
proof -
  obtain r1 w1 where w1: "on_db (update_code_hash code (sha256 token)) w = (r1, w1)" by (cases "on_db (update_code_hash code (sha256 token)) w")
  obtain r2 w2 where w2: "on_db (update_email_status (eo_id m) Mail_SENDING) w1 = (r2, w2)" by (cases "on_db (update_email_status (eo_id m) Mail_SENDING) w1")
  have kept: "outbox_kept i w1" "outbox_kept i w2" and sent: "mw_sent w1 = mw_sent w" "mw_sent w2 = mw_sent w"
    using status_keeps_outbox(2) [OF assms, of code "sha256 token"] w1
      status_keeps_outbox(1) [of i w1 "eo_id m" Mail_SENDING] w2
      on_db_simps(1) [of "update_code_hash code (sha256 token)" w]
      on_db_simps(1) [of "update_email_status (eo_id m) Mail_SENDING" w1] by auto
  have send: "outbox_kept i (snd (send_mail deliver x w2))" for x
    using kept(2) by (simp add: outbox_kept_def send_mail_world)
  show "outbox_kept i (snd (handle_verify_email deliver tpl sha256 token m origin code w))"
    using assms kept send w2 by (cases r1; cases r2) (auto simp: handle_verify_email_def Let_def w1)
  show "mw_sent (snd (handle_verify_email deliver tpl sha256 token m origin code w)) = mw_sent w"
    if "fst (handle_verify_email deliver tpl sha256 token m origin code w) = Inl e"
    using that sent w2 send_mail_world(2) [of deliver _ w2 e]
    by (cases r1; cases r2) (auto simp: handle_verify_email_def Let_def w1 split: if_splits)
qed

lemma handle_order_email_world:
  assumes "outbox_kept i w"
  shows "outbox_kept i (snd (handle_order_email deliver tpl m w))"
    and "fst (handle_order_email deliver tpl m w) = Inl e \<Longrightarrow>
      mw_sent (snd (handle_order_email deliver tpl m w)) = mw_sent w"
  using assms send_mail_world by (auto simp: handle_order_email_def outbox_kept_def split: if_splits)

lemma failed_attempt:
  assumes "wf_table eo_id (email_outbox (mw_db w))" and "find_email_pending (ej_outbox_id job) (mw_db w) = Some m"
    and "process_email deliver tpl sha256 token job w = (Inl e, w')"
  shows "mw_sent w' = mw_sent w \<and> wf_table eo_id (email_outbox (mw_db w'))
       \<and> (\<exists>m'. email_of (mw_db w') (ej_outbox_id job) = Some m' \<and> eo_status m' = Some Mail_FAILED)"
proof -
  let ?i = "ej_outbox_id job"
  let ?h = "case ej_name job of
      SEND_EMAIL \<Rightarrow> handle_verify_email deliver tpl sha256 token m (ej_origin_url job) (ej_verification_id job) w
    | SEND_ORDER_EMAIL \<Rightarrow> if eo_template_key m = Some ORDER_EMAIL then handle_order_email deliver tpl m w
        else (Inl (JsError ''Unsupported email template key''), w)"
  obtain r w1 where h: "?h = (r, w1)" by (cases ?h)
  have m: "email_of (mw_db w) ?i = Some m" "eo_id m = ?i" using find_email_pendingD [OF assms(1,2)] by auto
  then have kept: "outbox_kept ?i w" using assms(1) by (simp add: outbox_kept_def)
  have world: "outbox_kept ?i (snd ?h)" "fst ?h = Inl e' \<Longrightarrow> mw_sent (snd ?h) = mw_sent w" for e'
    using kept handle_verify_email_world [OF kept] handle_order_email_world [OF kept]
    by (auto split: email_job_name.splits if_splits)
  have run: "process_email deliver tpl sha256 token job w =
      catching (await (r, w1) (\<lambda>_. on_db (update_email_status ?i Mail_SENT)))
        (\<lambda>e w. await (on_db (update_email_status ?i Mail_FAILED) w) (\<lambda>_. throw e))"
    by (simp only: process_email_def assms(2) option.case h m(2))
  have status: "\<exists>w2. on_db (update_email_status ?i st) w1 = (Inr (), w2)" for st
    using status_succeeds [of ?i w1 st] world(1) h by (cases "on_db (update_email_status ?i st) w1") auto
  obtain e1 where r: "r = Inl e1"
    using assms(3) run status [of Mail_SENT] by (cases r) auto
  obtain w2 where w2: "on_db (update_email_status ?i Mail_FAILED) w1 = (Inr (), w2)" using status by blast
  have "w' = w2" using assms(3) run r w2 by simp
  moreover have "mw_sent w1 = mw_sent w" using world(2) [of e1] h r by simp
  moreover have "outbox_kept ?i w2"
    using status_keeps_outbox(1) [of ?i w1 ?i Mail_FAILED] world(1) h w2 by simp
  moreover have "mw_sent w2 = mw_sent w1" "mw_db w2 = snd (update_email_status ?i Mail_FAILED (mw_db w1))"
    using on_db_simps(1,2) [of "update_email_status ?i Mail_FAILED" w1] w2 by simp_all
  ultimately show ?thesis
    by (auto simp: outbox_kept_def email_of_update)
qed

text \<open>
  A mail whose first attempt fails is never sent: the attempt marks it failed, the next attempt
  looks for pending mails only, finds none and ends the job as done, whatever the server would answer.
\<close>
theorem failed_email_never_resent:
  assumes "wf_table eo_id (email_outbox (mw_db w))" and "find_email_pending (ej_outbox_id job) (mw_db w) = Some m"
    and "fst (process_email (deliver 3) tpl sha256 (token 3) job w) = Inl e"
  shows "(let (r, w') = run_email_job 3 deliver token tpl sha256 job w in
           r = Inr () \<and> mw_sent w' = mw_sent w
         \<and> map_option eo_status (email_of (mw_db w') (ej_outbox_id job)) = Some (Some Mail_FAILED))"
proof -
  obtain w' where run: "process_email (deliver 3) tpl sha256 (token 3) job w = (Inl e, w')"
    using assms(3) by (cases "process_email (deliver 3) tpl sha256 (token 3) job w") auto
  note failed = failed_attempt [OF assms(1,2) run]
  have "find_email_pending (ej_outbox_id job) (mw_db w') = None"
  proof (rule ccontr)
    assume "find_email_pending (ej_outbox_id job) (mw_db w') \<noteq> None"
    then obtain m' where "find_email_pending (ej_outbox_id job) (mw_db w') = Some m'" by blast
    with find_email_pendingD [OF _ this] failed show False by auto
  qed
  then have "process_email (deliver 2) tpl sha256 (token 2) job w' = (Inr (), w')"
    by (simp add: process_email_def)
  then have "run_email_job 3 deliver token tpl sha256 job w = (Inr (), w')"
    using run by (simp add: numeral_3_eq_3 numeral_2_eq_2)
  with failed show ?thesis by auto
qed

definition mail_sample :: mail_world where
  "mail_sample = \<lparr>mw_db = empty_db\<lparr>email_outbox := \<lparr>rows = [new_email 0 ''a@b'' OTP_REGISTER_TEMPLATE_KEY [] 1], serial = 2\<rparr>,
     verification_codes := \<lparr>rows = [new_verification 0 7 ''a@b'' 3600000 REGISTER 1], serial = 2\<rparr>\<rparr>, mw_sent = []\<rparr>"

definition mail_job :: email_job where
  "mail_job = \<lparr>ej_name = SEND_EMAIL, ej_outbox_id = 1, ej_verification_id = 1, ej_origin_url = None\<rparr>"

definition plain_templates :: email_templates where
  "plain_templates = \<lparr>tpl_verify = ''{{ link }}'', tpl_reset_password = ''{{resetLink}}'', tpl_order_success = ''{{orderCode}}''\<rparr>"

lemma failed_email_never_resent_witness:
  "(let (r, w') = run_email_job 3 (\<lambda>n _. n \<noteq> 3) (\<lambda>_. ''t'') plain_templates (\<lambda>s. s) mail_job mail_sample in
     r = Inr () \<and> mw_sent w' = [])"
proof -
  have pending: "find_email_pending (ej_outbox_id mail_job) (mw_db mail_sample) =
      Some (new_email 0 ''a@b'' OTP_REGISTER_TEMPLATE_KEY [] 1)"
    and wf: "wf_table eo_id (email_outbox (mw_db mail_sample))"
    by (simp_all add: find_email_pending_def find_row_def mail_sample_def mail_job_def new_email_def wf_table_def)
  have "fst (process_email (\<lambda>_. 3 \<noteq> (3 :: nat)) plain_templates (\<lambda>s. s) ''t'' mail_job mail_sample) = Inl (JsError ''sendMail'')"
    by (simp add: process_email_def pending)
       (simp add: mail_job_def handle_verify_email_def new_email_def OTP_REGISTER_TEMPLATE_KEY_def
        OTP_FORGOT_PASSWORD_TEMPLATE_KEY_def on_db_def update_code_hash_def update_verification_def verification_of_def
        mail_sample_def find_row_def new_verification_def update_email_status_def email_of_def send_mail_def)
  from failed_email_never_resent [OF wf pending, of "\<lambda>n _. n \<noteq> 3" plain_templates "\<lambda>s. s" "\<lambda>_. ''t''", OF this]
  show ?thesis by (auto simp: mail_sample_def)
qed

end
