(* ===== verification/Auth.thy ===== *)
theory Auth
  imports Email_Outbox Guest_Session
begin

text \<open>
  Accounts and sessions: \<open>src/src/modules/auth\<close> (the service and the repositories of users, login
  attempts, devices, sessions and revoked tokens), the roles of a user
  (\<open>src/src/modules/user/repository/user-role.repository.ts\<close>) and the guards of
  \<open>src/src/common/security/guard\<close>. Tokens, digests and the password hash come from libraries: signing,
  verifying, \<open>sha256\<close>, \<open>bcrypt\<close> and the random values of a request are fields of the environment. A
  mail job that a handler enqueues is part of its result.
\<close>

record jwt_payload =
  jp_sub :: string
  jp_is_email_verified :: bool
  jp_roles :: "role_code list"

record auth_env =
  ae_now :: int
  ae_refresh_token :: string
  ae_uuid :: string
  ae_sha256 :: "string \<Rightarrow> string"
  ae_bcrypt_hash :: "string \<Rightarrow> string"
  ae_bcrypt_compare :: "string \<Rightarrow> string \<Rightarrow> bool"
  ae_sign :: "jwt_payload \<Rightarrow> string"
  ae_verify :: "string \<Rightarrow> jwt_payload option"
  ae_verify_exp :: "string \<Rightarrow> int option option"
  ae_refresh_seconds :: "int option"

section \<open>Users\<close>

record auth_me =
  me_id :: int
  me_email :: string
  me_phone :: "string option"
  me_first_name :: "string option"
  me_last_name :: "string option"
  me_is_email_verified :: bool
  me_status :: user_status

definition to_auth_me :: "user_row \<Rightarrow> auth_me" where
  "to_auth_me u =
     \<lparr>me_id = usr_id u, me_email = usr_email u, me_phone = usr_phone u, me_first_name = usr_first_name u,
      me_last_name = usr_last_name u, me_is_email_verified = usr_is_email_verified u, me_status = usr_status u\<rparr>"

definition find_user_by_email :: "string \<Rightarrow> db \<Rightarrow> user_row option" where
  [repo_defs]: "find_user_by_email email d = find_row (\<lambda>u. usr_email u = email) (users d)"

definition new_user :: "int \<Rightarrow> string \<Rightarrow> string \<Rightarrow> string option \<Rightarrow> string option \<Rightarrow> int \<Rightarrow> user_row" where
  "new_user now email password fname lname i =
     \<lparr>usr_id = i, usr_email = email, usr_phone = None, usr_first_name = fname, usr_last_name = lname,
      usr_password = password, usr_password_changed_at = None, usr_is_email_verified = False,
      usr_verify_email_at = None, usr_status = User_ACTIVE, usr_last_login_at = None, usr_created_at = now, usr_deleted_at = None\<rparr>"

definition create_user :: "int \<Rightarrow> string \<Rightarrow> string \<Rightarrow> string option \<Rightarrow> string option \<Rightarrow> auth_me action" where
  [repo_defs]: "create_user now email password fname lname d =
     (if find_user_by_email email d \<noteq> None then (Inl P2002, d)
      else (Inr (to_auth_me (new_user now email password fname lname (serial (users d)))),
            d\<lparr>users := insert_row (new_user now email password fname lname) (users d)\<rparr>))"

definition update_user :: "int \<Rightarrow> (user_row \<Rightarrow> user_row) \<Rightarrow> unit action" where
  "update_user i f d =
     (if user_of d i = None then (Inl P2025, d)
      else (Inr (), d\<lparr>users := map_rows (\<lambda>u. usr_id u = i) f (users d)\<rparr>))"

definition mark_email_verified :: "int \<Rightarrow> int \<Rightarrow> unit action" where
  [repo_defs]: "mark_email_verified now i =
     update_user i (\<lambda>u. u\<lparr>usr_is_email_verified := True, usr_verify_email_at := Some now\<rparr>)"

definition update_password :: "int \<Rightarrow> int \<Rightarrow> string \<Rightarrow> unit action" where
  [repo_defs]: "update_password now i hash =
     update_user i (\<lambda>u. u\<lparr>usr_password := hash, usr_password_changed_at := Some now\<rparr>)"

section \<open>Roles of a user\<close>

definition find_role_by_name :: "role_row option \<Rightarrow> string \<Rightarrow> db \<Rightarrow> role_row option" where
  [service_defs]: "find_role_by_name cached name d =
     (case cached of Some r \<Rightarrow> Some r | None \<Rightarrow> find_row (\<lambda>r. role_name r = name) (roles d))"

definition create_user_role :: "int \<Rightarrow> int \<Rightarrow> int option \<Rightarrow> unit action" where
  [repo_defs]: "create_user_role user role actor d =
     (if \<exists>r\<in>set (rows (user_roles d)). ur_user_id r = user \<and> ur_role_id r = role then (Inl P2002, d)
      else if user_of d user = None \<or> find_row (\<lambda>r. role_id r = role) (roles d) = None then (Inl P2003, d)
      else (Inr (), d\<lparr>user_roles := insert_row (\<lambda>_. \<lparr>ur_user_id = user, ur_role_id = role, ur_deleted_at = None,
                        ur_created_by = actor, ur_updated_by = None, ur_deleted_by = None\<rparr>) (user_roles d)\<rparr>))"

definition roles_of_user :: "int \<Rightarrow> db \<Rightarrow> role_row list" where
  [repo_defs]: "roles_of_user user d =
     map the (filter (\<lambda>r. r \<noteq> None)
       (map (\<lambda>r. find_row (\<lambda>x. role_id x = ur_role_id r) (roles d))
         (select_rows (\<lambda>r. ur_user_id r = user \<and> ur_deleted_at r = None) (user_roles d))))"

definition get_roles_by_user :: "int \<Rightarrow> db \<Rightarrow> role_code list" where
  [service_defs]: "get_roles_by_user user d = map role_code (roles_of_user user d)"

definition get_role_ids_by_user :: "int \<Rightarrow> db \<Rightarrow> int list" where
  [service_defs]: "get_role_ids_by_user user d = map role_id (roles_of_user user d)"

section \<open>Login attempts\<close>

definition create_login_attempt ::
    "int \<Rightarrow> int option \<Rightarrow> string \<Rightarrow> string \<Rightarrow> bool \<Rightarrow> string option \<Rightarrow> unit action" where
  [repo_defs]: "create_login_attempt now user ip agent success reason d =
     (if (case user of None \<Rightarrow> False | Some u \<Rightarrow> user_of d u = None) then (Inl P2003, d)
      else (Inr (), d\<lparr>login_attempts := insert_row (\<lambda>i.
         \<lparr>la_id = i, la_user_id = user, la_ip = Some ip, la_user_agent = Some agent,
          la_success = Some success, la_failure_reason = reason, la_created_at = now\<rparr>) (login_attempts d)\<rparr>))"

section \<open>Devices\<close>

definition MAX_DEVICES :: int where "MAX_DEVICES = 4"

definition active_device :: "int \<Rightarrow> device_row \<Rightarrow> bool" where
  "active_device user v \<longleftrightarrow> dev_user_id v = user \<and> dev_revoked_at v = None"

definition device_of :: "db \<Rightarrow> int \<Rightarrow> device_row option" where
  "device_of d i = find_row (\<lambda>v. dev_id v = i) (devices d)"

definition find_device :: "int \<Rightarrow> string \<Rightarrow> db \<Rightarrow> device_row option" where
  [repo_defs]: "find_device user fp d =
     find_row (\<lambda>v. dev_user_id v = user \<and> dev_fingerprint v = fp) (devices d)"

definition count_active_devices :: "int \<Rightarrow> db \<Rightarrow> int" where
  [repo_defs]: "count_active_devices user d = count_rows (active_device user) (devices d)"

text \<open>\<open>lastSeenAt asc\<close>: a NULL comes first.\<close>

definition oldest_first :: "device_row list \<Rightarrow> device_row list" where
  "oldest_first vs = filter (\<lambda>v. dev_last_seen_at v = None) vs
     @ sort_key (\<lambda>v. the (dev_last_seen_at v)) (filter (\<lambda>v. dev_last_seen_at v \<noteq> None) vs)"

definition update_device :: "int \<Rightarrow> (device_row \<Rightarrow> device_row) \<Rightarrow> device_row action" where
  [repo_defs]: "update_device i f d =
     (case device_of d i of
        None \<Rightarrow> (Inl P2025, d)
      | Some v \<Rightarrow> (Inr (f v), d\<lparr>devices := map_rows (\<lambda>v. dev_id v = i) f (devices d)\<rparr>))"

definition revoke_oldest_device :: "int \<Rightarrow> int \<Rightarrow> device_row option action" where
  [repo_defs]: "revoke_oldest_device now user d =
     (case oldest_first (select_rows (active_device user) (devices d)) of
        [] \<Rightarrow> (Inr None, d)
      | v # _ \<Rightarrow> await (update_device (dev_id v) (\<lambda>v. v\<lparr>dev_revoked_at := Some now\<rparr>) d) (\<lambda>v. ret (Some v)))"

definition new_device :: "int \<Rightarrow> int \<Rightarrow> string \<Rightarrow> string option \<Rightarrow> int \<Rightarrow> device_row" where
  "new_device now user fp name i =
     \<lparr>dev_id = i, dev_user_id = user, dev_fingerprint = fp, dev_name = name,
      dev_first_seen_at = Some now, dev_last_seen_at = Some now, dev_revoked_at = None\<rparr>"

definition create_device :: "int \<Rightarrow> int \<Rightarrow> string \<Rightarrow> string option \<Rightarrow> device_row action" where
  [repo_defs]: "create_device now user fp name d =
     (if find_device user fp d \<noteq> None then (Inl P2002, d)
      else if user_of d user = None then (Inl P2003, d)
      else (Inr (new_device now user fp name (serial (devices d))),
            d\<lparr>devices := insert_row (new_device now user fp name) (devices d)\<rparr>))"

definition device_name_of :: "string \<Rightarrow> string option" where
  "device_name_of agent = (if agent = [] then None else Some (parse_device_name agent))"

definition touch_device :: "int \<Rightarrow> string option \<Rightarrow> device_row \<Rightarrow> device_row" where
  "touch_device now name v =
     v\<lparr>dev_name := (case name of None \<Rightarrow> dev_name v | Some n \<Rightarrow> Some n),
       dev_first_seen_at := (case dev_first_seen_at v of None \<Rightarrow> Some now | Some t \<Rightarrow> Some t),
       dev_last_seen_at := Some now\<rparr>"

definition upsert_device_on_login :: "int \<Rightarrow> int \<Rightarrow> string \<Rightarrow> string \<Rightarrow> device_row action" where
  [service_defs]: "upsert_device_on_login now user fp agent d =
     (let name = device_name_of agent; existing = find_device user fp d in
      case existing of
        Some v \<Rightarrow>
          if dev_revoked_at v = None then update_device (dev_id v) (touch_device now name) d
          else await (if MAX_DEVICES \<le> count_active_devices user d then revoke_oldest_device now user d
                      else (Inr None, d))
                 (\<lambda>_. update_device (dev_id v) (\<lambda>v. touch_device now name (v\<lparr>dev_revoked_at := None\<rparr>)))
      | None \<Rightarrow>
          await (if MAX_DEVICES \<le> count_active_devices user d then revoke_oldest_device now user d
                 else (Inr None, d))
            (\<lambda>_. create_device now user fp name))"

section \<open>Sessions\<close>

definition session_of :: "db \<Rightarrow> int \<Rightarrow> session_row option" where
  "session_of d i = find_row (\<lambda>s. ses_id s = i) (sessions d)"

definition find_session_by_hash :: "string \<Rightarrow> db \<Rightarrow> session_row option" where
  [repo_defs]: "find_session_by_hash h d = find_row (\<lambda>s. ses_refresh_hash s = h) (sessions d)"

definition find_active_sessions :: "int \<Rightarrow> db \<Rightarrow> session_row list" where
  [repo_defs]: "find_active_sessions user d =
     sort_key (\<lambda>s. - ses_created_at s)
       (select_rows (\<lambda>s. ses_user_id s = user \<and> ses_revoked_at s = None \<and> ses_status s = Ses_ACTIVE) (sessions d))"

definition update_session :: "int \<Rightarrow> (session_row \<Rightarrow> session_row) \<Rightarrow> unit action" where
  [repo_defs]: "update_session i f d =
     (if session_of d i = None then (Inl P2025, d)
      else (Inr (), d\<lparr>sessions := map_rows (\<lambda>s. ses_id s = i) f (sessions d)\<rparr>))"

definition refresh_expires_at :: "auth_env \<Rightarrow> int res" where
  "refresh_expires_at env =
     (case ae_refresh_seconds env of
        None \<Rightarrow> Inl (JsError ''Invalid REFRESH_TOKEN_TIME config'')
      | Some s \<Rightarrow> Inr (ae_now env + s * 1000))"

definition new_session :: "auth_env \<Rightarrow> int \<Rightarrow> string \<Rightarrow> string \<Rightarrow> int option \<Rightarrow> int \<Rightarrow> int \<Rightarrow> session_row" where
  "new_session env user ip agent device expires i =
     \<lparr>ses_id = i, ses_user_id = user, ses_device_id = device, ses_ip = Some ip, ses_status = Ses_ACTIVE,
      ses_refresh_hash = ae_sha256 env (ae_refresh_token env), ses_user_agent = Some agent,
      ses_created_at = ae_now env, ses_expires_at = Some expires, ses_revoked_at = None\<rparr>"

definition create_session :: "auth_env \<Rightarrow> int \<Rightarrow> string \<Rightarrow> string \<Rightarrow> int option \<Rightarrow> unit action" where
  [service_defs]: "create_session env user ip agent device d =
     (case refresh_expires_at env of
        Inl e \<Rightarrow> (Inl e, d)
      | Inr expires \<Rightarrow>
          if find_session_by_hash (ae_sha256 env (ae_refresh_token env)) d \<noteq> None then (Inl P2002, d)
          else if user_of d user = None then (Inl P2003, d)
          else (Inr (), d\<lparr>sessions := insert_row (new_session env user ip agent device expires) (sessions d)\<rparr>))"

definition rotate_session :: "auth_env \<Rightarrow> int \<Rightarrow> string \<Rightarrow> unit action" where
  [service_defs]: "rotate_session env i agent d =
     (case refresh_expires_at env of
        Inl e \<Rightarrow> (Inl e, d)
      | Inr expires \<Rightarrow>
          if \<exists>s\<in>set (rows (sessions d)). ses_id s \<noteq> i \<and> ses_refresh_hash s = ae_sha256 env (ae_refresh_token env)
          then (Inl P2002, d)
          else update_session i (\<lambda>s. s\<lparr>ses_status := Ses_ACTIVE,
                 ses_refresh_hash := ae_sha256 env (ae_refresh_token env), ses_user_agent := Some agent,
                 ses_expires_at := Some expires, ses_revoked_at := None\<rparr>) d)"

definition mark_session_expired :: "int \<Rightarrow> int \<Rightarrow> unit action" where
  [service_defs]: "mark_session_expired now i =
     update_session i (\<lambda>s. s\<lparr>ses_status := Ses_EXPIRED, ses_revoked_at := Some now\<rparr>)"

definition revoke_session_by_token :: "auth_env \<Rightarrow> string \<Rightarrow> unit action" where
  [service_defs]: "revoke_session_by_token env token d =
     (case find_session_by_hash (ae_sha256 env token) d of
        None \<Rightarrow> (Inr (), d)
      | Some s \<Rightarrow> update_session (ses_id s)
          (\<lambda>s. s\<lparr>ses_status := Ses_REVOKED, ses_revoked_at := Some (ae_now env)\<rparr>) d)"

section \<open>Revoked access tokens\<close>

definition upsert_revoked_token :: "string \<Rightarrow> int \<Rightarrow> unit action" where
  [repo_defs]: "upsert_revoked_token h expires d =
     (if find_row (\<lambda>t. rt_token_hash t = h) (revoked_tokens d) \<noteq> None
      then (Inr (), d\<lparr>revoked_tokens := map_rows (\<lambda>t. rt_token_hash t = h)
              (\<lambda>t. t\<lparr>rt_expires_at := expires\<rparr>) (revoked_tokens d)\<rparr>)
      else (Inr (), d\<lparr>revoked_tokens := insert_row (\<lambda>i. \<lparr>rt_id = i, rt_token_hash = h, rt_expires_at = expires\<rparr>)
              (revoked_tokens d)\<rparr>))"

definition is_revoked :: "string \<Rightarrow> db \<Rightarrow> bool" where
  [repo_defs]: "is_revoked h d \<longleftrightarrow> find_row (\<lambda>t. rt_token_hash t = h) (revoked_tokens d) \<noteq> None"

section \<open>The service\<close>

definition ONE_DAY_IN_MS :: int where "ONE_DAY_IN_MS = 24 * 60 * 60 * 1000"
definition RESEND_BLOCK_WINDOW_IN_MS :: int where "RESEND_BLOCK_WINDOW_IN_MS = 5 * 60 * 60 * 1000"
definition RESEND_MAX_ATTEMPTS_PER_DAY :: int where "RESEND_MAX_ATTEMPTS_PER_DAY = 5"

record token_pair =
  tp_access :: string
  tp_refresh :: string

definition sign_token_pair :: "auth_env \<Rightarrow> jwt_payload \<Rightarrow> token_pair" where
  "sign_token_pair env p = \<lparr>tp_access = ae_sign env p, tp_refresh = ae_refresh_token env\<rparr>"

definition sign_verify_code :: "auth_env \<Rightarrow> int" where
  "sign_verify_code env = ae_now env + OTP_TIME_SECONDS * 1000"

record register_body =
  rb_email :: string
  rb_password :: string
  rb_confirm_password :: string
  rb_first_name :: "string option"
  rb_last_name :: "string option"

definition verification_job :: "verification_row \<times> email_row \<Rightarrow> string option \<Rightarrow> email_job" where
  "verification_job vm origin =
     \<lparr>ej_name = SEND_EMAIL, ej_outbox_id = eo_id (snd vm), ej_verification_id = vc_id (fst vm), ej_origin_url = origin\<rparr>"

definition register_account ::
    "auth_env \<Rightarrow> role_row option \<Rightarrow> register_body \<Rightarrow> string \<Rightarrow> string \<Rightarrow> string \<Rightarrow> int option
       \<Rightarrow> (auth_me \<times> token_pair \<times> email_job) action" where
  [service_defs]: "register_account env cached_role body agent ip origin guest d =
     (if rb_password body \<noteq> rb_confirm_password body then (Inl (BadRequest ''PASSWORD_CONFIRM_MISMATCH''), d)
      else if find_user_by_email (rb_email body) d \<noteq> None then (Inl (ConflictExn ''EMAIL_EXISTS''), d)
      else await (create_user (ae_now env) (rb_email body) (ae_bcrypt_hash env (rb_password body))
                    (rb_first_name body) (rb_last_name body) d) (\<lambda>user d.
        let tokens = sign_token_pair env \<lparr>jp_sub = int_string (me_id user),
              jp_is_email_verified = me_is_email_verified user, jp_roles = [CUSTOMER]\<rparr> in
        case find_role_by_name cached_role ''customer'' d of
          None \<Rightarrow> (Inl (BadRequest ''ACCOUNT_CREATE_FAILED''), d)
        | Some role \<Rightarrow>
            await (promise_all (create_user_role (me_id user) (role_id role) None)
                    (promise_all (create_login_attempt (ae_now env) (Some (me_id user)) ip agent True None)
                      (create_session env (me_id user) ip agent None)) d) (\<lambda>_ d.
              await (create_register_verification (ae_now env) (me_id user) (me_email user) (sign_verify_code env) d)
                (\<lambda>vm d.
                  await (case guest of None \<Rightarrow> (Inr 0, d)
                         | Some g \<Rightarrow> convert_guest_session (ae_now env) g (me_id user) d)
                    (\<lambda>_. ret (user, tokens, verification_job vm (Some origin)))))))"

definition verify_email :: "auth_env \<Rightarrow> string \<Rightarrow> unit action" where
  [service_defs]: "verify_email env token d =
     (case find_active_register (ae_sha256 env token) d of
        None \<Rightarrow> (Inl (BadRequest ''INVALID_OR_EXPIRED_VERIFY_TOKEN''), d)
      | Some v \<Rightarrow>
          await (mark_used_by_id (vc_id v) (ae_now env) d) (\<lambda>_ d.
            if vc_expires_at v < ae_now env then (Inl (BadRequest ''INVALID_OR_EXPIRED_VERIFY_TOKEN''), d)
            else case vc_user_id v of
                   None \<Rightarrow> (Inl (BadRequest ''INVALID_OR_EXPIRED_VERIFY_TOKEN''), d)
                 | Some u \<Rightarrow> if u = 0 then (Inl (BadRequest ''INVALID_OR_EXPIRED_VERIFY_TOKEN''), d)
                             else mark_email_verified (ae_now env) u d))"

definition resend_quota_exceeded :: "int \<Rightarrow> string \<Rightarrow> db \<Rightarrow> bool" where
  "resend_quota_exceeded now email d \<longleftrightarrow>
     RESEND_MAX_ATTEMPTS_PER_DAY \<le> count_otp_register_since email (now - ONE_DAY_IN_MS) d
     \<and> (case find_latest_otp_register_since email (now - ONE_DAY_IN_MS) d of
          None \<Rightarrow> False | Some m \<Rightarrow> now < eo_created_at m + RESEND_BLOCK_WINDOW_IN_MS)"

definition resend_email :: "auth_env \<Rightarrow> string \<Rightarrow> email_job option action" where
  [service_defs]: "resend_email env email d =
     (case find_user_by_email email d of
        None \<Rightarrow> (Inr None, d)
      | Some u \<Rightarrow>
          if usr_is_email_verified u then (Inr None, d)
          else if resend_quota_exceeded (ae_now env) email d
          then (Inl (TooManyRequests ''RESEND_VERIFY_EMAIL_QUOTA_EXCEEDED''), d)
          else await (create_register_verification (ae_now env) (usr_id u) (usr_email u) (sign_verify_code env)
                       (cancel_otp_register_in_progress email (mark_all_register_unused email (ae_now env) d)))
                 (\<lambda>vm. ret (Some (verification_job vm None))))"

record login_body =
  lb_email :: string
  lb_password :: string
  lb_device_fingerprint :: "string option"

definition login :: "auth_env \<Rightarrow> login_body \<Rightarrow> string \<Rightarrow> string \<Rightarrow> (auth_me \<times> token_pair) action" where
  [service_defs]: "login env body agent ip d =
     (case find_user_by_email (lb_email body) d of
        None \<Rightarrow>
          await (create_login_attempt (ae_now env) None ip agent False (Some ''LOGIN_FAILED'') d)
            (\<lambda>_. throw (Unauthorized ''LOGIN_FAILED''))
      | Some u \<Rightarrow>
          if \<not> ae_bcrypt_compare env (lb_password body) (usr_password u)
          then await (create_login_attempt (ae_now env) (Some (usr_id u)) ip agent False (Some ''LOGIN_FAILED'') d)
                 (\<lambda>_. throw (Unauthorized ''LOGIN_FAILED''))
          else
            let tokens = sign_token_pair env \<lparr>jp_sub = int_string (usr_id u),
                  jp_is_email_verified = usr_is_email_verified u, jp_roles = get_roles_by_user (usr_id u) d\<rparr> in
            await (upsert_device_on_login (ae_now env) (usr_id u)
                    (case lb_device_fingerprint body of None \<Rightarrow> ae_uuid env | Some f \<Rightarrow> f) agent d) (\<lambda>device d.
              await (promise_all (create_login_attempt (ae_now env) (Some (usr_id u)) ip agent True None)
                       (create_session env (usr_id u) ip agent (Some (dev_id device))) d)
                (\<lambda>_. ret (to_auth_me u, tokens))))"

text \<open>The controller fills in the fingerprint; the second component is the cookie it sets.\<close>

definition login_route ::
    "auth_env \<Rightarrow> login_body \<Rightarrow> string option \<Rightarrow> string \<Rightarrow> string \<Rightarrow> ((auth_me \<times> token_pair) \<times> string option) action" where
  [service_defs]: "login_route env body cookie agent ip d =
     (let fp = (if js_truthy (lb_device_fingerprint body) then the (lb_device_fingerprint body)
                else if js_truthy cookie then the cookie else ae_uuid env)
      in await (login env (body\<lparr>lb_device_fingerprint := Some fp\<rparr>) agent ip d)
           (\<lambda>r. ret (r, if js_truthy cookie then None else Some fp)))"

definition refresh_token :: "auth_env \<Rightarrow> string \<Rightarrow> session_row \<Rightarrow> (auth_me \<times> token_pair) action" where
  [service_defs]: "refresh_token env agent session d =
     (case user_of d (ses_user_id session) of
        None \<Rightarrow> (Inl (Unauthorized ''Unauthorized''), d)
      | Some u \<Rightarrow>
          let tokens = sign_token_pair env \<lparr>jp_sub = int_string (usr_id u),
                jp_is_email_verified = usr_is_email_verified u, jp_roles = get_roles_by_user (usr_id u) d\<rparr> in
          await (rotate_session env (ses_id session) agent d) (\<lambda>_. ret (to_auth_me u, tokens)))"

definition logout :: "auth_env \<Rightarrow> string option \<Rightarrow> string option \<Rightarrow> unit action" where
  [service_defs]: "logout env refresh access d =
     (if \<not> js_truthy refresh \<or> \<not> js_truthy access then (Inl (Unauthorized ''Unauthorized''), d)
      else case ae_verify_exp env (the access) of
             None \<Rightarrow> (Inl (Unauthorized ''Unauthorized''), d)
           | Some claim \<Rightarrow>
               (case claim of
                  None \<Rightarrow> (Inl (Unauthorized ''Unauthorized''), d)
                | Some e \<Rightarrow>
                    if e = 0 then (Inl (Unauthorized ''Unauthorized''), d)
                    else await (promise_all (upsert_revoked_token (ae_sha256 env (the access)) (e * 1000))
                                 (revoke_session_by_token env (the refresh)) d) (\<lambda>_. ret ())))"

definition change_password :: "auth_env \<Rightarrow> int \<Rightarrow> string \<Rightarrow> string \<Rightarrow> string \<Rightarrow> unit action" where
  [service_defs]: "change_password env user old new confirm d =
     (if new \<noteq> confirm then (Inl (BadRequest ''NEW_PASSWORD_CONFIRM_MISMATCH''), d)
      else case user_of d user of
             None \<Rightarrow> (Inl (Unauthorized ''Unauthorized''), d)
           | Some u \<Rightarrow>
               if \<not> ae_bcrypt_compare env old (usr_password u)
               then (Inl (BadRequest ''OLD_PASSWORD_INCORRECT''), d)
               else update_password (ae_now env) user (ae_bcrypt_hash env new) d)"

definition forgot_password :: "auth_env \<Rightarrow> string \<Rightarrow> email_job option action" where
  [service_defs]: "forgot_password env email d =
     (case find_user_by_email email d of
        None \<Rightarrow> (Inr None, d)
      | Some u \<Rightarrow>
          await (create_forgot_password_verification (ae_now env) (usr_id u) (usr_email u) (sign_verify_code env) d)
            (\<lambda>vm. ret (Some (verification_job vm None))))"

definition validate_reset_password_token :: "auth_env \<Rightarrow> string \<Rightarrow> bool action" where
  [service_defs]: "validate_reset_password_token env token d =
     (case find_active_forgot (ae_sha256 env token) None d of
        None \<Rightarrow> (Inr False, d)
      | Some v \<Rightarrow>
          if vc_expires_at v < ae_now env
          then await (mark_used_by_id (vc_id v) (ae_now env) d) (\<lambda>_. ret False)
          else (Inr True, d))"

record reset_body =
  rp_email :: string
  rp_token :: string
  rp_password :: string
  rp_confirmation :: string

definition reset_password :: "auth_env \<Rightarrow> reset_body \<Rightarrow> unit action" where
  [service_defs]: "reset_password env body d =
     (if rp_password body \<noteq> rp_confirmation body
      then (Inl (BadRequest ''RESET_PASSWORD_CONFIRM_MISMATCH''), d)
      else case find_active_forgot (ae_sha256 env (rp_token body)) (Some (rp_email body)) d of
             None \<Rightarrow> (Inl (BadRequest ''INVALID_OR_EXPIRED_RESET_TOKEN''), d)
           | Some v \<Rightarrow>
               if vc_expires_at v < ae_now env
               then await (mark_used_by_id (vc_id v) (ae_now env) d)
                      (\<lambda>_. throw (BadRequest ''INVALID_OR_EXPIRED_RESET_TOKEN''))
               else (case find_user_by_email (rp_email body) d of
                      None \<Rightarrow> (Inl (BadRequest ''INVALID_OR_EXPIRED_RESET_TOKEN''), d)
                    | Some u \<Rightarrow>
                        await (update_password (ae_now env) (usr_id u) (ae_bcrypt_hash env (rp_password body)) d)
                          (\<lambda>_. mark_used_by_id (vc_id v) (ae_now env))))"

definition get_me :: "int \<Rightarrow> db \<Rightarrow> (auth_me \<times> string list) option" where
  [service_defs]: "get_me i d =
     map_option (\<lambda>u. (to_auth_me u,
       concat (map (\<lambda>r. concat (map (\<lambda>rp. map perm_code (filter (\<lambda>p. perm_id p = rp_permission_id rp) (rows (permissions d))))
                 (select_rows (\<lambda>rp. rp_role_id rp = ur_role_id r) (role_permissions d))))
         (select_rows (\<lambda>r. ur_user_id r = i) (user_roles d))))) (user_of d i)"

section \<open>Guards\<close>

text \<open>\<open>extractTokenFromHeader\<close> of the guards for access tokens.\<close>

definition bearer_token :: "string option \<Rightarrow> string option" where
  "bearer_token header =
     (case header of
        None \<Rightarrow> None
      | Some h \<Rightarrow>
          (case js_split (CHR '' '') h of
             ty # token # _ \<Rightarrow> if ty = ''Bearer'' then Some token else None
           | _ \<Rightarrow> None))"

text \<open>The payload of the request, \<open>None\<close> on a public or refresh route; a revoked token is refused without its own message.\<close>

definition auth_guard :: "auth_env \<Rightarrow> bool \<Rightarrow> bool \<Rightarrow> string option \<Rightarrow> db \<Rightarrow> jwt_payload option res" where
  [service_defs]: "auth_guard env is_public is_refresh header d =
     (if is_public \<or> is_refresh then Inr None
      else if \<not> js_truthy (bearer_token header) then Inl (Unauthorized ''Unauthorized'')
      else let token = the (bearer_token header) in
        case ae_verify env token of
          None \<Rightarrow> Inl (Unauthorized ''Unauthorized'')
        | Some payload \<Rightarrow>
            if is_revoked (ae_sha256 env token) d then Inl (Unauthorized ''Unauthorized'')
            else Inr (Some payload))"

text \<open>A header is absent, a text, or a list of texts.\<close>

datatype header_value = No_Header | Header string | Headers "string list"

definition refresh_header :: "header_value \<Rightarrow> string option" where
  "refresh_header h =
     (let s = (case h of No_Header \<Rightarrow> None | Header t \<Rightarrow> Some t
               | Headers ts \<Rightarrow> (case ts of [] \<Rightarrow> None | t # _ \<Rightarrow> Some t))
      in case s of None \<Rightarrow> None | Some t \<Rightarrow> if js_trim t = [] then None else Some (js_trim t))"

definition refresh_guard :: "auth_env \<Rightarrow> bool \<Rightarrow> header_value \<Rightarrow> session_row option action" where
  [service_defs]: "refresh_guard env is_refresh header d =
     (if \<not> is_refresh then (Inr None, d)
      else case refresh_header header of
             None \<Rightarrow> (Inl (Unauthorized ''Unauthorized''), d)
           | Some token \<Rightarrow>
               (case find_session_by_hash (ae_sha256 env token) d of
                  None \<Rightarrow> (Inl (Unauthorized ''Unauthorized''), d)
                | Some s \<Rightarrow>
                    if ses_status s \<noteq> Ses_ACTIVE \<or> ses_revoked_at s \<noteq> None
                    then (Inl (Unauthorized ''Unauthorized''), d)
                    else if (case ses_expires_at s of None \<Rightarrow> False | Some t \<Rightarrow> t < ae_now env)
                    then await (mark_session_expired (ae_now env) (ses_id s) d)
                           (\<lambda>_. throw (Unauthorized ''Unauthorized''))
                    else (Inr (Some s), d)))"

record shopper_request =
  sr_authorization :: "string option"
  sr_guest_cookie :: "int option"
  sr_forwarded_for :: header_value
  sr_ip :: "string option"
  sr_remote_address :: "string option"
  sr_user_agent :: "string option"

definition resolve_ip :: "shopper_request \<Rightarrow> string option" where
  "resolve_ip r =
     (let first = (\<lambda>s. js_trim (hd (js_split (CHR '','') s)));
          direct = (case sr_ip r of Some ip \<Rightarrow> Some ip | None \<Rightarrow> sr_remote_address r)
      in case sr_forwarded_for r of
           No_Header \<Rightarrow> direct
         | Header s \<Rightarrow> if js_trim s \<noteq> [] then Some (first s) else direct
         | Headers ss \<Rightarrow> (case ss of [] \<Rightarrow> direct | s # _ \<Rightarrow> if s \<noteq> [] then Some (first s) else direct))"

definition hash_user_agent :: "auth_env \<Rightarrow> shopper_request \<Rightarrow> string option" where
  "hash_user_agent env r =
     (if js_truthy (sr_user_agent r) then Some (ae_sha256 env (the (sr_user_agent r))) else None)"

definition attach_guest_session :: "auth_env \<Rightarrow> shopper_request \<Rightarrow> int action" where
  [service_defs]: "attach_guest_session env r d =
     await (case sr_guest_cookie r of None \<Rightarrow> (Inr None, d) | Some g \<Rightarrow> update_guest_seen (ae_now env) g d)
       (\<lambda>found d. case found of
          Some s \<Rightarrow> (Inr (gs_id s), d)
        | None \<Rightarrow> await (create_guest_session (ae_now env) (sr_guest_cookie r) (resolve_ip r) (hash_user_agent env r) d)
                    (\<lambda>s. ret (gs_id s)))"

definition shopper_guard :: "auth_env \<Rightarrow> shopper_request \<Rightarrow> (jwt_payload option \<times> int) action" where
  [service_defs]: "shopper_guard env r d =
     (let token = bearer_token (sr_authorization r);
          user = (if js_truthy token then ae_verify env (the token) else None)
      in await (attach_guest_session env r d) (\<lambda>g. ret (user, g)))"

definition payment_token :: "string option \<Rightarrow> string option" where
  "payment_token header =
     (if \<not> js_truthy header then None
      else case js_split (CHR '' '') (js_trim (the header)) of
             [] \<Rightarrow> None
           | scheme # parts \<Rightarrow>
               if scheme = [] \<or> parts = [] then None
               else if to_lower scheme \<noteq> ''apikey'' then None
               else let token = js_trim (js_join '' '' parts) in if token = [] then None else Some token)"

definition payment_guard :: "bool \<Rightarrow> string option \<Rightarrow> string option \<Rightarrow> unit res" where
  [service_defs]: "payment_guard is_payment api_key header =
     (if \<not> is_payment then Inr ()
      else case payment_token header of
             None \<Rightarrow> Inl (Unauthorized ''Unauthorized'')
           | Some token \<Rightarrow>
               if \<not> js_truthy api_key \<or> the api_key \<noteq> token then Inl (Unauthorized ''Unauthorized'') else Inr ())"

definition roles_guard :: "role_code list option \<Rightarrow> role_code list option \<Rightarrow> bool" where
  [service_defs]: "roles_guard required owned =
     (case required of
        None \<Rightarrow> True
      | Some rs \<Rightarrow> list_ex (\<lambda>r. case owned of None \<Rightarrow> False | Some mine \<Rightarrow> r \<in> set mine) rs)"

text \<open>\<open>getByRoleId\<close>: the codes of the permissions of a role, the newest grant first, whatever their state.\<close>

definition permission_codes_of_role :: "int \<Rightarrow> db \<Rightarrow> string list" where
  [service_defs]: "permission_codes_of_role role d =
     concat (map (\<lambda>rp. map perm_code (filter (\<lambda>p. perm_id p = rp_permission_id rp) (rows (permissions d))))
       (rev (select_rows (\<lambda>rp. rp_role_id rp = role) (role_permissions d))))"

text \<open>The guard and the permission lists it leaves in the cache, by role.\<close>

definition permissions_guard ::
    "string option \<Rightarrow> int \<Rightarrow> (int \<Rightarrow> string list option) \<Rightarrow> db \<Rightarrow> unit res \<times> (int \<Rightarrow> string list option)" where
  [service_defs]: "permissions_guard required user cache d =
     (case required of
        None \<Rightarrow> (Inr (), cache)
      | Some code \<Rightarrow>
          let ids = get_role_ids_by_user user d;
              perms = (\<lambda>r. case cache r of Some ps \<Rightarrow> ps | None \<Rightarrow> permission_codes_of_role r d);
              cache' = (\<lambda>r. if r \<in> set ids then Some (perms r) else cache r)
          in (if code \<in> set (concat (map perms ids)) then Inr () else Inl (Forbidden ''Forbidden''), cache'))"

section \<open>Lemmas\<close>

lemma count_rows_update:
  assumes "wf_table key t" and "r \<in> set (rows t)" and "\<And>x. key (f x) = key x"
  shows "count_rows P (map_rows (\<lambda>x. key x = key r) f t) =
           count_rows P t - (if P r then 1 else 0) + (if P (f r) then 1 else 0)"
proof -
  let ?q = "\<lambda>x. if P x then 1 else 0 :: int"
  have count: "count_rows P s = sum_list (map ?q (rows s))" for s
    unfolding count_rows_def by (induction "rows s" arbitrary: s rule: list.induct)
      (auto simp: sum_list_map_filter' [symmetric] sum_list_triv)
  have "sum_list (map (?q \<circ> (\<lambda>x. if key x = key r then f x else x)) (rows t)) =
      sum_list (map ?q (rows t)) - ?q r + ?q ((\<lambda>x. if key x = key r then f x else x) r)"
    using assms by (intro sum_list_map_update [where key = key]) (auto simp: wf_table_def)
  then show ?thesis by (simp add: count)
qed

lemma snd_await_value [simp]: "snd (await r (\<lambda>x. ret (f x))) = snd r"
  by (cases r; cases "fst r") auto

lemma snd_await_const: "snd (await r (\<lambda>_. k)) = snd (k (snd r)) \<or> snd (await r (\<lambda>_. k)) = snd r"
  by (cases r; cases "fst r") auto

lemma js_split_none: "c \<notin> set s \<Longrightarrow> js_split c s = [s]"
  by (induction s) auto

lemma js_split_at: "c \<notin> set a \<Longrightarrow> js_split c (a @ c # b) = a # js_split c b"
  by (induction a) auto

lemma bearer_header: "CHR '' '' \<notin> set t \<Longrightarrow> bearer_token (Some (''Bearer '' @ t)) = Some t"
  using js_split_at [of "CHR '' ''" "''Bearer''" t] js_split_none [of "CHR '' ''" t]
  by (simp add: bearer_token_def)

lemma find_session_after_update:
  assumes "\<And>s. ses_refresh_hash (f s) = ses_refresh_hash s"
  shows "find_session_by_hash h (snd (update_session i f d)) =
     map_option (\<lambda>s. if ses_id s = i then f s else s) (find_session_by_hash h d)"
proof (cases "session_of d i")
  case None
  then have "ses_id s \<noteq> i" if "find_session_by_hash h d = Some s" for s
    using that by (auto simp: session_of_def find_row_None find_session_by_hash_def dest!: find_row_SomeD)
  with None show ?thesis by (cases "find_session_by_hash h d") (simp_all add: update_session_def)
next
  case (Some s)
  then show ?thesis
    using assms by (simp add: update_session_def find_session_by_hash_def find_row_map_rows_same)
qed

section \<open>Properties\<close>

text \<open>
  C13: a password reset that succeeds sets the new password of the user with that e-mail address and of
  nobody else, and its token works only once: whatever the token is used for later, with whatever
  address, the request is refused and changes nothing.
\<close>
theorem reset_password_single_use:
  assumes "reset_password env body d = (Inr (), d')"
    and "wf_table usr_id (users d)" and "wf_table vc_id (verification_codes d)"
    and "\<And>v w. v \<in> set (rows (verification_codes d)) \<Longrightarrow> w \<in> set (rows (verification_codes d)) \<Longrightarrow>
           vc_code_hash v = Some (ae_sha256 env (rp_token body)) \<Longrightarrow>
           vc_code_hash w = Some (ae_sha256 env (rp_token body)) \<Longrightarrow> v = w"
    and "rp_token again = rp_token body"
  shows "(\<exists>u. find_user_by_email (rp_email body) d = Some u
            \<and> map_option usr_password (user_of d' (usr_id u)) = Some (ae_bcrypt_hash env (rp_password body))
            \<and> (\<forall>i. i \<noteq> usr_id u \<longrightarrow> user_of d' i = user_of d i))
       \<and> (\<exists>e. reset_password (env\<lparr>ae_now := later\<rparr>) again d' = (Inl e, d'))"
proof -
  let ?h = "ae_sha256 env (rp_token body)"
  let ?f = "\<lambda>u. u\<lparr>usr_password := ae_bcrypt_hash env (rp_password body), usr_password_changed_at := Some (ae_now env)\<rparr>"
  let ?g = "\<lambda>v. v\<lparr>vc_used_at := Some (ae_now env)\<rparr>"
  obtain v u where v: "find_active_forgot ?h (Some (rp_email body)) d = Some v"
    and u: "find_user_by_email (rp_email body) d = Some u"
    and run: "await (update_password (ae_now env) (usr_id u) (ae_bcrypt_hash env (rp_password body)) d)
       (\<lambda>_. mark_used_by_id (vc_id v) (ae_now env)) = (Inr (), d')"
    using assms(1) by (auto simp: reset_password_def split: if_splits option.splits elim!: await_InrD)
  have u_in: "u \<in> set (rows (users d))" using find_row_SomeD [OF u [unfolded find_user_by_email_def]] by simp
  have v_in: "v \<in> set (rows (verification_codes d))" "vc_code_hash v = Some ?h"
    using find_row_SomeD [OF v [unfolded find_active_forgot_def]] by simp_all
  from run have d': "d' = d\<lparr>users := map_rows (\<lambda>x. usr_id x = usr_id u) ?f (users d),
      verification_codes := map_rows (\<lambda>x. vc_id x = vc_id v) ?g (verification_codes d)\<rparr>"
    by (auto simp: update_password_def update_user_def mark_used_by_id_def update_verification_def
        verification_of_def elim!: await_InrD split: if_splits)
  have "user_of d (usr_id u) = Some u" using find_row_key [OF assms(2) u_in] by (simp add: user_of_def)
  then have "map_option usr_password (user_of d' (usr_id u)) = Some (ae_bcrypt_hash env (rp_password body))"
    and "\<forall>i. i \<noteq> usr_id u \<longrightarrow> user_of d' i = user_of d i"
    by (simp_all add: user_of_def d' find_key_modify)
  moreover have "find_active_forgot ?h email d' = None" for email
  proof -
    have "vc_used_at x \<noteq> None" if "x \<in> set (rows (verification_codes d'))" "vc_code_hash x = Some ?h" for x
    proof -
      from that(1) obtain y where y: "y \<in> set (rows (verification_codes d))" and x: "x = (if vc_id y = vc_id v then ?g y else y)"
        by (auto simp: d')
      have "vc_code_hash y = Some ?h" using that(2) x by (simp split: if_splits)
      from assms(4) [OF y v_in(1) this v_in(2)] x show ?thesis by simp
    qed
    then show ?thesis by (auto simp: find_active_forgot_def find_row_None)
  qed
  then have "\<exists>e. reset_password (env\<lparr>ae_now := later\<rparr>) again d' = (Inl e, d')"
    using assms(5) by (simp add: reset_password_def)
  ultimately show ?thesis using u by blast
qed

definition sample_auth_env :: "int \<Rightarrow> string \<Rightarrow> auth_env" where
  "sample_auth_env now token =
     \<lparr>ae_now = now, ae_refresh_token = token, ae_uuid = ''uuid'', ae_sha256 = (\<lambda>s. s), ae_bcrypt_hash = (\<lambda>s. CHR ''#'' # s),
      ae_bcrypt_compare = (\<lambda>p h. h = CHR ''#'' # p), ae_sign = (\<lambda>p. jp_sub p),
      ae_verify = (\<lambda>t. if t = ''7'' then Some \<lparr>jp_sub = ''7'', jp_is_email_verified = True, jp_roles = []\<rparr> else None),
      ae_verify_exp = (\<lambda>t. if t = ''7'' then Some (Some 900) else None), ae_refresh_seconds = Some 1000\<rparr>"

definition account_db :: db where
  "account_db = cart_shop\<lparr>verification_codes := \<lparr>rows =
       [(new_verification 0 7 ''a@b'' 3600000 FORGOT_PASSWORD 1)\<lparr>vc_code_hash := Some ''tok''\<rparr>], serial = 2\<rparr>,
     sessions := \<lparr>rows = [new_session (sample_auth_env 0 ''old'') 7 ''ip'' ''ua'' None 1000000 1], serial = 2\<rparr>\<rparr>"

definition sample_reset :: reset_body where
  "sample_reset = \<lparr>rp_email = ''a@b'', rp_token = ''tok'', rp_password = ''secret12'', rp_confirmation = ''secret12''\<rparr>"

lemma reset_password_single_use_witness:
  "\<exists>d'. reset_password (sample_auth_env 5 ''r'') sample_reset account_db = (Inr (), d')
     \<and> (\<exists>e. reset_password (sample_auth_env 6 ''r'') sample_reset d' = (Inl e, d'))"
proof -
  have "fst (reset_password (sample_auth_env 5 ''r'') sample_reset account_db) = Inr ()" by code_simp
  then obtain d' where run: "reset_password (sample_auth_env 5 ''r'') sample_reset account_db = (Inr (), d')"
    by (cases "reset_password (sample_auth_env 5 ''r'') sample_reset account_db") simp
  have later: "(sample_auth_env 5 ''r'')\<lparr>ae_now := 6\<rparr> = sample_auth_env 6 ''r''" by (simp add: sample_auth_env_def)
  have "wf_table usr_id (users account_db)" "wf_table vc_id (verification_codes account_db)"
    by (simp_all add: wf_table_def account_db_def cart_shop_def reader_def new_verification_def)
  from reset_password_single_use [OF run this _ refl, of 6] run show ?thesis
    unfolding later by (auto simp: account_db_def)
qed

text \<open>
  C14: refreshing rotates the token: after a refresh the old token is refused, and the new one is
  accepted for the same session until it expires.
\<close>
theorem refresh_rotates_token:
  assumes "wf_table ses_id (sessions d)" and "distinct (map ses_refresh_hash (rows (sessions d)))"
    and "refresh_guard env True (Header old) d = (Inr (Some s), d)"
    and "refresh_token env agent s d = (Inr r, d')"
    and "js_trim old = old" and "js_trim (tp_refresh (snd r)) = tp_refresh (snd r)" and "tp_refresh (snd r) \<noteq> []"
    and "ae_sha256 env old \<noteq> ae_sha256 env (tp_refresh (snd r))"
    and "ae_refresh_seconds env = Some ttl" and "later \<le> ae_now env + ttl * 1000"
  shows "fst (refresh_guard (env\<lparr>ae_now := later\<rparr>) True (Header old) d') = Inl (Unauthorized ''Unauthorized'')
       \<and> (\<exists>s'. refresh_guard (env\<lparr>ae_now := later\<rparr>) True (Header (tp_refresh (snd r))) d' = (Inr (Some s'), d')
            \<and> ses_id s' = ses_id s \<and> ses_user_id s' = ses_user_id s)"
proof -
  let ?new = "tp_refresh (snd r)"
  let ?f = "\<lambda>x. x\<lparr>ses_status := Ses_ACTIVE, ses_refresh_hash := ae_sha256 env ?new, ses_user_agent := Some agent,
      ses_expires_at := Some (ae_now env + ttl * 1000), ses_revoked_at := None\<rparr>"
  have found: "find_session_by_hash (ae_sha256 env old) d = Some s" and old: "old \<noteq> []"
    using assms(3,5) by (auto simp: refresh_guard_def refresh_header_def Let_def elim!: await_InrD
        split: if_splits option.splits)
  have s: "s \<in> set (rows (sessions d))" "ses_refresh_hash s = ae_sha256 env old"
    using find_row_SomeD [OF found [unfolded find_session_by_hash_def]] by simp_all
  have new: "?new = ae_refresh_token env" and others:
    "\<And>x. x \<in> set (rows (sessions d)) \<Longrightarrow> ses_id x \<noteq> ses_id s \<Longrightarrow> ses_refresh_hash x \<noteq> ae_sha256 env ?new"
    and d': "d' = d\<lparr>sessions := map_rows (\<lambda>x. ses_id x = ses_id s) ?f (sessions d)\<rparr>"
    using assms(4,9) by (auto simp: refresh_token_def Let_def rotate_session_def refresh_expires_at_def
        update_session_def sign_token_pair_def elim!: await_InrD split: option.splits if_splits)
  have same: "x = s" if "x \<in> set (rows (sessions d))" "ses_id x = ses_id s" for x
    using that assms(1) s(1) by (auto simp: wf_table_def distinct_map dest: inj_onD)
  have rows': "set (rows (sessions d')) = {?f s} \<union> {x \<in> set (rows (sessions d)). ses_id x \<noteq> ses_id s}"
    using s(1) same by (auto simp: d')
  have "x = s" if "x \<in> set (rows (sessions d))" "ses_refresh_hash x = ae_sha256 env old" for x
    using inj_onD [of ses_refresh_hash "set (rows (sessions d))" x s] assms(2) that s by (simp add: distinct_map)
  moreover have "ses_refresh_hash (?f s) = ae_sha256 env ?new" by simp
  ultimately have "ses_refresh_hash x \<noteq> ae_sha256 env old" if "x \<in> set (rows (sessions d'))" for x
    using that assms(8) unfolding rows' by (metis (mono_tags, lifting) Un_iff mem_Collect_eq singletonD)
  then have "find_session_by_hash (ae_sha256 env old) d' = None"
    by (simp add: find_session_by_hash_def find_row_None)
  then have gone: "fst (refresh_guard (env\<lparr>ae_now := later\<rparr>) True (Header old) d') = Inl (Unauthorized ''Unauthorized'')"
    using assms(5) old by (simp add: refresh_guard_def refresh_header_def)
  have "find_session_by_hash (ae_sha256 env ?new) d' = Some (?f s)"
  proof (cases "find_session_by_hash (ae_sha256 env ?new) d'")
    case None
    have "?f s \<in> set (rows (sessions d'))" unfolding rows' by blast
    with None show ?thesis unfolding find_session_by_hash_def find_row_None by fastforce
  next
    case (Some x)
    then have "x \<in> set (rows (sessions d'))" "ses_refresh_hash x = ae_sha256 env ?new"
      using find_row_SomeD [OF Some [unfolded find_session_by_hash_def]] by simp_all
    then have "x = ?f s" using others unfolding rows' by blast
    with Some show ?thesis by simp
  qed
  then have "refresh_guard (env\<lparr>ae_now := later\<rparr>) True (Header ?new) d' = (Inr (Some (?f s)), d')"
    using assms(6,7,10) by (simp add: refresh_guard_def refresh_header_def)
  with gone show ?thesis by auto
qed

lemma refresh_rotates_token_witness:
  "\<exists>s r d'. refresh_guard (sample_auth_env 5 ''new'') True (Header ''old'') account_db = (Inr (Some s), account_db)
     \<and> refresh_token (sample_auth_env 5 ''new'') ''ua'' s account_db = (Inr r, d')
     \<and> fst (refresh_guard (sample_auth_env 6 ''new'') True (Header ''old'') d') = Inl (Unauthorized ''Unauthorized'')"
proof -
  define s where "s = new_session (sample_auth_env 0 ''old'') 7 ''ip'' ''ua'' None 1000000 1"
  have trim: "js_trim ''old'' = ''old''" "js_trim ''new'' = ''new''" by code_simp+
  have guard: "refresh_guard (sample_auth_env 5 ''new'') True (Header ''old'') account_db = (Inr (Some s), account_db)"
    by (simp add: refresh_guard_def refresh_header_def trim find_session_by_hash_def find_row_def account_db_def
        new_session_def sample_auth_env_def s_def)
  have "\<exists>r d'. refresh_token (sample_auth_env 5 ''new'') ''ua'' s account_db = (Inr r, d') \<and> tp_refresh (snd r) = ''new''"
    by (simp add: refresh_token_def rotate_session_def refresh_expires_at_def update_session_def session_of_def
        user_of_def find_row_def account_db_def cart_shop_def reader_def new_session_def sample_auth_env_def
        sign_token_pair_def s_def Let_def)
  then obtain r d' where run: "refresh_token (sample_auth_env 5 ''new'') ''ua'' s account_db = (Inr r, d')"
    and r: "tp_refresh (snd r) = ''new''" by blast
  have later: "(sample_auth_env 5 ''new'')\<lparr>ae_now := 6\<rparr> = sample_auth_env 6 ''new''" by (simp add: sample_auth_env_def)
  have "wf_table ses_id (sessions account_db)" "distinct (map ses_refresh_hash (rows (sessions account_db)))"
    by (simp_all add: wf_table_def account_db_def new_session_def)
  from refresh_rotates_token [OF this guard run, of 1000 6] r trim guard run show ?thesis
    unfolding later by (auto simp: sample_auth_env_def)
qed

text \<open>Devices.\<close>

lemma active_devices_update:
  assumes "wf_table dev_id (devices d)" and "v \<in> set (rows (devices d))"
    and "\<And>x. dev_id (f x) = dev_id x"
  shows "count_active_devices u (snd (update_device (dev_id v) f d)) =
     count_active_devices u d - (if active_device u v then 1 else 0) + (if active_device u (f v) then 1 else 0)"
    and "wf_table dev_id (devices (snd (update_device (dev_id v) f d)))"
    and "set (rows (devices (snd (update_device (dev_id v) f d)))) =
           {f v} \<union> {x \<in> set (rows (devices d)). dev_id x \<noteq> dev_id v}"
proof -
  have found: "device_of d (dev_id v) = Some v" using find_row_key [OF assms(1,2)] by (simp add: device_of_def)
  have state: "devices (snd (update_device (dev_id v) f d)) = map_rows (\<lambda>x. dev_id x = dev_id v) f (devices d)"
    by (simp add: update_device_def found)
  show "count_active_devices u (snd (update_device (dev_id v) f d)) =
     count_active_devices u d - (if active_device u v then 1 else 0) + (if active_device u (f v) then 1 else 0)"
    unfolding count_active_devices_def state by (rule count_rows_update [OF assms(1,2)]) (rule assms(3))
  show "wf_table dev_id (devices (snd (update_device (dev_id v) f d)))"
    unfolding state using assms by (intro wf_map_rows)
  have "x = v" if "x \<in> set (rows (devices d))" "dev_id x = dev_id v" for x
    using that assms(1,2) by (auto simp: wf_table_def distinct_map dest: inj_onD)
  then show "set (rows (devices (snd (update_device (dev_id v) f d)))) =
      {f v} \<union> {x \<in> set (rows (devices d)). dev_id x \<noteq> dev_id v}"
    unfolding state using assms(2) by auto
qed

lemma oldest_first_set [simp]: "set (oldest_first vs) = set vs"
  by (auto simp: oldest_first_def)

lemma revoke_oldest_effect:
  assumes "wf_table dev_id (devices d)"
  shows "wf_table dev_id (devices (snd (revoke_oldest_device now user d)))"
    and "count_active_devices u (snd (revoke_oldest_device now user d)) \<le> count_active_devices u d"
    and "0 < count_active_devices user d \<Longrightarrow>
           count_active_devices user (snd (revoke_oldest_device now user d)) = count_active_devices user d - 1"
    and "\<And>v. v \<in> set (rows (devices d)) \<Longrightarrow> \<not> active_device user v \<Longrightarrow>
           v \<in> set (rows (devices (snd (revoke_oldest_device now user d))))"
proof -
  let ?f = "\<lambda>v. v\<lparr>dev_revoked_at := Some now\<rparr>"
  let ?vs = "oldest_first (select_rows (active_device user) (devices d))"
  have all: "wf_table dev_id (devices (snd (revoke_oldest_device now user d)))
     \<and> count_active_devices u (snd (revoke_oldest_device now user d)) \<le> count_active_devices u d
     \<and> (0 < count_active_devices user d \<longrightarrow>
           count_active_devices user (snd (revoke_oldest_device now user d)) = count_active_devices user d - 1)
     \<and> (\<forall>v\<in>set (rows (devices d)). \<not> active_device user v \<longrightarrow>
           v \<in> set (rows (devices (snd (revoke_oldest_device now user d)))))"
  proof (cases ?vs)
    case Nil
    then have "set (select_rows (active_device user) (devices d)) = {}" by (metis oldest_first_set set_empty)
    then have "count_active_devices user d = 0"
      by (simp add: count_active_devices_def count_rows_def filter_empty_conv)
    with Nil assms show ?thesis by (simp add: revoke_oldest_device_def)
  next
    case (Cons v vs)
    then have "v \<in> set ?vs" by simp
    then have v: "v \<in> set (rows (devices d))" "active_device user v" by simp_all
    have step: "snd (revoke_oldest_device now user d) = snd (update_device (dev_id v) ?f d)"
      by (simp add: revoke_oldest_device_def Cons)
    have "\<not> active_device w (?f v)" for w by (simp add: active_device_def)
    moreover have "x = v" if "x \<in> set (rows (devices d))" "dev_id x = dev_id v" for x
      using that assms v(1) by (auto simp: wf_table_def distinct_map dest: inj_onD)
    ultimately show ?thesis
      unfolding step using v active_devices_update [OF assms v(1), of ?f] by auto
  qed
  from all show "wf_table dev_id (devices (snd (revoke_oldest_device now user d)))"
    and "count_active_devices u (snd (revoke_oldest_device now user d)) \<le> count_active_devices u d"
    and "0 < count_active_devices user d \<Longrightarrow>
           count_active_devices user (snd (revoke_oldest_device now user d)) = count_active_devices user d - 1"
    and "\<And>v. v \<in> set (rows (devices d)) \<Longrightarrow> \<not> active_device user v \<Longrightarrow>
           v \<in> set (rows (devices (snd (revoke_oldest_device now user d))))" by blast+
qed

lemma upsert_device_limit:
  assumes "wf_table dev_id (devices d)" and "\<And>u. count_active_devices u d \<le> MAX_DEVICES"
  shows "count_active_devices u (snd (upsert_device_on_login now user fp agent d)) \<le> MAX_DEVICES"
proof -
  let ?name = "device_name_of agent"
  let ?room = "snd (if MAX_DEVICES \<le> count_active_devices user d then revoke_oldest_device now user d else (Inr None, d))"
  have room: "wf_table dev_id (devices ?room)" "\<And>w. count_active_devices w ?room \<le> MAX_DEVICES"
      "count_active_devices user ?room < MAX_DEVICES"
  proof -
    have four: "count_active_devices w d \<le> 4" for w using assms(2) [of w] by (simp add: MAX_DEVICES_def)
    note effect = revoke_oldest_effect(1-3) [OF assms(1), where now = now and user = user]
    show "wf_table dev_id (devices ?room)" using effect(1) assms(1) by simp
    show "count_active_devices w ?room \<le> MAX_DEVICES" for w
      using effect(2) [of w] four [of w] by (simp add: MAX_DEVICES_def)
    show "count_active_devices user ?room < MAX_DEVICES"
      using effect(3) four [of user] by (cases "MAX_DEVICES \<le> count_active_devices user d") (simp_all add: MAX_DEVICES_def)
  qed
  have one_more: "count_active_devices w d2 \<le> MAX_DEVICES"
    if "count_active_devices w d2 \<le> count_active_devices w ?room + (if w = user then 1 else 0)" for w d2
    using that room(2) [of w] room(3) by (simp split: if_splits)
  note inner = snd_await_const [where r = "if MAX_DEVICES \<le> count_active_devices user d
      then revoke_oldest_device now user d else (Inr None, d)"]
  show ?thesis
  proof (cases "find_device user fp d")
    case None
    have "count_active_devices u (snd (create_device now user fp ?name ?room)) \<le>
        count_active_devices u ?room + (if u = user then 1 else 0)"
      by (auto simp: create_device_def count_active_devices_def count_rows_def active_device_def new_device_def)
    then have "count_active_devices u (snd (create_device now user fp ?name ?room)) \<le> MAX_DEVICES" by (rule one_more)
    then show ?thesis
      using inner [of "create_device now user fp ?name"] room(2) [of u] None
      by (auto simp: upsert_device_on_login_def Let_def)
  next
    case (Some v)
    then have v: "v \<in> set (rows (devices d))" "dev_user_id v = user"
      using find_row_SomeD [OF Some [unfolded find_device_def]] by simp_all
    show ?thesis
    proof (cases "dev_revoked_at v = None")
      case True
      have "active_device u (touch_device now ?name v) = active_device u v"
        by (simp add: active_device_def touch_device_def)
      then have "count_active_devices u (snd (update_device (dev_id v) (touch_device now ?name) d)) = count_active_devices u d"
        using active_devices_update(1) [OF assms(1) v(1), of "touch_device now ?name"] by (simp add: touch_device_def)
      with True Some assms(2) show ?thesis by (simp add: upsert_device_on_login_def)
    next
      case False
      let ?g = "\<lambda>v. touch_device now ?name (v\<lparr>dev_revoked_at := None\<rparr>)"
      have "v \<in> set (rows (devices ?room))"
        using revoke_oldest_effect(4) [OF assms(1) v(1), where user = user and now = now] False v(1) by (simp add: active_device_def)
      from active_devices_update(1) [OF room(1) this, of ?g u]
      have "count_active_devices u (snd (update_device (dev_id v) ?g ?room)) \<le>
          count_active_devices u ?room + (if u = user then 1 else 0)"
        using v(2) by (auto simp: touch_device_def active_device_def)
      then have "count_active_devices u (snd (update_device (dev_id v) ?g ?room)) \<le> MAX_DEVICES" by (rule one_more)
      then show ?thesis
        using inner [of "update_device (dev_id v) ?g"] room(2) [of u] Some False
        by (auto simp: upsert_device_on_login_def Let_def)
    qed
  qed
qed

lemma device_frames [row_frame]:
  "devices (snd (create_login_attempt now user ip agent ok reason d)) = devices d"
  "devices (snd (create_session env i ip agent dev d)) = devices d"
  by (simp_all add: create_login_attempt_def create_session_def split: sum.split option.split)



text \<open>
  C31: after a logout the access token and the refresh token are refused by their guards, but the guard
  of cart, wishlist and checkout never asks for revoked tokens: it still hands the request to the user
  of the access token.
\<close>
theorem logged_out_token_still_shops:
  assumes "logout env (Some refresh) (Some access) d = (Inr (), d')"
    and "js_trim refresh = refresh" and "CHR '' '' \<notin> set access"
    and "ae_verify env access = Some payload" and "sr_authorization r = Some (''Bearer '' @ access)"
    and "fst (shopper_guard env r d') = Inr (user, guest)"
  shows "auth_guard env False False (Some (''Bearer '' @ access)) d' = Inl (Unauthorized ''Unauthorized'')
       \<and> fst (refresh_guard env True (Header refresh) d') = Inl (Unauthorized ''Unauthorized'')
       \<and> user = Some payload"
proof -
  have truthy: "js_truthy (Some refresh)" "js_truthy (Some access)"
    using assms(1) by (auto simp: logout_def split: if_splits)
  obtain e where "promise_all (upsert_revoked_token (ae_sha256 env access) (e * 1000))
      (revoke_session_by_token env refresh) d = (Inr ((), ()), d')"
    using assms(1) truthy by (auto simp: logout_def elim!: await_InrD split: option.splits if_splits)
  then obtain d1 where revoked: "upsert_revoked_token (ae_sha256 env access) (e * 1000) d = (Inr (), d1)"
    and closed: "revoke_session_by_token env refresh d1 = (Inr (), d')"
    by (auto simp: promise_all_def split: prod.splits sum.splits)
  have "is_revoked (ae_sha256 env access) d1"
    using revoked by (auto simp: upsert_revoked_token_def is_revoked_def find_row_map_rows_same find_row_insert
        split: if_splits option.splits)
  moreover have "revoked_tokens d' = revoked_tokens d1"
    using closed by (auto simp: revoke_session_by_token_def update_session_def split: option.splits if_splits)
  ultimately have "is_revoked (ae_sha256 env access) d'" by (simp add: is_revoked_def)
  then have auth: "auth_guard env False False (Some (''Bearer '' @ access)) d' = Inl (Unauthorized ''Unauthorized'')"
    using truthy by (simp add: auth_guard_def bearer_header [OF assms(3)] assms(4) del: append.simps)
  have "case find_session_by_hash (ae_sha256 env refresh) d' of None \<Rightarrow> True | Some s \<Rightarrow> ses_status s = Ses_REVOKED"
  proof (cases "find_session_by_hash (ae_sha256 env refresh) d1")
    case None
    with closed show ?thesis by (simp add: revoke_session_by_token_def)
  next
    case (Some s)
    then have "find_session_by_hash (ae_sha256 env refresh) d' =
        Some (s\<lparr>ses_status := Ses_REVOKED, ses_revoked_at := Some (ae_now env)\<rparr>)"
      using closed find_session_after_update
          [of "\<lambda>s. s\<lparr>ses_status := Ses_REVOKED, ses_revoked_at := Some (ae_now env)\<rparr>" "ae_sha256 env refresh" "ses_id s" d1]
      by (simp add: revoke_session_by_token_def)
    then show ?thesis by simp
  qed
  then have "fst (refresh_guard env True (Header refresh) d') = Inl (Unauthorized ''Unauthorized'')"
    using assms(2) truthy by (auto simp: refresh_guard_def refresh_header_def js_truthy_def split: option.split)
  moreover have "user = Some payload"
    using assms(4-6) truthy(2) bearer_header [OF assms(3)]
    by (auto simp: shopper_guard_def Let_def elim!: await_InrE simp del: append.simps)
  ultimately show ?thesis using auth by blast
qed

definition sample_shopper :: shopper_request where
  "sample_shopper = \<lparr>sr_authorization = Some (''Bearer '' @ ''7''), sr_guest_cookie = Some 3, sr_forwarded_for = No_Header,
     sr_ip = None, sr_remote_address = None, sr_user_agent = None\<rparr>"

lemma logged_out_token_still_shops_witness:
  "\<exists>d'. logout (sample_auth_env 5 ''r'') (Some ''old'') (Some ''7'') account_db = (Inr (), d')
     \<and> auth_guard (sample_auth_env 5 ''r'') False False (Some (''Bearer '' @ ''7'')) d' = Inl (Unauthorized ''Unauthorized'')
     \<and> fst (shopper_guard (sample_auth_env 5 ''r'') sample_shopper d')
         = Inr (Some \<lparr>jp_sub = ''7'', jp_is_email_verified = True, jp_roles = []\<rparr>, 3)"
proof -
  let ?env = "sample_auth_env 5 ''r''"
  have "fst (logout ?env (Some ''old'') (Some ''7'') account_db) = Inr ()" by code_simp
  then obtain d' where run: "logout ?env (Some ''old'') (Some ''7'') account_db = (Inr (), d')"
    by (cases "logout ?env (Some ''old'') (Some ''7'') account_db") simp
  have trim: "js_trim ''old'' = ''old''" by code_simp
  have "fst (shopper_guard ?env sample_shopper (snd (logout ?env (Some ''old'') (Some ''7'') account_db)))
      = Inr (Some \<lparr>jp_sub = ''7'', jp_is_email_verified = True, jp_roles = []\<rparr>, 3)" by code_simp
  then have shop: "fst (shopper_guard ?env sample_shopper d')
      = Inr (Some \<lparr>jp_sub = ''7'', jp_is_email_verified = True, jp_roles = []\<rparr>, 3)" by (simp add: run)
  from logged_out_token_still_shops [OF run trim _ _ _ shop, of "\<lparr>jp_sub = ''7'', jp_is_email_verified = True, jp_roles = []\<rparr>"] run shop
  show ?thesis by (simp add: sample_auth_env_def sample_shopper_def)
qed

text \<open>What the worker does with a pending registration mail the server accepts.\<close>

lemma process_register_mail:
  assumes "wf_table eo_id (email_outbox (mw_db w))"
    and "find_email_pending (ej_outbox_id job) (mw_db w) = Some m" and "ej_name job = SEND_EMAIL"
    and "eo_template_key m = Some OTP_REGISTER_TEMPLATE_KEY"
    and "deliver (verify_mail tpl (eo_to_email m) (generate_link_with_type (ej_origin_url job) VERIFY_EMAIL token))"
    and "verification_of (mw_db w) (ej_verification_id job) \<noteq> None"
  shows "\<exists>w'. process_email deliver tpl hash token job w = (Inr (), w')
       \<and> mw_sent w' = mw_sent w @ [verify_mail tpl (eo_to_email m) (generate_link_with_type (ej_origin_url job) VERIFY_EMAIL token)]
       \<and> users (mw_db w') = users (mw_db w)
       \<and> verification_codes (mw_db w') = map_rows (\<lambda>v. vc_id v = ej_verification_id job)
            (\<lambda>v. v\<lparr>vc_code_hash := Some (hash token)\<rparr>) (verification_codes (mw_db w))"
proof -
  have m: "email_of (mw_db w) (eo_id m) = Some m" "eo_id m = ej_outbox_id job"
    using find_email_pendingD [OF assms(1,2)] by auto
  let ?d1 = "(mw_db w)\<lparr>verification_codes := map_rows (\<lambda>v. vc_id v = ej_verification_id job)
      (\<lambda>v. v\<lparr>vc_code_hash := Some (hash token)\<rparr>) (verification_codes (mw_db w))\<rparr>"
  have coded: "update_code_hash (ej_verification_id job) (hash token) (mw_db w) = (Inr (), ?d1)"
    using assms(6) by (simp add: update_code_hash_def update_verification_def)
  have status: "\<exists>d'. update_email_status (eo_id m) st d = (Inr (), d') \<and> users d' = users d
      \<and> verification_codes d' = verification_codes d \<and> email_of d' (eo_id m) \<noteq> None"
    if "email_of d (eo_id m) \<noteq> None" for st d
  proof -
    have "email_of (snd (update_email_status (eo_id m) st d)) (eo_id m) \<noteq> None"
      using that by (simp add: email_of_update)
    with that show ?thesis by (auto simp: update_email_status_def)
  qed
  have "email_of ?d1 (eo_id m) \<noteq> None" using m(1) by (simp add: email_of_def)
  then obtain d2 where d2: "update_email_status (eo_id m) Mail_SENDING ?d1 = (Inr (), d2)" "users d2 = users ?d1"
      "verification_codes d2 = verification_codes ?d1" "email_of d2 (eo_id m) \<noteq> None"
    using status by blast
  then obtain d3 where d3: "update_email_status (eo_id m) Mail_SENT d2 = (Inr (), d3)" "users d3 = users d2"
      "verification_codes d3 = verification_codes d2"
    using status by blast
  have keys: "OTP_REGISTER_TEMPLATE_KEY \<noteq> OTP_FORGOT_PASSWORD_TEMPLATE_KEY"
    by (simp add: OTP_REGISTER_TEMPLATE_KEY_def OTP_FORGOT_PASSWORD_TEMPLATE_KEY_def)
  show ?thesis
    using assms(2-5) keys d2 d3
    by (simp add: process_email_def handle_verify_email_def on_db_def coded send_mail_def)
qed

text \<open>The worker writes the hash of a fresh token into one code: this code alone is then found by the token.\<close>

lemma written_hash_finds_code:
  fixes h :: string and d d' :: db
  defines "f \<equiv> \<lambda>v. v\<lparr>vc_code_hash := Some h\<rparr>"
  assumes "wf_table vc_id (verification_codes d)" and v: "v \<in> set (rows (verification_codes d))"
    and fresh: "\<And>x. x \<in> set (rows (verification_codes d)) \<Longrightarrow> vc_code_hash x \<noteq> Some h"
    and codes: "verification_codes d' = map_rows (\<lambda>x. vc_id x = vc_id v) f (verification_codes d)"
    and "vc_type v = REGISTER" and "vc_used_at v = None"
  shows "\<And>x. x \<in> set (rows (verification_codes d')) \<Longrightarrow> vc_code_hash x = Some h \<Longrightarrow> x = f v"
    and "find_active_register h d' = Some (f v)" and "verification_of d' (vc_id v) = Some (f v)"
proof -
  have same: "x = v" if "x \<in> set (rows (verification_codes d))" "vc_id x = vc_id v" for x
    using that assms(2) v by (auto simp: wf_table_def distinct_map dest: inj_onD)
  show hashed: "x = f v" if "x \<in> set (rows (verification_codes d'))" "vc_code_hash x = Some h" for x
  proof -
    from that(1) obtain y where y: "y \<in> set (rows (verification_codes d))"
      and x: "x = (if vc_id y = vc_id v then f y else y)" by (auto simp: codes)
    with fresh [OF y] that(2) have "vc_id y = vc_id v" by (cases "vc_id y = vc_id v") simp_all
    with same [OF y] x show ?thesis by simp
  qed
  have "f v \<in> set (rows (verification_codes d'))"
    unfolding codes rows_map_rows set_map using v by (intro image_eqI [of _ _ v]) simp_all
  then have "find_active_register h d' \<noteq> None"
    using assms(6,7) unfolding find_active_register_def find_row_None f_def by (auto intro!: bexI [of _ "f v"] simp: f_def)
  then obtain x where x: "find_active_register h d' = Some x" by blast
  with find_row_SomeD [of _ "verification_codes d'" x] hashed show "find_active_register h d' = Some (f v)"
    unfolding find_active_register_def by blast
  have "verification_of d (vc_id v) = Some v"
    using find_row_key [OF assms(2) v] by (simp add: verification_of_def)
  then show "verification_of d' (vc_id v) = Some (f v)"
    by (simp add: verification_of_def codes f_def find_key_modify)
qed

lemma verify_email_uses_code:
  assumes "find_active_register (ae_sha256 env token) d = Some v" and "verification_of d (vc_id v) = Some v"
    and hashed: "\<And>x. x \<in> set (rows (verification_codes d)) \<Longrightarrow> vc_code_hash x = Some (ae_sha256 env token) \<Longrightarrow> x = v"
    and "vc_user_id v = Some u" and "u \<noteq> 0" and "user_of d u \<noteq> None" and "ae_now env \<le> vc_expires_at v"
  obtains d' where "verify_email env token d = (Inr (), d')"
    and "map_option usr_is_email_verified (user_of d' u) = Some True" and "\<exists>e. verify_email env token d' = (Inl e, d')"
proof -
  let ?g = "\<lambda>v. v\<lparr>vc_used_at := Some (ae_now env)\<rparr>"
  let ?d1 = "d\<lparr>verification_codes := map_rows (\<lambda>x. vc_id x = vc_id v) ?g (verification_codes d)\<rparr>"
  let ?d2 = "?d1\<lparr>users := map_rows (\<lambda>x. usr_id x = u)
      (\<lambda>u. u\<lparr>usr_is_email_verified := True, usr_verify_email_at := Some (ae_now env)\<rparr>) (users d)\<rparr>"
  have run: "verify_email env token d = (Inr (), ?d2)"
    using assms(4-7)
    by (simp add: verify_email_def assms(1,2) mark_used_by_id_def update_verification_def mark_email_verified_def
        update_user_def user_of_def)
  have verified: "map_option usr_is_email_verified (user_of ?d2 u) = Some True"
    using assms(6) by (auto simp: user_of_def find_key_modify)
  have "vc_used_at x \<noteq> None" if "x \<in> set (rows (verification_codes ?d2))" "vc_code_hash x = Some (ae_sha256 env token)" for x
  proof -
    from that(1) obtain y where y: "y \<in> set (rows (verification_codes d))"
      and x: "x = (if vc_id y = vc_id v then ?g y else y)" by auto
    with that(2) have "vc_code_hash y = Some (ae_sha256 env token)" by (simp split: if_splits)
    with hashed [OF y] x show ?thesis by simp
  qed
  then have "find_active_register (ae_sha256 env token) ?d2 = None" by (auto simp: find_active_register_def find_row_None)
  then have "\<exists>e. verify_email env token ?d2 = (Inl e, ?d2)" by (simp add: verify_email_def)
  then show thesis using that run verified by blast
qed

text \<open>
  C25: the link of a registration mail works once: when the worker sends the mail, the token in its link
  verifies the e-mail address of the account while the code has not expired, and a second use is refused.
\<close>
theorem verification_link_works_once:
  assumes "wf_table eo_id (email_outbox (mw_db w))" and "wf_table vc_id (verification_codes (mw_db w))"
    and "find_email_pending (ej_outbox_id job) (mw_db w) = Some m" and "ej_name job = SEND_EMAIL"
    and "eo_template_key m = Some OTP_REGISTER_TEMPLATE_KEY"
    and "deliver (verify_mail tpl (eo_to_email m) (generate_link_with_type (ej_origin_url job) VERIFY_EMAIL token))"
    and "v \<in> set (rows (verification_codes (mw_db w)))" and "vc_id v = ej_verification_id job"
    and "vc_type v = REGISTER" and "vc_used_at v = None" and "vc_user_id v = Some u" and "u \<noteq> 0"
    and "user_of (mw_db w) u \<noteq> None" and "ae_now env \<le> vc_expires_at v"
    and "\<And>x. x \<in> set (rows (verification_codes (mw_db w))) \<Longrightarrow> vc_code_hash x \<noteq> Some (ae_sha256 env token)"
  shows "\<exists>w' d'. process_email deliver tpl (ae_sha256 env) token job w = (Inr (), w')
       \<and> mw_sent w' = mw_sent w @ [verify_mail tpl (eo_to_email m) (generate_link_with_type (ej_origin_url job) VERIFY_EMAIL token)]
       \<and> verify_email env token (mw_db w') = (Inr (), d')
       \<and> map_option usr_is_email_verified (user_of d' u) = Some True
       \<and> (\<exists>e. verify_email env token d' = (Inl e, d'))"
proof -
  let ?f = "\<lambda>v. v\<lparr>vc_code_hash := Some (ae_sha256 env token)\<rparr>"
  have "verification_of (mw_db w) (ej_verification_id job) = Some v"
    using find_row_key [OF assms(2,7)] assms(8) by (simp add: verification_of_def)
  then obtain w' where w': "process_email deliver tpl (ae_sha256 env) token job w = (Inr (), w')"
      "mw_sent w' = mw_sent w @ [verify_mail tpl (eo_to_email m) (generate_link_with_type (ej_origin_url job) VERIFY_EMAIL token)]"
      "users (mw_db w') = users (mw_db w)"
    and codes: "verification_codes (mw_db w') = map_rows (\<lambda>x. vc_id x = vc_id v) ?f (verification_codes (mw_db w))"
    using process_register_mail [where hash = "ae_sha256 env" and w = w and job = job and m = m and deliver = deliver
        and tpl = tpl and token = token] assms(1,3-6,8) by auto
  note code = written_hash_finds_code [OF assms(2,7,15) codes assms(9,10)]
  have known: "user_of (mw_db w') u \<noteq> None" using assms(13) by (simp add: user_of_def w'(3))
  obtain d' where "verify_email env token (mw_db w') = (Inr (), d')"
    "map_option usr_is_email_verified (user_of d' u) = Some True" "\<exists>e. verify_email env token d' = (Inl e, d')"
    by (rule verify_email_uses_code [OF code(2) _ code(1), of u]) (use code(3) known assms(11,12,14) in simp_all)
  with w' show ?thesis by blast
qed

lemma verification_link_works_once_witness:
  "\<exists>w' d'. process_email (\<lambda>_. True) plain_templates (ae_sha256 (sample_auth_env 5 ''r'')) ''t'' mail_job
         (mail_sample\<lparr>mw_db := (mw_db mail_sample)\<lparr>users := users cart_shop\<rparr>\<rparr>) = (Inr (), w')
     \<and> verify_email (sample_auth_env 5 ''r'') ''t'' (mw_db w') = (Inr (), d')
     \<and> map_option usr_is_email_verified (user_of d' 7) = Some True"
proof -
  let ?w = "mail_sample\<lparr>mw_db := (mw_db mail_sample)\<lparr>users := users cart_shop\<rparr>\<rparr>"
  let ?m = "new_email 0 ''a@b'' OTP_REGISTER_TEMPLATE_KEY [] 1" and ?v = "new_verification 0 7 ''a@b'' 3600000 REGISTER 1"
  have pending: "find_email_pending (ej_outbox_id mail_job) (mw_db ?w) = Some ?m"
    and wf: "wf_table eo_id (email_outbox (mw_db ?w))" "wf_table vc_id (verification_codes (mw_db ?w))"
    by (simp_all add: find_email_pending_def find_row_def mail_sample_def mail_job_def new_email_def new_verification_def wf_table_def)
  have user: "user_of (mw_db ?w) 7 \<noteq> None"
    by (simp add: user_of_def find_row_def cart_shop_def reader_def)
  show ?thesis
    using verification_link_works_once [OF wf pending, of "\<lambda>_. True" plain_templates "''t''" ?v 7 "sample_auth_env 5 ''r''"] user
    by (auto simp: mail_sample_def mail_job_def new_email_def new_verification_def sample_auth_env_def)
qed

end
