(* ===== verification/Cache_Version.thy ===== *)
theory Cache_Version
  imports Js_Text
begin

text \<open>
  The versioned cache, \<open>src/src/modules/cache-version/service/cache-version.service.ts\<close>: a namespace has a
  version number in Redis, and a value is stored under its namespace and the version current at that
  time, so that raising the version makes it unreachable. The state has the version keys and the data keys
  of the store as two maps (a version key ends in \<open>:version\<close>, a data key in a number). A value
  is identified with its JSON text; the callers cache objects and lists, never \<open>null\<close>. Data keys have a
  time to live: \<open>expire_key\<close> is the store dropping one.

  The locale \<open>result_cache\<close> is what a client relies on: what a read finds after a fill and after an
  invalidation. Inside it, a read through the cache is shown to answer what the source holds, as long as
  each change of the source is followed by an invalidation of the changed keys.
\<close>

section \<open>Keys\<close>

definition CACHE_PREFIX :: string where "CACHE_PREFIX = ''cache:version''"

definition create_version_key :: "string \<Rightarrow> string" where
  "create_version_key ns = CACHE_PREFIX @ '':'' @ ns @ '':version''"

definition data_key :: "string \<Rightarrow> int \<Rightarrow> string" where
  "data_key ns version = CACHE_PREFIX @ '':data:'' @ ns @ '':v:'' @ int_string version"

record 'v cache_store =
  cs_versions :: "string \<Rightarrow> int option"
  cs_data :: "string \<Rightarrow> 'v option"

definition empty_cache :: "'v cache_store" where
  "empty_cache = \<lparr>cs_versions = (\<lambda>_. None), cs_data = (\<lambda>_. None)\<rparr>"

section \<open>Operations\<close>

definition get_version_key :: "string \<Rightarrow> 'v cache_store \<Rightarrow> int \<times> 'v cache_store" where
  "get_version_key ns c =
     (case cs_versions c (create_version_key ns) of
        None \<Rightarrow> (1, c\<lparr>cs_versions := (cs_versions c)(create_version_key ns \<mapsto> 1)\<rparr>)
      | Some n \<Rightarrow> (n, c))"

definition create_cache_key :: "string \<Rightarrow> 'v cache_store \<Rightarrow> string \<times> 'v cache_store" where
  "create_cache_key ns c = (case get_version_key ns c of (n, c') \<Rightarrow> (data_key ns n, c'))"

definition with_cache :: "string \<Rightarrow> 'v res \<Rightarrow> 'v cache_store \<Rightarrow> 'v res \<times> 'v cache_store" where
  [service_defs]: "with_cache ns factory c =
     (case create_cache_key ns c of
        (key, c') \<Rightarrow>
          (case cs_data c' key of
             Some v \<Rightarrow> (Inr v, c')
           | None \<Rightarrow>
               (case factory of
                  Inl e \<Rightarrow> (Inl e, c')
                | Inr v \<Rightarrow> (Inr v, c'\<lparr>cs_data := (cs_data c')(key \<mapsto> v)\<rparr>))))"

definition cache_set :: "string \<Rightarrow> 'v \<Rightarrow> 'v cache_store \<Rightarrow> 'v cache_store" where
  [service_defs]: "cache_set ns v c =
     (case create_cache_key ns c of (key, c') \<Rightarrow> c'\<lparr>cs_data := (cs_data c')(key \<mapsto> v)\<rparr>)"

definition cache_get :: "string \<Rightarrow> 'v cache_store \<Rightarrow> 'v option \<times> 'v cache_store" where
  [service_defs]: "cache_get ns c = (case create_cache_key ns c of (key, c') \<Rightarrow> (cs_data c' key, c'))"

definition bump_version :: "string \<Rightarrow> 'v cache_store \<Rightarrow> 'v cache_store" where
  [service_defs]: "bump_version ns c =
     c\<lparr>cs_versions := (cs_versions c)(create_version_key ns \<mapsto>
         (case cs_versions c (create_version_key ns) of None \<Rightarrow> 1 | Some n \<Rightarrow> n + 1))\<rparr>"

definition expire_key :: "string \<Rightarrow> 'v cache_store \<Rightarrow> 'v cache_store" where
  "expire_key key c = c\<lparr>cs_data := (cs_data c)(key := None)\<rparr>"

section \<open>Keys determine their namespace\<close>

lemma create_version_key_inject [simp]: "create_version_key a = create_version_key b \<longleftrightarrow> a = b"
  by (simp add: create_version_key_def)

lemma int_string_no_colon: "CHR '':'' \<notin> set (int_string n)"
proof -
  have "CHR '':'' \<notin> set (nat_string k)" for k
    using nat_string_digits [of "CHR '':''" k] by (auto simp: is_digit_def char_code_def)
  then show ?thesis by (simp add: int_string_def)
qed

lemma int_string_inject [simp]: "int_string a = int_string b \<longleftrightarrow> a = b"
proof
  have dash: "nat_string k \<noteq> CHR ''-'' # s" for k s
    using nat_string_digits [of "CHR ''-''" k] by (auto simp: is_digit_def char_code_def)
  assume "int_string a = int_string b"
  then show "a = b"
    using dash dash [symmetric] by (auto simp: int_string_def nat_string_inject split: if_splits)
qed simp

lemma split_last_colon:
  assumes "a @ CHR '':'' # s = b @ CHR '':'' # t" and "CHR '':'' \<notin> set s" and "CHR '':'' \<notin> set t"
  shows "a = b \<and> s = t"
proof -
  have "takeWhile (\<lambda>c. c \<noteq> CHR '':'') (rev (x @ CHR '':'' # u)) = rev u" if "CHR '':'' \<notin> set u" for x u :: string
    using that by (auto simp: takeWhile_append)
  then have "rev s = rev t" using assms by metis
  with assms(1) show ?thesis by simp
qed

lemma data_key_inject [simp]: "data_key a m = data_key b n \<longleftrightarrow> a = b \<and> m = n"
proof
  assume "data_key a m = data_key b n"
  then have "(a @ '':v'') @ CHR '':'' # int_string m = (b @ '':v'') @ CHR '':'' # int_string n"
    by (simp add: data_key_def)
  from split_last_colon [OF this int_string_no_colon int_string_no_colon]
  show "a = b \<and> m = n" by simp
qed simp

section \<open>The interface of a cache\<close>

locale result_cache =
  fixes inv :: "'s \<Rightarrow> bool"
    and cached :: "'k \<Rightarrow> 's \<Rightarrow> 'v option"
    and fill :: "'k \<Rightarrow> 'v \<Rightarrow> 's \<Rightarrow> 's"
    and invalidate :: "'k \<Rightarrow> 's \<Rightarrow> 's"
  assumes fill_inv: "inv s \<Longrightarrow> inv (fill k v s)"
    and invalidate_inv: "inv s \<Longrightarrow> inv (invalidate k s)"
    and cached_fill: "inv s \<Longrightarrow> cached j (fill k v s) = (if j = k then Some v else cached j s)"
    and cached_invalidate: "inv s \<Longrightarrow> cached j (invalidate k s) = (if j = k then None else cached j s)"
begin

definition coherent :: "('k \<Rightarrow> 'e + 'v) \<Rightarrow> 's \<Rightarrow> bool" where
  "coherent src s \<longleftrightarrow> inv s \<and> (\<forall>k v. cached k s = Some v \<longrightarrow> src k = Inr v)"

lemma coherent_fill: "coherent src s \<Longrightarrow> src k = Inr v \<Longrightarrow> coherent src (fill k v s)"
  by (simp add: coherent_def fill_inv cached_fill)

lemma coherent_invalidate:
  assumes "coherent src s" and "\<And>j. j \<noteq> k \<Longrightarrow> src' j = src j"
  shows "coherent src' (invalidate k s)"
  using assms by (simp add: coherent_def invalidate_inv cached_invalidate)

lemma invalidate_all_inv: "inv s \<Longrightarrow> inv (fold invalidate ks s)"
  by (induction ks arbitrary: s) (simp_all add: invalidate_inv)

lemma cached_invalidate_all:
  "inv s \<Longrightarrow> cached j (fold invalidate ks s) = (if j \<in> set ks then None else cached j s)"
  by (induction ks arbitrary: s) (auto simp: invalidate_inv cached_invalidate)

lemma coherent_after_change:
  assumes "coherent src s" and "\<And>j. j \<notin> set ks \<Longrightarrow> src' j = src j"
  shows "coherent src' (fold invalidate ks s)"
  using assms by (simp add: coherent_def invalidate_all_inv cached_invalidate_all)

end

definition peek :: "string \<Rightarrow> 'v cache_store \<Rightarrow> 'v option" where
  "peek ns c = cs_data c (data_key ns (case cs_versions c (create_version_key ns) of None \<Rightarrow> 1 | Some n \<Rightarrow> n))"

text \<open>No value is stored above the current version of its namespace, none before the version exists.\<close>

definition versions_bound :: "'v cache_store \<Rightarrow> bool" where
  "versions_bound c \<longleftrightarrow>
     (\<forall>ns n v. cs_data c (data_key ns n) = Some v \<longrightarrow>
        (\<exists>m. cs_versions c (create_version_key ns) = Some m \<and> n \<le> m))"

lemma versions_boundD:
  "versions_bound c \<Longrightarrow> cs_versions c (create_version_key ns) = None \<Longrightarrow> cs_data c (data_key ns n) = None"
  "versions_bound c \<Longrightarrow> cs_versions c (create_version_key ns) = Some m \<Longrightarrow> m < n \<Longrightarrow> cs_data c (data_key ns n) = None"
  unfolding versions_bound_def by (metis not_None_eq option.inject linorder_not_less not_Some_eq)+

lemma version_before_data:
  "versions_bound c \<Longrightarrow> versions_bound (snd (create_cache_key ns c))"
  unfolding versions_bound_def create_cache_key_def get_version_key_def by (fastforce split: option.split)

interpretation version_cache: result_cache versions_bound peek cache_set bump_version
proof
  fix c :: "'v cache_store" and j k :: string and v :: 'v
  assume inv: "versions_bound c"
  show "versions_bound (cache_set k v c)"
    using inv unfolding versions_bound_def cache_set_def create_cache_key_def get_version_key_def
    by (fastforce split: option.split if_splits)
  show "versions_bound (bump_version k c)"
    using inv unfolding versions_bound_def bump_version_def by (fastforce split: option.split)
  show "peek j (cache_set k v c) = (if j = k then Some v else peek j c)"
    using inv by (auto simp: peek_def cache_set_def create_cache_key_def get_version_key_def split: option.split)
  show "peek j (bump_version k c) = (if j = k then None else peek j c)"
    using inv versions_boundD [OF inv, of k]
    by (auto simp: peek_def bump_version_def split: option.split)
qed

lemma with_cache_value:
  "fst (with_cache ns factory c) = (case peek ns c of Some v \<Rightarrow> Inr v | None \<Rightarrow> factory)"
  by (auto simp: with_cache_def peek_def create_cache_key_def get_version_key_def split: option.split sum.split)

lemma with_cache_fills:
  "peek ns c = None \<Longrightarrow> with_cache ns (Inr v) c = (Inr v, cache_set ns v c)"
  by (auto simp: with_cache_def cache_set_def peek_def create_cache_key_def get_version_key_def split: option.splits)

lemma peek_version_set: "peek j (snd (create_cache_key ns c)) = peek j c"
  by (auto simp: peek_def create_cache_key_def get_version_key_def split: option.split)

lemma with_cache_keeps:
  "peek ns c \<noteq> None \<or> (\<exists>e. factory = Inl e) \<Longrightarrow> snd (with_cache ns factory c) = snd (create_cache_key ns c)"
  by (auto simp: with_cache_def peek_def create_cache_key_def get_version_key_def split: option.splits)

text \<open>
  C15: the cache is transparent: if it only holds values of the source, and every namespace whose
  content changed was bumped, a read through the cache answers what the source holds now, and the cache
  again holds only such values.
\<close>
theorem cache_is_transparent:
  fixes c :: "'v cache_store"
  assumes "versions_bound c" and "\<And>ns v. peek ns c = Some v \<Longrightarrow> src ns = Inr v"
    and "\<And>ns. ns \<notin> set bumped \<Longrightarrow> src' ns = src ns"
  shows "(let (r, c') = with_cache ns (src' ns) (fold bump_version bumped c) in
           r = src' ns \<and> versions_bound c' \<and> (\<forall>j v. peek j c' = Some v \<longrightarrow> src' j = Inr v))"
proof -
  let ?c = "fold bump_version bumped c"
  have before: "version_cache.coherent src' ?c"
    using assms by (intro version_cache.coherent_after_change [of src]) (simp_all add: version_cache.coherent_def)
  have answer: "fst (with_cache ns (src' ns) ?c) = src' ns"
    using before by (auto simp: with_cache_value version_cache.coherent_def split: option.split)
  have "version_cache.coherent src' (snd (with_cache ns (src' ns) ?c))"
  proof (cases "peek ns ?c \<noteq> None \<or> (\<exists>e. src' ns = Inl e)")
    case True
    then show ?thesis
      using before by (simp add: with_cache_keeps version_cache.coherent_def version_before_data peek_version_set)
  next
    case False
    then obtain v where v: "src' ns = Inr v" by (cases "src' ns") auto
    with False have "with_cache ns (src' ns) ?c = (Inr v, cache_set ns v ?c)" by (simp add: with_cache_fills)
    with version_cache.coherent_fill [OF before v] show ?thesis by simp
  qed
  with answer show ?thesis by (auto simp: version_cache.coherent_def Let_def split_beta)
qed

lemma cache_is_transparent_witness:
  "fst (with_cache ''books'' (Inr ''new'') (bump_version ''books'' (cache_set ''books'' ''old'' empty_cache))) = Inr ''new''"
proof -
  have bound: "versions_bound (cache_set ''books'' ''old'' empty_cache)"
    by (intro version_cache.fill_inv) (simp add: versions_bound_def empty_cache_def)
  have "peek ns (cache_set ''books'' ''old'' empty_cache) = Some v \<Longrightarrow> ns = ''books'' \<and> v = ''old''" for ns v
    by (auto simp: peek_def cache_set_def create_cache_key_def get_version_key_def empty_cache_def split: if_splits)
  then have only: "peek ns (cache_set ''books'' ''old'' empty_cache) = Some v \<Longrightarrow> ''old'' = v" for ns v
    by auto
  show ?thesis
    using cache_is_transparent [OF bound, where src = "\<lambda>_. Inr ''old''" and bumped = "[''books'']" and ns = "''books''"
      and src' = "\<lambda>ns. if ns = ''books'' then Inr ''new'' else Inr ''old''"] only
    by (simp add: Let_def split_beta)
qed

end
