(* ===== verification/Catalog.thy ===== *)
theory Catalog
  imports Cache_Version Pagination Text_Utils Schema "HOL-Library.Multiset" "HOL-Library.Product_Lexorder"
begin

text \<open>
  The public catalogue, \<open>src/src/modules/book/catalog\<close>: the queries of the repository as selections and
  joins over the tables, the mappers from the joined rows to the cards, details and the category tree the
  client sees, and the service with its cache. A joined book (\<open>catalog_book\<close>) is a book with what the
  query selects of its translations, badges, categories and variants. An absent field and a \<open>null\<close> of an
  answer are both \<open>None\<close>. The database's \<open>LIKE\<close> and full-text score depend on its collation and index:
  they are the two fields of \<open>text_search\<close>.
\<close>

section \<open>What is public\<close>

definition priced :: "variant_row \<Rightarrow> bool" where
  "priced v \<longleftrightarrow> bv_is_active v \<and> (case bv_price v of None \<Rightarrow> False | Some p \<Rightarrow> 0 < p)"

definition book_of :: "db \<Rightarrow> int \<Rightarrow> book_row option" where
  "book_of d i = find_row (\<lambda>b. bk_id b = i) (books d)"

definition public_book :: "db \<Rightarrow> book_row \<Rightarrow> bool" where
  "public_book d b \<longleftrightarrow> bk_is_active b \<and> bk_deleted_at b = None
     \<and> list_ex (\<lambda>v. bv_book_id v = bk_id b \<and> priced v) (rows (variants d))"

definition translated :: "db \<Rightarrow> int \<Rightarrow> book_row \<Rightarrow> bool" where
  "translated d lang b \<longleftrightarrow>
     list_ex (\<lambda>t. bt_book_id t = bk_id b \<and> bt_language_id t = lang) (rows (book_translations d))"

definition categorised :: "db \<Rightarrow> int list \<Rightarrow> book_row \<Rightarrow> bool" where
  "categorised d cs b \<longleftrightarrow>
     list_ex (\<lambda>c. bc_book_id c = bk_id b \<and> bc_category_id c \<in> set cs) (rows (book_categories d))"

definition build_book_list_where :: "int \<Rightarrow> int option \<Rightarrow> db \<Rightarrow> book_row \<Rightarrow> bool" where
  [repo_defs]: "build_book_list_where lang cat d b \<longleftrightarrow>
     public_book d b \<and> translated d lang b
     \<and> (case cat of None \<Rightarrow> True | Some c \<Rightarrow> c = 0 \<or> categorised d [c] b)"

section \<open>Joined rows\<close>

record catalog_category =
  cc_row :: category_row
  cc_translations :: "category_translation_row list"

record catalog_book =
  cb_book :: book_row
  cb_translations :: "book_translation_row list"
  cb_badges :: "badge list"
  cb_categories :: "catalog_category list"
  cb_variants :: "variant_row list"
  cb_spec :: "book_spec_row option"
  cb_publisher :: "utext option"

definition translations_of :: "db \<Rightarrow> int \<Rightarrow> int \<Rightarrow> book_translation_row list" where
  "translations_of d lang i = select_rows (\<lambda>t. bt_book_id t = i \<and> bt_language_id t = lang) (book_translations d)"

definition category_view :: "db \<Rightarrow> int \<Rightarrow> category_row \<Rightarrow> catalog_category" where
  "category_view d lang c = \<lparr>cc_row = c, cc_translations =
     select_rows (\<lambda>t. ct_category_id t = cat_id c \<and> ct_language_id t = lang) (category_translations d)\<rparr>"

definition categories_of :: "db \<Rightarrow> int \<Rightarrow> int \<Rightarrow> catalog_category list" where
  "categories_of d lang i =
     map (category_view d lang)
       (List.map_filter (\<lambda>x. find_row (\<lambda>c. cat_id c = bc_category_id x) (categories d))
         (select_rows (\<lambda>x. bc_book_id x = i) (book_categories d)))"

definition badges_of :: "db \<Rightarrow> int \<Rightarrow> badge list" where
  "badges_of d i = map bb_code (sort_key bb_id (select_rows (\<lambda>b. bb_book_id b = i) (book_badges d)))"

definition priced_variants :: "db \<Rightarrow> int \<Rightarrow> variant_row list" where
  "priced_variants d i = select_rows (\<lambda>v. bv_book_id v = i \<and> priced v) (variants d)"

definition cheapest_first :: "db \<Rightarrow> int \<Rightarrow> variant_row list" where
  "cheapest_first d i = sort_key (\<lambda>v. (the (bv_price v), bv_id v)) (priced_variants d i)"

definition dearest_first :: "db \<Rightarrow> int \<Rightarrow> variant_row list" where
  "dearest_first d i = sort_key (\<lambda>v. - the (bv_price v)) (priced_variants d i)"

definition join_book :: "db \<Rightarrow> int \<Rightarrow> variant_row list \<Rightarrow> book_row \<Rightarrow> catalog_book" where
  "join_book d lang vs b =
     \<lparr>cb_book = b, cb_translations = translations_of d lang (bk_id b), cb_badges = badges_of d (bk_id b),
      cb_categories = categories_of d lang (bk_id b), cb_variants = vs,
      cb_spec = find_row (\<lambda>s. bs_book_id s = bk_id b) (book_specs d),
      cb_publisher = (case bk_publisher_id b of None \<Rightarrow> None
        | Some p \<Rightarrow> map_option pub_name (find_row (\<lambda>r. pub_id r = p) (publishers d)))\<rparr>"

section \<open>The repository\<close>

definition find_active_categories :: "int \<Rightarrow> db \<Rightarrow> catalog_category list" where
  [repo_defs]: "find_active_categories lang d =
     map (category_view d lang)
       (sort_key (\<lambda>c. (cat_sort_order c, cat_id c))
         (select_rows (\<lambda>c. cat_is_active c \<and> cat_deleted_at c = None
             \<and> list_ex (\<lambda>t. ct_category_id t = cat_id c \<and> ct_language_id t = lang) (rows (category_translations d)))
           (categories d)))"

definition find_category_by_slug :: "string \<Rightarrow> int \<Rightarrow> db \<Rightarrow> int option" where
  [repo_defs]: "find_category_by_slug slug lang d =
     map_option cat_id (find_row (\<lambda>c. cat_is_active c \<and> cat_deleted_at c = None
       \<and> list_ex (\<lambda>t. ct_category_id t = cat_id c \<and> ct_language_id t = lang \<and> ct_slug t = Some slug)
           (rows (category_translations d))) (categories d))"

definition count_books_for_list :: "int \<Rightarrow> int option \<Rightarrow> db \<Rightarrow> int" where
  [repo_defs]: "count_books_for_list lang cat d = count_rows (build_book_list_where lang cat d) (books d)"

definition newest_first :: "book_row list \<Rightarrow> book_row list" where
  "newest_first bs = sort_key (\<lambda>b. (- bk_created_at b, - bk_id b)) bs"

definition cheapest_card_row :: "db \<Rightarrow> int \<Rightarrow> book_row \<Rightarrow> catalog_book" where
  "cheapest_card_row d lang b = join_book d lang (take 1 (cheapest_first d (bk_id b))) b"

definition find_books_for_list :: "int \<Rightarrow> int option \<Rightarrow> int \<Rightarrow> int \<Rightarrow> db \<Rightarrow> catalog_book list" where
  [repo_defs]: "find_books_for_list lang cat page limit d =
     map (cheapest_card_row d lang)
       (page_slice page limit (newest_first (select_rows (build_book_list_where lang cat d) (books d))))"

definition find_catalog_home_books :: "int \<Rightarrow> int \<Rightarrow> db \<Rightarrow> catalog_book list" where
  [repo_defs]: "find_catalog_home_books lang n d =
     map (cheapest_card_row d lang)
       (take (nat n) (select_rows (\<lambda>b. public_book d b \<and> translated d lang b) (books d)))"

definition find_books_by_ids :: "int list \<Rightarrow> int \<Rightarrow> int \<Rightarrow> int \<Rightarrow> db \<Rightarrow> catalog_book list" where
  [repo_defs]: "find_books_by_ids ids lang page limit d =
     (if ids = [] then []
      else map (\<lambda>b. join_book d lang (take 1 (dearest_first d (bk_id b))) b)
             (page_slice page limit (select_rows (\<lambda>b. bk_id b \<in> set ids \<and> public_book d b) (books d))))"

definition public_variant :: "db \<Rightarrow> variant_row \<Rightarrow> bool" where
  "public_variant d v \<longleftrightarrow> priced v
     \<and> (case book_of d (bv_book_id v) of None \<Rightarrow> False | Some b \<Rightarrow> public_book d b)"

definition find_book_variant_by_id :: "int \<Rightarrow> db \<Rightarrow> variant_row option" where
  [repo_defs]: "find_book_variant_by_id i d = find_row (\<lambda>v. bv_id v = i \<and> public_variant d v) (variants d)"

definition find_book_variant_by_ids :: "int list \<Rightarrow> db \<Rightarrow> variant_row list" where
  [repo_defs]: "find_book_variant_by_ids ids d = select_rows (\<lambda>v. bv_id v \<in> set ids \<and> public_variant d v) (variants d)"

definition find_active_book_first_variant :: "db \<Rightarrow> (book_row \<times> variant_row list) list" where
  [repo_defs]: "find_active_book_first_variant d =
     map (\<lambda>b. (b, take 1 (sort_key (\<lambda>v. the (bv_price v)) (priced_variants d (bk_id b)))))
       (sort_key bk_id (select_rows (public_book d) (books d)))"

definition find_book_detail_by_id :: "int \<Rightarrow> int \<Rightarrow> db \<Rightarrow> catalog_book option" where
  [repo_defs]: "find_book_detail_by_id i lang d =
     map_option (\<lambda>b. join_book d lang (cheapest_first d (bk_id b)) b)
       (find_row (\<lambda>b. bk_id b = i \<and> public_book d b) (books d))"

definition has_slug :: "db \<Rightarrow> int \<Rightarrow> string \<Rightarrow> book_row \<Rightarrow> bool" where
  "has_slug d lang slug b \<longleftrightarrow>
     list_ex (\<lambda>t. bt_book_id t = bk_id b \<and> bt_language_id t = lang \<and> bt_slug t = Some slug) (rows (book_translations d))"

definition find_book_detail_by_slug :: "string \<Rightarrow> int \<Rightarrow> db \<Rightarrow> catalog_book option" where
  [repo_defs]: "find_book_detail_by_slug slug lang d =
     map_option (\<lambda>b. (join_book d lang (cheapest_first d (bk_id b)) b)
         \<lparr>cb_translations := filter (\<lambda>t. bt_slug t = Some slug) (translations_of d lang (bk_id b))\<rparr>)
       (find_row (\<lambda>b. public_book d b \<and> has_slug d lang slug b) (books d))"

definition category_ids_of :: "db \<Rightarrow> int \<Rightarrow> int list" where
  "category_ids_of d i =
     List.map_filter (\<lambda>x. map_option cat_id (find_row (\<lambda>c. cat_id c = bc_category_id x) (categories d)))
       (select_rows (\<lambda>x. bc_book_id x = i) (book_categories d))"

definition find_book_alike_category :: "int \<Rightarrow> int list \<Rightarrow> db \<Rightarrow> (int \<times> int list) list" where
  [repo_defs]: "find_book_alike_category i cats d =
     map (\<lambda>b. (bk_id b, category_ids_of d (bk_id b)))
       (select_rows (\<lambda>b. bk_id b \<noteq> i \<and> public_book d b \<and> categorised d cats b) (books d))"

section \<open>Keyword search\<close>

record text_search =
  ts_like :: "utext \<Rightarrow> utext \<Rightarrow> bool"
  ts_score :: "utext \<Rightarrow> utext option \<Rightarrow> utext \<Rightarrow> rat"

datatype search_mode = Fulltext | Like

record keyword_search =
  ks_keyword :: utext
  ks_mode :: search_mode

definition to_like_pattern :: "utext \<Rightarrow> utext" where
  "to_like_pattern k = [37] @ concat (map (\<lambda>c. if c \<in> {92, 37, 95} then [92, c] else [c]) k) @ [37]"

definition keyword_condition :: "text_search \<Rightarrow> keyword_search \<Rightarrow> book_translation_row \<Rightarrow> bool" where
  [repo_defs]: "keyword_condition ts s t \<longleftrightarrow>
     (let pattern = to_like_pattern (ks_keyword s);
          like = ts_like ts (bt_title t) pattern
            \<or> (case bt_description t of None \<Rightarrow> False | Some x \<Rightarrow> ts_like ts x pattern)
      in if ks_mode s = Like then like
         else ts_score ts (bt_title t) (bt_description t) (ks_keyword s) \<noteq> 0 \<or> like)"

definition keyword_score :: "text_search \<Rightarrow> keyword_search \<Rightarrow> book_translation_row \<Rightarrow> rat" where
  [repo_defs]: "keyword_score ts s t =
     (if ks_mode s = Like then 0 else ts_score ts (bt_title t) (bt_description t) (ks_keyword s))"

text \<open>The joins of the two searches: a row per book, translation and (with a category) link to it.\<close>

definition keyword_rows ::
    "text_search \<Rightarrow> int option \<Rightarrow> int \<Rightarrow> keyword_search \<Rightarrow> db \<Rightarrow> (book_row \<times> book_translation_row) list" where
  "keyword_rows ts cat lang s d =
     filter (\<lambda>(b, t). public_book d b \<and> keyword_condition ts s t)
       (concat (map (\<lambda>b. concat (map (\<lambda>t. case cat of
            None \<Rightarrow> [(b, t)]
          | Some c \<Rightarrow> map (\<lambda>_. (b, t)) (select_rows (\<lambda>x. bc_book_id x = bk_id b \<and> bc_category_id x = c) (book_categories d)))
          (translations_of d lang (bk_id b)))) (rows (books d))))"

definition ranked_ids ::
    "text_search \<Rightarrow> keyword_search \<Rightarrow> int \<Rightarrow> int \<Rightarrow> (book_row \<times> book_translation_row) list \<Rightarrow> int list" where
  "ranked_ids ts s page limit bts =
     map (\<lambda>(b, t). bk_id b)
       (page_slice page limit (sort_key (\<lambda>(b, t). (- keyword_score ts s t, - bk_created_at b, - bk_id b)) bts))"

definition distinct_books :: "(book_row \<times> book_translation_row) list \<Rightarrow> int" where
  "distinct_books bts = int (length (remdups (map (\<lambda>(b, t). bk_id b) bts)))"

definition find_book_include_category ::
    "text_search \<Rightarrow> int \<Rightarrow> int \<Rightarrow> keyword_search \<Rightarrow> int \<Rightarrow> int \<Rightarrow> db \<Rightarrow> int list" where
  [repo_defs]: "find_book_include_category ts cat lang s page limit d =
     ranked_ids ts s page limit (keyword_rows ts (Some cat) lang s d)"

definition count_book_include_category :: "text_search \<Rightarrow> int \<Rightarrow> int \<Rightarrow> keyword_search \<Rightarrow> db \<Rightarrow> int" where
  [repo_defs]: "count_book_include_category ts cat lang s d = distinct_books (keyword_rows ts (Some cat) lang s d)"

definition find_book_ne_include_category ::
    "text_search \<Rightarrow> int \<Rightarrow> keyword_search \<Rightarrow> int \<Rightarrow> int \<Rightarrow> db \<Rightarrow> int list" where
  [repo_defs]: "find_book_ne_include_category ts lang s page limit d =
     ranked_ids ts s page limit (keyword_rows ts None lang s d)"

definition count_book_ne_include_category :: "text_search \<Rightarrow> int \<Rightarrow> keyword_search \<Rightarrow> db \<Rightarrow> int" where
  [repo_defs]: "count_book_ne_include_category ts lang s d = distinct_books (keyword_rows ts None lang s d)"

section \<open>Cards and details\<close>

record category_item =
  cv_id :: int
  cv_parent_id :: "int option"
  cv_sort_order :: int
  cv_name :: utext
  cv_slug :: "string option"

record book_card =
  card_id :: int
  card_title :: utext
  card_slug :: "string option"
  card_cover_image_url :: "string option"
  card_price :: "string option"
  card_currency :: "currency_code option"
  card_description :: "utext option"
  card_sold_count :: "int option"
  card_is_out_of_stock :: bool
  card_variant_id :: "int option"
  card_format :: "book_format option"
  card_categories :: "category_item list option"
  card_badges :: "badge list"
  card_created_at :: int

definition to_fixed_price :: "rat option \<Rightarrow> string option" where
  "to_fixed_price p = map_option (\<lambda>x. to_fixed2 (f64 x)) p"

definition to_book_categories :: "catalog_category list \<Rightarrow> category_item list" where
  "to_book_categories cs = map (\<lambda>c.
     let r = cc_row c; t = (case cc_translations c of [] \<Rightarrow> None | x # _ \<Rightarrow> Some x) in
     \<lparr>cv_id = cat_id r,
      cv_parent_id = (case cat_parent_id r of None \<Rightarrow> None | Some p \<Rightarrow> if p = 0 then None else Some p),
      cv_sort_order = cat_sort_order r,
      cv_name = (case t of None \<Rightarrow> points (''Category '' @ int_string (cat_id r)) | Some x \<Rightarrow> ct_name x),
      cv_slug = (case t of None \<Rightarrow> None | Some x \<Rightarrow> ct_slug x)\<rparr>) cs"

definition book_title :: "int \<Rightarrow> book_translation_row list \<Rightarrow> utext" where
  "book_title i ts = (case ts of [] \<Rightarrow> points (''Book '' @ int_string i) | t # _ \<Rightarrow> bt_title t)"

definition first_slug :: "book_translation_row list \<Rightarrow> string option" where
  "first_slug ts = (case ts of [] \<Rightarrow> None | t # _ \<Rightarrow> bt_slug t)"

definition first_description :: "book_translation_row list \<Rightarrow> utext option" where
  "first_description ts = (case ts of [] \<Rightarrow> None | t # _ \<Rightarrow> bt_description t)"

definition first_variant :: "catalog_book \<Rightarrow> variant_row option" where
  "first_variant b = (case cb_variants b of [] \<Rightarrow> None | v # _ \<Rightarrow> Some v)"

definition out_of_stock :: "variant_row option \<Rightarrow> bool" where
  "out_of_stock v \<longleftrightarrow> (case v of None \<Rightarrow> True | Some x \<Rightarrow> bv_stock x \<le> 0)"

definition price_of :: "variant_row option \<Rightarrow> string option" where
  "price_of v = (case v of None \<Rightarrow> None | Some x \<Rightarrow> to_fixed_price (bv_price x))"

definition to_list_card :: "catalog_book \<Rightarrow> book_card" where
  "to_list_card b =
     (let i = bk_id (cb_book b); v = first_variant b in
      \<lparr>card_id = i, card_title = book_title i (cb_translations b), card_slug = first_slug (cb_translations b),
       card_cover_image_url = bk_cover_image_url (cb_book b), card_price = price_of v,
       card_currency = map_option bv_currency v, card_description = None, card_sold_count = None,
       card_is_out_of_stock = out_of_stock v, card_variant_id = map_option bv_id v,
       card_format = map_option bv_format v, card_categories = Some (to_book_categories (cb_categories b)),
       card_badges = cb_badges b, card_created_at = bk_created_at (cb_book b)\<rparr>)"

definition to_book_card :: "catalog_book \<Rightarrow> book_card" where
  "to_book_card b =
     (let i = bk_id (cb_book b); v = first_variant b in
      \<lparr>card_id = i, card_title = book_title i (cb_translations b), card_slug = first_slug (cb_translations b),
       card_cover_image_url = bk_cover_image_url (cb_book b), card_price = price_of v,
       card_currency = Some (case v of None \<Rightarrow> VND | Some x \<Rightarrow> bv_currency x),
       card_description = first_description (cb_translations b), card_sold_count = Some 0,
       card_is_out_of_stock = out_of_stock v, card_variant_id = map_option bv_id v,
       card_format = map_option bv_format v, card_categories = None,
       card_badges = cb_badges b, card_created_at = bk_created_at (cb_book b)\<rparr>)"

definition to_home_card :: "catalog_book \<Rightarrow> book_card" where
  "to_home_card b = to_book_card b"

record variant_view =
  vv_id :: int
  vv_format :: book_format
  vv_edition :: int
  vv_isbn :: string
  vv_price :: string
  vv_currency :: currency_code
  vv_available :: int

record spec_view =
  sv_width :: "string option"
  sv_height :: "string option"
  sv_thickness :: "string option"
  sv_packaging :: "string option"

record book_detail =
  bd_id :: int
  bd_title :: utext
  bd_slug :: "string option"
  bd_description :: "utext option"
  bd_cover_image_url :: "string option"
  bd_publication_year :: "int option"
  bd_page_count :: "int option"
  bd_weight_grams :: "int option"
  bd_publisher_name :: "utext option"
  bd_variants :: "variant_view list"
  bd_categories :: "category_item list"
  bd_specs :: "spec_view option"
  bd_badges :: "badge list"
  bd_created_at :: int
  bd_recommend :: "book_card list"

definition to_variant_view :: "variant_row \<Rightarrow> variant_view" where
  "to_variant_view v =
     \<lparr>vv_id = bv_id v, vv_format = bv_format v, vv_edition = bv_edition v, vv_isbn = bv_isbn v,
      vv_price = (case bv_price v of None \<Rightarrow> ''null'' | Some p \<Rightarrow> number_string p),
      vv_currency = bv_currency v, vv_available = bv_available v\<rparr>"

definition to_spec_view :: "book_spec_row \<Rightarrow> spec_view" where
  "to_spec_view s =
     \<lparr>sv_width = map_option number_string (bs_width_cm s), sv_height = map_option number_string (bs_height_cm s),
      sv_thickness = map_option number_string (bs_thickness_cm s), sv_packaging = bs_packaging s\<rparr>"

definition to_book_detail :: "catalog_book \<Rightarrow> string option \<Rightarrow> book_card list \<Rightarrow> book_detail" where
  "to_book_detail b fallback recommend =
     (let r = cb_book b; ts = cb_translations b in
      \<lparr>bd_id = bk_id r, bd_title = book_title (bk_id r) ts,
       bd_slug = (case first_slug ts of None \<Rightarrow> fallback | Some s \<Rightarrow> Some s),
       bd_description = first_description ts, bd_cover_image_url = bk_cover_image_url r,
       bd_publication_year = bk_publication_year r, bd_page_count = bk_page_count r,
       bd_weight_grams = bk_weight_grams r, bd_publisher_name = cb_publisher b,
       bd_variants = map to_variant_view (cb_variants b), bd_categories = to_book_categories (cb_categories b),
       bd_specs = map_option to_spec_view (cb_spec b), bd_badges = cb_badges b,
       bd_created_at = bk_created_at r, bd_recommend = recommend\<rparr>)"

text \<open>The card \<open>findBooksVariantByIds\<close> builds of a variant.\<close>

definition to_variant_card :: "db \<Rightarrow> int \<Rightarrow> variant_row \<Rightarrow> book_row \<Rightarrow> book_card" where
  "to_variant_card d lang v b =
     (let ts = translations_of d lang (bk_id b) in
      \<lparr>card_id = bk_id b, card_title = book_title (bk_id b) ts, card_slug = first_slug ts,
       card_cover_image_url = bk_cover_image_url b,
       card_price = Some (to_fixed2 (number_of_decimal (bv_price v))), card_currency = Some (bv_currency v),
       card_description = None, card_sold_count = Some 0, card_is_out_of_stock = bv_stock v \<le> 0,
       card_variant_id = Some (bv_id v), card_format = Some (bv_format v), card_categories = None,
       card_badges = badges_of d (bk_id b), card_created_at = bk_created_at b\<rparr>)"

definition find_books_variant_by_ids :: "int list \<Rightarrow> int \<Rightarrow> int \<Rightarrow> db \<Rightarrow> book_card list" where
  [repo_defs]: "find_books_variant_by_ids ids lang n d =
     (if ids = [] then []
      else List.map_filter (\<lambda>v. map_option (to_variant_card d lang v) (book_of d (bv_book_id v)))
             (take (nat n) (find_book_variant_by_ids ids d)))"

section \<open>The category tree\<close>

text \<open>
  \<open>buildCatalogCategoryTree\<close> keeps the categories that have a name, hangs each under its parent and sorts
  every list by the sort order. The walk from the roots descends at most as deep as there are
  categories; \<open>category_tree_complete\<close> below shows that this is enough.
\<close>

record category_node =
  cn_id :: int
  cn_parent :: "int option"
  cn_name :: utext
  cn_slug :: "string option"
  cn_sort :: int

datatype category_tree = Category_Tree category_node "category_tree list"

text \<open>The nodes, one per identifier: a later row with the same identifier replaces the value, as in a \<open>Map\<close>.\<close>

definition to_category_node :: "catalog_category \<Rightarrow> category_node option" where
  "to_category_node c =
     (case cc_translations c of
        [] \<Rightarrow> None
      | t # _ \<Rightarrow> if ct_name t = [] then None
                 else Some \<lparr>cn_id = cat_id (cc_row c), cn_parent = cat_parent_id (cc_row c), cn_name = ct_name t,
                            cn_slug = ct_slug t, cn_sort = cat_sort_order (cc_row c)\<rparr>)"

fun put_node :: "category_node \<Rightarrow> category_node list \<Rightarrow> category_node list" where
  "put_node n [] = [n]"
| "put_node n (m # ms) = (if cn_id m = cn_id n then n # ms else m # put_node n ms)"

definition category_nodes :: "catalog_category list \<Rightarrow> category_node list" where
  "category_nodes cs = foldl (\<lambda>ns n. put_node n ns) [] (List.map_filter to_category_node cs)"

definition is_root :: "category_node \<Rightarrow> bool" where
  "is_root n \<longleftrightarrow> cn_parent n = None \<or> cn_parent n = Some 0"

definition children_of :: "category_node list \<Rightarrow> category_node \<Rightarrow> category_node list" where
  "children_of ns p = filter (\<lambda>n. \<not> is_root n \<and> cn_parent n = Some (cn_id p)) ns"

definition in_sort_order :: "category_node list \<Rightarrow> category_node list" where
  "in_sort_order ns = sort_key (\<lambda>n. (cn_sort n, cn_id n)) ns"

fun category_forest :: "nat \<Rightarrow> category_node list \<Rightarrow> category_node list \<Rightarrow> category_tree list" where
  "category_forest 0 ns level = []"
| "category_forest (Suc depth) ns level =
     map (\<lambda>n. Category_Tree n (category_forest depth ns (children_of ns n))) (in_sort_order level)"

definition build_category_tree :: "catalog_category list \<Rightarrow> category_tree list" where
  [service_defs]: "build_category_tree cs =
     (let ns = category_nodes cs in category_forest (length ns) ns (filter is_root ns))"

section \<open>The service\<close>

datatype catalog_value =
    Cards_Value "book_card list"
  | Tree_Value "category_tree list"
  | Page_Value "book_card paginated"
  | Detail_Value book_detail

type_synonym catalog_cache = "catalog_value cache_store"

definition catalog_home_key :: "int \<Rightarrow> int \<Rightarrow> string" where
  "catalog_home_key lang limit = ''catalog:home:'' @ int_string lang @ '':'' @ int_string limit"

definition catalog_categories_key :: "int \<Rightarrow> string" where
  "catalog_categories_key lang = ''catalog:categories:'' @ int_string lang"

definition book_list_key :: "int \<Rightarrow> int \<Rightarrow> int \<Rightarrow> string" where
  "book_list_key lang page limit =
     ''catalog:books:langId='' @ int_string lang @ '':p'' @ int_string page @ '':l'' @ int_string limit"

definition book_list_by_category_key :: "int \<Rightarrow> int \<Rightarrow> int \<Rightarrow> string \<Rightarrow> string" where
  "book_list_by_category_key lang page limit slug = book_list_key lang page limit @ '':cat='' @ slug"

definition book_detail_key :: "int \<Rightarrow> int \<Rightarrow> string" where
  "book_detail_key book lang = ''catalog:detail:'' @ int_string book @ '':'' @ int_string lang"

definition book_detail_by_slug_key :: "string \<Rightarrow> int \<Rightarrow> string" where
  "book_detail_by_slug_key slug lang = ''catalog:detail:slug:'' @ slug @ '':'' @ int_string lang"

text \<open>\<open>shuffle\<close>: \<open>rnd i\<close> is the value of \<open>Math.random()\<close> in the round that places index \<open>i\<close>.\<close>

definition swap_items :: "nat \<Rightarrow> nat \<Rightarrow> 'a list \<Rightarrow> 'a list" where
  "swap_items i j xs = xs[i := xs ! j, j := xs ! i]"

fun shuffle_from :: "(nat \<Rightarrow> rat) \<Rightarrow> nat \<Rightarrow> 'a list \<Rightarrow> 'a list" where
  "shuffle_from rnd 0 xs = xs"
| "shuffle_from rnd (Suc i) xs =
     shuffle_from rnd i (swap_items (Suc i) (nat \<lfloor>rnd (Suc i) * of_nat (Suc i + 1)\<rfloor>) xs)"

definition shuffle_list :: "(nat \<Rightarrow> rat) \<Rightarrow> 'a list \<Rightarrow> 'a list" where
  "shuffle_list rnd xs = shuffle_from rnd (length xs - 1) xs"

definition get_catalog_home ::
    "(nat \<Rightarrow> rat) \<Rightarrow> int option \<Rightarrow> int \<Rightarrow> db \<Rightarrow> catalog_cache \<Rightarrow> catalog_value res \<times> catalog_cache" where
  [service_defs]: "get_catalog_home rnd limit lang d =
     (let n = (case limit of None \<Rightarrow> 12 | Some l \<Rightarrow> l) in
      with_cache (catalog_home_key lang n)
        (Inr (Cards_Value (map to_home_card
           (take (nat n) (shuffle_list rnd (find_catalog_home_books lang (n * 5) d)))))))"

definition get_categories :: "int \<Rightarrow> db \<Rightarrow> catalog_cache \<Rightarrow> catalog_value res \<times> catalog_cache" where
  [service_defs]: "get_categories lang d =
     with_cache (catalog_categories_key lang) (Inr (Tree_Value (build_category_tree (find_active_categories lang d))))"

text \<open>A \<open>Map\<close> built from a list of pairs: the last pair of a key wins.\<close>

definition js_map_of :: "('k \<times> 'v) list \<Rightarrow> 'k \<Rightarrow> 'v option" where
  "js_map_of kvs = map_of (rev kvs)"

definition get_book_cards_by_variant_ids :: "int list \<Rightarrow> int \<Rightarrow> db \<Rightarrow> (int \<times> book_card) list" where
  [service_defs]: "get_book_cards_by_variant_ids ids lang d =
     List.map_filter (\<lambda>c. map_option (\<lambda>i. (i, c)) (card_variant_id c))
       (find_books_variant_by_ids ids lang (int (length ids)) d)"

definition build_card_map :: "int list \<Rightarrow> int \<Rightarrow> db \<Rightarrow> (int \<times> book_card) list" where
  [service_defs]: "build_card_map ids lang d =
     map (\<lambda>b. (bk_id (cb_book b), to_book_card b)) (find_books_by_ids ids lang 1 20 d)"

definition pick_cards :: "int list \<Rightarrow> (int \<times> book_card) list \<Rightarrow> book_card list" where
  [service_defs]: "pick_cards ids cards = List.map_filter (js_map_of cards) ids"

definition build_keyword_search :: "utext \<Rightarrow> keyword_search" where
  [service_defs]: "build_keyword_search k =
     \<lparr>ks_keyword = k, ks_mode = (if length k > 3 then Fulltext else Like)\<rparr>"

record book_list_query =
  bq_page :: "int option"
  bq_limit :: "int option"
  bq_slug_category :: "string option"
  bq_keyword :: "utext option"

definition list_books ::
    "text_search \<Rightarrow> book_list_query \<Rightarrow> int \<Rightarrow> db \<Rightarrow> catalog_cache \<Rightarrow> catalog_value res \<times> catalog_cache" where
  [service_defs]: "list_books ts q lang d c =
     (let (page, limit, _) = get_pagination_params (bq_page q) (bq_limit q);
          slug = map_option js_trim (bq_slug_category q);
          keyword = (case map_option trim_points (bq_keyword q) of None \<Rightarrow> None | Some k \<Rightarrow> if k = [] then None else Some k);
          answer = (\<lambda>bs n. Page_Value (build_paginated_result (map to_list_card bs) n page limit)) in
      if js_truthy slug then
        with_cache (book_list_by_category_key lang page limit (the slug))
          (case find_category_by_slug (the slug) lang d of
             None \<Rightarrow> Inl (NotFound ''CATEGORY_NOT_FOUND'')
           | Some cat \<Rightarrow>
               (case keyword of
                  Some k \<Rightarrow>
                    let s = build_keyword_search k; ids = find_book_include_category ts cat lang s page limit d
                    in Inr (answer (find_books_by_ids ids lang 1 20 d) (count_book_include_category ts cat lang s d))
                | None \<Rightarrow> Inr (answer (find_books_for_list lang (Some cat) page limit d)
                                     (count_books_for_list lang (Some cat) d)))) c
      else case keyword of
        Some k \<Rightarrow>
          let s = build_keyword_search k; ids = find_book_ne_include_category ts lang s page limit d
          in (Inr (answer (find_books_by_ids ids lang 1 20 d) (count_book_ne_include_category ts lang s d)), c)
      | None \<Rightarrow>
          with_cache (book_list_key lang page limit)
            (Inr (answer (find_books_for_list lang None page limit d) (count_books_for_list lang None d))) c)"

definition query_list_book :: "int option \<Rightarrow> int option \<Rightarrow> int list \<Rightarrow> int \<Rightarrow> db \<Rightarrow> book_card paginated" where
  [service_defs]: "query_list_book page limit ids lang d =
     (let (p, l, _) = get_pagination_params page limit
      in build_paginated_result (map to_list_card (find_books_by_ids ids lang p l d)) (count_books_for_list lang None d) p l)"

definition get_book_detail :: "int \<Rightarrow> int \<Rightarrow> db \<Rightarrow> catalog_cache \<Rightarrow> catalog_value res \<times> catalog_cache" where
  [service_defs]: "get_book_detail i lang d =
     with_cache (book_detail_key i lang)
       (case find_book_detail_by_id i lang d of
          None \<Rightarrow> Inl (NotFound ''BOOK_NOT_FOUND'')
        | Some b \<Rightarrow> Inr (Detail_Value (to_book_detail b None [])))"

definition calculate_jaccard :: "int list \<Rightarrow> int list \<Rightarrow> rat" where
  [service_defs]: "calculate_jaccard xs ys =
     js_div (of_nat (length (filter (\<lambda>x. x \<in> set ys) (remdups xs)))) (of_nat (length (remdups (xs @ ys))))"

definition similar_books :: "int \<Rightarrow> int list \<Rightarrow> db \<Rightarrow> int list" where
  [service_defs]: "similar_books i cats d =
     map fst (take 4 (sort_key (\<lambda>b. - calculate_jaccard cats (snd b)) (find_book_alike_category i cats d)))"

definition slug_detail :: "string \<Rightarrow> int \<Rightarrow> db \<Rightarrow> catalog_value res" where
  "slug_detail slug lang d =
     (case find_book_detail_by_slug slug lang d of
        None \<Rightarrow> Inl (NotFound ''BOOK_NOT_FOUND'')
      | Some b \<Rightarrow>
          let ids = similar_books (bk_id (cb_book b)) (remdups (map (\<lambda>c. cat_id (cc_row c)) (cb_categories b))) d
          in Inr (Detail_Value (to_book_detail b (Some slug) (pick_cards ids (build_card_map ids lang d)))))"

definition get_book_detail_by_slug ::
    "string \<Rightarrow> int \<Rightarrow> db \<Rightarrow> catalog_cache \<Rightarrow> catalog_value res \<times> catalog_cache" where
  [service_defs]: "get_book_detail_by_slug slug lang d c =
     (let s = js_trim slug in
      if s = [] then (Inl (BadRequest ''SLUG_REQUIRED''), c)
      else with_cache (book_detail_by_slug_key s lang) (slug_detail s lang d) c)"

section \<open>The tree holds every category below a root\<close>

primrec tree_root :: "category_tree \<Rightarrow> category_node" where
  "tree_root (Category_Tree n ts) = n"

primrec tree_nodes :: "category_tree \<Rightarrow> category_node list" where
  "tree_nodes (Category_Tree n ts) = n # concat (map tree_nodes ts)"

text \<open>Every node of the tree has all its children below it, in sort order.\<close>

primrec tree_complete :: "category_node list \<Rightarrow> category_tree \<Rightarrow> bool" where
  "tree_complete ns (Category_Tree n ts) \<longleftrightarrow>
     map tree_root ts = in_sort_order (children_of ns n) \<and> list_all (tree_complete ns) ts"

text \<open>\<open>rooted ns n k\<close>: the chain of parents of \<open>n\<close> reaches a root after \<open>k\<close> steps.\<close>

inductive rooted :: "category_node list \<Rightarrow> category_node \<Rightarrow> nat \<Rightarrow> bool" for ns where
  root: "n \<in> set ns \<Longrightarrow> is_root n \<Longrightarrow> rooted ns n 0"
| child: "n \<in> set (children_of ns p) \<Longrightarrow> rooted ns p k \<Longrightarrow> rooted ns n (Suc k)"

inductive_cases rooted_0E: "rooted ns n 0"
inductive_cases rooted_SucE: "rooted ns n (Suc k)"

lemma set_children_of:
  "n \<in> set (children_of ns p) \<longleftrightarrow> n \<in> set ns \<and> \<not> is_root n \<and> cn_parent n = Some (cn_id p)"
  by (auto simp: children_of_def)

lemma rooted_in: "rooted ns n k \<Longrightarrow> n \<in> set ns"
  by (induction rule: rooted.induct) (auto simp: set_children_of)

lemma rooted_unique:
  assumes "distinct (map cn_id ns)"
  shows "rooted ns n k \<Longrightarrow> rooted ns n l \<Longrightarrow> k = l"
proof (induction arbitrary: l rule: rooted.induct)
  case (root n)
  from root.prems show ?case using root.hyps by (cases rule: rooted.cases) (auto simp: set_children_of)
next
  case (child n p k)
  from child.prems obtain q m where l: "l = Suc m" "n \<in> set (children_of ns q)" "rooted ns q m"
    using child.hyps(1) by (cases rule: rooted.cases) (auto simp: set_children_of)
  then have "cn_id q = cn_id p" using child.hyps(1) by (simp add: set_children_of)
  then have "q = p"
    using assms rooted_in [OF l(3)] rooted_in [OF child.hyps(2)] by (auto simp: distinct_map dest: inj_onD)
  with child.IH l show ?case by simp
qed

lemma rooted_above: "rooted ns n k \<Longrightarrow> i \<le> k \<Longrightarrow> \<exists>m. rooted ns m i"
proof (induction rule: rooted.induct)
  case (root n)
  then show ?case using rooted.root by auto
next
  case (child n p k)
  then show ?case using rooted.child [OF child.hyps] by (cases "i = Suc k") auto
qed

lemma rooted_depth:
  assumes "distinct (map cn_id ns)" and "rooted ns n k"
  shows "k < length ns"
proof -
  let ?depth = "\<lambda>m. THE i. rooted ns m i"
  have "{0..k} \<subseteq> ?depth ` set ns"
  proof
    fix i assume "i \<in> {0..k}"
    then obtain m where m: "rooted ns m i" using rooted_above [OF assms(2)] by auto
    then have "?depth m = i" using rooted_unique [OF assms(1)] by (intro the_equality) auto
    with rooted_in [OF m] show "i \<in> ?depth ` set ns" by force
  qed
  then have "card {0..k} \<le> card (set ns)" by (intro surj_card_le) simp_all
  with card_length [of ns] show ?thesis by simp
qed

lemma forest_complete:
  assumes "distinct (map cn_id ns)"
  shows "(\<And>n. n \<in> set level \<Longrightarrow> rooted ns n j) \<Longrightarrow> j + depth = length ns \<Longrightarrow>
    map tree_root (category_forest depth ns level) = in_sort_order level
    \<and> list_all (tree_complete ns) (category_forest depth ns level)"
proof (induction depth arbitrary: j level)
  case 0
  then have "level = []" using rooted_depth [OF assms] by (cases level) force+
  then show ?case by (simp add: in_sort_order_def)
next
  case (Suc depth)
  have "map tree_root (category_forest depth ns (children_of ns n)) = in_sort_order (children_of ns n)
      \<and> list_all (tree_complete ns) (category_forest depth ns (children_of ns n))" if "n \<in> set level" for n
    using that Suc.prems by (intro Suc.IH [of _ "Suc j"]) (auto intro: rooted.child)
  then show ?case by (auto simp: list_all_iff in_sort_order_def comp_def)
qed

lemma in_tree_nodes: "tree_root t \<in> set (tree_nodes t)"
  by (cases t) simp

lemma set_in_sort_order [simp]: "set (in_sort_order ns) = set ns"
  by (simp add: in_sort_order_def)

lemma complete_tree_closed:
  "tree_complete ns t \<Longrightarrow> p \<in> set (tree_nodes t) \<Longrightarrow> n \<in> set (children_of ns p) \<Longrightarrow> n \<in> set (tree_nodes t)"
proof (induction t)
  case (Category_Tree m ts)
  show ?case
  proof (cases "p = m")
    case True
    then have "n \<in> set (map tree_root ts)" using Category_Tree.prems by simp
    then obtain t where "t \<in> set ts" "n = tree_root t" by auto
    with in_tree_nodes [of t] show ?thesis by auto
  next
    case False
    with Category_Tree.prems obtain t where "t \<in> set ts" "p \<in> set (tree_nodes t)" by auto
    with Category_Tree show ?thesis by (auto simp: list_all_iff)
  qed
qed

lemma complete_tree_rooted:
  "tree_complete ns t \<Longrightarrow> rooted ns (tree_root t) k \<Longrightarrow> n \<in> set (tree_nodes t) \<Longrightarrow> \<exists>k. rooted ns n k"
proof (induction t arbitrary: k)
  case (Category_Tree m ts)
  show ?case
  proof (cases "n = m")
    case True
    with Category_Tree.prems show ?thesis by auto
  next
    case False
    with Category_Tree.prems obtain t where t: "t \<in> set ts" "n \<in> set (tree_nodes t)" by auto
    have "tree_root t \<in> set (map tree_root ts)" using t(1) by simp
    then have "tree_root t \<in> set (children_of ns m)"
      using Category_Tree.prems(1) by (metis set_in_sort_order tree_complete.simps)
    then have "rooted ns (tree_root t) (Suc k)" using Category_Tree.prems(2) by (auto intro: rooted.child)
    with Category_Tree.IH [OF t(1)] t Category_Tree.prems(1) show ?thesis by (auto simp: list_all_iff)
  qed
qed

lemma put_node_ids:
  "map cn_id (put_node n ns) = (if cn_id n \<in> set (map cn_id ns) then map cn_id ns else map cn_id ns @ [cn_id n])"
  by (induction ns) auto

lemma distinct_category_nodes: "distinct (map cn_id (category_nodes cs))"
proof -
  have "distinct (map cn_id ms) \<Longrightarrow> distinct (map cn_id (foldl (\<lambda>ns n. put_node n ns) ms ns))" for ms ns
    by (induction ns arbitrary: ms) (simp_all add: put_node_ids)
  then show ?thesis by (simp add: category_nodes_def)
qed

text \<open>
  C17: the category tree is complete and ends: its roots are the categories without a parent, every category
  in it has all its subcategories below it, each level in sort order, and it holds exactly the categories
  whose chain of parents reaches a root; the depth the walk is given is always enough.
\<close>
theorem category_tree_complete:
  "(let ns = category_nodes cs; ts = build_category_tree cs in
      map tree_root ts = in_sort_order (filter is_root ns)
    \<and> list_all (tree_complete ns) ts
    \<and> set (concat (map tree_nodes ts)) = {n. \<exists>k. rooted ns n k})"
proof -
  define ns where "ns = category_nodes cs"
  define ts where "ts = build_category_tree cs"
  have ts: "map tree_root ts = in_sort_order (filter is_root ns)" "list_all (tree_complete ns) ts"
    using forest_complete [OF distinct_category_nodes [of cs], of "filter is_root ns" 0 "length ns"]
    by (auto simp: ns_def ts_def build_category_tree_def Let_def intro: rooted.root)
  have inside: "n \<in> set (concat (map tree_nodes ts))" if "rooted ns n k" for n k
    using that
  proof (induction rule: rooted.induct)
    case (root n)
    then have "n \<in> set (map tree_root ts)" by (simp add: ts(1))
    then show ?case using in_tree_nodes by fastforce
  next
    case (child n p k)
    then obtain t where "t \<in> set ts" "p \<in> set (tree_nodes t)" by auto
    with child.hyps(1) complete_tree_closed ts(2) show ?case by (fastforce simp: list_all_iff)
  qed
  have only: "\<exists>k. rooted ns n k" if "t \<in> set ts" and "n \<in> set (tree_nodes t)" for t n
  proof -
    have "tree_root t \<in> set (map tree_root ts)" using that(1) by simp
    then have "rooted ns (tree_root t) 0" by (auto simp: ts(1) intro: rooted.root)
    with complete_tree_rooted that ts(2) show ?thesis by (auto simp: list_all_iff)
  qed
  show ?thesis
    using ts inside only unfolding ns_def [symmetric] ts_def [symmetric] Let_def by auto
qed

section \<open>The listing\<close>

definition plain_query :: "int \<Rightarrow> int \<Rightarrow> book_list_query" where
  "plain_query page limit = \<lparr>bq_page = Some page, bq_limit = Some limit, bq_slug_category = None, bq_keyword = None\<rparr>"

lemma with_empty_cache: "fst (with_cache ns factory empty_cache) = factory"
  by (simp add: with_cache_value peek_def empty_cache_def)

definition list_page :: "int \<Rightarrow> int \<Rightarrow> int \<Rightarrow> db \<Rightarrow> book_card paginated" where
  "list_page page limit lang d =
     build_paginated_result (map to_list_card (find_books_for_list lang None page limit d))
       (count_books_for_list lang None d) page limit"

lemma list_books_plain:
  assumes "0 < page" and "0 < limit"
  shows "fst (list_books ts (plain_query page limit) lang d empty_cache) = Inr (Page_Value (list_page page limit lang d))"
  using assms
  by (simp add: list_books_def plain_query_def get_pagination_params_def with_empty_cache list_page_def js_truthy_def)

lemma pages_cover:
  assumes "0 < limit"
  shows "concat (map (\<lambda>k. page_slice (int k + 1) limit xs) [0..<nat (ceil_div (int (length xs)) limit)]) = xs"
proof -
  have "int (length xs) \<le> ceil_div (int (length xs)) limit * limit" using assms by (rule ceil_div_covers)
  also have "\<dots> \<le> int (nat (ceil_div (int (length xs)) limit) * nat limit)"
    using assms by (cases "0 \<le> ceil_div (int (length xs)) limit") (auto simp: mult_nonpos_nonneg)
  finally have "length xs \<le> nat (ceil_div (int (length xs)) limit) * nat limit" by linarith
  then show ?thesis by (simp add: concat_pages [OF assms])
qed

lemma ceil_div_0 [simp]: "0 < b \<Longrightarrow> ceil_div 0 b = 0"
  by (simp add: ceil_div_def)

text \<open>
  C16: the public list is the reference list cut in pages: the pages it announces, read one after the other,
  show the card of every public book with a translation once, newest first, and no other book.
\<close>
theorem list_pages_equal_reference:
  assumes "0 < limit"
  shows "\<exists>pages. (\<forall>k. fst (list_books ts (plain_query (int k + 1) limit) lang d empty_cache) = Inr (Page_Value (pages k)))
     \<and> concat (map (\<lambda>k. pg_items (pages k)) [0..<nat (pg_total_pages (pages 0))]) =
         map (\<lambda>b. to_list_card (cheapest_card_row d lang b))
           (newest_first (filter (\<lambda>b. public_book d b \<and> translated d lang b) (rows (books d))))"
proof -
  define bs where "bs = newest_first (filter (\<lambda>b. public_book d b \<and> translated d lang b) (rows (books d)))"
  have "build_book_list_where lang None d = (\<lambda>b. public_book d b \<and> translated d lang b)"
    by (rule ext) (simp add: build_book_list_where_def)
  then have items: "find_books_for_list lang None page limit d = map (cheapest_card_row d lang) (page_slice page limit bs)"
    and n: "count_books_for_list lang None d = int (length bs)" for page
    by (simp_all add: find_books_for_list_def bs_def select_rows_def count_books_for_list_def count_rows_def newest_first_def)
  let ?pages = "\<lambda>k. list_page (int k + 1) limit lang d"
  have "fst (list_books ts (plain_query (int k + 1) limit) lang d empty_cache) = Inr (Page_Value (?pages k))" for k
    using assms by (intro list_books_plain) simp_all
  moreover have "concat (map (\<lambda>k. pg_items (?pages k)) [0..<nat (pg_total_pages (?pages 0))]) =
      map (\<lambda>b. to_list_card (cheapest_card_row d lang b)) bs"
  proof -
    have "concat (map (\<lambda>k. pg_items (?pages k)) [0..<m]) =
        map (\<lambda>b. to_list_card (cheapest_card_row d lang b)) (concat (map (\<lambda>k. page_slice (int k + 1) limit bs) [0..<m]))" for m
      by (induction m) (simp_all add: list_page_def build_paginated_result_def items)
    moreover have "pg_total_pages (?pages 0) = ceil_div (int (length bs)) limit"
      using assms by (simp add: list_page_def build_paginated_result_def n)
    ultimately show ?thesis by (simp only: pages_cover [OF assms])
  qed
  ultimately show ?thesis unfolding bs_def by (intro exI [of _ ?pages] conjI allI)
qed

lemma card_id_list_card [simp]: "card_id (to_list_card b) = bk_id (cb_book b)"
  by (simp add: to_list_card_def Let_def)

lemma card_id_book_card [simp]: "card_id (to_book_card b) = bk_id (cb_book b)"
  by (simp add: to_book_card_def Let_def)

lemma cb_book_join [simp]: "cb_book (join_book d lang vs b) = b"
  by (simp add: join_book_def)

definition sample_book :: "int \<Rightarrow> book_row" where
  "sample_book i =
     \<lparr>bk_id = i, bk_publisher_id = None, bk_publication_year = None, bk_weight_grams = None, bk_page_count = None,
      bk_cover_image_url = None, bk_is_active = True, bk_created_at = i, bk_deleted_at = None, bk_created_by = None,
      bk_updated_by = None\<rparr>"

definition sample_translation :: "int \<Rightarrow> utext \<Rightarrow> string \<Rightarrow> book_translation_row" where
  "sample_translation i title slug =
     \<lparr>bt_id = i, bt_book_id = i, bt_language_id = 1, bt_title = title, bt_description = None, bt_slug = Some slug\<rparr>"

definition sample_priced :: "int \<Rightarrow> variant_row" where
  "sample_priced i =
     \<lparr>bv_id = i, bv_book_id = i, bv_format = PAPERBACK, bv_isbn = ''i'', bv_price = Some 50, bv_currency = VND,
      bv_stock = 3, bv_available = 0, bv_is_active = True, bv_reserved = 0, bv_edition = 1, bv_publication_year = None,
      bv_supplier_id = None\<rparr>"

definition sample_category :: category_row where
  "sample_category = \<lparr>cat_id = 1, cat_parent_id = None, cat_is_active = True, cat_sort_order = 0,
     cat_deleted_at = None, cat_created_by = None\<rparr>"

definition sample_catalog :: db where
  "sample_catalog = empty_db\<lparr>
     categories := \<lparr>rows = [sample_category], serial = 2\<rparr>,
     category_translations := \<lparr>rows = [\<lparr>ct_id = 1, ct_category_id = 1, ct_language_id = 1, ct_name = [7],
       ct_description = None, ct_slug = Some ''it''\<rparr>], serial = 2\<rparr>,
     books := \<lparr>rows = [sample_book 1, sample_book 2], serial = 3\<rparr>,
     book_translations := \<lparr>rows = [sample_translation 1 [7] ''a'', sample_translation 2 [8] ''b''], serial = 3\<rparr>,
     book_categories := \<lparr>rows = [\<lparr>bc_book_id = 1, bc_category_id = 1\<rparr>, \<lparr>bc_book_id = 2, bc_category_id = 1\<rparr>], serial = 1\<rparr>,
     variants := \<lparr>rows = [sample_priced 1, sample_priced 2], serial = 3\<rparr>\<rparr>"

definition exact_search :: text_search where
  "exact_search = \<lparr>ts_like = (\<lambda>t p. p = to_like_pattern t), ts_score = (\<lambda>_ _ _. 0)\<rparr>"

lemma list_pages_equal_reference_witness:
  "\<exists>pages. (\<forall>k. fst (list_books exact_search (plain_query (int k + 1) 1) 1 sample_catalog empty_cache) = Inr (Page_Value (pages k)))
     \<and> map card_id (concat (map (\<lambda>k. pg_items (pages k)) [0..<nat (pg_total_pages (pages 0))])) = [2, 1]"
proof -
  have public: "filter (\<lambda>b. public_book sample_catalog b \<and> translated sample_catalog 1 b) (rows (books sample_catalog)) =
      [sample_book 1, sample_book 2]"
    by (simp add: public_book_def translated_def sample_catalog_def sample_book_def sample_translation_def
        sample_priced_def priced_def)
  have sorted: "newest_first [sample_book 1, sample_book 2] = [sample_book 2, sample_book 1]"
    by (simp add: newest_first_def sample_book_def)
  have cards: "map card_id (map (\<lambda>b. to_list_card (cheapest_card_row sample_catalog 1 b))
      (newest_first (filter (\<lambda>b. public_book sample_catalog b \<and> translated sample_catalog 1 b) (rows (books sample_catalog))))) = [2, 1]"
    unfolding public sorted by (simp add: cheapest_card_row_def sample_book_def)
  have "(0 :: int) < 1" by simp
  from list_pages_equal_reference [OF this, of exact_search 1 sample_catalog]
  show ?thesis unfolding cards [symmetric] by (elim exE conjE) (intro exI conjI, assumption, rule arg_cong)
qed

section \<open>The cached search\<close>

text \<open>
  Inside a category the keyword of a search has no part in the cache key: once any search of a page
  of a category is answered, a search of the same page with another keyword gets the same answer.
\<close>
theorem category_search_ignores_keyword:
  assumes "js_truthy (map_option js_trim (bq_slug_category q))"
    and "list_books ts q lang d c = (Inr v, c')"
  shows "list_books ts (q\<lparr>bq_keyword := k\<rparr>) lang d c' = (Inr v, c')"
proof -
  obtain page limit offset where p: "get_pagination_params (bq_page q) (bq_limit q) = (page, limit, offset)"
    by (metis prod_cases3)
  let ?key = "book_list_by_category_key lang page limit (the (map_option js_trim (bq_slug_category q)))"
  obtain factory where run: "with_cache ?key factory c = (Inr v, c')"
    using assms p by (auto simp: list_books_def Let_def)
  have hit: "with_cache ?key other c' = (Inr v, c')" for other
    using run by (auto simp: with_cache_def create_cache_key_def get_version_key_def split: option.splits sum.splits)
  show ?thesis
    using assms(1) p by (simp add: list_books_def Let_def hit)
qed

definition sample_query :: "utext \<Rightarrow> book_list_query" where
  "sample_query k = \<lparr>bq_page = None, bq_limit = None, bq_slug_category = Some ''it'', bq_keyword = Some k\<rparr>"

lemma category_search_ignores_keyword_witness:
  "\<exists>v c. list_books exact_search (sample_query [7]) 1 sample_catalog empty_cache = (Inr (Page_Value v), c)
     \<and> map card_id (pg_items v) = [1]
     \<and> list_books exact_search (sample_query [8]) 1 sample_catalog c = (Inr (Page_Value v), c)"
proof -
  have slug: "find_category_by_slug ''it'' 1 sample_catalog = Some 1"
    by (simp add: find_category_by_slug_def find_row_def sample_catalog_def sample_category_def)
  have rows: "keyword_rows exact_search (Some 1) 1 (build_keyword_search [7]) sample_catalog =
      [(sample_book 1, sample_translation 1 [7] ''a'')]"
    by (simp add: keyword_rows_def sample_catalog_def translations_of_def select_rows_def public_book_def
        sample_book_def sample_translation_def sample_priced_def priced_def build_keyword_search_def
        keyword_condition_def exact_search_def to_like_pattern_def)
  have ids: "find_book_include_category exact_search 1 1 (build_keyword_search [7]) 1 20 sample_catalog = [1]"
    by (simp add: find_book_include_category_def ranked_ids_def rows page_slice_def sample_book_def)
  have found: "map card_id (map to_list_card (find_books_by_ids [1] 1 1 20 sample_catalog)) = [1]"
    by (simp add: find_books_by_ids_def page_slice_def select_rows_def sample_catalog_def public_book_def comp_def
        sample_book_def sample_priced_def priced_def)
  have trims: "js_trim ''it'' = ''it''" "trim_points [7] = [7]"
    by (simp_all add: js_trim_def is_white_def char_code_def trim_points_def white_point_def)
  have "fst (list_books exact_search (sample_query [7]) 1 sample_catalog empty_cache) =
      Inr (Page_Value (build_paginated_result (map to_list_card (find_books_by_ids [1] 1 1 20 sample_catalog))
        (count_book_include_category exact_search 1 1 (build_keyword_search [7]) sample_catalog) 1 20))"
    by (simp add: list_books_def sample_query_def get_pagination_params_def trims js_truthy_def with_empty_cache slug ids Let_def)
  then obtain v c where run: "list_books exact_search (sample_query [7]) 1 sample_catalog empty_cache = (Inr (Page_Value v), c)"
    and v: "pg_items v = map to_list_card (find_books_by_ids [1] 1 1 20 sample_catalog)"
    by (cases "list_books exact_search (sample_query [7]) 1 sample_catalog empty_cache")
       (auto simp: build_paginated_result_def)
  have first: "map card_id (pg_items v) = [1]" using found by (simp only: v)
  have "js_truthy (map_option js_trim (bq_slug_category (sample_query [7])))"
    by (simp add: sample_query_def trims js_truthy_def)
  from category_search_ignores_keyword [OF this run, of "Some [8]"] run first
  show ?thesis by (auto simp: sample_query_def)
qed

section \<open>The home page\<close>

lemma mset_take_subseteq: "mset (take k xs) \<subseteq># mset xs"
  by (metis append_take_drop_id mset_append mset_subset_eq_add_left)

lemma mset_swap_items: "i < length xs \<Longrightarrow> j < length xs \<Longrightarrow> mset (swap_items i j xs) = mset xs"
  unfolding swap_items_def by (rule mset_swap)

lemma shuffle_index:
  fixes r :: rat
  assumes "0 \<le> r" and "r < 1"
  shows "nat \<lfloor>r * of_nat (Suc i + 1)\<rfloor> < i + 2"
proof -
  have "r * of_nat (Suc i + 1) < of_nat (Suc i + 1)" using assms by simp
  then have "\<lfloor>r * of_nat (Suc i + 1)\<rfloor> < int (Suc i + 1)" by (simp add: floor_less_iff)
  then show ?thesis by linarith
qed

lemma mset_shuffle_from:
  "i < length xs \<or> i = 0 \<Longrightarrow> (\<And>k. 0 \<le> rnd k \<and> rnd k < 1) \<Longrightarrow> mset (shuffle_from rnd i xs) = mset xs"
proof (induction rnd i xs rule: shuffle_from.induct)
  case (2 rnd i xs)
  have "nat \<lfloor>rnd (Suc i) * of_nat (Suc i + 1)\<rfloor> < length xs"
    using shuffle_index [of "rnd (Suc i)" i] 2(2,3) by auto
  then have "mset (swap_items (Suc i) (nat \<lfloor>rnd (Suc i) * of_nat (Suc i + 1)\<rfloor>) xs) = mset xs"
    using 2(2) by (intro mset_swap_items) auto
  moreover have "length (swap_items a b xs) = length xs" for a b by (simp add: swap_items_def)
  ultimately show ?case using 2 by simp
qed simp

lemma mset_shuffle_list: "(\<And>k. 0 \<le> rnd k \<and> rnd k < 1) \<Longrightarrow> mset (shuffle_list rnd xs) = mset xs"
  unfolding shuffle_list_def by (rule mset_shuffle_from) (cases xs; simp)

text \<open>The home page shows at most the asked number of public books, none twice.\<close>

lemma home_cards_public:
  assumes "\<And>k. 0 \<le> rnd k \<and> rnd k < 1" and "peek (catalog_home_key lang n) c = None"
  shows "\<exists>bs. fst (get_catalog_home rnd (Some n) lang d c) = Inr (Cards_Value (map to_home_card bs))
     \<and> length bs \<le> nat n
     \<and> mset bs \<subseteq># mset (map (cheapest_card_row d lang)
           (filter (\<lambda>b. public_book d b \<and> translated d lang b) (rows (books d))))"
proof (intro exI conjI)
  let ?pool = "find_catalog_home_books lang (n * 5) d"
  show "fst (get_catalog_home rnd (Some n) lang d c) =
      Inr (Cards_Value (map to_home_card (take (nat n) (shuffle_list rnd ?pool))))"
    using assms(2) by (simp add: get_catalog_home_def with_cache_value)
  show "length (take (nat n) (shuffle_list rnd ?pool)) \<le> nat n" by simp
  have "mset (take (nat n) (shuffle_list rnd ?pool)) \<subseteq># mset ?pool"
    using mset_take_subseteq [of "nat n" "shuffle_list rnd ?pool"] mset_shuffle_list [of rnd ?pool] assms(1) by simp
  also have "\<dots> \<subseteq># mset (map (cheapest_card_row d lang)
      (filter (\<lambda>b. public_book d b \<and> translated d lang b) (rows (books d))))"
    unfolding find_catalog_home_books_def select_rows_def take_map [symmetric] by (rule mset_take_subseteq)
  finally show "mset (take (nat n) (shuffle_list rnd ?pool)) \<subseteq># mset (map (cheapest_card_row d lang)
      (filter (\<lambda>b. public_book d b \<and> translated d lang b) (rows (books d))))" .
qed

section \<open>Recommendations\<close>

lemma js_map_of_in: "js_map_of kvs k = Some v \<Longrightarrow> (k, v) \<in> set kvs"
  unfolding js_map_of_def by (drule map_of_SomeD) simp

lemma length_map_filter: "length (List.map_filter f xs) \<le> length xs"
  by (induction xs) (auto simp: List.map_filter_simps split: option.split)

lemma set_map_filter: "y \<in> set (List.map_filter f xs) \<longleftrightarrow> (\<exists>x\<in>set xs. f x = Some y)"
  by (induction xs) (auto simp: List.map_filter_simps split: option.split)

lemma picked_card:
  assumes "x \<in> set (pick_cards ids (build_card_map ids lang d))"
  obtains b where "b \<in> set (rows (books d))" and "bk_id b = card_id x" and "card_id x \<in> set ids" and "public_book d b"
proof -
  from assms obtain i where i: "i \<in> set ids" "(i, x) \<in> set (build_card_map ids lang d)"
    by (auto simp: pick_cards_def set_map_filter dest: js_map_of_in)
  then obtain cb where cb: "cb \<in> set (find_books_by_ids ids lang 1 20 d)" "i = bk_id (cb_book cb)" "x = to_book_card cb"
    by (auto simp: build_card_map_def)
  then have "cb_book cb \<in> set (rows (books d)) \<and> public_book d (cb_book cb)"
    using set_page_slice by (fastforce simp: find_books_by_ids_def split: if_splits)
  with cb i show ?thesis using that [of "cb_book cb"] by simp
qed

lemma category_of_book:
  assumes "c \<in> set (categories_of d lang i)"
  shows "\<exists>x\<in>set (rows (book_categories d)). bc_book_id x = i \<and> bc_category_id x = cat_id (cc_row c)"
  using assms by (fastforce simp: categories_of_def set_map_filter category_view_def dest: find_row_SomeD)

text \<open>
  The recommendations on the page of a book are at most four cards of other public books, each of which
  shares a category with it.
\<close>
theorem recommendations_share_category:
  assumes "wf_table bk_id (books d)" and "slug_detail slug lang d = Inr (Detail_Value x)"
  shows "length (bd_recommend x) \<le> 4
     \<and> (\<forall>card\<in>set (bd_recommend x). card_id card \<noteq> bd_id x
          \<and> (\<exists>b c. book_of d (card_id card) = Some b \<and> public_book d b \<and> categorised d [c] b
               \<and> (\<exists>r\<in>set (rows (book_categories d)). bc_book_id r = bd_id x \<and> bc_category_id r = c)))"
proof -
  from assms(2) obtain b where b: "find_book_detail_by_slug slug lang d = Some b"
    by (auto simp: slug_detail_def split: option.splits)
  define cats where "cats = remdups (map (\<lambda>c. cat_id (cc_row c)) (cb_categories b))"
  define ids where "ids = similar_books (bk_id (cb_book b)) cats d"
  have x: "x = to_book_detail b (Some slug) (pick_cards ids (build_card_map ids lang d))"
    using assms(2) b by (simp add: slug_detail_def cats_def ids_def Let_def)
  have own: "bd_id x = bk_id (cb_book b)" and rec: "bd_recommend x = pick_cards ids (build_card_map ids lang d)"
    by (simp_all add: x to_book_detail_def Let_def)
  have "cb_categories b = categories_of d lang (bk_id (cb_book b))"
    using b by (auto simp: find_book_detail_by_slug_def join_book_def)
  then have shared: "\<exists>r\<in>set (rows (book_categories d)). bc_book_id r = bd_id x \<and> bc_category_id r = c" if "c \<in> set cats" for c
    using that category_of_book by (fastforce simp: cats_def own)
  have "length ids \<le> 4" by (simp add: ids_def similar_books_def)
  then have len: "length (bd_recommend x) \<le> 4"
    unfolding rec pick_cards_def using length_map_filter le_trans by blast
  have "card_id card \<noteq> bd_id x
      \<and> (\<exists>b c. book_of d (card_id card) = Some b \<and> public_book d b \<and> categorised d [c] b
           \<and> (\<exists>r\<in>set (rows (book_categories d)). bc_book_id r = bd_id x \<and> bc_category_id r = c))"
    if card: "card \<in> set (bd_recommend x)" for card
  proof -
    obtain b1 where b1: "b1 \<in> set (rows (books d))" "bk_id b1 = card_id card" "card_id card \<in> set ids" "public_book d b1"
      using card unfolding rec by (rule picked_card)
    from b1(3) obtain b2 where b2: "b2 \<in> set (rows (books d))" "bk_id b2 = card_id card" "card_id card \<noteq> bd_id x"
        "categorised d cats b2"
      unfolding ids_def similar_books_def own
      by (auto simp: find_book_alike_category_def dest!: in_set_takeD)
    from b2(4) obtain c where c: "c \<in> set cats" "categorised d [c] b2"
      by (auto simp: categorised_def list_ex_iff)
    have found: "book_of d (card_id card) = Some b1"
      using find_row_key [OF assms(1) b1(1)] by (simp add: book_of_def b1(2))
    moreover have "b2 = b1"
      using found find_row_key [OF assms(1) b2(1)] by (simp add: book_of_def b2(2))
    ultimately show ?thesis using b1(4) b2(3) c shared by blast
  qed
  with len show ?thesis by blast
qed

lemma recommendations_share_category_witness:
  "\<exists>x. slug_detail ''a'' 1 sample_catalog = Inr (Detail_Value x) \<and> bd_id x = 1
     \<and> bd_recommend x \<noteq> [] \<and> (\<forall>card\<in>set (bd_recommend x). card_id card \<noteq> 1)"
proof -
  have wf: "wf_table bk_id (books sample_catalog)"
    by (simp add: wf_table_def sample_catalog_def sample_book_def)
  have b: "find_book_detail_by_slug ''a'' 1 sample_catalog =
      Some ((join_book sample_catalog 1 (cheapest_first sample_catalog 1) (sample_book 1))
        \<lparr>cb_translations := filter (\<lambda>t. bt_slug t = Some ''a'') (translations_of sample_catalog 1 1)\<rparr>)"
    by (simp add: find_book_detail_by_slug_def find_row_def public_book_def has_slug_def sample_catalog_def
        sample_book_def sample_translation_def sample_priced_def priced_def)
  have cats: "map (\<lambda>c. cat_id (cc_row c)) (categories_of sample_catalog 1 1) = [1]" "category_ids_of sample_catalog 2 = [1]"
    by (simp_all add: categories_of_def category_ids_of_def category_view_def sample_catalog_def find_row_def
        select_rows_def List.map_filter_simps sample_category_def)
  have alike: "find_book_alike_category 1 [1] sample_catalog = [(2, [1])]"
    using cats(2) by (simp add: find_book_alike_category_def select_rows_def sample_catalog_def public_book_def categorised_def
        sample_book_def sample_priced_def priced_def)
  have similar: "similar_books 1 [1] sample_catalog = [2]"
    by (simp add: similar_books_def alike)
  have found: "select_rows (\<lambda>b. bk_id b \<in> set [2] \<and> public_book sample_catalog b) (books sample_catalog) = [sample_book 2]"
    by (simp add: select_rows_def sample_catalog_def public_book_def sample_book_def sample_priced_def priced_def)
  have cards: "pick_cards [2] (build_card_map [2] 1 sample_catalog) \<noteq> []"
    unfolding build_card_map_def find_books_by_ids_def found
    by (simp add: pick_cards_def js_map_of_def page_slice_def List.map_filter_simps sample_book_def)
  let ?recommend = "pick_cards [2] (build_card_map [2] 1 sample_catalog)"
  obtain x where x: "slug_detail ''a'' 1 sample_catalog = Inr (Detail_Value x)" "bd_id x = 1" "bd_recommend x = ?recommend"
    using cats(1) similar
    by (simp add: slug_detail_def b Let_def join_book_def to_book_detail_def sample_book_def)
  from recommendations_share_category [OF wf x(1)] x cards show ?thesis by auto
qed

end
