(* ===== verification/Reference_Data.thy ===== *)
theory Reference_Data
  imports Catalog
begin

text \<open>
  The reference data of the catalogue: languages (\<open>src/src/modules/language\<close>), authors
  (\<open>author\<close>, \<open>book/author\<close>), publishers (\<open>publisher\<close>), categories (\<open>category\<close>,
  \<open>admin/category\<close>) and suppliers (\<open>admin/supplier\<close>). Names are compared by the collation of the
  database, the field \<open>ce_same\<close> of the environment; \<open>ce_nfd\<close> and \<open>ce_lower\<close> are the runtime's
  \<open>normalize('NFD')\<close> and \<open>toLowerCase\<close>. Entries of the Nest cache are arguments: a cached value is
  returned as it is.
\<close>

record catalog_env =
  ce_now :: int
  ce_nfd :: "utext \<Rightarrow> utext"
  ce_lower :: "utext \<Rightarrow> utext"
  ce_same :: "utext \<Rightarrow> utext \<Rightarrow> bool"

section \<open>Languages\<close>

definition find_language_by_code :: "string \<Rightarrow> db \<Rightarrow> language_row option" where
  [repo_defs]: "find_language_by_code code d = find_row (\<lambda>l. lang_code l = code \<and> lang_is_active l) (languages d)"

definition find_active_languages :: "db \<Rightarrow> language_row list" where
  [repo_defs]: "find_active_languages d = sort_key lang_id (select_rows lang_is_active (languages d))"

definition find_default_language :: "db \<Rightarrow> language_row option" where
  [repo_defs]: "find_default_language d = (case find_active_languages d of [] \<Rightarrow> None | l # _ \<Rightarrow> Some l)"

text \<open>The second component is the entry the call writes to the cache.\<close>

definition resolve_language :: "language_row option \<Rightarrow> string option \<Rightarrow> db \<Rightarrow> language_row res \<times> language_row option" where
  [service_defs]: "resolve_language cached lang d =
     (case cached of
        Some l \<Rightarrow> (Inr l, None)
      | None \<Rightarrow>
          (case find_language_by_code (to_lower (js_trim (case lang of None \<Rightarrow> ''vi'' | Some l \<Rightarrow> l))) d of
             Some l \<Rightarrow> (Inr l, Some l)
           | None \<Rightarrow>
               (case find_default_language d of
                  None \<Rightarrow> (Inl (NotFound ''NO_ACTIVE_LANGUAGE_FOUND''), None)
                | Some l \<Rightarrow> (Inr l, Some l))))"

record language_view =
  lv_id :: string
  lv_code :: string
  lv_name :: string

definition get_language :: "db \<Rightarrow> language_view list" where
  [service_defs]: "get_language d =
     map (\<lambda>l. \<lparr>lv_id = int_string (lang_id l), lv_code = lang_code l, lv_name = lang_name l\<rparr>) (find_active_languages d)"

section \<open>Authors\<close>

record name_item =
  ni_id :: string
  ni_name :: utext

definition create_author :: "catalog_env \<Rightarrow> utext \<Rightarrow> author_row action" where
  [repo_defs]: "create_author env name d =
     (case find_row (\<lambda>a. ce_same env (au_name a) name) (authors d) of
        Some a \<Rightarrow> (Inr a, d)
      | None \<Rightarrow> (Inr \<lparr>au_id = serial (authors d), au_name = name\<rparr>,
                 d\<lparr>authors := insert_row (\<lambda>i. \<lparr>au_id = i, au_name = name\<rparr>) (authors d)\<rparr>))"

definition to_author_item :: "author_row \<Rightarrow> name_item" where
  "to_author_item a = \<lparr>ni_id = int_string (au_id a), ni_name = au_name a\<rparr>"

text \<open>A \<open>Map\<close> filled in order: a key keeps its place and takes the last value.\<close>

fun put_entry :: "'k \<Rightarrow> 'v \<Rightarrow> ('k \<times> 'v) list \<Rightarrow> ('k \<times> 'v) list" where
  "put_entry k v [] = [(k, v)]"
| "put_entry k v ((j, w) # kvs) = (if j = k then (k, v) # kvs else (j, w) # put_entry k v kvs)"

definition map_entries :: "('k \<times> 'v) list \<Rightarrow> ('k \<times> 'v) list" where
  "map_entries kvs = foldl (\<lambda>m (k, v). put_entry k v m) [] kvs"

definition create_author_many :: "catalog_env \<Rightarrow> utext list \<Rightarrow> name_item list action" where
  [service_defs]: "create_author_many env names d =
     (let normalized = map snd (map_entries (map (\<lambda>n. (ce_lower env n, n)) (filter (\<lambda>n. n \<noteq> []) (map trim_points names)))) in
      if normalized = [] then (Inr [], d)
      else await (promise_all_list (map (create_author env) normalized) d) (\<lambda>as. ret (map to_author_item as)))"

definition get_authors :: "int option \<Rightarrow> int option \<Rightarrow> db \<Rightarrow> name_item paginated" where
  [service_defs]: "get_authors page limit d =
     (let p = (case page of None \<Rightarrow> 1 | Some n \<Rightarrow> n); l = (case limit of None \<Rightarrow> 20 | Some n \<Rightarrow> n)
      in build_paginated_result (map to_author_item (page_slice p l (sort_key au_id (rows (authors d)))))
           (count_rows (\<lambda>_. True) (authors d)) p l)"

text \<open>
  The books of an author and of a publisher: \<open>every\<close> variant must have a positive price. The client
  asks for no variant that fails the comparison, so a book without variants passes and so does a variant
  without a price, whose comparison is neither true nor false in SQL.
\<close>

definition all_priced :: "db \<Rightarrow> int \<Rightarrow> book_row \<Rightarrow> bool" where
  "all_priced d lang b \<longleftrightarrow> bk_is_active b \<and> bk_deleted_at b = None
     \<and> list_all (\<lambda>v. bv_book_id v = bk_id b \<longrightarrow> (case bv_price v of None \<Rightarrow> True | Some p \<Rightarrow> 0 < p)) (rows (variants d))
     \<and> translated d lang b"

record named_book =
  nb_book_id :: string
  nb_title :: utext
  nb_slug :: "string option"
  nb_min_price :: "string option"
  nb_cover_image_url :: "string option"
  nb_is_primary :: bool

definition to_named_book :: "db \<Rightarrow> int \<Rightarrow> bool \<Rightarrow> book_row \<Rightarrow> named_book" where
  "to_named_book d lang primary b =
     (let ts = take 1 (translations_of d lang (bk_id b)) in
      \<lparr>nb_book_id = int_string (bk_id b), nb_title = book_title (bk_id b) ts, nb_slug = first_slug ts,
       nb_min_price = (case cheapest_first d (bk_id b) of [] \<Rightarrow> None
         | v # _ \<Rightarrow> Some (to_fixed2 (number_of_decimal (bv_price v)))),
       nb_cover_image_url = bk_cover_image_url b, nb_is_primary = primary\<rparr>)"

definition author_books :: "int \<Rightarrow> int \<Rightarrow> db \<Rightarrow> (bool \<times> book_row) list" where
  [repo_defs]: "author_books author lang d =
     List.map_filter (\<lambda>x. case book_of d (ba_book_id x) of
         None \<Rightarrow> None | Some b \<Rightarrow> if all_priced d lang b then Some (ba_is_primary x, b) else None)
       (select_rows (\<lambda>x. ba_author_id x = author) (book_authors d))"

definition get_author_books :: "int \<Rightarrow> int option \<Rightarrow> int option \<Rightarrow> int \<Rightarrow> db \<Rightarrow> named_book paginated res" where
  [service_defs]: "get_author_books author page limit lang d =
     (if find_row (\<lambda>a. au_id a = author) (authors d) = None then Inl (NotFound ''AUTHOR_NOT_FOUND'')
      else let p = (case page of None \<Rightarrow> 1 | Some n \<Rightarrow> n); l = (case limit of None \<Rightarrow> 20 | Some n \<Rightarrow> n);
               bs = author_books author lang d
           in Inr (build_paginated_result
                (map (\<lambda>(primary, b). to_named_book d lang primary b)
                  (page_slice p l (sort_key (\<lambda>(_, b). (- bk_created_at b, - bk_id b)) bs)))
                (int (length bs)) p l))"

section \<open>Publishers\<close>

text \<open>The lookup of the upsert uses the lower-case name, the row it creates the name as given.\<close>

definition create_publisher :: "catalog_env \<Rightarrow> utext \<Rightarrow> publisher_row action" where
  [repo_defs]: "create_publisher env name d =
     (case find_row (\<lambda>p. ce_same env (pub_name p) (ce_lower env name)) (publishers d) of
        Some p \<Rightarrow> (Inr p, d)
      | None \<Rightarrow>
          if list_ex (\<lambda>p. ce_same env (pub_name p) name) (rows (publishers d)) then (Inl P2002, d)
          else (Inr \<lparr>pub_id = serial (publishers d), pub_name = name\<rparr>,
                d\<lparr>publishers := insert_row (\<lambda>i. \<lparr>pub_id = i, pub_name = name\<rparr>) (publishers d)\<rparr>))"

definition to_publisher_item :: "publisher_row \<Rightarrow> name_item" where
  "to_publisher_item p = \<lparr>ni_id = int_string (pub_id p), ni_name = pub_name p\<rparr>"

definition get_publishers :: "int option \<Rightarrow> int option \<Rightarrow> db \<Rightarrow> name_item paginated" where
  [service_defs]: "get_publishers page limit d =
     (let p = (case page of None \<Rightarrow> 1 | Some n \<Rightarrow> n); l = (case limit of None \<Rightarrow> 20 | Some n \<Rightarrow> n)
      in build_paginated_result (map to_publisher_item (page_slice p l (sort_key pub_id (rows (publishers d)))))
           (count_rows (\<lambda>_. True) (publishers d)) p l)"

definition publisher_books :: "int \<Rightarrow> int \<Rightarrow> db \<Rightarrow> book_row list" where
  [repo_defs]: "publisher_books publisher lang d =
     select_rows (\<lambda>b. bk_publisher_id b = Some publisher \<and> all_priced d lang b) (books d)"

definition get_publisher_books :: "int \<Rightarrow> int option \<Rightarrow> int option \<Rightarrow> int \<Rightarrow> db \<Rightarrow> named_book paginated res" where
  [service_defs]: "get_publisher_books publisher page limit lang d =
     (if find_row (\<lambda>p. pub_id p = publisher) (publishers d) = None then Inl (NotFound ''PUBLISHER_NOT_FOUND'')
      else let p = (case page of None \<Rightarrow> 1 | Some n \<Rightarrow> n); l = (case limit of None \<Rightarrow> 20 | Some n \<Rightarrow> n);
               bs = publisher_books publisher lang d
           in Inr (build_paginated_result (map (to_named_book d lang False) (page_slice p l (newest_first bs)))
                (int (length bs)) p l))"

section \<open>Categories\<close>

definition category_exists :: "int \<Rightarrow> db \<Rightarrow> bool" where
  [repo_defs]: "category_exists i d \<longleftrightarrow> find_row (\<lambda>c. cat_id c = i \<and> cat_deleted_at c = None) (categories d) \<noteq> None"

record create_category_body =
  cb_name :: utext
  cb_parent_id :: "int option"
  cb_is_active :: "bool option"
  cb_sort_order :: "int option"
  cb_slug :: "string option"
  cb_description :: "utext option"

record category_answer =
  ca_id :: string
  ca_parent_id :: "string option"
  ca_name :: utext
  ca_slug :: "string option"
  ca_is_active :: bool
  ca_sort_order :: int

definition parent_text :: "int option \<Rightarrow> string option" where
  "parent_text p = (case p of None \<Rightarrow> None | Some i \<Rightarrow> if i = 0 then None else Some (int_string i))"

definition new_category :: "create_category_body \<Rightarrow> int \<Rightarrow> int \<Rightarrow> category_row" where
  "new_category body actor i =
     \<lparr>cat_id = i, cat_parent_id = cb_parent_id body,
      cat_is_active = (case cb_is_active body of None \<Rightarrow> True | Some a \<Rightarrow> a),
      cat_sort_order = (case cb_sort_order body of None \<Rightarrow> 0 | Some n \<Rightarrow> n),
      cat_deleted_at = None, cat_created_by = Some actor\<rparr>"

definition insert_category :: "create_category_body \<Rightarrow> int \<Rightarrow> int \<Rightarrow> category_row action" where
  [repo_defs]: "insert_category body actor lang =
     transaction (\<lambda>d.
       let row = new_category body actor (serial (categories d)) in
       if user_of d actor = None then (Inl P2003, d)
       else if (case cb_parent_id body of None \<Rightarrow> False | Some p \<Rightarrow> find_row (\<lambda>c. cat_id c = p) (categories d) = None)
       then (Inl P2003, d)
       else let d1 = d\<lparr>categories := insert_row (new_category body actor) (categories d)\<rparr> in
         if find_row (\<lambda>l. lang_id l = lang) (languages d) = None then (Inl P2003, d1)
         else (Inr row, d1\<lparr>category_translations := insert_row (\<lambda>i. \<lparr>ct_id = i, ct_category_id = cat_id row,
                 ct_language_id = lang, ct_name = cb_name body, ct_description = cb_description body,
                 ct_slug = cb_slug body\<rparr>) (category_translations d)\<rparr>))"

definition create_category :: "create_category_body \<Rightarrow> int \<Rightarrow> int \<Rightarrow> category_answer action" where
  [service_defs]: "create_category body actor lang d =
     (if (case cb_parent_id body of None \<Rightarrow> False | Some p \<Rightarrow> \<not> category_exists p d)
      then (Inl (NotFound ''PARENT_CATEGORY_NOT_FOUND''), d)
      else await (insert_category body actor lang d) (\<lambda>c. ret
        \<lparr>ca_id = int_string (cat_id c), ca_parent_id = parent_text (cat_parent_id c), ca_name = cb_name body,
         ca_slug = cb_slug body, ca_is_active = cat_is_active c, ca_sort_order = cat_sort_order c\<rparr>))"

definition to_category_answer :: "catalog_category \<Rightarrow> category_answer" where
  "to_category_answer c =
     (let r = cc_row c; t = (case cc_translations c of [] \<Rightarrow> None | x # _ \<Rightarrow> Some x) in
      \<lparr>ca_id = int_string (cat_id r), ca_parent_id = parent_text (cat_parent_id r),
       ca_name = (case t of None \<Rightarrow> [] | Some x \<Rightarrow> ct_name x), ca_slug = (case t of None \<Rightarrow> None | Some x \<Rightarrow> ct_slug x),
       ca_is_active = cat_is_active r, ca_sort_order = cat_sort_order r\<rparr>)"

definition get_category_page :: "int option \<Rightarrow> int option \<Rightarrow> int \<Rightarrow> db \<Rightarrow> category_answer paginated" where
  [service_defs]: "get_category_page page limit lang d =
     (let p = (case page of None \<Rightarrow> 1 | Some n \<Rightarrow> n); l = (case limit of None \<Rightarrow> 20 | Some n \<Rightarrow> n);
          cs = find_active_categories lang d
      in build_paginated_result (map to_category_answer (page_slice p l cs)) (int (length cs)) p l)"

definition category_stats :: "(int \<times> int) option \<Rightarrow> db \<Rightarrow> int \<times> int" where
  [service_defs]: "category_stats cached d =
     (case cached of
        Some s \<Rightarrow> s
      | None \<Rightarrow> (count_rows (\<lambda>c. cat_deleted_at c = None) (categories d),
                 count_rows (\<lambda>c. cat_deleted_at c = None \<and> cat_is_active c) (categories d)))"

section \<open>Suppliers\<close>

definition supplier_of :: "db \<Rightarrow> int \<Rightarrow> supplier_row option" where
  [repo_defs]: "supplier_of d i = find_row (\<lambda>s. sup_id s = i) (suppliers d)"

definition new_supplier :: "catalog_env \<Rightarrow> string \<Rightarrow> string \<Rightarrow> int \<Rightarrow> supplier_row" where
  "new_supplier env name code i =
     \<lparr>sup_id = i, sup_code = code, sup_name = name, sup_is_active = True, sup_created_at = ce_now env\<rparr>"

definition create_supplier :: "catalog_env \<Rightarrow> string \<Rightarrow> string \<Rightarrow> supplier_row action" where
  [service_defs]: "create_supplier env name code d =
     (if list_ex (\<lambda>s. sup_code s = code) (rows (suppliers d)) then (Inl P2002, d)
      else (Inr (new_supplier env name code (serial (suppliers d))),
            d\<lparr>suppliers := insert_row (new_supplier env name code) (suppliers d)\<rparr>))"

definition get_suppliers :: "int option \<Rightarrow> int option \<Rightarrow> db \<Rightarrow> supplier_row paginated" where
  [service_defs]: "get_suppliers page limit d =
     (let p = (case page of None \<Rightarrow> 1 | Some n \<Rightarrow> n); l = (case limit of None \<Rightarrow> 20 | Some n \<Rightarrow> n)
      in build_paginated_result
           (page_slice p l (sort_key (\<lambda>s. (- sup_created_at s, - sup_id s)) (rows (suppliers d))))
           (count_rows (\<lambda>_. True) (suppliers d)) p l)"

definition toggle_supplier_active :: "int \<Rightarrow> supplier_row action" where
  [service_defs]: "toggle_supplier_active i d =
     (case supplier_of d i of
        None \<Rightarrow> (Inl (NotFound ''SUPPLIER_NOT_FOUND''), d)
      | Some s \<Rightarrow> (Inr (s\<lparr>sup_is_active := \<not> sup_is_active s\<rparr>),
                  d\<lparr>suppliers := map_rows (\<lambda>r. sup_id r = i) (\<lambda>r. r\<lparr>sup_is_active := \<not> sup_is_active s\<rparr>) (suppliers d)\<rparr>))"

section \<open>The category hierarchy\<close>

text \<open>
  The references of the category tables: identifiers are unique, a category names an older one as its
  parent, a translation names an existing category and language, and a category has at most one
  translation per language.
\<close>

definition hierarchy_ok :: "db \<Rightarrow> bool" where
  "hierarchy_ok d \<longleftrightarrow> wf_table cat_id (categories d) \<and> wf_table ct_id (category_translations d)
     \<and> (\<forall>c\<in>set (rows (categories d)). \<forall>p. cat_parent_id c = Some p \<longrightarrow>
           p < cat_id c \<and> p \<in> cat_id ` set (rows (categories d)))
     \<and> (\<forall>t\<in>set (rows (category_translations d)).
           ct_category_id t \<in> cat_id ` set (rows (categories d))
         \<and> ct_language_id t \<in> lang_id ` set (rows (languages d)))
     \<and> distinct (map (\<lambda>t. (ct_category_id t, ct_language_id t)) (rows (category_translations d)))"

lemma find_row_key_exists: "find_row (\<lambda>r. key r = k) t \<noteq> None \<longleftrightarrow> k \<in> key ` set (rows t)"
proof
  assume "find_row (\<lambda>r. key r = k) t \<noteq> None"
  then obtain r where "find_row (\<lambda>r. key r = k) t = Some r" by blast
  then show "k \<in> key ` set (rows t)" by (auto dest: find_row_SomeD)
next
  assume "k \<in> key ` set (rows t)"
  then show "find_row (\<lambda>r. key r = k) t \<noteq> None" by (auto simp: find_row_None)
qed

text \<open>A new category with its translation keeps the references, when its parent exists.\<close>

lemma hierarchy_insert:
  assumes ok: "hierarchy_ok d"
    and parent: "\<And>p. cb_parent_id body = Some p \<Longrightarrow> p \<in> cat_id ` set (rows (categories d))"
    and lang: "lang \<in> lang_id ` set (rows (languages d))"
  shows "hierarchy_ok (d\<lparr>categories := insert_row (new_category body actor) (categories d),
    category_translations := insert_row (\<lambda>i. \<lparr>ct_id = i, ct_category_id = serial (categories d),
      ct_language_id = lang, ct_name = n, ct_description = de, ct_slug = sl\<rparr>) (category_translations d)\<rparr>)"
proof -
  have wf: "wf_table cat_id (categories d)" "wf_table ct_id (category_translations d)"
    using ok by (simp_all add: hierarchy_ok_def)
  have less: "\<And>c. c \<in> set (rows (categories d)) \<Longrightarrow> cat_id c < serial (categories d)"
    using wf(1) by (simp add: wf_table_def)
  have fresh: "serial (categories d) \<notin> ct_category_id ` set (rows (category_translations d))"
  proof
    assume "serial (categories d) \<in> ct_category_id ` set (rows (category_translations d))"
    then have "serial (categories d) \<in> cat_id ` set (rows (categories d))"
      using ok by (auto simp: hierarchy_ok_def)
    then show False using less by force
  qed
  have c: "wf_table cat_id (insert_row (new_category body actor) (categories d))"
    by (rule wf_insert_row) (simp_all add: wf new_category_def)
  have t: "wf_table ct_id (insert_row (\<lambda>i. \<lparr>ct_id = i, ct_category_id = serial (categories d),
      ct_language_id = lang, ct_name = n, ct_description = de, ct_slug = sl\<rparr>) (category_translations d))"
    by (rule wf_insert_row) (simp_all add: wf)
  show ?thesis
    unfolding hierarchy_ok_def
    using ok parent lang fresh less c t
    by (auto simp: hierarchy_ok_def new_category_def image_iff)
qed

lemma insert_category_ok:
  assumes "hierarchy_ok d"
  shows "hierarchy_ok (snd (insert_category body actor lang d))"
proof (cases "user_of d actor = None
    \<or> (case cb_parent_id body of None \<Rightarrow> False | Some p \<Rightarrow> find_row (\<lambda>c. cat_id c = p) (categories d) = None)
    \<or> find_row (\<lambda>l. lang_id l = lang) (languages d) = None")
  case True
  then have "snd (insert_category body actor lang d) = d"
    by (auto simp: insert_category_def transaction_def Let_def)
  with assms show ?thesis by simp
next
  case False
  then have parent: "p \<in> cat_id ` set (rows (categories d))" if "cb_parent_id body = Some p" for p
    using that find_row_key_exists [of cat_id p "categories d"] by simp
  have lang: "lang \<in> lang_id ` set (rows (languages d))"
    using False find_row_key_exists [of lang_id lang "languages d"] by simp
  show ?thesis
    using False assms hierarchy_insert [where body = body and actor = actor, OF assms parent lang]
    by (simp add: insert_category_def transaction_def Let_def new_category_def)
qed

lemma create_category_ok:
  assumes "hierarchy_ok d"
  shows "hierarchy_ok (snd (create_category body actor lang d))"
  using assms by (auto simp: create_category_def intro: await_keeps insert_category_ok)

interpretation category_calls: machine
  "\<lambda>(body, actor, lang) d. snd (create_category body actor lang d)" hierarchy_ok
  by unfold_locales (auto intro: create_category_ok)

text \<open>
  The category tables stay well formed. Whatever requests to create categories arrive, answered or
  refused, identifiers stay unique, every parent is an older category of the table, every
  translation belongs to a category and a language of the tables and no category has two translations in a
  language.
\<close>
theorem categories_well_typed:
  assumes "hierarchy_ok d"
  shows "hierarchy_ok (fold (\<lambda>(body, actor, lang) d. snd (create_category body actor lang d)) calls d)"
  using assms by (rule category_calls.run_inv)

definition sample_body :: "int option \<Rightarrow> create_category_body" where
  "sample_body parent = \<lparr>cb_name = points ''Novels'', cb_parent_id = parent, cb_is_active = None,
     cb_sort_order = None, cb_slug = Some ''novels'', cb_description = None\<rparr>"

definition sample_languages :: db where
  "sample_languages = empty_db\<lparr>
     users := \<lparr>rows = [\<lparr>usr_id = 2, usr_email = ''a'', usr_phone = None, usr_first_name = None, usr_last_name = None,
       usr_password = [], usr_password_changed_at = None, usr_is_email_verified = True, usr_verify_email_at = None,
       usr_status = User_ACTIVE, usr_last_login_at = None, usr_created_at = 0, usr_deleted_at = None\<rparr>], serial = 3\<rparr>,
     languages := \<lparr>rows = [\<lparr>lang_id = 2, lang_code = ''vi'', lang_name = ''Vietnamese'', lang_is_active = True\<rparr>],
       serial = 3\<rparr>\<rparr>"

lemma sample_languages_ok: "hierarchy_ok sample_languages"
  by (simp add: hierarchy_ok_def sample_languages_def empty_db_def wf_table_def empty_table_def)

theorem categories_well_typed_witness:
  "let d = fold (\<lambda>(body, actor, lang) d. snd (create_category body actor lang d))
             [(sample_body None, 2, 2), (sample_body (Some 1), 2, 2), (sample_body (Some 7), 2, 2)] sample_languages
   in hierarchy_ok d \<and> length (rows (categories d)) = 2"
proof -
  let ?calls = "[(sample_body None, 2, 2), (sample_body (Some 1), 2, 2), (sample_body (Some 7), 2, 2)]"
  have "length (rows (categories (fold (\<lambda>(body, actor, lang) d. snd (create_category body actor lang d)) ?calls sample_languages))) = 2"
    by (simp add: create_category_def insert_category_def category_exists_def sample_languages_def sample_body_def
        new_category_def empty_db_def empty_table_def user_of_def find_row_def insert_row_def transaction_def await_def Let_def)
  then show ?thesis
    unfolding Let_def using categories_well_typed [OF sample_languages_ok, of ?calls] by simp
qed

end
