(* ===== verification/Admin_Book.thy ===== *)
theory Admin_Book
  imports Reference_Data Inventory
begin

text \<open>
  The administration of books, \<open>src/src/modules/admin/book\<close>, with its variants
  (\<open>admin/book-variant\<close>) and its audit log (\<open>admin/audit-log\<close>). The Prisma client checks the fields of a
  \<open>select\<close> against the model before it runs a query: a selection is a list of field names, and a query
  with an unknown field raises without touching the database. \<open>findMany\<close> and raw queries without an order
  answer in the order of their table.
\<close>

section \<open>Selections\<close>

definition book_variant_fields :: "string list" where
  "book_variant_fields =
     [''id'', ''bookId'', ''format'', ''isbn'', ''price'', ''currencyCode'', ''stock'', ''available'', ''isActive'',
      ''createdAt'', ''updatedAt'', ''reserved'', ''edition'', ''publicationYear'', ''supplierId'', ''book'',
      ''wishlistItems'', ''cartItems'', ''bookVariantSnapshots'', ''purchaseOrderItem'', ''supplier'']"

definition admin_book_variant_item_select :: "string list" where
  "admin_book_variant_item_select =
     [''id'', ''format'', ''edition'', ''isbn'', ''costPrice'', ''price'', ''currencyCode'', ''stock'', ''isActive'']"

definition updated_variant_select :: "string list" where
  "updated_variant_select =
     [''id'', ''format'', ''isbn'', ''currencyCode'', ''stock'', ''isActive'', ''price'', ''edition'', ''purchaseOrderItem'']"

definition selecting :: "string list \<Rightarrow> 'a action \<Rightarrow> 'a action" where
  "selecting sel query d =
     (if list_all (\<lambda>f. f \<in> set book_variant_fields) sel then query d
      else (Inl (JsError ''PrismaClientValidationError''), d))"

section \<open>Audit log\<close>

definition create_audit_log :: "catalog_env \<Rightarrow> int \<Rightarrow> string \<Rightarrow> string \<Rightarrow> string \<Rightarrow> string option \<Rightarrow> unit action" where
  [repo_defs]: "create_audit_log env actor act entity eid ip d =
     (if user_of d actor = None then (Inl P2003, d)
      else (Inr (), d\<lparr>audit_logs := insert_row (\<lambda>i. \<lparr>al_id = i, al_actor_user_id = actor, al_action = act,
              al_entity_type = entity, al_entity_id = eid, al_ip = ip, al_created_at = ce_now env\<rparr>) (audit_logs d)\<rparr>))"

section \<open>Slugs\<close>

definition find_translation_by_language_and_slug :: "int \<Rightarrow> string \<Rightarrow> db \<Rightarrow> book_translation_row option" where
  [repo_defs]: "find_translation_by_language_and_slug lang slug d =
     find_row (\<lambda>t. bt_language_id t = lang \<and> bt_slug t = Some slug) (book_translations d)"

definition numbered_slug :: "string \<Rightarrow> int \<Rightarrow> string" where
  "numbered_slug base index = base @ ''-'' @ int_string index"

text \<open>The loop of \<open>buildUniqueSlug\<close>: it ends because a language has finitely many slugs.\<close>

definition taken_indices :: "int \<Rightarrow> string \<Rightarrow> int \<Rightarrow> db \<Rightarrow> int set" where
  "taken_indices lang base index d =
     {n. index \<le> n \<and> find_translation_by_language_and_slug lang (numbered_slug base n) d \<noteq> None}"

lemma numbered_slug_inject [simp]: "numbered_slug base m = numbered_slug base n \<longleftrightarrow> m = n"
  by (simp add: numbered_slug_def)

lemma slug_taken_iff:
  "find_translation_by_language_and_slug lang s d \<noteq> None \<longleftrightarrow>
     (\<exists>t\<in>set (rows (book_translations d)). bt_language_id t = lang \<and> bt_slug t = Some s)"
  by (auto simp: find_translation_by_language_and_slug_def find_row_None)

lemma taken_indices_image:
  "numbered_slug base ` taken_indices lang base index d \<subseteq>
     (the \<circ> bt_slug) ` {t \<in> set (rows (book_translations d)). bt_language_id t = lang}"
proof
  fix s
  assume "s \<in> numbered_slug base ` taken_indices lang base index d"
  then obtain t where "t \<in> set (rows (book_translations d))" "bt_language_id t = lang" "bt_slug t = Some s"
    unfolding taken_indices_def slug_taken_iff by blast
  then show "s \<in> (the \<circ> bt_slug) ` {t \<in> set (rows (book_translations d)). bt_language_id t = lang}"
    by (intro image_eqI [of _ _ t]) simp_all
qed

lemma finite_taken_indices [simp]: "finite (taken_indices lang base index d)"
proof (rule finite_imageD)
  show "finite (numbered_slug base ` taken_indices lang base index d)"
    by (rule finite_subset [OF taken_indices_image]) simp
  show "inj_on (numbered_slug base) (taken_indices lang base index d)" by (simp add: inj_on_def)
qed

lemma taken_indices_step:
  "taken_indices lang base index d =
     (if find_translation_by_language_and_slug lang (numbered_slug base index) d = None
      then taken_indices lang base (index + 1) d
      else insert index (taken_indices lang base (index + 1) d))"
proof -
  have "index \<le> n \<longleftrightarrow> n = index \<or> index + 1 \<le> n" for n by linarith
  then show ?thesis by (auto simp: taken_indices_def)
qed

lemma not_in_later_indices [simp]: "index \<notin> taken_indices lang base (index + 1) d"
  by (simp add: taken_indices_def)

function slug_loop :: "int \<Rightarrow> string \<Rightarrow> string \<Rightarrow> int \<Rightarrow> db \<Rightarrow> string" where
  "slug_loop lang base candidate index d =
     (case find_translation_by_language_and_slug lang candidate d of
        None \<Rightarrow> candidate
      | Some _ \<Rightarrow> slug_loop lang base (numbered_slug base index) (index + 1) d)"
  by pat_completeness auto
termination
proof (relation "measure (\<lambda>(lang, base, candidate, index, d). card (taken_indices lang base index d)
    + (if find_translation_by_language_and_slug lang candidate d = None then 0 else 1))", goal_cases)
  case (2 lang base candidate index d x2)
  have "card (taken_indices lang base index d) = card (taken_indices lang base (index + 1) d)
      + (if find_translation_by_language_and_slug lang (numbered_slug base index) d = None then 0 else 1)"
    using taken_indices_step [of lang base index d] by simp
  with 2 show ?case by simp
qed simp

declare slug_loop.simps [simp del]

definition build_unique_slug :: "int \<Rightarrow> string \<Rightarrow> db \<Rightarrow> string" where
  [service_defs]: "build_unique_slug lang base d = slug_loop lang base base 2 d"

section \<open>Translations\<close>

definition live_book :: "db \<Rightarrow> int \<Rightarrow> book_row res" where
  "live_book d i = (case book_of d i of None \<Rightarrow> Inl (NotFound ''BOOK_NOT_FOUND'')
     | Some b \<Rightarrow> if bk_deleted_at b \<noteq> None then Inl (NotFound ''BOOK_NOT_FOUND'') else Inr b)"

definition find_translation_by_book_and_language :: "int \<Rightarrow> int \<Rightarrow> db \<Rightarrow> book_translation_row option" where
  [repo_defs]: "find_translation_by_book_and_language book lang d =
     find_row (\<lambda>t. bt_book_id t = book \<and> bt_language_id t = lang) (book_translations d)"

definition insert_translation ::
    "int \<Rightarrow> int \<Rightarrow> utext \<Rightarrow> utext option \<Rightarrow> string \<Rightarrow> book_translation_row action" where
  [repo_defs]: "insert_translation book lang title desc slug d =
     (let mk = (\<lambda>i. \<lparr>bt_id = i, bt_book_id = book, bt_language_id = lang, bt_title = title,
                     bt_description = desc, bt_slug = Some slug\<rparr>) in
      if find_translation_by_book_and_language book lang d \<noteq> None then (Inl P2002, d)
      else if book_of d book = None \<or> find_row (\<lambda>l. lang_id l = lang) (languages d) = None then (Inl P2003, d)
      else (Inr (mk (serial (book_translations d))),
            d\<lparr>book_translations := insert_row mk (book_translations d)\<rparr>))"

definition base_slug :: "catalog_env \<Rightarrow> utext \<Rightarrow> int \<Rightarrow> string" where
  "base_slug env title book =
     (let s = map char_of (generate_slug (ce_nfd env) (ce_lower env) title)
      in if s = [] then ''book-'' @ int_string book else s)"

record translation_view =
  tv_id :: string
  tv_language_id :: int
  tv_title :: utext
  tv_description :: "utext option"
  tv_slug :: string

definition to_translation_view :: "book_translation_row \<Rightarrow> translation_view" where
  "to_translation_view t = \<lparr>tv_id = int_string (bt_id t), tv_language_id = bt_language_id t, tv_title = bt_title t,
     tv_description = bt_description t, tv_slug = (case bt_slug t of None \<Rightarrow> [] | Some s \<Rightarrow> s)\<rparr>"

definition create_book_translation ::
    "catalog_env \<Rightarrow> language_row option \<Rightarrow> int \<Rightarrow> string option \<Rightarrow> utext \<Rightarrow> utext option \<Rightarrow> int \<Rightarrow> string option
      \<Rightarrow> translation_view action" where
  [service_defs]: "create_book_translation env cached book lang title desc actor ip d0 =
     (case fst (resolve_language cached lang d0) of
        Inl e \<Rightarrow> (Inl e, d0)
      | Inr l \<Rightarrow>
          transaction (\<lambda>d.
            (case live_book d book of
               Inl e \<Rightarrow> (Inl e, d)
             | Inr b \<Rightarrow>
                 if find_translation_by_book_and_language book (lang_id l) d \<noteq> None
                 then (Inl (ConflictExn ''BOOK_TRANSLATION_ALREADY_EXISTS_IN_THIS_LANGUAGE''), d)
                 else await (insert_translation book (lang_id l) title desc
                               (build_unique_slug (lang_id l) (base_slug env title book) d) d) (\<lambda>t d.
                      await (create_audit_log env actor ''ADMIN_BOOK_TRANSLATION_CREATE'' ''BOOK_TRANSLATION''
                               (int_string (bt_id t)) ip d) (\<lambda>_. ret (to_translation_view t))))) d0)"

section \<open>Answers\<close>

record po_item_view =
  pv_id :: "int option"
  pv_purchase_order_id :: "int option"
  pv_unit_price :: string
  pv_discount_price :: string
  pv_price :: string

record admin_variant_view =
  av_id :: string
  av_format :: book_format
  av_edition :: int
  av_isbn :: string
  av_price :: "string option"
  av_currency :: currency_code
  av_stock :: int
  av_is_active :: bool
  av_po_items :: "po_item_view list"

record admin_book_item =
  ab_id :: string
  ab_publisher_id :: "string option"
  ab_publication_year :: "int option"
  ab_page_count :: "int option"
  ab_weight_grams :: "int option"
  ab_cover_image_url :: "string option"
  ab_is_active :: bool
  ab_deleted_at :: "int option"
  ab_created_at :: int
  ab_translations :: "translation_view list"
  ab_variants :: "admin_variant_view list"

definition po_items_of :: "db \<Rightarrow> int \<Rightarrow> purchase_order_item_row list" where
  "po_items_of d v = sort_key (\<lambda>x. - poi_created_at x) (select_rows (\<lambda>x. poi_variant_id x = v) (purchase_order_items d))"

definition to_po_item_view :: "bool \<Rightarrow> purchase_order_item_row \<Rightarrow> po_item_view" where
  "to_po_item_view ids x =
     \<lparr>pv_id = (if ids then Some (poi_id x) else None),
      pv_purchase_order_id = (if ids then Some (poi_purchase_order_id x) else None),
      pv_unit_price = number_string (poi_unit_price x), pv_discount_price = number_string (poi_discount_price x),
      pv_price = number_string (poi_price x)\<rparr>"

definition to_decimal_text :: "rat option \<Rightarrow> string option" where
  "to_decimal_text v = map_option to_fixed2 v"

text \<open>Template text of a nullable column: \<open>String(null)\<close> is the word \<open>null\<close>.\<close>

definition price_text :: "rat option \<Rightarrow> string" where
  "price_text v = (case v of None \<Rightarrow> ''null'' | Some p \<Rightarrow> number_string p)"

definition variants_of_book :: "db \<Rightarrow> int \<Rightarrow> variant_row list" where
  "variants_of_book d i = sort_key bv_id (select_rows (\<lambda>v. bv_book_id v = i) (variants d))"

definition to_admin_variant_view :: "db \<Rightarrow> bool \<Rightarrow> (rat option \<Rightarrow> string option) \<Rightarrow> variant_row \<Rightarrow> admin_variant_view" where
  "to_admin_variant_view d ids text_of v =
     \<lparr>av_id = int_string (bv_id v), av_format = bv_format v, av_edition = bv_edition v, av_isbn = bv_isbn v,
      av_price = text_of (bv_price v), av_currency = bv_currency v, av_stock = bv_stock v,
      av_is_active = bv_is_active v, av_po_items = map (to_po_item_view ids) (po_items_of d (bv_id v))\<rparr>"

definition sorted_translations :: "db \<Rightarrow> int \<Rightarrow> book_translation_row list" where
  "sorted_translations d i = sort_key bt_language_id (select_rows (\<lambda>t. bt_book_id t = i) (book_translations d))"

definition to_admin_book_item :: "db \<Rightarrow> bool \<Rightarrow> book_row \<Rightarrow> admin_book_item" where
  "to_admin_book_item d ids b =
     \<lparr>ab_id = int_string (bk_id b), ab_publisher_id = parent_text (bk_publisher_id b),
      ab_publication_year = bk_publication_year b, ab_page_count = bk_page_count b, ab_weight_grams = bk_weight_grams b,
      ab_cover_image_url = bk_cover_image_url b, ab_is_active = bk_is_active b, ab_deleted_at = bk_deleted_at b,
      ab_created_at = bk_created_at b,
      ab_translations = map to_translation_view (take 1 (sorted_translations d (bk_id b))),
      ab_variants = map (to_admin_variant_view d ids to_decimal_text) (variants_of_book d (bk_id b))\<rparr>"

record admin_book_detail =
  ad_item :: admin_book_item
  ad_author_name :: "utext option"
  ad_publisher_name :: "utext option"

definition to_admin_book_detail :: "db \<Rightarrow> book_row \<Rightarrow> admin_book_detail" where
  "to_admin_book_detail d b =
     \<lparr>ad_item = (to_admin_book_item d True b)
        \<lparr>ab_publisher_id := map_option int_string (bk_publisher_id b),
         ab_translations := map to_translation_view (sorted_translations d (bk_id b)),
         ab_variants := map (to_admin_variant_view d True (\<lambda>p. Some (price_text p))) (variants_of_book d (bk_id b))\<rparr>,
      ad_author_name =
        (case List.map_filter (\<lambda>x. map_option au_name (find_row (\<lambda>a. au_id a = ba_author_id x) (authors d)))
                (select_rows (\<lambda>x. ba_book_id x = bk_id b) (book_authors d)) of [] \<Rightarrow> None | n # _ \<Rightarrow> Some n),
      ad_publisher_name = (case bk_publisher_id b of None \<Rightarrow> None
        | Some p \<Rightarrow> map_option pub_name (find_row (\<lambda>r. pub_id r = p) (publishers d)))\<rparr>"

record admin_price_view =
  ap_id :: string
  ap_variants :: "(string \<times> string \<times> bool \<times> int \<times> string \<times> purchase_order_item_row list) list"

definition to_book_price_view :: "db \<Rightarrow> book_row \<Rightarrow> admin_price_view" where
  "to_book_price_view d b =
     \<lparr>ap_id = int_string (bk_id b),
      ap_variants = map (\<lambda>v. (int_string (bv_id v), price_text (bv_price v), bv_is_active v, bv_stock v, bv_isbn v,
          po_items_of d (bv_id v))) (filter bv_is_active (variants_of_book d (bk_id b)))\<rparr>"

definition get_admin_detail :: "int \<Rightarrow> bool \<Rightarrow> db \<Rightarrow> (admin_price_view + admin_book_detail) res" where
  [service_defs]: "get_admin_detail i view_price d =
     (case live_book d i of
        Inl e \<Rightarrow> Inl e
      | Inr b \<Rightarrow> if view_price then Inr (Inl (to_book_price_view d b)) else Inr (Inr (to_admin_book_detail d b)))"

section \<open>Creating a book\<close>

record create_spec =
  cs_width_cm :: "rat option"
  cs_height_cm :: "rat option"
  cs_thickness_cm :: "rat option"
  cs_packaging :: "string option"

record create_book_body =
  nb_body_title :: utext
  nb_body_description :: utext
  nb_body_publisher :: utext
  nb_body_authors :: "(utext \<times> bool) list"
  nb_body_spec :: "create_spec option"
  nb_body_page_count :: "int option"
  nb_body_cover :: "string option"
  nb_body_variants :: "create_variant_input list"

text \<open>
  The authors of the request by lower-case name: the first spelling stays, one primary mention makes the
  author primary.
\<close>

definition add_author :: "catalog_env \<Rightarrow> (utext \<times> utext \<times> bool) list \<Rightarrow> utext \<times> bool \<Rightarrow> (utext \<times> utext \<times> bool) list" where
  "add_author env m a =
     (let t = trim_points (fst a); k = ce_lower env t in
      if t = [] then m
      else (case map_of m k of
              Some (name, primary) \<Rightarrow> put_entry k (name, primary \<or> snd a) m
            | None \<Rightarrow> put_entry k (t, snd a) m))"

definition normalized_authors :: "catalog_env \<Rightarrow> (utext \<times> bool) list \<Rightarrow> (utext \<times> bool) list" where
  "normalized_authors env as = map snd (foldl (add_author env) [] as)"

definition author_links :: "catalog_env \<Rightarrow> name_item list \<Rightarrow> (utext \<times> bool) list \<Rightarrow> (int \<times> bool) list" where
  "author_links env created as =
     List.map_filter (\<lambda>(name, primary).
       (case js_map_of (map (\<lambda>c. (ce_lower env (trim_points (ni_name c)), digits_value (ni_id c))) created)
               (ce_lower env name) of
          None \<Rightarrow> None
        | Some i \<Rightarrow> if i = 0 then None else Some (i, primary))) as"

definition insert_book :: "catalog_env \<Rightarrow> int option \<Rightarrow> int option \<Rightarrow> string option \<Rightarrow> int \<Rightarrow> book_row action" where
  [repo_defs]: "insert_book env publisher pages cover actor =
     selecting admin_book_variant_item_select (\<lambda>d.
       let mk = (\<lambda>i. \<lparr>bk_id = i, bk_publisher_id = publisher, bk_publication_year = None, bk_weight_grams = None,
                 bk_page_count = pages, bk_cover_image_url = cover, bk_is_active = False, bk_created_at = ce_now env,
                 bk_deleted_at = None, bk_created_by = Some actor, bk_updated_by = Some actor\<rparr>) in
       if user_of d actor = None then (Inl P2003, d)
       else (Inr (mk (serial (books d))), d\<lparr>books := insert_row mk (books d)\<rparr>))"

text \<open>\<open>createMany\<close> with \<open>skipDuplicates\<close> of the links between a book and its authors.\<close>

definition add_author_link :: "int \<Rightarrow> db \<Rightarrow> int \<times> bool \<Rightarrow> db" where
  "add_author_link book d link =
     (if list_ex (\<lambda>x. ba_book_id x = book \<and> ba_author_id x = fst link) (rows (book_authors d)) then d
      else d\<lparr>book_authors := insert_row (\<lambda>_. \<lparr>ba_book_id = book, ba_author_id = fst link, ba_is_primary = snd link\<rparr>)
             (book_authors d)\<rparr>)"

definition insert_book_authors :: "int \<Rightarrow> (int \<times> bool) list \<Rightarrow> unit action" where
  [repo_defs]: "insert_book_authors book links d = (Inr (), foldl (add_author_link book) d links)"

definition insert_book_spec :: "int \<Rightarrow> create_spec \<Rightarrow> unit action" where
  [repo_defs]: "insert_book_spec book s d =
     (if list_ex (\<lambda>r. bs_book_id r = book) (rows (book_specs d)) then (Inl P2002, d)
      else (Inr (), d\<lparr>book_specs := insert_row (\<lambda>_. \<lparr>bs_book_id = book, bs_width_cm = cs_width_cm s,
             bs_height_cm = cs_height_cm s, bs_thickness_cm = cs_thickness_cm s, bs_packaging = cs_packaging s\<rparr>)
             (book_specs d)\<rparr>))"

definition create_book_tx ::
    "catalog_env \<Rightarrow> create_book_body \<Rightarrow> int \<Rightarrow> (int \<times> bool) list \<Rightarrow> int \<Rightarrow> int \<Rightarrow> admin_book_item action" where
  [service_defs]: "create_book_tx env body publisher links lang actor =
     transaction (\<lambda>d.
       await (insert_book env (Some publisher) (nb_body_page_count body) (nb_body_cover body) actor d) (\<lambda>b d.
       await (insert_translation (bk_id b) lang (nb_body_title body) (Some (nb_body_description body))
                (build_unique_slug lang (base_slug env (nb_body_title body) (bk_id b)) d) d) (\<lambda>_ d.
       await (if links = [] then (Inr (), d) else insert_book_authors (bk_id b) links d) (\<lambda>_ d.
       await (case nb_body_spec body of None \<Rightarrow> (Inr (), d) | Some s \<Rightarrow> insert_book_spec (bk_id b) s d) (\<lambda>_ d.
       await (create_variants (bk_id b) (nb_body_variants body) d) (\<lambda>_ d.
         (case book_of d (bk_id b) of None \<Rightarrow> (Inl TypeError, d)
          | Some r \<Rightarrow> (Inr (to_admin_book_item d True r), d))))))))"

definition create_book :: "catalog_env \<Rightarrow> create_book_body \<Rightarrow> int \<Rightarrow> int \<Rightarrow> admin_book_item action" where
  [service_defs]: "create_book env body lang actor d0 =
     (let name = trim_points (nb_body_publisher body); as = normalized_authors env (nb_body_authors body) in
      if name = [] then (Inl (BadRequest ''PUBLISHER_NAME_REQUIRED''), d0)
      else await (create_publisher env name d0) (\<lambda>p d.
        let publisher = digits_value (ni_id (to_publisher_item p)) in
        if publisher = 0 then (Inl (BadRequest ''INVALID_PUBLISHER_ID''), d)
        else if as = [] then create_book_tx env body publisher [] lang actor d
        else await (create_author_many env (map fst as) d) (\<lambda>created.
          create_book_tx env body publisher (author_links env created as) lang actor)))"

section \<open>Changing and deleting a book\<close>

record update_translation =
  ut_language_id :: "int option"
  ut_title :: "utext option"
  ut_description :: "utext option"

record update_variant =
  uv_id :: int
  uv_cost_price :: rat
  uv_price :: rat
  uv_is_active :: "bool option"

record update_book_body =
  ub_page_count :: "int option"
  ub_weight_grams :: "int option"
  ub_cover :: "string option"
  ub_is_active :: "bool option"
  ub_translations :: "update_translation list option"
  ub_variants :: "update_variant list option"

text \<open>A field that is \<open>undefined\<close> is left as it is.\<close>

definition given :: "'a option \<Rightarrow> 'a \<Rightarrow> 'a" where
  "given new old = (case new of None \<Rightarrow> old | Some x \<Rightarrow> x)"

definition given_null :: "'a option \<Rightarrow> 'a option \<Rightarrow> 'a option" where
  "given_null new old = (case new of None \<Rightarrow> old | Some x \<Rightarrow> Some x)"

definition update_translation_book :: "int \<Rightarrow> update_translation \<Rightarrow> unit action" where
  [repo_defs]: "update_translation_book book u d =
     (case ut_language_id u of
        None \<Rightarrow> (Inl (JsError ''PrismaClientValidationError''), d)
      | Some lang \<Rightarrow>
          (if find_translation_by_book_and_language book lang d = None then (Inl P2025, d)
           else (Inr (), d\<lparr>book_translations := map_rows (\<lambda>t. bt_book_id t = book \<and> bt_language_id t = lang)
                   (\<lambda>t. t\<lparr>bt_title := given (ut_title u) (bt_title t),
                          bt_description := given_null (ut_description u) (bt_description t)\<rparr>)
                   (book_translations d)\<rparr>)))"

primrec update_translations :: "int \<Rightarrow> update_translation list \<Rightarrow> unit action" where
  "update_translations book [] d = (Inr (), d)"
| "update_translations book (u # us) d = await (update_translation_book book u d) (\<lambda>_. update_translations book us)"

definition update_variant_row :: "update_variant \<Rightarrow> unit action" where
  "update_variant_row u d =
     (if variant_of d (uv_id u) = None then (Inl P2025, d)
      else (Inr (), d\<lparr>variants := map_rows (\<lambda>v. bv_id v = uv_id u)
              (\<lambda>v. v\<lparr>bv_price := Some (uv_price u), bv_is_active := given (uv_is_active u) (bv_is_active v)\<rparr>)
              (variants d)\<rparr>))"

definition update_variant_by_id :: "int \<Rightarrow> update_variant list \<Rightarrow> unit list action" where
  [repo_defs]: "update_variant_by_id book us = promise_all_list (map update_variant_row us)"

definition modify_book :: "int \<Rightarrow> int \<Rightarrow> (book_row \<Rightarrow> book_row) \<Rightarrow> book_row action" where
  "modify_book i actor f =
     selecting updated_variant_select (\<lambda>d.
       (case book_of d i of
          None \<Rightarrow> (Inl P2025, d)
        | Some b \<Rightarrow>
            if user_of d actor = None then (Inl P2003, d)
            else (Inr ((f b)\<lparr>bk_updated_by := Some actor\<rparr>),
                  d\<lparr>books := map_rows (\<lambda>r. bk_id r = i) (\<lambda>r. (f r)\<lparr>bk_updated_by := Some actor\<rparr>) (books d)\<rparr>)))"

definition update_book_row :: "int \<Rightarrow> update_book_body \<Rightarrow> int \<Rightarrow> book_row action" where
  [repo_defs]: "update_book_row i body actor =
     modify_book i actor (\<lambda>b. b\<lparr>bk_page_count := given_null (ub_page_count body) (bk_page_count b),
       bk_weight_grams := given_null (ub_weight_grams body) (bk_weight_grams b),
       bk_cover_image_url := given_null (ub_cover body) (bk_cover_image_url b),
       bk_is_active := given (ub_is_active body) (bk_is_active b)\<rparr>)"

definition soft_delete_book :: "catalog_env \<Rightarrow> int \<Rightarrow> int \<Rightarrow> book_row action" where
  [repo_defs]: "soft_delete_book env i actor =
     modify_book i actor (\<lambda>b. b\<lparr>bk_is_active := False, bk_deleted_at := Some (ce_now env)\<rparr>)"

text \<open>The answer of an update calls \<open>toString\<close> on every price: a variant without one raises a \<open>TypeError\<close>.\<close>

definition to_mapper_update_book :: "db \<Rightarrow> book_row \<Rightarrow> admin_book_item res" where
  "to_mapper_update_book d b =
     (let vs = select_rows (\<lambda>v. bv_book_id v = bk_id b) (variants d) in
      if list_ex (\<lambda>v. bv_price v = None) vs then Inl TypeError
      else Inr ((to_admin_book_item d False b)
        \<lparr>ab_publisher_id := map_option int_string (bk_publisher_id b),
         ab_translations := map to_translation_view (sorted_translations d (bk_id b)),
         ab_variants := map (to_admin_variant_view d False (map_option number_string)) vs\<rparr>))"

definition update_book_tx ::
    "catalog_env \<Rightarrow> int \<Rightarrow> update_book_body \<Rightarrow> int \<Rightarrow> string option \<Rightarrow> admin_book_item action" where
  "update_book_tx env i body actor ip =
     transaction (\<lambda>d.
       await (case ub_translations body of None \<Rightarrow> (Inr (), d) | Some us \<Rightarrow> update_translations i us d) (\<lambda>_ d.
       await (case ub_variants body of
                None \<Rightarrow> (Inr [], d)
              | Some us \<Rightarrow>
                  if list_ex (\<lambda>u. uv_price u < uv_cost_price u) us
                  then (Inl (BadRequest ''VARIANT_PRICE_CANNOT_BE_LESS_THAN_COST_PRICE''), d)
                  else update_variant_by_id i us d) (\<lambda>_ d.
       await (update_book_row i body actor d) (\<lambda>b d.
       await (create_audit_log env actor ''ADMIN_BOOK_UPDATE'' ''BOOK'' (int_string (bk_id b)) ip d) (\<lambda>_ d.
         (to_mapper_update_book d b, d))))))"

definition bump_catalog_book_detail :: "int \<Rightarrow> db \<Rightarrow> catalog_cache \<Rightarrow> catalog_cache" where
  [service_defs]: "bump_catalog_book_detail i d c =
     fold (\<lambda>l. bump_version (book_detail_key i (lang_id l))) (find_active_languages d) c"

definition update_book ::
    "catalog_env \<Rightarrow> int \<Rightarrow> update_book_body \<Rightarrow> int \<Rightarrow> string option \<Rightarrow> db \<Rightarrow> catalog_cache
      \<Rightarrow> admin_book_item res \<times> db \<times> catalog_cache" where
  [service_defs]: "update_book env i body actor ip d c =
     (case live_book d i of
        Inl e \<Rightarrow> (Inl e, d, c)
      | Inr _ \<Rightarrow>
          (case update_book_tx env i body actor ip d of
             (Inl e, d') \<Rightarrow> (Inl e, d', c)
           | (Inr r, d') \<Rightarrow> (Inr r, d', bump_catalog_book_detail i d' c)))"

definition delete_book :: "catalog_env \<Rightarrow> int \<Rightarrow> int \<Rightarrow> string option \<Rightarrow> admin_book_item action" where
  [service_defs]: "delete_book env i actor ip =
     transaction (\<lambda>d.
       (case live_book d i of
          Inl e \<Rightarrow> (Inl e, d)
        | Inr _ \<Rightarrow>
            await (catching (soft_delete_book env i actor d)
                     (\<lambda>e. throw (if e = P2025 then NotFound ''BOOK_NOT_FOUND'' else e))) (\<lambda>b d.
            await (create_audit_log env actor ''ADMIN_BOOK_DELETE'' ''BOOK'' (int_string (bk_id b)) ip d) (\<lambda>_ d.
              (Inr (to_admin_book_item d False b), d)))))"

section \<open>Lists and statistics\<close>

text \<open>
  The comparisons of the database: \<open>contains\<close> (\<open>LIKE\<close>), the full-text match of a translation and of an
  author name.
\<close>

record admin_search =
  as_contains :: "utext \<Rightarrow> utext \<Rightarrow> bool"
  as_match_book :: "utext \<Rightarrow> book_translation_row \<Rightarrow> bool"
  as_match_author :: "utext \<Rightarrow> utext \<Rightarrow> bool"

definition phrase_of :: "utext option \<Rightarrow> utext option" where
  "phrase_of p = (case p of None \<Rightarrow> None | Some s \<Rightarrow> if s = [] then None else Some s)"

definition admin_list_where :: "admin_search \<Rightarrow> int \<Rightarrow> utext option \<Rightarrow> db \<Rightarrow> book_row \<Rightarrow> bool" where
  [repo_defs]: "admin_list_where s lang phrase d b \<longleftrightarrow> bk_deleted_at b = None
     \<and> (case phrase_of phrase of None \<Rightarrow> True
        | Some p \<Rightarrow> list_ex (\<lambda>t. bt_book_id t = bk_id b \<and> bt_language_id t = lang \<and> as_contains s p (bt_title t))
                      (rows (book_translations d)))"

fun join_names :: "utext list \<Rightarrow> utext" where
  "join_names [] = []"
| "join_names [n] = n"
| "join_names (n # ns) = n @ points '', '' @ join_names ns"

record admin_list_row =
  al_book_id :: int
  al_title :: utext
  al_description :: "utext option"
  al_slug :: "string option"
  al_authors :: utext

definition author_names_of :: "db \<Rightarrow> int \<Rightarrow> utext list" where
  "author_names_of d book =
     List.map_filter (\<lambda>x. map_option au_name (find_row (\<lambda>a. au_id a = ba_author_id x) (authors d)))
       (select_rows (\<lambda>x. ba_book_id x = book) (book_authors d))"

text \<open>The raw query joins translations with books and authors, filters the joined rows and groups them by translation.\<close>

definition find_admin_books :: "admin_search \<Rightarrow> int \<Rightarrow> int \<Rightarrow> int \<Rightarrow> utext option \<Rightarrow> db \<Rightarrow> admin_list_row list" where
  [repo_defs]: "find_admin_books s page limit lang phrase d =
     page_slice page limit (List.map_filter (\<lambda>t.
       if bt_language_id t \<noteq> lang \<or> book_of d (bt_book_id t) = None then None
       else (case filter (\<lambda>n. case phrase_of phrase of None \<Rightarrow> True
                    | Some p \<Rightarrow> as_match_book s p t \<or> as_match_author s p n) (author_names_of d (bt_book_id t)) of
               [] \<Rightarrow> None
             | n # ns \<Rightarrow> Some \<lparr>al_book_id = bt_book_id t, al_title = bt_title t, al_description = bt_description t,
                             al_slug = bt_slug t, al_authors = join_names (n # ns)\<rparr>))
       (rows (book_translations d)))"

definition get_admin_books ::
    "admin_search \<Rightarrow> int option \<Rightarrow> int option \<Rightarrow> utext option \<Rightarrow> int \<Rightarrow> db \<Rightarrow> admin_list_row paginated" where
  [service_defs]: "get_admin_books s page limit phrase lang d =
     (let p = given page 1; l = given limit 20 in
      build_paginated_result (find_admin_books s p l lang phrase d)
        (count_rows (admin_list_where s lang phrase d) (books d)) p l)"

definition detailed_where :: "admin_search \<Rightarrow> int \<Rightarrow> utext option \<Rightarrow> db \<Rightarrow> book_row \<Rightarrow> bool" where
  [repo_defs]: "detailed_where s lang phrase d b \<longleftrightarrow> bk_deleted_at b = None
     \<and> list_ex (\<lambda>t. bt_book_id t = bk_id b \<and> bt_language_id t = lang
         \<and> (case phrase_of phrase of None \<Rightarrow> True
            | Some p \<Rightarrow> as_contains s p (bt_title t)
                \<or> (case bt_description t of None \<Rightarrow> False | Some x \<Rightarrow> as_contains s p x)))
         (rows (book_translations d))"

record admin_detailed_row =
  dr_id :: string
  dr_title :: utext
  dr_description :: "utext option"
  dr_slug :: "string option"
  dr_authors :: utext
  dr_is_active :: bool
  dr_cover :: "string option"
  dr_spec :: "spec_view option"

definition to_detailed_row :: "db \<Rightarrow> int \<Rightarrow> book_row \<Rightarrow> admin_detailed_row" where
  "to_detailed_row d lang b =
     (let ts = translations_of d lang (bk_id b) in
      \<lparr>dr_id = int_string (bk_id b), dr_title = (case ts of [] \<Rightarrow> [] | t # _ \<Rightarrow> bt_title t),
       dr_description = first_description ts, dr_slug = first_slug ts,
       dr_authors = join_names (List.map_filter
          (\<lambda>x. map_option au_name (find_row (\<lambda>a. au_id a = ba_author_id x) (authors d)))
          (sort_key (\<lambda>x. if ba_is_primary x then 0 else 1 :: int)
             (select_rows (\<lambda>x. ba_book_id x = bk_id b) (book_authors d)))),
       dr_is_active = bk_is_active b, dr_cover = bk_cover_image_url b,
       dr_spec = map_option to_spec_view (find_row (\<lambda>r. bs_book_id r = bk_id b) (book_specs d))\<rparr>)"

definition list_admin_books ::
    "admin_search \<Rightarrow> int option \<Rightarrow> int option \<Rightarrow> utext option \<Rightarrow> bool \<Rightarrow> int \<Rightarrow> db \<Rightarrow> admin_detailed_row paginated" where
  [service_defs]: "list_admin_books s page limit phrase has_type lang d =
     (let p = given page 1; l = given limit 20 in
      if phrase_of phrase = None \<and> \<not> has_type then build_paginated_result [] 0 p l
      else build_paginated_result
             (map (to_detailed_row d lang) (page_slice p l (newest_first (select_rows (detailed_where s lang phrase d) (books d)))))
             (count_rows (detailed_where s lang phrase d) (books d)) p l)"

record book_stats =
  st_books :: int
  st_active_books :: int
  st_authors :: int
  st_publishers :: int

definition book_statistics :: "book_stats option \<Rightarrow> db \<Rightarrow> book_stats" where
  [service_defs]: "book_statistics cached d =
     (case cached of
        Some s \<Rightarrow> s
      | None \<Rightarrow> \<lparr>st_books = count_rows (\<lambda>b. bk_deleted_at b = None) (books d),
                 st_active_books = count_rows (\<lambda>b. bk_deleted_at b = None \<and> bk_is_active b) (books d),
                 st_authors = count_rows (\<lambda>_. True) (authors d), st_publishers = count_rows (\<lambda>_. True) (publishers d)\<rparr>)"

text \<open>The list of books with their variants selects the unknown field as well.\<close>

definition get_book_variants :: "int option \<Rightarrow> int option \<Rightarrow> admin_search \<Rightarrow> int \<Rightarrow> book_row paginated action" where
  [service_defs]: "get_book_variants page limit s lang d =
     (let p = given page 1; l = given limit 20;
          found = newest_first (select_rows (admin_list_where s lang None d) (books d))
      in await (selecting admin_book_variant_item_select (ret (page_slice p l found)) d) (\<lambda>bs. ret
           (build_paginated_result bs
             (count_rows (\<lambda>v. case book_of d (bv_book_id v) of None \<Rightarrow> False | Some b \<Rightarrow> admin_list_where s lang None d b)
                (variants d)) p l)))"

section \<open>A unique slug is found\<close>

lemma slug_loop_result:
  "find_translation_by_language_and_slug lang (slug_loop lang base candidate index d) d = None"
proof (induction lang base candidate index d rule: slug_loop.induct)
  case (1 lang base candidate index d)
  then show ?case by (subst slug_loop.simps) (simp split: option.split)
qed

text \<open>The loop returns the candidate, or the first numbered slug from \<open>index\<close> on that is free.\<close>

lemma slug_loop_first:
  "slug_loop lang base candidate index d = candidate
   \<or> (\<exists>n\<ge>index. find_translation_by_language_and_slug lang candidate d \<noteq> None
        \<and> slug_loop lang base candidate index d = numbered_slug base n \<and> {index..<n} \<subseteq> taken_indices lang base index d)"
proof (induction lang base candidate index d rule: slug_loop.induct)
  case (1 lang base candidate index d)
  show ?case
  proof (cases "find_translation_by_language_and_slug lang candidate d")
    case None
    then show ?thesis by (subst slug_loop.simps) simp
  next
    case (Some t)
    let ?r = "slug_loop lang base (numbered_slug base index) (index + 1) d"
    have r: "slug_loop lang base candidate index d = ?r" by (subst slug_loop.simps) (simp add: Some)
    from "1" [OF Some] show ?thesis
    proof (elim disjE exE conjE)
      assume "?r = numbered_slug base index"
      then show ?thesis unfolding r using Some by (intro disjI2 exI [of _ index]) simp
    next
      fix n assume n: "index + 1 \<le> n" "?r = numbered_slug base n"
        "{index + 1..<n} \<subseteq> taken_indices lang base (index + 1) d"
      show ?thesis
      proof (cases "find_translation_by_language_and_slug lang (numbered_slug base index) d = None")
        case True
        then have "?r = numbered_slug base index" by (subst slug_loop.simps) simp
        then show ?thesis unfolding r using Some by (intro disjI2 exI [of _ index]) simp
      next
        case False
        then have t: "taken_indices lang base index d = insert index (taken_indices lang base (index + 1) d)"
          by (subst taken_indices_step) (simp only: False if_False)
        have "x \<in> taken_indices lang base index d" if "x \<in> {index..<n}" for x
          using that n(3) unfolding t by (cases "x = index") auto
        then show ?thesis using n Some unfolding r by (intro disjI2 exI [of _ n]) auto
      qed
    qed
  qed
qed

lemma card_taken_indices:
  "card (taken_indices lang base index d) \<le> length (filter (\<lambda>t. bt_language_id t = lang) (rows (book_translations d)))"
proof -
  let ?ts = "{t \<in> set (rows (book_translations d)). bt_language_id t = lang}"
  have "card (taken_indices lang base index d) = card (numbered_slug base ` taken_indices lang base index d)"
    by (simp add: card_image inj_on_def)
  also have "\<dots> \<le> card ((the \<circ> bt_slug) ` ?ts)" by (rule card_mono [OF _ taken_indices_image]) simp
  also have "\<dots> \<le> card ?ts" by (rule card_image_le) simp
  also have "\<dots> \<le> length (filter (\<lambda>t. bt_language_id t = lang) (rows (book_translations d)))"
    using card_length [of "filter (\<lambda>t. bt_language_id t = lang) (rows (book_translations d))"] by simp
  finally show ?thesis .
qed

text \<open>
  C20: the search for a unique slug always ends, after at most as many steps as the language has
  translations. The slug it returns is free in the language; it is the base slug, or, when that one is taken, the base slug with the
  smallest number from 2 on whose slug is free, and that number is at most the number of translations of the
  language plus two.
\<close>
theorem unique_slug_found:
  "find_translation_by_language_and_slug lang (build_unique_slug lang base d) d = None
   \<and> (build_unique_slug lang base d = base
      \<or> (\<exists>n. 2 \<le> n \<and> find_translation_by_language_and_slug lang base d \<noteq> None
           \<and> build_unique_slug lang base d = numbered_slug base n
           \<and> n \<le> int (length (filter (\<lambda>t. bt_language_id t = lang) (rows (book_translations d)))) + 2
           \<and> {2..<n} \<subseteq> taken_indices lang base 2 d))"
proof (intro conjI)
  let ?ts = "filter (\<lambda>t. bt_language_id t = lang) (rows (book_translations d))"
  show "find_translation_by_language_and_slug lang (build_unique_slug lang base d) d = None"
    unfolding build_unique_slug_def by (rule slug_loop_result)
  show "build_unique_slug lang base d = base
      \<or> (\<exists>n. 2 \<le> n \<and> find_translation_by_language_and_slug lang base d \<noteq> None
           \<and> build_unique_slug lang base d = numbered_slug base n \<and> n \<le> int (length ?ts) + 2
           \<and> {2..<n} \<subseteq> taken_indices lang base 2 d)"
    using slug_loop_first [of lang base base 2 d] unfolding build_unique_slug_def
  proof (elim disjE exE conjE)
    fix n assume n: "2 \<le> n" "slug_loop lang base base 2 d = numbered_slug base n"
      "{2..<n} \<subseteq> taken_indices lang base 2 d" "find_translation_by_language_and_slug lang base d \<noteq> None"
    have "nat (n - 2) = card {2..<n}" by simp
    also have "\<dots> \<le> card (taken_indices lang base 2 d)" using n(3) by (rule card_mono [OF finite_taken_indices])
    also have "\<dots> \<le> length ?ts" by (rule card_taken_indices)
    finally have "n \<le> int (length ?ts) + 2" by linarith
    then show "slug_loop lang base base 2 d = base \<or> (\<exists>n. 2 \<le> n \<and> find_translation_by_language_and_slug lang base d \<noteq> None
        \<and> slug_loop lang base base 2 d = numbered_slug base n
        \<and> n \<le> int (length ?ts) + 2
        \<and> {2..<n} \<subseteq> taken_indices lang base 2 d)"
      using n by blast
  qed simp
qed

section \<open>Slugs stay unique\<close>

definition slugs_unique :: "db \<Rightarrow> bool" where
  "slugs_unique d \<longleftrightarrow> distinct (map (\<lambda>t. (bt_language_id t, bt_slug t))
     (filter (\<lambda>t. bt_slug t \<noteq> None) (rows (book_translations d))))"

lemma slugs_unique_frame: "book_translations d' = book_translations d \<Longrightarrow> slugs_unique d \<Longrightarrow> slugs_unique d'"
  by (simp add: slugs_unique_def)

lemma insert_translation_unique:
  assumes "slugs_unique d" and "find_translation_by_language_and_slug lang slug d = None"
  shows "slugs_unique (snd (insert_translation book lang title desc slug d))"
proof -
  have "(lang, Some slug) \<notin> (\<lambda>t. (bt_language_id t, bt_slug t)) ` {t \<in> set (rows (book_translations d)). bt_slug t \<noteq> None}"
    using assms(2) by (auto simp: find_translation_by_language_and_slug_def find_row_None)
  then show ?thesis using assms(1) by (simp add: insert_translation_def Let_def slugs_unique_def)
qed

lemma map_translations_unique:
  assumes "slugs_unique d" and "\<And>t. bt_language_id (f t) = bt_language_id t" and "\<And>t. bt_slug (f t) = bt_slug t"
  shows "slugs_unique (d\<lparr>book_translations := map_rows P f (book_translations d)\<rparr>)"
proof -
  let ?g = "\<lambda>t. if P t then f t else t"
  have g: "bt_language_id (?g t) = bt_language_id t" "bt_slug (?g t) = bt_slug t" for t by (simp_all add: assms)
  have "filter (\<lambda>t. bt_slug t \<noteq> None) (map ?g ts) = map ?g (filter (\<lambda>t. bt_slug t \<noteq> None) ts)" for ts
    by (induction ts) (simp_all add: g)
  then have "map (\<lambda>t. (bt_language_id t, bt_slug t)) (filter (\<lambda>t. bt_slug t \<noteq> None) (map ?g ts))
      = map (\<lambda>t. (bt_language_id t, bt_slug t)) (filter (\<lambda>t. bt_slug t \<noteq> None) ts)" for ts
    by (simp add: comp_def g del: map_map)  (simp add: comp_def g)
  then show ?thesis using assms(1) by (simp add: slugs_unique_def)
qed

lemma selecting_keeps: "P d \<Longrightarrow> (P d \<Longrightarrow> P (snd (query d))) \<Longrightarrow> P (snd (selecting sel query d))"
  by (simp add: selecting_def)

lemmas unique_keeps =
  await_keeps [where P = slugs_unique] catching_keeps [where P = slugs_unique]
  transaction_keeps [where P = slugs_unique] selecting_keeps [where P = slugs_unique]
  promise_all_list_keeps [where P = slugs_unique]

lemma audit_unique: "slugs_unique d \<Longrightarrow> slugs_unique (snd (create_audit_log env actor act entity eid ip d))"
  by (simp add: create_audit_log_def slugs_unique_def)

lemma modify_book_unique: "slugs_unique d \<Longrightarrow> slugs_unique (snd (modify_book i actor f d))"
  unfolding modify_book_def
  by (rule unique_keeps(4)) (auto simp: slugs_unique_def split: option.split)

lemma update_translations_unique: "slugs_unique d \<Longrightarrow> slugs_unique (snd (update_translations book us d))"
proof (induction us arbitrary: d)
  case (Cons u us)
  have "slugs_unique (snd (update_translation_book book u d))"
    using Cons.prems by (auto simp: update_translation_book_def intro: map_translations_unique split: option.split)
  then show ?case by (simp add: unique_keeps Cons.IH)
qed simp

lemma update_variants_unique: "slugs_unique d \<Longrightarrow> slugs_unique (snd (update_variant_by_id i us d))"
  unfolding update_variant_by_id_def
  by (rule unique_keeps(5)) (auto simp: update_variant_row_def slugs_unique_def)

lemma create_translation_unique:
  assumes "slugs_unique d"
  shows "slugs_unique (snd (create_book_translation env cached book lang title desc actor ip d))"
proof -
  have "slugs_unique (snd (insert_translation book l title desc (build_unique_slug l b d) d))"
    if "slugs_unique d" for l b d
    using that by (intro insert_translation_unique) (simp_all add: build_unique_slug_def slug_loop_result)
  then show ?thesis
    using assms unfolding create_book_translation_def
    by (auto intro!: unique_keeps audit_unique split: sum.split)
qed

lemma update_book_tx_unique: "slugs_unique d \<Longrightarrow> slugs_unique (snd (update_book_tx env i body actor ip d))"
  unfolding update_book_tx_def update_book_row_def
  by (rule unique_keeps(3))
     (auto intro!: unique_keeps update_translations_unique update_variants_unique modify_book_unique audit_unique
           split: option.split)

lemma update_book_unique:
  assumes "slugs_unique d"
  shows "slugs_unique (fst (snd (update_book env i body actor ip d c)))"
  using update_book_tx_unique [OF assms, of env i body actor ip] assms
  by (auto simp: update_book_def split: sum.split prod.split)

lemma delete_book_unique: "slugs_unique d \<Longrightarrow> slugs_unique (snd (delete_book env i actor ip d))"
  unfolding delete_book_def soft_delete_book_def
  by (rule unique_keeps(3))
     (auto intro!: unique_keeps modify_book_unique audit_unique split: sum.split)

section \<open>No book can be created\<close>

lemma insert_book_fails:
  "insert_book env publisher pages cover actor d = (Inl (JsError ''PrismaClientValidationError''), d)"
  by (simp add: insert_book_def selecting_def admin_book_variant_item_select_def book_variant_fields_def)

lemma create_book_tx_fails:
  "create_book_tx env body publisher links lang actor d = (Inl (JsError ''PrismaClientValidationError''), d)"
  by (simp add: create_book_tx_def transaction_def insert_book_fails)

definition names_only :: "db \<Rightarrow> db \<Rightarrow> bool" where
  "names_only d d' \<longleftrightarrow> d' = d\<lparr>authors := authors d', publishers := publishers d'\<rparr>"

lemma names_only_iff: "names_only d d' \<longleftrightarrow> (\<exists>as ps. d' = d\<lparr>authors := as, publishers := ps\<rparr>)"
  by (auto simp: names_only_def)

lemma create_author_names_only:
  "names_only d d1 \<and> publishers d1 = ps \<Longrightarrow>
     names_only d (snd (create_author env n d1)) \<and> publishers (snd (create_author env n d1)) = ps"
proof (elim conjE, cases "find_row (\<lambda>a. ce_same env (au_name a) n) (authors d1)")
  assume "names_only d d1" and ps: "publishers d1 = ps"
    and none: "find_row (\<lambda>a. ce_same env (au_name a) n) (authors d1) = None"
  then obtain as where d1: "d1 = d\<lparr>authors := as, publishers := ps\<rparr>" by (auto simp: names_only_iff)
  let ?as = "insert_row (\<lambda>i. \<lparr>au_id = i, au_name = n\<rparr>) (authors d1)"
  have "snd (create_author env n d1) = d1\<lparr>authors := ?as\<rparr>" using none by (simp add: create_author_def)
  then have "snd (create_author env n d1) = d\<lparr>authors := ?as, publishers := ps\<rparr>" by (simp add: d1)
  then show ?thesis by (auto simp: names_only_iff)
qed (simp add: create_author_def)

lemma create_authors_names_only:
  assumes "names_only d d1" and "publishers d1 = ps"
  shows "names_only d (snd (create_author_many env names d1)) \<and> publishers (snd (create_author_many env names d1)) = ps"
proof -
  let ?P = "\<lambda>d1. names_only d d1 \<and> publishers d1 = ps"
  have step: "?P (snd (promise_all_list (map (create_author env) ns) d1))" if "?P d1" for ns
    by (rule promise_all_list_keeps [where P = ?P, OF that]) (auto simp: create_author_names_only)
  have "?P (snd (create_author_many env names d1))"
    unfolding create_author_many_def Let_def
    using assms step by (cases "map snd (map_entries (map (\<lambda>n. (ce_lower env n, n)) (filter (\<lambda>n. n \<noteq> []) (map trim_points names)))) = []")
      (simp_all add: await_keeps [where P = ?P] del: map_map map_is_Nil_conv)
  then show ?thesis .
qed

lemma create_publisher_names_only: "names_only d (snd (create_publisher env name d))"
  by (auto simp: names_only_def create_publisher_def split: option.split)

lemma create_book_frame:
  "(\<exists>e. fst (create_book env body lang actor d) = Inl e) \<and> names_only d (snd (create_book env body lang actor d))
   \<and> publishers (snd (create_book env body lang actor d)) =
       (if trim_points (nb_body_publisher body) = [] then publishers d
        else publishers (snd (create_publisher env (trim_points (nb_body_publisher body)) d)))"
proof (cases "trim_points (nb_body_publisher body) = []")
  case True
  then show ?thesis by (simp add: create_book_def Let_def names_only_def)
next
  case False
  let ?name = "trim_points (nb_body_publisher body)"
  obtain r d1 where p: "create_publisher env ?name d = (r, d1)" by (cases "create_publisher env ?name d")
  have d1: "names_only d d1" using create_publisher_names_only [of d env ?name] p by simp
  let ?as = "map fst (normalized_authors env (nb_body_authors body))"
  obtain q d2 where a: "create_author_many env ?as d1 = (q, d2)" by (cases "create_author_many env ?as d1")
  have d2: "names_only d d2" "publishers d2 = publishers d1"
    using create_authors_names_only [OF d1 refl, of env ?as] a by simp_all
  show ?thesis
    using False p a d1 d2
    by (cases r; cases q) (simp_all add: create_book_def Let_def create_book_tx_fails)
qed

text \<open>
  Creating a book never succeeds. Whatever the request, it answers an error and no table but those of
  the publishers and the authors changes; these keep what the request added before it failed: the
  publisher of a request that names one is stored.
\<close>
theorem create_book_always_fails:
  "(\<exists>e. fst (create_book env body lang actor d) = Inl e)
   \<and> names_only d (snd (create_book env body lang actor d))
   \<and> publishers (snd (create_book env body lang actor d)) =
       (if trim_points (nb_body_publisher body) = [] then publishers d
        else publishers (snd (create_publisher env (trim_points (nb_body_publisher body)) d)))"
  using create_book_frame [of env body lang actor d] by simp

section \<open>The calls of the administration\<close>

datatype admin_book_call =
    Create_Book catalog_env create_book_body int int
  | Create_Translation catalog_env "language_row option" int "string option" utext "utext option" int "string option"
  | Update_Book catalog_env int update_book_body int "string option" catalog_cache
  | Delete_Book catalog_env int int "string option"

primrec admin_book_step :: "admin_book_call \<Rightarrow> db \<Rightarrow> db" where
  "admin_book_step (Create_Book env body lang actor) d = snd (create_book env body lang actor d)"
| "admin_book_step (Create_Translation env cached book lang title desc actor ip) d =
     snd (create_book_translation env cached book lang title desc actor ip d)"
| "admin_book_step (Update_Book env i body actor ip c) d = fst (snd (update_book env i body actor ip d c))"
| "admin_book_step (Delete_Book env i actor ip) d = snd (delete_book env i actor ip d)"

lemma create_book_unique:
  assumes "slugs_unique d"
  shows "slugs_unique (snd (create_book env body lang actor d))"
proof -
  obtain as ps where "snd (create_book env body lang actor d) = d\<lparr>authors := as, publishers := ps\<rparr>"
    using create_book_frame [of env body lang actor d] names_only_iff by blast
  with assms show ?thesis by (simp add: slugs_unique_def)
qed

interpretation admin_book_calls: machine admin_book_step slugs_unique
proof
  show "slugs_unique (admin_book_step c d)" if "slugs_unique d" for c d
    using that by (cases c)
      (simp_all add: create_book_unique create_translation_unique update_book_unique delete_book_unique)
qed

text \<open>
  C21: whatever sequence of administrative calls creates, translates, changes and deletes books, no two
  translations in a language ever share a slug, so a slug names one page.
\<close>
theorem admin_calls_keep_slugs_unique:
  assumes "slugs_unique d"
  shows "slugs_unique (fold admin_book_step calls d)"
  using assms by (rule admin_book_calls.run_inv)

definition sample_env :: catalog_env where
  "sample_env = \<lparr>ce_now = 5, ce_nfd = (\<lambda>s. s), ce_lower = (\<lambda>s. s), ce_same = (\<lambda>a b. a = b)\<rparr>"

definition sample_admin_db :: db where
  "sample_admin_db = sample_catalog\<lparr>
     users := users sample_languages,
     languages := \<lparr>rows = [\<lparr>lang_id = 1, lang_code = ''vi'', lang_name = ''Vietnamese'', lang_is_active = True\<rparr>,
                            \<lparr>lang_id = 2, lang_code = ''en'', lang_name = ''English'', lang_is_active = True\<rparr>], serial = 3\<rparr>\<rparr>"

lemma sample_admin_unique: "slugs_unique sample_admin_db"
  by (simp add: slugs_unique_def sample_admin_db_def sample_catalog_def sample_translation_def)

lemma sample_language:
  "fst (resolve_language None (Some ''en'') sample_admin_db) =
     Inr \<lparr>lang_id = 2, lang_code = ''en'', lang_name = ''English'', lang_is_active = True\<rparr>"
  by (simp add: resolve_language_def find_language_by_code_def sample_admin_db_def find_row_def to_lower_def js_trim_def
      lower_char_def is_upper_def is_white_def char_code_def)

lemma sample_slug: "base_slug sample_env (points ''emma'') 1 = ''emma''"
proof -
  have "generate_slug (\<lambda>s. s) (\<lambda>s. s) (points ''emma'') = points ''emma''"
    by (simp add: points_def generate_slug_def trim_points_def white_point_def slug_letter_def strip_dashes_def)
  moreover have "map char_of (points s) = s" for s by (simp add: points_def comp_def)
  ultimately show ?thesis by (simp add: base_slug_def sample_env_def)
qed

lemma sample_unique_slug: "build_unique_slug 2 ''emma'' sample_admin_db = ''emma''"
  unfolding build_unique_slug_def
  by (subst slug_loop.simps) (simp add: find_translation_by_language_and_slug_def find_row_def sample_admin_db_def
      sample_catalog_def sample_translation_def)

theorem admin_calls_keep_slugs_unique_witness:
  "let calls = [Create_Translation sample_env None 1 (Some ''en'') (points ''emma'') None 2 None]
   in slugs_unique (fold admin_book_step calls sample_admin_db)
    \<and> map bt_slug (rows (book_translations (fold admin_book_step calls sample_admin_db))) = [Some ''a'', Some ''b'', Some ''emma'']"
proof -
  let ?call = "Create_Translation sample_env None 1 (Some ''en'') (points ''emma'') None 2 None"
  have live: "live_book sample_admin_db 1 = Inr (sample_book 1)"
    by (simp add: live_book_def book_of_def find_row_def sample_admin_db_def sample_catalog_def sample_book_def)
  have free: "find_translation_by_book_and_language 1 2 sample_admin_db = None"
    by (simp add: find_translation_by_book_and_language_def find_row_def sample_admin_db_def sample_catalog_def
        sample_translation_def)
  have insert: "insert_translation 1 2 t de s sample_admin_db =
      (Inr \<lparr>bt_id = 3, bt_book_id = 1, bt_language_id = 2, bt_title = t, bt_description = de, bt_slug = Some s\<rparr>,
       sample_admin_db\<lparr>book_translations := insert_row (\<lambda>i. \<lparr>bt_id = i, bt_book_id = 1, bt_language_id = 2,
          bt_title = t, bt_description = de, bt_slug = Some s\<rparr>) (book_translations sample_admin_db)\<rparr>)" for t de s
    using free live by (auto simp: insert_translation_def Let_def live_book_def sample_admin_db_def find_row_def
        sample_catalog_def split: option.splits)
  have user: "user_of (sample_admin_db\<lparr>book_translations := ts\<rparr>) 2 \<noteq> None" for ts
    by (simp add: user_of_def find_row_def sample_admin_db_def sample_languages_def)
  have "book_translations (admin_book_step ?call sample_admin_db) =
      book_translations (snd (insert_translation 1 2 (points ''emma'') None ''emma'' sample_admin_db))"
    using user by (simp add: create_book_translation_def sample_language sample_slug sample_unique_slug live free insert
        transaction_def create_audit_log_def)
  moreover have "map bt_slug (rows (book_translations sample_admin_db)) = [Some ''a'', Some ''b'']"
    by (simp add: sample_admin_db_def sample_catalog_def sample_translation_def)
  ultimately show ?thesis
    using admin_calls_keep_slugs_unique [OF sample_admin_unique, of "[?call]"]
    by (simp add: insert)
qed

section \<open>The pages of a changed book\<close>

lemma int_string_not_slug: "int_string i \<noteq> ''slug:'' @ s"
proof
  assume "int_string i = ''slug:'' @ s"
  then have "CHR '':'' \<in> set (int_string i)" by simp
  then show False using int_string_no_colon by blast
qed

lemma detail_key_not_slug_key: "book_detail_key i l \<noteq> book_detail_by_slug_key s m"
proof
  assume "book_detail_key i l = book_detail_by_slug_key s m"
  then have eq: "int_string i @ '':'' @ int_string l = ''slug:'' @ s @ '':'' @ int_string m"
    by (simp add: book_detail_key_def book_detail_by_slug_key_def)
  have "CHR ''s'' \<in> set (int_string i) \<or> int_string i = []"
    using eq by (cases "int_string i") auto
  moreover have "CHR ''s'' \<notin> set (nat_string k)" "nat_string k \<noteq> []" for k
    using nat_string_digits [of "CHR ''s''" k] by (auto simp: is_digit_def char_code_def)
  ultimately show False by (auto simp: int_string_def split: if_splits)
qed

lemma bump_detail_as_fold:
  "bump_catalog_book_detail i d c = fold bump_version (map (\<lambda>l. book_detail_key i (lang_id l)) (find_active_languages d)) c"
  by (simp add: bump_catalog_book_detail_def fold_map comp_def)

lemma bump_detail_peek:
  assumes "versions_bound c"
  shows "peek j (bump_catalog_book_detail i d c) =
    (if j \<in> (\<lambda>l. book_detail_key i (lang_id l)) ` set (find_active_languages d) then None else peek j c)"
  using version_cache.cached_invalidate_all [OF assms, of j]
  unfolding bump_detail_as_fold by simp

lemma with_cache_stores:
  assumes "fst (with_cache ns factory c) = Inr v" and "versions_bound c"
  shows "peek ns (snd (with_cache ns factory c)) = Some v \<and> versions_bound (snd (with_cache ns factory c))"
proof (cases "peek ns c")
  case None
  then have f: "factory = Inr v" using assms(1) by (simp add: with_cache_value)
  show ?thesis
    using version_cache.fill_inv [OF assms(2)] version_cache.cached_fill [OF assms(2), of ns ns v]
    by (simp add: f with_cache_fills [OF None])
next
  case (Some w)
  then show ?thesis
    using assms by (simp add: with_cache_value with_cache_keeps peek_version_set version_before_data)
qed

text \<open>
  A change of a book renews its page by identifier and leaves its page by slug stale. After a
  successful update the page by identifier of every active language shows what the database holds now, but
  a page by slug that was answered before keeps its old answer, whatever was changed, even when the book is
  no longer for sale.
\<close>
theorem update_leaves_slug_page_stale:
  assumes "versions_bound c" and "get_book_detail_by_slug slug lang d c = (Inr v, c1)"
    and "update_book env i body actor ip d c1 = (Inr r, d', c2)" and "l \<in> lang_id ` set (find_active_languages d')"
  shows "fst (get_book_detail i l d' c2) =
           (case find_book_detail_by_id i l d' of
              None \<Rightarrow> Inl (NotFound ''BOOK_NOT_FOUND'')
            | Some b \<Rightarrow> Inr (Detail_Value (to_book_detail b None [])))
       \<and> fst (get_book_detail_by_slug slug lang d' c2) = Inr v"
proof -
  let ?s = "js_trim slug"
  have s: "?s \<noteq> []" and read: "with_cache (book_detail_by_slug_key ?s lang) (slug_detail ?s lang d) c = (Inr v, c1)"
    using assms(2) by (auto simp: get_book_detail_by_slug_def Let_def split: if_splits)
  have c1: "peek (book_detail_by_slug_key ?s lang) c1 = Some v" "versions_bound c1"
    using with_cache_stores [OF _ assms(1), of "book_detail_by_slug_key ?s lang" "slug_detail ?s lang d" v] read by simp_all
  have c2: "c2 = bump_catalog_book_detail i d' c1"
    using assms(3) by (auto simp: update_book_def split: sum.splits prod.splits)
  have "peek (book_detail_key i l) c2 = None"
    using assms(4) unfolding c2 bump_detail_peek [OF c1(2)] by (auto simp: image_iff)
  moreover have "peek (book_detail_by_slug_key ?s lang) c2 = Some v"
    unfolding c2 bump_detail_peek [OF c1(2)] using c1(1) detail_key_not_slug_key by (simp add: image_iff) metis
  ultimately show ?thesis
    using s by (simp add: get_book_detail_def get_book_detail_by_slug_def Let_def with_cache_value)
qed

definition hide_book :: update_book_body where
  "hide_book = \<lparr>ub_page_count = None, ub_weight_grams = None, ub_cover = None, ub_is_active = Some False,
     ub_translations = None, ub_variants = None\<rparr>"

definition sample_hidden :: db where
  "sample_hidden = snd (update_book_tx sample_env 1 hide_book 2 None sample_admin_db)"

lemma sample_hide:
  "\<exists>r. update_book_tx sample_env 1 hide_book 2 None sample_admin_db = (Inr r, sample_hidden)"
  "books sample_hidden = map_rows (\<lambda>b. bk_id b = 1) (\<lambda>b. b\<lparr>bk_is_active := False, bk_updated_by := Some 2\<rparr>) (books sample_admin_db)"
  "languages sample_hidden = languages sample_admin_db"
proof -
  have book: "book_of sample_admin_db 1 = Some (sample_book 1)"
    by (simp add: book_of_def find_row_def sample_admin_db_def sample_catalog_def sample_book_def)
  have user: "user_of (sample_admin_db\<lparr>books := bs\<rparr>) 2 \<noteq> None" "user_of sample_admin_db 2 \<noteq> None" for bs
    by (simp_all add: user_of_def find_row_def sample_admin_db_def sample_languages_def)
  have priced: "\<not> list_ex (\<lambda>v. bv_price v = None) (select_rows (\<lambda>v. bv_book_id v = i) (variants (sample_admin_db\<lparr>books := bs, audit_logs := as\<rparr>)))"
    for i bs as
    by (simp add: select_rows_def sample_admin_db_def sample_catalog_def sample_priced_def)
  have ok: "list_all (\<lambda>f. f \<in> set book_variant_fields) updated_variant_select"
    by (simp add: book_variant_fields_def updated_variant_select_def)
  let ?f = "\<lambda>b. b\<lparr>bk_is_active := False, bk_updated_by := Some 2\<rparr>"
  have keep: "b\<lparr>bk_page_count := bk_page_count b, bk_weight_grams := bk_weight_grams b,
      bk_cover_image_url := bk_cover_image_url b, bk_is_active := x, bk_updated_by := y\<rparr> =
      b\<lparr>bk_is_active := x, bk_updated_by := y\<rparr>" for b :: book_row and x y
    by simp
  obtain bs as where run: "update_book_row 1 hide_book 2 sample_admin_db = (Inr (?f (sample_book 1)), sample_admin_db\<lparr>books :=
      map_rows (\<lambda>b. bk_id b = 1) ?f (books sample_admin_db)\<rparr>)"
    using book user ok
    by (simp add: update_book_row_def modify_book_def selecting_def hide_book_def given_def given_null_def keep)
  obtain r as where tx: "update_book_tx sample_env 1 hide_book 2 None sample_admin_db = (Inr r, sample_admin_db\<lparr>books :=
      map_rows (\<lambda>b. bk_id b = 1) ?f (books sample_admin_db), audit_logs := as\<rparr>)"
    using user priced
    by (simp add: update_book_tx_def transaction_def hide_book_def [THEN arg_cong [where f = ub_translations]]
        hide_book_def [THEN arg_cong [where f = ub_variants]] run create_audit_log_def to_mapper_update_book_def Let_def)
  show "\<exists>r. update_book_tx sample_env 1 hide_book 2 None sample_admin_db = (Inr r, sample_hidden)"
    "books sample_hidden = map_rows (\<lambda>b. bk_id b = 1) ?f (books sample_admin_db)"
    "languages sample_hidden = languages sample_admin_db"
    by (simp_all add: sample_hidden_def tx)
qed

theorem update_leaves_slug_page_stale_witness:
  "\<exists>c2 v. fst (get_book_detail 1 1 sample_hidden c2) = Inl (NotFound ''BOOK_NOT_FOUND'')
     \<and> fst (get_book_detail_by_slug ''a'' 1 sample_hidden c2) = Inr v"
proof -
  have bound: "versions_bound empty_cache" by (simp add: versions_bound_def empty_cache_def)
  have "find_book_detail_by_slug ''a'' 1 sample_admin_db \<noteq> None"
    by (simp add: find_book_detail_by_slug_def find_row_def public_book_def has_slug_def sample_admin_db_def sample_catalog_def
        sample_book_def sample_translation_def sample_priced_def priced_def)
  then obtain v where page: "slug_detail ''a'' 1 sample_admin_db = Inr v" by (auto simp: slug_detail_def Let_def)
  have trim: "js_trim ''a'' = ''a''" by (simp add: js_trim_def is_white_def char_code_def)
  obtain c1 where read: "get_book_detail_by_slug ''a'' 1 sample_admin_db empty_cache = (Inr v, c1)"
    using with_cache_value [of "book_detail_by_slug_key ''a'' 1" "Inr v" empty_cache]
    by (cases "with_cache (book_detail_by_slug_key ''a'' 1) (Inr v) empty_cache")
      (simp add: get_book_detail_by_slug_def trim page peek_def empty_cache_def)
  have live: "live_book sample_admin_db 1 = Inr (sample_book 1)"
    by (simp add: live_book_def book_of_def find_row_def sample_admin_db_def sample_catalog_def sample_book_def)
  obtain r c2 where upd: "update_book sample_env 1 hide_book 2 None sample_admin_db c1 = (Inr r, sample_hidden, c2)"
    using sample_hide(1) by (auto simp: update_book_def live)
  have lang: "1 \<in> lang_id ` set (find_active_languages sample_hidden)"
    by (simp add: find_active_languages_def sample_hide(3) select_rows_def sample_admin_db_def)
  have hidden: "find_book_detail_by_id 1 1 sample_hidden = None"
    by (simp add: find_book_detail_by_id_def find_row_def sample_hide(2) public_book_def sample_admin_db_def
        sample_catalog_def sample_book_def)
  show ?thesis
    using update_leaves_slug_page_stale [OF bound read upd lang] hidden by auto
qed

end
