(* ===== verification/Purchase.thy ===== *)
theory Purchase
  imports Admin_Book
begin

text \<open>
  Procurement: purchase orders (\<open>src/src/modules/admin/purchase-order\<close>), stock imports
  (\<open>admin/stock-import\<close>) and the price of a variant taken from a purchase order item
  (\<open>admin/book-variant\<close>). Prices are doubles until they are written: a \<open>DECIMAL(18, 2)\<close> column rounds
  to two decimals. The identifier of a stock import is drawn by the client (\<open>cuid\<close>): it is an argument,
  because the code uses it where an identifier of a purchase order belongs.
\<close>

definition store_decimal :: "rat \<Rightarrow> rat" where
  "store_decimal x = (if x < 0 then - (of_int \<lfloor>- x * 100 + 1 / 2\<rfloor> / 100) else of_int \<lfloor>x * 100 + 1 / 2\<rfloor> / 100)"

section \<open>Purchase orders\<close>

record po_item_body =
  pb_variant_id :: int
  pb_quantity :: int
  pb_unit_price :: rat
  pb_discount :: rat

record create_po_body =
  pc_supplier_id :: int
  pc_code :: string
  pc_note :: "string option"
  pc_tax_amount :: "rat option"
  pc_items :: "po_item_body list"

definition item_price :: "po_item_body \<Rightarrow> rat" where
  "item_price b = js_sub (pb_unit_price b) (js_mul (pb_unit_price b) (js_div (pb_discount b) 100))"

definition item_total :: "po_item_body \<Rightarrow> rat" where
  "item_total b = js_mul (item_price b) (of_int (pb_quantity b))"

definition purchase_total :: "po_item_body list \<Rightarrow> rat" where
  "purchase_total bs = foldl (\<lambda>s b. js_add s (item_total b)) 0 bs"

definition find_purchase_order :: "db \<Rightarrow> int \<Rightarrow> purchase_order_row option" where
  [repo_defs]: "find_purchase_order d i = find_row (\<lambda>p. po_id p = i) (purchase_orders d)"

definition find_purchase_order_items :: "db \<Rightarrow> int \<Rightarrow> purchase_order_item_row list" where
  [repo_defs]: "find_purchase_order_items d i =
     sort_key (\<lambda>x. (poi_created_at x, poi_id x)) (select_rows (\<lambda>x. poi_purchase_order_id x = i) (purchase_order_items d))"

definition new_purchase_order :: "catalog_env \<Rightarrow> int \<Rightarrow> create_po_body \<Rightarrow> int \<Rightarrow> purchase_order_row" where
  "new_purchase_order env actor body i =
     \<lparr>po_id = i, po_code = pc_code body, po_supplier_id = pc_supplier_id body, po_created_by = actor,
      po_approved_by = None, po_status = PO_PENDING, po_status_transfer = Transfer_PENDING, po_note = pc_note body,
      po_total_amount = store_decimal (purchase_total (pc_items body)), po_real_pay_price = None,
      po_tax_amount = store_decimal (given (pc_tax_amount body) 0), po_approved_at = None, po_created_at = ce_now env,
      po_update_transfer_id = None\<rparr>"

definition insert_purchase_order :: "catalog_env \<Rightarrow> int \<Rightarrow> create_po_body \<Rightarrow> purchase_order_row action" where
  [repo_defs]: "insert_purchase_order env actor body d =
     (if supplier_of d (pc_supplier_id body) = None then (Inl (BadRequest ''INVALID_SUPPLIER''), d)
      else if list_ex (\<lambda>p. po_code p = pc_code body) (rows (purchase_orders d)) then (Inl P2002, d)
      else if user_of d actor = None then (Inl P2003, d)
      else (Inr (new_purchase_order env actor body (serial (purchase_orders d))),
            d\<lparr>purchase_orders := insert_row (new_purchase_order env actor body) (purchase_orders d)\<rparr>))"

definition new_purchase_order_item :: "catalog_env \<Rightarrow> int \<Rightarrow> po_item_body \<Rightarrow> int \<Rightarrow> purchase_order_item_row" where
  "new_purchase_order_item env po b i =
     \<lparr>poi_id = i, poi_purchase_order_id = po, poi_variant_id = pb_variant_id b, poi_quantity = pb_quantity b,
      poi_unit_price = store_decimal (pb_unit_price b), poi_price = store_decimal (item_price b),
      poi_discount_price = store_decimal (pb_discount b), poi_total_price = store_decimal (item_total b),
      poi_created_at = ce_now env\<rparr>"

definition insert_purchase_order_items :: "catalog_env \<Rightarrow> int \<Rightarrow> po_item_body list \<Rightarrow> unit action" where
  [repo_defs]: "insert_purchase_order_items env po bs d =
     (if list_ex (\<lambda>b. variant_of d (pb_variant_id b) = None) bs then (Inl P2003, d)
      else (Inr (), d\<lparr>purchase_order_items :=
              insert_rows (map (new_purchase_order_item env po) bs) (purchase_order_items d)\<rparr>))"

record purchase_order_view =
  pov_order :: purchase_order_row
  pov_items :: "purchase_order_item_row list"

definition create_purchase_order :: "catalog_env \<Rightarrow> int \<Rightarrow> create_po_body \<Rightarrow> purchase_order_view action" where
  [service_defs]: "create_purchase_order env actor body d0 =
     await (transaction (\<lambda>d.
       await (insert_purchase_order env actor body d) (\<lambda>p d.
       await (insert_purchase_order_items env (po_id p) (pc_items body) d) (\<lambda>_ d.
         (Inr (map_option (\<lambda>r. \<lparr>pov_order = r, pov_items = find_purchase_order_items d (po_id r)\<rparr>)
                 (find_purchase_order d (po_id p))), d)))) d0) (\<lambda>created d.
     (case created of
        None \<Rightarrow> (Inl (JsError ''UPDATED_PURCHASE_ORDER_COULD_NOT_BE_LOADED''), d)
      | Some v \<Rightarrow> (Inr v, d)))"

definition get_purchase_orders ::
    "int option \<Rightarrow> int option \<Rightarrow> purchase_order_status option \<Rightarrow> db \<Rightarrow> purchase_order_row paginated" where
  [service_defs]: "get_purchase_orders page limit status d =
     (let p = given page 1; l = given limit 10;
          keep = (\<lambda>r. case status of None \<Rightarrow> True | Some s \<Rightarrow> po_status r = s)
      in build_paginated_result
           (page_slice p l (sort_key (\<lambda>r. (- po_created_at r, - po_id r)) (select_rows keep (purchase_orders d))))
           (count_rows keep (purchase_orders d)) p l)"

record po_detail_item =
  pdi_item :: purchase_order_item_row
  pdi_title :: "utext option"
  pdi_format :: book_format

definition to_po_detail_item :: "db \<Rightarrow> int \<Rightarrow> purchase_order_item_row \<Rightarrow> po_detail_item option" where
  "to_po_detail_item d lang x =
     map_option (\<lambda>v. \<lparr>pdi_item = x,
         pdi_title = (case translations_of d lang (bv_book_id v) of [] \<Rightarrow> None | t # _ \<Rightarrow> Some (bt_title t)),
         pdi_format = bv_format v\<rparr>) (variant_of d (poi_variant_id x))"

definition get_purchase_order_detail ::
    "int \<Rightarrow> int option \<Rightarrow> int option \<Rightarrow> int \<Rightarrow> db \<Rightarrow> po_detail_item paginated res" where
  [service_defs]: "get_purchase_order_detail i page limit lang d =
     (case get_pagination_params (Some (given page 1)) (Some (given limit 20)) of (p, l, offset) \<Rightarrow>
      if find_purchase_order d i = None then Inl (NotFound ''PURCHASE_ORDER_NOT_FOUND'')
      else let items = find_purchase_order_items d i in
        Inr (build_paginated_result (List.map_filter (to_po_detail_item d lang) (take (nat l) (drop (nat offset) items)))
               (int (length items)) p l))"

definition update_purchase_order_status :: "catalog_env \<Rightarrow> int \<Rightarrow> int \<Rightarrow> purchase_order_status \<Rightarrow> unit action" where
  [repo_defs]: "update_purchase_order_status env i actor status d =
     (if find_purchase_order d i = None then (Inl P2025, d)
      else (Inr (), d\<lparr>purchase_orders := map_rows (\<lambda>p. po_id p = i)
              (\<lambda>p. p\<lparr>po_status := status, po_approved_by := Some actor, po_approved_at := Some (ce_now env)\<rparr>)
              (purchase_orders d)\<rparr>))"

definition approve_purchase_order :: "catalog_env \<Rightarrow> int \<Rightarrow> int \<Rightarrow> purchase_order_status \<Rightarrow> unit action" where
  [service_defs]: "approve_purchase_order env i actor status d =
     (if status \<noteq> PO_APPROVED \<and> status \<noteq> PO_REJECTED
      then (Inl (BadRequest ''STATUS_MUST_BE_APPROVED_OR_REJECTED''), d)
      else (case find_purchase_order d i of
              None \<Rightarrow> (Inl (NotFound ''PURCHASE_ORDER_NOT_FOUND''), d)
            | Some p \<Rightarrow>
                if po_status p \<noteq> PO_PENDING then (Inl (BadRequest ''PURCHASE_ORDER_HAS_ALREADY_BEEN_PROCESSED''), d)
                else if find_purchase_order_items d i = []
                then (Inl (BadRequest ''PURCHASE_ORDER_MUST_HAVE_AT_LEAST_ONE_ITEM''), d)
                else update_purchase_order_status env i actor status d))"

text \<open>The update of the transfer writes the acting user into the column of the approver.\<close>

definition update_transfer_status :: "int \<Rightarrow> int \<Rightarrow> purchase_order_type \<Rightarrow> rat option \<Rightarrow> unit action" where
  [repo_defs]: "update_transfer_status i actor status paid d =
     (if find_purchase_order d i = None then (Inl P2025, d)
      else (Inr (), d\<lparr>purchase_orders := map_rows (\<lambda>p. po_id p = i)
              (\<lambda>p. p\<lparr>po_status_transfer := status, po_approved_by := Some actor,
                     po_real_pay_price := (case paid of None \<Rightarrow> po_real_pay_price p | Some x \<Rightarrow> Some (store_decimal x))\<rparr>)
              (purchase_orders d)\<rparr>))"

definition update_status_transfer :: "int \<Rightarrow> int \<Rightarrow> purchase_order_type option \<Rightarrow> unit action" where
  [service_defs]: "update_status_transfer i actor status = update_transfer_status i actor (given status Transfer_PROCESSING) None"

section \<open>The price of a variant\<close>

text \<open>
  Without a purchase order item the price is \<open>Number(undefined)\<close>; what the client does when asked to write
  a NaN is the argument \<open>write_nan\<close>.
\<close>

definition find_purchase_order_item :: "int \<Rightarrow> int \<Rightarrow> db \<Rightarrow> purchase_order_item_row option" where
  [repo_defs]: "find_purchase_order_item variant item d =
     find_row (\<lambda>x. poi_variant_id x = variant \<and> poi_id x = item) (purchase_order_items d)"

definition update_price_from_purchase ::
    "variant_row action \<Rightarrow> int \<Rightarrow> int \<Rightarrow> db \<Rightarrow> catalog_cache \<Rightarrow> variant_row res \<times> db \<times> catalog_cache" where
  [service_defs]: "update_price_from_purchase write_nan variant item d c =
     (case (case find_purchase_order_item variant item d of
              None \<Rightarrow> write_nan d
            | Some x \<Rightarrow> update_price_variant variant (f64 (poi_unit_price x)) d) of
        (Inl e, d') \<Rightarrow> (Inl e, d', c)
      | (Inr v, d') \<Rightarrow> (Inr v, d', bump_catalog_book_detail (bv_book_id v) d' c))"

section \<open>Stock imports\<close>

record import_item_body =
  ib_item_id :: int
  ib_real_quantity :: int

record import_body =
  im_purchase_order_id :: int
  im_note :: "string option"
  im_items :: "import_item_body list"

record priced_import_item =
  pii_item_id :: int
  pii_variant_id :: int
  pii_real_quantity :: int
  pii_lack_quantity :: int
  pii_price :: rat
  pii_total :: rat

definition price_import_item :: "purchase_order_item_row list \<Rightarrow> import_item_body \<Rightarrow> priced_import_item res" where
  "price_import_item found b =
     (case List.find (\<lambda>x. poi_id x = ib_item_id b) found of
        None \<Rightarrow> Inl (NotFound (''Purchase order item '' @ int_string (ib_item_id b) @ '' not found''))
      | Some x \<Rightarrow>
          let price = f64 (poi_price x); lack = poi_quantity x - ib_real_quantity b in
          Inr \<lparr>pii_item_id = ib_item_id b, pii_variant_id = poi_variant_id x, pii_real_quantity = ib_real_quantity b,
               pii_lack_quantity = lack, pii_price = price,
               pii_total = js_sub (js_mul (of_int (ib_real_quantity b)) price) (js_mul (of_int lack) price)\<rparr>)"

primrec price_import_items :: "purchase_order_item_row list \<Rightarrow> import_item_body list \<Rightarrow> priced_import_item list res" where
  "price_import_items found [] = Inr []"
| "price_import_items found (b # bs) =
     (case price_import_item found b of
        Inl e \<Rightarrow> Inl e
      | Inr x \<Rightarrow> (case price_import_items found bs of Inl e \<Rightarrow> Inl e | Inr xs \<Rightarrow> Inr (x # xs)))"

definition real_pay_price :: "rat \<Rightarrow> rat \<Rightarrow> rat" where
  "real_pay_price amount purchase =
     (if purchase < amount then amount
      else if amount < purchase then js_sub purchase \<bar>amount\<bar>
      else purchase)"

definition find_stock_import :: "db \<Rightarrow> int \<Rightarrow> stock_import_row option" where
  [repo_defs]: "find_stock_import d po = find_row (\<lambda>s. si_purchase_order_id s = po) (stock_imports d)"

definition insert_stock_import :: "catalog_env \<Rightarrow> int \<Rightarrow> int \<Rightarrow> import_body \<Rightarrow> rat \<Rightarrow> unit action" where
  [repo_defs]: "insert_stock_import env cuid actor body amount d =
     (if find_stock_import d (im_purchase_order_id body) \<noteq> None then (Inl P2002, d)
      else if find_purchase_order d (im_purchase_order_id body) = None \<or> user_of d actor = None then (Inl P2003, d)
      else (Inr (), d\<lparr>stock_imports := insert_row (\<lambda>_. \<lparr>si_id = cuid,
              si_purchase_order_id = im_purchase_order_id body, si_created_by = actor, si_created_at = ce_now env,
              si_note = im_note body, si_total_amount = store_decimal amount\<rparr>) (stock_imports d)\<rparr>))"

definition insert_stock_import_items :: "int \<Rightarrow> priced_import_item list \<Rightarrow> unit action" where
  [repo_defs]: "insert_stock_import_items cuid xs d =
     (Inr (), d\<lparr>stock_import_items := insert_rows (map (\<lambda>x i. \<lparr>sii_id = i, sii_stock_import_id = cuid,
        sii_purchase_order_item_id = pii_item_id x, sii_real_quantity = pii_real_quantity x,
        sii_lack_quantity = pii_lack_quantity x, sii_total_price = store_decimal (pii_total x)\<rparr>) xs)
        (stock_import_items d)\<rparr>)"

record stock_import_view =
  sv_id :: int
  sv_purchase_order_id :: int
  sv_supplier_name :: "string option"
  sv_note :: "string option"
  sv_total_amount :: rat
  sv_creator :: "(string option \<times> string option) option"
  sv_created_at :: int
  sv_items :: "stock_import_item_row list"

definition to_stock_import_item :: "db \<Rightarrow> stock_import_row \<Rightarrow> stock_import_view" where
  "to_stock_import_item d s =
     \<lparr>sv_id = si_id s, sv_purchase_order_id = si_purchase_order_id s,
      sv_supplier_name = (case find_purchase_order d (si_purchase_order_id s) of None \<Rightarrow> None
        | Some p \<Rightarrow> map_option sup_name (supplier_of d (po_supplier_id p))),
      sv_note = si_note s, sv_total_amount = f64 (si_total_amount s),
      sv_creator = map_option (\<lambda>u. (usr_first_name u, usr_last_name u)) (user_of d (si_created_by s)),
      sv_created_at = si_created_at s, sv_items = []\<rparr>"

text \<open>The mapper of the detail reads the fields of the row it is given: without a row it raises.\<close>

definition to_stock_import_detail :: "db \<Rightarrow> stock_import_row option \<Rightarrow> stock_import_view res" where
  "to_stock_import_detail d s =
     (case s of
        None \<Rightarrow> Inl TypeError
      | Some r \<Rightarrow> Inr ((to_stock_import_item d r)
          \<lparr>sv_items := select_rows (\<lambda>x. sii_stock_import_id x = si_id r) (stock_import_items d)\<rparr>))"

definition get_stock_imports :: "int option \<Rightarrow> int option \<Rightarrow> db \<Rightarrow> stock_import_view paginated" where
  [service_defs]: "get_stock_imports page limit d =
     (let p = given page 1; l = given limit 20 in
      build_paginated_result (map (to_stock_import_item d)
          (page_slice p l (sort_key (\<lambda>s. (- si_created_at s, - si_id s)) (rows (stock_imports d)))))
        (count_rows (\<lambda>_. True) (stock_imports d)) p l)"

definition get_stock_import_detail :: "int \<Rightarrow> db \<Rightarrow> stock_import_view res" where
  [service_defs]: "get_stock_import_detail po d =
     (case find_stock_import d po of
        None \<Rightarrow> Inl (NotFound ''STOCK_IMPORT_NOT_FOUND'')
      | Some s \<Rightarrow> to_stock_import_detail d (Some s))"

definition import_quantities :: "priced_import_item list \<Rightarrow> (int \<times> int) list" where
  "import_quantities xs = map (\<lambda>x. (pii_variant_id x, pii_real_quantity x)) xs"

definition import_tx ::
    "catalog_env \<Rightarrow> int \<Rightarrow> int \<Rightarrow> import_body \<Rightarrow> priced_import_item list \<Rightarrow> stock_import_row option action" where
  "import_tx env cuid actor body xs =
     transaction (\<lambda>d.
       let amount = foldl (\<lambda>s x. js_add s (pii_total x)) 0 xs;
           purchase = foldl (\<lambda>s x. js_add s (pii_price x)) 0 xs in
       await (insert_stock_import env cuid actor body amount d) (\<lambda>_ d.
       await (promise_all (insert_stock_import_items cuid xs)
                (promise_all (increment_stock_by_id (import_quantities xs))
                   (update_transfer_status (im_purchase_order_id body) actor Transfer_PURCHASE
                      (Some (real_pay_price amount purchase)))) d) (\<lambda>_ d.
         (Inr (find_stock_import d cuid), d))))"

definition create_stock_import :: "catalog_env \<Rightarrow> int \<Rightarrow> int \<Rightarrow> import_body \<Rightarrow> stock_import_view action" where
  [service_defs]: "create_stock_import env cuid actor body d0 =
     (case price_import_items (select_rows (\<lambda>x. poi_id x \<in> set (map ib_item_id (im_items body))) (purchase_order_items d0))
             (im_items body) of
        Inl e \<Rightarrow> (Inl e, d0)
      | Inr xs \<Rightarrow>
          await (import_tx env cuid actor body xs d0) (\<lambda>s d. (to_stock_import_detail d s, d)))"

section \<open>Decisions are final\<close>

datatype purchase_call =
    Create_Purchase catalog_env int create_po_body
  | Approve_Purchase catalog_env int int purchase_order_status
  | Update_Transfer int int "purchase_order_type option"
  | Import_Stock catalog_env int int import_body

primrec purchase_step :: "purchase_call \<Rightarrow> db \<Rightarrow> db" where
  "purchase_step (Create_Purchase env actor body) d = snd (create_purchase_order env actor body d)"
| "purchase_step (Approve_Purchase env i actor status) d = snd (approve_purchase_order env i actor status d)"
| "purchase_step (Update_Transfer i actor status) d = snd (update_status_transfer i actor status d)"
| "purchase_step (Import_Stock env cuid actor body) d = snd (create_stock_import env cuid actor body d)"

definition decided :: "int \<Rightarrow> purchase_order_status \<Rightarrow> db \<Rightarrow> bool" where
  "decided i status d \<longleftrightarrow> status \<noteq> PO_PENDING \<and> map_option po_status (find_purchase_order d i) = Some status"

lemmas decided_keeps =
  await_keeps [where P = "decided i s"] transaction_keeps [where P = "decided i s"]
  promise_all_keeps [where P = "decided i s"] promise_all_list_keeps [where P = "decided i s"] for i s

lemma decided_frame [simp]:
  "decided i s (d\<lparr>purchase_order_items := x\<rparr>) = decided i s d"
  "decided i s (d\<lparr>stock_imports := y\<rparr>) = decided i s d"
  "decided i s (d\<lparr>stock_import_items := z\<rparr>) = decided i s d"
  "decided i s (d\<lparr>variants := v\<rparr>) = decided i s d"
  by (simp_all add: decided_def find_purchase_order_def)

lemma find_purchase_order_map:
  assumes "\<And>p. po_id (f p) = po_id p"
  shows "find_purchase_order (d\<lparr>purchase_orders := map_rows (\<lambda>p. po_id p = j) f (purchase_orders d)\<rparr>) i =
    (if i = j then map_option f (find_purchase_order d i) else find_purchase_order d i)"
  using find_key_modify [of po_id f i j "purchase_orders d"] assms by (simp add: find_purchase_order_def)

lemma decided_insert_order: "decided i s d \<Longrightarrow> decided i s (snd (insert_purchase_order env actor body d))"
  by (auto simp: decided_def insert_purchase_order_def find_purchase_order_def find_row_insert split: option.splits)

lemma decided_create: "decided i s d \<Longrightarrow> decided i s (snd (create_purchase_order env actor body d))"
  unfolding create_purchase_order_def
  by (auto intro!: decided_keeps(1,2) decided_insert_order simp: insert_purchase_order_items_def split: option.split)

lemma decided_map:
  assumes "decided i s d" and "\<And>p. po_id (f p) = po_id p" and "\<And>p. po_status (f p) = po_status p"
  shows "decided i s (d\<lparr>purchase_orders := map_rows (\<lambda>p. po_id p = j) f (purchase_orders d)\<rparr>)"
proof -
  obtain p where "find_purchase_order d i = Some p" "po_status p = s" "s \<noteq> PO_PENDING"
    using assms(1) by (auto simp: decided_def)
  then show ?thesis using assms(2,3) by (cases "i = j") (simp_all add: decided_def find_purchase_order_map)
qed

lemma decided_transfer: "decided i s d \<Longrightarrow> decided i s (snd (update_transfer_status j actor st paid d))"
  by (simp add: update_transfer_status_def decided_map)

lemma decided_approve:
  assumes "decided i s d"
  shows "decided i s (snd (approve_purchase_order env j actor st d))"
proof (cases "i = j")
  case True
  with assms obtain p where "find_purchase_order d j = Some p" "po_status p \<noteq> PO_PENDING" by (auto simp: decided_def)
  with assms show ?thesis by (simp add: approve_purchase_order_def)
next
  case False
  with assms show ?thesis
    by (simp add: approve_purchase_order_def update_purchase_order_status_def decided_def find_purchase_order_map
        split: option.split)
qed

lemma decided_increment: "decided i s d \<Longrightarrow> decided i s (snd (increment_stock_by_id qs d))"
  unfolding increment_stock_by_id_def
  by (rule decided_keeps(4)) (auto simp: increment_stock_row_def split: option.split)

lemma decided_import_tx: "decided i s d \<Longrightarrow> decided i s (snd (import_tx env cuid actor body xs d))"
  unfolding import_tx_def Let_def
  by (auto intro!: decided_keeps(1,2,3) decided_increment decided_transfer
      simp: insert_stock_import_def insert_stock_import_items_def)

lemma decided_import: "decided i s d \<Longrightarrow> decided i s (snd (create_stock_import env cuid actor body d))"
  by (auto simp: create_stock_import_def intro: decided_keeps(1) decided_import_tx split: sum.split)

interpretation purchase_calls: machine purchase_step "decided i s" for i s
proof
  show "decided i s (purchase_step c d)" if "decided i s d" for c d
    using that by (cases c)
      (simp_all add: decided_create decided_approve decided_import update_status_transfer_def decided_transfer)
qed

text \<open>
  C26: the decision on a purchase order is final: once it is approved or rejected, no sequence of
  calls that create orders, approve or reject, move transfers and import stock changes its status.
\<close>
theorem purchase_decision_final:
  assumes "find_purchase_order d i = Some p" and "po_status p \<noteq> PO_PENDING"
  shows "\<exists>q. find_purchase_order (fold purchase_step calls d) i = Some q \<and> po_status q = po_status p"
proof -
  have "decided i (po_status p) d" using assms by (simp add: decided_def)
  then have "decided i (po_status p) (fold purchase_step calls d)" by (rule purchase_calls.run_inv)
  then show ?thesis by (auto simp: decided_def)
qed

definition sample_po_row :: purchase_order_row where
  "sample_po_row = \<lparr>po_id = 7, po_code = ''p'', po_supplier_id = 1, po_created_by = 2, po_approved_by = Some 2,
     po_status = PO_REJECTED, po_status_transfer = Transfer_PENDING, po_note = None, po_total_amount = 200,
     po_real_pay_price = None, po_tax_amount = 0, po_approved_at = Some 3, po_created_at = 2,
     po_update_transfer_id = None\<rparr>"

definition sample_po_item :: purchase_order_item_row where
  "sample_po_item = \<lparr>poi_id = 4, poi_purchase_order_id = 7, poi_variant_id = 1, poi_quantity = 5, poi_unit_price = 40,
     poi_price = 40, poi_discount_price = 0, poi_total_price = 200, poi_created_at = 2\<rparr>"

definition sample_rejected :: db where
  "sample_rejected = sample_admin_db\<lparr>
     purchase_orders := \<lparr>rows = [sample_po_row], serial = 8\<rparr>,
     purchase_order_items := \<lparr>rows = [sample_po_item], serial = 5\<rparr>\<rparr>"

definition sample_import :: import_body where
  "sample_import = \<lparr>im_purchase_order_id = 7, im_note = None,
     im_items = [\<lparr>ib_item_id = 4, ib_real_quantity = 3\<rparr>]\<rparr>"

lemma sample_rejected_order: "find_purchase_order sample_rejected 7 = Some sample_po_row"
  by (simp add: find_purchase_order_def find_row_def sample_rejected_def sample_po_row_def)

theorem purchase_decision_final_witness:
  "\<exists>q. find_purchase_order (fold purchase_step
        [Approve_Purchase sample_env 7 2 PO_APPROVED, Import_Stock sample_env 20 2 sample_import] sample_rejected) 7 = Some q
     \<and> po_status q = PO_REJECTED"
  using purchase_decision_final [OF sample_rejected_order,
      of "[Approve_Purchase sample_env 7 2 PO_APPROVED, Import_Stock sample_env 20 2 sample_import]"]
  by (simp add: sample_po_row_def)

section \<open>What an import does\<close>

definition add_stock :: "(int \<times> int) list \<Rightarrow> variant_row \<Rightarrow> variant_row" where
  "add_stock qs v = v\<lparr>bv_stock := bv_stock v + sum_list (map snd (filter (\<lambda>q. fst q = bv_id v) qs))\<rparr>"

lemma increment_stock_all:
  assumes "\<And>q. q \<in> set qs \<Longrightarrow> variant_of d (fst q) \<noteq> None"
  shows "\<exists>us. increment_stock_by_id qs d = (Inr us, d\<lparr>variants := map_rows (\<lambda>_. True) (add_stock qs) (variants d)\<rparr>)"
  using assms
proof (induction qs arbitrary: d)
  case Nil
  show ?case by (simp add: increment_stock_by_id_def add_stock_def map_rows_def)
next
  case (Cons q qs)
  obtain i n where q: "q = (i, n)" by (cases q)
  let ?f = "\<lambda>v. v\<lparr>bv_stock := bv_stock v + n\<rparr>"
  let ?d = "d\<lparr>variants := map_rows (\<lambda>v. bv_id v = i) ?f (variants d)\<rparr>"
  have row: "increment_stock_row q d = (Inr (), ?d)"
    using Cons.prems [of q] q by (auto simp: increment_stock_row_def)
  have "variant_of ?d k = None \<longleftrightarrow> variant_of d k = None" for k
    by (simp add: variant_store.lookup_modify_if)
  then have "\<And>r. r \<in> set qs \<Longrightarrow> variant_of ?d (fst r) \<noteq> None" using Cons.prems by simp
  from Cons.IH [OF this] obtain us where
    us: "increment_stock_by_id qs ?d = (Inr us, ?d\<lparr>variants := map_rows (\<lambda>_. True) (add_stock qs) (variants ?d)\<rparr>)" by blast
  have "map_rows (\<lambda>_. True) (add_stock qs) (map_rows (\<lambda>v. bv_id v = i) ?f t) = map_rows (\<lambda>_. True) (add_stock (q # qs)) t" for t
    by (auto simp: map_rows_def add_stock_def q)
  with row us show ?case by (auto simp: increment_stock_by_id_def promise_all_def)
qed

lemma find_filter_implied: "(\<And>x. P x \<Longrightarrow> Q x) \<Longrightarrow> List.find P (filter Q xs) = List.find P xs"
  by (induction xs) auto

definition ordered_item :: "db \<Rightarrow> import_item_body \<Rightarrow> purchase_order_item_row option" where
  "ordered_item d b = find_row (\<lambda>x. poi_id x = ib_item_id b) (purchase_order_items d)"

definition priced_from :: "import_item_body \<Rightarrow> purchase_order_item_row \<Rightarrow> priced_import_item" where
  "priced_from b x =
     (let price = f64 (poi_price x); lack = poi_quantity x - ib_real_quantity b in
      \<lparr>pii_item_id = ib_item_id b, pii_variant_id = poi_variant_id x, pii_real_quantity = ib_real_quantity b,
       pii_lack_quantity = lack, pii_price = price,
       pii_total = js_sub (js_mul (of_int (ib_real_quantity b)) price) (js_mul (of_int lack) price)\<rparr>)"

lemma price_import_items_known:
  assumes "\<And>b. b \<in> set bs \<Longrightarrow> ordered_item d b \<noteq> None" and "set (map ib_item_id bs) \<subseteq> ids"
  shows "price_import_items (select_rows (\<lambda>x. poi_id x \<in> ids) (purchase_order_items d)) bs =
    Inr (map (\<lambda>b. priced_from b (the (ordered_item d b))) bs)"
  using assms
proof (induction bs)
  case (Cons b bs)
  then obtain x where x: "ordered_item d b = Some x" by fastforce
  have "List.find (\<lambda>x. poi_id x = ib_item_id b) (select_rows (\<lambda>x. poi_id x \<in> ids) (purchase_order_items d)) = Some x"
    using x Cons.prems(2) unfolding select_rows_def ordered_item_def find_row_def
    by (subst find_filter_implied) auto
  with Cons x show ?case by (simp add: price_import_item_def priced_from_def Let_def)
qed simp

text \<open>The copies of a variant that a request says arrived.\<close>

definition arrived :: "db \<Rightarrow> import_body \<Rightarrow> int \<Rightarrow> int" where
  "arrived d body i = sum_list (map ib_real_quantity
     (filter (\<lambda>b. map_option poi_variant_id (ordered_item d b) = Some i) (im_items body)))"

lemma arrived_quantities:
  assumes "\<And>b. b \<in> set bs \<Longrightarrow> ordered_item d b \<noteq> None"
  shows "sum_list (map snd (filter (\<lambda>q. fst q = i) (import_quantities (map (\<lambda>b. priced_from b (the (ordered_item d b))) bs)))) =
    sum_list (map ib_real_quantity (filter (\<lambda>b. map_option poi_variant_id (ordered_item d b) = Some i) bs))"
  using assms by (induction bs) (fastforce simp: import_quantities_def priced_from_def Let_def)+

lemma insert_stock_import_new:
  assumes "find_purchase_order d (im_purchase_order_id body) \<noteq> None" and "user_of d actor \<noteq> None"
    and "find_stock_import d (im_purchase_order_id body) = None"
    and "find_stock_import d cuid = None" and "cuid \<noteq> im_purchase_order_id body"
  shows "\<exists>si. insert_stock_import env cuid actor body amount d = (Inr (), d\<lparr>stock_imports := si\<rparr>)
     \<and> find_stock_import (d\<lparr>stock_imports := si\<rparr>) (im_purchase_order_id body) \<noteq> None
     \<and> find_stock_import (d\<lparr>stock_imports := si\<rparr>) cuid = None"
proof (intro exI conjI)
  let ?si = "insert_row (\<lambda>_. \<lparr>si_id = cuid, si_purchase_order_id = im_purchase_order_id body, si_created_by = actor,
      si_created_at = ce_now env, si_note = im_note body, si_total_amount = store_decimal amount\<rparr>) (stock_imports d)"
  show "insert_stock_import env cuid actor body amount d = (Inr (), d\<lparr>stock_imports := ?si\<rparr>)"
    using assms(1-3) by (simp add: insert_stock_import_def)
  show "find_stock_import (d\<lparr>stock_imports := ?si\<rparr>) (im_purchase_order_id body) \<noteq> None"
    using assms(3) by (simp add: find_stock_import_def find_row_insert)
  show "find_stock_import (d\<lparr>stock_imports := ?si\<rparr>) cuid = None"
    using assms(4,5) by (simp add: find_stock_import_def find_row_insert)
qed

lemma import_tx_commits:
  assumes "find_purchase_order d (im_purchase_order_id body) \<noteq> None" and "user_of d actor \<noteq> None"
    and "find_stock_import d (im_purchase_order_id body) = None"
    and "find_stock_import d cuid = None" and "cuid \<noteq> im_purchase_order_id body"
    and "\<And>x. x \<in> set xs \<Longrightarrow> variant_of d (pii_variant_id x) \<noteq> None"
  shows "\<exists>d'. import_tx env cuid actor body xs d = (Inr None, d')
     \<and> variants d' = map_rows (\<lambda>_. True) (add_stock (import_quantities xs)) (variants d)
     \<and> purchase_order_items d' = purchase_order_items d
     \<and> find_stock_import d' (im_purchase_order_id body) \<noteq> None"
proof -
  let ?po = "im_purchase_order_id body"
  let ?amount = "foldl (\<lambda>s x. js_add s (pii_total x)) 0 xs"
  let ?purchase = "foldl (\<lambda>s x. js_add s (pii_price x)) 0 xs"
  obtain si1 where ins: "insert_stock_import env cuid actor body ?amount d = (Inr (), d\<lparr>stock_imports := si1\<rparr>)"
    and new: "find_stock_import (d\<lparr>stock_imports := si1\<rparr>) ?po \<noteq> None" "find_stock_import (d\<lparr>stock_imports := si1\<rparr>) cuid = None"
    using insert_stock_import_new [OF assms(1-5)] by blast
  let ?d1 = "d\<lparr>stock_imports := si1\<rparr>"
  obtain sii where items: "insert_stock_import_items cuid xs ?d1 = (Inr (), ?d1\<lparr>stock_import_items := sii\<rparr>)"
    by (simp add: insert_stock_import_items_def)
  let ?d2 = "?d1\<lparr>stock_import_items := sii\<rparr>"
  have vd2: "variant_of ?d2 i = variant_of d i" for i by (simp add: variant_of_def)
  have "variant_of ?d2 (fst q) \<noteq> None" if "q \<in> set (import_quantities xs)" for q
    using that assms(6) unfolding vd2 by (auto simp: import_quantities_def)
  from increment_stock_all [of "import_quantities xs" ?d2, OF this] obtain us where
    stock: "increment_stock_by_id (import_quantities xs) ?d2 =
      (Inr us, ?d2\<lparr>variants := map_rows (\<lambda>_. True) (add_stock (import_quantities xs)) (variants d)\<rparr>)" by auto
  let ?d3 = "?d2\<lparr>variants := map_rows (\<lambda>_. True) (add_stock (import_quantities xs)) (variants d)\<rparr>"
  have "find_purchase_order ?d3 ?po \<noteq> None" using assms(1) by (simp add: find_purchase_order_def)
  then obtain pos where transfer: "update_transfer_status ?po actor Transfer_PURCHASE (Some (real_pay_price ?amount ?purchase)) ?d3 =
      (Inr (), ?d3\<lparr>purchase_orders := pos\<rparr>)"
    by (simp add: update_transfer_status_def)
  let ?d4 = "?d3\<lparr>purchase_orders := pos\<rparr>"
  have si: "find_stock_import ?d4 i = find_stock_import ?d1 i" for i by (simp add: find_stock_import_def)
  have "import_tx env cuid actor body xs d = (Inr (find_stock_import ?d4 cuid), ?d4)"
    unfolding import_tx_def Let_def
    by (rule transaction_Inr) (simp only: ins items stock transfer await_simps promise_all_Inr [OF _ promise_all_Inr])
  then have "import_tx env cuid actor body xs d = (Inr None, ?d4)" using new(2) by (simp only: si)
  moreover have "find_stock_import ?d4 (im_purchase_order_id body) \<noteq> None" unfolding si by (rule new(1))
  ultimately show ?thesis by (intro exI [of _ ?d4] conjI) simp_all
qed

text \<open>
  An import of delivered stock succeeds in the database and fails for its caller. Whatever the status
  of the purchase order, when all items and variants exist and the order was not imported before, every
  variant's stock grows by the copies that arrived, and the call ends in a \<open>TypeError\<close>, because it looks
  the import up by its own identifier among those of the purchase orders. Repeating the request is refused
  by the unique index and changes nothing. (The drawn identifier is no identifier of a purchase order.)
\<close>
theorem stock_import_commits_then_fails:
  assumes "find_purchase_order d (im_purchase_order_id body) \<noteq> None" and "user_of d actor \<noteq> None"
    and "find_stock_import d (im_purchase_order_id body) = None"
    and "find_stock_import d cuid = None" and "cuid \<noteq> im_purchase_order_id body"
    and "\<And>b. b \<in> set (im_items body) \<Longrightarrow> \<exists>x. ordered_item d b = Some x \<and> variant_of d (poi_variant_id x) \<noteq> None"
  shows "\<exists>d'. create_stock_import env cuid actor body d = (Inl TypeError, d')
     \<and> (\<forall>i. variant_of d' i = map_option (\<lambda>v. v\<lparr>bv_stock := bv_stock v + arrived d body i\<rparr>) (variant_of d i))
     \<and> create_stock_import env cuid2 actor body d' = (Inl P2002, d')"
proof -
  let ?xs = "map (\<lambda>b. priced_from b (the (ordered_item d b))) (im_items body)"
  have known: "\<And>b. b \<in> set (im_items body) \<Longrightarrow> ordered_item d b \<noteq> None" using assms(6) by force
  have priced: "price_import_items (select_rows (\<lambda>x. poi_id x \<in> set (map ib_item_id (im_items body))) (purchase_order_items d))
      (im_items body) = Inr ?xs"
    using known by (rule price_import_items_known) simp_all
  have vs: "\<And>x. x \<in> set ?xs \<Longrightarrow> variant_of d (pii_variant_id x) \<noteq> None"
    using assms(6) by (force simp: priced_from_def Let_def)
  obtain d' where tx: "import_tx env cuid actor body ?xs d = (Inr None, d')"
    and stock: "variants d' = map_rows (\<lambda>_. True) (add_stock (import_quantities ?xs)) (variants d)"
    and pois: "purchase_order_items d' = purchase_order_items d"
    and done_once: "find_stock_import d' (im_purchase_order_id body) \<noteq> None"
    using import_tx_commits [OF assms(1-5) vs] by blast
  have "create_stock_import env cuid actor body d = (Inl TypeError, d')"
    using priced tx by (simp add: create_stock_import_def to_stock_import_detail_def)
  moreover have "variant_of d' i = map_option (\<lambda>v. v\<lparr>bv_stock := bv_stock v + arrived d body i\<rparr>) (variant_of d i)" for i
  proof -
    have "variant_of d' i = map_option (add_stock (import_quantities ?xs)) (variant_of d i)"
      unfolding variant_of_def stock by (subst find_row_map_rows_same) (simp add: add_stock_def, simp cong: option.map_cong)
    moreover have "add_stock (import_quantities ?xs) v = v\<lparr>bv_stock := bv_stock v + arrived d body i\<rparr>" if "bv_id v = i" for v
      using arrived_quantities [of "im_items body" d i, OF known] that by (simp add: add_stock_def arrived_def)
    ultimately show ?thesis by (cases "variant_of d i") (auto simp: variant_of_def dest: find_row_SomeD)
  qed
  moreover have "create_stock_import env cuid2 actor body d' = (Inl P2002, d')"
    using priced done_once by (auto simp: create_stock_import_def pois import_tx_def insert_stock_import_def Let_def)
  ultimately show ?thesis by blast
qed

theorem stock_import_commits_then_fails_witness:
  "\<exists>d' v. create_stock_import sample_env 20 2 sample_import sample_rejected = (Inl TypeError, d')
     \<and> variant_of d' 1 = Some v \<and> bv_stock v = 6
     \<and> create_stock_import sample_env 21 2 sample_import d' = (Inl P2002, d')"
proof -
  have po: "find_purchase_order sample_rejected (im_purchase_order_id sample_import) \<noteq> None"
    using sample_rejected_order by (simp add: sample_import_def)
  have user: "user_of sample_rejected 2 \<noteq> None"
    by (simp add: user_of_def find_row_def sample_rejected_def sample_admin_db_def sample_languages_def)
  have fresh: "find_stock_import sample_rejected i = None" for i
    by (simp add: find_stock_import_def sample_rejected_def sample_admin_db_def sample_catalog_def empty_db_def
        find_row_def empty_table_def)
  have cuid: "20 \<noteq> im_purchase_order_id sample_import" by (simp add: sample_import_def)
  have v: "variant_of sample_rejected 1 = Some (sample_priced 1)"
    by (simp add: variant_of_def find_row_def sample_rejected_def sample_admin_db_def sample_catalog_def sample_priced_def)
  have item: "ordered_item sample_rejected \<lparr>ib_item_id = 4, ib_real_quantity = 3\<rparr> = Some sample_po_item"
    by (simp add: ordered_item_def find_row_def sample_rejected_def sample_po_item_def)
  have items: "\<exists>x. ordered_item sample_rejected b = Some x \<and> variant_of sample_rejected (poi_variant_id x) \<noteq> None"
    if "b \<in> set (im_items sample_import)" for b
    using that item v by (simp add: sample_import_def sample_po_item_def)
  have "arrived sample_rejected sample_import 1 = 3"
    using item by (simp add: arrived_def sample_import_def sample_po_item_def)
  moreover obtain d' where d': "create_stock_import sample_env 20 2 sample_import sample_rejected = (Inl TypeError, d')"
    "\<And>i. variant_of d' i = map_option (\<lambda>v. v\<lparr>bv_stock := bv_stock v + arrived sample_rejected sample_import i\<rparr>)
       (variant_of sample_rejected i)"
    "create_stock_import sample_env 21 2 sample_import d' = (Inl P2002, d')"
    using stock_import_commits_then_fails [OF po user fresh fresh cuid items, of sample_env 21] by blast
  ultimately have "variant_of d' 1 = Some ((sample_priced 1)\<lparr>bv_stock := 6\<rparr>)"
    using v by (simp add: sample_priced_def)
  with d'(1,3) show ?thesis by (intro exI [of _ d'] exI [of _ "(sample_priced 1)\<lparr>bv_stock := 6\<rparr>"] conjI) simp_all
qed

section \<open>What a short delivery costs\<close>

text \<open>
  C27: a delivery that falls short is booked with the price of the missing copies taken off once more: of \<open>q\<close> copies
  ordered at a whole price \<open>p\<close> with \<open>r\<close> received, the import is worth \<open>r p - (q - r) p\<close>, which is negative as soon as
  less than half of the copies came.
\<close>
theorem short_delivery_is_deducted_twice:
  assumes "List.find (\<lambda>x. poi_id x = ib_item_id b) found = Some x" and "poi_price x = of_int p" and "0 < p"
    and "0 \<le> ib_real_quantity b" and "ib_real_quantity b \<le> poi_quantity x" and "poi_quantity x * p \<le> 2 ^ 53" and "p \<le> 2 ^ 53"
  shows "\<exists>y. price_import_item found b = Inr y \<and> pii_lack_quantity y = poi_quantity x - ib_real_quantity b
    \<and> pii_total y = of_int (ib_real_quantity b * p - pii_lack_quantity y * p)
    \<and> (pii_total y < 0 \<longleftrightarrow> 2 * ib_real_quantity b < poi_quantity x)"
proof -
  let ?q = "poi_quantity x" and ?r = "ib_real_quantity b"
  let ?total = "?r * p - (?q - ?r) * p"
  have r: "0 \<le> ?r * p" "?r * p \<le> ?q * p" and lack: "0 \<le> (?q - ?r) * p" "(?q - ?r) * p \<le> ?q * p"
    using assms(3-5) by (simp_all add: mult_right_mono)
  have sizes: "\<bar>?r * p\<bar> \<le> 2 ^ 53" "\<bar>(?q - ?r) * p\<bar> \<le> 2 ^ 53" "\<bar>?total\<bar> \<le> 2 ^ 53"
    using r lack assms(6) by linarith+
  have "f64 (poi_price x) = of_int p" unfolding assms(2) using assms(3,7) by (intro f64_of_int) simp
  then have total: "js_sub (js_mul (of_int ?r) (f64 (poi_price x))) (js_mul (of_int (?q - ?r)) (f64 (poi_price x))) = of_int ?total"
    using js_mul_of_int [OF sizes(1)] js_mul_of_int [OF sizes(2)] js_sub_of_int [OF sizes(3)] by simp
  have product: "?total = (2 * ?r - ?q) * p" by (simp add: algebra_simps)
  have "?total < 0 \<longleftrightarrow> 2 * ?r < ?q" unfolding product using assms(3) by (simp add: mult_less_0_iff)
  then have sign: "(of_int ?total :: rat) < 0 \<longleftrightarrow> 2 * ?r < ?q" unfolding of_int_less_0_iff .
  show ?thesis
    using sign by (simp only: price_import_item_def assms(1) option.case Let_def total) (simp del: of_int_diff of_int_mult)
qed

theorem short_delivery_is_deducted_twice_witness:
  "\<exists>y. price_import_item [\<lparr>poi_id = 1, poi_purchase_order_id = 1, poi_variant_id = 1, poi_quantity = 10, poi_unit_price = 100,
        poi_price = 90, poi_discount_price = 10, poi_total_price = 900, poi_created_at = 0\<rparr>] \<lparr>ib_item_id = 1, ib_real_quantity = 4\<rparr>
      = Inr y \<and> pii_lack_quantity y = 6 \<and> pii_total y < 0"
  using short_delivery_is_deducted_twice [of "\<lparr>ib_item_id = 1, ib_real_quantity = 4\<rparr>" "[\<lparr>poi_id = 1, poi_purchase_order_id = 1,
        poi_variant_id = 1, poi_quantity = 10, poi_unit_price = 100, poi_price = 90, poi_discount_price = 10, poi_total_price = 900,
        poi_created_at = 0\<rparr>]" _ 90]
  by auto

end
