(* ===== verification/Recommend.thy ===== *)
theory Recommend
  imports Reference_Data Orders
begin

text \<open>
  User events and recommendations, \<open>src/src/modules/user-event\<close> with the weights of
  \<open>src/src/common/constants/event-type.constant.ts\<close>. Scores are doubles added in the order of the events.
  A \<open>Map\<close> is an association list in insertion order. \<open>number_of_text\<close> reads the texts that are decimal
  integers, the only ones a table identifier matches; a query with any other number is refused by the client.
\<close>

section \<open>Scores\<close>

definition event_weight :: "event_type \<Rightarrow> rat" where
  "event_weight t =
     (case t of VIEW_BOOK \<Rightarrow> 1 | SEARCH \<Rightarrow> f64 (1 / 5) | ADD_TO_CART \<Rightarrow> 4 | REMOVE_FROM_CART \<Rightarrow> - 2
      | CHECKOUT_START \<Rightarrow> 6 | PLACE_ORDER \<Rightarrow> 8 | PAYMENT_SUCCESS \<Rightarrow> 12 | PAYMENT_FAILED \<Rightarrow> - 1
      | LOGIN \<Rightarrow> 0 | LOGOUT \<Rightarrow> 0)"

definition time_decay :: "int \<Rightarrow> rat" where
  "time_decay days = (if days \<le> 3 then 1 else if days \<le> 14 then f64 (7 / 10) else if days \<le> 30 then f64 (2 / 5) else f64 (1 / 5))"

definition score_event :: "int \<Rightarrow> event_type \<Rightarrow> int \<Rightarrow> rat" where
  "score_event now t created = js_mul (event_weight t) (time_decay (js_max 0 ((now - created) div 86400000)))"

record scored =
  so_id :: string
  so_type :: string
  so_created :: int
  so_score :: rat

type_synonym score_map = "(string \<times> scored) list"

definition upsert_score :: "score_map \<Rightarrow> string \<Rightarrow> string \<Rightarrow> int \<Rightarrow> rat \<Rightarrow> score_map" where
  [service_defs]: "upsert_score m i t created delta =
     (case map_of m i of
        Some p \<Rightarrow> put_entry i \<lparr>so_id = i, so_type = t,
                    so_created = (if created < so_created p then so_created p else created),
                    so_score = js_add (so_score p) delta\<rparr> m
      | None \<Rightarrow> put_entry i \<lparr>so_id = i, so_type = t, so_created = created, so_score = delta\<rparr> m)"

definition get_top_k :: "score_map \<Rightarrow> int \<Rightarrow> score_map" where
  [service_defs]: "get_top_k m k =
     map (\<lambda>x. (so_id x, x))
       (take (nat (js_max 1 k)) (sort_key (\<lambda>x. (- so_score x, - so_created x)) (filter (\<lambda>x. 0 < so_score x) (map snd m))))"

section \<open>Events\<close>

definition create_user_event ::
    "int \<Rightarrow> int \<Rightarrow> event_type \<Rightarrow> string option \<Rightarrow> string option \<Rightarrow> rat option \<Rightarrow> user_event_row action" where
  [repo_defs]: "create_user_event now user t otype oid amount d =
     (let mk = (\<lambda>i. \<lparr>ue_id = i, ue_user_id = Some user, ue_event_type = t, ue_object_type = map_option js_trim otype,
                     ue_object_id = map_option js_trim oid, ue_amount = amount, ue_created_at = now\<rparr>) in
      if user_of d user = None then (Inl P2003, d)
      else (Inr (mk (serial (user_events d))), d\<lparr>user_events := insert_row mk (user_events d)\<rparr>))"

definition find_events_by_user :: "int \<Rightarrow> string \<Rightarrow> db \<Rightarrow> user_event_row list" where
  [repo_defs]: "find_events_by_user user otype d =
     sort_key (\<lambda>e. - ue_created_at e)
       (select_rows (\<lambda>e. ue_user_id e = Some user \<and> ue_object_type e = Some otype) (user_events d))"

definition find_all_events_by_user :: "int \<Rightarrow> db \<Rightarrow> user_event_row list" where
  [repo_defs]: "find_all_events_by_user user d =
     sort_key (\<lambda>e. - ue_created_at e) (select_rows (\<lambda>e. ue_user_id e = Some user) (user_events d))"

definition VARIANT_EVENT_TYPES :: "event_type list" where
  "VARIANT_EVENT_TYPES = [VIEW_BOOK, ADD_TO_CART, REMOVE_FROM_CART]"

definition ORDER_EVENT_TYPES :: "event_type list" where
  "ORDER_EVENT_TYPES = [CHECKOUT_START, PLACE_ORDER, PAYMENT_SUCCESS, PAYMENT_FAILED]"

text \<open>The object an event counts for: none when it has no object, another type of object or another type of event.\<close>

definition counted_for :: "event_type list \<Rightarrow> string \<Rightarrow> user_event_row \<Rightarrow> string option" where
  "counted_for allowed otype e =
     (case ue_object_id e of
        None \<Rightarrow> None
      | Some i \<Rightarrow> if i = [] \<or> ue_object_type e \<noteq> Some otype \<or> ue_event_type e \<notin> set allowed then None else Some i)"

definition add_event :: "int \<Rightarrow> event_type list \<Rightarrow> string \<Rightarrow> score_map \<Rightarrow> user_event_row \<Rightarrow> score_map" where
  "add_event now allowed otype m e =
     (case counted_for allowed otype e of
        None \<Rightarrow> m
      | Some i \<Rightarrow> upsert_score m i otype (ue_created_at e) (score_event now (ue_event_type e) (ue_created_at e)))"

definition score_events :: "int \<Rightarrow> event_type list \<Rightarrow> string \<Rightarrow> user_event_row list \<Rightarrow> score_map" where
  "score_events now allowed otype es = foldl (add_event now allowed otype) [] es"

definition build_score_variant :: "int \<Rightarrow> int \<Rightarrow> db \<Rightarrow> score_map" where
  [service_defs]: "build_score_variant now user d =
     get_top_k (score_events now VARIANT_EVENT_TYPES ''bookVariant'' (find_events_by_user user ''bookVariant'' d)) 20"

definition build_score_order :: "int \<Rightarrow> int \<Rightarrow> db \<Rightarrow> score_map" where
  [service_defs]: "build_score_order now user d =
     get_top_k (score_events now ORDER_EVENT_TYPES ''order'' (find_events_by_user user ''order'' d)) 20"

section \<open>Merging\<close>

definition number_of_text :: "string \<Rightarrow> int option" where
  "number_of_text s =
     (case js_trim s of
        [] \<Rightarrow> Some 0
      | c # cs \<Rightarrow>
          if c = CHR ''-'' \<and> cs \<noteq> [] \<and> list_all is_digit cs then Some (- digits_value cs)
          else if list_all is_digit (c # cs) then Some (digits_value (c # cs)) else None)"

definition numbers_of_keys :: "score_map \<Rightarrow> int list res" where
  "numbers_of_keys m = (case those (map (number_of_text \<circ> fst) m) of
     None \<Rightarrow> Inl (JsError ''PrismaClientValidationError'') | Some is \<Rightarrow> Inr is)"

text \<open>The signals of the items of an order: snapshot, date and score of the order times the quantity.\<close>

definition order_signals :: "score_map \<Rightarrow> (int \<times> order_item_row list) list \<Rightarrow> (int \<times> int \<times> rat) list" where
  "order_signals scores rs = concat (map (\<lambda>(i, items).
     (case map_of scores (int_string i) of
        None \<Rightarrow> []
      | Some s \<Rightarrow> map (\<lambda>x. (oi_snapshot_id x,
            (if oi_created_at x < so_created s then so_created s else oi_created_at x),
            js_mul (so_score s) (of_int (js_max 1 (oi_quantity x))))) (filter (\<lambda>x. oi_snapshot_id x \<noteq> 0) items))) rs)"

definition js_unique :: "'a list \<Rightarrow> 'a list" where
  "js_unique xs = rev (remdups (rev xs))"

definition add_signal :: "(int \<times> int) list \<Rightarrow> score_map \<Rightarrow> int \<times> int \<times> rat \<Rightarrow> score_map" where
  "add_signal variant_by m s =
     (case s of (snap, created, score) \<Rightarrow>
        (case js_map_of variant_by snap of
           None \<Rightarrow> m
         | Some v \<Rightarrow> upsert_score m (int_string v) ''bookVariant'' created score))"

definition merge_recommend :: "score_map \<Rightarrow> score_map \<Rightarrow> db \<Rightarrow> score_map res" where
  [service_defs]: "merge_recommend vs os d =
     (if os = [] then Inr vs
      else (case numbers_of_keys os of
        Inl e \<Rightarrow> Inl e
      | Inr ids \<Rightarrow>
          let signals = order_signals os (find_orders_with_items ids d);
              variant_by = find_variant_ids_by_snapshot_ids (js_unique (map fst signals)) d in
          if find_orders_with_items ids d = [] \<or> signals = [] \<or> variant_by = [] then Inr vs
          else Inr (get_top_k (foldl (add_signal variant_by) vs signals) 20)))"

section \<open>Recommendations\<close>

definition pick_recommend_cards :: "int list \<Rightarrow> book_card list \<Rightarrow> int \<Rightarrow> book_card list" where
  [service_defs]: "pick_recommend_cards ids cards limit =
     take (nat (js_max 1 limit))
       (List.map_filter (\<lambda>i. js_map_of (map (\<lambda>c. (case card_variant_id c of None \<Rightarrow> [] | Some v \<Rightarrow> int_string v, c)) cards)
          (int_string i)) ids)"

definition also_bought :: "int list \<Rightarrow> db \<Rightarrow> int list" where
  "also_bought seeds d =
     (let snaps = find_snapshot_ids_by_variant_ids seeds d;
          order_ids = find_order_ids_by_snapshot_ids snaps d;
          candidates = filter (\<lambda>i. i \<noteq> 0) (map fst (group_also_bought order_ids snaps 200 d))
      in if seeds = [] \<or> snaps = [] \<or> order_ids = [] \<or> candidates = [] then []
         else js_unique (map snd (find_variant_ids_by_snapshot_ids candidates d)))"

definition recommend_seeds :: "int \<Rightarrow> int \<Rightarrow> db \<Rightarrow> int list res" where
  "recommend_seeds now user d =
     (case merge_recommend (build_score_variant now user d) (build_score_order now user d) d of
        Inl e \<Rightarrow> Inl e
      | Inr scores \<Rightarrow> numbers_of_keys scores)"

definition get_recommend :: "int \<Rightarrow> int \<Rightarrow> int \<Rightarrow> int \<Rightarrow> db \<Rightarrow> book_card list res" where
  [service_defs]: "get_recommend now user lang limit d =
     (case recommend_seeds now user d of
        Inl e \<Rightarrow> Inl e
      | Inr seeds \<Rightarrow>
          let ids = also_bought seeds d in
          if ids = [] then Inr []
          else Inr (pick_recommend_cards ids (find_books_variant_by_ids ids lang limit d) limit))"

definition get_hyper_recommend_home :: "int \<Rightarrow> int \<Rightarrow> int option \<Rightarrow> int \<Rightarrow> db \<Rightarrow> (book_card list \<times> int) res" where
  [service_defs]: "get_hyper_recommend_home now user limit lang d =
     (case get_recommend now user lang (case limit of None \<Rightarrow> 12 | Some n \<Rightarrow> n) d of
        Inl e \<Rightarrow> Inl e | Inr cards \<Rightarrow> Inr (cards, now))"

section \<open>The fold of upserts is the grouped sum\<close>

lemma map_of_put_entry: "map_of (put_entry k v m) j = (if j = k then Some v else map_of m j)"
  by (induction k v m rule: put_entry.induct) auto

text \<open>
  The reference: the events that count for an object, with the newest date and the scores added in order.
\<close>

definition grouped_score :: "int \<Rightarrow> event_type list \<Rightarrow> string \<Rightarrow> user_event_row list \<Rightarrow> string \<Rightarrow> scored option" where
  "grouped_score now allowed otype es i =
     (case filter (\<lambda>e. counted_for allowed otype e = Some i) es of
        [] \<Rightarrow> None
      | e # rest \<Rightarrow> Some \<lparr>so_id = i, so_type = otype,
          so_created = foldl max (ue_created_at e) (map ue_created_at rest),
          so_score = foldl js_add (score_event now (ue_event_type e) (ue_created_at e))
            (map (\<lambda>e. score_event now (ue_event_type e) (ue_created_at e)) rest)\<rparr>)"

lemma grouped_score_snoc:
  "grouped_score now allowed otype (es @ [e]) i =
     (if counted_for allowed otype e \<noteq> Some i then grouped_score now allowed otype es i
      else (let s = score_event now (ue_event_type e) (ue_created_at e) in
        (case grouped_score now allowed otype es i of
           None \<Rightarrow> Some \<lparr>so_id = i, so_type = otype, so_created = ue_created_at e, so_score = s\<rparr>
         | Some p \<Rightarrow> Some \<lparr>so_id = i, so_type = otype, so_created = max (so_created p) (ue_created_at e),
                          so_score = js_add (so_score p) s\<rparr>)))"
  by (auto simp: grouped_score_def Let_def split: list.split)

lemma score_events_grouped: "map_of (score_events now allowed otype es) i = grouped_score now allowed otype es i"
proof (induction es arbitrary: i rule: rev_induct)
  case Nil
  show ?case by (simp add: score_events_def grouped_score_def)
next
  case (snoc e es)
  let ?m = "score_events now allowed otype es"
  have step: "score_events now allowed otype (es @ [e]) = add_event now allowed otype ?m e"
    by (simp add: score_events_def)
  show ?case
    unfolding step grouped_score_snoc
    by (cases "counted_for allowed otype e")
      (auto simp: add_event_def upsert_score_def map_of_put_entry snoc.IH Let_def max_def split: option.split)
qed

lemma fst_put_entry: "map fst (put_entry k v m) = (if k \<in> fst ` set m then map fst m else map fst m @ [k])"
  by (induction k v m rule: put_entry.induct) auto

lemma score_events_distinct: "distinct (map fst (score_events now allowed otype es))"
proof (induction es rule: rev_induct)
  case (snoc e es)
  have "distinct (map fst (put_entry k v m))" if "distinct (map fst m)" for k v and m :: score_map
    using that by (simp add: fst_put_entry)
  with snoc show ?case
    by (auto simp: score_events_def add_event_def upsert_score_def split: option.split)
qed (simp add: score_events_def)

text \<open>
  C22: the scores equal the grouped reference: for every object the entry the upserts leave, none or one,
  has the newest date of the events that count for it and their scores added in order.
\<close>
theorem scores_equal_grouped_reference:
  "map_of (score_events now allowed otype es) i = grouped_score now allowed otype es i
   \<and> distinct (map fst (score_events now allowed otype es))"
proof
  show "map_of (score_events now allowed otype es) i = grouped_score now allowed otype es i"
    by (rule score_events_grouped)
  show "distinct (map fst (score_events now allowed otype es))"
    by (rule score_events_distinct)
qed

section \<open>What is recommended\<close>

lemma set_js_unique [simp]: "set (js_unique xs) = set xs"
  by (simp add: js_unique_def)

lemma also_bought_not_seed:
  assumes "i \<in> set (also_bought seeds d)"
  shows "i \<notin> set seeds"
proof
  assume seed: "i \<in> set seeds"
  let ?snaps = "find_snapshot_ids_by_variant_ids seeds d"
  obtain s where s: "s \<in> set (rows (snapshots d))" "bvs_variant_id s = i"
    and cand: "bvs_id s \<in> fst ` set (group_also_bought (find_order_ids_by_snapshot_ids ?snaps d) ?snaps 200 d)"
    using assms by (auto simp: also_bought_def Let_def find_variant_ids_by_snapshot_ids_def split: if_splits)
  from cand have "bvs_id s \<notin> set ?snaps"
    by (auto simp: group_also_bought_def Let_def dest!: in_set_takeD)
  with s seed show False by (auto simp: find_snapshot_ids_by_variant_ids_def)
qed

lemma picked_recommendation:
  assumes "x \<in> set (pick_recommend_cards ids (find_books_variant_by_ids ids lang limit d) n)"
  shows "\<exists>v\<in>set (rows (variants d)). card_variant_id x = Some (bv_id v) \<and> public_variant d v \<and> bv_id v \<in> set ids"
proof -
  have "x \<in> set (find_books_variant_by_ids ids lang limit d)"
    using assms by (auto simp: pick_recommend_cards_def set_map_filter dest!: in_set_takeD js_map_of_in)
  then obtain v b where v: "v \<in> set (find_book_variant_by_ids ids d)" and x: "x = to_variant_card d lang v b"
    by (auto simp: find_books_variant_by_ids_def set_map_filter dest: in_set_takeD split: if_splits)
  then show ?thesis
    by (intro bexI [of _ v]) (auto simp: find_book_variant_by_ids_def to_variant_card_def Let_def)
qed

text \<open>
  C23: a recommendation is new to the user and for sale. There are at most \<open>limit\<close> cards (one when the
  limit is smaller), each shows an active, priced variant of a public book, and none of them is a variant
  that seeds the recommendation, the variants the user's events score highest.
\<close>
theorem recommendations_new_and_public:
  assumes "recommend_seeds now user d = Inr seeds" and "get_recommend now user lang limit d = Inr cards"
    and "x \<in> set cards"
  shows "length cards \<le> nat (max 1 limit)
    \<and> (\<exists>v\<in>set (rows (variants d)). card_variant_id x = Some (bv_id v) \<and> public_variant d v \<and> bv_id v \<notin> set seeds)"
proof -
  let ?ids = "also_bought seeds d"
  have cards: "cards = pick_recommend_cards ?ids (find_books_variant_by_ids ?ids lang limit d) limit"
    using assms by (auto simp: get_recommend_def Let_def split: if_splits)
  obtain v where v: "v \<in> set (rows (variants d))" "card_variant_id x = Some (bv_id v)" "public_variant d v"
      "bv_id v \<in> set ?ids"
    using picked_recommendation assms(3) unfolding cards by blast
  moreover have "bv_id v \<notin> set seeds" using also_bought_not_seed v(4) .
  moreover have "length cards \<le> nat (max 1 limit)"
    unfolding cards by (simp add: pick_recommend_cards_def js_max_def max_def)
  ultimately show ?thesis by blast
qed

definition sample_view_event :: user_event_row where
  "sample_view_event = \<lparr>ue_id = 1, ue_user_id = Some 2, ue_event_type = VIEW_BOOK, ue_object_type = Some ''bookVariant'',
     ue_object_id = Some ''1'', ue_amount = None, ue_created_at = 5\<rparr>"

definition sample_bought :: "int \<Rightarrow> order_item_row" where
  "sample_bought i = \<lparr>oi_id = i, oi_order_id = 6, oi_snapshot_id = 10 + i, oi_quantity = 1, oi_unit_price = 50,
     oi_line_total = 50, oi_created_at = 4\<rparr>"

definition sample_snap :: "int \<Rightarrow> snapshot_row" where
  "sample_snap i = \<lparr>bvs_id = 10 + i, bvs_variant_id = i, bvs_content_hash = None, bvs_price = 50,
     bvs_format = PAPERBACK, bvs_isbn = None\<rparr>"

definition sample_bookshop :: db where
  "sample_bookshop = sample_catalog\<lparr>
     user_events := \<lparr>rows = [sample_view_event], serial = 2\<rparr>,
     snapshots := \<lparr>rows = [sample_snap 1, sample_snap 2], serial = 13\<rparr>,
     order_items := \<lparr>rows = [sample_bought 1, sample_bought 2], serial = 3\<rparr>\<rparr>"

lemma sample_score: "score_event 5 VIEW_BOOK 5 = 1"
  using js_mul_of_int [of 1 1] by (simp add: score_event_def event_weight_def time_decay_def js_max_def)

lemma sample_seeds: "recommend_seeds 5 2 sample_bookshop = Inr [1]"
proof -
  have variant: "build_score_variant 5 2 sample_bookshop = [(''1'', \<lparr>so_id = ''1'', so_type = ''bookVariant'', so_created = 5, so_score = 1\<rparr>)]"
    by (simp add: build_score_variant_def find_events_by_user_def select_rows_def sample_bookshop_def sample_view_event_def
        score_events_def add_event_def counted_for_def VARIANT_EVENT_TYPES_def upsert_score_def get_top_k_def sample_score
        js_max_def)
  have order: "build_score_order 5 2 sample_bookshop = []"
    by (simp add: build_score_order_def find_events_by_user_def select_rows_def sample_bookshop_def sample_view_event_def
        score_events_def get_top_k_def)
  have "number_of_text ''1'' = Some 1"
    by (simp add: number_of_text_def js_trim_def is_white_def char_code_def is_digit_def digits_value_def digit_value_def)
  then show ?thesis
    by (simp add: recommend_seeds_def variant order merge_recommend_def numbers_of_keys_def)
qed

lemma sample_also_bought: "also_bought [1] sample_bookshop = [2]"
proof -
  have snaps: "find_snapshot_ids_by_variant_ids [1] sample_bookshop = [11]"
    by (simp add: find_snapshot_ids_by_variant_ids_def select_rows_def sample_bookshop_def sample_snap_def)
  have order: "find_order_ids_by_snapshot_ids [11] sample_bookshop = [6]"
    by (simp add: find_order_ids_by_snapshot_ids_def select_rows_def sample_bookshop_def sample_bought_def)
  have cand: "map fst (group_also_bought [6] [11] 200 sample_bookshop) = [12]"
    by (simp add: group_also_bought_def select_rows_def sample_bookshop_def sample_bought_def)
  have "find_variant_ids_by_snapshot_ids [12] sample_bookshop = [(12, 2)]"
    by (simp add: find_variant_ids_by_snapshot_ids_def select_rows_def sample_bookshop_def sample_snap_def)
  then show ?thesis by (simp add: also_bought_def Let_def snaps order cand js_unique_def)
qed

theorem recommendations_new_and_public_witness:
  "\<exists>cards x. get_recommend 5 2 1 12 sample_bookshop = Inr cards \<and> x \<in> set cards
     \<and> length cards \<le> 12 \<and> card_variant_id x = Some 2"
proof -
  have public: "public_variant sample_bookshop (sample_priced 2)"
    by (simp add: public_variant_def public_book_def priced_def book_of_def find_row_def sample_bookshop_def sample_catalog_def
        sample_priced_def sample_book_def)
  have book: "book_of sample_bookshop 2 = Some (sample_book 2)"
    by (simp add: book_of_def find_row_def sample_bookshop_def sample_catalog_def sample_book_def)
  have "find_book_variant_by_ids [2] sample_bookshop = [sample_priced 2]"
    using public by (simp add: find_book_variant_by_ids_def select_rows_def sample_bookshop_def sample_catalog_def sample_priced_def)
  then have found: "find_books_variant_by_ids [2] 1 12 sample_bookshop = [to_variant_card sample_bookshop 1 (sample_priced 2) (sample_book 2)]"
    using book by (simp add: find_books_variant_by_ids_def List.map_filter_simps sample_priced_def)
  have run: "get_recommend 5 2 1 12 sample_bookshop = Inr [to_variant_card sample_bookshop 1 (sample_priced 2) (sample_book 2)]"
    by (simp add: get_recommend_def sample_seeds sample_also_bought Let_def found pick_recommend_cards_def
        List.map_filter_simps js_map_of_def to_variant_card_def sample_priced_def js_max_def)
  have "card_variant_id (to_variant_card sample_bookshop 1 (sample_priced 2) (sample_book 2)) = Some 2"
    by (simp add: to_variant_card_def Let_def sample_priced_def)
  moreover have "length [to_variant_card sample_bookshop 1 (sample_priced 2) (sample_book 2)] \<le> 12"
    using recommendations_new_and_public [OF sample_seeds run list.set_intros(1)] by simp
  ultimately show ?thesis
    by (intro exI [of _ "[to_variant_card sample_bookshop 1 (sample_priced 2) (sample_book 2)]"]
        exI [of _ "to_variant_card sample_bookshop 1 (sample_priced 2) (sample_book 2)"] conjI run list.set_intros(1))
qed

end
