(* ===== verification/Wishlist.thy ===== *)
theory Wishlist
  imports Recommend
begin

text \<open>
  Wishlists, \<open>src/src/modules/wishlist\<close>: the list of the signed-in user or of the guest session, created on
  the first read. A list that was deleted keeps its items and is never found again.
\<close>

section \<open>The repositories\<close>

definition live_list :: "(wishlist_row \<Rightarrow> bool) \<Rightarrow> db \<Rightarrow> wishlist_row option" where
  "live_list P d =
     (case sort_key (\<lambda>w. - wl_updated_at w) (select_rows (\<lambda>w. P w \<and> wl_delete_at w = None) (wishlists d)) of
        [] \<Rightarrow> None | w # _ \<Rightarrow> Some w)"

definition find_wishlist_by_user :: "int \<Rightarrow> db \<Rightarrow> wishlist_row option" where
  [repo_defs]: "find_wishlist_by_user user = live_list (\<lambda>w. wl_user_id w = Some user)"

definition find_wishlist_by_guest :: "int \<Rightarrow> db \<Rightarrow> wishlist_row option" where
  [repo_defs]: "find_wishlist_by_guest guest = live_list (\<lambda>w. wl_guest_session_id w = Some guest)"

definition new_wishlist :: "int \<Rightarrow> int option \<Rightarrow> int option \<Rightarrow> int \<Rightarrow> wishlist_row" where
  "new_wishlist now user guest i =
     \<lparr>wl_id = i, wl_user_id = user, wl_guest_session_id = guest, wl_created_at = now, wl_updated_at = now,
      wl_delete_at = None\<rparr>"

definition create_wishlist_by_user :: "int \<Rightarrow> int \<Rightarrow> wishlist_row action" where
  [repo_defs]: "create_wishlist_by_user now user d =
     (if user_of d user = None then (Inl P2003, d)
      else (Inr (new_wishlist now (Some user) None (serial (wishlists d))),
            d\<lparr>wishlists := insert_row (new_wishlist now (Some user) None) (wishlists d)\<rparr>))"

definition create_wishlist_by_guest :: "int \<Rightarrow> int \<Rightarrow> wishlist_row action" where
  [repo_defs]: "create_wishlist_by_guest now guest d =
     (if find_row (\<lambda>g. gs_id g = guest) (guest_sessions d) = None then (Inl P2003, d)
      else (Inr (new_wishlist now None (Some guest) (serial (wishlists d))),
            d\<lparr>wishlists := insert_row (new_wishlist now None (Some guest)) (wishlists d)\<rparr>))"

definition soft_delete_wishlist :: "int \<Rightarrow> int \<Rightarrow> unit action" where
  [repo_defs]: "soft_delete_wishlist now i d =
     (if find_row (\<lambda>w. wl_id w = i) (wishlists d) = None then (Inl P2025, d)
      else (Inr (), d\<lparr>wishlists := map_rows (\<lambda>w. wl_id w = i)
              (\<lambda>w. w\<lparr>wl_delete_at := Some now, wl_updated_at := now\<rparr>) (wishlists d)\<rparr>))"

definition find_wish_item :: "int \<Rightarrow> int \<Rightarrow> db \<Rightarrow> wishlist_item_row option" where
  [repo_defs]: "find_wish_item wl variant d =
     find_row (\<lambda>x. wi_wishlist_id x = wl \<and> wi_variant_id x = variant) (wishlist_items d)"

definition create_wish_item :: "int \<Rightarrow> int \<Rightarrow> int \<Rightarrow> wishlist_item_row action" where
  [repo_defs]: "create_wish_item now wl variant d =
     (let mk = (\<lambda>i. \<lparr>wi_id = i, wi_wishlist_id = wl, wi_variant_id = variant, wi_added_at = now\<rparr>) in
      if find_wish_item wl variant d \<noteq> None then (Inl P2002, d)
      else if variant_of d variant = None \<or> find_row (\<lambda>w. wl_id w = wl) (wishlists d) = None then (Inl P2003, d)
      else (Inr (mk (serial (wishlist_items d))), d\<lparr>wishlist_items := insert_row mk (wishlist_items d)\<rparr>))"

definition delete_wish_item_by_id :: "int \<Rightarrow> int \<Rightarrow> int action" where
  [repo_defs]: "delete_wish_item_by_id i wl d =
     (let P = (\<lambda>x. wi_id x = i \<and> wi_wishlist_id x = wl) in
      (Inr (count_rows P (wishlist_items d)), d\<lparr>wishlist_items := delete_rows P (wishlist_items d)\<rparr>))"

section \<open>The service\<close>

record wish_item_view =
  wv_item :: wishlist_item_row
  wv_price :: "rat option"
  wv_format :: book_format
  wv_currency :: currency_code
  wv_stock :: int
  wv_book_id :: int
  wv_cover :: "string option"
  wv_translation :: "(utext \<times> utext option \<times> string option) option"

definition wish_item_view_of :: "db \<Rightarrow> int \<Rightarrow> wishlist_item_row \<Rightarrow> wish_item_view option" where
  "wish_item_view_of d lang x =
     (case variant_of d (wi_variant_id x) of
        None \<Rightarrow> None
      | Some v \<Rightarrow>
          (case book_of d (bv_book_id v) of
             None \<Rightarrow> None
           | Some b \<Rightarrow> Some \<lparr>wv_item = x, wv_price = bv_price v, wv_format = bv_format v, wv_currency = bv_currency v,
               wv_stock = bv_stock v, wv_book_id = bk_id b, wv_cover = bk_cover_image_url b,
               wv_translation = (case sort_key bt_language_id (select_rows (\<lambda>t. bt_book_id t = bk_id b
                     \<and> (lang = 0 \<or> bt_language_id t = lang)) (book_translations d)) of
                   [] \<Rightarrow> None | t # _ \<Rightarrow> Some (bt_title t, bt_description t, bt_slug t))\<rparr>))"

definition wish_items_of :: "db \<Rightarrow> int \<Rightarrow> int \<Rightarrow> wish_item_view list" where
  "wish_items_of d lang wl =
     List.map_filter (wish_item_view_of d lang)
       (sort_key (\<lambda>x. - wi_added_at x) (select_rows (\<lambda>x. wi_wishlist_id x = wl) (wishlist_items d)))"

text \<open>\<open>resolveActor\<close> of the controller: a signed-in user has no guest session.\<close>

definition resolve_wish_actor :: "int option \<Rightarrow> int option \<Rightarrow> int option \<times> int option" where
  "resolve_wish_actor guest sub =
     (case sub of
        None \<Rightarrow> (guest, None)
      | Some u \<Rightarrow> if u = 0 then (guest, Some u) else (None, Some u))"

text \<open>Neither a missing user nor the number 0 counts as signed in.\<close>

definition signed_in :: "int option \<Rightarrow> int option" where
  "signed_in user = (case user of None \<Rightarrow> None | Some u \<Rightarrow> if u = 0 then None else Some u)"

definition resolve_wishlist :: "int \<Rightarrow> int option \<Rightarrow> int option \<Rightarrow> bool \<Rightarrow> wishlist_row option action" where
  [service_defs]: "resolve_wishlist now guest user create d =
     (case signed_in user of
        Some u \<Rightarrow>
          if user_of d u = None then (Inl (Forbidden []), d)
          else (case find_wishlist_by_user u d of
                  Some w \<Rightarrow> (Inr (Some w), d)
                | None \<Rightarrow> if \<not> create then (Inr None, d)
                          else await (create_wishlist_by_user now u d) (\<lambda>w. ret (Some w)))
      | None \<Rightarrow>
          (case guest of
             None \<Rightarrow> (Inr None, d)
           | Some g \<Rightarrow>
               (case find_wishlist_by_guest g d of
                  Some w \<Rightarrow> (Inr (Some w), d)
                | None \<Rightarrow> if \<not> create then (Inr None, d)
                          else await (create_wishlist_by_guest now g d) (\<lambda>w. ret (Some w)))))"

definition get_wishlist_row :: "int \<Rightarrow> int option \<Rightarrow> int option \<Rightarrow> wishlist_row action" where
  "get_wishlist_row now guest user d =
     await (resolve_wishlist now guest user True d) (\<lambda>w.
       case w of None \<Rightarrow> throw (Forbidden []) | Some r \<Rightarrow> ret r)"

definition get_wishlist :: "int \<Rightarrow> int option \<Rightarrow> int option \<Rightarrow> int \<Rightarrow> (wishlist_row \<times> wish_item_view list) action" where
  [service_defs]: "get_wishlist now guest user lang d =
     await (get_wishlist_row now guest user d) (\<lambda>w d. (Inr (w, wish_items_of d lang (wl_id w)), d))"

record wish_added =
  wa_created :: bool
  wa_item_key :: string
  wa_variant_id :: int

definition to_wish_added :: "bool \<Rightarrow> wishlist_item_row \<Rightarrow> wish_added" where
  "to_wish_added created x =
     \<lparr>wa_created = created, wa_item_key = int_string (wi_id x), wa_variant_id = wi_variant_id x\<rparr>"

definition add_wish_item :: "int \<Rightarrow> int option \<Rightarrow> int option \<Rightarrow> int \<Rightarrow> wish_added action" where
  [service_defs]: "add_wish_item now guest user variant d0 =
     await (get_wishlist_row now guest user d0) (\<lambda>w d.
       (case find_wish_item (wl_id w) variant d of
          Some x \<Rightarrow> (Inr (to_wish_added False x), d)
        | None \<Rightarrow> await (create_wish_item now (wl_id w) variant d) (\<lambda>x. ret (to_wish_added True x))))"

definition delete_wish_item :: "int \<Rightarrow> int option \<Rightarrow> int option \<Rightarrow> int \<Rightarrow> unit action" where
  [service_defs]: "delete_wish_item now guest user i d0 =
     await (resolve_wishlist now guest user False d0) (\<lambda>w d.
       (case w of
          None \<Rightarrow> (Inl (NotFound ''WISHLIST_ITEM_NOT_FOUND''), d)
        | Some r \<Rightarrow> await (delete_wish_item_by_id i (wl_id r) d) (\<lambda>n.
            if n = 0 then throw (NotFound ''WISHLIST_ITEM_NOT_FOUND'') else ret ())))"

definition delete_wishlist :: "int \<Rightarrow> int option \<Rightarrow> int option \<Rightarrow> unit action" where
  [service_defs]: "delete_wishlist now guest user d0 =
     await (resolve_wishlist now guest user False d0) (\<lambda>w d.
       (case w of None \<Rightarrow> (Inr (), d) | Some r \<Rightarrow> soft_delete_wishlist now (wl_id r) d))"

section \<open>Adding twice\<close>

lemma live_list_none: "live_list P d = None \<longleftrightarrow> select_rows (\<lambda>w. P w \<and> wl_delete_at w = None) (wishlists d) = []"
proof -
  have "sort_key f xs = [] \<longleftrightarrow> xs = []" for f :: "wishlist_row \<Rightarrow> int" and xs
    by (metis length_0_conv length_sort)
  then show ?thesis by (auto simp: live_list_def split: list.split)
qed

lemma live_list_new:
  assumes "live_list P d = None" and "P (mk (serial (wishlists d)))" and "wl_delete_at (mk (serial (wishlists d))) = None"
  shows "live_list P (d\<lparr>wishlists := insert_row mk (wishlists d)\<rparr>) = Some (mk (serial (wishlists d)))"
  using assms unfolding live_list_none by (simp add: live_list_def select_rows_def)

lemma live_list_items [simp]: "live_list P (d\<lparr>wishlist_items := xs\<rparr>) = live_list P d"
  by (simp add: live_list_def)

text \<open>Once the list of an actor is found or created, the next read finds it and changes nothing.\<close>

lemma get_wishlist_row_again:
  assumes "get_wishlist_row now guest user d = (Inr w, d1)"
  shows "get_wishlist_row now2 guest user (d1\<lparr>wishlist_items := xs\<rparr>) = (Inr w, d1\<lparr>wishlist_items := xs\<rparr>)"
proof (cases "signed_in user")
  case (Some u)
  have "user_of (d1\<lparr>wishlist_items := xs\<rparr>) u \<noteq> None \<and> find_wishlist_by_user u (d1\<lparr>wishlist_items := xs\<rparr>) = Some w"
    using assms Some
    by (cases "find_wishlist_by_user u d")
      (auto simp: get_wishlist_row_def resolve_wishlist_def create_wishlist_by_user_def find_wishlist_by_user_def user_of_def
        live_list_new new_wishlist_def split: if_splits)
  then show ?thesis by (simp add: get_wishlist_row_def resolve_wishlist_def Some)
next
  case None
  then obtain g where g: "guest = Some g"
    using assms by (cases guest) (auto simp: get_wishlist_row_def resolve_wishlist_def)
  have "find_wishlist_by_guest g (d1\<lparr>wishlist_items := xs\<rparr>) = Some w"
    using assms None g
    by (cases "find_wishlist_by_guest g d")
      (auto simp: get_wishlist_row_def resolve_wishlist_def create_wishlist_by_guest_def find_wishlist_by_guest_def
        live_list_new new_wishlist_def split: if_splits)
  then show ?thesis by (simp add: get_wishlist_row_def resolve_wishlist_def None g)
qed

text \<open>
  Adding to a wishlist is idempotent. After a successful call the list of the actor holds the variant,
  and adding the variant again, at any time, answers the same item as not created and changes nothing.
\<close>
theorem wish_added_once:
  assumes "add_wish_item now guest user variant d = (Inr r, d1)"
  shows "add_wish_item now2 guest user variant d1 = (Inr (r\<lparr>wa_created := False\<rparr>), d1)
    \<and> (\<exists>w x. get_wishlist_row now2 guest user d1 = (Inr w, d1) \<and> find_wish_item (wl_id w) variant d1 = Some x
         \<and> int_string (wi_id x) = wa_item_key r \<and> wa_variant_id r = variant)"
proof -
  obtain w d0 where w: "get_wishlist_row now guest user d = (Inr w, d0)"
    and rest: "(case find_wish_item (wl_id w) variant d0 of
          Some x \<Rightarrow> (Inr (to_wish_added False x), d0)
        | None \<Rightarrow> await (create_wish_item now (wl_id w) variant d0) (\<lambda>x. ret (to_wish_added True x))) = (Inr r, d1)"
    using assms unfolding add_wish_item_def by (rule await_InrD)
  obtain xs x where d1: "d1 = d0\<lparr>wishlist_items := xs\<rparr>" and x: "find_wish_item (wl_id w) variant d1 = Some x"
    and r: "r\<lparr>wa_created := False\<rparr> = to_wish_added False x" "wa_item_key r = int_string (wi_id x)" "wa_variant_id r = variant"
  proof (cases "find_wish_item (wl_id w) variant d0")
    case (Some x)
    then have d1: "d1 = d0\<lparr>wishlist_items := wishlist_items d0\<rparr>" and r: "r = to_wish_added False x"
      using rest by simp_all
    have v: "wi_variant_id x = variant" using Some by (auto simp: find_wish_item_def dest: find_row_SomeD)
    have "find_wish_item (wl_id w) variant d1 = Some x" using Some by (simp add: d1)
    then show ?thesis by (rule that [OF d1]) (simp_all add: r v to_wish_added_def)
  next
    case None
    let ?x = "\<lparr>wi_id = serial (wishlist_items d0), wi_wishlist_id = wl_id w, wi_variant_id = variant, wi_added_at = now\<rparr>"
    let ?xs = "insert_row (\<lambda>i. \<lparr>wi_id = i, wi_wishlist_id = wl_id w, wi_variant_id = variant, wi_added_at = now\<rparr>) (wishlist_items d0)"
    have d1: "d1 = d0\<lparr>wishlist_items := ?xs\<rparr>" and r: "r = to_wish_added True ?x"
      using None rest by (auto simp: create_wish_item_def Let_def split: if_splits)
    have "find_wish_item (wl_id w) variant d1 = Some ?x"
      using None by (simp add: d1 find_wish_item_def find_row_insert)
    then show ?thesis by (rule that [OF d1]) (simp_all add: r to_wish_added_def)
  qed
  have again: "get_wishlist_row now2 guest user d1 = (Inr w, d1)"
    unfolding d1 by (rule get_wishlist_row_again [OF w])
  show ?thesis using again x r by (simp add: add_wish_item_def)
qed


theorem wish_added_once_witness:
  "\<exists>r d1. add_wish_item 5 None (Some 2) 1 (sample_catalog\<lparr>users := users sample_languages\<rparr>) = (Inr r, d1)
     \<and> wa_created r \<and> add_wish_item 9 None (Some 2) 1 d1 = (Inr (r\<lparr>wa_created := False\<rparr>), d1)"
proof -
  let ?d = "sample_catalog\<lparr>users := users sample_languages\<rparr>"
  obtain d1 where d1: "add_wish_item 5 None (Some 2) 1 ?d = (Inr \<lparr>wa_created = True, wa_item_key = int_string 1, wa_variant_id = 1\<rparr>, d1)"
    by (simp add: add_wish_item_def get_wishlist_row_def resolve_wishlist_def signed_in_def user_of_def find_row_def
        sample_languages_def find_wishlist_by_user_def live_list_def select_rows_def sample_catalog_def empty_db_def
        empty_table_def create_wishlist_by_user_def new_wishlist_def find_wish_item_def create_wish_item_def variant_of_def
        sample_priced_def to_wish_added_def insert_row_def Let_def)
  show ?thesis using d1 wish_added_once [OF d1, of 9] by (intro exI [of _ "\<lparr>wa_created = True, wa_item_key = int_string 1, wa_variant_id = 1\<rparr>"] exI [of _ d1] conjI) simp_all
qed

end
