(* ===== verification/Timed_Cache.thy ===== *)
theory Timed_Cache
  imports Prelude
begin

text \<open>
  The entries of the shared cache with their lifetime, as \<open>cacheManager.get\<close> and \<open>cacheManager.set\<close> of the services
  use them: an entry written at a moment answers until its lifetime has passed, and a later write replaces it.

  The locale \<open>expiring_cache\<close> is the interface of such a cache for a service that fills it from a source: what a
  lookup finds after a write. Its lemmas bound how long an old answer survives: once a lifetime has passed since
  the source changed, every lookup that finds an entry finds what the source holds.
\<close>

type_synonym 'v timed = "('v \<times> int) option"

definition live :: "int \<Rightarrow> 'v timed \<Rightarrow> 'v option" where
  "live now e = (case e of None \<Rightarrow> None | Some (v, expires) \<Rightarrow> if now < expires then Some v else None)"

definition get_timed :: "int \<Rightarrow> 'k \<Rightarrow> ('k \<Rightarrow> 'v timed) \<Rightarrow> 'v option" where
  "get_timed now k c = live now (c k)"

definition set_timed :: "int \<Rightarrow> int \<Rightarrow> 'k \<Rightarrow> 'v \<Rightarrow> ('k \<Rightarrow> 'v timed) \<Rightarrow> 'k \<Rightarrow> 'v timed" where
  "set_timed ttl now k v c = c(k \<mapsto> (v, now + ttl))"

lemma live_simps [simp]:
  "live now None = None"
  "live now (Some (v, expires)) = (if now < expires then Some v else None)"
  by (simp_all add: live_def)

locale expiring_cache =
  fixes get :: "int \<Rightarrow> 'k \<Rightarrow> 'c \<Rightarrow> 'v option"
    and put :: "int \<Rightarrow> 'k \<Rightarrow> 'v \<Rightarrow> 'c \<Rightarrow> 'c"
    and ttl :: int
  assumes get_put_same: "get now k (put t k v c) = (if now < t + ttl then Some v else None)"
    and get_put_other: "k \<noteq> k' \<Longrightarrow> get now k (put t k' v c) = get now k c"
begin

text \<open>\<open>refill\<close> is the read of a service: the entries the cache does not hold are written from the source.\<close>

definition refill :: "int \<Rightarrow> ('k \<Rightarrow> 'v) \<Rightarrow> 'k list \<Rightarrow> 'c \<Rightarrow> 'c" where
  "refill now src ks c = foldl (\<lambda>c k. if get now k c = None then put now k (src k) c else c) c ks"

text \<open>Nothing in the cache answers from the moment \<open>t\<close> on.\<close>

definition silent :: "int \<Rightarrow> 'c \<Rightarrow> bool" where
  "silent t c \<longleftrightarrow> (\<forall>now k. t \<le> now \<longrightarrow> get now k c = None)"

text \<open>From the moment \<open>t\<close> on the cache answers only what the source holds.\<close>

definition truthful :: "int \<Rightarrow> ('k \<Rightarrow> 'v) \<Rightarrow> 'c \<Rightarrow> bool" where
  "truthful t src c \<longleftrightarrow> (\<forall>now k v. t \<le> now \<longrightarrow> get now k c = Some v \<longrightarrow> v = src k)"

lemma get_put: "get now k (put t k' v c) = (if k = k' then (if now < t + ttl then Some v else None) else get now k c)"
  by (simp add: get_put_same get_put_other)

lemma refill_keeps:
  assumes "P c" and "\<And>k c. k \<in> set ks \<Longrightarrow> P c \<Longrightarrow> P (put now k (src k) c)"
  shows "P (refill now src ks c)"
  using assms unfolding refill_def by (induction ks arbitrary: c) simp_all

lemma silent_refill: "silent t c \<Longrightarrow> now + ttl \<le> t \<Longrightarrow> silent t (refill now src ks c)"
  by (rule refill_keeps [where P = "silent t"]) (auto simp: silent_def get_put)

lemma truthful_refill: "truthful t src c \<Longrightarrow> truthful t src (refill now src ks c)"
  by (rule refill_keeps [where P = "truthful t src"]) (auto simp: truthful_def get_put split: if_splits)

lemma truthful_later: "truthful t src c \<Longrightarrow> t \<le> t' \<Longrightarrow> truthful t' src c"
  unfolding truthful_def using order_trans by blast

lemma silent_truthful: "silent t c \<Longrightarrow> truthful t src c"
  by (simp add: silent_def truthful_def)

end

interpretation timed_cache: expiring_cache get_timed "set_timed ttl" ttl for ttl
  by unfold_locales (simp_all add: get_timed_def set_timed_def)

text \<open>The read of a service, on the entries themselves.\<close>

definition fill_timed :: "int \<Rightarrow> int \<Rightarrow> ('k \<Rightarrow> 'v) \<Rightarrow> 'k list \<Rightarrow> ('k \<Rightarrow> 'v timed) \<Rightarrow> 'k \<Rightarrow> 'v timed" where
  "fill_timed ttl now src ks c =
     foldl (\<lambda>c k. if get_timed now k c = None then set_timed ttl now k (src k) c else c) c ks"

lemma fill_timed_refill: "fill_timed ttl now src ks c = timed_cache.refill ttl now src ks c"
  by (simp add: fill_timed_def timed_cache.refill_def)

end
