(* ===== verification/Rbac.thy ===== *)
theory Rbac
  imports Auth Timed_Cache
begin

text \<open>
  Roles, permissions and their use over time: the role service with its cache and the administration of
  permissions, role permissions and user roles (\<open>src/src/modules/role\<close>, \<open>src/src/modules/permission\<close>,
  \<open>src/src/modules/user/repository/user-role.repository.ts\<close>), and the permission guard with the lifetime of the
  lists it keeps by role (\<open>src/src/common/security/guard/permission.guard.ts\<close>; its decision at one moment is
  \<open>permissions_guard\<close> of theory Auth). \<open>granted\<close> is the specification of the guard: what the tables grant a user.
  The scan of the controllers at start only prints what it finds; its write is commented out in the code.
\<close>

section \<open>Roles\<close>

record role_dto =
  rd_id :: int
  rd_code :: role_code
  rd_name :: string

record role_cache =
  rc_all :: "role_dto list timed"
  rc_by_name :: "string \<Rightarrow> role_dto timed"

definition ROLE_TTL :: int where "ROLE_TTL = 60000"

definition to_role_dto :: "role_row \<Rightarrow> role_dto" where
  "to_role_dto r = \<lparr>rd_id = role_id r, rd_code = role_code r, rd_name = role_name r\<rparr>"

definition find_all_roles :: "db \<Rightarrow> role_dto list" where
  [repo_defs]: "find_all_roles d = map to_role_dto (rows (roles d))"

definition find_role_named :: "string \<Rightarrow> db \<Rightarrow> role_dto option" where
  [repo_defs]: "find_role_named name d = map_option to_role_dto (find_row (\<lambda>r. role_name r = name) (roles d))"

definition find_all_role :: "int \<Rightarrow> role_cache \<Rightarrow> db \<Rightarrow> role_dto list \<times> role_cache" where
  [service_defs]: "find_all_role now c d =
     (case live now (rc_all c) of
        Some rs \<Rightarrow> (rs, c)
      | None \<Rightarrow> let rs = find_all_roles d in
          (rs, if rs \<noteq> [] then c\<lparr>rc_all := Some (rs, now + ROLE_TTL)\<rparr> else c))"

definition find_role_by_name_cached :: "int \<Rightarrow> string \<Rightarrow> role_cache \<Rightarrow> db \<Rightarrow> role_dto option \<times> role_cache" where
  [service_defs]: "find_role_by_name_cached now name c d =
     (case get_timed now name (rc_by_name c) of
        Some r \<Rightarrow> (Some r, c)
      | None \<Rightarrow>
          (case find_role_named name d of
             None \<Rightarrow> (None, c)
           | Some r \<Rightarrow> (Some r, c\<lparr>rc_by_name := set_timed ROLE_TTL now name r (rc_by_name c)\<rparr>)))"

definition invalidate_role_cache :: "string option \<Rightarrow> role_cache \<Rightarrow> role_cache" where
  [service_defs]: "invalidate_role_cache name c =
     (let c = c\<lparr>rc_all := None\<rparr> in
      case name of None \<Rightarrow> c
      | Some n \<Rightarrow> if n = [] then c else c\<lparr>rc_by_name := (rc_by_name c)(n := None)\<rparr>)"

section \<open>Permissions\<close>

record permission_params =
  pp_code :: "string option"
  pp_description :: "utext option"
  pp_method :: string
  pp_path_pattern :: string
  pp_is_active :: "bool option"

definition permission_of :: "db \<Rightarrow> int \<Rightarrow> permission_row option" where
  "permission_of d i = find_row (\<lambda>p. perm_id p = i) (permissions d)"

definition find_all_permissions :: "db \<Rightarrow> permission_row list" where
  [repo_defs]: "find_all_permissions d = rev (sort_key perm_id (rows (permissions d)))"

definition find_permission_by_name :: "string \<Rightarrow> db \<Rightarrow> permission_row list" where
  [service_defs]: "find_permission_by_name name d =
     (let start = to_lower name in
      select_rows (\<lambda>p. take (length start) (perm_code p) = start) (permissions d))"

text \<open>The two unique indexes of the table: the code, and the method with the path.\<close>

definition permission_clash :: "string \<Rightarrow> string \<Rightarrow> string \<Rightarrow> permission_row \<Rightarrow> bool" where
  "permission_clash code method path p \<longleftrightarrow> perm_code p = code \<or> perm_method p = method \<and> perm_path_pattern p = path"

definition insert_permission :: "(int \<Rightarrow> permission_row) \<Rightarrow> permission_row action" where
  "insert_permission mk d =
     (let p = mk (serial (permissions d)) in
      if \<exists>x\<in>set (rows (permissions d)). permission_clash (perm_code p) (perm_method p) (perm_path_pattern p) x
      then (Inl P2002, d)
      else (Inr p, d\<lparr>permissions := insert_row mk (permissions d)\<rparr>))"

definition create_permission :: "permission_params \<Rightarrow> int \<Rightarrow> permission_row action" where
  [repo_defs]: "create_permission ps actor d =
     (case pp_code ps of
        None \<Rightarrow> (Inl (JsError ''PrismaClientValidationError''), d)
      | Some code \<Rightarrow>
          if user_of d actor = None then (Inl P2003, d)
          else insert_permission (\<lambda>i.
            \<lparr>perm_id = i, perm_code = code, perm_description = pp_description ps, perm_method = pp_method ps,
             perm_path_pattern = pp_path_pattern ps,
             perm_is_active = (case pp_is_active ps of None \<Rightarrow> True | Some b \<Rightarrow> b), perm_deleted_at = None,
             perm_created_by = Some actor, perm_updated_by = None\<rparr>) d)"

definition modify_permission :: "int \<Rightarrow> (permission_row \<Rightarrow> permission_row) \<Rightarrow> int \<Rightarrow> permission_row action" where
  "modify_permission i f actor d =
     (case permission_of d i of
        None \<Rightarrow> (Inl P2025, d)
      | Some p \<Rightarrow>
          if user_of d actor = None then (Inl P2003, d)
          else let g = (\<lambda>p. f (p\<lparr>perm_updated_by := Some actor\<rparr>)) in
            (Inr (g p), d\<lparr>permissions := map_rows (\<lambda>p. perm_id p = i) g (permissions d)\<rparr>))"

definition update_permission :: "int \<Rightarrow> utext option \<Rightarrow> int \<Rightarrow> permission_row action" where
  [repo_defs]: "update_permission i description =
     modify_permission i (\<lambda>p. case description of None \<Rightarrow> p | Some s \<Rightarrow> p\<lparr>perm_description := Some s\<rparr>)"

definition soft_delete_permission :: "int \<Rightarrow> int \<Rightarrow> int \<Rightarrow> permission_row action" where
  [repo_defs]: "soft_delete_permission now i =
     modify_permission i (\<lambda>p. p\<lparr>perm_is_active := False, perm_deleted_at := Some now\<rparr>)"

record permission_scan =
  scan_name :: string
  scan_method :: string
  scan_path :: string

definition upsert_permission :: "permission_scan \<Rightarrow> permission_row action" where
  [repo_defs]: "upsert_permission k d =
     (case find_row (\<lambda>p. perm_method p = scan_method k \<and> perm_path_pattern p = scan_path k) (permissions d) of
        None \<Rightarrow> insert_permission (\<lambda>i.
          \<lparr>perm_id = i, perm_code = scan_name k, perm_description = None, perm_method = scan_method k,
           perm_path_pattern = scan_path k, perm_is_active = True, perm_deleted_at = None,
           perm_created_by = None, perm_updated_by = None\<rparr>) d
      | Some p \<Rightarrow>
          if \<exists>x\<in>set (rows (permissions d)). perm_code x = scan_name k \<and> perm_id x \<noteq> perm_id p then (Inl P2002, d)
          else (Inr (p\<lparr>perm_code := scan_name k\<rparr>),
                d\<lparr>permissions := map_rows (\<lambda>x. perm_id x = perm_id p) (\<lambda>x. x\<lparr>perm_code := scan_name k\<rparr>) (permissions d)\<rparr>))"

definition create_many_permission :: "permission_scan list \<Rightarrow> permission_row list action" where
  [service_defs]: "create_many_permission ks = transaction (promise_all_list (map upsert_permission ks))"

section \<open>Permissions of a role\<close>

definition find_by_composite :: "int \<Rightarrow> int \<Rightarrow> db \<Rightarrow> role_permission_row option" where
  [repo_defs]: "find_by_composite role perm d =
     find_row (\<lambda>x. rp_role_id x = role \<and> rp_permission_id x = perm) (role_permissions d)"

definition insert_role_permission :: "int \<Rightarrow> int \<Rightarrow> role_permission_row action" where
  [repo_defs]: "insert_role_permission role perm d =
     (if find_by_composite role perm d \<noteq> None then (Inl P2002, d)
      else if find_row (\<lambda>r. role_id r = role) (roles d) = None \<or> permission_of d perm = None then (Inl P2003, d)
      else let x = \<lparr>rp_role_id = role, rp_permission_id = perm\<rparr> in
        (Inr x, d\<lparr>role_permissions := insert_row (\<lambda>_. x) (role_permissions d)\<rparr>))"

record role_permission_response =
  rpr_role_id :: string
  rpr_permission_id :: string

definition to_role_permission_response :: "role_permission_row \<Rightarrow> role_permission_response" where
  "to_role_permission_response x =
     \<lparr>rpr_role_id = int_string (rp_role_id x), rpr_permission_id = int_string (rp_permission_id x)\<rparr>"

definition create_role_permission :: "int \<Rightarrow> int \<Rightarrow> role_permission_response action" where
  [service_defs]: "create_role_permission role perm d =
     (if find_row (\<lambda>r. role_id r = role) (roles d) = None then (Inl (NotFound ''ROLE_NOT_FOUND''), d)
      else if permission_of d perm = None then (Inl (NotFound ''PERMISSION_NOT_FOUND''), d)
      else if find_by_composite role perm d \<noteq> None then (Inl (ConflictExn ''ROLE_PERMISSION_ALREADY_EXISTS''), d)
      else await (insert_role_permission role perm d) (\<lambda>x. ret (to_role_permission_response x)))"

definition get_by_permission_id :: "int \<Rightarrow> db \<Rightarrow> role_permission_response list" where
  [service_defs]: "get_by_permission_id perm d =
     map to_role_permission_response (rev (select_rows (\<lambda>x. rp_permission_id x = perm) (role_permissions d)))"

section \<open>Roles of a user\<close>

definition of_user_role :: "int \<Rightarrow> int \<Rightarrow> user_role_row \<Rightarrow> bool" where
  "of_user_role user role r \<longleftrightarrow> ur_user_id r = user \<and> ur_role_id r = role"

definition modify_user_role :: "int \<Rightarrow> int \<Rightarrow> (user_role_row \<Rightarrow> user_role_row) \<Rightarrow> user_role_row action" where
  "modify_user_role user role f d =
     (case find_row (of_user_role user role) (user_roles d) of
        None \<Rightarrow> (Inl P2025, d)
      | Some r \<Rightarrow> (Inr (f r), d\<lparr>user_roles := map_rows (of_user_role user role) f (user_roles d)\<rparr>))"

text \<open>The data of an update are any columns of the client's type; they are the function \<open>f\<close>.\<close>

definition update_user_role ::
    "int \<Rightarrow> int \<Rightarrow> (user_role_row \<Rightarrow> user_role_row) \<Rightarrow> int option \<Rightarrow> user_role_row action" where
  [repo_defs]: "update_user_role user role f actor = modify_user_role user role (\<lambda>r.
     case actor of None \<Rightarrow> f r | Some a \<Rightarrow> (f r)\<lparr>ur_updated_by := Some a\<rparr>)"

definition revoked_row :: "int \<Rightarrow> int option \<Rightarrow> user_role_row \<Rightarrow> user_role_row" where
  "revoked_row now actor r =
     (case actor of None \<Rightarrow> r | Some a \<Rightarrow> r\<lparr>ur_deleted_by := Some a\<rparr>)\<lparr>ur_deleted_at := Some now\<rparr>"

definition soft_delete_user_role :: "int \<Rightarrow> int \<Rightarrow> int \<Rightarrow> int option \<Rightarrow> user_role_row action" where
  [repo_defs]: "soft_delete_user_role now user role actor = modify_user_role user role (revoked_row now actor)"

definition find_user_roles_by_user :: "int \<Rightarrow> db \<Rightarrow> (user_role_row \<times> user_row option \<times> role_row option) list" where
  [repo_defs]: "find_user_roles_by_user user d =
     map (\<lambda>r. (r, user_of d (ur_user_id r), find_row (\<lambda>x. role_id x = ur_role_id r) (roles d)))
       (select_rows (\<lambda>r. ur_user_id r = user \<and> ur_deleted_at r = None) (user_roles d))"

section \<open>The guard over time\<close>

type_synonym permission_cache = "int \<Rightarrow> string list timed"

definition PERMISSION_CACHE_TTL :: int where "PERMISSION_CACHE_TTL = 36000"

text \<open>
  One request at the moment \<open>now\<close>: the guard decides with the lists the cache still answers, and writes the lists
  of the roles it had to read.
\<close>

definition guard_request ::
    "string option \<Rightarrow> int \<Rightarrow> int \<Rightarrow> permission_cache \<Rightarrow> db \<Rightarrow> unit res \<times> permission_cache" where
  [service_defs]: "guard_request required user now c d =
     (fst (permissions_guard required user (\<lambda>r. get_timed now r c) d),
      (case required of
         None \<Rightarrow> c
       | Some _ \<Rightarrow> fill_timed PERMISSION_CACHE_TTL now (\<lambda>r. permission_codes_of_role r d) (get_role_ids_by_user user d) c))"

record guard_call =
  gc_required :: "string option"
  gc_user :: int
  gc_at :: int

text \<open>Requests one after the other, each with the tables it found.\<close>

definition run_guards :: "(guard_call \<times> db) list \<Rightarrow> permission_cache \<Rightarrow> permission_cache" where
  "run_guards calls c = foldl (\<lambda>c (g, d). snd (guard_request (gc_required g) (gc_user g) (gc_at g) c d)) c calls"

text \<open>What the tables grant: an assignment that is not deleted, of a role that exists, with a permission of that code.\<close>

definition granted :: "int \<Rightarrow> string \<Rightarrow> db \<Rightarrow> bool" where
  "granted user code d \<longleftrightarrow>
     (\<exists>r\<in>set (rows (roles d)). (\<exists>u\<in>set (rows (user_roles d)).
         ur_user_id u = user \<and> ur_deleted_at u = None \<and> ur_role_id u = role_id r)
       \<and> (\<exists>x\<in>set (rows (role_permissions d)). rp_role_id x = role_id r
           \<and> (\<exists>p\<in>set (rows (permissions d)). perm_id p = rp_permission_id x \<and> perm_code p = code)))"

section \<open>Lemmas\<close>

lemma in_permission_codes:
  "code \<in> set (permission_codes_of_role role d) \<longleftrightarrow>
     (\<exists>x\<in>set (rows (role_permissions d)). rp_role_id x = role
       \<and> (\<exists>p\<in>set (rows (permissions d)). perm_id p = rp_permission_id x \<and> perm_code p = code))"
  by (auto simp: permission_codes_of_role_def)

lemma in_role_ids:
  "i \<in> set (get_role_ids_by_user user d) \<longleftrightarrow>
     (\<exists>r\<in>set (rows (roles d)). role_id r = i) \<and>
     (\<exists>u\<in>set (rows (user_roles d)). ur_user_id u = user \<and> ur_deleted_at u = None \<and> ur_role_id u = i)"
proof -
  let ?role = "\<lambda>u. find_row (\<lambda>x. role_id x = ur_role_id u) (roles d)"
  let ?us = "select_rows (\<lambda>r. ur_user_id r = user \<and> ur_deleted_at r = None) (user_roles d)"
  have ids: "i \<in> set (get_role_ids_by_user user d) \<longleftrightarrow> (\<exists>u\<in>set ?us. \<exists>r. ?role u = Some r \<and> role_id r = i)"
    unfolding get_role_ids_by_user_def roles_of_user_def by (force simp del: set_select_rows)
  have role: "(\<exists>r. ?role u = Some r \<and> role_id r = i) \<longleftrightarrow> (\<exists>r\<in>set (rows (roles d)). role_id r = i) \<and> ur_role_id u = i" for u
    using find_row_SomeD [of "\<lambda>x. role_id x = ur_role_id u" "roles d"] find_row_None [of "\<lambda>x. role_id x = ur_role_id u" "roles d"]
    by (cases "?role u") auto
  show ?thesis unfolding ids role set_select_rows by blast
qed

lemma granted_iff:
  "granted user code d \<longleftrightarrow>
     (\<exists>i\<in>set (get_role_ids_by_user user d). code \<in> set (permission_codes_of_role i d))"
proof -
  have "granted user code d \<longleftrightarrow>
      (\<exists>i. ((\<exists>r\<in>set (rows (roles d)). role_id r = i) \<and>
           (\<exists>u\<in>set (rows (user_roles d)). ur_user_id u = user \<and> ur_deleted_at u = None \<and> ur_role_id u = i))
         \<and> code \<in> set (permission_codes_of_role i d))"
    unfolding granted_def in_permission_codes by blast
  then show ?thesis unfolding in_role_ids [symmetric] by blast
qed

text \<open>The guard decides by what the tables grant when every list the cache answers is what the tables hold.\<close>

lemma guard_decides:
  assumes "timed_cache.truthful now (\<lambda>r. permission_codes_of_role r d) c"
  shows "fst (guard_request (Some code) user now c d) = Inr () \<longleftrightarrow> granted user code d"
proof -
  have "(case get_timed now r c of Some ps \<Rightarrow> ps | None \<Rightarrow> permission_codes_of_role r d) = permission_codes_of_role r d" for r
    using assms by (auto simp: timed_cache.truthful_def split: option.split)
  then show ?thesis by (simp add: guard_request_def permissions_guard_def granted_iff Let_def)
qed

lemma run_guards_simps [simp]:
  "run_guards [] c = c"
  "run_guards (x # calls) c =
     run_guards calls (snd (guard_request (gc_required (fst x)) (gc_user (fst x)) (gc_at (fst x)) c (snd x)))"
  by (simp_all add: run_guards_def split_beta)

lemma silent_request:
  assumes "timed_cache.silent t c" and "now + PERMISSION_CACHE_TTL \<le> t"
  shows "timed_cache.silent t (snd (guard_request required user now c d))"
  using assms by (auto simp: guard_request_def fill_timed_refill timed_cache.silent_refill split: option.split)

lemma truthful_request:
  assumes "timed_cache.truthful t (\<lambda>r. permission_codes_of_role r d) c"
  shows "timed_cache.truthful t (\<lambda>r. permission_codes_of_role r d) (snd (guard_request required user now c d))"
  using assms by (auto simp: guard_request_def fill_timed_refill timed_cache.truthful_refill split: option.split)

lemma silent_run:
  assumes "timed_cache.silent (t + PERMISSION_CACHE_TTL) c" and "\<forall>x\<in>set calls. gc_at (fst x) \<le> t"
  shows "timed_cache.silent (t + PERMISSION_CACHE_TTL) (run_guards calls c)"
  using assms
proof (induction calls arbitrary: c)
  case (Cons x calls)
  then show ?case by (simp add: Cons.IH silent_request)
qed simp

lemma truthful_run:
  assumes "timed_cache.truthful t (\<lambda>r. permission_codes_of_role r d) c"
  shows "timed_cache.truthful t (\<lambda>r. permission_codes_of_role r d) (run_guards (map (\<lambda>g. (g, d)) calls) c)"
  using assms
proof (induction calls arbitrary: c)
  case (Cons g calls)
  then show ?case by (simp add: Cons.IH truthful_request)
qed simp

lemma revoked_row_simps [simp]:
  "ur_user_id (revoked_row now actor r) = ur_user_id r" "ur_role_id (revoked_row now actor r) = ur_role_id r"
  "ur_deleted_at (revoked_row now actor r) = Some now"
  by (simp_all add: revoked_row_def split: option.split)

section \<open>Properties\<close>

text \<open>
  C32: a change of the grants reaches every request within the lifetime of the cached lists (36 seconds): whatever
  requests ran before the moment \<open>t\<close>, with whatever tables, and whatever requests ran since then with the tables
  \<open>d\<close>, from \<open>t\<close> plus the lifetime on the guard admits a request exactly when \<open>d\<close> grants its permission.
\<close>
theorem grants_settle_within_ttl:
  assumes "\<forall>x\<in>set before. gc_at (fst x) \<le> t" and "t + PERMISSION_CACHE_TTL \<le> now"
  shows "fst (guard_request (Some code) user now
           (run_guards (map (\<lambda>g. (g, d)) since) (run_guards before (\<lambda>_. None))) d) = Inr ()
         \<longleftrightarrow> granted user code d"
proof (rule guard_decides)
  let ?src = "\<lambda>r. permission_codes_of_role r d"
  have "timed_cache.silent (t + PERMISSION_CACHE_TTL) (run_guards before (\<lambda>_. None))"
    using assms(1) by (intro silent_run) (simp_all add: timed_cache.silent_def get_timed_def)
  then have "timed_cache.truthful (t + PERMISSION_CACHE_TTL) ?src
      (run_guards (map (\<lambda>g. (g, d)) since) (run_guards before (\<lambda>_. None)))"
    by (intro truthful_run timed_cache.silent_truthful)
  then show "timed_cache.truthful now ?src (run_guards (map (\<lambda>g. (g, d)) since) (run_guards before (\<lambda>_. None)))"
    using assms(2) by (rule timed_cache.truthful_later)
qed

definition sample_user :: user_row where
  "sample_user = \<lparr>usr_id = 7, usr_email = ''a@b'', usr_phone = None, usr_first_name = None, usr_last_name = None,
     usr_password = ''h'', usr_password_changed_at = None, usr_is_email_verified = True, usr_verify_email_at = None,
     usr_status = User_ACTIVE, usr_last_login_at = None, usr_created_at = 0, usr_deleted_at = None\<rparr>"

definition sample_grants :: db where
  "sample_grants = empty_db\<lparr>users := \<lparr>rows = [sample_user], serial = 8\<rparr>,
     roles := \<lparr>rows = [\<lparr>role_id = 1, role_code = STAFF, role_name = ''staff'', role_is_active = True,
       role_deleted_at = None, role_description = None\<rparr>], serial = 2\<rparr>,
     user_roles := \<lparr>rows = [\<lparr>ur_user_id = 7, ur_role_id = 1, ur_deleted_at = None, ur_created_by = None,
       ur_updated_by = None, ur_deleted_by = None\<rparr>], serial = 2\<rparr>,
     permissions := \<lparr>rows = [\<lparr>perm_id = 3, perm_code = ''order:read'', perm_description = None, perm_method = ''GET'',
       perm_path_pattern = ''/'', perm_is_active = True, perm_deleted_at = None, perm_created_by = None,
       perm_updated_by = None\<rparr>], serial = 4\<rparr>,
     role_permissions := \<lparr>rows = [\<lparr>rp_role_id = 1, rp_permission_id = 3\<rparr>], serial = 2\<rparr>\<rparr>"

text \<open>A list cached before the permission was granted no longer refuses after the lifetime.\<close>

lemma grants_settle_within_ttl_witness:
  "fst (guard_request (Some ''order:read'') 7 36100
     (run_guards [(\<lparr>gc_required = Some ''order:read'', gc_user = 7, gc_at = 100\<rparr>, sample_grants\<lparr>role_permissions := empty_table\<rparr>)]
        (\<lambda>_. None)) sample_grants) = Inr ()"
proof -
  have "granted 7 ''order:read'' sample_grants" by (simp add: granted_def sample_grants_def)
  then show ?thesis
    using grants_settle_within_ttl [of "[(\<lparr>gc_required = Some ''order:read'', gc_user = 7, gc_at = 100\<rparr>,
        sample_grants\<lparr>role_permissions := empty_table\<rparr>)]" 100 36100 "''order:read''" 7 sample_grants "[]"]
    by (simp add: PERMISSION_CACHE_TTL_def del: run_guards_simps(2))
qed

text \<open>
  Once an assignment is deleted the role counts for no request of the user, whatever the cache holds; it can
  never be assigned again, because the deleted row still occupies its key, and the profile of the user goes on
  showing the permissions of the role.
\<close>
theorem revoked_role_is_final:
  assumes "soft_delete_user_role now user role actor d = (Inr u, d')"
  shows "role \<notin> set (get_role_ids_by_user user d')
    \<and> create_user_role user role by d' = (Inl P2002, d')
    \<and> get_me user d' = get_me user d"
proof -
  let ?h = "\<lambda>r. if of_user_role user role r then revoked_row now actor r else r"
  obtain x where x: "find_row (of_user_role user role) (user_roles d) = Some x"
    and d': "d' = d\<lparr>user_roles := map_rows (of_user_role user role) (revoked_row now actor) (user_roles d)\<rparr>"
    using assms by (auto simp: soft_delete_user_role_def modify_user_role_def split: option.splits)
  have gone: "ur_deleted_at r \<noteq> None" if "r \<in> set (rows (user_roles d'))" "ur_user_id r = user" "ur_role_id r = role" for r
  proof -
    have "r \<in> ?h ` set (rows (user_roles d))" using that(1) by (simp add: d')
    then obtain y where "r = ?h y" by (rule imageE)
    with that(2,3) show ?thesis by (auto simp: of_user_role_def split: if_splits)
  qed
  have "x \<in> set (rows (user_roles d)) \<and> of_user_role user role x" using x by (rule find_row_SomeD)
  then have "\<exists>r\<in>set (map ?h (rows (user_roles d))). ur_user_id r = user \<and> ur_role_id r = role"
    by (intro bexI [of _ "?h x"]) (auto simp: of_user_role_def)
  then have taken: "\<exists>r\<in>set (rows (user_roles d')). ur_user_id r = user \<and> ur_role_id r = role"
    by (simp add: d')
  have "map (\<lambda>r. g (ur_role_id r)) (filter (\<lambda>r. ur_user_id r = user) (map ?h rs)) =
        map (\<lambda>r. g (ur_role_id r)) (filter (\<lambda>r. ur_user_id r = user) rs)" for rs and g :: "int \<Rightarrow> string list"
    by (induction rs) simp_all
  then have shown: "map (\<lambda>r. g (ur_role_id r)) (select_rows (\<lambda>r. ur_user_id r = user) (user_roles d')) =
        map (\<lambda>r. g (ur_role_id r)) (select_rows (\<lambda>r. ur_user_id r = user) (user_roles d))" for g :: "int \<Rightarrow> string list"
    by (simp add: d' select_rows_def)
  have frame: "permissions d' = permissions d" "role_permissions d' = role_permissions d" "user_of d' user = user_of d user"
    by (simp_all add: d' user_of_def)
  let ?codes = "\<lambda>i. concat (map (\<lambda>rp. map perm_code (filter (\<lambda>p. perm_id p = rp_permission_id rp) (rows (permissions d))))
      (select_rows (\<lambda>rp. rp_role_id rp = i) (role_permissions d)))"
  have me: "get_me user d' = get_me user d"
    unfolding get_me_def frame shown [of ?codes] ..
  have "role \<notin> set (get_role_ids_by_user user d')" using gone by (auto simp: in_role_ids)
  moreover have "create_user_role user role by d' = (Inl P2002, d')" using taken by (simp add: create_user_role_def)
  ultimately show ?thesis using me by simp
qed

lemma revoked_role_is_final_witness:
  "\<exists>d'. snd (soft_delete_user_role 50 7 1 (Some 9) sample_grants) = d' \<and> (1 :: int) \<notin> set (get_role_ids_by_user 7 d')
     \<and> create_user_role 7 1 None d' = (Inl P2002, d') \<and> map_option snd (get_me 7 d') = Some [''order:read'']"
proof -
  have "fst (soft_delete_user_role 50 7 1 (Some 9) sample_grants) \<in> range Inr"
    by (simp add: soft_delete_user_role_def modify_user_role_def sample_grants_def find_row_def of_user_role_def)
  then obtain u where "soft_delete_user_role 50 7 1 (Some 9) sample_grants =
      (Inr u, snd (soft_delete_user_role 50 7 1 (Some 9) sample_grants))"
    by (metis imageE prod.collapse)
  from revoked_role_is_final [OF this, of None]
  have final: "(1 :: int) \<notin> set (get_role_ids_by_user 7 (snd (soft_delete_user_role 50 7 1 (Some 9) sample_grants)))"
    "create_user_role 7 1 None (snd (soft_delete_user_role 50 7 1 (Some 9) sample_grants)) =
       (Inl P2002, snd (soft_delete_user_role 50 7 1 (Some 9) sample_grants))"
    "get_me 7 (snd (soft_delete_user_role 50 7 1 (Some 9) sample_grants)) = get_me 7 sample_grants" by blast+
  moreover have "map_option snd (get_me 7 sample_grants) = Some [''order:read'']"
    by (simp add: get_me_def sample_grants_def user_of_def find_row_def sample_user_def select_rows_def)
  ultimately show ?thesis by auto
qed

end
