(* ===== verification/Admin_User.thy ===== *)
theory Admin_User
  imports Rbac Pagination "HOL-Library.Product_Lexorder"
begin

text \<open>
  Users in the administration: \<open>src/src/modules/admin/user\<close> (\<open>AdminUserService\<close>, \<open>AdminUserRepository\<close>, the selection
  and the mapper): the lists of all users and of the users with a role beyond customer, and the statistics, which
  are kept for a day.
\<close>

section \<open>Queries\<close>

definition newest_users :: "user_row list \<Rightarrow> user_row list" where
  "newest_users us = sort_key (\<lambda>u. (- usr_created_at u, - usr_id u)) us"

definition not_deleted :: "user_row \<Rightarrow> bool" where
  "not_deleted u \<longleftrightarrow> usr_deleted_at u = None"

text \<open>The roles of a user that count: the assignment and the role are not deleted, and the role is active.\<close>

definition effective_roles :: "db \<Rightarrow> user_row \<Rightarrow> role_row list" where
  "effective_roles d u =
     filter (\<lambda>r. role_deleted_at r = None \<and> role_is_active r)
       (List.map_filter (\<lambda>x. find_row (\<lambda>r. role_id r = ur_role_id x) (roles d))
         (select_rows (\<lambda>x. ur_user_id x = usr_id u \<and> ur_deleted_at x = None) (user_roles d)))"

definition is_customer :: "db \<Rightarrow> user_row \<Rightarrow> bool" where
  "is_customer d u \<longleftrightarrow> list_ex (\<lambda>r. role_code r = CUSTOMER) (effective_roles d u)"

definition has_other_role :: "db \<Rightarrow> user_row \<Rightarrow> bool" where
  "has_other_role d u \<longleftrightarrow> list_ex (\<lambda>r. role_code r \<noteq> CUSTOMER) (effective_roles d u)"

definition count_users :: "db \<Rightarrow> int" where
  [repo_defs]: "count_users d = count_rows not_deleted (users d)"

definition count_customers_logged_in_since :: "int \<Rightarrow> db \<Rightarrow> int" where
  [repo_defs]: "count_customers_logged_in_since since d =
     count_rows (\<lambda>u. not_deleted u \<and> (case usr_last_login_at u of None \<Rightarrow> False | Some t \<Rightarrow> since \<le> t) \<and> is_customer d u)
       (users d)"

definition find_users :: "int \<Rightarrow> int \<Rightarrow> db \<Rightarrow> user_row list" where
  [repo_defs]: "find_users page limit d = page_slice page limit (newest_users (select_rows not_deleted (users d)))"

definition count_non_customer_users :: "db \<Rightarrow> int" where
  [repo_defs]: "count_non_customer_users d = count_rows (\<lambda>u. not_deleted u \<and> has_other_role d u) (users d)"

definition find_non_customer_users :: "int \<Rightarrow> int \<Rightarrow> db \<Rightarrow> user_row list" where
  [repo_defs]: "find_non_customer_users page limit d =
     page_slice page limit (newest_users (select_rows (\<lambda>u. not_deleted u \<and> has_other_role d u) (users d)))"

section \<open>Answers\<close>

record admin_user_item =
  aui_id :: string
  aui_email :: string
  aui_first_name :: "string option"
  aui_last_name :: "string option"
  aui_status :: user_status
  aui_is_email_verified :: bool
  aui_last_login_at :: "int option"
  aui_created_at :: int
  aui_roles :: "(string \<times> role_code \<times> string) list"

definition to_user_item :: "db \<Rightarrow> user_row \<Rightarrow> admin_user_item" where
  "to_user_item d u =
     \<lparr>aui_id = int_string (usr_id u), aui_email = usr_email u, aui_first_name = usr_first_name u,
      aui_last_name = usr_last_name u, aui_status = usr_status u, aui_is_email_verified = usr_is_email_verified u,
      aui_last_login_at = usr_last_login_at u, aui_created_at = usr_created_at u,
      aui_roles = map (\<lambda>r. (int_string (role_id r), role_code r, role_name r)) (effective_roles d u)\<rparr>"

definition get_users :: "int option \<Rightarrow> int option \<Rightarrow> db \<Rightarrow> admin_user_item paginated" where
  [service_defs]: "get_users page limit d =
     (let p = (case page of None \<Rightarrow> 1 | Some n \<Rightarrow> n); l = (case limit of None \<Rightarrow> 20 | Some n \<Rightarrow> n) in
      build_paginated_result (map (to_user_item d) (find_users p l d)) (count_users d) p l)"

definition get_non_customer_users :: "int option \<Rightarrow> int option \<Rightarrow> db \<Rightarrow> admin_user_item paginated" where
  [service_defs]: "get_non_customer_users page limit d =
     (let p = (case page of None \<Rightarrow> 1 | Some n \<Rightarrow> n); l = (case limit of None \<Rightarrow> 20 | Some n \<Rightarrow> n) in
      build_paginated_result (map (to_user_item d) (find_non_customer_users p l d)) (count_non_customer_users d) p l)"

definition ADMIN_USER_STATS_CACHE_TTL :: int where "ADMIN_USER_STATS_CACHE_TTL = 86400000"

record user_stats =
  us_total_users :: int
  us_customers_logged_in :: int

definition user_statistics :: "int \<Rightarrow> user_stats timed \<Rightarrow> db \<Rightarrow> user_stats \<times> user_stats timed" where
  [service_defs]: "user_statistics now cached d =
     (case live now cached of
        Some s \<Rightarrow> (s, cached)
      | None \<Rightarrow>
          let s = \<lparr>us_total_users = count_users d,
                   us_customers_logged_in = count_customers_logged_in_since (now - ADMIN_USER_STATS_CACHE_TTL) d\<rparr>
          in (s, Some (s, now + ADMIN_USER_STATS_CACHE_TTL)))"

section \<open>Accounts over time\<close>

text \<open>The operations of the authentication service that write accounts, sessions and devices.\<close>

datatype account_call =
    Register auth_env "role_row option" register_body string string string "int option"
  | Verify_email auth_env string
  | Login auth_env login_body string string
  | Refresh auth_env string session_row
  | Change_password auth_env int string string string
  | Reset_password auth_env reset_body

primrec account_step :: "account_call \<Rightarrow> db \<Rightarrow> db" where
  "account_step (Register env cached body agent ip origin guest) d =
     snd (register_account env cached body agent ip origin guest d)"
| "account_step (Verify_email env token) d = snd (verify_email env token d)"
| "account_step (Login env body agent ip) d = snd (login env body agent ip d)"
| "account_step (Refresh env agent session) d = snd (refresh_token env agent session d)"
| "account_step (Change_password env user old new confirm) d = snd (change_password env user old new confirm d)"
| "account_step (Reset_password env body) d = snd (reset_password env body d)"

definition no_login_date :: "db \<Rightarrow> bool" where
  "no_login_date d \<longleftrightarrow> (\<forall>u\<in>set (rows (users d)). usr_last_login_at u = None)"

lemma no_login_same: "users d' = users d \<Longrightarrow> no_login_date d \<Longrightarrow> no_login_date d'"
  by (simp add: no_login_date_def)

lemmas no_login_await = await_keeps [where P = no_login_date]
lemmas no_login_both = promise_all_keeps [where P = no_login_date]

lemma users_frames [simp]:
  "users (snd (create_login_attempt now user ip agent ok reason d)) = users d"
  "users (snd (create_session env i ip agent dev d)) = users d"
  "users (snd (create_user_role i r by d)) = users d"
  "users (snd (mark_used_by_id j now d)) = users d"
  "users (snd (convert_guest_session now g i d)) = users d"
  "users (snd (update_device j f d)) = users d"
  "users (snd (create_device now i fp name d)) = users d"
  "users (snd (update_session k h d)) = users d"
  by (simp_all add: create_login_attempt_def create_session_def create_user_role_def mark_used_by_id_def update_verification_def
      convert_guest_session_def update_device_def create_device_def update_session_def split: sum.split option.split)

lemma users_rotate [simp]: "users (snd (rotate_session env i agent d)) = users d"
  by (simp add: rotate_session_def split: sum.split)

lemma no_login_update:
  assumes "no_login_date d" and "\<And>u. usr_last_login_at (f u) = usr_last_login_at u"
  shows "no_login_date (snd (update_user i f d))"
  using assms by (auto simp: update_user_def no_login_date_def)

lemma no_login_create: "no_login_date d \<Longrightarrow> no_login_date (snd (create_user now email password fname lname d))"
  by (auto simp: create_user_def no_login_date_def new_user_def)

lemma users_await:
  assumes "users (snd r) = us" and "\<And>x s. users s = us \<Longrightarrow> users (snd (k x s)) = us"
  shows "users (snd (await r k)) = us"
  using assms by (rule await_keeps [where P = "\<lambda>s. users s = us"])

lemma users_both:
  assumes "\<And>s. users (snd (f s)) = users s" and "\<And>s. users (snd (g s)) = users s"
  shows "users (snd (promise_all f g s)) = users s"
  by (rule promise_all_keeps [where P = "\<lambda>s'. users s' = users s"]) (simp_all add: assms)

lemma users_revoke_oldest [simp]: "users (snd (revoke_oldest_device now i d)) = users d"
  by (auto simp: revoke_oldest_device_def split: list.split intro: users_await)

lemma users_upsert_device [simp]: "users (snd (upsert_device_on_login now i fp agent d)) = users d"
  by (auto simp: upsert_device_on_login_def Let_def split: option.split intro: users_await)

lemma users_register_verification [simp]: "users (snd (create_register_verification now i email expires d)) = users d"
proof -
  have "users (snd (create_verification now i email expires REGISTER d)) = users d"
    by (simp add: create_verification_def)
  then show ?thesis
    unfolding create_register_verification_def
    by (rule users_await) (rule users_await, simp_all add: create_otp_register_email_def create_email_def)
qed

lemma no_login_login: "no_login_date d \<Longrightarrow> no_login_date (snd (login env body agent ip d))"
proof (erule no_login_same [rotated])
  show "users (snd (login env body agent ip d)) = users d"
    unfolding login_def Let_def
    by (auto split: option.split intro!: users_await simp: users_both)
qed

lemma no_login_refresh: "no_login_date d \<Longrightarrow> no_login_date (snd (refresh_token env agent session d))"
  by (erule no_login_same [rotated]) (auto simp: refresh_token_def Let_def split: option.split intro!: users_await)

lemma no_login_register:
  assumes "no_login_date d"
  shows "no_login_date (snd (register_account env cached body agent ip origin guest d))"
proof -
  have later: "users (snd (await (promise_all (create_user_role i r None)
        (promise_all (create_login_attempt now j ip agent True None) (create_session env k ip agent None)) s) (\<lambda>_ d.
      await (create_register_verification now l email expires d) (\<lambda>vm d.
        await (case guest of None \<Rightarrow> (Inr 0, d) | Some g \<Rightarrow> convert_guest_session now g l d) (\<lambda>_. ret (f vm)))))) = users s"
    for i r j k l now email expires s and f :: "verification_row \<times> email_row \<Rightarrow> auth_me \<times> token_pair \<times> email_job"
    by (auto intro!: users_await simp: users_both split: option.split)
  have "no_login_date (snd (await (create_user now email hash fname lname d) (\<lambda>u s.
      case find_role_by_name cached name s of None \<Rightarrow> (Inl e, s) | Some role \<Rightarrow> g u role s)))"
    if "\<And>u role s. users (snd (g u role s)) = users s" for now email hash fname lname e name
      and g :: "auth_me \<Rightarrow> role_row \<Rightarrow> (auth_me \<times> token_pair \<times> email_job) action"
    by (rule no_login_await) (use assms that no_login_same in \<open>auto simp: no_login_create split: option.split\<close>)
  with assms later show ?thesis by (simp add: register_account_def Let_def)
qed

lemma no_login_verify: "no_login_date d \<Longrightarrow> no_login_date (snd (verify_email env token d))"
  unfolding verify_email_def mark_email_verified_def
  by (auto split: option.split intro!: no_login_await no_login_update intro: no_login_same)

lemma no_login_change: "no_login_date d \<Longrightarrow> no_login_date (snd (change_password env user old new confirm d))"
  unfolding change_password_def update_password_def by (auto split: option.split intro!: no_login_update)

lemma no_login_reset: "no_login_date d \<Longrightarrow> no_login_date (snd (reset_password env body d))"
  unfolding reset_password_def update_password_def
  by (auto split: option.split intro!: no_login_await no_login_update intro: no_login_same)

interpretation accounts: machine account_step no_login_date
proof
  show "no_login_date (account_step c d)" if "no_login_date d" for c d
    using that by (cases c) (simp_all add: no_login_register no_login_verify no_login_login no_login_refresh
        no_login_change no_login_reset)
qed

section \<open>Properties\<close>

text \<open>
  The number of customers of the last day is always zero: no operation of the authentication writes the date of
  the last login, so after any sequence of registrations, logins and other account operations the statistics count
  nobody, whenever they are computed.
\<close>
theorem logged_in_customers_always_zero:
  assumes "no_login_date d"
  shows "us_customers_logged_in (fst (user_statistics now None (fold account_step calls d))) = 0"
proof -
  have "no_login_date (fold account_step calls d)" using assms by (rule accounts.run_inv)
  then have "filter (\<lambda>u. not_deleted u \<and> (case usr_last_login_at u of None \<Rightarrow> False | Some t \<Rightarrow> since \<le> t)
      \<and> is_customer (fold account_step calls d) u) (rows (users (fold account_step calls d))) = []" for since
    by (auto simp: no_login_date_def filter_empty_conv)
  then show ?thesis by (simp add: user_statistics_def count_customers_logged_in_since_def count_rows_def Let_def)
qed

lemma logged_in_customers_always_zero_witness:
  "(\<forall>env body agent ip token. us_customers_logged_in (fst (user_statistics 90000000 None
     (fold account_step [Login env body agent ip, Verify_email env token] sample_grants))) = 0)
   \<and> us_total_users (fst (user_statistics 90000000 None sample_grants)) = 1"
proof -
  have "no_login_date sample_grants" by (simp add: no_login_date_def sample_grants_def sample_user_def)
  from logged_in_customers_always_zero [OF this, of 90000000] show ?thesis
    by (simp del: fold.simps) (simp add: user_statistics_def Let_def count_users_def count_rows_def not_deleted_def sample_grants_def sample_user_def)
qed

end
