(* ===== verification/Book_Asset.thy ===== *)
theory Book_Asset
  imports Catalog
begin

text \<open>
  Pictures of a book: \<open>src/src/modules/book/asset\<close> (\<open>BookAssetService\<close>, \<open>BookAssetRepository\<close>). The upload stores the
  file with the object store and then records it without a position; the confirmation records a picture that was
  uploaded before, at the next position, of which a book has five. The object store and the image conversion are
  outside the program: \<open>stored\<close> is the link they return, or the error they raise.
\<close>

definition MAX_BOOK_ASSET_PER_BOOK :: int where "MAX_BOOK_ASSET_PER_BOOK = 5"

section \<open>The repository\<close>

definition find_live_book :: "int \<Rightarrow> db \<Rightarrow> book_row option" where
  [repo_defs]: "find_live_book i d = find_row (\<lambda>b. bk_id b = i \<and> bk_deleted_at b = None) (books d)"

definition count_assets_of_book :: "int \<Rightarrow> db \<Rightarrow> int" where
  [repo_defs]: "count_assets_of_book i d = count_rows (\<lambda>a. bas_book_id a = i) (book_assets d)"

definition create_book_asset :: "int \<Rightarrow> string \<Rightarrow> string option \<Rightarrow> int option \<Rightarrow> book_asset_row action" where
  [repo_defs]: "create_book_asset book url kind order d =
     (let mk = (\<lambda>i. \<lparr>bas_id = i, bas_book_id = book, bas_url = url, bas_type = kind, bas_sort_order = order\<rparr>) in
      if book_of d book = None then (Inl P2003, d)
      else (Inr (mk (serial (book_assets d))), d\<lparr>book_assets := insert_row mk (book_assets d)\<rparr>))"

section \<open>The service\<close>

definition upload_book_asset :: "string res \<Rightarrow> int \<Rightarrow> book_asset_row action" where
  [service_defs]: "upload_book_asset stored book d =
     (case stored of
        Inl e \<Rightarrow> (Inl e, d)
      | Inr url \<Rightarrow> create_book_asset book url None None d)"

record confirm_asset_body =
  ca_image_url :: string
  ca_order_by :: int
  ca_asset_type :: "string option"

definition confirm_book_asset :: "int \<Rightarrow> confirm_asset_body \<Rightarrow> book_asset_row action" where
  [service_defs]: "confirm_book_asset book body d =
     (if find_live_book book d = None then (Inl (NotFound ''BOOK_NOT_FOUND''), d)
      else let next_order = count_assets_of_book book d + 1 in
        if next_order > MAX_BOOK_ASSET_PER_BOOK then (Inl (BadRequest ''Moi sach chi duoc toi da 5 assets''), d)
        else if ca_order_by body \<noteq> next_order then (Inl (BadRequest ''orderBy''), d)
        else create_book_asset book (ca_image_url body) (ca_asset_type body) (Some next_order) d)"

section \<open>Sequences of calls\<close>

datatype asset_call =
    Upload "string res" int
  | Confirm int confirm_asset_body

primrec asset_step :: "asset_call \<Rightarrow> db \<Rightarrow> db" where
  "asset_step (Upload stored book) d = snd (upload_book_asset stored book d)"
| "asset_step (Confirm book body) d = snd (confirm_book_asset book body d)"

definition assets_of :: "int \<Rightarrow> db \<Rightarrow> book_asset_row list" where
  "assets_of book d = filter (\<lambda>a. bas_book_id a = book) (rows (book_assets d))"

text \<open>
  The positions of the pictures of a book grow in the order they were confirmed, each is the number of pictures the
  book had then plus one, and none is above five.
\<close>

definition positions_ok :: "db \<Rightarrow> bool" where
  "positions_ok d \<longleftrightarrow> (\<forall>book n. n < length (assets_of book d) \<longrightarrow>
     bas_sort_order (assets_of book d ! n) \<in> {None, Some (int n + 1)}
     \<and> (bas_sort_order (assets_of book d ! n) \<noteq> None \<longrightarrow> n < 5))"

lemma count_assets: "count_assets_of_book book d = int (length (assets_of book d))"
  by (simp add: count_assets_of_book_def count_rows_def assets_of_def)

lemma positions_create:
  assumes "positions_ok d" and "order = None \<or> order = Some (int (length (assets_of book d)) + 1) \<and> length (assets_of book d) < 5"
  shows "positions_ok (snd (create_book_asset book url kind order d))"
proof (cases "book_of d book")
  case (Some b)
  let ?new = "\<lparr>bas_id = serial (book_assets d), bas_book_id = book, bas_url = url, bas_type = kind, bas_sort_order = order\<rparr>"
  have "assets_of k (snd (create_book_asset book url kind order d)) = assets_of k d @ (if k = book then [?new] else [])" for k
    using Some by (simp add: assets_of_def create_book_asset_def Let_def)
  then show ?thesis
    using assms by (auto simp: positions_ok_def nth_append less_Suc_eq)
qed (use assms in \<open>simp add: create_book_asset_def\<close>)

lemma positions_step: "positions_ok d \<Longrightarrow> positions_ok (asset_step c d)"
  by (cases c) (auto simp: upload_book_asset_def confirm_book_asset_def Let_def MAX_BOOK_ASSET_PER_BOOK_def count_assets
      intro!: positions_create split: sum.split)

interpretation asset_calls: machine asset_step positions_ok
  by unfold_locales (rule positions_step)

text \<open>
  Whatever pictures are uploaded and confirmed, a book has at most five confirmed pictures: their positions are
  between one and five, and the picture at a position is the one that came as that number.
\<close>
theorem asset_positions_bounded:
  assumes "book_assets d = empty_table" and "a \<in> set (rows (book_assets (fold asset_step calls d)))"
    and "bas_sort_order a = Some k"
  shows "1 \<le> k \<and> k \<le> MAX_BOOK_ASSET_PER_BOOK
    \<and> assets_of (bas_book_id a) (fold asset_step calls d) ! nat (k - 1) = a"
proof -
  have "positions_ok d" using assms(1) by (simp add: positions_ok_def assets_of_def)
  then have ok: "positions_ok (fold asset_step calls d)" by (rule asset_calls.run_inv)
  have "a \<in> set (assets_of (bas_book_id a) (fold asset_step calls d))" using assms(2) by (simp add: assets_of_def)
  then obtain n where n: "n < length (assets_of (bas_book_id a) (fold asset_step calls d))"
    "assets_of (bas_book_id a) (fold asset_step calls d) ! n = a" by (auto simp: in_set_conv_nth)
  with ok assms(3) have "k = int n + 1" "n < 5" by (force simp: positions_ok_def)+
  with n show ?thesis by (simp add: MAX_BOOK_ASSET_PER_BOOK_def)
qed

definition sample_confirm :: "int \<Rightarrow> asset_call" where
  "sample_confirm k = Confirm 1 \<lparr>ca_image_url = ''u'', ca_order_by = k, ca_asset_type = None\<rparr>"

text \<open>A confirmation, one at a wrong position that is refused, an upload, and the third picture.\<close>

lemma asset_positions_bounded_witness:
  "let d = fold asset_step [sample_confirm 1, sample_confirm 1, Upload (Inr ''v'') 1, sample_confirm 3] sample_catalog in
     map bas_sort_order (rows (book_assets d)) = [Some 1, None, Some 3]
     \<and> (\<forall>a. a = last (rows (book_assets d)) \<longrightarrow> assets_of (bas_book_id a) d ! 2 = a)"
proof -
  let ?d = "fold asset_step [sample_confirm 1, sample_confirm 1, Upload (Inr ''v'') 1, sample_confirm 3] sample_catalog"
  have book: "book_of s 1 = Some (sample_book 1)" "find_live_book 1 s = Some (sample_book 1)" if "books s = books sample_catalog" for s
    using that by (simp_all add: book_of_def find_live_book_def find_row_def sample_catalog_def sample_book_def)
  have empty: "book_assets sample_catalog = empty_table" by (simp add: sample_catalog_def empty_db_def)
  have rows: "rows (book_assets ?d) =
      [\<lparr>bas_id = 1, bas_book_id = 1, bas_url = ''u'', bas_type = None, bas_sort_order = Some 1\<rparr>,
       \<lparr>bas_id = 2, bas_book_id = 1, bas_url = ''v'', bas_type = None, bas_sort_order = None\<rparr>,
       \<lparr>bas_id = 3, bas_book_id = 1, bas_url = ''u'', bas_type = None, bas_sort_order = Some 3\<rparr>]"
    by (simp add: sample_confirm_def upload_book_asset_def confirm_book_asset_def create_book_asset_def Let_def book
        count_assets_of_book_def count_rows_def empty MAX_BOOK_ASSET_PER_BOOK_def empty_table_def insert_row_def)
  from asset_positions_bounded [OF empty, of "last (rows (book_assets ?d))"
      "[sample_confirm 1, sample_confirm 1, Upload (Inr ''v'') 1, sample_confirm 3]" 3] rows
  show ?thesis by (simp add: Let_def)
qed

text \<open>An upload counts for the limit but is not held by it: a sixth picture is stored without a position.\<close>

lemma upload_ignores_limit:
  assumes "book_of d book \<noteq> None"
  shows "count_assets_of_book book (snd (upload_book_asset (Inr url) book d)) = count_assets_of_book book d + 1"
  using assms by (auto simp: upload_book_asset_def create_book_asset_def count_assets_of_book_def count_rows_def Let_def)

end
