(* ===== verification/Book_Search.thy ===== *)
theory Book_Search
  imports Recommend Text_Utils
begin

text \<open>
  The search by meaning: \<open>src/src/modules/search/service/search.service.ts\<close> (\<open>searchBooks\<close>, \<open>reindexBooks\<close>) and
  \<open>src/src/modules/pinecone\<close> (\<open>PineconeService\<close>, \<open>PineconeMapper\<close>). The services outside the program are parameters
  in \<open>search_env\<close>: the embedding of texts, the nearest records of the vector index, whether the index accepts a
  batch, and the characters of a text of code points. The index itself is a map from record identifiers; an accepted
  batch replaces the records of its identifiers. The cache of the search is only read by the code, never written, so
  it holds nothing. The lookup by ISBN forwards the answers of two web services and a language model and is left out.
\<close>

record book_metadata =
  bm_book_id :: string
  bm_variant_id :: string
  bm_price :: rat
  bm_category_ids :: "string list"
  bm_lang_hints :: "string list"
  bm_title :: utext
  bm_currency :: currency_code

record index_record =
  ir_id :: string
  ir_values :: "rat list"
  ir_metadata :: book_metadata

type_synonym vector_index = "string \<Rightarrow> index_record option"
type_synonym search_row = "book_row \<times> variant_row list"

record search_env =
  se_chars :: "utext \<Rightarrow> string"
  se_embed :: "string list \<Rightarrow> rat list list res"
  se_nearest :: "rat list \<Rightarrow> int \<Rightarrow> vector_index \<Rightarrow> (string \<times> rat) list res"
  se_accepts :: "index_record list \<Rightarrow> bool"

section \<open>The mapper\<close>

definition all_translations :: "db \<Rightarrow> book_row \<Rightarrow> book_translation_row list" where
  "all_translations d b = select_rows (\<lambda>t. bt_book_id t = bk_id b) (book_translations d)"

definition book_category_rows :: "db \<Rightarrow> book_row \<Rightarrow> category_row list" where
  "book_category_rows d b =
     List.map_filter (\<lambda>x. find_row (\<lambda>c. cat_id c = bc_category_id x) (categories d))
       (select_rows (\<lambda>x. bc_book_id x = bk_id b) (book_categories d))"

definition language_hint :: "db \<Rightarrow> book_translation_row \<Rightarrow> string" where
  "language_hint d t =
     (case find_row (\<lambda>l. lang_id l = bt_language_id t) (languages d) of
        None \<Rightarrow> [] | Some l \<Rightarrow> to_lower (js_trim (lang_code l)))"

definition index_title :: "db \<Rightarrow> book_row \<Rightarrow> utext" where
  "index_title d b =
     (case List.find (\<lambda>t. trim_points (bt_title t) \<noteq> []) (all_translations d b) of
        None \<Rightarrow> points (''Book '' @ int_string (bk_id b))
      | Some t \<Rightarrow> bt_title t)"

definition to_metadata :: "db \<Rightarrow> book_row \<Rightarrow> variant_row \<Rightarrow> rat \<Rightarrow> book_metadata" where
  "to_metadata d b v price =
     \<lparr>bm_book_id = int_string (bk_id b), bm_variant_id = int_string (bk_id b), bm_price = price,
      bm_category_ids = js_unique (map (int_string \<circ> cat_id) (book_category_rows d b)),
      bm_lang_hints = js_unique (filter (\<lambda>h. h \<noteq> []) (map (language_hint d) (all_translations d b))),
      bm_title = index_title d b, bm_currency = bv_currency v\<rparr>"

definition trimmed_texts :: "search_env \<Rightarrow> utext list \<Rightarrow> string list" where
  "trimmed_texts env ts = map (se_chars env) (js_unique (filter (\<lambda>t. t \<noteq> []) (map trim_points ts)))"

definition to_embedding_source :: "search_env \<Rightarrow> db \<Rightarrow> book_row \<Rightarrow> embedding_source" where
  "to_embedding_source env d b =
     \<lparr>es_titles = trimmed_texts env (map bt_title (all_translations d b)),
      es_descriptions = trimmed_texts env (List.map_filter bt_description (all_translations d b)),
      es_publisher = None,
      es_categories = trimmed_texts env (concat (map (\<lambda>c. map ct_name
        (select_rows (\<lambda>t. ct_category_id t = cat_id c) (category_translations d))) (book_category_rows d b)))\<rparr>"

definition embedding_text :: "search_env \<Rightarrow> db \<Rightarrow> search_row \<Rightarrow> string" where
  "embedding_text env d r = build_embedding_text (to_embedding_source env d (fst r))"

section \<open>Indexing in batches\<close>

definition DEFAULT_BATCH_SIZE :: nat where "DEFAULT_BATCH_SIZE = 200"

text \<open>\<open>normalizeBatchSize\<close>; \<open>None\<close> is a size that is not a finite number.\<close>

definition normalize_batch_size :: "rat option \<Rightarrow> nat" where
  "normalize_batch_size batch =
     (case batch of None \<Rightarrow> DEFAULT_BATCH_SIZE | Some b \<Rightarrow> if b > 0 then nat \<lfloor>b\<rfloor> else DEFAULT_BATCH_SIZE)"

text \<open>The record of a row and its vector, unless the vector is missing or empty.\<close>

definition record_of_row :: "db \<Rightarrow> search_row \<Rightarrow> rat list option \<Rightarrow> index_record option" where
  "record_of_row d r vec =
     (case vec of
        None \<Rightarrow> None
      | Some values \<Rightarrow>
          if values = [] then None
          else let v = hd (snd r); price = number_of_decimal (bv_price v) in
            Some \<lparr>ir_id = int_string (bk_id (fst r)), ir_values = values,
                  ir_metadata = to_metadata d (fst r) v price\<rparr>)"

definition nth_vector :: "rat list list \<Rightarrow> nat \<Rightarrow> rat list option" where
  "nth_vector vs j = (if j < length vs then Some (vs ! j) else None)"

definition records_of_chunk :: "db \<Rightarrow> search_row list \<Rightarrow> rat list list \<Rightarrow> index_record list" where
  "records_of_chunk d chunk vs =
     List.map_filter (\<lambda>(j, r). record_of_row d r (nth_vector vs j)) (zip [0..<length chunk] chunk)"

definition upsert_record :: "index_record \<Rightarrow> vector_index \<Rightarrow> vector_index" where
  "upsert_record r ix = ix(ir_id r \<mapsto> r)"

text \<open>One batch: its texts are embedded, its records are written, the counters \<open>(indexed, skipped)\<close> move on.\<close>

definition index_chunk :: "search_env \<Rightarrow> db \<Rightarrow> search_row list \<Rightarrow> nat \<times> nat \<Rightarrow> (vector_index, nat \<times> nat) eff" where
  [service_defs]: "index_chunk env d chunk acc ix =
     (case acc of (indexed, skipped) \<Rightarrow>
        if \<exists>r\<in>set chunk. snd r = [] then (Inl InternalServerError, ix)
        else (case se_embed env (map (embedding_text env d) chunk) of
          Inl e \<Rightarrow> (Inl InternalServerError, ix)
        | Inr vs \<Rightarrow>
            let rs = records_of_chunk d chunk vs; skipped' = skipped + (length chunk - length rs) in
            if rs = [] then (Inr (indexed, skipped'), ix)
            else if se_accepts env rs then (Inr (indexed + length rs, skipped'), fold upsert_record rs ix)
            else (Inl InternalServerError, ix)))"

text \<open>The loop over the batches; it does not end when the size is 0 and there is a row.\<close>

partial_function (option) index_loop ::
    "search_env \<Rightarrow> db \<Rightarrow> nat \<Rightarrow> search_row list \<Rightarrow> nat \<times> nat \<Rightarrow> vector_index
       \<Rightarrow> ((nat \<times> nat) res \<times> vector_index) option" where
  "index_loop env d n rs acc ix =
     (if rs = [] then Some (Inr acc, ix)
      else (case index_chunk env d (take n rs) acc ix of
              (Inl e, ix') \<Rightarrow> Some (Inl e, ix')
            | (Inr acc', ix') \<Rightarrow> index_loop env d n (drop n rs) acc' ix'))"

record reindex_summary =
  rx_total_source :: nat
  rx_indexed :: nat
  rx_skipped :: nat

definition full_reindex_books ::
    "search_env \<Rightarrow> rat option \<Rightarrow> db \<Rightarrow> vector_index \<Rightarrow> (reindex_summary res \<times> vector_index) option" where
  [service_defs]: "full_reindex_books env batch d ix =
     (let rs = find_active_book_first_variant d in
      map_option (\<lambda>r. await r (\<lambda>(indexed, skipped).
          ret \<lparr>rx_total_source = length rs, rx_indexed = indexed, rx_skipped = skipped\<rparr>))
        (index_loop env d (normalize_batch_size batch) rs (0, 0) ix))"

definition reindex_books :: "search_env \<Rightarrow> db \<Rightarrow> vector_index \<Rightarrow> (reindex_summary res \<times> vector_index) option" where
  [service_defs]: "reindex_books env = full_reindex_books env (Some (of_nat DEFAULT_BATCH_SIZE))"

section \<open>Searching\<close>

definition query_books :: "search_env \<Rightarrow> string \<Rightarrow> int \<Rightarrow> vector_index \<Rightarrow> string list res" where
  [service_defs]: "query_books env q top_k ix =
     (let q = js_trim q in
      if q = [] then Inl (BadRequest ''QUERY_REQUIRED'')
      else case se_embed env [q] of
        Inl e \<Rightarrow> Inl InternalServerError
      | Inr vs \<Rightarrow>
          (case nth_vector vs 0 of
             None \<Rightarrow> Inl InternalServerError
           | Some v \<Rightarrow>
               if v = [] then Inl InternalServerError
               else case se_nearest env v (if top_k > 0 then top_k else 10) ix of
                 Inl e \<Rightarrow> Inl InternalServerError
               | Inr ms \<Rightarrow> Inr (map fst ms)))"

datatype search_answer =
    No_matches
  | Found "book_card paginated"

definition MAX_SAFE_INTEGER :: int where "MAX_SAFE_INTEGER = 9007199254740991"

text \<open>The position of a book among the matches, the nearest first.\<close>

definition rank_of :: "int list \<Rightarrow> int \<Rightarrow> int" where
  "rank_of ids i =
     (case js_map_of (zip ids [0..<length ids]) i of None \<Rightarrow> MAX_SAFE_INTEGER | Some k \<Rightarrow> int k)"

definition search_books ::
    "search_env \<Rightarrow> string \<Rightarrow> int option \<Rightarrow> int option \<Rightarrow> int \<Rightarrow> vector_index \<Rightarrow> db \<Rightarrow> search_answer res" where
  [service_defs]: "search_books env q page limit lang ix d =
     (let q = js_trim q; l = (case limit of None \<Rightarrow> 10 | Some n \<Rightarrow> n); p = (case page of None \<Rightarrow> 1 | Some n \<Rightarrow> n) in
      if q = [] then Inl (BadRequest ''Q_REQUIRED'')
      else case query_books env q l ix of
        Inl e \<Rightarrow> Inl e
      | Inr ms \<Rightarrow>
          if ms = [] then Inr No_matches
          else (case those (map number_of_text (js_unique ms)) of
            None \<Rightarrow> Inl (JsError ''PrismaClientValidationError'')
          | Some ids \<Rightarrow>
              let cards = query_list_book (Some p) (Some l) ids lang d in
              Inr (Found (cards\<lparr>pg_items := sort_key (\<lambda>c. rank_of ids (card_id c)) (pg_items cards)\<rparr>))))"

section \<open>Lemmas\<close>

lemma map_filter_id: "List.map_filter f xs = List.map_filter id (map f xs)"
  by (simp add: List.map_filter_def filter_map comp_def)

lemma map_filter_append: "List.map_filter f (xs @ ys) = List.map_filter f xs @ List.map_filter f ys"
  by (simp add: List.map_filter_def)

text \<open>The reference: every row by itself, with its own vector.\<close>

definition row_records :: "search_env \<Rightarrow> (string \<Rightarrow> rat list) \<Rightarrow> db \<Rightarrow> search_row list \<Rightarrow> index_record list" where
  "row_records env vec d rs = List.map_filter (\<lambda>r. record_of_row d r (Some (vec (embedding_text env d r)))) rs"

lemma row_records_append: "row_records env vec d (rs @ ss) = row_records env vec d rs @ row_records env vec d ss"
  by (simp add: row_records_def map_filter_append)

lemma length_row_records: "length (row_records env vec d rs) \<le> length rs"
  by (simp add: row_records_def length_map_filter)

lemma records_of_chunk_rows:
  "records_of_chunk d chunk (map (vec \<circ> embedding_text env d) chunk) = row_records env vec d chunk"
proof -
  let ?f = "\<lambda>(j, r). record_of_row d r (nth_vector (map (vec \<circ> embedding_text env d) chunk) j)"
  have "map ?f (zip [0..<length chunk] chunk) = map (\<lambda>r. record_of_row d r (Some (vec (embedding_text env d r)))) chunk"
    by (rule nth_equalityI) (simp_all add: nth_vector_def)
  then show ?thesis
    unfolding records_of_chunk_def row_records_def by (subst (1 2) map_filter_id) simp
qed

lemma index_chunk_rows:
  assumes "\<forall>r\<in>set chunk. snd r \<noteq> []" and "\<And>ts. se_embed env ts = Inr (map vec ts)" and "\<And>rs. se_accepts env rs"
  shows "index_chunk env d chunk (i, s) ix =
    (Inr (i + length (row_records env vec d chunk), s + (length chunk - length (row_records env vec d chunk))),
     fold upsert_record (row_records env vec d chunk) ix)"
  using assms by (auto simp: index_chunk_def Let_def records_of_chunk_rows)

lemma index_loop_ends: "0 < n \<Longrightarrow> index_loop env d n rs acc ix \<noteq> None"
proof (induction "length rs" arbitrary: rs acc ix rule: less_induct)
  case less
  show ?case
  proof (cases "rs = []")
    case False
    have "index_loop env d n (drop n rs) acc' ix' \<noteq> None" for acc' ix'
      using False less.prems by (intro less.hyps) simp_all
    with False show ?thesis
      by (subst index_loop.simps) (simp split: prod.split sum.split)
  qed (simp add: index_loop.simps)
qed

lemma index_loop_rows:
  assumes "0 < n" and "\<forall>r\<in>set rs. snd r \<noteq> []" and "\<And>ts. se_embed env ts = Inr (map vec ts)" and "\<And>rs. se_accepts env rs"
  shows "index_loop env d n rs (i, s) ix =
    Some (Inr (i + length (row_records env vec d rs), s + (length rs - length (row_records env vec d rs))),
          fold upsert_record (row_records env vec d rs) ix)"
  using assms(2)
proof (induction "length rs" arbitrary: rs i s ix rule: less_induct)
  case less
  show ?case
  proof (cases "rs = []")
    case False
    let ?a = "take n rs" and ?b = "drop n rs"
    let ?na = "length (row_records env vec d ?a)" and ?nb = "length (row_records env vec d ?b)"
    have rows: "\<forall>r\<in>set ?a. snd r \<noteq> []" "\<forall>r\<in>set ?b. snd r \<noteq> []"
      using less.prems by (auto dest: in_set_takeD in_set_dropD)
    have chunk: "index_chunk env d ?a (i, s) ix = (Inr (i + ?na, s + (length ?a - ?na)), fold upsert_record (row_records env vec d ?a) ix)"
      using rows(1) assms(3,4) by (rule index_chunk_rows)
    have rest: "index_loop env d n ?b (i', s') ix' =
        Some (Inr (i' + ?nb, s' + (length ?b - ?nb)), fold upsert_record (row_records env vec d ?b) ix')" for i' s' ix'
      by (rule less.hyps) (use False assms(1) rows(2) in simp_all)
    have "index_loop env d n rs (i, s) ix =
        index_loop env d n ?b (i + ?na, s + (length ?a - ?na)) (fold upsert_record (row_records env vec d ?a) ix)"
      using False by (subst index_loop.simps) (simp add: chunk)
    then have "index_loop env d n rs (i, s) ix = Some (Inr (i + ?na + ?nb, s + (length ?a - ?na) + (length ?b - ?nb)),
        fold upsert_record (row_records env vec d ?a @ row_records env vec d ?b) ix)"
      unfolding rest fold_append comp_apply .
    moreover have records: "row_records env vec d ?a @ row_records env vec d ?b = row_records env vec d rs"
      using row_records_append [of env vec d ?a ?b] by simp
    moreover have indexed: "?na + ?nb = length (row_records env vec d rs)"
      by (simp only: records [symmetric] length_append)
    moreover have "s + (length ?a - ?na) + (length ?b - ?nb) = s + (length rs - length (row_records env vec d rs))"
    proof -
      have "length ?a + length ?b = length rs" by simp
      moreover have "?na \<le> length ?a" "?nb \<le> length ?b" by (rule length_row_records)+
      ultimately show ?thesis unfolding indexed [symmetric] by linarith
    qed
    ultimately show ?thesis by (simp only: add.assoc)
  qed (simp add: index_loop.simps row_records_def List.map_filter_simps)
qed

lemma active_books_priced: "\<forall>r\<in>set (find_active_book_first_variant d). snd r \<noteq> []"
proof -
  have "priced_variants d (bk_id b) \<noteq> []" if "public_book d b" for b
    using that by (auto simp: public_book_def priced_variants_def select_rows_def list_ex_iff filter_empty_conv)
  moreover have "sort_key f vs \<noteq> []" if "vs \<noteq> []" for f :: "variant_row \<Rightarrow> rat" and vs
    using that by (metis length_0_conv length_sort)
  ultimately show ?thesis by (auto simp: find_active_book_first_variant_def)
qed

section \<open>Properties\<close>


lemma length_sample_rows: "length (find_active_book_first_variant sample_catalog) = 2"
  by (simp add: find_active_book_first_variant_def sample_catalog_def select_rows_def public_book_def
      sample_book_def sample_priced_def priced_def)

definition sample_search :: search_env where
  "sample_search = \<lparr>se_chars = (\<lambda>_. ''t''), se_embed = (\<lambda>ts. Inr (map (\<lambda>_. [1]) ts)),
     se_nearest = (\<lambda>_ _ _. Inr [(''1'', 1)]), se_accepts = (\<lambda>_. True)\<rparr>"


text \<open>Without progress the loop never returns a result.\<close>

lemma index_loop_stuck:
  assumes "rs \<noteq> []"
  shows "index_loop env d 0 rs acc ix \<noteq> Some (Inr a, ix')"
proof
  assume "index_loop env d 0 rs acc ix = Some (Inr a, ix')"
  moreover have "n = 0 \<and> rs \<noteq> [] \<longrightarrow> (\<exists>e. fst r = Inl e)" if "index_loop env d n rs acc ix = Some r" for env d n rs acc ix r
  proof (rule index_loop.raw_induct [where P = "\<lambda>env d n rs acc ix r. n = 0 \<and> rs \<noteq> [] \<longrightarrow> (\<exists>e. fst r = Inl e)", OF _ that])
    fix loop env d n rs acc ix r
    assume IH: "\<And>env d n rs acc ix r. loop env d n rs acc ix = Some r \<Longrightarrow> n = 0 \<and> rs \<noteq> [] \<longrightarrow> (\<exists>e. fst r = Inl e)"
      and eq: "(if rs = [] then Some (Inr acc, ix)
        else case index_chunk env d (take n rs) acc ix of (Inl e, ix') \<Rightarrow> Some (Inl e, ix')
             | (Inr acc', ix') \<Rightarrow> loop env d n (drop n rs) acc' ix') = Some r"
    show "n = 0 \<and> rs \<noteq> [] \<longrightarrow> (\<exists>e. fst r = Inl e)"
    proof
      assume stuck: "n = 0 \<and> rs \<noteq> []"
      obtain x ix1 where chunk: "index_chunk env d (take n rs) acc ix = (x, ix1)" by (cases "index_chunk env d (take n rs) acc ix")
      show "\<exists>e. fst r = Inl e"
      proof (cases x)
        case (Inl e)
        then show ?thesis using eq stuck chunk by auto
      next
        case (Inr acc1)
        then have "loop env d n (drop n rs) acc1 ix1 = Some r" using eq stuck chunk by simp
        from IH [OF this] stuck show ?thesis by simp
      qed
    qed
  qed
  ultimately have "\<exists>e. fst (Inr a :: (nat \<times> nat) res, ix') = Inl e" using assms by blast
  then show False by simp
qed

text \<open>
  Reindexing ends for every batch size of at least one, whatever the outside services answer; for a size between
  zero and one, which the code rounds down to zero, it never returns a summary once there is a public book.
\<close>
theorem reindex_ends:
  assumes "0 < b"
  shows "(1 \<le> b \<longrightarrow> full_reindex_books env (Some b) d ix \<noteq> None)
    \<and> (b < 1 \<and> find_active_book_first_variant d \<noteq> [] \<longrightarrow> (\<forall>s ix'. full_reindex_books env (Some b) d ix \<noteq> Some (Inr s, ix')))"
proof (intro conjI impI)
  assume "1 \<le> b"
  then have "0 < normalize_batch_size (Some b)" using assms by (simp add: normalize_batch_size_def)
  then show "full_reindex_books env (Some b) d ix \<noteq> None"
    using index_loop_ends by (simp add: full_reindex_books_def Let_def)
next
  assume b: "b < 1 \<and> find_active_book_first_variant d \<noteq> []"
  then have "normalize_batch_size (Some b) = 0" using assms by (simp add: normalize_batch_size_def floor_eq_iff)
  then have "index_loop env d (normalize_batch_size (Some b)) (find_active_book_first_variant d) (0, 0) ix \<noteq> Some (Inr a, ix')" for a ix'
    using index_loop_stuck b by simp
  then show "\<forall>s ix'. full_reindex_books env (Some b) d ix \<noteq> Some (Inr s, ix')"
    by (auto simp: full_reindex_books_def Let_def elim!: await_InrD)
qed

lemma reindex_ends_witness:
  "full_reindex_books sample_search (Some 1) sample_catalog (\<lambda>_. None) \<noteq> None
   \<and> (\<forall>s ix'. full_reindex_books sample_search (Some (1 / 2)) sample_catalog (\<lambda>_. None) \<noteq> Some (Inr s, ix'))"
proof -
  have "find_active_book_first_variant sample_catalog \<noteq> []" using length_sample_rows by force
  then show ?thesis
    using reindex_ends [of 1 sample_search sample_catalog "\<lambda>_. None"] reindex_ends [of "1 / 2" sample_search sample_catalog "\<lambda>_. None"]
    by simp
qed

text \<open>
  Only the first page of a search holds anything: the code asks the index for as many matches as a page has and
  then takes the requested page of them, so every later page is empty, while its total counts every public book
  with a translation.
\<close>
theorem later_search_pages_empty:
  assumes "\<And>v k ix ms. 0 < k \<Longrightarrow> se_nearest env v k ix = Inr ms \<Longrightarrow> int (length ms) \<le> k"
    and "wf_table bk_id (books d)" and "0 < limit" and "2 \<le> page"
    and "search_books env q (Some page) (Some limit) lang ix d = Inr (Found cards)"
  shows "pg_items cards = [] \<and> pg_total cards = count_books_for_list lang None d"
proof -
  from assms(5) obtain ms ids where ms: "query_books env (js_trim q) limit ix = Inr ms"
    and ids: "those (map number_of_text (js_unique ms)) = Some ids"
    and cards: "cards = (query_list_book (Some page) (Some limit) ids lang d)
      \<lparr>pg_items := sort_key (\<lambda>c. rank_of ids (card_id c)) (pg_items (query_list_book (Some page) (Some limit) ids lang d))\<rparr>"
    by (auto simp: search_books_def Let_def split: if_splits sum.splits option.splits)
  from ms obtain v found where "se_nearest env v limit ix = Inr found" and "ms = map fst found"
    using assms(3) by (auto simp: query_books_def Let_def split: if_splits sum.splits option.splits)
  then have "int (length ms) \<le> limit" using assms(1,3) by simp
  moreover have "length ids \<le> length ms"
    using those_length [OF ids] length_remdups_leq [of "rev ms"] by (simp add: js_unique_def)
  ultimately have few: "length ids \<le> nat limit" using assms(3) by linarith
  let ?bs = "select_rows (\<lambda>b. bk_id b \<in> set ids \<and> public_book d b) (books d)"
  have "distinct (map bk_id ?bs)"
    using assms(2) by (auto simp: wf_table_def select_rows_def intro: distinct_map_filter)
  then have "length ?bs = card (bk_id ` set ?bs)" using distinct_card [of "map bk_id ?bs"] by simp
  also have "\<dots> \<le> card (set ids)" by (rule card_mono) auto
  also have "\<dots> \<le> length ids" by (rule card_length)
  finally have "length ?bs \<le> nat limit" using few by simp
  also have "nat limit \<le> nat ((page - 1) * limit)"
    using assms(3,4) mult_right_mono [of 1 "page - 1" limit] by (intro nat_mono) simp
  finally have "page_slice page limit ?bs = []" by (simp add: page_slice_def)
  then have "find_books_by_ids ids lang page limit d = []" by (simp add: find_books_by_ids_def)
  then show ?thesis
    using assms(3,4) by (simp add: cards query_list_book_def get_pagination_params_def build_paginated_result_def)
qed

lemma later_search_pages_empty_witness:
  "\<exists>cards. search_books sample_search ''a'' (Some 2) (Some 1) 1 (\<lambda>_. None) sample_catalog = Inr (Found cards)
     \<and> pg_items cards = [] \<and> pg_total cards = 2"
proof -
  have trim: "js_trim ''a'' = ''a''" "js_trim ''1'' = ''1''" by (simp_all add: js_trim_def is_white_def char_code_def)
  have number: "number_of_text ''1'' = Some 1"
    by (simp add: number_of_text_def trim is_digit_def char_code_def digits_value_def digit_value_def)
  have "\<exists>cards. search_books sample_search ''a'' (Some 2) (Some 1) 1 (\<lambda>_. None) sample_catalog = Inr (Found cards)"
    by (simp add: search_books_def query_books_def sample_search_def trim nth_vector_def js_unique_def number Let_def)
  then obtain cards where cards: "search_books sample_search ''a'' (Some 2) (Some 1) 1 (\<lambda>_. None) sample_catalog = Inr (Found cards)" ..
  have "wf_table bk_id (books sample_catalog)"
    by (simp add: wf_table_def sample_catalog_def sample_book_def)
  moreover have "count_books_for_list 1 None sample_catalog = 2"
    by (simp add: count_books_for_list_def count_rows_def build_book_list_where_def sample_catalog_def public_book_def
        translated_def sample_book_def sample_translation_def sample_priced_def priced_def)
  moreover have "int (length ms) \<le> k" if "0 < k" and "se_nearest sample_search v k ix = Inr ms" for v k ix ms
    using that by (auto simp: sample_search_def)
  ultimately show ?thesis
    using cards later_search_pages_empty [OF _ _ _ _ cards] by auto
qed

end
