(* ===== verification/Routes.thy ===== *)
theory Routes
  imports Rbac Recommend
begin

text \<open>
  The HTTP surface of the program: controllers as the tables their decorators declare
  (\<open>src/src/common/security/decorators\<close>), the guards a request meets before its handler runs
  (\<open>src/src/common/security/security.module.ts\<close> binds \<open>AuthGuard\<close> and \<open>PermissionsGuard\<close> for every route, a
  controller or a handler adds others with \<open>@UseGuards\<close>), and the answers the interceptor and the exception filters
  write (\<open>src/src/common/interceptors\<close>, \<open>src/src/common/filters\<close>). The guards themselves are those of theories Auth
  and Rbac. The framework runs the guards of the application, of the controller and of the handler in this order and
  stops at the first that refuses; that is its documented behaviour.
\<close>

section \<open>Permission codes\<close>

datatype permission_code =
    GUEST_SESSION_READ
  | ROLE_READ
  | PERMISSION_READ
  | PERMISSION_UPDATE
  | ROLE_PERMISSION_GRANT
  | ROLE_PERMISSION_READ_BY_ROLE
  | ROLE_PERMISSION_READ_BY_PERMISSION
  | DEVICE_READ
  | EMAIL_OUTBOX_READ
  | SEARCH_REINDEX_BOOKS
  | AUTHOR_CREATE
  | PUBLISHER_CREATE
  | CATEGORY_READ
  | CATEGORY_CREATE
  | SUPPLIER_READ
  | SUPPLIER_CREATE
  | SUPPLIER_UPDATE
  | BOOK_READ
  | BOOK_CREATE
  | BOOK_UPDATE
  | BOOK_DELETE
  | BOOK_TRANSLATION_CREATE
  | BOOK_SNAPSHOT_READ
  | BOOK_VARIANT_READ
  | BOOK_VARIANT_UPDATE
  | ORDER_READ
  | ORDER_UPDATE
  | PURCHASE_ORDER_READ
  | PURCHASE_ORDER_CREATE
  | PURCHASE_ORDER_APPROVE
  | PURCHASE_ORDER_TRANSFER
  | STOCK_IMPORT_READ
  | STOCK_IMPORT_CREATE
  | USER_READ
  | UPLOAD_MANAGE

primrec permission_string :: "permission_code \<Rightarrow> string" where
  "permission_string GUEST_SESSION_READ = ''guest_session:read''"
| "permission_string ROLE_READ = ''role:read''"
| "permission_string PERMISSION_READ = ''permission:read''"
| "permission_string PERMISSION_UPDATE = ''permission:update''"
| "permission_string ROLE_PERMISSION_GRANT = ''role_permission:grant''"
| "permission_string ROLE_PERMISSION_READ_BY_ROLE = ''role_permission:read_by_role''"
| "permission_string ROLE_PERMISSION_READ_BY_PERMISSION = ''role_permission:read_by_permission''"
| "permission_string DEVICE_READ = ''device:read''"
| "permission_string EMAIL_OUTBOX_READ = ''email_outbox:read''"
| "permission_string SEARCH_REINDEX_BOOKS = ''search:reindex_books''"
| "permission_string AUTHOR_CREATE = ''author:create''"
| "permission_string PUBLISHER_CREATE = ''publisher:create''"
| "permission_string CATEGORY_READ = ''category:read''"
| "permission_string CATEGORY_CREATE = ''category:create''"
| "permission_string SUPPLIER_READ = ''supplier:read''"
| "permission_string SUPPLIER_CREATE = ''supplier:create''"
| "permission_string SUPPLIER_UPDATE = ''supplier:update''"
| "permission_string BOOK_READ = ''book:read''"
| "permission_string BOOK_CREATE = ''book:create''"
| "permission_string BOOK_UPDATE = ''book:update''"
| "permission_string BOOK_DELETE = ''book:delete''"
| "permission_string BOOK_TRANSLATION_CREATE = ''book_translation:create''"
| "permission_string BOOK_SNAPSHOT_READ = ''book_snapshot:read''"
| "permission_string BOOK_VARIANT_READ = ''book_variant:read''"
| "permission_string BOOK_VARIANT_UPDATE = ''book_variant:update''"
| "permission_string ORDER_READ = ''order:read''"
| "permission_string ORDER_UPDATE = ''order:update''"
| "permission_string PURCHASE_ORDER_READ = ''purchase_order:read''"
| "permission_string PURCHASE_ORDER_CREATE = ''purchase_order:create''"
| "permission_string PURCHASE_ORDER_APPROVE = ''purchase_order:approve''"
| "permission_string PURCHASE_ORDER_TRANSFER = ''purchase_order:transfer''"
| "permission_string STOCK_IMPORT_READ = ''stock_import:read''"
| "permission_string STOCK_IMPORT_CREATE = ''stock_import:create''"
| "permission_string USER_READ = ''user:read''"
| "permission_string UPLOAD_MANAGE = ''upload:manage''"

section \<open>Controllers\<close>

datatype guard_class = AuthGuard | PermissionsGuard | RefreshGuard | PaymentGuard | ShopperSessionGuard

datatype decorator =
    Is_public
  | Is_refresh
  | Is_payment
  | Require_permission permission_code
  | Use_guards "guard_class list"
  | Http_code int
  | Skip_throttle
  | Use_file_interceptor

datatype http_method = GET | POST | PATCH | DELETE

text \<open>Where the parameters of a handler come from; \<open>_or_null\<close> when their type admits null.\<close>

datatype param_source =
    From_body | From_query | From_query_text string | From_path string | From_path_int string
  | From_user | From_user_or_null | From_guest | From_guest_or_null | From_session
  | From_language_id | From_language_code | From_user_agent | From_ip | From_origin
  | From_access_token | From_header string | From_request | From_response | From_file

text \<open>A handler: verb, path, decorators, name, parameters and the service calls it hands them to.\<close>

record route =
  rt_verb :: http_method
  rt_path :: string
  rt_decorators :: "decorator list"
  rt_handler :: string
  rt_params :: "param_source list"
  rt_calls :: "string list"

record controller =
  ct_name :: string
  ct_paths :: "string list"
  ct_decorators :: "decorator list"
  ct_routes :: "route list"

definition route ::
    "http_method \<Rightarrow> string \<Rightarrow> decorator list \<Rightarrow> string \<Rightarrow> param_source list \<Rightarrow> string list \<Rightarrow> route" where
  "route verb path ds handler ps calls =
     \<lparr>rt_verb = verb, rt_path = path, rt_decorators = ds, rt_handler = handler, rt_params = ps, rt_calls = calls\<rparr>"

text \<open>\<open>getAllAndOverride\<close>: what the handler declares, else what its class declares.\<close>

definition metadata :: "(decorator \<Rightarrow> 'a option) \<Rightarrow> controller \<Rightarrow> route \<Rightarrow> 'a option" where
  "metadata f c r =
     (case List.map_filter f (rt_decorators r) of
        x # _ \<Rightarrow> Some x
      | [] \<Rightarrow> (case List.map_filter f (ct_decorators c) of x # _ \<Rightarrow> Some x | [] \<Rightarrow> None))"

fun permission_mark :: "decorator \<Rightarrow> permission_code option" where
  "permission_mark (Require_permission p) = Some p"
| "permission_mark _ = None"

definition flagged :: "decorator \<Rightarrow> controller \<Rightarrow> route \<Rightarrow> bool" where
  "flagged m c r \<longleftrightarrow> metadata (\<lambda>x. if x = m then Some True else None) c r = Some True"

definition required_permission :: "controller \<Rightarrow> route \<Rightarrow> permission_code option" where
  "required_permission = metadata permission_mark"

fun used_guards :: "decorator \<Rightarrow> guard_class list" where
  "used_guards (Use_guards gs) = gs"
| "used_guards _ = []"

definition app_guards :: "guard_class list" where
  "app_guards = [AuthGuard, PermissionsGuard]"

definition route_guards :: "controller \<Rightarrow> route \<Rightarrow> guard_class list" where
  "route_guards c r = concat (map used_guards (ct_decorators c)) @ concat (map used_guards (rt_decorators r))"

section \<open>Guards of a request\<close>

record http_request =
  hr_url :: string
  hr_shopper :: shopper_request
  hr_refresh :: header_value

text \<open>What the guards leave in the request for the handler.\<close>

record request_context =
  cx_user :: "jwt_payload option"
  cx_session :: "session_row option"
  cx_guest :: "int option"

record server =
  sv_db :: db
  sv_cache :: permission_cache

text \<open>
  The environment: that of theory Auth, the configured key of the payment provider, and the index and the text the
  database client attaches to an error.
\<close>

record http_env =
  he_auth :: auth_env
  he_api_key :: "string option"
  he_index_of :: "exn \<Rightarrow> string"
  he_text_of :: "exn \<Rightarrow> string"

fun run_guard ::
    "http_env \<Rightarrow> http_request \<Rightarrow> controller \<Rightarrow> route \<Rightarrow> guard_class \<Rightarrow> request_context
       \<Rightarrow> (server, request_context) eff" where
  "run_guard env rq c r AuthGuard cx s =
     (map_sum id (\<lambda>u. case u of None \<Rightarrow> cx | Some p \<Rightarrow> cx\<lparr>cx_user := Some p\<rparr>)
        (auth_guard (he_auth env) (flagged Is_public c r) (flagged Is_refresh c r)
          (sr_authorization (hr_shopper rq)) (sv_db s)), s)"
| "run_guard env rq c r PermissionsGuard cx s =
     (case required_permission c r of
        None \<Rightarrow> (Inr cx, s)
      | Some code \<Rightarrow>
          (case cx_user cx of
             None \<Rightarrow> (Inl TypeError, s)
           | Some p \<Rightarrow>
               (case number_of_text (jp_sub p) of
                  None \<Rightarrow> (Inl (JsError ''PrismaClientValidationError''), s)
                | Some user \<Rightarrow>
                    let (allowed, cache) =
                      guard_request (Some (permission_string code)) user (ae_now (he_auth env)) (sv_cache s) (sv_db s)
                    in (map_sum id (\<lambda>_. cx) allowed, s\<lparr>sv_cache := cache\<rparr>))))"
| "run_guard env rq c r RefreshGuard cx s =
     (let (res, d) = refresh_guard (he_auth env) (flagged Is_refresh c r) (hr_refresh rq) (sv_db s)
      in (map_sum id (\<lambda>x. case x of None \<Rightarrow> cx | Some t \<Rightarrow> cx\<lparr>cx_session := Some t\<rparr>) res, s\<lparr>sv_db := d\<rparr>))"
| "run_guard env rq c r ShopperSessionGuard cx s =
     (let (res, d) = shopper_guard (he_auth env) (hr_shopper rq) (sv_db s)
      in (map_sum id (\<lambda>(u, g). cx\<lparr>cx_user := (if u = None then cx_user cx else u), cx_guest := Some g\<rparr>) res,
          s\<lparr>sv_db := d\<rparr>))"
| "run_guard env rq c r PaymentGuard cx s =
     (map_sum id (\<lambda>_. cx)
        (payment_guard (flagged Is_payment c r) (he_api_key env) (sr_authorization (hr_shopper rq))), s)"

primrec pass_guards ::
    "http_env \<Rightarrow> http_request \<Rightarrow> controller \<Rightarrow> route \<Rightarrow> guard_class list \<Rightarrow> request_context
       \<Rightarrow> (server, request_context) eff" where
  "pass_guards env rq c r [] cx s = (Inr cx, s)"
| "pass_guards env rq c r (g # gs) cx s =
     await (run_guard env rq c r g cx s) (\<lambda>cx s. pass_guards env rq c r gs cx s)"

definition admit :: "http_env \<Rightarrow> http_request \<Rightarrow> controller \<Rightarrow> route \<Rightarrow> (server, request_context) eff" where
  "admit env rq c r =
     pass_guards env rq c r (app_guards @ route_guards c r) \<lparr>cx_user = None, cx_session = None, cx_guest = None\<rparr>"

section \<open>Answers\<close>

text \<open>
  The envelope of an answer. The filter for errors of the database client writes no \<open>success\<close> flag and no path; an
  error that is neither an HTTP exception nor a known request error of that client reaches no filter, and the
  framework answers it with 500.
\<close>

record 'a http_answer =
  ha_success :: "bool option"
  ha_status :: int
  ha_message :: "string option"
  ha_data :: "'a option"
  ha_path :: "string option"

definition answer_success :: "int \<Rightarrow> 'a \<Rightarrow> 'a http_answer" where
  "answer_success status data =
     \<lparr>ha_success = Some True, ha_status = status, ha_message = None, ha_data = Some data, ha_path = None\<rparr>"

definition answer_error :: "int \<Rightarrow> string \<Rightarrow> string \<Rightarrow> 'a http_answer" where
  "answer_error status message path =
     \<lparr>ha_success = Some False, ha_status = status, ha_message = Some message, ha_data = None, ha_path = Some path\<rparr>"

fun http_exception :: "exn \<Rightarrow> (int \<times> string) option" where
  "http_exception (BadRequest m) = Some (400, m)"
| "http_exception (Unauthorized m) = Some (401, m)"
| "http_exception (Forbidden m) = Some (403, m)"
| "http_exception (NotFound m) = Some (404, m)"
| "http_exception (ConflictExn m) = Some (409, m)"
| "http_exception (TooManyRequests m) = Some (429, m)"
| "http_exception InternalServerError = Some (500, ''Internal Server Error'')"
| "http_exception _ = None"

definition unique_index_message :: "string \<Rightarrow> string option" where
  "unique_index_message =
     [''users_email_key'' \<mapsto> ''Email already exists'', ''users_phone_number_key'' \<mapsto> ''Phone number already exists'']"

fun prisma_error :: "http_env \<Rightarrow> exn \<Rightarrow> (int \<times> string) option" where
  "prisma_error env P2002 =
     Some (409, case unique_index_message (he_index_of env P2002) of Some m \<Rightarrow> m | None \<Rightarrow> ''Duplicate value (unique constraint)'')"
| "prisma_error env P2025 = Some (404, ''Record not found'')"
| "prisma_error env P2003 = Some (400, he_text_of env P2003)"
| "prisma_error env _ = None"

definition respond_error :: "http_env \<Rightarrow> string \<Rightarrow> exn \<Rightarrow> 'a http_answer" where
  "respond_error env url e =
     (case http_exception e of
        Some (status, m) \<Rightarrow> answer_error status m url
      | None \<Rightarrow>
          (case prisma_error env e of
             Some (status, m) \<Rightarrow>
               \<lparr>ha_success = None, ha_status = status, ha_message = Some m, ha_data = None, ha_path = None\<rparr>
           | None \<Rightarrow>
               \<lparr>ha_success = None, ha_status = 500, ha_message = Some ''Internal server error'', ha_data = None,
                ha_path = None\<rparr>))"

fun status_mark :: "decorator \<Rightarrow> int option" where
  "status_mark (Http_code n) = Some n"
| "status_mark _ = None"

definition success_status :: "route \<Rightarrow> int" where
  "success_status r =
     (case List.map_filter status_mark (rt_decorators r) of
        n # _ \<Rightarrow> n
      | [] \<Rightarrow> (if rt_verb r = POST then 201 else 200))"

text \<open>A request to a route: its guards, then its handler on the database, then the answer.\<close>

definition serve ::
    "http_env \<Rightarrow> http_request \<Rightarrow> controller \<Rightarrow> route \<Rightarrow> (request_context \<Rightarrow> (db, 'a) eff) \<Rightarrow> server
       \<Rightarrow> 'a http_answer \<times> server" where
  "serve env rq c r handler s =
     (case admit env rq c r s of
        (Inl e, s') \<Rightarrow> (respond_error env (hr_url rq) e, s')
      | (Inr cx, s') \<Rightarrow>
          (let (res, d) = handler cx (sv_db s') in
             (case res of
                Inl e \<Rightarrow> respond_error env (hr_url rq) e
              | Inr x \<Rightarrow> answer_success (success_status r) x,
              s'\<lparr>sv_db := d\<rparr>)))"

section \<open>Parameters\<close>

text \<open>The decorators that read the request (\<open>src/src/common/decorators\<close>) and the language of a request.\<close>

definition get_access_token :: "http_request \<Rightarrow> string option" where
  "get_access_token rq = bearer_token (sr_authorization (hr_shopper rq))"

definition get_origin_url :: "string option \<Rightarrow> string" where
  "get_origin_url origin = (case origin of Some u \<Rightarrow> u | None \<Rightarrow> ''localhost:3001'')"

definition language_candidate :: "header_value \<Rightarrow> header_value \<Rightarrow> string option" where
  "language_candidate query header =
     (let text_of = (\<lambda>v. case v of Header t \<Rightarrow> if js_trim t \<noteq> [] then Some t else None | _ \<Rightarrow> None) in
      case text_of query of Some t \<Rightarrow> Some t | None \<Rightarrow> text_of header)"

section \<open>Cookies\<close>

record cookie_options =
  co_http_only :: bool
  co_same_site :: string
  co_secure :: bool
  co_path :: string
  co_max_age :: "int option"

text \<open>\<open>refresh_seconds\<close> is \<open>REFRESH_TOKEN_TIME\<close> where it is a number.\<close>

definition device_cookie_options :: "bool \<Rightarrow> int option \<Rightarrow> cookie_options" where
  "device_cookie_options is_dev refresh_seconds =
     \<lparr>co_http_only = True, co_same_site = ''lax'', co_secure = \<not> is_dev, co_path = ''/'',
      co_max_age = map_option (\<lambda>s. s * 1000) refresh_seconds\<rparr>"

definition guest_cookie_options :: cookie_options where
  "guest_cookie_options =
     \<lparr>co_http_only = True, co_same_site = ''lax'', co_secure = False, co_path = ''/'',
      co_max_age = Some (1000 * 60 * 60 * 24 * 5)\<rparr>"

section \<open>Lemmas\<close>

lemma update_guest_seen_cases:
  "(\<exists>s d'. update_guest_seen now g d = (Inr (Some s), d'))
   \<or> (\<exists>d'. update_guest_seen now g d = (Inr None, d') \<and> guest_of d' g = None)"
proof (cases "count_rows (\<lambda>s. gs_id s = g) (guest_sessions d) = 0")
  case True
  then show ?thesis
    by (auto simp: update_guest_seen_def Let_def guest_of_def find_row_None count_rows_def filter_empty_conv)
next
  case False
  then obtain s where "find_row (\<lambda>s. gs_id s = g) (guest_sessions d) = Some s"
    by (cases "find_row (\<lambda>s. gs_id s = g) (guest_sessions d)") (auto simp: find_row_None count_rows_def filter_empty_conv)
  with False show ?thesis
    by (simp add: update_guest_seen_def Let_def guest_of_def find_row_map_rows_same)
qed

lemma shopper_guard_total: "\<exists>x d'. shopper_guard env r d = (Inr x, d')"
proof -
  have "\<exists>g d'. attach_guest_session env r d = (Inr g, d')"
  proof (cases "sr_guest_cookie r")
    case None
    then show ?thesis by (simp add: attach_guest_session_def create_guest_session_def)
  next
    case (Some g)
    show ?thesis
      using update_guest_seen_cases [of "ae_now env" g d]
      by (auto simp: attach_guest_session_def create_guest_session_def Some)
  qed
  then show ?thesis by (auto simp: shopper_guard_def Let_def)
qed

lemma pass_guards_established:
  assumes "pass_guards env rq c r gs cx s = (Inr cx', s')" and "g \<in> set gs"
    and sets: "\<And>cx s cx' s'. run_guard env rq c r g cx s = (Inr cx', s') \<Longrightarrow> Q cx'"
    and keeps: "\<And>h cx s cx' s'. h \<in> set gs \<Longrightarrow> run_guard env rq c r h cx s = (Inr cx', s') \<Longrightarrow> Q cx \<Longrightarrow> Q cx'"
  shows "Q cx'"
proof -
  have kept: "Q cx'" if "pass_guards env rq c r hs cx s = (Inr cx', s')" "Q cx" "set hs \<subseteq> set gs" for hs cx s cx' s'
    using that by (induction hs arbitrary: cx s) (auto elim!: await_InrD dest: keeps)
  have "Q cx'" if "pass_guards env rq c r hs cx s = (Inr cx', s')" "g \<in> set hs" "set hs \<subseteq> set gs" for hs cx s cx' s'
    using that
  proof (induction hs arbitrary: cx s)
    case (Cons h hs)
    then obtain x t where step: "run_guard env rq c r h cx s = (Inr x, t)" "pass_guards env rq c r hs x t = (Inr cx', s')"
      by (auto elim!: await_InrD)
    show ?case
    proof (cases "h = g")
      case True
      with step(1) have "Q x" using sets by blast
      with step(2) Cons.prems(3) show ?thesis using kept by force
    next
      case False
      with Cons step(2) show ?thesis by auto
    qed
  qed simp
  with assms(1,2) show ?thesis by blast
qed

lemma run_guard_keeps:
  assumes "run_guard env rq c r g cx s = (Inr cx', s')"
  shows "cx_user cx \<noteq> None \<Longrightarrow> cx_user cx' \<noteq> None"
    and "cx_guest cx \<noteq> None \<Longrightarrow> cx_guest cx' \<noteq> None"
    and "cx_session cx \<noteq> None \<Longrightarrow> cx_session cx' \<noteq> None"
    and "g \<noteq> AuthGuard \<Longrightarrow> g \<noteq> ShopperSessionGuard \<Longrightarrow> cx_user cx' = cx_user cx"
  using assms
  by (cases g; auto simp: Let_def map_sum_def split: prod.splits sum.splits option.splits)+

lemma auth_guard_InrD:
  assumes "auth_guard env False False h d = Inr x"
  obtains token p where "bearer_token h = Some token" and "ae_verify env token = Some p"
    and "\<not> is_revoked (ae_sha256 env token) d" and "x = Some p"
  proof -
  from assms have "js_truthy (bearer_token h)" by (auto simp: auth_guard_def split: if_splits)
  then obtain token where token: "bearer_token h = Some token" by (cases "bearer_token h") (auto simp: js_truthy_def)
  show thesis
  proof (cases "ae_verify env token")
    case (Some p)
    with assms token have "\<not> is_revoked (ae_sha256 env token) d" "x = Some p"
      by (simp_all add: auth_guard_def split: if_splits)
    with token Some show thesis by (rule that)
  qed (use assms token in \<open>simp add: auth_guard_def split: if_splits\<close>)
qed

lemma admit_user:
  assumes "admit env rq c r s = (Inr cx, s')" and "\<not> flagged Is_public c r" and "\<not> flagged Is_refresh c r"
  shows "cx_user cx \<noteq> None"
proof (rule pass_guards_established [OF assms(1) [unfolded admit_def], where g = AuthGuard])
  show "cx_user cx' \<noteq> None" if "run_guard env rq c r AuthGuard cx s = (Inr cx', s')" for cx s cx' s'
    using that assms(2,3)
    by (cases "auth_guard (he_auth env) False False (sr_authorization (hr_shopper rq)) (sv_db s)")
      (auto elim: auth_guard_InrD)
  show "cx_user cx' \<noteq> None" if "run_guard env rq c r h cx s = (Inr cx', s')" "cx_user cx \<noteq> None" for h cx s cx' s'
    using run_guard_keeps(1) [OF that] .
qed (simp add: app_guards_def)

lemma admit_guest:
  assumes "admit env rq c r s = (Inr cx, s')" and "ShopperSessionGuard \<in> set (route_guards c r)"
  shows "cx_guest cx \<noteq> None"
proof (rule pass_guards_established [OF assms(1) [unfolded admit_def], where g = ShopperSessionGuard])
  show "cx_guest cx' \<noteq> None" if "run_guard env rq c r ShopperSessionGuard cx s = (Inr cx', s')" for cx s cx' s'
    using that shopper_guard_total [of "he_auth env" "hr_shopper rq" "sv_db s"] by (auto simp: split_beta)
  show "cx_guest cx' \<noteq> None" if "run_guard env rq c r h cx s = (Inr cx', s')" "cx_guest cx \<noteq> None" for h cx s cx' s'
    using run_guard_keeps(2) [OF that] .
qed (use assms(2) in simp)

lemma refresh_guard_InrD:
  assumes "refresh_guard env True h d = (Inr x, d')"
  shows "x \<noteq> None"
proof (cases "refresh_header h")
  case (Some token)
  show ?thesis
  proof (cases "find_session_by_hash (ae_sha256 env token) d")
    case None
    with assms Some show ?thesis by (simp add: refresh_guard_def)
  next
    case (Some t)
    then have "x \<in> {Some t, None}" and "x = None \<Longrightarrow> False"
      using assms \<open>refresh_header h = Some token\<close>
      by (simp_all add: refresh_guard_def split: if_splits option.splits) (auto elim!: await_InrD)
    then show ?thesis by blast
  qed
qed (use assms in \<open>simp add: refresh_guard_def\<close>)

lemma admit_session:
  assumes "admit env rq c r s = (Inr cx, s')" and "RefreshGuard \<in> set (route_guards c r)" and "flagged Is_refresh c r"
  shows "cx_session cx \<noteq> None"
proof (rule pass_guards_established [OF assms(1) [unfolded admit_def], where g = RefreshGuard])
  show "cx_session cx' \<noteq> None" if "run_guard env rq c r RefreshGuard cx s = (Inr cx', s')" for cx s cx' s'
  proof -
    obtain res d where "refresh_guard (he_auth env) True (hr_refresh rq) (sv_db s) = (res, d)" by fastforce
    with that assms(3) show ?thesis by (cases res) (auto dest: refresh_guard_InrD)
  qed
  show "cx_session cx' \<noteq> None" if "run_guard env rq c r h cx s = (Inr cx', s')" "cx_session cx \<noteq> None" for h cx s cx' s'
    using run_guard_keeps(3) [OF that] .
qed (use assms(2) in simp)

lemma pass_guards_user:
  assumes "pass_guards env rq c r gs cx s = (Inr cx', s')" and "AuthGuard \<notin> set gs" and "ShopperSessionGuard \<notin> set gs"
  shows "cx_user cx' = cx_user cx"
  using assms by (induction gs arbitrary: cx s) (auto elim!: await_InrD dest!: run_guard_keeps(4))

text \<open>An admitted request to a guarded route carries a genuine token of a user who is granted the permission.\<close>

lemma admit_granted:
  assumes "admit env rq c r s = (Inr cx, s')" and "required_permission c r = Some code"
    and "\<not> flagged Is_public c r" and "\<not> flagged Is_refresh c r"
    and "AuthGuard \<notin> set (route_guards c r)" and "ShopperSessionGuard \<notin> set (route_guards c r)"
    and "timed_cache.truthful (ae_now (he_auth env)) (\<lambda>i. permission_codes_of_role i (sv_db s)) (sv_cache s)"
  shows "\<exists>token p user. bearer_token (sr_authorization (hr_shopper rq)) = Some token
    \<and> ae_verify (he_auth env) token = Some p \<and> \<not> is_revoked (ae_sha256 (he_auth env) token) (sv_db s)
    \<and> number_of_text (jp_sub p) = Some user \<and> granted user (permission_string code) (sv_db s) \<and> cx_user cx = Some p"
proof -
  let ?h = "sr_authorization (hr_shopper rq)"
  from assms(1) obtain cx1 s1 cx2 s2 where
    auth: "run_guard env rq c r AuthGuard \<lparr>cx_user = None, cx_session = None, cx_guest = None\<rparr> s = (Inr cx1, s1)"
    and perm: "run_guard env rq c r PermissionsGuard cx1 s1 = (Inr cx2, s2)"
    and rest: "pass_guards env rq c r (route_guards c r) cx2 s2 = (Inr cx, s')"
    by (auto simp: admit_def app_guards_def simp del: run_guard.simps elim!: await_InrD)
  from auth assms(3,4) obtain x where x: "auth_guard (he_auth env) False False ?h (sv_db s) = Inr x"
    and cx1: "cx1 = (case x of None \<Rightarrow> \<lparr>cx_user = None, cx_session = None, cx_guest = None\<rparr>
      | Some p \<Rightarrow> \<lparr>cx_user = Some p, cx_session = None, cx_guest = None\<rparr>)" and s1: "s1 = s"
    by (cases "auth_guard (he_auth env) False False ?h (sv_db s)") (auto split: option.splits)
  from x obtain token p where token: "bearer_token ?h = Some token" "ae_verify (he_auth env) token = Some p"
    "\<not> is_revoked (ae_sha256 (he_auth env) token) (sv_db s)" and p: "x = Some p"
    by (rule auth_guard_InrD)
  with perm assms(2) obtain user where user: "number_of_text (jp_sub p) = Some user"
    and allowed: "fst (guard_request (Some (permission_string code)) user (ae_now (he_auth env)) (sv_cache s) (sv_db s)) = Inr ()"
    and cx2: "cx2 = cx1"
    by (auto simp: cx1 s1 Let_def split_beta map_sum_def split: option.splits sum.splits)
  have "granted user (permission_string code) (sv_db s)"
    using allowed guard_decides [OF assms(7)] by blast
  moreover have "cx_user cx = Some p"
    using pass_guards_user [OF rest assms(5,6)] by (simp add: cx2 cx1 p)
  ultimately show ?thesis using token user by blast
qed

lemma auth_guard_InlD: "auth_guard env pub ref h d = Inl e \<Longrightarrow> e = Unauthorized ''Unauthorized''"
  by (auto simp: auth_guard_def Let_def split: if_splits option.splits)

lemma refresh_guard_InlD:
  assumes "refresh_guard env ref h d = (Inl e, d')"
  shows "e = Unauthorized ''Unauthorized''"
proof -
  have "session_of d (ses_id t) \<noteq> None" if "find_session_by_hash k d = Some t" for t k
    using that by (auto simp: session_of_def find_session_by_hash_def find_row_None dest: find_row_SomeD)
  then have "mark_session_expired now (ses_id t) d = (Inr (), snd (mark_session_expired now (ses_id t) d))"
    if "find_session_by_hash k d = Some t" for t k now
    using that by (fastforce simp: mark_session_expired_def update_session_def)
  then have "await (mark_session_expired now (ses_id t) d) k' = k' () (snd (mark_session_expired now (ses_id t) d))"
    if "find_session_by_hash k d = Some t" for t k now and k' :: "unit \<Rightarrow> session_row option action"
    using that by (metis await_simps(2))
  with assms show ?thesis
    by (auto simp: refresh_guard_def split: if_splits option.splits)
qed

lemma payment_guard_InlD: "payment_guard b k h = Inl e \<Longrightarrow> e = Unauthorized ''Unauthorized''"
  by (auto simp: payment_guard_def split: if_splits option.splits)

lemma guard_request_InlD: "fst (guard_request q user now cache d) = Inl e \<Longrightarrow> e = Forbidden ''Forbidden''"
  by (auto simp: guard_request_def permissions_guard_def Let_def split: if_splits option.splits)

end
