(* ===== verification/Endpoints.thy ===== *)
theory Endpoints
  imports Routes Reference_Data Orders
begin

text \<open>
  The controllers of the program, one definition for each class under \<open>src/src/modules\<close> that is bound to a path: its
  decorators and, in their order, its handlers with verb, path, decorators, parameters and the service calls they hand
  the parameters to. The decorators that only describe the interface (\<open>@Api...\<close>) are left out. The properties hold
  for every request to every one of these routes.
\<close>

section \<open>The controllers\<close>

definition admin_book_variant_controller :: controller where
  "admin_book_variant_controller =
     \<lparr>ct_name = ''AdminBookVariantController'', ct_paths = [''admin/book-variants''], ct_decorators = [],
      ct_routes =
        [route GET '''' [Require_permission BOOK_VARIANT_READ] ''getBookVariants''
           [From_query, From_language_id] [''adminBookVariantService.getBookVariants''],
         route PATCH ''/:variantId'' [Require_permission BOOK_VARIANT_UPDATE] ''updatePrice''
           [From_path ''variantId'', From_body] [''adminBookVariantService.updatePriceVariant'']]\<rparr>"

definition admin_book_snapshot_controller :: controller where
  "admin_book_snapshot_controller =
     \<lparr>ct_name = ''AdminBookSnapshotController'', ct_paths = [''admin/book-snapshots''], ct_decorators = [],
      ct_routes =
        [route GET '''' [Require_permission BOOK_SNAPSHOT_READ] ''getBookSnapshots''
           [From_query] [''adminBookService.getBookSnapshots'']]\<rparr>"

definition admin_book_translation_controller :: controller where
  "admin_book_translation_controller =
     \<lparr>ct_name = ''AdminBookTranslationController'', ct_paths = [''admin/books''], ct_decorators = [],
      ct_routes =
        [route POST '':bookId/translations'' [Require_permission BOOK_TRANSLATION_CREATE] ''createBookTranslation''
           [From_path ''bookId'', From_body, From_user, From_ip]
           [''adminBookService.createBookTranslation'']]\<rparr>"

definition admin_book_controller :: controller where
  "admin_book_controller =
     \<lparr>ct_name = ''AdminBookController'', ct_paths = [''admin/books''], ct_decorators = [],
      ct_routes =
        [route GET ''stats'' [Require_permission BOOK_READ] ''getStats''
           [] [''adminBookService.getStats''],
         route GET ''list'' [Require_permission BOOK_READ] ''listBooks''
           [From_query, From_language_id] [''adminBookService.listBooks''],
         route GET '':bookId'' [Is_public] ''getDetail''
           [From_path_int ''bookId'', From_query] [''adminBookService.getDetail''],
         route POST '''' [Require_permission BOOK_CREATE] ''createBook''
           [From_body, From_language_id, From_user, From_ip] [''adminBookService.createBook''],
         route PATCH '':bookId'' [Require_permission BOOK_UPDATE] ''updateBook''
           [From_path_int ''bookId'', From_body, From_user, From_ip] [''adminBookService.updateBook''],
         route DELETE '':bookId'' [Require_permission BOOK_DELETE] ''deleteBook''
           [From_path_int ''bookId'', From_user, From_ip] [''adminBookService.deleteBook''],
         route GET '''' [Require_permission BOOK_READ] ''getBooks''
           [From_query, From_language_id] [''adminBookService.getBooks'']]\<rparr>"

definition admin_category_controller :: controller where
  "admin_category_controller =
     \<lparr>ct_name = ''AdminCategoryController'', ct_paths = [''admin/categories''], ct_decorators = [],
      ct_routes =
        [route GET ''stats'' [Require_permission CATEGORY_READ] ''getStats''
           [] [''adminCategoryService.getStats'']]\<rparr>"

definition admin_order_detail_controller :: controller where
  "admin_order_detail_controller =
     \<lparr>ct_name = ''AdminOrderDetailController'', ct_paths = [''admin/order-details''], ct_decorators = [],
      ct_routes =
        [route GET '':orderId'' [Require_permission ORDER_READ] ''getOrderDetail''
           [From_path ''orderId''] [''adminOrderService.getOrderDetail'']]\<rparr>"

definition admin_order_controller :: controller where
  "admin_order_controller =
     \<lparr>ct_name = ''AdminOrderController'', ct_paths = [''admin/orders''], ct_decorators = [],
      ct_routes =
        [route GET '''' [Require_permission ORDER_READ] ''getGuestOrders''
           [From_query] [''adminOrderService.getGuestOrders''],
         route GET ''/user'' [Require_permission ORDER_READ] ''getUserOrders''
           [From_query] [''adminOrderService.getUserOrders''],
         route PATCH '':orderId/status'' [Require_permission ORDER_UPDATE] ''updateOrderStatus''
           [From_path ''orderId'', From_body] [''adminOrderService.updateOrderStatus'']]\<rparr>"

definition purchase_order_controller :: controller where
  "purchase_order_controller =
     \<lparr>ct_name = ''PurchaseOrderController'', ct_paths = [''purchase-orders''], ct_decorators = [],
      ct_routes =
        [route POST '''' [Require_permission PURCHASE_ORDER_CREATE] ''createPurchaseOrder''
           [From_body, From_user] [''purchaseOrderService.createPurchaseOrder''],
         route GET '''' [Require_permission PURCHASE_ORDER_READ] ''getPurchaseOrders''
           [From_query] [''purchaseOrderService.getPurchaseOrders''],
         route GET '':purchaseOrderId'' [Require_permission PURCHASE_ORDER_READ] ''getPurchaseOrderDetail''
           [From_path ''purchaseOrderId'', From_query, From_language_id]
           [''purchaseOrderService.getPurchaseOrderDetail''],
         route POST '':purchaseOrderId/approve'' [Require_permission PURCHASE_ORDER_APPROVE] ''approvePurchaseOrder''
           [From_path ''purchaseOrderId'', From_body, From_user] [''purchaseOrderService.approvePurchaseOrder''],
         route POST '':purchaseOrderId/transfer-processing'' [Require_permission PURCHASE_ORDER_TRANSFER] ''updateStatusTransfer''
           [From_path ''purchaseOrderId'', From_user] [''purchaseOrderService.updateStatusTransfer'']]\<rparr>"

definition admin_stock_import_controller :: controller where
  "admin_stock_import_controller =
     \<lparr>ct_name = ''AdminStockImportController'', ct_paths = [''admin/stock-imports''], ct_decorators = [],
      ct_routes =
        [route POST ''/create'' [Require_permission STOCK_IMPORT_CREATE] ''createStockImport''
           [From_body, From_user] [''adminStockImportService.createStockImport''],
         route GET '''' [Require_permission STOCK_IMPORT_READ] ''getStockImports''
           [From_query] [''adminStockImportService.getStockImports''],
         route GET ''/:purchaseOrderId'' [Require_permission STOCK_IMPORT_READ] ''getStockImportDetail''
           [From_path ''purchaseOrderId''] [''adminStockImportService.getStockImportDetail'']]\<rparr>"

definition supplier_controller :: controller where
  "supplier_controller =
     \<lparr>ct_name = ''SupplierController'', ct_paths = [''suppliers''],
      ct_decorators = [Use_guards [PermissionsGuard]],
      ct_routes =
        [route GET '''' [Require_permission SUPPLIER_READ] ''getSuppliers''
           [From_query] [''supplierService.getSuppliers''],
         route POST '''' [Require_permission SUPPLIER_CREATE] ''createSupplier''
           [From_body] [''supplierService.createSupplier''],
         route PATCH '':supplierId/active'' [Require_permission SUPPLIER_UPDATE] ''toggleSupplierActive''
           [From_path ''supplierId''] [''supplierService.toggleSupplierActive'']]\<rparr>"

definition admin_user_controller :: controller where
  "admin_user_controller =
     \<lparr>ct_name = ''AdminUserController'', ct_paths = [''admin/users''], ct_decorators = [],
      ct_routes =
        [route GET ''stats'' [Require_permission USER_READ] ''getStats''
           [] [''adminUserService.getStats''],
         route GET '''' [Require_permission USER_READ] ''getUsers''
           [From_query] [''adminUserService.getUsers''],
         route GET ''non-customer'' [Require_permission USER_READ] ''getNonCustomerUsers''
           [From_query] [''adminUserService.getNonCustomerUsers'']]\<rparr>"

definition auth_controller :: controller where
  "auth_controller =
     \<lparr>ct_name = ''AuthController'', ct_paths = [''auth''], ct_decorators = [],
      ct_routes =
        [route POST ''register'' [Is_public] ''register''
           [From_body, From_user_agent, From_ip, From_request] [''authService.register''],
         route POST ''login'' [Is_public, Http_code 200] ''login''
           [From_body, From_user_agent, From_ip, From_request, From_response] [''authService.login''],
         route GET ''me'' [] ''me''
           [From_user] [''authService.getMe''],
         route GET ''device/:userId'' [Require_permission DEVICE_READ] ''getActiveDeviceSessions''
           [From_path_int ''userId''] [''authService.getActiveDeviceSessions''],
         route POST ''refresh-token'' [Is_refresh, Use_guards [RefreshGuard]] ''refreshToken''
           [From_session, From_user_agent] [''authService.refreshToken''],
         route POST ''logout'' [Http_code 200] ''logout''
           [From_access_token, From_header ''x-refresh-token''] [''authService.logout''],
         route POST ''forgot-password'' [Is_public, Http_code 200] ''forgotPassword''
           [From_body] [''authService.forgotPassword''],
         route GET ''verify-email'' [Is_public] ''verifyEmail''
           [From_query] [''authService.verifyEmail''],
         route POST ''resend-email'' [Is_public, Http_code 200] ''resendEmail''
           [From_origin, From_body] [''authService.resendEmail''],
         route POST ''change-password'' [Http_code 200] ''changePassword''
           [From_user, From_body] [''authService.changePassword''],
         route POST ''reset-password/validate'' [Is_public, Http_code 200] ''validateResetPassword''
           [From_body] [''authService.validateResetPasswordToken''],
         route POST ''reset-password'' [Is_public, Http_code 200] ''resetPassword''
           [From_body] [''authService.resetPassword'']]\<rparr>"

definition author_controller :: controller where
  "author_controller =
     \<lparr>ct_name = ''AuthorController'', ct_paths = [''authors''], ct_decorators = [],
      ct_routes =
        [route POST '''' [Require_permission AUTHOR_CREATE] ''createAuthor''
           [From_body] [''authorService.createAuthor''],
         route GET '''' [Is_public] ''getAuthors''
           [From_query, From_language_id] [''authorService.getAuthors''],
         route GET '':authorId/books'' [Is_public] ''getAuthorBooks''
           [From_path ''authorId'', From_query, From_language_id] [''authorService.getAuthorBooks'']]\<rparr>"

definition book_asset_controller :: controller where
  "book_asset_controller =
     \<lparr>ct_name = ''BookAssetController'', ct_paths = [''admin/book-assets'', ''upload/book-asset''],
      ct_decorators = [Require_permission UPLOAD_MANAGE],
      ct_routes =
        [route POST ''upload'' [Use_file_interceptor] ''uploadBookAsset''
           [From_body, From_file] [''bookAssetService.uploadBookAsset''],
         route POST '':bookId/confirm'' [] ''confirmBookAsset''
           [From_path ''bookId'', From_body] [''bookAssetService.confirmBookAsset'']]\<rparr>"

definition book_controller :: controller where
  "book_controller =
     \<lparr>ct_name = ''BookController'', ct_paths = [''books''], ct_decorators = [],
      ct_routes =
        [route GET '':bookId'' [Is_public] ''getBookDetail''
           [From_path ''bookId'', From_language_id] [''catalogService.getBookDetail'']]\<rparr>"

definition catalog_controller :: controller where
  "catalog_controller =
     \<lparr>ct_name = ''CatalogController'', ct_paths = [''catalog''], ct_decorators = [],
      ct_routes =
        [route GET ''home'' [Is_public] ''getCatalogHome''
           [From_query, From_language_id] [''catalogService.getCatalogHome''],
         route GET ''books'' [Is_public] ''listBooks''
           [From_query, From_language_id] [''catalogService.listBooks''],
         route GET ''books/:bookId'' [Is_public] ''getBookDetail''
           [From_path ''bookId'', From_language_id] [''catalogService.getBookDetail''],
         route GET ''books/slug/:slug'' [Is_public] ''getBookDetailBySlug''
           [From_path ''slug'', From_language_id] [''catalogService.getBookDetailBySlug''],
         route GET ''categories'' [Is_public] ''getCategories''
           [From_language_id] [''catalogService.getCategories'']]\<rparr>"

definition cart_controller :: controller where
  "cart_controller =
     \<lparr>ct_name = ''CartController'', ct_paths = [''cart''],
      ct_decorators = [Is_public, Use_guards [ShopperSessionGuard]],
      ct_routes =
        [route GET '''' [] ''getCart''
           [From_guest_or_null, From_language_id, From_user_or_null]
           [''cartService.getCartUser'', ''cartService.getCartGuest''],
         route POST ''items'' [] ''addCartItem''
           [From_guest_or_null, From_user_or_null, From_body, From_language_id] [''cartService.addCartItem''],
         route PATCH ''items/:itemKey/delta'' [] ''updateCartItemDelta''
           [From_guest_or_null, From_user_or_null, From_path ''itemKey'', From_body]
           [''cartService.updateCartItemDelta''],
         route DELETE ''items/:itemKey'' [] ''removeCartItem''
           [From_guest_or_null, From_user_or_null, From_path ''itemKey''] [''cartService.removeCartItem''],
         route DELETE '''' [] ''clearCart''
           [From_user_or_null, From_guest_or_null] [''cartService.clearCart''],
         route POST ''merge'' [] ''mergeCart''
           [From_user_or_null, From_guest_or_null] [''cartService.mergeCart'']]\<rparr>"

definition category_controller :: controller where
  "category_controller =
     \<lparr>ct_name = ''CategoryController'', ct_paths = [''categories''], ct_decorators = [],
      ct_routes =
        [route POST '''' [Require_permission CATEGORY_CREATE] ''createCategory''
           [From_body, From_user, From_language_id] [''categoryService.createCategory''],
         route GET '''' [Is_public] ''getCategories''
           [From_query, From_language_id] [''categoryService.getCategories'']]\<rparr>"

definition email_outbox_controller :: controller where
  "email_outbox_controller =
     \<lparr>ct_name = ''EmailOutboxController'', ct_paths = [''email-outbox''], ct_decorators = [],
      ct_routes =
        [route GET '''' [Require_permission EMAIL_OUTBOX_READ] ''getOtpOutbox''
           [From_query] [''emailOutboxService.getOtpEmailOutbox'']]\<rparr>"

definition guest_session_controller :: controller where
  "guest_session_controller =
     \<lparr>ct_name = ''GuestSessionController'', ct_paths = [''guest-sessions''], ct_decorators = [],
      ct_routes =
        [route GET '''' [Require_permission GUEST_SESSION_READ] ''getAllGuestSessions''
           [] [''guestSessionService.getAllGuestSessions''],
         route GET '':guestSessionId'' [Require_permission GUEST_SESSION_READ] ''getGuestSessionById''
           [From_path ''guestSessionId''] [''guestSessionService.getGuestSessionById'']]\<rparr>"

definition health_controller :: controller where
  "health_controller =
     \<lparr>ct_name = ''HealthController'', ct_paths = [''health''], ct_decorators = [],
      ct_routes =
        [route GET '''' [Is_public, Skip_throttle] ''getProduction''
           [] []]\<rparr>"

definition hooks_controller :: controller where
  "hooks_controller =
     \<lparr>ct_name = ''HooksController'', ct_paths = [''hooks''], ct_decorators = [Use_guards [PaymentGuard]],
      ct_routes =
        [route POST ''sepay-payment'' [Http_code 200, Is_public, Is_payment] ''sePayPayment''
           [From_body] [''hooksService.handleSepayWebhook''],
         route GET '':orderCode/status'' [Is_public] ''getOrderStatus''
           [From_path ''orderCode''] [''hooksService.getPaymentStatus''],
         route GET '':orderId/payment-history'' [Is_public] ''getPaymentHistory''
           [From_path_int ''orderId''] [''hooksService.getPaymentHistory'']]\<rparr>"

definition language_controller :: controller where
  "language_controller =
     \<lparr>ct_name = ''LanguageController'', ct_paths = [''languages''], ct_decorators = [],
      ct_routes =
        [route GET '''' [Is_public] ''getLanguage''
           [] [''languageService.getLanguage'']]\<rparr>"

definition order_controller :: controller where
  "order_controller =
     \<lparr>ct_name = ''OrderController'', ct_paths = [''orders''],
      ct_decorators = [Use_guards [ShopperSessionGuard]],
      ct_routes =
        [route POST ''/checkout'' [Is_public] ''createCheckout''
           [From_body, From_guest_or_null, From_user_or_null] [''orderService.createCheckout''],
         route GET ''/'' [Is_public] ''getOrders''
           [From_query, From_user_or_null, From_guest]
           [''orderService.getOrderGuest'', ''orderService.getOrderUser''],
         route GET ''/:orderId'' [Is_public] ''getOrder''
           [From_request, From_user_or_null, From_path ''orderId'', From_language_id]
           [''orderService.getOrderDetailGuest'', ''orderService.getOrderDetailUser'']]\<rparr>"

definition payment_controller :: controller where
  "payment_controller =
     \<lparr>ct_name = ''PaymentController'', ct_paths = [''payments''], ct_decorators = [],
      ct_routes =
        [route GET ''/:token/qr'' [Is_public] ''getPaymentQrCode''
           [From_path ''token''] [''paymentService.getPaymentIntent'']]\<rparr>"

definition permission_controller :: controller where
  "permission_controller =
     \<lparr>ct_name = ''PermissionController'', ct_paths = [''permission''], ct_decorators = [],
      ct_routes =
        [route GET '''' [Require_permission PERMISSION_READ] ''getAllPermissions''
           [] [''permissionService.findAllPermissions''],
         route PATCH '':id'' [Require_permission PERMISSION_UPDATE] ''updatePermission''
           [From_path ''id'', From_body, From_user] [''permissionService.updatePermission'']]\<rparr>"

definition publisher_controller :: controller where
  "publisher_controller =
     \<lparr>ct_name = ''PublisherController'', ct_paths = [''publishers''], ct_decorators = [],
      ct_routes =
        [route POST '''' [Require_permission PUBLISHER_CREATE] ''createPublisher''
           [From_body] [''publisherService.createPublisher''],
         route GET '''' [Is_public] ''getPublishers''
           [From_query] [''publisherService.getPublishers''],
         route GET '':publisherId/books'' [Is_public] ''getPublisherBooks''
           [From_path ''publisherId'', From_query, From_language_id]
           [''publisherService.getPublisherBooks'']]\<rparr>"

definition role_permission_controller :: controller where
  "role_permission_controller =
     \<lparr>ct_name = ''RolePermissionController'', ct_paths = [''role-permission''], ct_decorators = [],
      ct_routes =
        [route POST '''' [Require_permission ROLE_PERMISSION_GRANT] ''createRolePermission''
           [From_body] [''rolePermissionService.createRolePermission''],
         route GET ''role/:roleId'' [Require_permission ROLE_PERMISSION_READ_BY_ROLE] ''getByRoleId''
           [From_path ''roleId''] [''rolePermissionService.getByRoleId''],
         route GET ''permission/:permissionId'' [Require_permission ROLE_PERMISSION_READ_BY_PERMISSION] ''getByPermissionId''
           [From_path ''permissionId''] [''rolePermissionService.getByPermissionId'']]\<rparr>"

definition role_controller :: controller where
  "role_controller =
     \<lparr>ct_name = ''RoleController'', ct_paths = [''role''], ct_decorators = [],
      ct_routes =
        [route GET '''' [Require_permission ROLE_READ] ''getAll''
           [] [''roleService.findAllRole''],
         route GET '':name'' [Is_public] ''getRoleByName''
           [From_path ''name''] [''roleService.findRoleByName'']]\<rparr>"

definition search_controller :: controller where
  "search_controller =
     \<lparr>ct_name = ''SearchController'', ct_paths = [''search''], ct_decorators = [],
      ct_routes =
        [route GET '''' [Is_public] ''searchSemantic''
           [From_query, From_language_id] [''searchService.searchBooks''],
         route GET ''filter'' [Is_public] ''searchFilter''
           [From_query, From_language_id] [],
         route POST ''reindex'' [Require_permission SEARCH_REINDEX_BOOKS] ''reindexBooks''
           [] [''searchService.reindexBooks''],
         route GET ''/isbn'' [Is_public] ''searchByIsbn''
           [From_language_id, From_language_code, From_query_text ''isbn''] [''searchService.searchISBN'']]\<rparr>"

definition uploads_controller :: controller where
  "uploads_controller =
     \<lparr>ct_name = ''UploadsController'', ct_paths = [''uploads''],
      ct_decorators = [Require_permission UPLOAD_MANAGE],
      ct_routes =
        [route POST ''/'' [Use_file_interceptor] ''uploadFile''
           [From_file] [''uploadsService.uploadFile''],
         route POST ''presigned-url/book'' [] ''getPresignedUrl''
           [From_body] [''uploadsService.getPresignedUrl''],
         route POST ''presigned-url/multipart-books'' [] ''getPresignedUrlMultipart''
           [From_body] [''uploadsService.getPresignedUrlMultipart'']]\<rparr>"

definition r2_service_controller :: controller where
  "r2_service_controller =
     \<lparr>ct_name = ''R2ServiceController'', ct_paths = [''r2-service''], ct_decorators = [],
      ct_routes = []\<rparr>"

definition user_event_controller :: controller where
  "user_event_controller =
     \<lparr>ct_name = ''UserEventController'', ct_paths = [''user-events''], ct_decorators = [],
      ct_routes =
        [route GET ''hyper-recommend/books'' [] ''listBooksByCategory''
           [From_user, From_query, From_language_id] [''userEventService.getHyperRecommendHome'']]\<rparr>"

definition user_address_controller :: controller where
  "user_address_controller =
     \<lparr>ct_name = ''UserAddressController'', ct_paths = [''user-address''], ct_decorators = [],
      ct_routes =
        [route GET ''user'' [] ''getUserAddressByUserId''
           [From_user] [''userAddressService.getUserAddressByUserId''],
         route POST ''user'' [] ''createUserAddressByUserId''
           [From_user, From_body] [''userAddressService.createUserAddressByUserId''],
         route PATCH ''user/:id'' [] ''updateUserAddressByIdAndUserId''
           [From_path ''id'', From_user, From_body] [''userAddressService.updateUserAddressByIdAndUserId''],
         route PATCH ''user/:id/set-default'' [] ''setDefaultByIdAndUserId''
           [From_path ''id'', From_user] [''userAddressService.setDefaultByIdAndUserId''],
         route DELETE ''user/:id'' [] ''softDeleteByIdAndUserId''
           [From_path ''id'', From_user] [''userAddressService.softDeleteByIdAndUserId'']]\<rparr>"

definition wishlist_controller :: controller where
  "wishlist_controller =
     \<lparr>ct_name = ''WishlistController'', ct_paths = [''wish''],
      ct_decorators = [Is_public, Use_guards [ShopperSessionGuard]],
      ct_routes =
        [route GET '''' [] ''getWish''
           [From_request, From_language_id, From_user_or_null] [''wishlistService.getWishlist''],
         route POST ''items'' [] ''addWish''
           [From_request, From_body, From_language_id, From_user_or_null] [''wishlistService.addWishItem''],
         route DELETE ''items/:itemKey'' [] ''deleteWishItem''
           [From_request, From_path ''itemKey'', From_language_id, From_user_or_null]
           [''wishlistService.deleteWishItem''],
         route DELETE '''' [] ''deleteWish''
           [From_request, From_language_id, From_user_or_null] [''wishlistService.deleteWishlist'']]\<rparr>"

definition app_controllers :: "controller list" where
  "app_controllers =
     [admin_book_variant_controller, admin_book_snapshot_controller, admin_book_translation_controller,
      admin_book_controller, admin_category_controller, admin_order_detail_controller, admin_order_controller,
      purchase_order_controller, admin_stock_import_controller, supplier_controller, admin_user_controller,
      auth_controller, author_controller, book_asset_controller, book_controller, catalog_controller,
      cart_controller, category_controller, email_outbox_controller, guest_session_controller, health_controller,
      hooks_controller, language_controller, order_controller, payment_controller, permission_controller,
      publisher_controller, role_permission_controller, role_controller, search_controller, uploads_controller,
      r2_service_controller, user_event_controller, user_address_controller, wishlist_controller]"

text \<open>The language of a request: \<open>LanguageMiddleware\<close> runs before every route.\<close>

definition request_language ::
    "language_row option \<Rightarrow> header_value \<Rightarrow> header_value \<Rightarrow> db \<Rightarrow> language_row res \<times> language_row option" where
  "request_language cached query header d = resolve_language cached (language_candidate query header) d"

section \<open>Declarations that fit together\<close>

text \<open>
  A handler that needs a permission or a user is behind the guard that reads the token, one that reads the guest
  session is behind the guard that attaches it, and one that reads the session of a refresh token is behind the guard
  that finds it.
\<close>

definition declared_well :: "controller \<Rightarrow> route \<Rightarrow> bool" where
  "declared_well c r \<longleftrightarrow>
     (required_permission c r \<noteq> None \<or> From_user \<in> set (rt_params r)
        \<longrightarrow> \<not> flagged Is_public c r \<and> \<not> flagged Is_refresh c r)
   \<and> (required_permission c r \<noteq> None \<longrightarrow> ShopperSessionGuard \<notin> set (route_guards c r))
   \<and> AuthGuard \<notin> set (route_guards c r)
   \<and> (From_guest \<in> set (rt_params r) \<or> From_guest_or_null \<in> set (rt_params r) \<or> From_request \<in> set (rt_params r)
          \<and> ct_name c \<noteq> ''AuthController''
        \<longrightarrow> ShopperSessionGuard \<in> set (route_guards c r))
   \<and> (From_session \<in> set (rt_params r) \<longrightarrow> RefreshGuard \<in> set (route_guards c r) \<and> flagged Is_refresh c r)"

definition all_routes :: "(controller \<Rightarrow> route \<Rightarrow> bool) \<Rightarrow> bool" where
  "all_routes P \<longleftrightarrow> list_all (\<lambda>c. list_all (P c) (ct_routes c)) app_controllers"

lemma all_routesD: "all_routes P \<Longrightarrow> c \<in> set app_controllers \<Longrightarrow> r \<in> set (ct_routes c) \<Longrightarrow> P c r"
  by (simp add: all_routes_def list_all_iff)

lemma routes_declared_well: "all_routes declared_well"
  by code_simp

definition segments :: "string \<Rightarrow> string list" where
  "segments path = filter (\<lambda>s. s \<noteq> []) (js_split (CHR ''/'') path)"

definition is_param :: "string \<Rightarrow> bool" where
  "is_param s \<longleftrightarrow> take 1 s = '':''"

definition fits :: "string list \<Rightarrow> string list \<Rightarrow> bool" where
  "fits pattern path \<longleftrightarrow> list_all2 (\<lambda>p s. is_param p \<or> p = s) pattern path"

definition endpoints :: "(string \<times> http_method \<times> string list) list" where
  "endpoints =
     concat (map (\<lambda>c. concat (map (\<lambda>p. map (\<lambda>r. (ct_name c, rt_verb r, segments p @ segments (rt_path r)))
       (ct_routes c)) (ct_paths c))) app_controllers)"

fun overlap :: "string list \<Rightarrow> string list \<Rightarrow> bool" where
  "overlap [] [] \<longleftrightarrow> True"
| "overlap (a # p) (b # q) \<longleftrightarrow> (if is_param a then overlap p q else if is_param b then overlap p q
     else if a = b then overlap p q else False)"
| "overlap _ _ \<longleftrightarrow> False"

definition more_specific :: "string list \<Rightarrow> string list \<Rightarrow> bool" where
  "more_specific p q \<longleftrightarrow> list_all2 (\<lambda>a b. is_param a \<longrightarrow> is_param b) p q
     \<and> list_ex (\<lambda>(a, b). \<not> is_param a \<and> is_param b) (zip p q)"

definition hides :: "string \<times> http_method \<times> string list \<Rightarrow> string \<times> http_method \<times> string list \<Rightarrow> bool" where
  "hides e e' = (case (e, e') of ((c, v, p), (c', v', q)) \<Rightarrow>
     if v = v' then if overlap p q then \<not> (c = c' \<and> more_specific p q) else False else False)"

fun never_hidden :: "(string \<times> http_method \<times> string list) list \<Rightarrow> bool" where
  "never_hidden [] \<longleftrightarrow> True"
| "never_hidden (e # es) \<longleftrightarrow> list_all (\<lambda>e'. \<not> hides e e') es \<and> never_hidden es"

text \<open>Only endpoints of one verb with equally many segments can overlap, so the check runs group by group.\<close>

definition of_group :: "http_method \<Rightarrow> nat \<Rightarrow> string \<times> http_method \<times> string list \<Rightarrow> bool" where
  "of_group v n e = (case e of (_, v', p) \<Rightarrow> if v' = v then length p = n else False)"

lemma overlap_length: "overlap p q \<Longrightarrow> length p = length q"
  by (induction p q rule: overlap.induct) (auto split: if_splits)

lemma hides_same_group: "hides e e' \<Longrightarrow> of_group v n e \<Longrightarrow> of_group v n e'"
  by (auto simp: hides_def of_group_def dest: overlap_length split: prod.splits if_splits)

lemma never_hidden_groups:
  assumes "\<And>v n. never_hidden (filter (of_group v n) es)"
  shows "never_hidden es"
  using assms
proof (induction es)
  case (Cons e es)
  obtain c v p where e: "e = (c, v, p)" by (cases e)
  then have "of_group v (length p) e" by (simp add: of_group_def)
  moreover from this have "never_hidden (e # filter (of_group v (length p)) es)"
    using Cons.prems [of v "length p"] by simp
  ultimately have "list_all (\<lambda>e'. \<not> hides e e') es" by (auto simp: list_all_iff dest: hides_same_group)
  moreover have "never_hidden (filter (of_group v n) es)" for v n
    using Cons.prems [of v n] by (cases "of_group v n e") simp_all
  then have "never_hidden es" by (rule Cons.IH)
  ultimately show ?case by simp
qed simp

lemma never_hidden_nth:
  "never_hidden es \<Longrightarrow> i < j \<Longrightarrow> j < length es \<Longrightarrow> \<not> hides (es ! i) (es ! j)"
proof (induction es arbitrary: i j)
  case (Cons e es)
  then show ?case by (cases i; cases j) (auto simp: list_all_iff)
qed simp

lemma endpoint_lengths: "list_all (\<lambda>e. length (snd (snd e)) \<in> {1, 2, 3, 4}) endpoints"
  by code_simp

lemma get_never_hidden: "list_all (\<lambda>n. never_hidden (filter (of_group GET n) endpoints)) [1, 2, 3, 4]"
  by code_simp

lemma post_never_hidden: "list_all (\<lambda>n. never_hidden (filter (of_group POST n) endpoints)) [1, 2, 3, 4]"
  by code_simp

lemma patch_never_hidden: "list_all (\<lambda>n. never_hidden (filter (of_group PATCH n) endpoints)) [1, 2, 3, 4]"
  by code_simp

lemma delete_never_hidden: "list_all (\<lambda>n. never_hidden (filter (of_group DELETE n) endpoints)) [1, 2, 3, 4]"
  by code_simp

lemma endpoints_never_hidden: "never_hidden endpoints"
proof (rule never_hidden_groups)
  fix v n
  show "never_hidden (filter (of_group v n) endpoints)"
  proof (cases "n \<in> {1, 2, 3, 4}")
    case True
    with get_never_hidden post_never_hidden patch_never_hidden delete_never_hidden show ?thesis by (cases v) auto
  next
    case False
    have "\<not> of_group v n e" if "e \<in> set endpoints" for e
    proof -
      have "length (snd (snd e)) \<in> {1, 2, 3, 4}" using endpoint_lengths that unfolding list_all_iff by blast
      with False show ?thesis by (auto simp: of_group_def split: prod.splits if_splits)
    qed
    then have "filter (of_group v n) endpoints = []" by (simp add: filter_empty_conv)
    then show ?thesis by simp
  qed
qed

lemma fits_overlap:
  assumes "fits p path" and "fits q path"
  shows "overlap p q"
  using assms unfolding fits_def
proof (induction p q arbitrary: path rule: overlap.induct)
  case (2 a p b q)
  then show ?case by (cases path) auto
qed (auto simp: list_all2_Nil list_all2_Nil2)

text \<open>A path for the second pattern only: its parameters are filled with texts the first pattern does not name.\<close>

lemma more_specific_leaves:
  assumes "more_specific p q"
  shows "\<exists>path. fits q path \<and> \<not> fits p path"
proof -
  let ?path = "map (\<lambda>(a, b). if is_param b then CHR ''-'' # a else b) (zip p q)"
  have len: "length p = length q" using assms by (auto simp: more_specific_def dest: list_all2_lengthD)
  then have "fits q ?path" by (auto simp: fits_def list_all2_conv_all_nth)
  moreover from assms obtain i where i: "i < length p" "\<not> is_param (p ! i)" "is_param (q ! i)"
    by (auto simp: more_specific_def list_ex_iff set_zip)
  then have "\<not> fits p ?path" using len by (auto simp: fits_def list_all2_conv_all_nth)
  ultimately show ?thesis by blast
qed

lemma endpoint_visible:
  assumes "i < j" and "j < length endpoints" and "endpoints ! i = (c, v, p)" and "endpoints ! j = (c', v, q)"
    and "fits p path" and "fits q path"
  shows "c = c' \<and> more_specific p q"
  using never_hidden_nth [OF endpoints_never_hidden assms(1,2)] fits_overlap [OF assms(5,6)] assms(3,4)
  by (simp add: hides_def)

text \<open>Routes that administrate.\<close>

definition administrative :: "controller \<Rightarrow> bool" where
  "administrative c \<longleftrightarrow>
     list_ex (\<lambda>p. hd (segments p) \<in> {''admin'', ''upload'', ''uploads'', ''purchase-orders'', ''suppliers'', ''permission'',
       ''role-permission'', ''email-outbox'', ''guest-sessions''}) (ct_paths c)"

definition guarded_administration :: "controller \<Rightarrow> route \<Rightarrow> bool" where
  "guarded_administration c r \<longleftrightarrow>
     (administrative c \<and> (ct_name c \<noteq> ''AdminBookController'' \<or> rt_handler r \<noteq> ''getDetail'')
        \<longrightarrow> required_permission c r \<noteq> None)"

lemma administration_guarded: "all_routes guarded_administration"
  by code_simp

lemma shopper_guard_frame: "orders (snd (shopper_guard env r d)) = orders d"
  unfolding shopper_guard_def attach_guest_session_def Let_def
  by (auto simp: update_guest_seen_def create_guest_session_def Let_def
      intro!: await_keeps [where P = "\<lambda>s. orders s = orders d"] split: option.split)

section \<open>Refusals\<close>

lemma guard_refusal:
  assumes "run_guard env rq c r g cx s = (Inl e, s')"
    and "required_permission c r \<noteq> None \<Longrightarrow> cx_user cx \<noteq> None"
    and "\<And>p. cx_user cx = Some p \<Longrightarrow> number_of_text (jp_sub p) \<noteq> None"
  shows "e = Unauthorized ''Unauthorized'' \<or> e = Forbidden ''Forbidden'' \<and> required_permission c r \<noteq> None"
proof (cases g)
  case AuthGuard
  with assms(1) show ?thesis
    by (auto simp: map_sum_def split: sum.splits dest: auth_guard_InlD)
next
  case PermissionsGuard
  with assms show ?thesis
    by (auto simp: map_sum_def split_beta Let_def split: option.splits sum.splits dest: guard_request_InlD)
next
  case RefreshGuard
  obtain x d where x: "refresh_guard (he_auth env) (flagged Is_refresh c r) (hr_refresh rq) (sv_db s) = (x, d)"
    by fastforce
  with assms(1) RefreshGuard show ?thesis by (cases x) (auto dest: refresh_guard_InlD)
next
  case PaymentGuard
  with assms(1) show ?thesis
    by (auto simp: map_sum_def split: sum.splits dest: payment_guard_InlD)
next
  case ShopperSessionGuard
  with assms(1) show ?thesis
    using shopper_guard_total [of "he_auth env" "hr_shopper rq" "sv_db s"] by auto
qed

lemma guard_users:
  assumes "run_guard env rq c r g cx s = (Inr cx', s')" and "cx_user cx' = Some p"
    and "\<And>p. cx_user cx = Some p \<Longrightarrow> number_of_text (jp_sub p) \<noteq> None"
    and "\<And>t p. ae_verify (he_auth env) t = Some p \<Longrightarrow> number_of_text (jp_sub p) \<noteq> None"
  shows "number_of_text (jp_sub p) \<noteq> None"
proof (cases "g = AuthGuard \<or> g = ShopperSessionGuard")
  case False
  with assms run_guard_keeps(4) [OF assms(1)] show ?thesis by simp
next
  case True
  have "cx_user cx' = cx_user cx \<or> (\<exists>t. ae_verify (he_auth env) t = cx_user cx')"
  proof (cases "g = AuthGuard")
    case True
    with assms(1) show ?thesis
      by (cases "flagged Is_public c r \<or> flagged Is_refresh c r")
        (auto simp: auth_guard_def Let_def map_sum_def split: sum.splits if_splits option.splits)
  next
    case False
    with \<open>g = AuthGuard \<or> g = ShopperSessionGuard\<close> assms(1) show ?thesis
      by (auto simp: shopper_guard_def Let_def split_beta map_sum_def split: sum.splits if_splits elim!: await_InrE)
  qed
  with assms show ?thesis by metis
qed

lemma pass_guards_refusal:
  assumes "pass_guards env rq c r gs cx s = (Inl e, s')"
    and "required_permission c r \<noteq> None \<Longrightarrow> cx_user cx \<noteq> None"
    and "\<And>p. cx_user cx = Some p \<Longrightarrow> number_of_text (jp_sub p) \<noteq> None"
    and "\<And>t p. ae_verify (he_auth env) t = Some p \<Longrightarrow> number_of_text (jp_sub p) \<noteq> None"
  shows "e = Unauthorized ''Unauthorized'' \<or> e = Forbidden ''Forbidden'' \<and> required_permission c r \<noteq> None"
  using assms(1-3)
proof (induction gs arbitrary: cx s)
  case (Cons g gs)
  show ?case
  proof (cases "fst (run_guard env rq c r g cx s)")
    case (Inl e')
    with Cons.prems(1) have "run_guard env rq c r g cx s = (Inl e, s')"
      by (cases "run_guard env rq c r g cx s") simp
    then show ?thesis using Cons.prems(2,3) by (rule guard_refusal)
  next
    case (Inr cx')
    then obtain t where step: "run_guard env rq c r g cx s = (Inr cx', t)"
      by (cases "run_guard env rq c r g cx s") simp
    with Cons.prems(1) have "pass_guards env rq c r gs cx' t = (Inl e, s')" by simp
    moreover have "cx_user cx' \<noteq> None" if "required_permission c r \<noteq> None"
      using run_guard_keeps(1) [OF step] Cons.prems(2) that by blast
    moreover have "number_of_text (jp_sub p) \<noteq> None" if "cx_user cx' = Some p" for p
      using guard_users [OF step that Cons.prems(3) assms(4)] .
    ultimately show ?thesis by (rule Cons.IH)
  qed
qed simp

text \<open>The first guard decides on the token; what follows knows the user.\<close>

lemma admit_unfold:
  "admit env rq c r s =
     await (run_guard env rq c r AuthGuard \<lparr>cx_user = None, cx_session = None, cx_guest = None\<rparr> s)
       (\<lambda>cx. pass_guards env rq c r (PermissionsGuard # route_guards c r) cx)"
  unfolding admit_def app_guards_def append.simps pass_guards.simps(2) [of _ _ _ _ AuthGuard] ..

lemma admit_refusal:
  assumes "declared_well c r" and "admit env rq c r s = (Inl e, s')"
    and "\<And>t p. ae_verify (he_auth env) t = Some p \<Longrightarrow> number_of_text (jp_sub p) \<noteq> None"
  shows "e = Unauthorized ''Unauthorized'' \<or> e = Forbidden ''Forbidden'' \<and> required_permission c r \<noteq> None"
proof -
  let ?first = "run_guard env rq c r AuthGuard \<lparr>cx_user = None, cx_session = None, cx_guest = None\<rparr> s"
  show ?thesis
  proof (cases "fst ?first")
    case (Inl e')
    with assms(2) have "e' = e" by (cases ?first) (simp add: admit_unfold del: run_guard.simps)
    with Inl show ?thesis by (auto simp: map_sum_def split: sum.splits dest: auth_guard_InlD)
  next
    case (Inr cx)
    then obtain t where step: "?first = (Inr cx, t)" by (cases ?first) (simp del: run_guard.simps)
    have rest: "pass_guards env rq c r (PermissionsGuard # route_guards c r) cx t = (Inl e, s')"
      using assms(2) unfolding admit_unfold step by (simp only: await_simps)
    have "cx_user cx \<noteq> None" if "required_permission c r \<noteq> None"
      using step assms(1) that
      by (auto simp: declared_well_def map_sum_def split: sum.splits elim: auth_guard_InrD)
    moreover have "number_of_text (jp_sub p) \<noteq> None" if "cx_user cx = Some p" for p
      using guard_users [OF step that _ assms(3)] by simp
    ultimately show ?thesis using pass_guards_refusal [OF rest] assms(3) by blast
  qed
qed

text \<open>The handler of the order page: the guest session decides, then the user.\<close>

definition order_page :: "int option \<Rightarrow> int option \<Rightarrow> request_context \<Rightarrow> order_list_item list action" where
  "order_page page limit cx d =
     (get_orders (cx_guest cx) (Option.bind (cx_user cx) (\<lambda>p. number_of_text (jp_sub p))) page limit d, d)"

section \<open>Properties\<close>

text \<open>
  No handler is hidden by another: where a request fits two endpoints of the program, both belong to one
  controller, the one declared first is the more specific, and the later one has requests of its own. So the order in
  which controllers are registered decides nothing, and every handler can be reached.
\<close>
theorem no_handler_hidden:
  assumes "i < j" and "j < length endpoints" and "endpoints ! i = (c, v, p)" and "endpoints ! j = (c', v, q)"
    and "fits p path" and "fits q path"
  shows "c = c' \<and> more_specific p q \<and> (\<exists>path'. fits q path' \<and> \<not> fits p path')"
  using endpoint_visible [OF assms] more_specific_leaves by blast

lemma no_handler_hidden_witness:
  "endpoints ! 4 = (''AdminBookController'', GET, [''admin'', ''books'', ''stats''])
   \<and> endpoints ! 6 = (''AdminBookController'', GET, [''admin'', ''books'', '':bookId''])
   \<and> (\<exists>path'. fits [''admin'', ''books'', '':bookId''] path' \<and> \<not> fits [''admin'', ''books'', ''stats''] path')"
proof -
  have at: "endpoints ! 4 = (''AdminBookController'', GET, [''admin'', ''books'', ''stats''])"
    "endpoints ! 6 = (''AdminBookController'', GET, [''admin'', ''books'', '':bookId''])" "6 < length endpoints"
    by code_simp+
  have "fits [''admin'', ''books'', ''stats''] [''admin'', ''books'', ''stats'']"
    "fits [''admin'', ''books'', '':bookId''] [''admin'', ''books'', ''stats'']" by code_simp+
  from no_handler_hidden [OF _ at(3,1,2) this] at show ?thesis by simp
qed


definition sample_http :: http_env where
  "sample_http = \<lparr>he_auth = sample_auth_env 5 ''r'', he_api_key = Some ''k'', he_index_of = (\<lambda>_. []), he_text_of = (\<lambda>_. [])\<rparr>"

definition sample_request :: http_request where
  "sample_request = \<lparr>hr_url = ''/'', hr_shopper = sample_shopper, hr_refresh = No_Header\<rparr>"

definition sample_server :: "db \<Rightarrow> server" where
  "sample_server d = \<lparr>sv_db = d, sv_cache = (\<lambda>_. None)\<rparr>"


text \<open>The detail page of the book administration needs no token.\<close>

lemma admin_book_detail_open:
  "admit env rq admin_book_controller (ct_routes admin_book_controller ! 2) s
     = (Inr \<lparr>cx_user = None, cx_session = None, cx_guest = None\<rparr>, s)"
proof -
  let ?r = "ct_routes admin_book_controller ! 2"
  have "flagged Is_public admin_book_controller ?r" "required_permission admin_book_controller ?r = None"
    "route_guards admin_book_controller ?r = []" by code_simp+
  then show ?thesis by (simp add: admit_def app_guards_def auth_guard_def)
qed



text \<open>
  A request the guards refuse is answered with 401, or with 403 where the route names a permission, whatever the
  handler; with tokens whose subject is a number no guard fails in any other way, and the handler does not run.
\<close>
theorem refusals_are_401_or_403:
  assumes "c \<in> set app_controllers" and "r \<in> set (ct_routes c)" and "admit env rq c r s = (Inl e, s')"
    and "\<And>t p. ae_verify (he_auth env) t = Some p \<Longrightarrow> number_of_text (jp_sub p) \<noteq> None"
  shows "(ha_status (fst (serve env rq c r handler s)) = 401
        \<or> ha_status (fst (serve env rq c r handler s)) = 403 \<and> required_permission c r \<noteq> None)
    \<and> snd (serve env rq c r handler s) = s'"
proof -
  have "e = Unauthorized ''Unauthorized'' \<or> e = Forbidden ''Forbidden'' \<and> required_permission c r \<noteq> None"
    using all_routesD [OF routes_declared_well assms(1,2)] assms(3,4) by (rule admit_refusal)
  then show ?thesis by (auto simp: serve_def assms(3) respond_error_def answer_error_def)
qed

text \<open>Without a token, and with the token of a user without the permission.\<close>

lemma refusals_are_401_or_403_witness:
  "ha_status (fst (serve sample_http (sample_request\<lparr>hr_shopper := sample_shopper\<lparr>sr_authorization := None\<rparr>\<rparr>)
      admin_order_controller (ct_routes admin_order_controller ! 1) (\<lambda>_. ret ()) (sample_server sample_grants))) \<in> {401, 403}"
proof -
  let ?r = "ct_routes admin_order_controller ! 1"
  let ?rq = "sample_request\<lparr>hr_shopper := sample_shopper\<lparr>sr_authorization := None\<rparr>\<rparr>"
  have "fst (admit sample_http ?rq admin_order_controller ?r (sample_server sample_grants)) = Inl (Unauthorized ''Unauthorized'')"
    by code_simp
  then obtain s' where run: "admit sample_http ?rq admin_order_controller ?r (sample_server sample_grants)
      = (Inl (Unauthorized ''Unauthorized''), s')"
    by (cases "admit sample_http ?rq admin_order_controller ?r (sample_server sample_grants)") simp
  have "admin_order_controller \<in> set app_controllers" "?r \<in> set (ct_routes admin_order_controller)"
    by (simp_all add: app_controllers_def admin_order_controller_def)
  moreover have "number_of_text ''7'' \<noteq> None" by code_simp
  then have "number_of_text (jp_sub p) \<noteq> None" if "ae_verify (he_auth sample_http) t = Some p" for t p
    using that by (auto simp: sample_http_def sample_auth_env_def split: if_splits)
  ultimately show ?thesis
    using refusals_are_401_or_403 [OF _ _ run, where handler = "\<lambda>_. ret ()"] by blast
qed

text \<open>
  C36: the order page ignores who is signed in: the guard attaches a guest session to every request, and the handler
  lists the orders of that session whenever there is one. So with a valid token, too, the answer lists orders of the
  guest session only, and no order that was placed with an account (those have no guest session) is ever listed.
\<close>
theorem order_page_ignores_user:
  assumes "admit env rq order_controller (ct_routes order_controller ! 1) s = (Inr cx, s')" and "wf_table ord_id (orders (sv_db s'))"
  shows "\<exists>g items. fst (serve env rq order_controller (ct_routes order_controller ! 1)
        (order_page page limit) s)
      = answer_success 200 items
    \<and> (\<forall>x\<in>set items. \<exists>r\<in>set (rows (orders (sv_db s'))). oli_id x = ord_id r \<and> ord_guest_session_id r = Some g)
    \<and> (\<forall>r\<in>set (rows (orders (sv_db s'))). ord_guest_session_id r = None \<longrightarrow> ord_id r \<notin> oli_id ` set items)"
proof -
  have member: "order_controller \<in> set app_controllers"
    "ct_routes order_controller ! 1 \<in> set (ct_routes order_controller)"
    "ShopperSessionGuard \<in> set (route_guards order_controller (ct_routes order_controller ! 1))"
    by (simp_all add: app_controllers_def order_controller_def route_guards_def)
  from admit_guest [OF assms(1) member(3)] obtain g where g: "cx_guest cx = Some g" by blast
  define items where "items = get_order_guest g (case page of Some n \<Rightarrow> n | None \<Rightarrow> 1)
    (case limit of Some n \<Rightarrow> n | None \<Rightarrow> 12) (sv_db s')"
  have status: "success_status (ct_routes order_controller ! 1) = 200" by code_simp
  have answer: "fst (serve env rq order_controller (ct_routes order_controller ! 1)
        (order_page page limit) s)
      = answer_success 200 items"
    unfolding serve_def assms(1) by (simp add: order_page_def get_orders_def g items_def status [unfolded One_nat_def] Let_def)
  have own: "\<exists>r\<in>set (rows (orders (sv_db s'))). oli_id x = ord_id r \<and> ord_guest_session_id r = Some g" if "x \<in> set items" for x
    using that set_page_slice by (fastforce simp: items_def get_order_guest_def find_orders_by_guest_def to_list_item_def)
  moreover have "ord_id r \<notin> oli_id ` set items"
    if "r \<in> set (rows (orders (sv_db s')))" "ord_guest_session_id r = None" for r
  proof
    assume "ord_id r \<in> oli_id ` set items"
    then obtain r' where "r' \<in> set (rows (orders (sv_db s')))" "ord_id r' = ord_id r" "ord_guest_session_id r' = Some g"
      using own by force
    with that assms(2) show False by (auto simp: wf_table_def dest: inj_onD [OF distinct_map [THEN iffD1, THEN conjunct2]])
  qed
  ultimately show ?thesis using answer by blast
qed

definition account_order_db :: db where
  "account_order_db = cart_shop\<lparr>orders := \<lparr>rows = [sample_order 1 ''VLR1'' 120000], serial = 2\<rparr>\<rparr>"

text \<open>The user signed in has an order; the page does not show it.\<close>

lemma order_page_ignores_user_witness:
  "\<exists>items. fst (serve sample_http sample_request order_controller (ct_routes order_controller ! 1)
        (order_page None None) (sample_server account_order_db)) = answer_success 200 items \<and> 1 \<notin> oli_id ` set items
    \<and> (\<exists>r\<in>set (rows (orders account_order_db)). ord_id r = 1 \<and> ord_user_id r = Some 7)"
proof -
  let ?r = "ct_routes order_controller ! 1"
  let ?run = "admit sample_http sample_request order_controller ?r (sample_server account_order_db)"
  have "fst ?run = Inr \<lparr>cx_user = Some \<lparr>jp_sub = ''7'', jp_is_email_verified = True, jp_roles = []\<rparr>, cx_session = None, cx_guest = Some 3\<rparr>"
    by code_simp
  then obtain cx s' where run: "?run = (Inr cx, s')" by (cases ?run) simp
  have "orders (sv_db (snd ?run)) = orders account_order_db" by code_simp
  with run have orders: "orders (sv_db s') = \<lparr>rows = [sample_order 1 ''VLR1'' 120000], serial = 2\<rparr>"
    by (simp add: account_order_db_def)
  then have wf: "wf_table ord_id (orders (sv_db s'))" by (simp add: wf_table_def sample_order_def)
  have account: "ord_guest_session_id (sample_order 1 ''VLR1'' 120000) = None" "ord_id (sample_order 1 ''VLR1'' 120000) = 1"
    "ord_user_id (sample_order 1 ''VLR1'' 120000) = Some 7" by (simp_all add: sample_order_def)
  then have "sample_order 1 ''VLR1'' 120000 \<in> set (rows (orders (sv_db s')))" by (simp add: orders)
  with order_page_ignores_user [OF run wf, of None None] account show ?thesis
    by (force simp: account_order_db_def)
qed

end
