(* ===== verification/Validation.thy ===== *)
theory Validation
  imports Prelude Js_Text
begin

text \<open>
  What happens to the body or the query of a request before its handler runs: the pipe that \<open>src/src/main.ts\<close> installs
  for every route (\<open>transform\<close> and \<open>whitelist\<close> switched on). A class of a body is the list of its fields with their
  decorators (theory Bodies); the pipe converts the fields that a decorator tells it to convert, checks every field and
  drops the fields without a decorator. As with the queries of theory Store, the definitions are the documented meaning
  of the decorators. A request body that is a list, and dates, which no body of the program carries, are left out.
\<close>

section \<open>Values\<close>

text \<open>A number is \<open>None\<close> when it is not finite.\<close>

datatype json =
    J_null
  | J_bool bool
  | J_number "rat option"
  | J_text string
  | J_list "json list"
  | J_object "(string \<times> json) list"

text \<open>\<open>Number(text)\<close>: a decimal literal with its sign, its fraction and its exponent, or nothing but white space.\<close>

definition digits_and_rest :: "string \<Rightarrow> string \<times> string" where
  "digits_and_rest s = (takeWhile is_digit s, dropWhile is_digit s)"

definition signed_part :: "string \<Rightarrow> int \<times> string" where
  "signed_part s =
     (case s of c # cs \<Rightarrow> if c = CHR ''-'' then (- 1, cs) else if c = CHR ''+'' then (1, cs) else (1, s) | [] \<Rightarrow> (1, s))"

definition exponent_part :: "string \<Rightarrow> int option" where
  "exponent_part s =
     (case s of [] \<Rightarrow> Some 0
      | c # cs \<Rightarrow>
          let (sign, ds) = signed_part cs in
          if (c = CHR ''e'' \<or> c = CHR ''E'') \<and> ds \<noteq> [] \<and> list_all is_digit ds then Some (sign * digits_value ds) else None)"

definition power_of_ten :: "int \<Rightarrow> rat" where
  "power_of_ten e = (if 0 \<le> e then 10 ^ nat e else 1 / 10 ^ nat (- e))"

definition text_number :: "string \<Rightarrow> rat option" where
  "text_number s =
     (if js_trim s = [] then Some 0
      else let (sign, body) = signed_part (js_trim s);
               (whole, rest) = digits_and_rest body;
               (frac, tail) = (case rest of [] \<Rightarrow> ([], []) | c # cs \<Rightarrow> if c = CHR ''.'' then digits_and_rest cs else ([], rest))
           in if whole @ frac = [] then None
              else map_option (\<lambda>e. f64 (of_int (sign * digits_value (whole @ frac)) * power_of_ten (e - int (List.length frac))))
                     (exponent_part tail))"

text \<open>\<open>String(value)\<close>.\<close>

fun json_string :: "json \<Rightarrow> string" where
  "json_string J_null = ''null''"
| "json_string (J_bool b) = (if b then ''true'' else ''false'')"
| "json_string (J_number None) = ''NaN''"
| "json_string (J_number (Some n)) = number_string n"
| "json_string (J_text s) = s"
| "json_string (J_list vs) = js_join '','' (map (\<lambda>v. if v = J_null then [] else json_string v) vs)"
| "json_string (J_object ps) = ''[object Object]''"

section \<open>Decorated classes\<close>

text \<open>
  The conversions are those of \<open>@Type(() => Number)\<close>, \<open>Boolean\<close> and \<open>String\<close> and the three functions the sources give to
  \<open>@Transform\<close>; \<open>@IsEnum\<close> and \<open>@IsIn\<close> list the admitted values.
\<close>

datatype conversion = As_sent | To_number | To_boolean | To_text | Trimmed | Upper_cased | Query_parts

datatype rule =
    Is_string
  | Is_not_empty
  | Max_length nat
  | Min_length nat
  | Is_int
  | Is_number
  | Max_decimals nat
  | Min_value int
  | Max_value int
  | Is_boolean
  | Is_object
  | Is_one_of "string list"
  | Is_array
  | Array_min_size nat
  | Array_max_size nat
  | Each_string
  | Is_email
  | Is_url
  | Is_isbn

datatype body = Body string "field list"
  and field = Field string bool conversion "check list"
  and check = Rule rule | Validate_nested body

text \<open>The formats that a library decides.\<close>

record formats =
  fmt_email :: "string \<Rightarrow> bool"
  fmt_url :: "string \<Rightarrow> bool"
  fmt_isbn :: "string \<Rightarrow> bool"

primrec body_fields :: "body \<Rightarrow> field list" where "body_fields (Body n fs) = fs"
primrec body_class :: "body \<Rightarrow> string" where "body_class (Body n fs) = n"
primrec field_name :: "field \<Rightarrow> string" where "field_name (Field n opt conv cs) = n"
primrec field_checks :: "field \<Rightarrow> check list" where "field_checks (Field n opt conv cs) = cs"
primrec field_optional :: "field \<Rightarrow> bool" where "field_optional (Field n opt conv cs) = opt"

section \<open>Conversion\<close>

fun number_of_json :: "json \<Rightarrow> json" where
  "number_of_json J_null = J_null"
| "number_of_json (J_bool b) = J_number (Some (if b then 1 else 0))"
| "number_of_json (J_number n) = J_number n"
| "number_of_json (J_text s) = J_number (text_number s)"
| "number_of_json (J_list vs) = J_list (map number_of_json vs)"
| "number_of_json (J_object ps) = J_number None"

fun boolean_of_json :: "json \<Rightarrow> json" where
  "boolean_of_json J_null = J_null"
| "boolean_of_json (J_bool b) = J_bool b"
| "boolean_of_json (J_number n) = J_bool (n \<noteq> None \<and> n \<noteq> Some 0)"
| "boolean_of_json (J_text s) = J_bool (s \<noteq> [])"
| "boolean_of_json (J_list vs) = J_list (map boolean_of_json vs)"
| "boolean_of_json (J_object ps) = J_bool True"

fun text_of_json :: "json \<Rightarrow> json" where
  "text_of_json J_null = J_null"
| "text_of_json (J_list vs) = J_list (map text_of_json vs)"
| "text_of_json v = J_text (json_string v)"

text \<open>\<open>toQueryParts\<close>: the parts between commas of one value or of several, \<open>undefined\<close> when there is none.\<close>

definition query_parts :: "json \<Rightarrow> json option" where
  "query_parts v =
     (if v = J_null \<or> v = J_text [] then None
      else let raw = (case v of J_list vs \<Rightarrow> vs | _ \<Rightarrow> [v]);
               parts = filter (\<lambda>p. p \<noteq> []) (map js_trim (concat (map (js_split (CHR '','') \<circ> json_string) raw)))
           in if parts = [] then None else Some (J_list (map J_text parts)))"

text \<open>A value that is present; the result \<open>None\<close> is \<open>undefined\<close>.\<close>

fun convert :: "conversion \<Rightarrow> json \<Rightarrow> json option res" where
  "convert As_sent v = Inr (Some v)"
| "convert To_number v = Inr (Some (number_of_json v))"
| "convert To_boolean v = Inr (Some (boolean_of_json v))"
| "convert To_text v = Inr (Some (text_of_json v))"
| "convert Trimmed (J_text s) = Inr (Some (J_text (js_trim s)))"
| "convert Trimmed v = Inr (Some v)"
| "convert Upper_cased (J_text s) = Inr (Some (J_text (to_upper s)))"
| "convert Upper_cased J_null = Inr None"
| "convert Upper_cased v = Inl TypeError"
| "convert Query_parts v = Inr (query_parts v)"

text \<open>A nested class is applied to an object and to every object of a list.\<close>

fun in_objects :: "(json \<Rightarrow> json res) \<Rightarrow> json \<Rightarrow> json res" where
  "in_objects f (J_object ps) = f (J_object ps)"
| "in_objects f (J_list vs) =
     (case those (map (\<lambda>v. case in_objects f v of Inl e \<Rightarrow> None | Inr w \<Rightarrow> Some w) vs) of
        None \<Rightarrow> Inl TypeError | Some ws \<Rightarrow> Inr (J_list ws))"
| "in_objects f v = Inr v"

primrec transform_body :: "body \<Rightarrow> json \<Rightarrow> json res"
  and transform_fields :: "field list \<Rightarrow> string \<Rightarrow> json \<Rightarrow> json option res"
  and transform_field :: "field \<Rightarrow> json \<Rightarrow> json option res"
  and transform_checks :: "check list \<Rightarrow> json \<Rightarrow> json res"
  and transform_check :: "check \<Rightarrow> json \<Rightarrow> json res" where
  "transform_body (Body n fs) v =
     (case v of
        J_object ps \<Rightarrow>
          (case those (map (\<lambda>(k, x). case transform_fields fs k x of Inl e \<Rightarrow> None | Inr w \<Rightarrow> Some (k, w)) ps) of
             None \<Rightarrow> Inl TypeError
           | Some qs \<Rightarrow> Inr (J_object (List.map_filter (\<lambda>(k, w). map_option (Pair k) w) qs)))
      | _ \<Rightarrow> Inr v)"
| "transform_fields [] k x = Inr (Some x)"
| "transform_fields (f # fs) k x = (if field_name f = k then transform_field f x else transform_fields fs k x)"
| "transform_field (Field n opt conv cs) x =
     (case convert conv x of
        Inl e \<Rightarrow> Inl e
      | Inr None \<Rightarrow> Inr None
      | Inr (Some y) \<Rightarrow> (case transform_checks cs y of Inl e \<Rightarrow> Inl e | Inr z \<Rightarrow> Inr (Some z)))"
| "transform_checks [] x = Inr x"
| "transform_checks (c # cs) x = (case transform_check c x of Inl e \<Rightarrow> Inl e | Inr y \<Rightarrow> transform_checks cs y)"
| "transform_check (Validate_nested b) x = in_objects (transform_body b) x"
| "transform_check (Rule r) x = Inr x"

section \<open>Checks\<close>

definition whole :: "rat \<Rightarrow> bool" where
  "whole x \<longleftrightarrow> of_int \<lfloor>x\<rfloor> = x"

fun text_is :: "(string \<Rightarrow> bool) \<Rightarrow> json option \<Rightarrow> bool" where
  "text_is P (Some (J_text s)) = P s"
| "text_is P _ = False"

fun number_is :: "(rat \<Rightarrow> bool) \<Rightarrow> json option \<Rightarrow> bool" where
  "number_is P (Some (J_number (Some x))) = P x"
| "number_is P _ = False"

fun list_is :: "(json list \<Rightarrow> bool) \<Rightarrow> json option \<Rightarrow> bool" where
  "list_is P (Some (J_list vs)) = P vs"
| "list_is P _ = False"

text \<open>A rule on the value of a field, \<open>None\<close> when the field is missing.\<close>

primrec passes :: "formats \<Rightarrow> rule \<Rightarrow> json option \<Rightarrow> bool" where
  "passes F Is_string v = text_is (\<lambda>_. True) v"
| "passes F Is_not_empty v = (v \<noteq> None \<and> v \<noteq> Some J_null \<and> v \<noteq> Some (J_text []))"
| "passes F (Max_length n) v = text_is (\<lambda>s. List.length s \<le> n) v"
| "passes F (Min_length n) v = text_is (\<lambda>s. n \<le> List.length s) v"
| "passes F Is_int v = number_is whole v"
| "passes F Is_number v = number_is (\<lambda>_. True) v"
| "passes F (Max_decimals n) v = number_is (\<lambda>x. whole (x * 10 ^ n)) v"
| "passes F (Min_value n) v = number_is (\<lambda>x. of_int n \<le> x) v"
| "passes F (Max_value n) v = number_is (\<lambda>x. x \<le> of_int n) v"
| "passes F Is_boolean v = (v = Some (J_bool True) \<or> v = Some (J_bool False))"
| "passes F Is_object v = (case v of Some (J_object ps) \<Rightarrow> True | _ \<Rightarrow> False)"
| "passes F (Is_one_of ss) v = text_is (\<lambda>s. s \<in> set ss) v"
| "passes F Is_array v = list_is (\<lambda>_. True) v"
| "passes F (Array_min_size n) v = list_is (\<lambda>vs. n \<le> List.length vs) v"
| "passes F (Array_max_size n) v = list_is (\<lambda>vs. List.length vs \<le> n) v"
| "passes F Each_string v = list_is (list_all (\<lambda>x. text_is (\<lambda>_. True) (Some x))) v"
| "passes F Is_email v = text_is (fmt_email F) v"
| "passes F Is_url v = text_is (fmt_url F) v"
| "passes F Is_isbn v = text_is (fmt_isbn F) v"

text \<open>A nested value may be missing or \<open>null\<close>; otherwise it is an object or a list of such values.\<close>

fun all_objects :: "(json \<Rightarrow> bool) \<Rightarrow> json \<Rightarrow> bool" where
  "all_objects P J_null = True"
| "all_objects P (J_object ps) = P (J_object ps)"
| "all_objects P (J_list vs) = list_all (all_objects P) vs"
| "all_objects P v = False"

primrec accepts_body :: "formats \<Rightarrow> body \<Rightarrow> json \<Rightarrow> bool"
  and accepts_fields :: "formats \<Rightarrow> field list \<Rightarrow> (string \<rightharpoonup> json) \<Rightarrow> bool"
  and accepts_field :: "formats \<Rightarrow> field \<Rightarrow> json option \<Rightarrow> bool"
  and accepts_checks :: "formats \<Rightarrow> check list \<Rightarrow> json option \<Rightarrow> bool"
  and accepts_check :: "formats \<Rightarrow> check \<Rightarrow> json option \<Rightarrow> bool" where
  "accepts_body F (Body n fs) v = (case v of J_object ps \<Rightarrow> accepts_fields F fs (map_of ps) | _ \<Rightarrow> False)"
| "accepts_fields F [] m = True"
| "accepts_fields F (f # fs) m = (accepts_field F f (m (field_name f)) \<and> accepts_fields F fs m)"
| "accepts_field F (Field n opt conv cs) v = (opt \<and> (v = None \<or> v = Some J_null) \<or> accepts_checks F cs v)"
| "accepts_checks F [] v = True"
| "accepts_checks F (c # cs) v = (accepts_check F c v \<and> accepts_checks F cs v)"
| "accepts_check F (Rule r) v = passes F r v"
| "accepts_check F (Validate_nested b) v = (case v of None \<Rightarrow> True | Some x \<Rightarrow> all_objects (accepts_body F b) x)"

section \<open>The whitelist\<close>

fun map_objects :: "(json \<Rightarrow> json) \<Rightarrow> json \<Rightarrow> json" where
  "map_objects f (J_object ps) = f (J_object ps)"
| "map_objects f (J_list vs) = J_list (map (map_objects f) vs)"
| "map_objects f v = v"

primrec strip_body :: "body \<Rightarrow> json \<Rightarrow> json"
  and strip_fields :: "field list \<Rightarrow> string \<Rightarrow> json \<Rightarrow> json option"
  and strip_field :: "field \<Rightarrow> json \<Rightarrow> json"
  and strip_checks :: "check list \<Rightarrow> json \<Rightarrow> json"
  and strip_check :: "check \<Rightarrow> json \<Rightarrow> json" where
  "strip_body (Body n fs) v =
     (case v of
        J_object ps \<Rightarrow> J_object (List.map_filter (\<lambda>(k, x). map_option (Pair k) (strip_fields fs k x)) ps)
      | _ \<Rightarrow> v)"
| "strip_fields [] k x = None"
| "strip_fields (f # fs) k x = (if field_name f = k then Some (strip_field f x) else strip_fields fs k x)"
| "strip_field (Field n opt conv cs) x = strip_checks cs x"
| "strip_checks [] x = x"
| "strip_checks (c # cs) x = strip_checks cs (strip_check c x)"
| "strip_check (Rule r) x = x"
| "strip_check (Validate_nested b) x = map_objects (strip_body b) x"

section \<open>The pipe\<close>

definition validate :: "formats \<Rightarrow> body \<Rightarrow> (string \<times> json) list \<Rightarrow> json res" where
  "validate F b ps =
     (case transform_body b (J_object ps) of
        Inl e \<Rightarrow> Inl e
      | Inr v \<Rightarrow> if accepts_body F b v then Inr (strip_body b v) else Inl (BadRequest ''validation''))"

text \<open>The value of a field of an accepted body.\<close>

definition json_field :: "string \<Rightarrow> json \<Rightarrow> json option" where
  "json_field k v = (case v of J_object ps \<Rightarrow> map_of ps k | _ \<Rightarrow> None)"

section \<open>What an accepted body holds\<close>

lemma strip_fields_field:
  "distinct (map field_name fs) \<Longrightarrow> f \<in> set fs \<Longrightarrow> strip_fields fs (field_name f) x = Some (strip_field f x)"
  by (induction fs) (auto simp: image_iff)

lemma map_of_stripped:
  assumes "distinct (map field_name fs)" and "f \<in> set fs"
  shows "map_of (List.map_filter (\<lambda>(k, x). map_option (Pair k) (strip_fields fs k x)) ps) (field_name f)
       = map_option (strip_field f) (map_of ps (field_name f))"
  by (induction ps)
     (auto simp: List.map_filter_simps strip_fields_field [OF assms] split: option.splits)

lemma accepts_fieldsD: "accepts_fields F fs m \<Longrightarrow> f \<in> set fs \<Longrightarrow> accepts_field F f (m (field_name f))"
  by (induction fs) auto

lemma accepts_checksD: "accepts_checks F cs v \<Longrightarrow> c \<in> set cs \<Longrightarrow> accepts_check F c v"
  by (induction cs) auto

text \<open>Stripping changes objects only.\<close>

fun plain :: "json \<Rightarrow> bool" where
  "plain (J_list vs) = False"
| "plain (J_object ps) = False"
| "plain v = True"

lemma strip_body_object: "\<not> plain (strip_body b (J_object ps))"
  by (cases b) simp

lemma map_objects_plain:
  "(\<And>ps. \<not> plain (f (J_object ps))) \<Longrightarrow> plain (map_objects f v) \<longleftrightarrow> plain v"
  "plain v \<Longrightarrow> map_objects f v = v"
  by (cases v; simp)+

lemma strip_check_plain: "plain (strip_check c v) \<longleftrightarrow> plain v" "plain v \<Longrightarrow> strip_check c v = v"
  by (cases c; simp add: map_objects_plain strip_body_object)+

lemma strip_checks_plain: "plain (strip_checks cs v) \<Longrightarrow> strip_checks cs v = v"
proof (induction cs arbitrary: v)
  case (Cons c cs)
  then have "strip_checks cs (strip_check c v) = strip_check c v" by simp
  with Cons.prems have "plain (strip_check c v)" by simp
  then have "strip_check c v = v" using strip_check_plain by blast
  with \<open>strip_checks cs (strip_check c v) = strip_check c v\<close> show ?case by simp
qed simp

lemma strip_checks_of_plain: "plain v \<Longrightarrow> strip_checks cs v = v"
  by (induction cs arbitrary: v) (simp_all add: strip_check_plain)

lemma strip_field_plain: "plain (strip_field f v) \<Longrightarrow> strip_field f v = v"
  by (cases f) (auto dest: strip_checks_plain)

text \<open>A plain value that the handler reads has passed every check of its field.\<close>

lemma validated_field:
  assumes "validate F b ps = Inr w" and "distinct (map field_name (body_fields b))" and "f \<in> set (body_fields b)"
  obtains v where "json_field (field_name f) w = map_option (strip_field f) v" and "accepts_field F f v"
proof -
  obtain n fs where b: "b = Body n fs" by (cases b)
  obtain qs where qs: "transform_body b (J_object ps) = Inr (J_object qs)" "accepts_fields F fs (map_of qs)"
    "w = strip_body b (J_object qs)"
    using assms(1) by (auto simp: validate_def b split: sum.splits if_splits json.splits option.splits)
  have "accepts_field F f (map_of qs (field_name f))" using qs(2) assms(3) by (simp add: b accepts_fieldsD)
  moreover have "json_field (field_name f) w = map_option (strip_field f) (map_of qs (field_name f))"
    using assms(2,3) by (simp add: qs(3) b json_field_def map_of_stripped)
  ultimately show ?thesis using that by blast
qed

lemma validated_value:
  assumes "validate F b ps = Inr w" and "distinct (map field_name (body_fields b))" and "Field k opt conv cs \<in> set (body_fields b)"
    and "json_field k w = Some x" and "plain x" and "x \<noteq> J_null" and "Rule r \<in> set cs"
  shows "passes F r (Some x)"
proof (rule validated_field [OF assms(1-3)])
  fix v
  assume v: "json_field (field_name (Field k opt conv cs)) w = map_option (strip_field (Field k opt conv cs)) v"
    and accepted: "accepts_field F (Field k opt conv cs) v"
  from v assms(4) obtain y where y: "v = Some y" "strip_field (Field k opt conv cs) y = x"
    by (cases v) auto
  with strip_field_plain assms(5) have "y = x" by metis
  with accepted y assms(6) have "accepts_checks F cs (Some x)" by simp
  from accepts_checksD [OF this assms(7)] show ?thesis by simp
qed

lemma validated_text_length:
  assumes "validate F b ps = Inr w" and "distinct (map field_name (body_fields b))" and "Field k opt conv cs \<in> set (body_fields b)"
    and "Rule (Max_length n) \<in> set cs" and "json_field k w = Some (J_text s)"
  shows "List.length s \<le> n"
  using validated_value [OF assms(1-3,5) _ _ assms(4)] by simp

text \<open>A field that is checked for a text, a number or a flag and is not optional is there and is one.\<close>

lemma validated_present:
  assumes "validate F b ps = Inr w" and "distinct (map field_name (body_fields b))" and "Field k False conv cs \<in> set (body_fields b)"
    and "Rule r \<in> set cs"
  shows "json_field k w \<noteq> None"
proof (rule validated_field [OF assms(1-3)])
  fix v
  assume v: "json_field (field_name (Field k False conv cs)) w = map_option (strip_field (Field k False conv cs)) v"
    and accepted: "accepts_field F (Field k False conv cs) v"
  from accepted have "accepts_checks F cs v" by simp
  from accepts_checksD [OF this assms(4)] have "passes F r v" by simp
  moreover have "\<not> passes F r None" by (cases r) simp_all
  ultimately have "v \<noteq> None" by (cases v) auto
  with v show ?thesis by simp
qed

end
