(* ===== verification/Bodies.thy ===== *)
theory Bodies
  imports Validation Checkout Pagination
begin

text \<open>
  The bodies and queries of the requests: one definition for each class that a handler of a controller declares with
  \<open>@Body()\<close> or \<open>@Query()\<close> or that such a class nests (\<open>dto/request\<close> of every module), with its fields, what they are
  converted to and the checks of their decorators, in the order of the source. A field without a decorator of
  class-validator is no field here, for the whitelist drops it; \<open>@Api...\<close> decorators only describe the interface.
\<close>

named_theorems body_defs \<open>the decorated classes\<close>

section \<open>The classes\<close>

definition add_cart_item_class :: body where
  [body_defs]: "add_cart_item_class =
     Body ''AddCartItemRequestDto''
       [Field ''bookVariantId'' False To_number [Rule Is_int, Rule (Min_value 1)],
        Field ''quantity'' False To_number [Rule Is_int, Rule (Min_value 1)]]"

definition add_wish_item_class :: body where
  [body_defs]: "add_wish_item_class =
     Body ''AddWishItemRequestDto''
       [Field ''bookVariantId'' False To_number [Rule Is_int, Rule (Min_value 1)]]"

definition admin_book_detail_class :: body where
  [body_defs]: "admin_book_detail_class =
     Body ''AdminBookDetailQueryDto''
       [Field ''type'' True As_sent [Rule (Is_one_of [''view_price''])]]"

definition base_pagination_class :: body where
  [body_defs]: "base_pagination_class =
     Body ''BasePaginationDto''
       [Field ''page'' True To_number [Rule Is_int, Rule (Min_value 1)],
        Field ''limit'' True To_number [Rule Is_int, Rule (Min_value 1), Rule (Max_value 100)]]"

definition admin_book_list_class :: body where
  [body_defs]: "admin_book_list_class =
     Body ''AdminBookListQueryDto'' (body_fields base_pagination_class @
       [Field ''searchPhrase'' True As_sent [Rule Is_string, Rule (Max_length 500)],
        Field ''isbn'' True As_sent [Rule Is_isbn],
        Field ''type'' True As_sent [Rule Is_string]])"

definition admin_book_snapshot_list_class :: body where
  [body_defs]: "admin_book_snapshot_list_class =
     Body ''AdminBookSnapshotListQueryDto'' (body_fields base_pagination_class)"

definition admin_order_list_class :: body where
  [body_defs]: "admin_order_list_class =
     Body ''AdminOrderListQueryDto'' (body_fields base_pagination_class)"

definition admin_order_status_class :: body where
  [body_defs]: "admin_order_status_class =
     Body ''AdminOrderStatusDto''
       [Field ''status'' False As_sent [Rule (Is_one_of [''PENDING_PAYMENT'', ''PAID'', ''CONFIRMED'', ''PACKING'',
           ''SHIPPING'', ''DELIVERED'', ''CANCELLED'', ''RETURN_REQUESTED'', ''RETURNED'', ''REFUNDED'',
           ''NOT_FOUND_ORDER_CODE'']), Rule (Is_one_of [''CONFIRMED'', ''CANCELLED'']), Rule Is_not_empty],
        Field ''note'' True As_sent [Rule Is_string]]"

definition admin_stock_import_list_class :: body where
  [body_defs]: "admin_stock_import_list_class =
     Body ''AdminStockImportListQueryDto'' (body_fields base_pagination_class)"

definition admin_update_price_variant_class :: body where
  [body_defs]: "admin_update_price_variant_class =
     Body ''AdminUpdatePriceVariant''
       [Field ''purchaseOrderItemId'' False As_sent [Rule Is_string]]"

definition admin_user_list_class :: body where
  [body_defs]: "admin_user_list_class =
     Body ''AdminUserListQueryDto'' (body_fields base_pagination_class)"

definition approve_purchase_order_class :: body where
  [body_defs]: "approve_purchase_order_class =
     Body ''ApprovePurchaseOrderRequestDto''
       [Field ''status'' False As_sent [Rule (Is_one_of [''PENDING'', ''APPROVED'', ''REJECTED''])]]"

definition catalog_book_list_class :: body where
  [body_defs]: "catalog_book_list_class =
     Body ''CatalogBookListQueryDto'' (body_fields base_pagination_class @
       [Field ''slugCategory'' True To_text [Rule Is_string],
        Field ''keyword'' True To_text [Rule Is_string]])"

definition catalog_home_class :: body where
  [body_defs]: "catalog_home_class =
     Body ''CatalogHomeQueryDto''
       [Field ''limit'' True To_number [Rule Is_int, Rule (Min_value 1), Rule (Max_value 50)]]"

definition change_password_class :: body where
  [body_defs]: "change_password_class =
     Body ''ChangePasswordRequestDto''
       [Field ''oldPassword'' False As_sent [Rule Is_string, Rule Is_not_empty, Rule (Min_length 8),
           Rule (Max_length 72)],
        Field ''newPassword'' False As_sent [Rule Is_string, Rule Is_not_empty, Rule (Min_length 8),
           Rule (Max_length 72)],
        Field ''confirmNewPassword'' False As_sent [Rule Is_string, Rule Is_not_empty, Rule (Min_length 8),
           Rule (Max_length 72)]]"

definition confirm_book_asset_class :: body where
  [body_defs]: "confirm_book_asset_class =
     Body ''ConfirmBookAssetRequestDto''
       [Field ''image_url'' False As_sent [Rule Is_string, Rule Is_not_empty],
        Field ''orderBy'' False To_number [Rule Is_int, Rule (Min_value 1), Rule (Max_value 5)],
        Field ''assetType'' True As_sent [Rule Is_string, Rule (Max_length 50)]]"

definition create_book_author_class :: body where
  [body_defs]: "create_book_author_class =
     Body ''CreateBookAuthorDto''
       [Field ''authorName'' False As_sent [Rule Is_string, Rule Is_not_empty, Rule (Max_length 200)],
        Field ''isPrimary'' True To_boolean [Rule Is_boolean]]"

definition create_categories_class :: body where
  [body_defs]: "create_categories_class =
     Body ''CreateCategoriesDto''
       []"

definition create_book_spec_class :: body where
  [body_defs]: "create_book_spec_class =
     Body ''CreateBookSpecDto''
       [Field ''widthCm'' True To_number [Rule Is_number, Rule (Max_decimals 2), Rule (Min_value 0)],
        Field ''heightCm'' True To_number [Rule Is_number, Rule (Max_decimals 2), Rule (Min_value 0)],
        Field ''thicknessCm'' True To_number [Rule Is_number, Rule (Max_decimals 2), Rule (Min_value 0)],
        Field ''packaging'' True As_sent [Rule Is_string, Rule (Max_length 200)]]"

definition create_book_variant_item_class :: body where
  [body_defs]: "create_book_variant_item_class =
     Body ''CreateBookVariantItemDto''
       [Field ''format'' False As_sent [Rule (Is_one_of [''HARDCOVER'', ''PAPERBACK'', ''EBOOK'', ''AUDIOBOOK''])],
        Field ''isbn'' False As_sent [Rule Is_string, Rule Is_not_empty, Rule (Max_length 20)],
        Field ''publicationYear'' False To_number [Rule Is_int, Rule (Min_value 1900)],
        Field ''edition'' False To_number [Rule Is_int, Rule (Min_value 1)]]"

definition create_admin_book_class :: body where
  [body_defs]: "create_admin_book_class =
     Body ''CreateAdminBookRequestDto''
       [Field ''title'' False As_sent [Rule Is_string, Rule Is_not_empty, Rule (Max_length 500)],
        Field ''description'' False As_sent [Rule Is_string, Rule Is_not_empty],
        Field ''publisherName'' False As_sent [Rule Is_string, Rule Is_not_empty, Rule (Max_length 200)],
        Field ''authors'' True As_sent [Rule Is_array, Validate_nested create_book_author_class],
        Field ''categories'' True As_sent [Rule Is_array, Validate_nested create_categories_class],
        Field ''spec'' True As_sent [Validate_nested create_book_spec_class],
        Field ''pageCount'' True To_number [Rule Is_int, Rule (Min_value 1)],
        Field ''coverImageUrl'' True As_sent [Rule Is_string, Rule (Max_length 500), Rule Is_url],
        Field ''badgeCode'' True As_sent [Rule (Is_one_of [''NEW'', ''LIMITED'', ''BESTSELLER'', ''EDITION''])],
        Field ''bookVariantItems'' False As_sent [Rule Is_array, Rule (Array_min_size 1), Rule (Array_max_size 4),
           Validate_nested create_book_variant_item_class]]"

definition create_admin_book_translation_class :: body where
  [body_defs]: "create_admin_book_translation_class =
     Body ''CreateAdminBookTranslationRequestDto''
       [Field ''lang'' True As_sent [Rule (Is_one_of [''vi'', ''en''])],
        Field ''title'' False As_sent [Rule Is_string, Rule Is_not_empty, Rule (Max_length 500)],
        Field ''description'' True As_sent [Rule Is_string, Rule (Max_length 5000)]]"

definition create_admin_stock_import_item_class :: body where
  [body_defs]: "create_admin_stock_import_item_class =
     Body ''CreateAdminStockImportItemRequestDto''
       [Field ''purchaseOrderItemId'' False As_sent [Rule Is_string],
        Field ''realQuantity'' False To_number [Rule Is_number, Rule (Min_value 0)]]"

definition create_admin_stock_import_class :: body where
  [body_defs]: "create_admin_stock_import_class =
     Body ''CreateAdminStockImportRequestDto''
       [Field ''purchaseOrderId'' False As_sent [Rule Is_string],
        Field ''note'' True As_sent [Rule Is_string],
        Field ''items'' False As_sent [Rule Is_array, Validate_nested create_admin_stock_import_item_class]]"

definition create_author_class :: body where
  [body_defs]: "create_author_class =
     Body ''CreateAuthorRequestDto''
       [Field ''defaultName'' False As_sent [Rule Is_string, Rule Is_not_empty, Rule (Max_length 255)]]"

definition create_category_class :: body where
  [body_defs]: "create_category_class =
     Body ''CreateCategoryRequestDto''
       [Field ''name'' False As_sent [Rule Is_string, Rule Is_not_empty, Rule (Max_length 255)],
        Field ''lang'' True As_sent [Rule (Is_one_of [''vi'', ''en''])],
        Field ''parentId'' True As_sent [Rule Is_string, Rule Is_not_empty],
        Field ''isActive'' True As_sent [Rule Is_boolean],
        Field ''sortOrder'' True To_number [Rule Is_int],
        Field ''slug'' True As_sent [Rule Is_string, Rule (Max_length 255)],
        Field ''description'' True As_sent [Rule Is_string]]"

definition guest_address_class :: body where
  [body_defs]: "guest_address_class =
     Body ''GuestAddressDto''
       [Field ''name'' False As_sent [Rule Is_string, Rule Is_not_empty],
        Field ''addressLine'' False As_sent [Rule Is_string, Rule Is_not_empty],
        Field ''city'' False As_sent [Rule Is_string, Rule Is_not_empty],
        Field ''ward'' True As_sent [Rule Is_string],
        Field ''district'' True As_sent [Rule Is_string],
        Field ''phoneNumber'' False As_sent [Rule Is_string, Rule Is_not_empty],
        Field ''postalCode'' True As_sent [Rule Is_string],
        Field ''note'' True As_sent [Rule Is_string]]"

definition checkout_item_class :: body where
  [body_defs]: "checkout_item_class =
     Body ''CheckoutItemDto''
       [Field ''bookVariantId'' False As_sent [Rule Is_number, Rule Is_not_empty],
        Field ''quantity'' False As_sent [Rule Is_number, Rule Is_not_empty]]"

definition create_check_out_class :: body where
  [body_defs]: "create_check_out_class =
     Body ''CreateCheckOutDTO''
       [Field ''isGuest'' False As_sent [Rule Is_boolean, Rule Is_not_empty],
        Field ''guestEmail'' True As_sent [Rule Is_email],
        Field ''guestAddress'' True As_sent [Validate_nested guest_address_class],
        Field ''addressId'' True As_sent [Rule Is_number],
        Field ''paymentGateway'' False As_sent [Rule (Is_one_of [''COD'', ''VNPAY'', ''MOMO'', ''STRIPE'',
           ''PAYPAL'', ''SEPAY'', ''OTHER'']), Rule Is_not_empty],
        Field ''items'' False As_sent [Rule Is_array, Validate_nested checkout_item_class]]"

definition create_publisher_class :: body where
  [body_defs]: "create_publisher_class =
     Body ''CreatePublisherRequestDto''
       [Field ''defaultName'' False As_sent [Rule Is_string, Rule Is_not_empty, Rule (Max_length 255)]]"

definition create_purchase_order_item_class :: body where
  [body_defs]: "create_purchase_order_item_class =
     Body ''CreatePurchaseOrderItemRequestDto''
       [Field ''bookVariantId'' False To_number [Rule Is_number],
        Field ''quantity'' False To_number [Rule Is_number, Rule (Min_value 1)],
        Field ''unitPrice'' False To_number [Rule Is_number, Rule (Min_value 0)],
        Field ''discountPrice'' False To_number [Rule Is_number, Rule (Min_value 0), Rule (Max_value 100)]]"

definition create_purchase_order_class :: body where
  [body_defs]: "create_purchase_order_class =
     Body ''CreatePurchaseOrderRequestDto''
       [Field ''supplierId'' False To_number [Rule Is_number],
        Field ''code'' False As_sent [Rule Is_string],
        Field ''note'' True As_sent [Rule Is_string],
        Field ''taxAmount'' True To_number [Rule Is_number, Rule (Min_value 0)],
        Field ''items'' False As_sent [Rule Is_array, Validate_nested create_purchase_order_item_class]]"

definition create_role_permission_class :: body where
  [body_defs]: "create_role_permission_class =
     Body ''CreateRolePermissionRequestDto''
       [Field ''roleId'' False As_sent [Rule Is_string, Rule Is_not_empty],
        Field ''permissionId'' False As_sent [Rule Is_string, Rule Is_not_empty]]"

definition create_supplier_class :: body where
  [body_defs]: "create_supplier_class =
     Body ''CreateSupplierRequestDto''
       [Field ''name'' False As_sent [Rule Is_string, Rule Is_not_empty, Rule (Max_length 255)],
        Field ''code'' False As_sent [Rule Is_string, Rule Is_not_empty, Rule (Max_length 50)]]"

definition create_user_address_class :: body where
  [body_defs]: "create_user_address_class =
     Body ''CreateUserAddressRequestDto''
       [Field ''addressType'' True As_sent [Rule Is_string, Rule (Max_length 50)],
        Field ''recipientName'' True As_sent [Rule Is_string, Rule (Max_length 200)],
        Field ''phoneNumber'' False As_sent [Rule Is_string, Rule Is_not_empty, Rule (Max_length 30)],
        Field ''addressDetail'' False As_sent [Rule Is_string, Rule Is_not_empty, Rule (Max_length 255)],
        Field ''ward'' False As_sent [Rule Is_string, Rule Is_not_empty, Rule (Max_length 200)],
        Field ''district'' False As_sent [Rule Is_string, Rule Is_not_empty, Rule (Max_length 200)],
        Field ''city'' False As_sent [Rule Is_string, Rule Is_not_empty, Rule (Max_length 200)]]"

definition forgot_password_class :: body where
  [body_defs]: "forgot_password_class =
     Body ''ForgotPasswordRequestDto''
       [Field ''email'' False As_sent [Rule Is_email, Rule Is_not_empty, Rule (Max_length 255)]]"

definition get_author_books_class :: body where
  [body_defs]: "get_author_books_class =
     Body ''GetAuthorBooksQueryDto'' (body_fields base_pagination_class)"

definition get_authors_class :: body where
  [body_defs]: "get_authors_class =
     Body ''GetAuthorsQueryDto'' (body_fields base_pagination_class)"

definition get_categories_class :: body where
  [body_defs]: "get_categories_class =
     Body ''GetCategoriesQueryDto'' (body_fields base_pagination_class)"

definition get_email_outbox_class :: body where
  [body_defs]: "get_email_outbox_class =
     Body ''GetEmailOutboxQueryDto''
       [Field ''otpType'' True As_sent [Rule (Is_one_of [''REGISTER'', ''FORGOT_PASSWORD''])],
        Field ''status'' True As_sent [Rule (Is_one_of [''PENDING'', ''SENT'', ''FAILED''])],
        Field ''limit'' True To_number [Rule Is_int, Rule (Min_value 1), Rule (Max_value 200)]]"

definition get_order_class :: body where
  [body_defs]: "get_order_class =
     Body ''GetOrderDto'' (body_fields base_pagination_class)"

definition get_publisher_books_class :: body where
  [body_defs]: "get_publisher_books_class =
     Body ''GetPublisherBooksQueryDto'' (body_fields base_pagination_class)"

definition get_publishers_class :: body where
  [body_defs]: "get_publishers_class =
     Body ''GetPublishersQueryDto'' (body_fields base_pagination_class)"

definition get_purchase_order_items_class :: body where
  [body_defs]: "get_purchase_order_items_class =
     Body ''GetPurchaseOrderItemsQueryDto'' (body_fields base_pagination_class)"

definition get_purchase_orders_class :: body where
  [body_defs]: "get_purchase_orders_class =
     Body ''GetPurchaseOrdersQueryDto'' (body_fields base_pagination_class @
       [Field ''status'' True Upper_cased [Rule (Is_one_of [''PENDING'', ''APPROVED'', ''REJECTED''])]])"

definition get_suppliers_class :: body where
  [body_defs]: "get_suppliers_class =
     Body ''GetSuppliersQueryDto'' (body_fields base_pagination_class)"

definition login_class :: body where
  [body_defs]: "login_class =
     Body ''LoginRequestDto''
       [Field ''email'' False As_sent [Rule Is_string, Rule Is_not_empty],
        Field ''password'' False As_sent [Rule Is_string, Rule Is_not_empty],
        Field ''deviceFingerprint'' True As_sent [Rule Is_string, Rule Is_not_empty]]"

definition presign_class :: body where
  [body_defs]: "presign_class =
     Body ''PresignRequestDto''
       [Field ''fileName'' False As_sent [Rule Is_string, Rule Is_not_empty],
        Field ''fileType'' False As_sent [Rule Is_string, Rule Is_not_empty]]"

definition presign_multiple_class :: body where
  [body_defs]: "presign_multiple_class =
     Body ''PresignMultipleRequestDto''
       [Field ''files'' False As_sent [Rule Is_array, Validate_nested presign_class]]"

definition register_class :: body where
  [body_defs]: "register_class =
     Body ''RegisterRequestDto''
       [Field ''email'' False As_sent [Rule Is_email, Rule Is_not_empty, Rule (Max_length 255)],
        Field ''firstName'' True As_sent [Rule Is_string, Rule (Max_length 100)],
        Field ''lastName'' True As_sent [Rule Is_string, Rule (Max_length 100)],
        Field ''password'' False As_sent [Rule Is_string, Rule Is_not_empty, Rule (Min_length 8),
           Rule (Max_length 72)],
        Field ''confirmPassword'' False As_sent [Rule Is_string, Rule Is_not_empty, Rule (Min_length 8),
           Rule (Max_length 72)]]"

definition resend_verify_email_class :: body where
  [body_defs]: "resend_verify_email_class =
     Body ''ResendVerifyEmailRequestDto''
       [Field ''email'' False As_sent [Rule Is_email, Rule Is_not_empty, Rule (Max_length 255)]]"

definition reset_password_class :: body where
  [body_defs]: "reset_password_class =
     Body ''ResetPasswordRequestDto''
       [Field ''token'' False As_sent [Rule Is_string, Rule Is_not_empty],
        Field ''email'' False As_sent [Rule Is_email, Rule Is_not_empty, Rule (Max_length 255)],
        Field ''password'' False As_sent [Rule Is_string, Rule Is_not_empty, Rule (Min_length 8),
           Rule (Max_length 72)],
        Field ''passwordConfirmation'' False As_sent [Rule Is_string, Rule Is_not_empty, Rule (Min_length 8),
           Rule (Max_length 72)]]"

definition reset_password_validate_class :: body where
  [body_defs]: "reset_password_validate_class =
     Body ''ResetPasswordValidateRequestDto''
       [Field ''token'' False As_sent [Rule Is_string, Rule Is_not_empty]]"

definition se_pay_hooks_class :: body where
  [body_defs]: "se_pay_hooks_class =
     Body ''SePayHooksDto''
       [Field ''id'' False To_number [Rule Is_int],
        Field ''gateway'' False As_sent [Rule Is_string, Rule Is_not_empty],
        Field ''transactionDate'' False As_sent [Rule Is_string, Rule Is_not_empty],
        Field ''accountNumber'' False As_sent [Rule Is_string, Rule Is_not_empty],
        Field ''code'' True As_sent [Rule Is_string],
        Field ''content'' True As_sent [Rule Is_string],
        Field ''transferType'' False As_sent [Rule Is_string, Rule Is_not_empty],
        Field ''transferAmount'' False To_number [Rule Is_number, Rule (Min_value 0)],
        Field ''accumulated'' False To_number [Rule Is_number],
        Field ''subAccount'' True As_sent [Rule Is_string],
        Field ''referenceCode'' False As_sent [Rule Is_string, Rule Is_not_empty],
        Field ''description'' False As_sent [Rule Is_string, Rule Is_not_empty]]"

definition search_books_class :: body where
  [body_defs]: "search_books_class =
     Body ''SearchBooksQueryDto'' (body_fields base_pagination_class @
       [Field ''q'' False Trimmed [Rule Is_string, Rule Is_not_empty]])"

definition search_filter_class :: body where
  [body_defs]: "search_filter_class =
     Body ''SearchFilterQueryDto'' (body_fields base_pagination_class @
       [Field ''categories'' True Query_parts [Rule Is_array, Rule Each_string],
        Field ''prices'' True Query_parts [Rule Is_array, Rule Each_string],
        Field ''type'' True As_sent [Rule (Is_one_of [''best-selling-titles'', ''price-low-to-high'',
           ''price-high-to-low'', ''title-a-z'', ''title-z-a''])]])"

definition update_admin_book_translation_class :: body where
  [body_defs]: "update_admin_book_translation_class =
     Body ''UpdateAdminBookTranslationRequestDto''
       [Field ''languageId'' True As_sent [Rule Is_number],
        Field ''title'' True As_sent [Rule Is_string, Rule (Max_length 255)],
        Field ''description'' True As_sent [Rule Is_string, Rule (Max_length 5000)]]"

definition update_admin_book_variant_class :: body where
  [body_defs]: "update_admin_book_variant_class =
     Body ''UpdateAdminBookVariantRequestDto''
       [Field ''id'' False As_sent [Rule Is_number],
        Field ''costPrice'' False To_number [Rule Is_number],
        Field ''price'' False As_sent [Rule Is_number],
        Field ''isActive'' True As_sent [Rule Is_boolean]]"

definition update_admin_book_class :: body where
  [body_defs]: "update_admin_book_class =
     Body ''UpdateAdminBookRequestDto''
       [Field ''pageCount'' True To_number [Rule Is_int, Rule (Min_value 1)],
        Field ''weightGrams'' True To_number [Rule Is_int, Rule (Min_value 0)],
        Field ''coverImageUrl'' True As_sent [Rule Is_string, Rule (Max_length 1000)],
        Field ''isActive'' True To_boolean [Rule Is_boolean],
        Field ''translations'' True As_sent [Rule Is_array, Rule (Array_min_size 1),
           Validate_nested update_admin_book_translation_class],
        Field ''variants'' True As_sent [Rule Is_array, Rule (Array_min_size 1),
           Validate_nested update_admin_book_variant_class]]"

definition update_cart_item_delta_class :: body where
  [body_defs]: "update_cart_item_delta_class =
     Body ''UpdateCartItemDeltaRequestDto''
       [Field ''quantity'' False To_number [Rule Is_int]]"

definition update_permission_class :: body where
  [body_defs]: "update_permission_class =
     Body ''UpdatePermissionRequestDto''
       [Field ''description'' False As_sent [Rule Is_string]]"

definition update_user_address_class :: body where
  [body_defs]: "update_user_address_class =
     Body ''UpdateUserAddressRequestDto''
       [Field ''addressType'' True As_sent [Rule Is_string, Rule Is_not_empty, Rule (Max_length 50)],
        Field ''recipientName'' True As_sent [Rule Is_string, Rule Is_not_empty, Rule (Max_length 200)],
        Field ''phoneNumber'' True As_sent [Rule Is_string, Rule Is_not_empty, Rule (Max_length 30)],
        Field ''addressDetail'' True As_sent [Rule Is_string, Rule Is_not_empty, Rule (Max_length 255)],
        Field ''ward'' True As_sent [Rule Is_string, Rule Is_not_empty, Rule (Max_length 200)],
        Field ''district'' True As_sent [Rule Is_string, Rule Is_not_empty, Rule (Max_length 200)],
        Field ''city'' True As_sent [Rule Is_string, Rule Is_not_empty, Rule (Max_length 200)]]"

definition upload_book_asset_class :: body where
  [body_defs]: "upload_book_asset_class =
     Body ''UploadBookAssetRequestDto''
       [Field ''bookId'' False As_sent [Rule Is_not_empty]]"

definition verify_email_class :: body where
  [body_defs]: "verify_email_class =
     Body ''VerifyEmailRequestDto''
       [Field ''token'' False As_sent [Rule Is_string, Rule Is_not_empty]]"

section \<open>Widths of columns\<close>

text \<open>The text fields that a request stores as they are, with the width of their column in \<open>src/prisma/schema.prisma\<close>.\<close>

definition text_columns :: "(body \<times> string \<times> nat) list" where
  "text_columns =
     [(register_class, ''email'', 255), (register_class, ''firstName'', 100), (register_class, ''lastName'', 100),
      (create_user_address_class, ''recipientName'', 200), (create_user_address_class, ''phoneNumber'', 30),
      (create_user_address_class, ''addressDetail'', 255), (create_user_address_class, ''ward'', 200),
      (create_user_address_class, ''district'', 200), (create_user_address_class, ''city'', 200),
      (update_user_address_class, ''recipientName'', 200), (update_user_address_class, ''phoneNumber'', 30),
      (update_user_address_class, ''addressDetail'', 255), (update_user_address_class, ''ward'', 200),
      (update_user_address_class, ''district'', 200), (update_user_address_class, ''city'', 200),
      (create_author_class, ''defaultName'', 300), (create_publisher_class, ''defaultName'', 255),
      (create_category_class, ''name'', 300), (create_category_class, ''slug'', 300),
      (create_admin_book_class, ''title'', 500), (create_admin_book_class, ''publisherName'', 255),
      (create_admin_book_class, ''coverImageUrl'', 1000), (update_admin_book_class, ''coverImageUrl'', 1000),
      (create_admin_book_translation_class, ''title'', 500), (confirm_book_asset_class, ''assetType'', 50),
      (create_supplier_class, ''code'', 191)]"

definition max_lengths :: "check list \<Rightarrow> nat list" where
  "max_lengths cs = concat (map (\<lambda>c. case c of Rule (Max_length n) \<Rightarrow> [n] | _ \<Rightarrow> []) cs)"

definition width_checked :: "body \<Rightarrow> string \<Rightarrow> nat \<Rightarrow> bool" where
  "width_checked b k width \<longleftrightarrow>
     distinct (map field_name (body_fields b))
     \<and> list_ex (\<lambda>f. field_name f = k \<and> list_ex (\<lambda>n. n \<le> width) (max_lengths (field_checks f))) (body_fields b)"

lemma width_checked_length:
  assumes "width_checked b k width" and "validate F b ps = Inr w" and "json_field k w = Some (J_text s)"
  shows "List.length s \<le> width"
proof -
  obtain f n where f: "f \<in> set (body_fields b)" "field_name f = k" "n \<in> set (max_lengths (field_checks f))" "n \<le> width"
    and names: "distinct (map field_name (body_fields b))"
    using assms(1) by (auto simp: width_checked_def list_ex_iff)
  obtain opt conv cs where field: "f = Field k opt conv cs" using f(2) by (cases f) simp
  have "Rule (Max_length n) \<in> set cs"
    using f(3) by (auto simp: field max_lengths_def split: check.splits rule.splits)
  with validated_text_length [OF assms(2) names _ _ assms(3), of opt conv cs n] f(1) have "List.length s \<le> n"
    by (simp add: field)
  with f(4) show ?thesis by simp
qed

lemma text_columns_checked: "list_all (\<lambda>(b, k, width). width_checked b k width) text_columns"
  by code_simp

section \<open>Properties\<close>

text \<open>
  What the pipe lets through fits the database: a text of an accepted body that is stored as it is never exceeds the
  width of its column.
\<close>
theorem accepted_text_fits_column:
  assumes "(b, k, width) \<in> set text_columns" and "validate F b ps = Inr w" and "json_field k w = Some (J_text s)"
  shows "List.length s \<le> width"
  using text_columns_checked assms(1) width_checked_length [OF _ assms(2,3)] by (auto simp: list_all_iff)

definition any_format :: formats where
  "any_format = \<lparr>fmt_email = (\<lambda>_. True), fmt_url = (\<lambda>_. True), fmt_isbn = (\<lambda>_. True)\<rparr>"

lemma accepted_text_fits_column_witness:
  "\<exists>w s. validate any_format create_author_class [(''defaultName'', J_text ''A''), (''admin'', J_bool True)] = Inr w
     \<and> json_field ''defaultName'' w = Some (J_text s) \<and> json_field ''admin'' w = None \<and> List.length s \<le> 300"
proof -
  have "validate any_format create_author_class [(''defaultName'', J_text ''A''), (''admin'', J_bool True)]
      = Inr (J_object [(''defaultName'', J_text ''A'')])"
    by code_simp
  moreover from accepted_text_fits_column [OF _ this, of "''defaultName''" 300 "''A''"]
  have "List.length ''A'' \<le> 300" by (simp add: text_columns_def json_field_def)
  ultimately show ?thesis by (simp add: json_field_def)
qed

text \<open>The queries of lists, all with the fields of \<open>BasePaginationDto\<close>.\<close>

definition list_queries :: "body list" where
  "list_queries =
     [admin_book_list_class, admin_book_snapshot_list_class, admin_order_list_class, admin_stock_import_list_class,
      admin_user_list_class, catalog_book_list_class, get_author_books_class, get_authors_class, get_categories_class,
      get_order_class, get_publisher_books_class, get_publishers_class, get_purchase_order_items_class,
      get_purchase_orders_class, get_suppliers_class, search_books_class, search_filter_class]"

definition paged :: "body \<Rightarrow> bool" where
  "paged b \<longleftrightarrow>
     distinct (map field_name (body_fields b))
     \<and> list_all (\<lambda>f. f \<in> set (body_fields b)) (body_fields base_pagination_class)"

lemma list_queries_paged: "list_all paged list_queries"
  by code_simp

definition whole_between :: "json \<Rightarrow> int \<Rightarrow> int \<Rightarrow> bool" where
  "whole_between v lo hi \<longleftrightarrow> (\<exists>n. v = J_number (Some (of_int n)) \<and> lo \<le> n \<and> n \<le> hi)"

text \<open>
  C39: no list of the program reads an unbounded or a negative part of a table: in every accepted query of a list the page,
  where it is given, is a whole number of at least one and the size of the page one between 1 and 100, whatever text the
  client sent.
\<close>
theorem list_queries_are_bounded:
  assumes "b \<in> set list_queries" and "validate F b ps = Inr w"
  shows "(\<forall>v. json_field ''limit'' w = Some v \<and> v \<noteq> J_null \<longrightarrow> whole_between v 1 100)
       \<and> (\<forall>v. json_field ''page'' w = Some v \<and> v \<noteq> J_null \<longrightarrow> (\<exists>n. v = J_number (Some (of_int n)) \<and> 1 \<le> n))"
proof -
  have paged: "paged b" using list_queries_paged assms(1) by (simp add: list_all_iff)
  then have names: "distinct (map field_name (body_fields b))"
    and page: "Field ''page'' True To_number [Rule Is_int, Rule (Min_value 1)] \<in> set (body_fields b)"
    and limit: "Field ''limit'' True To_number [Rule Is_int, Rule (Min_value 1), Rule (Max_value 100)] \<in> set (body_fields b)"
    by (simp_all add: paged_def base_pagination_class_def)
  have number: "\<exists>n. v = J_number (Some (of_int n)) \<and> 1 \<le> n \<and> (Rule (Max_value m) \<in> set cs \<longrightarrow> n \<le> m)"
    if field: "Field k True To_number cs \<in> set (body_fields b)" and rules: "Rule Is_int \<in> set cs" "Rule (Min_value 1) \<in> set cs"
      and v: "json_field k w = Some v" "v \<noteq> J_null" for k cs v m
  proof (rule validated_field [OF assms(2) names field])
    fix u
    assume u: "json_field (field_name (Field k True To_number cs)) w = map_option (strip_field (Field k True To_number cs)) u"
      and accepted: "accepts_field F (Field k True To_number cs) u"
    from u v obtain y where y: "u = Some y" "strip_checks cs y = v" by (cases u) auto
    have "y \<noteq> J_null" using y(2) v(2) strip_checks_of_plain [of J_null cs] by auto
    with accepted y(1) have cs: "accepts_checks F cs (Some y)" by simp
    from accepts_checksD [OF this rules(1)] obtain x where x: "y = J_number (Some x)" "whole x"
      by (auto elim: number_is.elims)
    then have "v = y" using y(2) strip_checks_of_plain [of y cs] by simp
    moreover have "x = of_int \<lfloor>x\<rfloor>" using x(2) unfolding whole_def by (rule sym)
    moreover have "1 \<le> x" using accepts_checksD [OF cs rules(2)] x(1) by simp
    moreover have "x \<le> of_int m" if "Rule (Max_value m) \<in> set cs"
      using accepts_checksD [OF cs that] x(1) by simp
    ultimately show ?thesis using x(1) by (intro exI [of _ "\<lfloor>x\<rfloor>"]) (auto simp: le_floor_iff floor_le_iff)
  qed
  show ?thesis
    using number [OF page] number [OF limit, where m = 100] by (auto simp: whole_between_def)
qed

lemma list_queries_are_bounded_witness:
  "\<exists>w. validate any_format get_order_class [(''page'', J_text '' 2 ''), (''limit'', J_text ''1e2'')] = Inr w
     \<and> json_field ''limit'' w = Some (J_number (Some 100)) \<and> whole_between (J_number (Some 100)) 1 100"
proof -
  have run: "validate any_format get_order_class [(''page'', J_text '' 2 ''), (''limit'', J_text ''1e2'')]
      = Inr (J_object [(''page'', J_number (Some 2)), (''limit'', J_number (Some 100))])"
    by code_simp
  have "get_order_class \<in> set list_queries" by (simp add: list_queries_def)
  from list_queries_are_bounded [OF this run] have "whole_between (J_number (Some 100)) 1 100"
    by (simp add: json_field_def)
  with run show ?thesis by (simp add: json_field_def)
qed

text \<open>A guest may give an address of any length, while its columns hold 30 to 500 characters.\<close>

lemma guest_addresses_unbounded:
  assumes "name \<noteq> []"
  shows "accepts_body F guest_address_class (J_object [(''name'', J_text name), (''addressLine'', J_text line),
      (''city'', J_text city), (''phoneNumber'', J_text phone)]) \<longleftrightarrow> line \<noteq> [] \<and> city \<noteq> [] \<and> phone \<noteq> []"
  using assms by (simp add: guest_address_class_def)

text \<open>The quantity of a new cart item is declared optional and documented so, yet a body without it is refused.\<close>

lemma cart_item_needs_quantity:
  "validate F add_cart_item_class [(''bookVariantId'', J_number (Some 1))] = Inl (BadRequest ''validation'')"
  by (simp add: validate_def add_cart_item_class_def map_filter_simps)

section \<open>The body of a checkout\<close>

definition gateway_text :: "payment_gateway \<Rightarrow> string" where
  "gateway_text g = (case g of COD \<Rightarrow> ''COD'' | VNPAY \<Rightarrow> ''VNPAY'' | MOMO \<Rightarrow> ''MOMO'' | STRIPE \<Rightarrow> ''STRIPE''
     | PAYPAL \<Rightarrow> ''PAYPAL'' | SEPAY \<Rightarrow> ''SEPAY'' | Gateway_OTHER \<Rightarrow> ''OTHER'')"

definition given :: "string \<Rightarrow> ('a \<Rightarrow> json) \<Rightarrow> 'a option \<Rightarrow> (string \<times> json) list" where
  "given k f v = (case v of None \<Rightarrow> [] | Some x \<Rightarrow> [(k, f x)])"

definition address_json :: "guest_address_dto \<Rightarrow> json" where
  "address_json a = J_object
     ([(''name'', J_text (ga_name a)), (''addressLine'', J_text (ga_address_line a)), (''city'', J_text (ga_city a))]
      @ given ''ward'' J_text (ga_ward a) @ given ''district'' J_text (ga_district a)
      @ [(''phoneNumber'', J_text (ga_phone a))] @ given ''note'' J_text (ga_note a))"

definition item_json :: "checkout_item \<Rightarrow> json" where
  "item_json i = J_object [(''bookVariantId'', J_number (Some (of_int (item_variant_id i)))),
     (''quantity'', J_number (Some (of_int (item_quantity i))))]"

definition checkout_json :: "checkout_body \<Rightarrow> (string \<times> json) list" where
  "checkout_json b =
     [(''isGuest'', J_bool (cb_is_guest b))] @ given ''guestEmail'' J_text (cb_guest_email b)
     @ given ''guestAddress'' address_json (cb_guest_address b)
     @ given ''addressId'' (\<lambda>i. J_number (Some (of_int i))) (cb_address_id b)
     @ [(''paymentGateway'', J_text (gateway_text (cb_gateway b))), (''items'', J_list (map item_json (cb_items b)))]"

definition filled_in :: "formats \<Rightarrow> checkout_body \<Rightarrow> bool" where
  "filled_in F b \<longleftrightarrow>
     (case cb_guest_email b of None \<Rightarrow> True | Some m \<Rightarrow> fmt_email F m)
     \<and> (case cb_guest_address b of None \<Rightarrow> True
        | Some a \<Rightarrow> ga_name a \<noteq> [] \<and> ga_address_line a \<noteq> [] \<and> ga_city a \<noteq> [] \<and> ga_phone a \<noteq> [])"

lemma address_passes:
  "transform_body guest_address_class (address_json a) = Inr (address_json a)"
  "strip_body guest_address_class (address_json a) = address_json a"
  "accepts_body F guest_address_class (address_json a) \<longleftrightarrow>
     ga_name a \<noteq> [] \<and> ga_address_line a \<noteq> [] \<and> ga_city a \<noteq> [] \<and> ga_phone a \<noteq> []"
  by (cases "ga_ward a"; cases "ga_district a"; cases "ga_note a";
      simp add: address_json_def given_def guest_address_class_def map_filter_simps)+

lemma item_passes:
  "transform_body checkout_item_class (item_json i) = Inr (item_json i)"
  "strip_body checkout_item_class (item_json i) = item_json i"
  "accepts_body F checkout_item_class (item_json i)"
  by (simp_all add: item_json_def checkout_item_class_def map_filter_simps)

lemma nested_passes:
  "in_objects (transform_body guest_address_class) (address_json a) = Inr (address_json a)"
  "map_objects (strip_body guest_address_class) (address_json a) = address_json a"
  "all_objects (accepts_body F guest_address_class) (address_json a) = accepts_body F guest_address_class (address_json a)"
  "in_objects (transform_body checkout_item_class) (item_json i) = Inr (item_json i)"
  "map_objects (strip_body checkout_item_class) (item_json i) = item_json i"
  "all_objects (accepts_body F checkout_item_class) (item_json i)"
  using address_passes [where a = a] item_passes [where i = i] by (simp_all add: address_json_def item_json_def del: transform_body.simps strip_body.simps accepts_body.simps)

lemma checkout_passes:
  "validate F create_check_out_class (checkout_json b) =
     (if filled_in F b then Inr (J_object (checkout_json b)) else Inl (BadRequest ''validation''))"
proof -
  have items: "in_objects (transform_body checkout_item_class) (J_list (map item_json is)) = Inr (J_list (map item_json is))"
    "map_objects (strip_body checkout_item_class) (J_list (map item_json is)) = J_list (map item_json is)"
    "all_objects (accepts_body F checkout_item_class) (J_list (map item_json is))" for "is"
    by (simp_all add: nested_passes comp_def those_map_Some [where g = item_json] list_all_iff del: in_objects.simps(1))
  have gateway: "gateway_text g \<in> {''COD'', ''VNPAY'', ''MOMO'', ''STRIPE'', ''PAYPAL'', ''SEPAY'', ''OTHER''}" "gateway_text g \<noteq> []" for g
    by (cases g; simp add: gateway_text_def)+
  have present: "address_json a \<noteq> J_null" for a by (simp add: address_json_def)
  show ?thesis
    using gateway [of "cb_gateway b"]
    by (cases "cb_guest_email b"; cases "cb_guest_address b"; cases "cb_address_id b")
       (simp_all add: validate_def checkout_json_def given_def create_check_out_class_def map_filter_simps
          nested_passes items present filled_in_def address_passes(3) del: in_objects.simps map_objects.simps all_objects.simps)
qed

text \<open>How the handler reads the accepted body: the record of theory Checkout.\<close>

fun json_text :: "json \<Rightarrow> string option" where
  "json_text (J_text s) = Some s" | "json_text v = None"

fun json_bool :: "json \<Rightarrow> bool option" where
  "json_bool (J_bool b) = Some b" | "json_bool v = None"

fun json_int :: "json \<Rightarrow> int option" where
  "json_int (J_number (Some x)) = (if whole x then Some \<lfloor>x\<rfloor> else None)" | "json_int v = None"

fun json_list :: "(json \<Rightarrow> 'a option) \<Rightarrow> json \<Rightarrow> 'a list option" where
  "json_list f (J_list vs) = those (map f vs)" | "json_list f v = None"

definition read_field :: "string \<Rightarrow> (json \<Rightarrow> 'a option) \<Rightarrow> json \<Rightarrow> 'a option" where
  "read_field k f w = Option.bind (json_field k w) f"

definition read_given :: "string \<Rightarrow> (json \<Rightarrow> 'a option) \<Rightarrow> json \<Rightarrow> 'a option option" where
  "read_given k f w = (case json_field k w of None \<Rightarrow> Some None | Some v \<Rightarrow> map_option Some (f v))"

definition read_gateway :: "json \<Rightarrow> payment_gateway option" where
  "read_gateway v =
     List.find (\<lambda>g. v = J_text (gateway_text g)) [COD, VNPAY, MOMO, STRIPE, PAYPAL, SEPAY, Gateway_OTHER]"

definition read_item :: "json \<Rightarrow> checkout_item option" where
  "read_item w = Option.bind (read_field ''bookVariantId'' json_int w) (\<lambda>i.
     map_option (\<lambda>q. \<lparr>item_variant_id = i, item_quantity = q\<rparr>) (read_field ''quantity'' json_int w))"

definition read_address :: "json \<Rightarrow> guest_address_dto option" where
  "read_address w =
     Option.bind (read_field ''name'' json_text w) (\<lambda>name.
     Option.bind (read_field ''addressLine'' json_text w) (\<lambda>line.
     Option.bind (read_field ''city'' json_text w) (\<lambda>city.
     Option.bind (read_given ''ward'' json_text w) (\<lambda>ward.
     Option.bind (read_given ''district'' json_text w) (\<lambda>district.
     Option.bind (read_field ''phoneNumber'' json_text w) (\<lambda>phone.
     map_option (\<lambda>note. \<lparr>ga_name = name, ga_address_line = line, ga_city = city, ga_ward = ward, ga_district = district,
         ga_phone = phone, ga_note = note\<rparr>)
       (read_given ''note'' json_text w)))))))"

definition read_checkout :: "json \<Rightarrow> checkout_body option" where
  "read_checkout w =
     Option.bind (read_field ''isGuest'' json_bool w) (\<lambda>guest.
     Option.bind (read_given ''guestEmail'' json_text w) (\<lambda>email.
     Option.bind (read_given ''guestAddress'' read_address w) (\<lambda>address.
     Option.bind (read_given ''addressId'' json_int w) (\<lambda>i.
     Option.bind (read_field ''paymentGateway'' read_gateway w) (\<lambda>g.
     map_option (\<lambda>items. \<lparr>cb_is_guest = guest, cb_guest_email = email, cb_guest_address = address, cb_address_id = i,
         cb_gateway = g, cb_items = items\<rparr>)
       (read_field ''items'' (json_list read_item) w))))))"

lemma json_int_of_int: "json_int (J_number (Some (of_int n))) = Some n"
  by (simp add: whole_def)

lemma read_item_json: "read_item (item_json i) = Some i"
  by (simp add: read_item_def read_field_def item_json_def json_field_def json_int_of_int del: json_int.simps)

lemma read_address_json: "read_address (address_json a) = Some a"
  by (cases "ga_ward a"; cases "ga_district a"; cases "ga_note a")
     (simp_all add: read_address_def read_field_def read_given_def address_json_def given_def json_field_def)

lemma read_gateway_text: "read_gateway (J_text (gateway_text g)) = Some g"
  by (cases g) (simp_all add: read_gateway_def gateway_text_def)


text \<open>
  C7: nothing refuses a negative number of copies. A checkout for one variant with a quantity below zero passes the
  validation of its body as it is, and whenever the order is placed its total is the shipping fee less the price of the
  copies: the order costs less than the fee, and the stored total is the one the payment is compared with.
\<close>
theorem negative_copies_are_charged:
  assumes "filled_in F body" and "cb_items body = [\<lparr>item_variant_id = i, item_quantity = q\<rparr>]" and "q < 0"
    and "create_checkout env body guest user d = (Inr (resp, job), d')"
    and "\<And>v. v \<in> set (cr_variants resp) \<Longrightarrow> bv_price v = Some (of_int p)"
    and "0 < p" and "\<bar>p * q\<bar> \<le> 2 ^ 52" and "p \<le> 2 ^ 53"
  shows "validate F create_check_out_class (checkout_json body) = Inr (J_object (checkout_json body))
       \<and> cr_total resp = of_int (20000 + p * q) \<and> cr_total resp < of_int SHIPPING_FEE
       \<and> (\<exists>r\<in>set (rows (orders d')). ord_id r = cj_order_id job \<and> ord_total r = Some (cr_total resp))"
proof (rule create_checkout_steps [OF assms(4)])
  fix email is_error d1 order d2
  assume vs: "cr_variants resp = find_variants_by_ids (map item_variant_id (cb_items body)) d"
    and amt: "cr_total resp = js_add (order_subtotal (cr_variants resp) (map_variant_ids (cb_items body))) (of_int SHIPPING_FEE)"
    and order: "rows (orders d2) = rows (orders d1) @ [order]" "ord_id order = cj_order_id job"
      "ord_total order = Some (cr_total resp)"
    and d': "d' = (if cb_gateway body = COD then d2
               else snd (create_payment_intent (env_now env) SEPAY (cr_order_code resp)
                 (generate_qr_url (env_config env) (env_token env) (cr_total resp) (cr_order_code resp)) d2))"
  have "List.length (cr_variants resp) = 1"
    using assms(2,4) vs by (auto simp: create_checkout_def Let_def split: sum.splits if_splits)
  then obtain v where v: "cr_variants resp = [v]" by (auto simp: length_Suc_conv)
  then have "v \<in> set (find_variants_by_ids [i] d)" using vs assms(2) by simp
  then have "bv_id v = i" by (simp add: find_variants_by_ids_def)
  moreover have "number_of_decimal (bv_price v) = of_int p"
    using assms(5) [of v] assms(6,8) f64_of_int [of p] by (simp add: v number_of_decimal_def)
  moreover have "js_mul (of_int p) (of_int q) = of_int (p * q)" using assms(7) by (intro js_mul_of_int) simp
  moreover have "js_add 0 (of_int (p * q)) = of_int (p * q)" using assms(7) js_add_of_int [of 0 "p * q"] by simp
  ultimately have "order_subtotal (cr_variants resp) (map_variant_ids (cb_items body)) = of_int (p * q)"
    by (simp add: order_subtotal_def v assms(2) map_variant_ids_def)
  then have total: "cr_total resp = of_int (20000 + p * q)"
    using amt assms(7) js_add_of_int [of "p * q" 20000] by (simp add: SHIPPING_FEE_def add.commute)
  moreover have "cr_total resp < of_int SHIPPING_FEE"
    unfolding total of_int_less_iff using assms(3,6) by (simp add: SHIPPING_FEE_def mult_pos_neg)
  moreover have "order \<in> set (rows (orders d'))" using order(1) by (simp add: d' intent_keeps_orders)
  ultimately show ?thesis
    using order(2,3) assms(1) checkout_passes [of F body] by (auto simp: SHIPPING_FEE_def)
qed

lemma negative_copies_are_charged_witness:
  "\<exists>resp job d'. create_checkout (sample_env True) (guest_body (- 1)) (Some 3) None guest_shop = (Inr (resp, job), d')
     \<and> cr_total resp = - 30000"
proof -
  have "reserve_stock True [sample_variant 1 5 2] (cb_items (guest_body (- 1))) guest_shop =
      (Inr False, guest_shop\<lparr>available_counters := [1 \<mapsto> 4]\<rparr>)"
    by (simp add: reserve_stock_def redis_reserve_def set_counter_nx_def guest_body_def sample_variant_def
        guest_shop_def sample_stock_def empty_db_def)
  then have "\<exists>resp job d'. create_checkout (sample_env True) (guest_body (- 1)) (Some 3) None guest_shop = (Inr (resp, job), d')
      \<and> cr_variants resp = [sample_variant 1 5 2]"
    by (simp add: create_checkout_def sample_env_def validate_buyer_def Let_def guest_shop_variants
        create_guest_order_def guest_shop_order blank_order_def guest_body_def map_variant_ids_def)
  then obtain resp job d' where run: "create_checkout (sample_env True) (guest_body (- 1)) (Some 3) None guest_shop = (Inr (resp, job), d')"
    and vs: "cr_variants resp = [sample_variant 1 5 2]"
    by blast
  have "cr_total resp = of_int (20000 + 50000 * - 1)"
    using negative_copies_are_charged [of any_format "guest_body (- 1)" 1 "- 1", OF _ _ _ run, of 50000]
    by (simp add: vs sample_variant_def guest_body_def filled_in_def)
  with run show ?thesis by auto
qed

end
