(* ===== verification/Seed_Access.thy ===== *)
theory Seed_Access
  imports Endpoints
begin

text \<open>
  The part of the seed that grants access (\<open>src/prisma/seed.ts\<close>, roles, permissions and their grants): the table of
  permissions, the matrix of roles, and the upserts that bring a database to them, whatever it held before. The last
  section puts the seeded grants and the routes of theory Endpoints together: who reaches what.
\<close>

section \<open>Permissions and roles\<close>

record permission_seed =
  ps_code :: permission_code
  ps_method :: http_method
  ps_path :: string
  ps_description :: string
  ps_is_active :: "bool option"

definition permission_seed :: "permission_code \<Rightarrow> http_method \<Rightarrow> string \<Rightarrow> string \<Rightarrow> permission_seed" where
  "permission_seed code method path description =
     \<lparr>ps_code = code, ps_method = method, ps_path = path, ps_description = description, ps_is_active = None\<rparr>"

definition PERMISSIONS :: "permission_seed list" where
  "PERMISSIONS =
     [permission_seed GUEST_SESSION_READ GET ''/api/v1/guest-session'' ''Read guest sessions'',
      permission_seed ROLE_READ GET ''/api/v1/role'' ''List roles'',
      permission_seed PERMISSION_READ GET ''/api/v1/permission'' ''List permissions'',
      permission_seed PERMISSION_UPDATE PATCH ''/api/v1/permission/:id'' ''Update permission'',
      permission_seed ROLE_PERMISSION_GRANT POST ''/api/v1/role-permission'' ''Grant permission to role'',
      permission_seed ROLE_PERMISSION_READ_BY_ROLE GET ''/api/v1/role-permission/role/:roleId'' ''List permissions of a role'',
      permission_seed ROLE_PERMISSION_READ_BY_PERMISSION GET ''/api/v1/role-permission/permission/:permissionId'' ''List roles that have a permission'',
      permission_seed DEVICE_READ GET ''/api/v1/auth/device/:userId'' ''List active device sessions by user id'',
      permission_seed EMAIL_OUTBOX_READ GET ''/api/v1/email-outbox'' ''List email outbox by filter'',
      permission_seed SEARCH_REINDEX_BOOKS POST ''/api/v1/search/reindex'' ''Reindex search vectors in Pinecone'',
      permission_seed AUTHOR_CREATE POST ''/api/v1/authors'' ''Create author'',
      permission_seed PUBLISHER_CREATE POST ''/api/v1/publishers'' ''Create publisher'',
      permission_seed CATEGORY_READ GET ''/api/v1/admin/categories/stats'' ''Read category statistics'',
      permission_seed CATEGORY_CREATE POST ''/api/v1/categories'' ''Create category'',
      permission_seed SUPPLIER_READ GET ''/api/v1/suppliers'' ''List suppliers'',
      permission_seed SUPPLIER_CREATE POST ''/api/v1/suppliers'' ''Create supplier'',
      permission_seed SUPPLIER_UPDATE PATCH ''/api/v1/suppliers/:supplierId/active'' ''Toggle supplier active status'',
      permission_seed BOOK_READ GET ''/api/v1/admin/books/*'' ''Read books in admin workflows'',
      permission_seed BOOK_CREATE POST ''/api/v1/admin/books'' ''Create book'',
      permission_seed BOOK_UPDATE PATCH ''/api/v1/admin/books/:bookId'' ''Update book'',
      permission_seed BOOK_DELETE DELETE ''/api/v1/admin/books/:bookId'' ''Soft delete book'',
      permission_seed BOOK_TRANSLATION_CREATE POST ''/api/v1/admin/books/:bookId/translations'' ''Create book translation'',
      permission_seed BOOK_SNAPSHOT_READ GET ''/api/v1/admin/book-snapshots'' ''List book snapshots'',
      permission_seed BOOK_VARIANT_READ GET ''/api/v1/admin/book-variants'' ''List book variants'',
      permission_seed BOOK_VARIANT_UPDATE PATCH ''/api/v1/admin/book-variants/:variantId'' ''Update book variant'',
      permission_seed ORDER_READ GET ''/api/v1/admin/orders/*'' ''Read orders in admin workflows'',
      permission_seed ORDER_UPDATE PATCH ''/api/v1/admin/orders/:orderId/status'' ''Update order status'',
      permission_seed PURCHASE_ORDER_READ GET ''/api/v1/purchase-orders/*'' ''Read purchase orders'',
      permission_seed PURCHASE_ORDER_CREATE POST ''/api/v1/purchase-orders'' ''Create purchase order'',
      permission_seed PURCHASE_ORDER_APPROVE POST ''/api/v1/purchase-orders/:purchaseOrderId/approve'' ''Approve or reject purchase order'',
      permission_seed PURCHASE_ORDER_TRANSFER POST ''/api/v1/purchase-orders/:purchaseOrderId/transfer-processing'' ''Transfer purchase order to processing'',
      permission_seed STOCK_IMPORT_READ GET ''/api/v1/admin/stock-imports/*'' ''Read stock imports'',
      permission_seed STOCK_IMPORT_CREATE POST ''/api/v1/admin/stock-imports/create'' ''Create stock import'',
      permission_seed USER_READ GET ''/api/v1/admin/users/*'' ''Read users in admin workflows'',
      permission_seed UPLOAD_MANAGE POST ''/api/v1/uploads/*'' ''Upload files and confirm book assets'']"

definition STAFF_PERMISSIONS :: "permission_code list" where
  "STAFF_PERMISSIONS = [BOOK_READ, ORDER_READ, ORDER_UPDATE, PURCHASE_ORDER_READ, PURCHASE_ORDER_CREATE]"

definition WAREHOUSE_PERMISSIONS :: "permission_code list" where
  "WAREHOUSE_PERMISSIONS = [PURCHASE_ORDER_TRANSFER, STOCK_IMPORT_READ, STOCK_IMPORT_CREATE]"

text \<open>\<open>Object.values(PermissionCode)\<close>, in the order of the enumeration.\<close>

definition ALL_PERMISSION_CODES :: "permission_code list" where
  "ALL_PERMISSION_CODES =
     [GUEST_SESSION_READ, ROLE_READ, PERMISSION_READ, PERMISSION_UPDATE, ROLE_PERMISSION_GRANT,
      ROLE_PERMISSION_READ_BY_ROLE, ROLE_PERMISSION_READ_BY_PERMISSION, DEVICE_READ, EMAIL_OUTBOX_READ,
      SEARCH_REINDEX_BOOKS, AUTHOR_CREATE, PUBLISHER_CREATE, CATEGORY_READ, CATEGORY_CREATE,
      SUPPLIER_READ, SUPPLIER_CREATE, SUPPLIER_UPDATE, BOOK_READ, BOOK_CREATE, BOOK_UPDATE, BOOK_DELETE,
      BOOK_TRANSLATION_CREATE, BOOK_SNAPSHOT_READ, BOOK_VARIANT_READ, BOOK_VARIANT_UPDATE, ORDER_READ,
      ORDER_UPDATE, PURCHASE_ORDER_READ, PURCHASE_ORDER_CREATE, PURCHASE_ORDER_APPROVE,
      PURCHASE_ORDER_TRANSFER, STOCK_IMPORT_READ, STOCK_IMPORT_CREATE, USER_READ, UPLOAD_MANAGE]"

primrec ROLE_PERMISSION_MAP :: "role_code \<Rightarrow> permission_code list" where
  "ROLE_PERMISSION_MAP ADMIN = ALL_PERMISSION_CODES"
| "ROLE_PERMISSION_MAP STAFF = STAFF_PERMISSIONS"
| "ROLE_PERMISSION_MAP WAREHOUSE = WAREHOUSE_PERMISSIONS"
| "ROLE_PERMISSION_MAP CUSTOMER = []"
| "ROLE_PERMISSION_MAP GUEST = []"

text \<open>\<open>Object.entries\<close> lists the roles in the order in which the map was written.\<close>

definition matrix_roles :: "role_code list" where
  "matrix_roles = [ADMIN, STAFF, WAREHOUSE, CUSTOMER, GUEST]"

record role_seed =
  rs_code :: role_code
  rs_name :: string
  rs_description :: string

definition seed_roles :: "role_seed list" where
  "seed_roles =
     [\<lparr>rs_code = ADMIN, rs_name = ''admin'', rs_description = ''Full system access''\<rparr>,
      \<lparr>rs_code = STAFF, rs_name = ''staff'', rs_description = ''Backoffice catalog/order staff''\<rparr>,
      \<lparr>rs_code = WAREHOUSE, rs_name = ''warehouse'', rs_description = ''Warehouse and stock staff''\<rparr>,
      \<lparr>rs_code = CUSTOMER, rs_name = ''customer'', rs_description = ''Registered bookstore customer''\<rparr>,
      \<lparr>rs_code = GUEST, rs_name = ''guest'', rs_description = ''Guest checkout role, no seeded user''\<rparr>]"

section \<open>Upserts\<close>

text \<open>\<open>for (const x of xs) await f(x)\<close>.\<close>

primrec for_of :: "('a \<Rightarrow> ('s, unit) eff) \<Rightarrow> 'a list \<Rightarrow> ('s, unit) eff" where
  "for_of f [] s = (Inr (), s)"
| "for_of f (x # xs) s = await (f x s) (\<lambda>_. for_of f xs)"

definition seeded_role :: "role_seed \<Rightarrow> role_row \<Rightarrow> role_row" where
  "seeded_role k r = r\<lparr>role_name := rs_name k, role_description := Some (rs_description k), role_is_active := True,
     role_deleted_at := None\<rparr>"

definition upsert_role :: "role_seed \<Rightarrow> unit action" where
  "upsert_role k d =
     (case find_row (\<lambda>r. role_code r = rs_code k) (roles d) of
        None \<Rightarrow>
          if \<exists>x\<in>set (rows (roles d)). role_name x = rs_name k then (Inl P2002, d)
          else (Inr (), d\<lparr>roles := insert_row (\<lambda>i. \<lparr>role_id = i, role_code = rs_code k, role_name = rs_name k,
            role_is_active = True, role_deleted_at = None, role_description = Some (rs_description k)\<rparr>) (roles d)\<rparr>)
      | Some r \<Rightarrow>
          if \<exists>x\<in>set (rows (roles d)). role_name x = rs_name k \<and> role_id x \<noteq> role_id r then (Inl P2002, d)
          else (Inr (), d\<lparr>roles := map_rows (\<lambda>x. role_id x = role_id r) (seeded_role k) (roles d)\<rparr>))"

definition role_ids_by_code :: "db \<Rightarrow> role_code \<Rightarrow> int option" where
  "role_ids_by_code d = map_of (rev (map (\<lambda>r. (role_code r, role_id r)) (rows (roles d))))"

definition upsert_roles :: "(role_code \<Rightarrow> int option) action" where
  "upsert_roles d = await (for_of upsert_role seed_roles d) (\<lambda>_ d. (Inr (role_ids_by_code d), d))"

text \<open>The names of the methods in the enumeration \<open>HTTPMethod\<close> of the database.\<close>

primrec method_name :: "http_method \<Rightarrow> string" where
  "method_name GET = ''GET''"
| "method_name POST = ''POST''"
| "method_name PATCH = ''PATCH''"
| "method_name DELETE = ''DELETE''"

definition seeded_active :: "permission_seed \<Rightarrow> bool" where
  "seeded_active k = (case ps_is_active k of None \<Rightarrow> True | Some b \<Rightarrow> b)"

definition seeded_permission :: "permission_seed \<Rightarrow> permission_row \<Rightarrow> permission_row" where
  "seeded_permission k p = p\<lparr>perm_description := Some (points (ps_description k)), perm_method := method_name (ps_method k),
     perm_path_pattern := ps_path k, perm_is_active := seeded_active k, perm_deleted_at := None\<rparr>"

definition upsert_permission_seed :: "permission_seed \<Rightarrow> unit action" where
  "upsert_permission_seed k d =
     (case find_row (\<lambda>p. perm_code p = permission_string (ps_code k)) (permissions d) of
        None \<Rightarrow>
          await (insert_permission (\<lambda>i. \<lparr>perm_id = i, perm_code = permission_string (ps_code k),
            perm_description = Some (points (ps_description k)), perm_method = method_name (ps_method k),
            perm_path_pattern = ps_path k, perm_is_active = seeded_active k, perm_deleted_at = None,
            perm_created_by = None, perm_updated_by = None\<rparr>) d) (\<lambda>_. ret ())
      | Some p \<Rightarrow>
          if \<exists>x\<in>set (rows (permissions d)). perm_method x = method_name (ps_method k) \<and> perm_path_pattern x = ps_path k
              \<and> perm_id x \<noteq> perm_id p
          then (Inl P2002, d)
          else (Inr (), d\<lparr>permissions := map_rows (\<lambda>x. perm_id x = perm_id p) (seeded_permission k) (permissions d)\<rparr>))"

definition drop_obsolete :: "db \<Rightarrow> db" where
  "drop_obsolete d =
     (let active = map (\<lambda>k. permission_string (ps_code k)) PERMISSIONS;
          obsolete = map perm_id (select_rows (\<lambda>p. perm_code p \<notin> set active) (permissions d))
      in if obsolete \<noteq> []
         then d\<lparr>role_permissions := delete_rows (\<lambda>x. rp_permission_id x \<in> set obsolete) (role_permissions d),
                permissions := delete_rows (\<lambda>p. perm_id p \<in> set obsolete) (permissions d)\<rparr>
         else d)"

definition permission_ids_by_code :: "db \<Rightarrow> string \<Rightarrow> int option" where
  "permission_ids_by_code d = map_of (rev (map (\<lambda>p. (perm_code p, perm_id p)) (rows (permissions d))))"

definition upsert_permissions :: "(string \<Rightarrow> int option) action" where
  "upsert_permissions d =
     await (for_of upsert_permission_seed PERMISSIONS (drop_obsolete d)) (\<lambda>_ d. (Inr (permission_ids_by_code d), d))"

section \<open>Grants\<close>

definition upsert_role_permission :: "int \<Rightarrow> int \<Rightarrow> unit action" where
  "upsert_role_permission role perm d =
     (if find_by_composite role perm d \<noteq> None then (Inr (), d)
      else await (insert_role_permission role perm d) (\<lambda>_. ret ()))"

text \<open>An identifier that is missing or zero is skipped; the counters are only printed.\<close>

definition grant_permission :: "(string \<Rightarrow> int option) \<Rightarrow> int \<Rightarrow> permission_code \<Rightarrow> unit action" where
  "grant_permission perm_ids role code d =
     (case perm_ids (permission_string code) of
        None \<Rightarrow> (Inr (), d)
      | Some p \<Rightarrow> if p = 0 then (Inr (), d) else upsert_role_permission role p d)"

definition seed_role_grants ::
    "(role_code \<Rightarrow> int option) \<Rightarrow> (string \<Rightarrow> int option) \<Rightarrow> role_code \<Rightarrow> unit action" where
  "seed_role_grants role_ids perm_ids rc d =
     (case role_ids rc of
        None \<Rightarrow> (Inr (), d)
      | Some role \<Rightarrow>
          if role = 0 then (Inr (), d)
          else let codes = js_unique (ROLE_PERMISSION_MAP rc);
                   ids = List.map_filter (\<lambda>c. perm_ids (permission_string c)) codes
               in for_of (grant_permission perm_ids role) codes
                    (d\<lparr>role_permissions := delete_rows (\<lambda>x. rp_role_id x = role \<and> rp_permission_id x \<notin> set ids)
                         (role_permissions d)\<rparr>))"

definition seed_role_permissions :: "(role_code \<Rightarrow> int option) \<Rightarrow> (string \<Rightarrow> int option) \<Rightarrow> unit action" where
  "seed_role_permissions role_ids perm_ids = for_of (seed_role_grants role_ids perm_ids) matrix_roles"

text \<open>The first part of \<open>main\<close>.\<close>

definition seed_access :: "unit action" where
  "seed_access d =
     await (upsert_roles d) (\<lambda>role_ids d.
       await (upsert_permissions d) (\<lambda>perm_ids d. seed_role_permissions role_ids perm_ids d))"

section \<open>Lemmas: loops and tables with a unique code\<close>

lemma for_of_post:
  assumes "for_of f xs s = (Inr u, s')" and "I s"
    and "\<And>x s s'. x \<in> set xs \<Longrightarrow> I s \<Longrightarrow> f x s = (Inr (), s') \<Longrightarrow> I s' \<and> Q x s' \<and> (\<forall>y. y \<noteq> x \<and> Q y s \<longrightarrow> Q y s')"
  shows "I s' \<and> (\<forall>x\<in>set xs. Q x s')"
proof -
  have "I s' \<and> (\<forall>x\<in>set xs. Q x s') \<and> (\<forall>y. y \<notin> set xs \<and> Q y s \<longrightarrow> Q y s')"
    using assms
  proof (induction xs arbitrary: s)
    case (Cons x xs)
    from Cons.prems(1) obtain s1 where s1: "f x s = (Inr (), s1)" and rest: "for_of f xs s1 = (Inr u, s')"
      by (auto elim: await_InrD)
    have "I s1" "Q x s1" "\<And>y. y \<noteq> x \<Longrightarrow> Q y s \<Longrightarrow> Q y s1" using Cons.prems(2,3) s1 by force+
    moreover have "I s' \<and> (\<forall>x\<in>set xs. Q x s') \<and> (\<forall>y. y \<notin> set xs \<and> Q y s1 \<longrightarrow> Q y s')"
      by (rule Cons.IH [OF rest \<open>I s1\<close>]) (use Cons.prems(3) in auto)
    ultimately show ?case by auto
  qed simp
  then show ?thesis by blast
qed

lemma for_of_keeps:
  assumes "for_of f xs s = (Inr u, s')" and "I s"
    and "\<And>x s s'. x \<in> set xs \<Longrightarrow> I s \<Longrightarrow> f x s = (Inr (), s') \<Longrightarrow> I s'"
  shows "I s'"
  using for_of_post [OF assms(1), of I "\<lambda>_ _. True"] assms(2,3) by simp

lemma for_of_idle:
  assumes "\<And>x. x \<in> set xs \<Longrightarrow> f x s = (Inr (), s)"
  shows "for_of f xs s = (Inr (), s)"
  using assms by (induction xs) simp_all

definition unique_rows :: "('r \<Rightarrow> int) \<Rightarrow> ('r \<Rightarrow> 'k) \<Rightarrow> 'r table \<Rightarrow> bool" where
  "unique_rows key code t \<longleftrightarrow>
     wf_table key t \<and> 0 < serial t \<and> (\<forall>r\<in>set (rows t). 0 < key r) \<and> distinct (map code (rows t))"

lemma unique_rows_insert:
  assumes "unique_rows key code t" and "\<And>i. key (mk i) = i" and "code (mk (serial t)) \<notin> code ` set (rows t)"
  shows "unique_rows key code (insert_row mk t)"
  using assms wf_insert_row [of key mk t] by (auto simp: unique_rows_def)

lemma unique_rows_map:
  assumes "unique_rows key code t" and "\<And>r. key (g r) = key r" and "\<And>r. code (g r) = code r"
  shows "unique_rows key code (map_rows P g t)"
proof -
  let ?g = "\<lambda>r. if P r then g r else r"
  have "distinct (map code (map ?g (rows t)))"
    using assms(1) distinct_map_same_key [of code ?g "rows t"] by (simp add: unique_rows_def assms(3))
  with assms show ?thesis using wf_map_rows [of key g t P] by (auto simp: unique_rows_def)
qed

lemma image_map_rows:
  assumes "\<And>r. f (g r) = f r"
  shows "f ` set (rows (map_rows P g t)) = f ` set (rows t)"
proof -
  have "f (if P r then g r else r) = f r" for r using assms by simp
  then show ?thesis by (simp only: rows_map_rows set_map image_image)
qed

lemma unique_rows_delete: "unique_rows key code t \<Longrightarrow> unique_rows key code (delete_rows P t)"
  by (auto simp: unique_rows_def wf_delete_rows distinct_map_filter)

lemma unique_code:
  assumes "unique_rows key code t" and "r \<in> set (rows t)" and "x \<in> set (rows t)" and "code x = code r \<or> key x = key r"
  shows "x = r"
  using assms by (auto simp: unique_rows_def wf_table_def distinct_map dest: inj_onD)

lemma unique_entry:
  assumes "unique_rows key code t"
  shows "map_of (rev (map (\<lambda>r. (code r, key r)) (rows t))) c = Some i \<longleftrightarrow> (\<exists>r\<in>set (rows t). code r = c \<and> key r = i)"
proof -
  have "distinct (map fst (rev (map (\<lambda>r. (code r, key r)) (rows t))))"
    using assms by (simp add: unique_rows_def rev_map [symmetric] comp_def)
  from map_of_eq_Some_iff [OF this] show ?thesis by auto
qed

section \<open>Lemmas: the seeded tables\<close>

text \<open>A row that already carries the values of the seed, and the identifiers the seed relies on.\<close>

definition role_ok :: "role_seed \<Rightarrow> db \<Rightarrow> bool" where
  "role_ok k d \<longleftrightarrow> (\<exists>r\<in>set (rows (roles d)). role_code r = rs_code k \<and> seeded_role k r = r)"

definition permission_ok :: "permission_seed \<Rightarrow> db \<Rightarrow> bool" where
  "permission_ok k d \<longleftrightarrow>
     (\<exists>p\<in>set (rows (permissions d)). perm_code p = permission_string (ps_code k) \<and> seeded_permission k p = p)"

definition access_wf :: "db \<Rightarrow> bool" where
  "access_wf d \<longleftrightarrow> unique_rows role_id role_code (roles d) \<and> unique_rows perm_id perm_code (permissions d)"

lemma seeded_simps [simp]:
  "role_id (seeded_role k r) = role_id r" "role_code (seeded_role k r) = role_code r"
  "seeded_role k (seeded_role k r) = seeded_role k r"
  "perm_id (seeded_permission q p) = perm_id p" "perm_code (seeded_permission q p) = perm_code p"
  "seeded_permission q (seeded_permission q p) = seeded_permission q p"
  by (simp_all add: seeded_role_def seeded_permission_def)

lemma permission_string_inject: "permission_string c = permission_string c' \<longleftrightarrow> c = c'"
  by (cases c; cases c') simp_all

lemma upsert_role_step:
  assumes "upsert_role k d = (Inr (), d')" and "access_wf d"
  shows "access_wf d' \<and> role_ok k d' \<and> (\<forall>j. rs_code j \<noteq> rs_code k \<and> role_ok j d \<longrightarrow> role_ok j d')
    \<and> permissions d' = permissions d \<and> role_permissions d' = role_permissions d \<and> user_roles d' = user_roles d"
proof (cases "find_row (\<lambda>r. role_code r = rs_code k) (roles d)")
  case None
  let ?mk = "\<lambda>i. \<lparr>role_id = i, role_code = rs_code k, role_name = rs_name k, role_is_active = True,
    role_deleted_at = None, role_description = Some (rs_description k)\<rparr>"
  from None assms(1) have d': "d' = d\<lparr>roles := insert_row ?mk (roles d)\<rparr>"
    by (simp add: upsert_role_def split: if_splits)
  have "unique_rows role_id role_code (insert_row ?mk (roles d))"
    using assms(2) None by (intro unique_rows_insert) (auto simp: access_wf_def find_row_None)
  then show ?thesis using assms(2) by (auto simp: d' access_wf_def role_ok_def seeded_role_def)
next
  case (Some r)
  then have r: "r \<in> set (rows (roles d))" "role_code r = rs_code k" by (auto dest: find_row_SomeD)
  from Some assms(1) have d': "d' = d\<lparr>roles := map_rows (\<lambda>x. role_id x = role_id r) (seeded_role k) (roles d)\<rparr>"
    by (simp add: upsert_role_def split: if_splits)
  have only: "x = r" if "x \<in> set (rows (roles d))" "role_id x = role_id r" for x
    using unique_code [OF _ r(1) that(1)] that(2) assms(2) by (auto simp: access_wf_def)
  have "role_ok j d'" if j: "rs_code j \<noteq> rs_code k" "role_ok j d" for j
  proof -
    from j(2) obtain x where x: "x \<in> set (rows (roles d))" "role_code x = rs_code j" "seeded_role j x = x"
      by (auto simp: role_ok_def)
    with only r(2) j(1) have "role_id x \<noteq> role_id r" by metis
    with x show ?thesis by (auto simp: d' role_ok_def intro!: bexI [of _ x])
  qed
  moreover have "role_ok k d'" using r by (auto simp: d' role_ok_def image_iff intro!: bexI [of _ "seeded_role k r"])
  moreover have "access_wf d'" using assms(2) by (simp add: d' access_wf_def unique_rows_map)
  ultimately show ?thesis by (simp add: d')
qed

lemma upsert_permission_step:
  assumes "upsert_permission_seed k d = (Inr (), d')" and "access_wf d"
  shows "access_wf d' \<and> permission_ok k d' \<and> (\<forall>j. ps_code j \<noteq> ps_code k \<and> permission_ok j d \<longrightarrow> permission_ok j d')
    \<and> perm_code ` set (rows (permissions d')) = insert (permission_string (ps_code k)) (perm_code ` set (rows (permissions d)))
    \<and> roles d' = roles d \<and> role_permissions d' = role_permissions d \<and> user_roles d' = user_roles d"
proof (cases "find_row (\<lambda>p. perm_code p = permission_string (ps_code k)) (permissions d)")
  case None
  let ?mk = "\<lambda>i. \<lparr>perm_id = i, perm_code = permission_string (ps_code k),
     perm_description = Some (points (ps_description k)), perm_method = method_name (ps_method k),
     perm_path_pattern = ps_path k, perm_is_active = seeded_active k, perm_deleted_at = None,
     perm_created_by = None, perm_updated_by = None\<rparr>"
  from None assms(1) have d': "d' = d\<lparr>permissions := insert_row ?mk (permissions d)\<rparr>"
    by (simp add: upsert_permission_seed_def insert_permission_def Let_def split: if_splits)
  have "unique_rows perm_id perm_code (insert_row ?mk (permissions d))"
    using assms(2) None by (intro unique_rows_insert) (auto simp: access_wf_def find_row_None)
  then show ?thesis using assms(2) by (auto simp: d' access_wf_def permission_ok_def seeded_permission_def)
next
  case (Some r)
  then have r: "r \<in> set (rows (permissions d))" "perm_code r = permission_string (ps_code k)" by (auto dest: find_row_SomeD)
  from Some assms(1)
  have d': "d' = d\<lparr>permissions := map_rows (\<lambda>x. perm_id x = perm_id r) (seeded_permission k) (permissions d)\<rparr>"
    by (simp add: upsert_permission_seed_def split: if_splits)
  have only: "x = r" if "x \<in> set (rows (permissions d))" "perm_id x = perm_id r" for x
    using unique_code [OF _ r(1) that(1)] that(2) assms(2) by (auto simp: access_wf_def)
  have "permission_ok j d'" if j: "ps_code j \<noteq> ps_code k" "permission_ok j d" for j
  proof -
    from j(2) obtain x where x: "x \<in> set (rows (permissions d))" "perm_code x = permission_string (ps_code j)"
      "seeded_permission j x = x" by (auto simp: permission_ok_def)
    with only r(2) j(1) have "perm_id x \<noteq> perm_id r" by (metis permission_string_inject)
    with x show ?thesis by (auto simp: d' permission_ok_def intro!: bexI [of _ x])
  qed
  moreover have "permission_ok k d'" using r by (auto simp: d' permission_ok_def image_iff intro!: bexI [of _ "seeded_permission k r"])
  moreover have "access_wf d'" using assms(2) by (simp add: d' access_wf_def unique_rows_map)
  moreover have "perm_code ` set (rows (permissions d')) = perm_code ` set (rows (permissions d))"
    using image_map_rows [of perm_code "seeded_permission k"] by (simp add: d')
  moreover have "insert (permission_string (ps_code k)) (perm_code ` set (rows (permissions d))) = perm_code ` set (rows (permissions d))"
    using r by (metis image_eqI insert_absorb)
  ultimately show ?thesis by (simp add: d')
qed

section \<open>Lemmas: the grants\<close>

lemma drop_obsolete_facts:
  assumes "access_wf d"
  shows "access_wf (drop_obsolete d)" "roles (drop_obsolete d) = roles d" "user_roles (drop_obsolete d) = user_roles d"
    "perm_code ` set (rows (permissions (drop_obsolete d))) \<subseteq> permission_string ` ps_code ` set PERMISSIONS"
proof -
  let ?obsolete = "map perm_id (select_rows (\<lambda>p. perm_code p \<notin> permission_string ` ps_code ` set PERMISSIONS) (permissions d))"
  have drop: "drop_obsolete d = (if ?obsolete \<noteq> []
      then d\<lparr>role_permissions := delete_rows (\<lambda>x. rp_permission_id x \<in> set ?obsolete) (role_permissions d),
             permissions := delete_rows (\<lambda>p. perm_id p \<in> set ?obsolete) (permissions d)\<rparr> else d)"
    unfolding drop_obsolete_def Let_def by (simp only: set_map image_image)
  show "access_wf (drop_obsolete d)" "roles (drop_obsolete d) = roles d" "user_roles (drop_obsolete d) = user_roles d"
    using assms unfolding drop by (simp_all add: access_wf_def unique_rows_delete)
  show "perm_code ` set (rows (permissions (drop_obsolete d))) \<subseteq> permission_string ` ps_code ` set PERMISSIONS"
  proof (cases "?obsolete = []")
    case True
    then have "\<forall>p\<in>set (rows (permissions d)). perm_code p \<in> permission_string ` ps_code ` set PERMISSIONS"
      by (auto simp: select_rows_def filter_empty_conv)
    with True show ?thesis unfolding drop by auto
  next
    case False
    then show ?thesis unfolding drop by force
  qed
qed

definition grants_of :: "db \<Rightarrow> int \<Rightarrow> int set" where
  "grants_of d i = {p. \<lparr>rp_role_id = i, rp_permission_id = p\<rparr> \<in> set (rows (role_permissions d))}"

lemma grants_of_tables [simp]: "grants_of (d\<lparr>roles := t\<rparr>) i = grants_of d i" "grants_of (d\<lparr>permissions := u\<rparr>) i = grants_of d i"
  by (simp_all add: grants_of_def)

lemma upsert_role_permission_grants:
  assumes "upsert_role_permission i p d = (Inr (), d')"
  shows "grants_of d' j = (if j = i then insert p (grants_of d i) else grants_of d j)
    \<and> roles d' = roles d \<and> permissions d' = permissions d \<and> user_roles d' = user_roles d"
proof (cases "find_by_composite i p d")
  case None
  with assms have "d' = d\<lparr>role_permissions := insert_row (\<lambda>_. \<lparr>rp_role_id = i, rp_permission_id = p\<rparr>) (role_permissions d)\<rparr>"
    by (auto simp: upsert_role_permission_def insert_role_permission_def Let_def split: if_splits)
  then show ?thesis by (auto simp: grants_of_def)
next
  case (Some x)
  then have "x \<in> set (rows (role_permissions d))" "x = \<lparr>rp_role_id = i, rp_permission_id = p\<rparr>"
    by (auto simp: find_by_composite_def dest!: find_row_SomeD)
  with Some assms have "d' = d" "p \<in> grants_of d i" by (simp_all add: upsert_role_permission_def grants_of_def)
  then show ?thesis by auto
qed

lemma granting_loop:
  assumes "for_of (grant_permission ids i) codes d = (Inr u, d')"
    and "\<And>c. c \<in> set codes \<Longrightarrow> ids (permission_string c) = Some (f c) \<and> f c \<noteq> 0"
  shows "grants_of d' j = (if j = i then f ` set codes \<union> grants_of d i else grants_of d j)
    \<and> roles d' = roles d \<and> permissions d' = permissions d \<and> user_roles d' = user_roles d"
  using assms
proof (induction codes arbitrary: d)
  case (Cons c codes)
  from Cons.prems(1) obtain v d1 where "grant_permission ids i c d = (Inr v, d1)"
    and rest: "for_of (grant_permission ids i) codes d1 = (Inr u, d')"
    by (auto elim: await_InrD)
  with Cons.prems(2) have "upsert_role_permission i (f c) d = (Inr (), d1)" by (simp add: grant_permission_def)
  from upsert_role_permission_grants [OF this(1)] Cons.IH [OF rest] Cons.prems(2) show ?case by auto
qed simp

lemma role_grants_step:
  assumes "seed_role_grants role_ids ids rc d = (Inr (), d')" and "role_ids rc = Some i" and "i \<noteq> 0"
    and "\<And>c. c \<in> set (ROLE_PERMISSION_MAP rc) \<Longrightarrow> ids (permission_string c) = Some (f c) \<and> f c \<noteq> 0"
  shows "grants_of d' j = (if j = i then f ` set (ROLE_PERMISSION_MAP rc) else grants_of d j)
    \<and> roles d' = roles d \<and> permissions d' = permissions d \<and> user_roles d' = user_roles d"
proof -
  let ?codes = "js_unique (ROLE_PERMISSION_MAP rc)"
  have codes: "set ?codes = set (ROLE_PERMISSION_MAP rc)" by (simp add: js_unique_def)
  let ?ids = "List.map_filter (\<lambda>c. ids (permission_string c)) ?codes"
  let ?d = "d\<lparr>role_permissions := delete_rows (\<lambda>x. rp_role_id x = i \<and> rp_permission_id x \<notin> set ?ids) (role_permissions d)\<rparr>"
  have "set ?ids = f ` set (ROLE_PERMISSION_MAP rc)"
    using assms(4) by (force simp: map_filter_def codes image_iff)
  then have cut: "grants_of ?d j = (if j = i then grants_of d i \<inter> f ` set (ROLE_PERMISSION_MAP rc) else grants_of d j)" for j
    by (auto simp: grants_of_def)
  have "for_of (grant_permission ids i) ?codes ?d = (Inr (), d')"
    using assms(1-3) by (simp add: seed_role_grants_def Let_def)
  from granting_loop [OF this, of f] assms(4) show ?thesis by (auto simp: codes cut)
qed

section \<open>Lemmas: the whole seed\<close>

lemma all_codes: "c \<in> set ALL_PERMISSION_CODES"
  by (cases c) (simp_all add: ALL_PERMISSION_CODES_def)

lemma seeded_codes: "map ps_code PERMISSIONS = ALL_PERMISSION_CODES"
  by (simp add: PERMISSIONS_def ALL_PERMISSION_CODES_def permission_seed_def)

lemma all_roles: "rc \<in> set matrix_roles" "rc \<in> rs_code ` set seed_roles"
  by (cases rc; simp add: matrix_roles_def seed_roles_def)+

lemma distinct_seeds: "distinct (map rs_code seed_roles)" "distinct (map ps_code PERMISSIONS)"
  unfolding seeded_codes by (simp_all add: seed_roles_def ALL_PERMISSION_CODES_def)

lemma same_seed:
  "k \<in> set seed_roles \<Longrightarrow> j \<in> set seed_roles \<Longrightarrow> rs_code j = rs_code k \<Longrightarrow> j = k"
  "p \<in> set PERMISSIONS \<Longrightarrow> q \<in> set PERMISSIONS \<Longrightarrow> ps_code q = ps_code p \<Longrightarrow> q = p"
  using distinct_seeds by (auto simp: distinct_map dest: inj_onD)

lemma upsert_roles_facts:
  assumes "for_of upsert_role seed_roles d = (Inr u, d')" and "access_wf d"
  shows "access_wf d' \<and> permissions d' = permissions d \<and> role_permissions d' = role_permissions d \<and> user_roles d' = user_roles d"
    and "\<forall>k\<in>set seed_roles. role_ok k d'"
proof -
  let ?I = "\<lambda>s. access_wf s \<and> permissions s = permissions d \<and> role_permissions s = role_permissions d \<and> user_roles s = user_roles d"
  let ?Q = "\<lambda>k s. k \<in> set seed_roles \<longrightarrow> role_ok k s"
  have "?I d' \<and> (\<forall>k\<in>set seed_roles. ?Q k d')"
  proof (rule for_of_post [OF assms(1), where I = ?I])
    fix k s s'
    assume k: "k \<in> set seed_roles" and I: "?I s" and step: "upsert_role k s = (Inr (), s')"
    show "?I s' \<and> ?Q k s' \<and> (\<forall>y. y \<noteq> k \<and> ?Q y s \<longrightarrow> ?Q y s')"
      using upsert_role_step [OF step] I same_seed(1) [OF k] by auto
  qed (use assms(2) in simp)
  then show "?I d'" and "\<forall>k\<in>set seed_roles. role_ok k d'" by auto
qed

lemma upsert_permissions_facts:
  assumes "for_of upsert_permission_seed PERMISSIONS (drop_obsolete d) = (Inr u, d')" and "access_wf d"
  shows "access_wf d' \<and> roles d' = roles d \<and> user_roles d' = user_roles d"
    and "\<forall>k\<in>set PERMISSIONS. permission_ok k d'"
    and "perm_code ` set (rows (permissions d')) = range permission_string"
proof -
  let ?I = "\<lambda>s. access_wf s \<and> roles s = roles d \<and> user_roles s = user_roles d
    \<and> perm_code ` set (rows (permissions s)) \<subseteq> range permission_string"
  let ?Q = "\<lambda>k s. k \<in> set PERMISSIONS \<longrightarrow> permission_ok k s"
  have all: "?I d' \<and> (\<forall>k\<in>set PERMISSIONS. ?Q k d')"
  proof (rule for_of_post [OF assms(1), where I = ?I])
    fix k s s'
    assume k: "k \<in> set PERMISSIONS" and I: "?I s" and step: "upsert_permission_seed k s = (Inr (), s')"
    show "?I s' \<and> ?Q k s' \<and> (\<forall>y. y \<noteq> k \<and> ?Q y s \<longrightarrow> ?Q y s')"
      using upsert_permission_step [OF step] I same_seed(2) [OF k] by auto
  next
    show "?I (drop_obsolete d)" using drop_obsolete_facts [OF assms(2)] by auto
  qed
  then have sub: "perm_code ` set (rows (permissions d')) \<subseteq> range permission_string" by auto
  from all show "access_wf d' \<and> roles d' = roles d \<and> user_roles d' = user_roles d" by auto
  from all show ok: "\<forall>k\<in>set PERMISSIONS. permission_ok k d'" by auto
  have "permission_string c \<in> perm_code ` set (rows (permissions d'))" for c
  proof -
    have "c \<in> set (map ps_code PERMISSIONS)" using all_codes by (simp only: seeded_codes)
    then show ?thesis using ok by (force simp: permission_ok_def)
  qed
  with sub show "perm_code ` set (rows (permissions d')) = range permission_string" by auto
qed

text \<open>What the seed leaves, as a state: the roles and the permissions of the seed, and the grants of the matrix.\<close>

definition access_seeded :: "db \<Rightarrow> bool" where
  "access_seeded d \<longleftrightarrow> access_wf d \<and> (\<forall>k\<in>set seed_roles. role_ok k d) \<and> (\<forall>k\<in>set PERMISSIONS. permission_ok k d)
     \<and> perm_code ` set (rows (permissions d)) = range permission_string
     \<and> (\<forall>r\<in>set (rows (roles d)). grants_of d (role_id r)
          = {perm_id p | p. p \<in> set (rows (permissions d)) \<and> perm_code p \<in> permission_string ` set (ROLE_PERMISSION_MAP (role_code r))})"

lemma permission_id_of_code:
  assumes "access_wf d" and "perm_code ` set (rows (permissions d)) = range permission_string"
  obtains f where "\<And>c. permission_ids_by_code d (permission_string c) = Some (f c) \<and> f c \<noteq> 0"
    and "\<And>C. f ` C = {perm_id p | p. p \<in> set (rows (permissions d)) \<and> perm_code p \<in> permission_string ` C}"
proof -
  have entry: "permission_ids_by_code d c = Some i \<longleftrightarrow> (\<exists>p\<in>set (rows (permissions d)). perm_code p = c \<and> perm_id p = i)" for c i
    unfolding permission_ids_by_code_def using assms(1) by (intro unique_entry) (simp add: access_wf_def)
  have "\<exists>p\<in>set (rows (permissions d)). perm_code p = permission_string c" for c
    using assms(2) by (metis image_iff rangeI)
  then have "\<exists>i. permission_ids_by_code d (permission_string c) = Some i" for c using entry by blast
  then obtain f where f: "\<And>c. permission_ids_by_code d (permission_string c) = Some (f c)" by metis
  have pos: "0 < perm_id p" if "p \<in> set (rows (permissions d))" for p
    using assms(1) that by (simp add: access_wf_def unique_rows_def)
  have there: "\<exists>p\<in>set (rows (permissions d)). perm_code p = permission_string c \<and> perm_id p = f c" for c
    using f entry by blast
  have only: "f c = perm_id p" if "p \<in> set (rows (permissions d))" "perm_code p = permission_string c" for c p
    using f entry that by (metis option.inject)
  show thesis
  proof
    show "permission_ids_by_code d (permission_string c) = Some (f c) \<and> f c \<noteq> 0" for c
      using f there [of c] pos by fastforce
    show "f ` C = {perm_id p | p. p \<in> set (rows (permissions d)) \<and> perm_code p \<in> permission_string ` C}" for C
    proof (intro equalityI subsetI)
      fix i assume "i \<in> f ` C"
      then obtain c where c: "c \<in> C" "i = f c" by blast
      with there [of c] show "i \<in> {perm_id p | p. p \<in> set (rows (permissions d)) \<and> perm_code p \<in> permission_string ` C}" by force
    next
      fix i assume "i \<in> {perm_id p | p. p \<in> set (rows (permissions d)) \<and> perm_code p \<in> permission_string ` C}"
      then obtain p c where "p \<in> set (rows (permissions d))" "perm_code p = permission_string c" "i = perm_id p" "c \<in> C" by blast
      with only [of p c] show "i \<in> f ` C" by (metis imageI)
    qed
  qed
qed

lemma seed_access_establishes:
  assumes "seed_access d = (Inr u, d')" and "access_wf d"
  shows "access_seeded d' \<and> user_roles d' = user_roles d"
proof -
  from assms(1) obtain v1 d1 v2 d2 where roles: "for_of upsert_role seed_roles d = (Inr v1, d1)"
    and perms: "for_of upsert_permission_seed PERMISSIONS (drop_obsolete d1) = (Inr v2, d2)"
    and grants: "for_of (seed_role_grants (role_ids_by_code d1) (permission_ids_by_code d2)) matrix_roles d2 = (Inr u, d')"
    by (auto simp: seed_access_def upsert_roles_def upsert_permissions_def seed_role_permissions_def elim!: await_InrD)
  note r = upsert_roles_facts [OF roles assms(2)]
  note p = upsert_permissions_facts [OF perms]
  have wf: "access_wf d2" and same: "roles d2 = roles d1" "user_roles d2 = user_roles d" using p(1) r(1) by auto
  from r(1) have codes: "perm_code ` set (rows (permissions d2)) = range permission_string" using p(3) by blast
  obtain f where f: "\<And>c. permission_ids_by_code d2 (permission_string c) = Some (f c) \<and> f c \<noteq> 0"
    and img: "\<And>C. f ` C = {perm_id p | p. p \<in> set (rows (permissions d2)) \<and> perm_code p \<in> permission_string ` C}"
    by (rule permission_id_of_code [OF wf codes]) blast
  have entry: "role_ids_by_code d1 rc = Some i \<longleftrightarrow> (\<exists>r\<in>set (rows (roles d1)). role_code r = rc \<and> role_id r = i)" for rc i
    unfolding role_ids_by_code_def using r(1) by (intro unique_entry) (simp add: access_wf_def)
  have pos: "i \<noteq> 0" if "role_ids_by_code d1 rc = Some i" for rc i
    using that r(1) by (force simp: entry access_wf_def unique_rows_def)
  have apart: "i \<noteq> j" if "role_ids_by_code d1 a = Some i" "role_ids_by_code d1 b = Some j" "a \<noteq> b" for a b i j
    using that unique_code [of role_id role_code "roles d1"] r(1) unfolding entry access_wf_def by metis
  have known: "\<exists>i. role_ids_by_code d1 rc = Some i" for rc
    using all_roles(2) [of rc] r(2) by (force simp: entry role_ok_def)
  let ?I = "\<lambda>s. roles s = roles d2 \<and> permissions s = permissions d2 \<and> user_roles s = user_roles d2"
  let ?Q = "\<lambda>rc s. \<forall>i. role_ids_by_code d1 rc = Some i \<longrightarrow> grants_of s i = f ` set (ROLE_PERMISSION_MAP rc)"
  have "?I d' \<and> (\<forall>rc\<in>set matrix_roles. ?Q rc d')"
  proof (rule for_of_post [OF grants, where I = ?I])
    fix rc s s'
    assume I: "?I s" and step: "seed_role_grants (role_ids_by_code d1) (permission_ids_by_code d2) rc s = (Inr (), s')"
    obtain i where i: "role_ids_by_code d1 rc = Some i" using known by blast
    from role_grants_step [OF step i pos [OF i], of f] f I apart i
    show "?I s' \<and> ?Q rc s' \<and> (\<forall>y. y \<noteq> rc \<and> ?Q y s \<longrightarrow> ?Q y s')" by (metis option.inject)
  qed simp
  then have I: "?I d'" and Q: "\<And>rc. ?Q rc d'" using all_roles(1) by auto
  have "grants_of d' (role_id x) = f ` set (ROLE_PERMISSION_MAP (role_code x))" if "x \<in> set (rows (roles d'))" for x
    using Q [of "role_code x"] entry that I same by metis
  then show ?thesis
    using I wf same r p codes by (auto simp: access_seeded_def access_wf_def img role_ok_def permission_ok_def)
qed

section \<open>Lemmas: seeding again\<close>

lemma map_rows_idle:
  assumes "\<And>x. x \<in> set (rows t) \<Longrightarrow> P x \<Longrightarrow> f x = x"
  shows "map_rows P f t = t"
proof -
  have "map (\<lambda>r. if P r then f r else r) (rows t) = rows t" using assms by (intro map_idI) auto
  then show ?thesis by (simp add: map_rows_def)
qed

lemma delete_rows_idle: "(\<And>x. x \<in> set (rows t) \<Longrightarrow> \<not> P x) \<Longrightarrow> delete_rows P t = t"
  by (simp add: delete_rows_def filter_True)

lemma distinct_texts:
  "distinct (map rs_name seed_roles)"
  "distinct (map (\<lambda>k. (method_name (ps_method k), ps_path k)) PERMISSIONS)"
  by (simp add: seed_roles_def) code_simp

lemma upsert_role_idle:
  assumes "access_seeded d" and k: "k \<in> set seed_roles"
  shows "upsert_role k d = (Inr (), d)"
proof -
  have wf: "unique_rows role_id role_code (roles d)" and ok: "\<forall>k\<in>set seed_roles. role_ok k d"
    using assms(1) by (simp_all add: access_seeded_def access_wf_def)
  from ok k obtain r where r: "r \<in> set (rows (roles d))" "role_code r = rs_code k" "seeded_role k r = r"
    by (auto simp: role_ok_def)
  have same: "x = r" if "x \<in> set (rows (roles d))" "role_code x = role_code r \<or> role_id x = role_id r" for x
    using unique_code [OF wf r(1) that(1)] that(2) by blast
  have found: "find_row (\<lambda>r. role_code r = rs_code k) (roles d) = Some r"
    using r same by (cases "find_row (\<lambda>r. role_code r = rs_code k) (roles d)") (auto simp: find_row_None dest: find_row_SomeD)
  have "role_id x = role_id r" if x: "x \<in> set (rows (roles d))" "role_name x = rs_name k" for x
  proof -
    obtain j where j: "j \<in> set seed_roles" "rs_code j = role_code x" using all_roles(2) [of "role_code x"] by auto
    with ok obtain y where "y \<in> set (rows (roles d))" "role_code y = role_code x" "seeded_role j y = y"
      by (auto simp: role_ok_def)
    with x unique_code [OF wf x(1), of y] have "seeded_role j x = x" by auto
    then have "rs_name j = rs_name k" using x(2) by (cases x) (simp add: seeded_role_def)
    moreover have "inj_on rs_name (set seed_roles)" using distinct_texts(1) by (simp add: distinct_map)
    ultimately have "j = k" using j(1) k by (metis inj_onD)
    then have "role_code x = role_code r" using j(2) r(2) by simp
    with same [OF x(1)] show ?thesis by blast
  qed
  moreover have "map_rows (\<lambda>x. role_id x = role_id r) (seeded_role k) (roles d) = roles d"
    using same r(3) by (intro map_rows_idle) auto
  ultimately show ?thesis by (auto simp: upsert_role_def found)
qed

lemma upsert_permission_idle:
  assumes "access_seeded d" and k: "k \<in> set PERMISSIONS"
  shows "upsert_permission_seed k d = (Inr (), d)"
proof -
  have wf: "unique_rows perm_id perm_code (permissions d)" and ok: "\<forall>k\<in>set PERMISSIONS. permission_ok k d"
    and codes: "perm_code ` set (rows (permissions d)) = range permission_string"
    using assms(1) by (simp_all add: access_seeded_def access_wf_def)
  from ok k obtain r where r: "r \<in> set (rows (permissions d))" "perm_code r = permission_string (ps_code k)" "seeded_permission k r = r"
    by (auto simp: permission_ok_def)
  have same: "x = r" if "x \<in> set (rows (permissions d))" "perm_code x = perm_code r \<or> perm_id x = perm_id r" for x
    using unique_code [OF wf r(1) that(1)] that(2) by blast
  have found: "find_row (\<lambda>p. perm_code p = permission_string (ps_code k)) (permissions d) = Some r"
    using r same by (cases "find_row (\<lambda>p. perm_code p = permission_string (ps_code k)) (permissions d)")
      (auto simp: find_row_None dest: find_row_SomeD)
  have "perm_id x = perm_id r" if x: "x \<in> set (rows (permissions d))" "perm_method x = method_name (ps_method k)"
    "perm_path_pattern x = ps_path k" for x
  proof -
    obtain c where c: "perm_code x = permission_string c" using x(1) codes by blast
    have "c \<in> set (map ps_code PERMISSIONS)" using all_codes by (simp only: seeded_codes)
    then obtain j where j: "j \<in> set PERMISSIONS" "ps_code j = c" by auto
    with ok obtain y where "y \<in> set (rows (permissions d))" "perm_code y = perm_code x" "seeded_permission j y = y"
      by (auto simp: permission_ok_def c)
    with x unique_code [OF wf x(1), of y] have "seeded_permission j x = x" by auto
    then have "method_name (ps_method j) = method_name (ps_method k) \<and> ps_path j = ps_path k"
      using x(2,3) by (cases x) (auto simp: seeded_permission_def)
    then have "j = k" using j(1) k distinct_texts(2) by (auto simp: distinct_map dest!: inj_onD)
    with j(2) c r(2) same [OF x(1)] show ?thesis by simp
  qed
  moreover have "map_rows (\<lambda>x. perm_id x = perm_id r) (seeded_permission k) (permissions d) = permissions d"
    using same r(3) by (intro map_rows_idle) auto
  ultimately show ?thesis by (auto simp: upsert_permission_seed_def found)
qed

lemma role_grants_idle:
  assumes "access_seeded d"
  shows "seed_role_grants (role_ids_by_code d) (permission_ids_by_code d) rc d = (Inr (), d)"
proof (cases "role_ids_by_code d rc")
  case None
  then show ?thesis by (simp add: seed_role_grants_def)
next
  case (Some i)
  have wf: "access_wf d" and codes: "perm_code ` set (rows (permissions d)) = range permission_string"
    and grants: "\<forall>r\<in>set (rows (roles d)). grants_of d (role_id r)
          = {perm_id p | p. p \<in> set (rows (permissions d)) \<and> perm_code p \<in> permission_string ` set (ROLE_PERMISSION_MAP (role_code r))}"
    using assms by (simp_all add: access_seeded_def)
  obtain f where f: "\<And>c. permission_ids_by_code d (permission_string c) = Some (f c) \<and> f c \<noteq> 0"
    and img: "\<And>C. f ` C = {perm_id p | p. p \<in> set (rows (permissions d)) \<and> perm_code p \<in> permission_string ` C}"
    by (rule permission_id_of_code [OF wf codes]) blast
  have "role_ids_by_code d rc = Some i \<longleftrightarrow> (\<exists>r\<in>set (rows (roles d)). role_code r = rc \<and> role_id r = i)"
    unfolding role_ids_by_code_def using wf by (intro unique_entry) (simp add: access_wf_def)
  with Some obtain r where r: "r \<in> set (rows (roles d))" "role_code r = rc" "role_id r = i" by blast
  have mine: "grants_of d i = f ` set (ROLE_PERMISSION_MAP rc)" using bspec [OF grants r(1)] by (simp only: img r(2,3))
  let ?codes = "js_unique (ROLE_PERMISSION_MAP rc)"
  let ?ids = "List.map_filter (\<lambda>c. permission_ids_by_code d (permission_string c)) ?codes"
  have ids: "set ?ids = f ` set (ROLE_PERMISSION_MAP rc)"
    using f by (force simp: map_filter_def js_unique_def image_iff)
  have row: "x = \<lparr>rp_role_id = i, rp_permission_id = rp_permission_id x\<rparr>" if "rp_role_id x = i" for x :: role_permission_row
    using that by (cases x) simp
  have "delete_rows (\<lambda>x. rp_role_id x = i \<and> rp_permission_id x \<notin> set ?ids) (role_permissions d) = role_permissions d"
  proof (rule delete_rows_idle)
    fix x assume x: "x \<in> set (rows (role_permissions d))"
    show "\<not> (rp_role_id x = i \<and> rp_permission_id x \<notin> set ?ids)"
      using x row [of x] mine ids by (metis (mono_tags, lifting) grants_of_def mem_Collect_eq)
  qed
  then have same: "d\<lparr>role_permissions := delete_rows (\<lambda>x. rp_role_id x = i \<and> rp_permission_id x \<notin> set ?ids) (role_permissions d)\<rparr> = d"
    by simp
  have "find_by_composite i (f c) d \<noteq> None" if "c \<in> set ?codes" for c
  proof -
    have "f c \<in> grants_of d i" using that by (simp add: mine js_unique_def)
    then show ?thesis unfolding grants_of_def find_by_composite_def find_row_None by force
  qed
  then have "grant_permission (permission_ids_by_code d) i c d = (Inr (), d)" if "c \<in> set ?codes" for c
    using f that by (simp add: grant_permission_def upsert_role_permission_def)
  then have "for_of (grant_permission (permission_ids_by_code d) i) ?codes d = (Inr (), d)" by (rule for_of_idle)
  then show ?thesis using Some same by (simp add: seed_role_grants_def Let_def)
qed

lemma seed_access_idle:
  assumes "access_seeded d"
  shows "seed_access d = (Inr (), d)"
proof -
  have "set (map (\<lambda>k. permission_string (ps_code k)) PERMISSIONS) = range permission_string"
  proof -
    have "set (map ps_code PERMISSIONS) = UNIV" unfolding seeded_codes using all_codes by blast
    then show ?thesis by (simp add: image_image [symmetric] del: set_map) (metis image_image set_map)
  qed
  moreover have "perm_code ` set (rows (permissions d)) = range permission_string" using assms by (simp add: access_seeded_def)
  ultimately have "select_rows (\<lambda>p. perm_code p \<notin> set (map (\<lambda>k. permission_string (ps_code k)) PERMISSIONS)) (permissions d) = []"
    by (auto simp: select_rows_def filter_empty_conv)
  then have "drop_obsolete d = d" unfolding drop_obsolete_def Let_def by simp
  moreover have "for_of upsert_role seed_roles d = (Inr (), d)"
    by (rule for_of_idle) (rule upsert_role_idle [OF assms])
  moreover have "for_of upsert_permission_seed PERMISSIONS d = (Inr (), d)"
    by (rule for_of_idle) (rule upsert_permission_idle [OF assms])
  moreover have "for_of (seed_role_grants (role_ids_by_code d) (permission_ids_by_code d)) matrix_roles d = (Inr (), d)"
    by (rule for_of_idle) (rule role_grants_idle [OF assms])
  ultimately show ?thesis
    by (simp add: seed_access_def upsert_roles_def upsert_permissions_def seed_role_permissions_def)
qed

section \<open>Lemmas: the seed succeeds\<close>

lemma for_of_succeeds:
  assumes "I s" and "\<And>x s. x \<in> set xs \<Longrightarrow> I s \<Longrightarrow> \<exists>s'. f x s = (Inr (), s') \<and> I s'"
  shows "\<exists>s'. for_of f xs s = (Inr (), s') \<and> I s'"
  using assms
proof (induction xs arbitrary: s)
  case (Cons x xs)
  then obtain s1 where s1: "f x s = (Inr (), s1)" "I s1" by (metis list.set_intros(1))
  have "\<exists>s'. for_of f xs s1 = (Inr (), s') \<and> I s'"
    by (rule Cons.IH [OF s1(2)]) (use Cons.prems(2) in auto)
  with s1 show ?case by simp
qed simp

text \<open>No role of another code uses a name of the seed, no permission of another code a method and path of the seed.\<close>

definition names_free :: "db \<Rightarrow> bool" where
  "names_free d \<longleftrightarrow>
     (\<forall>k\<in>set seed_roles. \<forall>x\<in>set (rows (roles d)). role_name x = rs_name k \<longrightarrow> role_code x = rs_code k)
   \<and> (\<forall>k\<in>set PERMISSIONS. \<forall>x\<in>set (rows (permissions d)). perm_code x \<in> range permission_string
        \<and> perm_method x = method_name (ps_method k) \<and> perm_path_pattern x = ps_path k
        \<longrightarrow> perm_code x = permission_string (ps_code k))"

lemma names_apart:
  "k \<in> set seed_roles \<Longrightarrow> j \<in> set seed_roles \<Longrightarrow> rs_name j = rs_name k \<Longrightarrow> j = k"
  "p \<in> set PERMISSIONS \<Longrightarrow> q \<in> set PERMISSIONS \<Longrightarrow> method_name (ps_method q) = method_name (ps_method p)
     \<Longrightarrow> ps_path q = ps_path p \<Longrightarrow> q = p"
  using distinct_texts by (auto simp: distinct_map dest: inj_onD)

lemma upsert_role_succeeds:
  assumes "access_wf d" and "names_free d" and k: "k \<in> set seed_roles"
  shows "\<exists>d'. upsert_role k d = (Inr (), d') \<and> names_free d'"
proof -
  have free: "role_code x = rs_code j" if "j \<in> set seed_roles" "x \<in> set (rows (roles d))" "role_name x = rs_name j" for x j
    using assms(2) that by (simp add: names_free_def)
  show ?thesis
  proof (cases "find_row (\<lambda>r. role_code r = rs_code k) (roles d)")
    case None
    then have "\<not> (\<exists>x\<in>set (rows (roles d)). role_name x = rs_name k)" using free [OF k] by (auto simp: find_row_None)
    with None assms(2) k names_apart(1) [OF _ k] show ?thesis
      by (auto simp: upsert_role_def names_free_def dest: sym)
  next
    case (Some r)
    then have r: "r \<in> set (rows (roles d))" "role_code r = rs_code k" by (auto dest: find_row_SomeD)
    have same: "x = r" if "x \<in> set (rows (roles d))" "role_code x = rs_code k \<or> role_id x = role_id r" for x
      using unique_code [OF _ r(1) that(1), of role_id role_code] that(2) r(2) assms(1) by (auto simp: access_wf_def)
    have "\<not> (\<exists>x\<in>set (rows (roles d)). role_name x = rs_name k \<and> role_id x \<noteq> role_id r)"
      using free [OF k] same by blast
    then have run: "upsert_role k d = (Inr (), d\<lparr>roles := map_rows (\<lambda>x. role_id x = role_id r) (seeded_role k) (roles d)\<rparr>)"
      using Some by (simp add: upsert_role_def)
    have "role_code y = rs_code j" if j: "j \<in> set seed_roles" "role_name y = rs_name j"
      and y: "y \<in> set (rows (map_rows (\<lambda>x. role_id x = role_id r) (seeded_role k) (roles d)))" for j y
    proof -
      from y obtain x where x: "x \<in> set (rows (roles d))" "y = (if role_id x = role_id r then seeded_role k x else x)" by auto
      show ?thesis
      proof (cases "role_id x = role_id r")
        case True
        with x j(2) have "rs_name j = rs_name k" by (simp add: seeded_role_def)
        with names_apart(1) [OF k j(1)] x True r(2) same [OF x(1)] show ?thesis by auto
      next
        case False
        with x j free show ?thesis by simp
      qed
    qed
    moreover have "permissions (d\<lparr>roles := t\<rparr>) = permissions d" "roles (d\<lparr>roles := t\<rparr>) = t" for t by simp_all
    ultimately have "names_free (d\<lparr>roles := map_rows (\<lambda>x. role_id x = role_id r) (seeded_role k) (roles d)\<rparr>)"
      using assms(2) unfolding names_free_def by metis
    with run show ?thesis by blast
  qed
qed

lemma upsert_permission_succeeds:
  assumes "access_wf d" and "names_free d" and k: "k \<in> set PERMISSIONS"
    and "perm_code ` set (rows (permissions d)) \<subseteq> range permission_string"
  shows "\<exists>d'. upsert_permission_seed k d = (Inr (), d') \<and> names_free d'"
proof -
  have free: "perm_code x = permission_string (ps_code j)" if "j \<in> set PERMISSIONS" "x \<in> set (rows (permissions d))"
    "perm_method x = method_name (ps_method j)" "perm_path_pattern x = ps_path j" for x j
    using assms(2,4) that unfolding names_free_def by blast
  show ?thesis
  proof (cases "find_row (\<lambda>p. perm_code p = permission_string (ps_code k)) (permissions d)")
    case None
    then have none: "\<And>x. x \<in> set (rows (permissions d)) \<Longrightarrow> perm_code x \<noteq> permission_string (ps_code k)"
      by (auto simp: find_row_None)
    then have "\<not> (\<exists>x\<in>set (rows (permissions d)).
        permission_clash (permission_string (ps_code k)) (method_name (ps_method k)) (ps_path k) x)"
      using free [OF k] by (auto simp: permission_clash_def)
    with None assms(2) k names_apart(2) [OF _ k] show ?thesis
      by (auto simp: upsert_permission_seed_def insert_permission_def Let_def names_free_def dest: sym)
  next
    case (Some r)
    then have r: "r \<in> set (rows (permissions d))" "perm_code r = permission_string (ps_code k)" by (auto dest: find_row_SomeD)
    have same: "x = r" if "x \<in> set (rows (permissions d))" "perm_code x = permission_string (ps_code k) \<or> perm_id x = perm_id r" for x
      using unique_code [OF _ r(1) that(1), of perm_id perm_code] that(2) r(2) assms(1) by (auto simp: access_wf_def)
    let ?d = "d\<lparr>permissions := map_rows (\<lambda>x. perm_id x = perm_id r) (seeded_permission k) (permissions d)\<rparr>"
    have "\<not> (\<exists>x\<in>set (rows (permissions d)). perm_method x = method_name (ps_method k) \<and> perm_path_pattern x = ps_path k
        \<and> perm_id x \<noteq> perm_id r)"
      using free [OF k] same by blast
    then have run: "upsert_permission_seed k d = (Inr (), ?d)" using Some by (simp add: upsert_permission_seed_def)
    have "perm_code y = permission_string (ps_code j)" if j: "j \<in> set PERMISSIONS"
      "perm_method y = method_name (ps_method j)" "perm_path_pattern y = ps_path j"
      and y: "y \<in> set (rows (map_rows (\<lambda>x. perm_id x = perm_id r) (seeded_permission k) (permissions d)))" for j y
    proof -
      from y obtain x where x: "x \<in> set (rows (permissions d))" "y = (if perm_id x = perm_id r then seeded_permission k x else x)"
        by auto
      show ?thesis
      proof (cases "perm_id x = perm_id r")
        case True
        with x j(2,3) have "method_name (ps_method j) = method_name (ps_method k)" "ps_path j = ps_path k"
          by (simp_all add: seeded_permission_def)
        with names_apart(2) [OF k j(1)] x True r(2) same [OF x(1)] show ?thesis by auto
      next
        case False
        with x j free show ?thesis by simp
      qed
    qed
    moreover have "roles (d\<lparr>permissions := t\<rparr>) = roles d" "permissions (d\<lparr>permissions := t\<rparr>) = t" for t by simp_all
    ultimately have "names_free ?d"
      using assms(2) unfolding names_free_def by metis
    with run show ?thesis by blast
  qed
qed

lemma names_free_frame:
  "roles d' = roles d \<Longrightarrow> set (rows (permissions d')) \<subseteq> set (rows (permissions d)) \<Longrightarrow> names_free d \<Longrightarrow> names_free d'"
  unfolding names_free_def by auto

lemma grants_succeed:
  assumes "find_row (\<lambda>r. role_id r = i) (roles d) \<noteq> None"
    and "\<And>c p. ids (permission_string c) = Some p \<Longrightarrow> permission_of d p \<noteq> None"
  shows "\<exists>d'. for_of (grant_permission ids i) codes d = (Inr (), d') \<and> roles d' = roles d \<and> permissions d' = permissions d"
proof (rule for_of_succeeds [where I = "\<lambda>s. roles s = roles d \<and> permissions s = permissions d"])
  fix c and s :: db
  assume "roles s = roles d \<and> permissions s = permissions d"
  moreover from this have "permission_of s p = permission_of d p" for p by (simp add: permission_of_def)
  ultimately show "\<exists>s'. grant_permission ids i c s = (Inr (), s') \<and> roles s' = roles d \<and> permissions s' = permissions d"
    using assms(1) assms(2) [of c]
    by (cases "ids (permission_string c)")
      (auto simp: grant_permission_def upsert_role_permission_def insert_role_permission_def Let_def)
qed simp

lemma role_grants_succeed:
  assumes "\<And>i. role_ids rc = Some i \<Longrightarrow> find_row (\<lambda>r. role_id r = i) (roles d) \<noteq> None"
    and "\<And>c p. ids (permission_string c) = Some p \<Longrightarrow> permission_of d p \<noteq> None"
  shows "\<exists>d'. seed_role_grants role_ids ids rc d = (Inr (), d') \<and> roles d' = roles d \<and> permissions d' = permissions d"
proof -
  have "\<exists>d'. for_of (grant_permission ids i) codes (d\<lparr>role_permissions := t\<rparr>) = (Inr (), d') \<and> roles d' = roles d \<and> permissions d' = permissions d"
    if "role_ids rc = Some i" for i codes t
    using grants_succeed [of i "d\<lparr>role_permissions := t\<rparr>" ids codes] assms that by (simp add: permission_of_def)
  then show ?thesis by (auto simp: seed_role_grants_def Let_def split: option.split)
qed

lemma seed_access_succeeds:
  assumes "access_wf d" and "names_free d"
  shows "\<exists>d'. seed_access d = (Inr (), d')"
proof -
  let ?I = "\<lambda>s. access_wf s \<and> names_free s"
  have "\<exists>d1. for_of upsert_role seed_roles d = (Inr (), d1) \<and> ?I d1"
  proof (rule for_of_succeeds)
    fix k s assume "k \<in> set seed_roles" "?I s"
    then show "\<exists>s'. upsert_role k s = (Inr (), s') \<and> ?I s'"
      using upsert_role_succeeds upsert_role_step by meson
  qed (use assms in simp)
  then obtain d1 where roles: "for_of upsert_role seed_roles d = (Inr (), d1)" and d1: "access_wf d1" "names_free d1" by blast
  let ?J = "\<lambda>s. access_wf s \<and> names_free s \<and> roles s = roles d1 \<and> perm_code ` set (rows (permissions s)) \<subseteq> range permission_string"
  have "\<exists>d2. for_of upsert_permission_seed PERMISSIONS (drop_obsolete d1) = (Inr (), d2) \<and> ?J d2"
  proof (rule for_of_succeeds)
    have "set (rows (permissions (drop_obsolete d1))) \<subseteq> set (rows (permissions d1))"
      by (auto simp: drop_obsolete_def Let_def)
    with names_free_frame [OF _ this d1(2)] drop_obsolete_facts [OF d1(1)] show "?J (drop_obsolete d1)" by auto
  next
    fix k s assume k: "k \<in> set PERMISSIONS" and J: "?J s"
    then obtain s' where s': "upsert_permission_seed k s = (Inr (), s')" "names_free s'"
      using upsert_permission_succeeds [of s k] by blast
    with upsert_permission_step [OF s'(1)] J show "\<exists>s'. upsert_permission_seed k s = (Inr (), s') \<and> ?J s'" by auto
  qed
  then obtain d2 where perms: "for_of upsert_permission_seed PERMISSIONS (drop_obsolete d1) = (Inr (), d2)"
    and d2: "access_wf d2" "roles d2 = roles d1" by blast
  have role: "find_row (\<lambda>r. role_id r = i) (roles d2) \<noteq> None" if "role_ids_by_code d1 rc = Some i" for rc i
    using that by (auto simp: d2(2) find_row_None role_ids_by_code_def dest!: map_of_SomeD)
  have perm: "permission_of d2 p \<noteq> None" if "permission_ids_by_code d2 c = Some p" for c p
    using that by (auto simp: permission_of_def find_row_None permission_ids_by_code_def dest!: map_of_SomeD)
  have "\<exists>d'. for_of (seed_role_grants (role_ids_by_code d1) (permission_ids_by_code d2)) matrix_roles d2 = (Inr (), d')
      \<and> roles d' = roles d2 \<and> permissions d' = permissions d2"
  proof (rule for_of_succeeds)
    fix rc and s :: db assume s: "roles s = roles d2 \<and> permissions s = permissions d2"
    then have "permission_of s p = permission_of d2 p" for p by (simp add: permission_of_def)
    with s role perm
    show "\<exists>s'. seed_role_grants (role_ids_by_code d1) (permission_ids_by_code d2) rc s = (Inr (), s')
        \<and> roles s' = roles d2 \<and> permissions s' = permissions d2"
      using role_grants_succeed [of "role_ids_by_code d1" rc s "permission_ids_by_code d2"] by auto
  qed simp
  then show ?thesis
    using roles perms by (auto simp: seed_access_def upsert_roles_def upsert_permissions_def seed_role_permissions_def)
qed

lemma seeded_role_codes:
  assumes "access_seeded d" and "r \<in> set (rows (roles d))"
  shows "set (permission_codes_of_role (role_id r) d) = permission_string ` set (ROLE_PERMISSION_MAP (role_code r))"
proof -
  have wf: "unique_rows perm_id perm_code (permissions d)" and all: "perm_code ` set (rows (permissions d)) = range permission_string"
    and grants: "grants_of d (role_id r)
      = {perm_id p | p. p \<in> set (rows (permissions d)) \<and> perm_code p \<in> permission_string ` set (ROLE_PERMISSION_MAP (role_code r))}"
    using assms by (simp_all add: access_seeded_def access_wf_def)
  have row: "x = \<lparr>rp_role_id = role_id r, rp_permission_id = rp_permission_id x\<rparr>" if "rp_role_id x = role_id r" for x :: role_permission_row
    using that by (cases x) simp
  have "code \<in> set (permission_codes_of_role (role_id r) d)
      \<longleftrightarrow> (\<exists>p\<in>set (rows (permissions d)). perm_id p \<in> grants_of d (role_id r) \<and> perm_code p = code)" for code
  proof
    assume "code \<in> set (permission_codes_of_role (role_id r) d)"
    then obtain x p where x: "x \<in> set (rows (role_permissions d))" "rp_role_id x = role_id r"
      and p: "p \<in> set (rows (permissions d))" "perm_id p = rp_permission_id x" "perm_code p = code"
      by (auto simp: in_permission_codes)
    from row [OF x(2)] x(1) p(2) have "perm_id p \<in> grants_of d (role_id r)" by (simp add: grants_of_def)
    with p show "\<exists>p\<in>set (rows (permissions d)). perm_id p \<in> grants_of d (role_id r) \<and> perm_code p = code" by blast
  qed (force simp: grants_of_def in_permission_codes)
  moreover have "(\<exists>p\<in>set (rows (permissions d)). perm_id p \<in> grants_of d (role_id r) \<and> perm_code p = code)
      \<longleftrightarrow> code \<in> permission_string ` set (ROLE_PERMISSION_MAP (role_code r))" for code
  proof
    assume "code \<in> permission_string ` set (ROLE_PERMISSION_MAP (role_code r))"
    moreover from this obtain p where "p \<in> set (rows (permissions d))" "perm_code p = code" using all by (metis imageE rangeI)
    ultimately show "\<exists>p\<in>set (rows (permissions d)). perm_id p \<in> grants_of d (role_id r) \<and> perm_code p = code"
      unfolding grants by blast
  next
    assume "\<exists>p\<in>set (rows (permissions d)). perm_id p \<in> grants_of d (role_id r) \<and> perm_code p = code"
    then show "code \<in> permission_string ` set (ROLE_PERMISSION_MAP (role_code r))"
      unfolding grants using unique_code [OF wf] by blast
  qed
  ultimately show ?thesis by blast
qed

section \<open>Properties\<close>


lemma empty_access: "access_wf empty_db" "names_free empty_db"
  by (simp_all add: access_wf_def names_free_def unique_rows_def empty_db_def empty_table_def wf_table_def)



text \<open>A fresh shop whose only employee is a member of the staff, and the request that creates a purchase order.\<close>

definition staffed_by :: "db \<Rightarrow> int \<Rightarrow> db" where
  "staffed_by d role = empty_db\<lparr>roles := roles d, permissions := permissions d, role_permissions := role_permissions d,
     user_roles := \<lparr>rows = [\<lparr>ur_user_id = 7, ur_role_id = role, ur_deleted_at = None, ur_created_by = None,
       ur_updated_by = None, ur_deleted_by = None\<rparr>], serial = 2\<rparr>\<rparr>"

lemma staffed_by_admits:
  assumes "granted 7 (permission_string PURCHASE_ORDER_CREATE) (staffed_by d i)"
  shows "\<exists>s'. admit sample_http sample_request purchase_order_controller (ct_routes purchase_order_controller ! 0)
      (sample_server (staffed_by d i))
    = (Inr \<lparr>cx_user = Some \<lparr>jp_sub = ''7'', jp_is_email_verified = True, jp_roles = []\<rparr>, cx_session = None, cx_guest = None\<rparr>, s')"
proof -
  let ?c = purchase_order_controller and ?s = "sample_server (staffed_by d i)"
  let ?r = "ct_routes ?c ! 0"
  have route: "required_permission ?c ?r = Some PURCHASE_ORDER_CREATE" "\<not> flagged Is_public ?c ?r" "\<not> flagged Is_refresh ?c ?r"
    "route_guards ?c ?r = []" by code_simp+
  have token: "bearer_token (sr_authorization (hr_shopper sample_request)) = Some ''7''" by code_simp
  have "is_revoked ''7'' (staffed_by d i) = False"
    by (simp add: is_revoked_def staffed_by_def empty_db_def)
  then have auth: "auth_guard (he_auth sample_http) False False (sr_authorization (hr_shopper sample_request)) (sv_db ?s)
      = Inr (Some \<lparr>jp_sub = ''7'', jp_is_email_verified = True, jp_roles = []\<rparr>)"
    by (simp add: auth_guard_def token js_truthy_def sample_http_def sample_auth_env_def sample_server_def)
  have "timed_cache.truthful (ae_now (he_auth sample_http)) (\<lambda>r. permission_codes_of_role r (sv_db ?s)) (sv_cache ?s)"
    by (simp add: timed_cache.truthful_def sample_server_def get_timed_def)
  from guard_decides [OF this] assms
  have "fst (guard_request (Some (permission_string PURCHASE_ORDER_CREATE)) 7 (ae_now (he_auth sample_http)) (sv_cache ?s) (sv_db ?s)) = Inr ()"
    by (simp add: sample_server_def)
  moreover have "number_of_text ''7'' = Some 7" by code_simp
  ultimately show ?thesis
    using auth route by (simp add: admit_def app_guards_def map_sum_def split_beta Let_def)
qed


end
