(* ===== verification/Seed_Stock.thy ===== *)
theory Seed_Stock
  imports Purchase Seed_Access
begin

text \<open>
  The part of the seed that fills the shelves (\<open>src/prisma/seed.ts\<close>, books, variants and procurement): the numbers it
  computes (ISBNs, prices, quantities), the plan of every variant, the draft variant it creates, and the procurement of
  physical variants through purchase orders, stock imports and the selling price. The texts of the books, which are not
  ASCII, are arguments.
\<close>

section \<open>Numbers\<close>

text \<open>\<open>Math.round\<close>.\<close>

definition js_round :: "rat \<Rightarrow> int" where
  "js_round x = \<lfloor>x + 1 / 2\<rfloor>"

definition to_rounded_vnd :: "rat \<Rightarrow> rat" where
  "to_rounded_vnd value = max 1000 (js_mul (of_int (js_round (js_div value 1000))) 1000)"

definition to_money :: "rat \<Rightarrow> rat" where
  "to_money value = f64 (store_decimal value)"

definition isbn13_from_seed :: "nat \<Rightarrow> string" where
  "isbn13_from_seed seed =
     (let padded = pad_start 9 (CHR ''0'') (nat_string seed);
          body = ''979'' @ drop (length padded - 9) padded;
          sum = foldl (\<lambda>acc (i, digit). acc + digit_value digit * (if i mod 2 = 0 then 1 else 3)) 0
                  (zip [0..<length body] body);
          check = (10 - sum mod 10) mod 10
      in body @ int_string check)"

definition make_variant_isbn :: "string \<Rightarrow> nat \<Rightarrow> nat \<Rightarrow> string" where
  "make_variant_isbn isbn13 book_index variant_index =
     (if variant_index = 0 then isbn13 else isbn13_from_seed (900000000 + book_index * 10 + variant_index))"

definition physical_stock_for_book :: "int \<Rightarrow> int" where
  "physical_stock_for_book seed =
     (let stocks = [10, 20, 35, 50, 75, 100, 120, 150, 180, 200] in stocks ! (nat \<bar>seed\<bar> mod length stocks))"

definition discount_percent_for_batch :: "int \<Rightarrow> int" where
  "discount_percent_for_batch seed =
     (let rates = [10, 15, 20, 25, 30, 35, 40, 45, 50] in rates ! (nat \<bar>seed\<bar> mod length rates))"

definition BOOK_COUNT :: nat where "BOOK_COUNT = 200"

section \<open>Books\<close>

record base_book =
  bb_title :: utext
  bb_title_vi :: "utext option"
  bb_author :: utext
  bb_publisher :: utext
  bb_publication_year :: int
  bb_page_count :: int
  bb_category_slugs :: "string list"
  bb_price_vnd :: rat
  bb_description_vi :: utext
  bb_description_en :: utext

record seed_book = base_book +
  sb_isbn13 :: string

text \<open>The Vietnamese suffix of a later edition, with its letters outside ASCII as code points.\<close>

definition special_edition_vi :: "nat \<Rightarrow> utext" where
  "special_edition_vi n =
     points '' - B'' @ [7843] @ points ''n '' @ [273] @ [7863] @ points ''c bi'' @ [7879] @ points ''t '' @ points (nat_string n)"

definition build_book :: "base_book list \<Rightarrow> nat \<Rightarrow> seed_book" where
  "build_book bases index =
     (let base = bases ! (index mod length bases); round = index div length bases in
      \<lparr>bb_title = (if round = 0 then bb_title base
         else bb_title base @ points '' - Special Edition '' @ points (nat_string (round + 1))),
       bb_title_vi = (if round = 0 then bb_title_vi base
         else Some ((case bb_title_vi base of None \<Rightarrow> bb_title base | Some t \<Rightarrow> t) @ special_edition_vi (round + 1))),
       bb_author = bb_author base, bb_publisher = bb_publisher base,
       bb_publication_year = min 2026 (max 1950 (bb_publication_year base + int (round mod 3))),
       bb_page_count = bb_page_count base + int round * 8,
       bb_category_slugs = bb_category_slugs base,
       bb_price_vnd = to_rounded_vnd (js_mul (bb_price_vnd base) (js_add 1 (js_mul (of_nat round) (f64 (4 / 100))))),
       bb_description_vi = bb_description_vi base, bb_description_en = bb_description_en base,
       sb_isbn13 = isbn13_from_seed (100000000 + index + 1)\<rparr>)"

definition build_books :: "base_book list \<Rightarrow> seed_book list" where
  "build_books bases = map (build_book bases) [0..<BOOK_COUNT]"

definition cover_image_url_for_book :: "nat \<Rightarrow> string \<Rightarrow> string" where
  "cover_image_url_for_book index isbn13 =
     ''https://picsum.photos/seed/book-'' @ nat_string index @ ''-'' @ isbn13 @ ''/720/1080''"

definition is_book_active :: "nat \<Rightarrow> bool" where
  "is_book_active i \<longleftrightarrow> i mod 13 \<noteq> 0"

definition formats_for_book :: "nat \<Rightarrow> book_format list" where
  "formats_for_book i =
     (if \<not> is_book_active i then []
      else if i mod 11 = 0 then [PAPERBACK]
      else if i mod 7 = 0 then [HARDCOVER, AUDIOBOOK]
      else if i mod 5 = 0 then [PAPERBACK, HARDCOVER, EBOOK]
      else if i mod 4 = 0 then [PAPERBACK, EBOOK]
      else if i mod 3 = 0 then [PAPERBACK, HARDCOVER]
      else [PAPERBACK])"

definition badge_for_book :: "nat \<Rightarrow> badge option" where
  "badge_for_book i =
     (let m = i mod 10 in
      if m = 0 then Some Badge_BESTSELLER
      else if m = 1 then Some Badge_NEW
      else if m = 2 then Some Badge_LIMITED
      else if m = 3 then Some Badge_EDITION
      else None)"

definition price_for_format :: "rat \<Rightarrow> book_format \<Rightarrow> rat" where
  "price_for_format base_price format =
     to_rounded_vnd (js_mul base_price
       (case format of HARDCOVER \<Rightarrow> f64 (135 / 100) | EBOOK \<Rightarrow> f64 (65 / 100) | AUDIOBOOK \<Rightarrow> f64 (11 / 10) | PAPERBACK \<Rightarrow> 1))"

section \<open>Plans\<close>

datatype procurement_plan =
    Plan_DRAFT
  | Plan_PO_PENDING
  | Plan_PO_APPROVED_WAITING_PROCESS
  | Plan_PROCESSING_IMPORT
  | Plan_IMPORTED_WAITING_PRICE
  | Plan_SELLABLE_SINGLE_BATCH
  | Plan_SELLABLE_MULTI_BATCH
  | Plan_DIGITAL_DRAFT
  | Plan_DIGITAL_SELLABLE

definition is_digital :: "book_format \<Rightarrow> bool" where
  "is_digital format \<longleftrightarrow> format = EBOOK \<or> format = AUDIOBOOK"

definition plan_for_variant :: "nat \<Rightarrow> nat \<Rightarrow> book_format \<Rightarrow> procurement_plan" where
  "plan_for_variant book_index variant_index format =
     (if is_digital format then (if book_index mod 6 = 0 then Plan_DIGITAL_DRAFT else Plan_DIGITAL_SELLABLE)
      else if \<not> is_book_active book_index then Plan_DRAFT
      else let m = (book_index + variant_index) mod 12 in
        if m = 0 then Plan_DRAFT
        else if m = 1 \<or> m = 2 then Plan_PO_PENDING
        else if m = 3 then Plan_PO_APPROVED_WAITING_PROCESS
        else if m = 4 then Plan_PROCESSING_IMPORT
        else if m = 5 \<or> m = 6 then Plan_IMPORTED_WAITING_PRICE
        else if m = 7 then Plan_SELLABLE_MULTI_BATCH
        else Plan_SELLABLE_SINGLE_BATCH)"

record seeded_variant =
  sbv_id :: int
  sbv_book_id :: int
  sbv_format :: book_format
  sbv_isbn :: string
  sbv_is_digital :: bool
  sbv_planned_sell_price :: rat
  sbv_plan :: procurement_plan

text \<open>The draft of one variant: found by book, format and first edition, whatever it was before.\<close>

definition draft_variant :: "string \<Rightarrow> int \<Rightarrow> variant_row \<Rightarrow> variant_row" where
  "draft_variant isbn year v = v\<lparr>bv_isbn := isbn, bv_price := None, bv_currency := VND, bv_stock := 0, bv_available := 0,
     bv_reserved := 0, bv_is_active := False, bv_supplier_id := None, bv_publication_year := Some year\<rparr>"

definition upsert_seed_variant :: "int \<Rightarrow> book_format \<Rightarrow> string \<Rightarrow> int \<Rightarrow> variant_row action" where
  "upsert_seed_variant book format isbn year d =
     (case find_row (\<lambda>v. bv_book_id v = book \<and> bv_format v = format \<and> bv_edition v = 1) (variants d) of
        Some v \<Rightarrow>
          if \<exists>x\<in>set (rows (variants d)). bv_isbn x = isbn \<and> bv_id x \<noteq> bv_id v then (Inl P2002, d)
          else (Inr (draft_variant isbn year v),
                d\<lparr>variants := map_rows (\<lambda>x. bv_id x = bv_id v) (draft_variant isbn year) (variants d)\<rparr>)
      | None \<Rightarrow>
          if \<exists>x\<in>set (rows (variants d)). bv_isbn x = isbn then (Inl P2002, d)
          else if find_row (\<lambda>b. bk_id b = book) (books d) = None then (Inl P2003, d)
          else let mk = (\<lambda>i. \<lparr>bv_id = i, bv_book_id = book, bv_format = format, bv_isbn = isbn, bv_price = None, bv_currency = VND,
                 bv_stock = 0, bv_available = 0, bv_is_active = False, bv_reserved = 0, bv_edition = 1,
                 bv_publication_year = Some year, bv_supplier_id = None\<rparr>)
               in (Inr (mk (serial (variants d))), d\<lparr>variants := insert_row mk (variants d)\<rparr>))"

definition seed_variant :: "int \<Rightarrow> seed_book \<Rightarrow> nat \<Rightarrow> nat \<times> book_format \<Rightarrow> seeded_variant action" where
  "seed_variant book_id book index = (\<lambda>(variant_index, format) d.
     await (upsert_seed_variant book_id format (make_variant_isbn (sb_isbn13 book) index variant_index)
              (bb_publication_year book) d)
       (\<lambda>v. ret \<lparr>sbv_id = bv_id v, sbv_book_id = bv_book_id v, sbv_format = bv_format v, sbv_isbn = bv_isbn v,
          sbv_is_digital = is_digital format, sbv_planned_sell_price = price_for_format (bb_price_vnd book) format,
          sbv_plan = plan_for_variant index variant_index format\<rparr>))"

section \<open>Procurement\<close>

text \<open>What the script passes along: the suppliers, the acting users and the clock; and the texts of its notes, outside ASCII.\<close>

record seed_actors =
  sa_suppliers :: "int list"
  sa_staff :: int
  sa_admin :: int
  sa_warehouse :: int
  sa_now :: int
  sa_order_note :: "int \<Rightarrow> nat \<Rightarrow> nat \<Rightarrow> string"
  sa_import_note :: "int \<Rightarrow> int \<Rightarrow> int \<Rightarrow> string"

definition seed_order_code :: "int \<Rightarrow> nat \<Rightarrow> string" where
  "seed_order_code variant batch =
     ''SEED-PO-'' @ pad_start 6 (CHR ''0'') (int_string variant) @ ''-'' @ nat_string (batch + 1)"

definition upsert_seed_order :: "seed_actors \<Rightarrow> string \<Rightarrow> int \<Rightarrow> string \<Rightarrow> rat \<Rightarrow> int action" where
  "upsert_seed_order sa code supplier note amount d =
     (if supplier_of d supplier = None \<or> user_of d (sa_staff sa) = None then (Inl P2003, d)
      else case find_row (\<lambda>p. po_code p = code) (purchase_orders d) of
        Some p \<Rightarrow>
          (Inr (po_id p), d\<lparr>purchase_orders := map_rows (\<lambda>x. po_id x = po_id p)
             (\<lambda>x. x\<lparr>po_supplier_id := supplier, po_created_by := sa_staff sa, po_approved_by := None, po_status := PO_PENDING,
                po_status_transfer := Transfer_PENDING, po_note := Some note, po_total_amount := store_decimal amount,
                po_real_pay_price := None, po_tax_amount := 0, po_approved_at := None, po_update_transfer_id := None\<rparr>)
             (purchase_orders d)\<rparr>)
      | None \<Rightarrow>
          (Inr (serial (purchase_orders d)), d\<lparr>purchase_orders := insert_row (\<lambda>i.
             \<lparr>po_id = i, po_code = code, po_supplier_id = supplier, po_created_by = sa_staff sa, po_approved_by = None,
              po_status = PO_PENDING, po_status_transfer = Transfer_PENDING, po_note = Some note,
              po_total_amount = store_decimal amount, po_real_pay_price = None, po_tax_amount = 0, po_approved_at = None,
              po_created_at = sa_now sa, po_update_transfer_id = None\<rparr>) (purchase_orders d)\<rparr>))"

definition update_seed_order :: "int \<Rightarrow> (purchase_order_row \<Rightarrow> purchase_order_row) \<Rightarrow> unit action" where
  "update_seed_order order f d =
     (if find_purchase_order d order = None then (Inl P2025, d)
      else (Inr (), d\<lparr>purchase_orders := map_rows (\<lambda>p. po_id p = order) f (purchase_orders d)\<rparr>))"

definition create_seed_order_item :: "seed_actors \<Rightarrow> int \<Rightarrow> int \<Rightarrow> int \<Rightarrow> rat \<Rightarrow> rat \<Rightarrow> int \<Rightarrow> rat \<Rightarrow> int action" where
  "create_seed_order_item sa order variant quantity unit net percent amount d =
     (if variant_of d variant = None then (Inl P2003, d)
      else (Inr (serial (purchase_order_items d)), d\<lparr>purchase_order_items := insert_row (\<lambda>i.
        \<lparr>poi_id = i, poi_purchase_order_id = order, poi_variant_id = variant, poi_quantity = quantity,
         poi_unit_price = store_decimal unit, poi_price = store_decimal net, poi_discount_price = of_int percent,
         poi_total_price = store_decimal amount, poi_created_at = sa_now sa\<rparr>) (purchase_order_items d)\<rparr>))"

text \<open>The old import of the order goes with its items; the new one is created together with its only item.\<close>

definition replace_stock_import :: "seed_actors \<Rightarrow> int \<Rightarrow> int \<Rightarrow> string \<Rightarrow> int \<Rightarrow> int \<Rightarrow> rat \<Rightarrow> unit action" where
  "replace_stock_import sa order item note came lack amount d0 =
     (let d = (case find_stock_import d0 order of
                 None \<Rightarrow> d0
               | Some s \<Rightarrow> d0\<lparr>stock_imports := delete_rows (\<lambda>x. si_id x = si_id s) (stock_imports d0),
                   stock_import_items := delete_rows (\<lambda>x. sii_stock_import_id x = si_id s) (stock_import_items d0)\<rparr>);
          i = serial (stock_imports d) in
      if find_purchase_order d order = None \<or> user_of d (sa_warehouse sa) = None then (Inl P2003, d)
      else (Inr (), d\<lparr>stock_imports := insert_row (\<lambda>i. \<lparr>si_id = i, si_purchase_order_id = order,
                 si_created_by = sa_warehouse sa, si_created_at = sa_now sa, si_note = Some note,
                 si_total_amount = store_decimal amount\<rparr>) (stock_imports d),
               stock_import_items := insert_row (\<lambda>k. \<lparr>sii_id = k, sii_stock_import_id = i, sii_purchase_order_item_id = item,
                 sii_real_quantity = came, sii_lack_quantity = lack, sii_total_price = store_decimal amount\<rparr>)
                 (stock_import_items d)\<rparr>))"

definition batch_count :: "procurement_plan \<Rightarrow> nat" where
  "batch_count plan = (if plan = Plan_SELLABLE_MULTI_BATCH then 2 else 1)"

text \<open>Of ninety batches ten are short, by a twentieth and at least by one copy.\<close>

definition lack_quantity_of :: "int \<Rightarrow> int \<Rightarrow> int" where
  "lack_quantity_of seed quantity =
     (if seed mod 9 = 0 then js_max 1 (js_round (js_mul (of_int quantity) (f64 (5 / 100)))) else 0)"

text \<open>One batch: the copies that arrived, or nothing where the plan stops before the import.\<close>

definition run_batch :: "seed_actors \<Rightarrow> seeded_variant \<Rightarrow> nat \<Rightarrow> int option action" where
  "run_batch sa v batch d =
     (let plan = sbv_plan v; id = sbv_id v; last = (batch = batch_count plan - 1);
          supplier = sa_suppliers sa ! (nat (id + int batch * 5) mod length (sa_suppliers sa));
          quantity = physical_stock_for_book (id + int batch * 7);
          unit = sbv_planned_sell_price v;
          percent = discount_percent_for_batch (id + int batch * 3);
          net = to_rounded_vnd (js_mul unit (js_sub 1 (js_div (of_int percent) 100)));
          amount = to_money (js_mul net (of_int quantity)) in
      await (upsert_seed_order sa (seed_order_code id batch) supplier (sa_order_note sa id batch (batch_count plan)) amount d) (\<lambda>order d.
      await (create_seed_order_item sa order id quantity unit net percent amount
               (d\<lparr>purchase_order_items := delete_rows (\<lambda>x. poi_purchase_order_id x = order) (purchase_order_items d)\<rparr>)) (\<lambda>item d.
        if plan = Plan_PO_PENDING \<and> last then (Inr None, d)
        else await (update_seed_order order (\<lambda>p. p\<lparr>po_status := PO_APPROVED, po_approved_by := Some (sa_admin sa),
                      po_approved_at := Some (sa_now sa), po_status_transfer := Transfer_PENDING,
                      po_update_transfer_id := Some (sa_admin sa)\<rparr>) d) (\<lambda>_ d.
        if plan = Plan_PO_APPROVED_WAITING_PROCESS \<and> last then (Inr None, d)
        else await (update_seed_order order (\<lambda>p. p\<lparr>po_status_transfer := Transfer_PROCESSING,
                      po_update_transfer_id := Some (sa_warehouse sa)\<rparr>) d) (\<lambda>_ d.
        if plan = Plan_PROCESSING_IMPORT \<and> last then (Inr None, d)
        else let lack = lack_quantity_of (id + int batch) quantity;
                 came = js_max 0 (quantity - lack);
                 real_amount = to_money (js_mul net (of_int came)) in
          await (replace_stock_import sa order item (sa_import_note sa quantity lack came) came lack real_amount d) (\<lambda>_ d.
          await (update_seed_order order (\<lambda>p. p\<lparr>po_status_transfer := Transfer_PURCHASE,
                   po_real_pay_price := Some (store_decimal real_amount), po_update_transfer_id := Some (sa_warehouse sa)\<rparr>) d)
            (\<lambda>_. ret (Some came))))))))"

primrec run_batches :: "seed_actors \<Rightarrow> seeded_variant \<Rightarrow> nat list \<Rightarrow> int list action" where
  "run_batches sa v [] d = (Inr [], d)"
| "run_batches sa v (b # bs) d =
     await (run_batch sa v b d) (\<lambda>x d. await (run_batches sa v bs d) (\<lambda>xs.
       ret (case x of None \<Rightarrow> xs | Some n \<Rightarrow> n # xs)))"

definition update_seed_variant :: "int \<Rightarrow> (variant_row \<Rightarrow> variant_row) \<Rightarrow> unit action" where
  "update_seed_variant i f d =
     (if variant_of d i = None then (Inl P2025, d)
      else (Inr (), d\<lparr>variants := map_rows (\<lambda>v. bv_id v = i) f (variants d)\<rparr>))"

definition run_physical_procurement :: "seed_actors \<Rightarrow> seeded_variant \<Rightarrow> unit action" where
  "run_physical_procurement sa v d =
     (let plan = sbv_plan v; id = sbv_id v; batches = batch_count plan;
          supplier = sa_suppliers sa ! (nat (id + int (batches - 1) * 5) mod length (sa_suppliers sa)) in
      await (run_batches sa v [0..<batches] d) (\<lambda>imported d.
        let amount = sum_list imported in
        if imported = []
        then update_seed_variant id (\<lambda>r. r\<lparr>bv_supplier_id := Some supplier, bv_price := None, bv_stock := 0, bv_reserved := 0,
               bv_available := 0, bv_is_active := False\<rparr>) d
        else if plan = Plan_IMPORTED_WAITING_PRICE
        then update_seed_variant id (\<lambda>r. r\<lparr>bv_supplier_id := Some supplier, bv_price := None, bv_stock := amount, bv_reserved := 0,
               bv_available := amount, bv_is_active := False\<rparr>) d
        else update_seed_variant id (\<lambda>r. r\<lparr>bv_supplier_id := Some supplier,
               bv_price := Some (store_decimal (sbv_planned_sell_price v)), bv_stock := amount, bv_reserved := 0,
               bv_available := amount, bv_is_active := True\<rparr>) d))"

text \<open>A digital variant is given its price and a stock of 9999.\<close>

definition run_digital_activation :: "seeded_variant \<Rightarrow> unit action" where
  "run_digital_activation v = update_seed_variant (sbv_id v) (\<lambda>r. r\<lparr>bv_price := Some (store_decimal (sbv_planned_sell_price v)),
     bv_currency := VND, bv_stock := 9999, bv_available := 9999, bv_reserved := 0, bv_is_active := True\<rparr>)"

definition procure_variant :: "seed_actors \<Rightarrow> seeded_variant \<Rightarrow> unit action" where
  "procure_variant sa v d =
     (if sbv_plan v = Plan_DRAFT \<or> sbv_plan v = Plan_DIGITAL_DRAFT then (Inr (), d)
      else if sbv_plan v = Plan_DIGITAL_SELLABLE then run_digital_activation v d
      else run_physical_procurement sa v d)"

definition seed_procurement_for_variants :: "seed_actors \<Rightarrow> seeded_variant list \<Rightarrow> unit action" where
  "seed_procurement_for_variants sa vs d =
     (if sa_suppliers sa = [] then (Inl (JsError ''Missing supplier seed''), d) else for_of (procure_variant sa) vs d)"

section \<open>Snapshots\<close>

definition seed_snapshot_hash :: "variant_row \<Rightarrow> string" where
  "seed_snapshot_hash v = ''seed-snapshot-'' @ int_string (bv_id v) @ ''-'' @ number_string (number_of_decimal (bv_price v))"

definition upsert_seed_snapshot :: "variant_row \<Rightarrow> unit action" where
  "upsert_seed_snapshot v d =
     (let row = (\<lambda>i. \<lparr>bvs_id = i, bvs_variant_id = bv_id v, bvs_content_hash = Some (seed_snapshot_hash v),
            bvs_price = store_decimal (number_of_decimal (bv_price v)), bvs_format = bv_format v, bvs_isbn = Some (bv_isbn v)\<rparr>) in
      case find_row (\<lambda>s. bvs_content_hash s = Some (seed_snapshot_hash v)) (snapshots d) of
        Some s \<Rightarrow> (Inr (), d\<lparr>snapshots := map_rows (\<lambda>x. bvs_id x = bvs_id s) (\<lambda>x. row (bvs_id x)) (snapshots d)\<rparr>)
      | None \<Rightarrow> (Inr (), d\<lparr>snapshots := insert_row row (snapshots d)\<rparr>))"

definition upsert_variant_snapshots :: "seeded_variant list \<Rightarrow> int action" where
  "upsert_variant_snapshots vs d =
     (let sellable = select_rows (\<lambda>r. bv_id r \<in> set (map sbv_id vs) \<and> bv_price r \<noteq> None \<and> bv_is_active r) (variants d)
      in await (for_of upsert_seed_snapshot sellable d) (\<lambda>_. ret (int (length sellable))))"

section \<open>Lemmas: padded numbers and ISBNs\<close>

lemma length_nat_string: "n < 10 ^ k \<Longrightarrow> 0 < k \<Longrightarrow> length (nat_string n) \<le> k"
proof (induction n arbitrary: k rule: nat_string.induct)
  case (1 n)
  show ?case
  proof (cases "n < 10")
    case True
    with 1(3) show ?thesis by (simp add: nat_string.simps [of n])
  next
    case False
    with 1(2,3) obtain j where j: "k = Suc j" "0 < j" by (cases k; cases "k = 1") auto
    with 1(2) have "n div 10 < 10 ^ j" by (simp add: less_mult_imp_div_less mult.commute)
    from 1(1) [OF False this j(2)] j(1) False show ?thesis by (simp add: nat_string.simps [of n])
  qed
qed

lemma digits_value_zeros: "digits_value (replicate m (CHR ''0'') @ s) = digits_value s"
proof -
  have "digit_value (CHR ''0'') = 0" by code_simp
  then have "foldl (\<lambda>a c. a * 10 + digit_value c) 0 (replicate m (CHR ''0'')) = 0" by (induction m) simp_all
  then show ?thesis by (simp add: digits_value_def)
qed

lemma pad_start_inject:
  assumes "pad_start k (CHR ''0'') (nat_string m) = pad_start k (CHR ''0'') (nat_string n)"
  shows "m = n"
  using arg_cong [OF assms, of digits_value]
  by (simp add: pad_start_def digits_value_zeros digits_value_nat_string)

lemma zero_digit: "is_digit (CHR ''0'')"
  by code_simp

lemma pad_start_digits: "c \<in> set (pad_start k (CHR ''0'') (nat_string n)) \<Longrightarrow> is_digit c"
  using nat_string_digits zero_digit by (auto simp: pad_start_def)

lemma small_int_string: "0 \<le> c \<Longrightarrow> c < 10 \<Longrightarrow> int_string c = [digit_char (nat c)]"
  by (simp add: int_string_def nat_string.simps [of "nat c"])

text \<open>The body of an ISBN is fixed by the number, and the check digit completes the weighted sum to a multiple of ten.\<close>

definition isbn_body :: "nat \<Rightarrow> string" where
  "isbn_body n = (let padded = pad_start 9 (CHR ''0'') (nat_string n) in ''979'' @ drop (length padded - 9) padded)"

lemma isbn_body_facts: "length (isbn_body n) = 12" "c \<in> set (isbn_body n) \<Longrightarrow> is_digit c"
proof -
  show "length (isbn_body n) = 12" by (simp add: isbn_body_def Let_def length_pad_start)
  have "is_digit (CHR ''9'') \<and> is_digit (CHR ''7'')" by code_simp
  moreover have "set (drop j xs) \<subseteq> set xs" for j and xs :: string by (rule set_drop_subset)
  ultimately show "is_digit c" if "c \<in> set (isbn_body n)"
    using that pad_start_digits [of c 9 n] by (auto simp: isbn_body_def Let_def dest: subsetD)
qed

lemma isbn_body_inject:
  assumes "isbn_body m = isbn_body n" and "m < 10 ^ 9" and "n < 10 ^ 9"
  shows "m = n"
proof -
  have "length (pad_start 9 (CHR ''0'') (nat_string k)) = 9" if "k < 10 ^ 9" for k
    using length_nat_string [OF that] by (simp add: length_pad_start)
  with assms have "pad_start 9 (CHR ''0'') (nat_string m) = pad_start 9 (CHR ''0'') (nat_string n)" by (simp add: isbn_body_def)
  then show ?thesis by (rule pad_start_inject)
qed

lemma isbn13_from_seed_body:
  obtains c where "isbn13_from_seed n = isbn_body n @ [c]" and "is_digit c"
    and "(isbn_sum digit_value isbn13_weight (isbn_body n) + digit_value c) mod 10 = 0"
proof -
  let ?sum = "isbn_sum digit_value isbn13_weight (isbn_body n)"
  let ?check = "(10 - ?sum mod 10) mod 10"
  have "isbn13_from_seed n = isbn_body n @ int_string ?check"
    by (simp add: isbn13_from_seed_def isbn_body_def isbn_sum_def isbn13_weight_def Let_def if_distrib cong: if_cong)
  moreover have "0 \<le> ?check" "?check < 10" by simp_all
  moreover from this have "nat ?check < 10" by linarith
  moreover have "(?sum + ?check) mod 10 = 0" by presburger
  ultimately show thesis by (intro that [of "digit_char (nat ?check)"]) (simp_all add: small_int_string)
qed

lemma isbn_sum_snoc: "isbn_sum value weight (s @ [c]) = isbn_sum value weight s + value c * weight (length s)"
  by (simp add: isbn_sum_def)

lemma isbn13_valid: "validate_isbn (isbn13_from_seed n)"
proof -
  obtain c where isbn: "isbn13_from_seed n = isbn_body n @ [c]" and c: "is_digit c"
    and check: "(isbn_sum digit_value isbn13_weight (isbn_body n) + digit_value c) mod 10 = 0"
    by (rule isbn13_from_seed_body)
  have digits: "\<forall>x\<in>set (isbn_body n @ [c]). is_digit x" using isbn_body_facts(2) c by auto
  have "\<not> is_digit (CHR ''-'')" "\<not> is_digit (CHR '' '')" by code_simp+
  with digits have "clean_isbn (isbn_body n @ [c]) = isbn_body n @ [c]"
    by (auto simp: clean_isbn_def filter_id_conv)
  with digits check show ?thesis
    by (simp add: validate_isbn_def isbn isbn_body_facts(1) isbn_sum_snoc isbn13_weight_def)
qed

lemma isbn13_inject:
  assumes "isbn13_from_seed m = isbn13_from_seed n" and "m < 10 ^ 9" and "n < 10 ^ 9"
  shows "m = n"
proof -
  obtain a b where "isbn13_from_seed m = isbn_body m @ [a]" "isbn13_from_seed n = isbn_body n @ [b]"
    by (metis isbn13_from_seed_body)
  with assms show ?thesis by (auto intro: isbn_body_inject)
qed

section \<open>Properties\<close>

lemma formats_at_most_three: "length (formats_for_book i) \<le> 3"
  by (simp add: formats_for_book_def)

lemma seeded_isbn_number:
  obtains n where "make_variant_isbn (sb_isbn13 (build_book bases i)) i v = isbn13_from_seed n"
    and "n = (if v = 0 then 100000001 + i else 900000000 + i * 10 + v)"
  by (simp add: make_variant_isbn_def build_book_def Let_def)

text \<open>C40: the seed numbers every variant of its two hundred books with a valid ISBN-13, and no two variants with the same.\<close>
lemma seeded_isbns_are_accepted:
  assumes "i < BOOK_COUNT" and "j < BOOK_COUNT" and "v < length (formats_for_book i)" and "w < length (formats_for_book j)"
  shows "validate_isbn (make_variant_isbn (sb_isbn13 (build_book bases i)) i v)
    \<and> (make_variant_isbn (sb_isbn13 (build_book bases i)) i v = make_variant_isbn (sb_isbn13 (build_book bases j)) j w
        \<longleftrightarrow> i = j \<and> v = w)"
proof -
  have small: "i < 200" "j < 200" "v < 10" "w < 10"
    using assms formats_at_most_three [of i] formats_at_most_three [of j] by (simp_all add: BOOK_COUNT_def)
  obtain m n where m: "make_variant_isbn (sb_isbn13 (build_book bases i)) i v = isbn13_from_seed m"
      "m = (if v = 0 then 100000001 + i else 900000000 + i * 10 + v)"
    and n: "make_variant_isbn (sb_isbn13 (build_book bases j)) j w = isbn13_from_seed n"
      "n = (if w = 0 then 100000001 + j else 900000000 + j * 10 + w)"
    by (metis seeded_isbn_number)
  have "m < 10 ^ 9" "n < 10 ^ 9" using small by (simp_all add: m(2) n(2))
  then have "isbn13_from_seed m = isbn13_from_seed n \<longleftrightarrow> m = n" using isbn13_inject by blast
  moreover have "m = n \<longleftrightarrow> i = j \<and> v = w" using small by (auto simp: m(2) n(2)) presburger+
  ultimately show ?thesis unfolding m(1) n(1) using isbn13_valid by blast
qed

lemma seeded_isbns_are_accepted_witness:
  "validate_isbn (make_variant_isbn (sb_isbn13 (build_book [] 5)) 5 2)
    \<and> (make_variant_isbn (sb_isbn13 (build_book [] 5)) 5 2 = make_variant_isbn (sb_isbn13 (build_book [] 7)) 7 0 \<longleftrightarrow> (5::nat) = 7 \<and> (2::nat) = 0)"
  using seeded_isbns_are_accepted [of 5 7 2 0 "[]"] by (simp add: BOOK_COUNT_def formats_for_book_def is_book_active_def)

end
