(* ===== verification/Seed_Booking.thy ===== *)
theory Seed_Booking
  imports Seed_Stock
begin

text \<open>
  What the procurement of the seed leaves behind (\<open>runPhysicalProcurement\<close> and \<open>seedProcurementForVariants\<close> of
  \<open>src/prisma/seed.ts\<close>): the effect of one batch on orders, imports and received copies, of all batches of a
  variant, and of the whole loop, as equations on the state; and the property that the stock of every variant is what
  its imports received.
\<close>

section \<open>Lemmas: one batch\<close>

lemma map_inserted:
  assumes "wf_table key t" and "\<And>i. key (mk i) = i"
  shows "map_rows (\<lambda>r. key r = serial t) f (insert_row mk t) = insert_row (\<lambda>i. f (mk i)) t"
proof -
  have "map (\<lambda>r. if key r = serial t then f r else r) (rows t) = rows t"
    using assms(1) by (intro map_idI) (auto simp: wf_table_def)
  then show ?thesis by (simp add: map_rows_def insert_row_def assms(2))
qed

lemma scale2_power: "scale2 e = 2 powi e"
  by (simp add: scale2_def power_int_def power_one_over inverse_eq_divide)

lemma scale2_diff: "scale2 (int m - int n) = 2 ^ m / 2 ^ n"
  unfolding scale2_power by (subst power_int_diff) simp_all

lemma round_half_even_upper: "of_int (round_half_even y) \<le> y + 1 / 2"
  by (simp add: round_half_even_def Let_def) linarith

lemma round_half_even_nonneg: "0 \<le> y \<Longrightarrow> 0 \<le> round_half_even y"
  by (simp add: round_half_even_def Let_def)

text \<open>A double of a positive number is not negative and at most twice the number.\<close>

lemma f64_bounds:
  assumes "0 < x"
  shows "0 \<le> f64 x" and "f64 x \<le> 2 * x"
proof -
  obtain n d where q: "quotient_of x = (n, d)" by (cases "quotient_of x")
  then have d: "0 < d" and x: "x = of_int n / of_int d"
    by (auto intro: quotient_of_denom_pos quotient_of_div)
  with assms have n: "0 < n" by (simp add: zero_less_divide_iff)
  define N D where ND: "N = nat \<bar>n\<bar>" "D = nat d"
  define a b where ab: "a = bit_length N" "b = bit_length D"
  define e where e_def: "e = ulp_exponent N D"
  have e: "e \<le> int a - int b - 1" unfolding e_def ulp_exponent_def Let_def ab by (simp del: bit_length.simps)
  have "0 < N" using n by (simp add: ND)
  with bit_length_bounds [of N] have N: "2 ^ (a - 1) \<le> N" "N < 2 ^ a" unfolding ab by blast+
  have D: "D < 2 ^ b" using bit_length_bounds [of D] unfolding ab by blast
  have a: "0 < a" using \<open>0 < N\<close> N(2) by (cases a) simp_all
  have "scale2 e \<le> scale2 (int a - int b - 1)" using e by (simp add: scale2_power power_int_increasing)
  also have "\<dots> = 2 ^ (a - 1) / 2 ^ b" using a scale2_diff [of "a - 1" b] by (simp add: of_nat_diff algebra_simps)
  also have "\<dots> \<le> of_nat N / of_nat D"
  proof (rule frac_le)
    show "(2 :: rat) ^ (a - 1) \<le> of_nat N" using N(1) of_nat_le_iff [where 'a = rat, of "2 ^ (a - 1)" N] by simp
    show "of_nat D \<le> (2 :: rat) ^ b" using D of_nat_le_iff [where 'a = rat, of D "2 ^ b"] by simp
  qed (use d ND in simp_all)
  also have "\<dots> = x" using n d x ND by simp
  finally have small: "scale2 e \<le> x" .
  have pos: "0 < scale2 e" by (simp add: scale2_power)
  have f: "f64 x = of_int (round_half_even (x / scale2 e)) * scale2 e"
    unfolding f64_def q Let_def e_def ND using assms by (simp del: bit_length.simps)
  show "0 \<le> f64 x" unfolding f using assms pos by (simp add: round_half_even_nonneg)
  have "f64 x \<le> (x / scale2 e + 1 / 2) * scale2 e"
    unfolding f using pos by (intro mult_right_mono round_half_even_upper) simp
  also have "\<dots> = x + scale2 e / 2" using pos by (simp add: distrib_right)
  finally show "f64 x \<le> 2 * x" using small assms by linarith
qed
lemma short_by_less:
  assumes "10 \<le> q"
  shows "js_max 1 (js_round (js_mul (of_int q) (f64 (5 / 100)))) < q"
proof -
  have f: "0 \<le> f64 (5 / 100)" "f64 (5 / 100) \<le> 2 * (5 / 100)" by (intro f64_bounds; simp)+
  let ?x = "of_int q * f64 (5 / 100)"
  have x: "?x \<le> of_int q * (2 * (5 / 100))" "0 \<le> ?x" using f assms by (intro mult_left_mono mult_nonneg_nonneg; simp)+
  have "f64 ?x \<le> 2 * (of_int q * (2 * (5 / 100)))"
  proof (cases "?x = 0")
    case True
    then show ?thesis using assms by (simp add: f64_def)
  next
    case False
    with x f64_bounds(2) [of ?x] show ?thesis by linarith
  qed
  moreover have "(10 :: rat) \<le> of_int q" using assms by linarith
  ultimately have "f64 ?x + 1 / 2 < of_int q" by linarith
  then have "js_round (f64 ?x) < q" by (simp add: js_round_def) linarith
  with assms show ?thesis by (simp add: js_max_def js_mul_def)
qed
lemma stock_choice: "physical_stock_for_book n \<in> {10, 20, 35, 50, 75, 100, 120, 150, 180, 200}"
proof -
  let ?stocks = "[10, 20, 35, 50, 75, 100, 120, 150, 180, 200 :: int]"
  have "?stocks ! (nat \<bar>n\<bar> mod length ?stocks) \<in> set ?stocks" by (rule nth_mem) simp
  then show ?thesis by (simp only: physical_stock_for_book_def Let_def) simp
qed

lemma lack_bounds:
  assumes "10 \<le> q"
  shows "0 \<le> lack_quantity_of s q" and "lack_quantity_of s q < q"
  using short_by_less [OF assms] assms by (auto simp: lack_quantity_of_def js_max_def)

lemma stock_bounds: "10 \<le> physical_stock_for_book n" "physical_stock_for_book n \<le> 200"
  using stock_choice [of n] by auto

text \<open>The copies a batch brings, and whether the plan stops before.\<close>

definition batch_copies :: "int \<Rightarrow> nat \<Rightarrow> int" where
  "batch_copies i b =
     (let q = physical_stock_for_book (i + int b * 7) in q - lack_quantity_of (i + int b) q)"

definition imports_nothing :: "procurement_plan \<Rightarrow> bool" where
  "imports_nothing plan \<longleftrightarrow> plan \<in> {Plan_PO_PENDING, Plan_PO_APPROVED_WAITING_PROCESS, Plan_PROCESSING_IMPORT}"

lemma batch_copies_pos: "0 < batch_copies i b"
  using lack_bounds(2) [OF stock_bounds(1)] by (simp add: batch_copies_def Let_def)

text \<open>Orders, items and imports refer to rows that are there.\<close>

definition books_wf :: "db \<Rightarrow> bool" where
  "books_wf d \<longleftrightarrow> wf_table po_id (purchase_orders d) \<and> wf_table poi_id (purchase_order_items d)
     \<and> (\<forall>x\<in>set (rows (purchase_order_items d)). poi_purchase_order_id x < serial (purchase_orders d))
     \<and> (\<forall>s\<in>set (rows (stock_imports d)). si_purchase_order_id s < serial (purchase_orders d))
     \<and> (\<forall>x\<in>set (rows (stock_import_items d)). sii_purchase_order_item_id x < serial (purchase_order_items d))"

definition actors_known :: "seed_actors \<Rightarrow> db \<Rightarrow> bool" where
  "actors_known sa d \<longleftrightarrow> sa_suppliers sa \<noteq> [] \<and> (\<forall>s\<in>set (sa_suppliers sa). supplier_of d s \<noteq> None)
     \<and> user_of d (sa_staff sa) \<noteq> None \<and> user_of d (sa_warehouse sa) \<noteq> None"

lemma known_supplier: "actors_known sa d \<Longrightarrow> supplier_of d (sa_suppliers sa ! (n mod length (sa_suppliers sa))) \<noteq> None"
  by (auto simp: actors_known_def)

text \<open>The statements of a batch on an order that is not there yet.\<close>

lemma upsert_order_fresh:
  assumes "supplier_of d s \<noteq> None" and "user_of d (sa_staff sa) \<noteq> None"
    and "\<forall>p\<in>set (rows (purchase_orders d)). po_code p \<noteq> code"
  obtains mk where "\<forall>i. po_id (mk i) = i \<and> po_code (mk i) = code"
    and "upsert_seed_order sa code s remark amount d
           = (Inr (serial (purchase_orders d)), d\<lparr>purchase_orders := insert_row mk (purchase_orders d)\<rparr>)"
proof -
  have "find_row (\<lambda>p. po_code p = code) (purchase_orders d) = None" using assms(3) by (simp add: find_row_None)
  with assms(1,2) show thesis
    by (intro that [of "\<lambda>i. \<lparr>po_id = i, po_code = code, po_supplier_id = s, po_created_by = sa_staff sa, po_approved_by = None,
              po_status = PO_PENDING, po_status_transfer = Transfer_PENDING, po_note = Some remark,
              po_total_amount = store_decimal amount, po_real_pay_price = None, po_tax_amount = 0, po_approved_at = None,
              po_created_at = sa_now sa, po_update_transfer_id = None\<rparr>"]) (simp_all add: upsert_seed_order_def)
qed

lemma update_order_fresh:
  assumes "wf_table po_id t" and "\<And>i. po_id (mk i) = i" and "purchase_orders d = insert_row mk t" and "i = serial t"
  shows "update_seed_order i f d = (Inr (), d\<lparr>purchase_orders := insert_row (\<lambda>i. f (mk i)) t\<rparr>)"
proof -
  have "find_purchase_order d i \<noteq> None"
    using assms(2-4) by (auto simp: find_purchase_order_def find_row_None)
  with assms map_inserted [OF assms(1), of mk f] show ?thesis by (simp add: update_seed_order_def)
qed

lemma delete_none: "\<forall>r\<in>set (rows t). \<not> P r \<Longrightarrow> delete_rows P t = t"
  by (simp add: delete_rows_def filter_id_conv)

lemma replace_import_fresh:
  assumes "find_purchase_order d order \<noteq> None" and "user_of d (sa_warehouse sa) \<noteq> None"
    and "\<forall>s\<in>set (rows (stock_imports d)). si_purchase_order_id s \<noteq> order"
  obtains mks mkx where "\<forall>i. si_purchase_order_id (mks i) = order"
    and "\<forall>i. sii_purchase_order_item_id (mkx i) = item \<and> sii_real_quantity (mkx i) = came \<and> sii_lack_quantity (mkx i) = lack"
    and "replace_stock_import sa order item note came lack amount d
           = (Inr (), d\<lparr>stock_imports := insert_row mks (stock_imports d),
                        stock_import_items := insert_row mkx (stock_import_items d)\<rparr>)"
proof -
  have "find_stock_import d order = None" using assms(3) by (simp add: find_stock_import_def find_row_None)
  with assms(1,2) show thesis
    by (intro that [of "\<lambda>i. \<lparr>si_id = i, si_purchase_order_id = order, si_created_by = sa_warehouse sa, si_created_at = sa_now sa,
          si_note = Some note, si_total_amount = store_decimal amount\<rparr>"
        "\<lambda>k. \<lparr>sii_id = k, sii_stock_import_id = serial (stock_imports d), sii_purchase_order_item_id = item,
          sii_real_quantity = came, sii_lack_quantity = lack, sii_total_price = store_decimal amount\<rparr>"])
      (simp_all add: replace_stock_import_def Let_def)
qed

text \<open>The copies of a variant that the stock imports received, and the codes of the orders.\<close>

definition ordered_for :: "db \<Rightarrow> int \<Rightarrow> int \<Rightarrow> bool" where
  "ordered_for d item i \<longleftrightarrow> (\<exists>y\<in>set (rows (purchase_order_items d)). poi_id y = item \<and> poi_variant_id y = i)"

definition received :: "db \<Rightarrow> int \<Rightarrow> int" where
  "received d i = sum_list (map sii_real_quantity
     (filter (\<lambda>x. ordered_for d (sii_purchase_order_item_id x) i) (rows (stock_import_items d))))"

definition order_codes :: "db \<Rightarrow> string list" where
  "order_codes d = map po_code (rows (purchase_orders d))"

text \<open>What an import received and what it found missing make up what was ordered.\<close>

definition imports_balance :: "db \<Rightarrow> bool" where
  "imports_balance d \<longleftrightarrow> (\<forall>x\<in>set (rows (stock_import_items d)). \<exists>y\<in>set (rows (purchase_order_items d)).
     poi_id y = sii_purchase_order_item_id x \<and> sii_real_quantity x + sii_lack_quantity x = poi_quantity y)"

definition with_purchase :: "(int \<Rightarrow> purchase_order_row) \<Rightarrow> (int \<Rightarrow> purchase_order_item_row) \<Rightarrow> db \<Rightarrow> db" where
  "with_purchase mkp mki d = d\<lparr>purchase_orders := insert_row mkp (purchase_orders d),
     purchase_order_items := insert_row mki (purchase_order_items d)\<rparr>"

definition with_import :: "(int \<Rightarrow> stock_import_row) \<Rightarrow> (int \<Rightarrow> stock_import_item_row) \<Rightarrow> db \<Rightarrow> db" where
  "with_import mks mkx d = d\<lparr>stock_imports := insert_row mks (stock_imports d),
     stock_import_items := insert_row mkx (stock_import_items d)\<rparr>"

lemma with_purchase_simps [simp]:
  "purchase_orders (with_purchase mkp mki d) = insert_row mkp (purchase_orders d)"
  "purchase_order_items (with_purchase mkp mki d) = insert_row mki (purchase_order_items d)"
  "stock_imports (with_purchase mkp mki d) = stock_imports d" "stock_import_items (with_purchase mkp mki d) = stock_import_items d"
  "variants (with_purchase mkp mki d) = variants d"
  "users (with_purchase mkp mki d) = users d" "suppliers (with_purchase mkp mki d) = suppliers d"
  by (simp_all add: with_purchase_def)

lemma with_import_simps [simp]:
  "purchase_orders (with_import mks mkx d) = purchase_orders d"
  "purchase_order_items (with_import mks mkx d) = purchase_order_items d"
  "stock_imports (with_import mks mkx d) = insert_row mks (stock_imports d)"
  "stock_import_items (with_import mks mkx d) = insert_row mkx (stock_import_items d)"
  "variants (with_import mks mkx d) = variants d"
  "users (with_import mks mkx d) = users d" "suppliers (with_import mks mkx d) = suppliers d"
  by (simp_all add: with_import_def)

lemma with_purchase_effect:
  assumes "books_wf d" and "\<And>i. po_id (mkp i) = i \<and> po_code (mkp i) = code"
    and "\<And>i. poi_id (mki i) = i \<and> poi_purchase_order_id (mki i) = serial (purchase_orders d) \<and> poi_variant_id (mki i) = v"
  shows "books_wf (with_purchase mkp mki d)" and "order_codes (with_purchase mkp mki d) = order_codes d @ [code]"
    and "received (with_purchase mkp mki d) i = received d i"
    and "imports_balance d \<Longrightarrow> imports_balance (with_purchase mkp mki d)"
proof -
  show "books_wf (with_purchase mkp mki d)" using assms by (force simp: books_wf_def intro!: wf_insert_row)
  show "order_codes (with_purchase mkp mki d) = order_codes d @ [code]" using assms(2) by (simp add: order_codes_def)
  have "ordered_for (with_purchase mkp mki d) (sii_purchase_order_item_id x) i \<longleftrightarrow> ordered_for d (sii_purchase_order_item_id x) i"
    if "x \<in> set (rows (stock_import_items d))" for x
    using that assms by (auto simp: ordered_for_def books_wf_def)
  then show "received (with_purchase mkp mki d) i = received d i" by (simp add: received_def cong: filter_cong)
  show "imports_balance (with_purchase mkp mki d)" if "imports_balance d" using that by (fastforce simp: imports_balance_def)
qed

lemma with_import_effect:
  assumes "books_wf d" and "y \<in> set (rows (purchase_order_items d))"
    and "\<And>i. si_purchase_order_id (mks i) < serial (purchase_orders d)"
    and "\<And>i. sii_purchase_order_item_id (mkx i) = poi_id y \<and> sii_real_quantity (mkx i) = came
           \<and> came + sii_lack_quantity (mkx i) = poi_quantity y"
  shows "books_wf (with_import mks mkx d)" and "order_codes (with_import mks mkx d) = order_codes d"
    and "received (with_import mks mkx d) i = received d i + (if i = poi_variant_id y then came else 0)"
    and "imports_balance d \<Longrightarrow> imports_balance (with_import mks mkx d)"
proof -
  have mkx: "sii_purchase_order_item_id (mkx i) = poi_id y" "sii_real_quantity (mkx i) = came"
    "came + sii_lack_quantity (mkx i) = poi_quantity y" for i using assms(4) [of i] by simp_all
  have "poi_id y < serial (purchase_order_items d)" using assms(1,2) by (simp add: books_wf_def wf_table_def)
  with assms(1,3) show "books_wf (with_import mks mkx d)" by (simp add: books_wf_def mkx(1))
  show "order_codes (with_import mks mkx d) = order_codes d" by (simp add: order_codes_def)
  have wf: "wf_table poi_id (purchase_order_items d)" using assms(1) by (simp add: books_wf_def)
  have same: "x = y" if x: "x \<in> set (rows (purchase_order_items d))" and key: "poi_id x = poi_id y" for x
    using find_row_key [OF wf x, unfolded key] find_row_key [OF wf assms(2)] by (rule trans [OF sym, THEN option.inject [THEN iffD1]])
  have "ordered_for d (poi_id y) i \<longleftrightarrow> i = poi_variant_id y"
    unfolding ordered_for_def using assms(2) same by metis
  moreover have "ordered_for (with_import mks mkx d) k i = ordered_for d k i" for k by (simp add: ordered_for_def)
  ultimately show "received (with_import mks mkx d) i = received d i + (if i = poi_variant_id y then came else 0)"
    by (simp add: received_def mkx(1,2))
  show "imports_balance (with_import mks mkx d)" if "imports_balance d"
  proof -
    have "\<exists>z\<in>set (rows (purchase_order_items d)). poi_id z = sii_purchase_order_item_id (mkx i)
        \<and> sii_real_quantity (mkx i) + sii_lack_quantity (mkx i) = poi_quantity z" for i
      using assms(2) mkx(3) [of i] by (intro bexI [of _ y]) (simp_all add: mkx(1,2))
    with that show ?thesis unfolding imports_balance_def with_import_simps rows_insert_row by simp
  qed
qed

lemma update_with_purchase:
  assumes "wf_table po_id (purchase_orders d)" and "\<forall>i. po_id (mk i) = i"
  shows "update_seed_order (serial (purchase_orders d)) f (with_purchase mk mki d) = (Inr (), with_purchase (\<lambda>i. f (mk i)) mki d)"
    and "update_seed_order (serial (purchase_orders d)) f (with_import mks mkx (with_purchase mk mki d))
      = (Inr (), with_import mks mkx (with_purchase (\<lambda>i. f (mk i)) mki d))"
  using assms update_order_fresh [OF assms(1), of mk "with_purchase mk mki d"]
    update_order_fresh [OF assms(1), of mk "with_import mks mkx (with_purchase mk mki d)"]
  by (simp_all add: with_purchase_def with_import_def)

lemma run_batch_writes:
  assumes "books_wf d" and "actors_known sa d" and "variant_of d (sbv_id v) \<noteq> None"
    and "seed_order_code (sbv_id v) b \<notin> set (order_codes d)" and "b < batch_count (sbv_plan v)"
  obtains mkp mki where
    "\<forall>i. po_id (mkp i) = i \<and> po_code (mkp i) = seed_order_code (sbv_id v) b"
    and "\<forall>i. poi_id (mki i) = i \<and> poi_purchase_order_id (mki i) = serial (purchase_orders d) \<and> poi_variant_id (mki i) = sbv_id v"
    and "\<forall>i. poi_quantity (mki i) = physical_stock_for_book (sbv_id v + int b * 7)"
    and "imports_nothing (sbv_plan v) \<longrightarrow> run_batch sa v b d = (Inr None, with_purchase mkp mki d)"
    and "\<not> imports_nothing (sbv_plan v) \<longrightarrow> (\<exists>mks mkx. (\<forall>i. si_purchase_order_id (mks i) = serial (purchase_orders d))
        \<and> (\<forall>i. sii_purchase_order_item_id (mkx i) = serial (purchase_order_items d) \<and> sii_real_quantity (mkx i) = batch_copies (sbv_id v) b
             \<and> batch_copies (sbv_id v) b + sii_lack_quantity (mkx i) = physical_stock_for_book (sbv_id v + int b * 7))
        \<and> run_batch sa v b d = (Inr (Some (batch_copies (sbv_id v) b)), with_import mks mkx (with_purchase mkp mki d)))"
proof -
  let ?i = "sbv_id v" and ?plan = "sbv_plan v" and ?n = "serial (purchase_orders d)"
  let ?supplier = "sa_suppliers sa ! (nat (?i + int b * 5) mod length (sa_suppliers sa))"
  let ?q = "physical_stock_for_book (?i + int b * 7)" and ?percent = "discount_percent_for_batch (?i + int b * 3)"
  let ?net = "to_rounded_vnd (js_mul (sbv_planned_sell_price v) (js_sub 1 (js_div (of_int ?percent) 100)))"
  let ?amount = "to_money (js_mul ?net (of_int ?q))"
  let ?last = "b = batch_count ?plan - 1"
  let ?lack = "lack_quantity_of (?i + int b) ?q"
  have wf: "wf_table po_id (purchase_orders d)" using assms(1) by (simp add: books_wf_def)
  have staff: "user_of d (sa_staff sa) \<noteq> None" and keeper: "user_of d (sa_warehouse sa) \<noteq> None"
    using assms(2) by (auto simp: actors_known_def)
  have code: "\<forall>p\<in>set (rows (purchase_orders d)). po_code p \<noteq> seed_order_code ?i b" using assms(4) by (force simp: order_codes_def)
  obtain mk where mk: "\<forall>i. po_id (mk i) = i \<and> po_code (mk i) = seed_order_code ?i b"
    and order: "upsert_seed_order sa (seed_order_code ?i b) ?supplier (sa_order_note sa ?i b (batch_count ?plan)) ?amount d
       = (Inr ?n, d\<lparr>purchase_orders := insert_row mk (purchase_orders d)\<rparr>)"
    by (rule upsert_order_fresh [OF known_supplier [OF assms(2), of "nat (?i + int b * 5)"] staff code,
          where remark = "sa_order_note sa ?i b (batch_count ?plan)" and amount = ?amount])
  have none: "delete_rows (\<lambda>x. poi_purchase_order_id x = ?n) (purchase_order_items d) = purchase_order_items d"
    using assms(1) by (intro delete_none) (auto simp: books_wf_def)
  define mki where "mki = (\<lambda>i. \<lparr>poi_id = i, poi_purchase_order_id = ?n, poi_variant_id = ?i, poi_quantity = ?q,
     poi_unit_price = store_decimal (sbv_planned_sell_price v), poi_price = store_decimal ?net, poi_discount_price = of_int ?percent,
     poi_total_price = store_decimal ?amount, poi_created_at = sa_now sa\<rparr>)"
  have item: "create_seed_order_item sa ?n ?i ?q (sbv_planned_sell_price v) ?net ?percent ?amount
      (d\<lparr>purchase_orders := insert_row mk (purchase_orders d)\<rparr>)
      = (Inr (serial (purchase_order_items d)), with_purchase mk mki d)"
    using assms(3) by (simp add: create_seed_order_item_def with_purchase_def mki_def variant_of_def)
  define approve where "approve = (\<lambda>p. p\<lparr>po_status := PO_APPROVED, po_approved_by := Some (sa_admin sa),
     po_approved_at := Some (sa_now sa), po_status_transfer := Transfer_PENDING, po_update_transfer_id := Some (sa_admin sa)\<rparr> :: purchase_order_row)"
  define begin_import where "begin_import = (\<lambda>p. p\<lparr>po_status_transfer := Transfer_PROCESSING,
     po_update_transfer_id := Some (sa_warehouse sa)\<rparr> :: purchase_order_row)"
  let ?started = "with_purchase (\<lambda>i. begin_import (approve (mk i))) mki d"
  note start = order none item Let_def update_with_purchase [OF wf] mk
  have mki: "\<forall>i. poi_id (mki i) = i \<and> poi_purchase_order_id (mki i) = ?n \<and> poi_variant_id (mki i) = ?i"
    "\<forall>i. poi_quantity (mki i) = ?q" by (simp_all add: mki_def)
  have run: "run_batch sa v b d =
     (if ?plan = Plan_PO_PENDING \<and> ?last then (Inr None, with_purchase mk mki d)
      else if ?plan = Plan_PO_APPROVED_WAITING_PROCESS \<and> ?last then (Inr None, with_purchase (\<lambda>i. approve (mk i)) mki d)
      else if ?plan = Plan_PROCESSING_IMPORT \<and> ?last then (Inr None, ?started)
      else await (replace_stock_import sa ?n (serial (purchase_order_items d)) (sa_import_note sa ?q ?lack (js_max 0 (?q - ?lack)))
            (js_max 0 (?q - ?lack)) ?lack (to_money (js_mul ?net (of_int (js_max 0 (?q - ?lack))))) ?started) (\<lambda>_ d.
          await (update_seed_order ?n (\<lambda>p. p\<lparr>po_status_transfer := Transfer_PURCHASE,
              po_real_pay_price := Some (store_decimal (to_money (js_mul ?net (of_int (js_max 0 (?q - ?lack)))))),
              po_update_transfer_id := Some (sa_warehouse sa)\<rparr>) d)
            (\<lambda>_. ret (Some (js_max 0 (?q - ?lack))))))"
    by (simp add: run_batch_def start approve_def begin_import_def split del: if_split cong: if_cong)
  show thesis
  proof (cases "imports_nothing ?plan")
    case True
    with assms(5) have last: "?last" by (auto simp: imports_nothing_def batch_count_def)
    have "\<exists>mkp. (\<forall>i. po_id (mkp i) = i \<and> po_code (mkp i) = seed_order_code ?i b)
        \<and> run_batch sa v b d = (Inr None, with_purchase mkp mki d)"
      using True last mk unfolding run
      by (auto simp: imports_nothing_def approve_def begin_import_def intro: exI [of _ mk]
            exI [of _ "\<lambda>i. approve (mk i)"] exI [of _ "\<lambda>i. begin_import (approve (mk i))"])
    then obtain mkp where mkp: "\<forall>i. po_id (mkp i) = i \<and> po_code (mkp i) = seed_order_code ?i b"
      and finished: "run_batch sa v b d = (Inr None, with_purchase mkp mki d)" by blast
    show thesis by (rule that [OF mkp mki]) (use True finished in simp_all)
  next
    case False
    have came: "js_max 0 (?q - ?lack) = batch_copies ?i b"
      using batch_copies_pos [of ?i b] by (simp add: batch_copies_def js_max_def Let_def)
    let ?real = "to_money (js_mul ?net (of_int (batch_copies ?i b)))"
    have there: "find_purchase_order ?started ?n \<noteq> None"
      using mk by (auto simp: find_purchase_order_def find_row_None approve_def begin_import_def)
    have free: "\<forall>s\<in>set (rows (stock_imports ?started)). si_purchase_order_id s \<noteq> ?n"
      using assms(1) by (auto simp: books_wf_def)
    have keeper2: "user_of ?started (sa_warehouse sa) \<noteq> None" using keeper by (simp add: user_of_def)
    obtain mks mkx where imp: "\<forall>i. si_purchase_order_id (mks i) = ?n"
        "\<forall>i. sii_purchase_order_item_id (mkx i) = serial (purchase_order_items d) \<and> sii_real_quantity (mkx i) = batch_copies ?i b
           \<and> sii_lack_quantity (mkx i) = ?lack"
      and step: "replace_stock_import sa ?n (serial (purchase_order_items d)) (sa_import_note sa ?q ?lack (batch_copies ?i b))
          (batch_copies ?i b) ?lack ?real ?started
        = (Inr (), ?started\<lparr>stock_imports := insert_row mks (stock_imports ?started),
             stock_import_items := insert_row mkx (stock_import_items ?started)\<rparr>)"
      by (rule replace_import_fresh [OF there keeper2 free])
    define pay where "pay = (\<lambda>p. p\<lparr>po_status_transfer := Transfer_PURCHASE, po_real_pay_price := Some (store_decimal ?real),
       po_update_transfer_id := Some (sa_warehouse sa)\<rparr> :: purchase_order_row)"
    have finished: "run_batch sa v b d = (Inr (Some (batch_copies ?i b)),
        with_import mks mkx (with_purchase (\<lambda>i. pay (begin_import (approve (mk i)))) mki d))"
    proof -
      have "run_batch sa v b d = await (replace_stock_import sa ?n (serial (purchase_order_items d))
          (sa_import_note sa ?q ?lack (batch_copies ?i b)) (batch_copies ?i b) ?lack ?real ?started)
          (\<lambda>_ d. await (update_seed_order ?n pay d) (\<lambda>_. ret (Some (batch_copies ?i b))))"
        using False unfolding run came imports_nothing_def pay_def by simp
      also have "\<dots> = await (update_seed_order ?n pay (with_import mks mkx ?started)) (\<lambda>_. ret (Some (batch_copies ?i b)))"
        unfolding step by (simp add: with_import_def)
      also have "\<dots> = (Inr (Some (batch_copies ?i b)),
          with_import mks mkx (with_purchase (\<lambda>i. pay (begin_import (approve (mk i)))) mki d))"
        by (subst update_with_purchase [OF wf]) (simp_all add: mk approve_def begin_import_def ret_def)
      finally show ?thesis .
    qed
    have sum: "batch_copies ?i b + ?lack = ?q" by (simp add: batch_copies_def Let_def)
    have mkp: "\<forall>i. po_id (pay (begin_import (approve (mk i)))) = i \<and> po_code (pay (begin_import (approve (mk i)))) = seed_order_code ?i b"
      using mk by (simp add: pay_def approve_def begin_import_def)
    show thesis
    proof (rule that [OF mkp mki])
      show "\<not> imports_nothing ?plan \<longrightarrow> (\<exists>mks mkx. (\<forall>i. si_purchase_order_id (mks i) = ?n)
        \<and> (\<forall>i. sii_purchase_order_item_id (mkx i) = serial (purchase_order_items d) \<and> sii_real_quantity (mkx i) = batch_copies ?i b
             \<and> batch_copies ?i b + sii_lack_quantity (mkx i) = ?q)
        \<and> run_batch sa v b d = (Inr (Some (batch_copies ?i b)),
             with_import mks mkx (with_purchase (\<lambda>i. pay (begin_import (approve (mk i)))) mki d)))"
        using imp sum by (intro impI exI [of _ mks] exI [of _ mkx] conjI finished) simp_all
    qed (use False in simp)
  qed
qed
section \<open>Lemmas: all batches of a variant\<close>

lemma order_code_inject:
  assumes "seed_order_code i b = seed_order_code j c" and "0 \<le> i" and "0 \<le> j"
  shows "i = j" and "b = c"
proof -
  have dash: "CHR ''-'' \<notin> set (pad_start 6 (CHR ''0'') (nat_string n))" "CHR ''-'' \<notin> set (nat_string n)" for n
  proof -
    have "\<not> is_digit (CHR ''-'')" by code_simp
    then show "CHR ''-'' \<notin> set (pad_start 6 (CHR ''0'') (nat_string n))" "CHR ''-'' \<notin> set (nat_string n)"
      using pad_start_digits nat_string_digits by blast+
  qed
  from assms(2,3) have shown: "int_string i = nat_string (nat i)" "int_string j = nat_string (nat j)" by (simp_all add: int_string_def)
  from assms(1) have eq: "pad_start 6 (CHR ''0'') (nat_string (nat i)) @ CHR ''-'' # nat_string (b + 1)
      = pad_start 6 (CHR ''0'') (nat_string (nat j)) @ CHR ''-'' # nat_string (c + 1)"
    by (simp add: seed_order_code_def shown)
  then have "pad_start 6 (CHR ''0'') (nat_string (nat i)) = pad_start 6 (CHR ''0'') (nat_string (nat j))"
    and last: "nat_string (b + 1) = nat_string (c + 1)"
    using dash by (simp_all add: append_Cons_eq_iff del: nat_string.simps)
  then have "nat i = nat j" by (intro pad_start_inject)
  with assms(2,3) show "i = j" by simp
  from arg_cong [OF last, of digits_value] show "b = c" by (simp add: digits_value_nat_string del: nat_string.simps)
qed

lemma run_batch_effect:
  assumes "books_wf d" and "actors_known sa d" and "variant_of d (sbv_id v) \<noteq> None"
    and "seed_order_code (sbv_id v) b \<notin> set (order_codes d)" and "b < batch_count (sbv_plan v)"
  obtains d' where
    "run_batch sa v b d = (Inr (if imports_nothing (sbv_plan v) then None else Some (batch_copies (sbv_id v) b)), d')"
    and "books_wf d'" and "order_codes d' = order_codes d @ [seed_order_code (sbv_id v) b]"
    and "\<forall>i. received d' i = received d i + (if i = sbv_id v \<and> \<not> imports_nothing (sbv_plan v) then batch_copies (sbv_id v) b else 0)"
    and "imports_balance d \<longrightarrow> imports_balance d'"
    and "variants d' = variants d \<and> users d' = users d \<and> suppliers d' = suppliers d"
proof -
  obtain mkp mki where mkp: "\<forall>i. po_id (mkp i) = i \<and> po_code (mkp i) = seed_order_code (sbv_id v) b"
    and mki: "\<forall>i. poi_id (mki i) = i \<and> poi_purchase_order_id (mki i) = serial (purchase_orders d) \<and> poi_variant_id (mki i) = sbv_id v"
    and q: "\<forall>i. poi_quantity (mki i) = physical_stock_for_book (sbv_id v + int b * 7)"
    and stops: "imports_nothing (sbv_plan v) \<longrightarrow> run_batch sa v b d = (Inr None, with_purchase mkp mki d)"
    and brings: "\<not> imports_nothing (sbv_plan v) \<longrightarrow> (\<exists>mks mkx. (\<forall>i. si_purchase_order_id (mks i) = serial (purchase_orders d))
        \<and> (\<forall>i. sii_purchase_order_item_id (mkx i) = serial (purchase_order_items d) \<and> sii_real_quantity (mkx i) = batch_copies (sbv_id v) b
             \<and> batch_copies (sbv_id v) b + sii_lack_quantity (mkx i) = physical_stock_for_book (sbv_id v + int b * 7))
        \<and> run_batch sa v b d = (Inr (Some (batch_copies (sbv_id v) b)), with_import mks mkx (with_purchase mkp mki d)))"
    by (rule run_batch_writes [OF assms])
  let ?d = "with_purchase mkp mki d" and ?y = "mki (serial (purchase_order_items d))"
  note order = with_purchase_effect [OF assms(1), of mkp "seed_order_code (sbv_id v) b" mki "sbv_id v"]
  have wf: "books_wf ?d" "order_codes ?d = order_codes d @ [seed_order_code (sbv_id v) b]"
    "\<forall>i. received ?d i = received d i" "imports_balance d \<longrightarrow> imports_balance ?d"
    using order mkp mki by blast+
  show thesis
  proof (cases "imports_nothing (sbv_plan v)")
    case True
    with wf stops show thesis by (intro that [of ?d]) simp_all
  next
    case False
    with brings obtain mks mkx where mks: "\<forall>i. si_purchase_order_id (mks i) = serial (purchase_orders d)"
      and mkx: "\<forall>i. sii_purchase_order_item_id (mkx i) = serial (purchase_order_items d) \<and> sii_real_quantity (mkx i) = batch_copies (sbv_id v) b
             \<and> batch_copies (sbv_id v) b + sii_lack_quantity (mkx i) = physical_stock_for_book (sbv_id v + int b * 7)"
      and run: "run_batch sa v b d = (Inr (Some (batch_copies (sbv_id v) b)), with_import mks mkx ?d)" by blast
    have y: "?y \<in> set (rows (purchase_order_items ?d))" "poi_id ?y = serial (purchase_order_items d)"
      "poi_variant_id ?y = sbv_id v" "poi_quantity ?y = physical_stock_for_book (sbv_id v + int b * 7)"
      using mki q by simp_all
    have s: "si_purchase_order_id (mks i) < serial (purchase_orders ?d)" for i using mks by simp
    have x: "sii_purchase_order_item_id (mkx i) = poi_id ?y \<and> sii_real_quantity (mkx i) = batch_copies (sbv_id v) b
        \<and> batch_copies (sbv_id v) b + sii_lack_quantity (mkx i) = poi_quantity ?y" for i
      using mkx unfolding y(2,4) by blast
    note effect = with_import_effect [OF wf(1) y(1), of mks mkx, OF s x]
    show thesis using False wf effect run y(3) by (intro that [of "with_import mks mkx ?d"]) simp_all
  qed
qed

text \<open>What stays where it is while the batches run.\<close>

definition same_accounts :: "db \<Rightarrow> db \<Rightarrow> bool" where
  "same_accounts d d' \<longleftrightarrow> variants d' = variants d \<and> users d' = users d \<and> suppliers d' = suppliers d"

lemma same_accounts_actors: "same_accounts d d' \<Longrightarrow> actors_known sa d \<Longrightarrow> actors_known sa d'"
  by (simp add: same_accounts_def actors_known_def supplier_of_def user_of_def)

definition imported :: "seeded_variant \<Rightarrow> nat list \<Rightarrow> int list" where
  "imported v bs = (if imports_nothing (sbv_plan v) then [] else map (batch_copies (sbv_id v)) bs)"

lemma run_batches_effect:
  assumes "books_wf d" and "actors_known sa d" and "variant_of d (sbv_id v) \<noteq> None" and "0 \<le> sbv_id v"
    and "\<forall>b\<in>set bs. b < batch_count (sbv_plan v) \<and> seed_order_code (sbv_id v) b \<notin> set (order_codes d)" and "distinct bs"
  shows "\<exists>d'. run_batches sa v bs d = (Inr (imported v bs), d') \<and> books_wf d' \<and> same_accounts d d'
    \<and> order_codes d' = order_codes d @ map (seed_order_code (sbv_id v)) bs
    \<and> (\<forall>i. received d' i = received d i + (if i = sbv_id v then sum_list (imported v bs) else 0))
    \<and> (imports_balance d \<longrightarrow> imports_balance d')"
  using assms
proof (induction bs arbitrary: d)
  case Nil
  then show ?case by (simp add: imported_def same_accounts_def)
next
  case (Cons b bs)
  from Cons.prems(5) have here: "seed_order_code (sbv_id v) b \<notin> set (order_codes d)" "b < batch_count (sbv_plan v)" by simp_all
  obtain d1 where
    run: "run_batch sa v b d = (Inr (if imports_nothing (sbv_plan v) then None else Some (batch_copies (sbv_id v) b)), d1)"
    and wf: "books_wf d1" and codes: "order_codes d1 = order_codes d @ [seed_order_code (sbv_id v) b]"
    and got: "\<forall>i. received d1 i = received d i + (if i = sbv_id v \<and> \<not> imports_nothing (sbv_plan v) then batch_copies (sbv_id v) b else 0)"
    and bal: "imports_balance d \<longrightarrow> imports_balance d1"
    and same: "variants d1 = variants d \<and> users d1 = users d \<and> suppliers d1 = suppliers d"
    by (rule run_batch_effect [OF Cons.prems(1-3) here])
  have shop: "same_accounts d d1" using same by (simp add: same_accounts_def)
  have "\<forall>c\<in>set bs. c < batch_count (sbv_plan v) \<and> seed_order_code (sbv_id v) c \<notin> set (order_codes d1)"
    using Cons.prems(4-6) order_code_inject(2) [of "sbv_id v" _ "sbv_id v" b] by (auto simp: codes)
  moreover have "variant_of d1 (sbv_id v) \<noteq> None" using Cons.prems(3) same by (simp add: variant_of_def)
  ultimately obtain d2 where rest: "run_batches sa v bs d1 = (Inr (imported v bs), d2)" "books_wf d2" "same_accounts d1 d2"
    "order_codes d2 = order_codes d1 @ map (seed_order_code (sbv_id v)) bs"
    "\<forall>i. received d2 i = received d1 i + (if i = sbv_id v then sum_list (imported v bs) else 0)"
    "imports_balance d1 \<longrightarrow> imports_balance d2"
    using Cons.IH [OF wf same_accounts_actors [OF shop Cons.prems(2)]] Cons.prems(4,6) by auto
  have "run_batches sa v (b # bs) d = (Inr (imported v (b # bs)), d2)" by (simp add: run rest(1) imported_def ret_def)
  moreover have "same_accounts d d2" using shop rest(3) by (simp add: same_accounts_def)
  moreover have "\<forall>i. received d2 i = received d i + (if i = sbv_id v then sum_list (imported v (b # bs)) else 0)"
    using got rest(5) by (simp add: imported_def)
  ultimately show ?case using rest(2,4,6) codes bal by (intro exI [of _ d2]) simp
qed

text \<open>A variant whose columns agree with its plan and with what was received.\<close>

definition sellable_plan :: "procurement_plan \<Rightarrow> bool" where
  "sellable_plan plan \<longleftrightarrow> plan \<in> {Plan_SELLABLE_SINGLE_BATCH, Plan_SELLABLE_MULTI_BATCH, Plan_DIGITAL_SELLABLE}"

definition row_booked :: "procurement_plan \<Rightarrow> int \<Rightarrow> variant_row \<Rightarrow> bool" where
  "row_booked plan copies r \<longleftrightarrow> bv_stock r = copies \<and> bv_available r = copies \<and> bv_reserved r = 0
     \<and> bv_is_active r = sellable_plan plan \<and> (bv_price r \<noteq> None) = sellable_plan plan \<and> (sellable_plan plan \<longrightarrow> 0 < copies)"

definition stock_booked :: "db \<Rightarrow> seeded_variant \<Rightarrow> bool" where
  "stock_booked d v \<longleftrightarrow> (case variant_of d (sbv_id v) of None \<Rightarrow> False
     | Some r \<Rightarrow> row_booked (sbv_plan v) (if sbv_plan v = Plan_DIGITAL_SELLABLE then 9999 else received d (sbv_id v)) r)"

definition is_draft :: "variant_row \<Rightarrow> bool" where
  "is_draft r \<longleftrightarrow> bv_price r = None \<and> bv_stock r = 0 \<and> bv_available r = 0 \<and> bv_reserved r = 0 \<and> \<not> bv_is_active r"

text \<open>What the seed needs to find: consistent books without an order for the variant, and the draft.\<close>

definition ready_for :: "db \<Rightarrow> seeded_variant \<Rightarrow> bool" where
  "ready_for d v \<longleftrightarrow> 0 \<le> sbv_id v \<and> (case variant_of d (sbv_id v) of None \<Rightarrow> False | Some r \<Rightarrow> is_draft r)
     \<and> received d (sbv_id v) = 0 \<and> (\<forall>b<2. seed_order_code (sbv_id v) b \<notin> set (order_codes d))"

lemma update_seed_variant_effect:
  assumes "variant_of d i = Some r" and "\<And>v. bv_id (f v) = bv_id v"
  obtains d' where "update_seed_variant i f d = (Inr (), d')" and "variant_of d' i = Some (f r)"
    and "\<forall>j. j \<noteq> i \<longrightarrow> variant_of d' j = variant_of d j" and "\<forall>j. received d' j = received d j" and "order_codes d' = order_codes d"
    and "books_wf d' = books_wf d" and "imports_balance d' = imports_balance d" and "users d' = users d \<and> suppliers d' = suppliers d"
proof -
  let ?d = "d\<lparr>variants := map_rows (\<lambda>v. bv_id v = i) f (variants d)\<rparr>"
  have look: "variant_of ?d j = map_option (\<lambda>v. if bv_id v = i then f v else v) (variant_of d j)" for j
    using assms(2) by (rule variant_of_map_rows)
  have "variant_of ?d j = variant_of d j" if "j \<noteq> i" for j
    using that variant_of_id [of d j] unfolding look by (cases "variant_of d j") auto
  moreover have "received ?d j = received d j" for j by (simp add: received_def ordered_for_def)
  ultimately show thesis
    using assms(1) variant_of_id [OF assms(1)]
    by (intro that [of ?d]) (simp_all add: update_seed_variant_def look order_codes_def books_wf_def imports_balance_def)
qed

text \<open>One variant is booked; nothing else moves.\<close>

definition only_changes :: "int \<Rightarrow> db \<Rightarrow> db \<Rightarrow> bool" where
  "only_changes i d d' \<longleftrightarrow> (\<forall>j. j \<noteq> i \<longrightarrow> variant_of d' j = variant_of d j \<and> received d' j = received d j)
     \<and> (\<forall>c\<in>set (order_codes d'). c \<in> set (order_codes d) \<or> (\<exists>b. c = seed_order_code i b))
     \<and> users d' = users d \<and> suppliers d' = suppliers d"

lemma imported_positive:
  assumes "\<not> imports_nothing (sbv_plan v)" and "0 < n"
  shows "0 < sum_list (imported v [0..<n])"
proof -
  have "0 < sum_list (map (batch_copies (sbv_id v)) bs)" if "bs \<noteq> []" for bs
    using that by (induction bs rule: list_nonempty_induct) (auto intro: batch_copies_pos add_pos_pos)
  with assms show ?thesis by (simp add: imported_def)
qed

lemma physical_procurement_books:
  assumes "books_wf d" and "actors_known sa d" and "ready_for d v"
    and "sbv_plan v \<notin> {Plan_DRAFT, Plan_DIGITAL_DRAFT, Plan_DIGITAL_SELLABLE}"
  shows "\<exists>d'. run_physical_procurement sa v d = (Inr (), d') \<and> books_wf d' \<and> stock_booked d' v \<and> only_changes (sbv_id v) d d'
    \<and> (imports_balance d \<longrightarrow> imports_balance d')"
proof -
  let ?i = "sbv_id v" and ?n = "batch_count (sbv_plan v)"
  let ?copies = "sum_list (imported v [0..<?n])"
  let ?supplier = "sa_suppliers sa ! (nat (?i + int (?n - 1) * 5) mod length (sa_suppliers sa))"
  let ?f = "\<lambda>price stock sells r. r\<lparr>bv_supplier_id := Some ?supplier, bv_price := price, bv_stock := stock, bv_reserved := 0,
    bv_available := stock, bv_is_active := sells\<rparr> :: variant_row"
  have n: "0 < ?n" "?n \<le> 2" by (simp_all add: batch_count_def)
  have pre: "0 \<le> ?i" "variant_of d ?i \<noteq> None" "received d ?i = 0"
    "\<forall>b\<in>set [0..<?n]. b < ?n \<and> seed_order_code ?i b \<notin> set (order_codes d)"
    using assms(3) n(2) by (auto simp: ready_for_def split: option.splits)
  obtain d1 where run: "run_batches sa v [0..<?n] d = (Inr (imported v [0..<?n]), d1)" and d1: "books_wf d1" "same_accounts d d1"
    "order_codes d1 = order_codes d @ map (seed_order_code ?i) [0..<?n]"
    "\<forall>i. received d1 i = received d i + (if i = ?i then ?copies else 0)" "imports_balance d \<longrightarrow> imports_balance d1"
    using run_batches_effect [OF assms(1,2) pre(2,1,4)] by auto
  obtain r where r: "variant_of d1 ?i = Some r" using pre(2) d1(2) by (auto simp: same_accounts_def variant_of_def)
  have booked: "\<exists>d'. run_physical_procurement sa v d = (Inr (), d') \<and> books_wf d' \<and> stock_booked d' v \<and> only_changes ?i d d'
    \<and> (imports_balance d \<longrightarrow> imports_balance d')"
    if step: "run_physical_procurement sa v d = update_seed_variant ?i f d1" and f: "\<And>v. bv_id (f v) = bv_id v"
      and row: "row_booked (sbv_plan v) ?copies (f r)" for f
  proof -
    obtain d' where d': "update_seed_variant ?i f d1 = (Inr (), d')" "variant_of d' ?i = Some (f r)"
      "\<forall>j. j \<noteq> ?i \<longrightarrow> variant_of d' j = variant_of d1 j" "\<forall>j. received d' j = received d1 j" "order_codes d' = order_codes d1"
      "books_wf d' = books_wf d1" "imports_balance d' = imports_balance d1" "users d' = users d1 \<and> suppliers d' = suppliers d1"
      by (rule update_seed_variant_effect [OF r f])
    have "stock_booked d' v" using d' d1(4) row pre(3) assms(4) by (simp add: stock_booked_def)
    moreover have "only_changes ?i d d'"
      using d' d1 by (auto simp: only_changes_def same_accounts_def variant_of_def)
    ultimately show ?thesis using step d' d1 by (intro exI [of _ d']) simp
  qed
  have none: "imported v [0..<?n] = [] \<longleftrightarrow> imports_nothing (sbv_plan v)" using n(1) by (simp add: imported_def)
  show ?thesis
  proof (cases "imports_nothing (sbv_plan v)")
    case True
    then have plan: "\<not> sellable_plan (sbv_plan v)" by (auto simp: imports_nothing_def sellable_plan_def)
    have empty: "imported v [0..<?n] = []" using True by (simp add: none)
    show ?thesis
      by (rule booked [of "?f None 0 False"]) (simp_all add: run_physical_procurement_def run empty row_booked_def plan Let_def)
  next
    case False
    have some: "imported v [0..<?n] \<noteq> []" using False by (simp add: none)
    have pos: "0 < ?copies" using imported_positive [OF False n(1)] .
    show ?thesis
    proof (cases "sbv_plan v = Plan_IMPORTED_WAITING_PRICE")
      case True
      show ?thesis
        by (rule booked [of "?f None ?copies False"])
          (use True in \<open>simp_all add: run_physical_procurement_def run [unfolded True] some [unfolded True] row_booked_def
              sellable_plan_def Let_def\<close>)
    next
      case waiting: False
      with assms(4) False have plan: "sellable_plan (sbv_plan v)"
        by (cases "sbv_plan v") (simp_all add: imports_nothing_def sellable_plan_def)
      show ?thesis
        using waiting pos plan
        by (intro booked [of "?f (Some (store_decimal (sbv_planned_sell_price v))) ?copies True"])
          (simp_all add: run_physical_procurement_def run some row_booked_def Let_def)
    qed
  qed
qed

lemma procure_variant_books:
  assumes "books_wf d" and "actors_known sa d" and "ready_for d v"
  shows "\<exists>d'. procure_variant sa v d = (Inr (), d') \<and> books_wf d' \<and> stock_booked d' v \<and> only_changes (sbv_id v) d d'
    \<and> (imports_balance d \<longrightarrow> imports_balance d')"
proof -
  obtain r where r: "variant_of d (sbv_id v) = Some r" and draft: "is_draft r" and zero: "received d (sbv_id v) = 0"
    using assms(3) by (auto simp: ready_for_def split: option.splits)
  consider "sbv_plan v = Plan_DRAFT \<or> sbv_plan v = Plan_DIGITAL_DRAFT" | "sbv_plan v = Plan_DIGITAL_SELLABLE"
    | "sbv_plan v \<notin> {Plan_DRAFT, Plan_DIGITAL_DRAFT, Plan_DIGITAL_SELLABLE}" by blast
  then show ?thesis
  proof cases
    case 1
    then have "stock_booked d v" using r draft zero by (auto simp: stock_booked_def row_booked_def is_draft_def sellable_plan_def)
    with 1 assms(1) show ?thesis by (intro exI [of _ d]) (auto simp: procure_variant_def only_changes_def)
  next
    case 2
    let ?f = "\<lambda>r. r\<lparr>bv_price := Some (store_decimal (sbv_planned_sell_price v)), bv_currency := VND, bv_stock := 9999,
      bv_available := 9999, bv_reserved := 0, bv_is_active := True\<rparr>"
    obtain d' where d': "update_seed_variant (sbv_id v) ?f d = (Inr (), d')" "variant_of d' (sbv_id v) = Some (?f r)"
      "\<forall>j. j \<noteq> sbv_id v \<longrightarrow> variant_of d' j = variant_of d j" "\<forall>j. received d' j = received d j" "order_codes d' = order_codes d"
      "books_wf d' = books_wf d" "imports_balance d' = imports_balance d" "users d' = users d \<and> suppliers d' = suppliers d"
      by (rule update_seed_variant_effect [OF r, where f = ?f]) simp_all
    then have "stock_booked d' v" using 2 by (simp add: stock_booked_def row_booked_def sellable_plan_def)
    with 2 d' assms(1) show ?thesis
      by (intro exI [of _ d']) (auto simp: procure_variant_def run_digital_activation_def only_changes_def)
  next
    case 3
    with physical_procurement_books [OF assms 3] show ?thesis by (simp add: procure_variant_def)
  qed
qed

lemma procurement_books:
  assumes "books_wf d" and "actors_known sa d" and "\<forall>v\<in>set vs. ready_for d v" and "distinct (map sbv_id vs)" and "imports_balance d"
  shows "\<exists>d'. for_of (procure_variant sa) vs d = (Inr (), d') \<and> (\<forall>v\<in>set vs. stock_booked d' v) \<and> imports_balance d'
    \<and> (\<forall>j. j \<notin> sbv_id ` set vs \<longrightarrow> variant_of d' j = variant_of d j \<and> received d' j = received d j)"
  using assms
proof (induction vs arbitrary: d)
  case Nil
  then show ?case by simp
next
  case (Cons v vs)
  from Cons.prems(3) have "ready_for d v" by simp
  from procure_variant_books [OF Cons.prems(1,2) this] obtain d1 where run: "procure_variant sa v d = (Inr (), d1)"
    and d1: "books_wf d1" "stock_booked d1 v" "only_changes (sbv_id v) d d1" "imports_balance d \<longrightarrow> imports_balance d1" by blast
  have actors: "actors_known sa d1"
    using d1(3) Cons.prems(2) by (simp add: only_changes_def actors_known_def supplier_of_def user_of_def)
  have new: "sbv_id v \<notin> sbv_id ` set vs" using Cons.prems(4) by auto
  have ready: "\<forall>w\<in>set vs. ready_for d1 w"
  proof
    fix w
    assume w: "w \<in> set vs"
    with Cons.prems(3) have was: "ready_for d w" and "0 \<le> sbv_id v" by (auto simp: ready_for_def)
    moreover from w new have other: "sbv_id w \<noteq> sbv_id v" by (metis imageI)
    ultimately have "seed_order_code (sbv_id w) b \<noteq> seed_order_code (sbv_id v) c" for b c
      using order_code_inject(1) [of "sbv_id w" b "sbv_id v" c] by (auto simp: ready_for_def)
    with d1(3) was other show "ready_for d1 w" unfolding ready_for_def only_changes_def by (auto split: option.splits)
  qed
  obtain d2 where rest: "for_of (procure_variant sa) vs d1 = (Inr (), d2)" "\<forall>v\<in>set vs. stock_booked d2 v" "imports_balance d2"
    "\<forall>j. j \<notin> sbv_id ` set vs \<longrightarrow> variant_of d2 j = variant_of d1 j \<and> received d2 j = received d1 j"
    using Cons.IH [OF d1(1) actors ready] Cons.prems(4,5) d1(4) by auto
  from rest(4) new have "variant_of d2 (sbv_id v) = variant_of d1 (sbv_id v)" "received d2 (sbv_id v) = received d1 (sbv_id v)" by blast+
  with d1(2) have "stock_booked d2 v" by (simp only: stock_booked_def)
  with rest run d1(3) show ?case by (intro exI [of _ d2]) (auto simp: only_changes_def)
qed


definition seeded_shop :: db where
  "seeded_shop = empty_db\<lparr>suppliers := \<lparr>rows = [\<lparr>sup_id = 4, sup_code = ''S'', sup_name = ''S'', sup_is_active = True, sup_created_at = 0\<rparr>],
       serial = 5\<rparr>,
     users := \<lparr>rows = map (\<lambda>i. sample_user\<lparr>usr_id := i\<rparr>) [1, 2, 3], serial = 4\<rparr>,
     variants := \<lparr>rows = [draft_variant ''9791000000014'' 1999 (sample_variant 1 0 0), draft_variant ''9791000000021'' 2001 (sample_variant 2 0 0)],
       serial = 3\<rparr>\<rparr>"

definition seeding :: seed_actors where
  "seeding = \<lparr>sa_suppliers = [4], sa_staff = 2, sa_admin = 1, sa_warehouse = 3, sa_now = 0, sa_order_note = (\<lambda>_ _ _. ''''),
     sa_import_note = (\<lambda>_ _ _. '''')\<rparr>"

definition planned :: "int \<Rightarrow> procurement_plan \<Rightarrow> seeded_variant" where
  "planned i plan = \<lparr>sbv_id = i, sbv_book_id = 1, sbv_format = PAPERBACK, sbv_isbn = ''x'', sbv_is_digital = False,
     sbv_planned_sell_price = 100000, sbv_plan = plan\<rparr>"


end
