(* ===== verification/Spec2Isabelle.thy ===== *)
theory Spec2Isabelle
  imports Webhook Checkout Order_Flow Order_Life Guest_Session Auth Purchase Wishlist Admin_Order Admin_User Book_Asset Book_Search Endpoints Bodies Seed_Booking
begin

text \<open>
  A verification development of the book store backend, a NestJS service over a MySQL database (through the Prisma
  client), a Redis cache, two job queues, an object store and a vector index. The TypeScript sources are under
  \<open>src/src\<close>, the database schema is \<open>src/prisma/schema.prisma\<close>.

  \<^bold>\<open>The program.\<close> A request passes the guards of \<open>src/src/common/security/guard\<close>, reaches the handler of a controller and
  from there one method of a service; services call repositories, and a repository method is one query or one
  transaction. A checkout (\<open>modules/order\<close>) reserves copies in Redis, writes a pending order and a payment intent and
  hands the rest to a background job (\<open>queue/checkout\<close>) that writes price snapshots, items and the address and reserves
  the copies in the database. The bank reports a transfer to the webhook (\<open>modules/hooks\<close>), which settles the order. A
  job cancels unpaid orders every ten hours. Administration, catalogue, carts, accounts and mails surround this core.

  \<^bold>\<open>The model.\<close> All tables are one record \<open>db\<close> (theory Schema), a table is a list of rows with the next value of its
  key (theory Store). An operation is a function from its arguments and the state to a result and a new state, the
  result being an exception of the code (\<open>Inl\<close>) or a value (\<open>Inr\<close>); \<open>await\<close>, \<open>promise_all\<close>, \<open>transaction\<close> and
  \<open>catching\<close> (theory Prelude) are the constructs of the language. What the code takes from outside (the clock, random
  values, hashes, signatures, rankings, the answers of Redis, of mail and of AI services) is an argument.

  \<^bold>\<open>The theories.\<close> Every definition stands for the function of the same name, written with underscores.

  \<^item> Prelude, Store, Schema: exceptions, results, tables, the data model; generic lemmas, the locales \<open>row_store\<close> (a
    keyed table) and \<open>machine\<close> (an invariant that every call keeps holds after every sequence of calls).
  \<^item> Js_Number, Js_Text, Text_Utils, Pagination: doubles, decimal columns, strings, \<open>src/src/utils\<close>,
    \<open>src/src/common/pagination\<close>.
  \<^item> Timed_Cache, Cache_Version: entries with a lifetime and the versioned cache of \<open>modules/cache-version\<close>; the locales
    \<open>expiring_cache\<close> and \<open>result_cache\<close> state what their clients rely on.
  \<^item> Inventory: variants, stock and reservations (\<open>modules/book/variant\<close>); the locale \<open>stock_ledger\<close> is the contract
    between stock and settlement.
  \<^item> Orders, Payments, Checkout, Webhook, Order_Flow: orders and their cleanup, intents and transactions, the checkout with its
    job, the webhook, and what the three leave for each other.
  \<^item> Order_Life: all calls that write orders as one transition system, the state machine of an order they follow and the
    invariant they keep.
  \<^item> Cart, Guest_Session, User_Address, Wishlist: \<open>modules/cart\<close>, \<open>guest-session\<close>, \<open>user\<close>, \<open>wishlist\<close>.
  \<^item> Auth, Email_Outbox, Rbac: accounts, devices, sessions, guards, codes and mails, roles and permissions with the
    lifetime of the cached grants.
  \<^item> Reference_Data, Catalog, Recommend, Book_Search: languages, authors, publishers, categories; the public catalogue;
    events and recommendations; the search by meaning with its index.
  \<^item> Admin_Book, Admin_Order, Admin_User, Purchase, Book_Asset: the administration.
  \<^item> Routes, Endpoints: the decorators of every controller as data, the order of the guards, what a handler gets from an
    admitted request, the answers and refusals.
  \<^item> Validation, Bodies: the pipe that converts, checks and strips bodies and queries, and the classes of all requests
    (\<open>dto/request\<close> of every module) with their decorators.
  \<^item> Seed_Access, Seed_Stock, Seed_Booking: \<open>src/prisma/seed.ts\<close>, which fills a database: the access matrix with its
    upserts, the numbers and plans of the seeded variants, their procurement.

  \<^bold>\<open>What the lemmas show.\<close> For each component: the invariant its calls keep (orders, carts, addresses, slugs, category
  trees, stock, positions of pictures), the effect of its operations on every branch, errors included, and what no call
  can do (settle without an exact payment, settle twice, decide twice, exceed the device limit). Lists and folds are
  compared with reference definitions (pages, category tree, scores, reindexing), the versioned cache with the source it
  stands for. The theorem of this theory follows one order through request, job and payment; theory Order_Life shows what
  any interleaving of these calls with cleanups and decisions can do to it. Some theorems state
  behaviour that a reader of the code would not expect (the names say so: \<open>second_merge_loses_cart\<close>,
  \<open>create_book_always_fails\<close>); they are proved about the code as it is.

  \<^bold>\<open>Bounds.\<close> Loops are structural or have a measure: the slug search ends because only finitely many numbered slugs are
  taken (\<open>slug_loop\<close>), the category forest is built to a depth of the number of categories, which no chain of distinct
  parents exceeds, the mail job has its three attempts, and a double is printed with at most 20 decimals
  (\<open>decimals_needed\<close>), more than a decimal column has. The batch loop of the reindexing may run forever and is a partial
  function; that it ends, and when it does not, is a property.

  \<^bold>\<open>Assumptions.\<close> The queries of the Prisma client (theory Store) and the decorators of
  class-validator and class-transformer (theory Validation) are defined by their documented meaning; the services take
  the body after validation, as a record. Dates are integers of milliseconds, decimal columns are rationals. The strings of a query are compared
  by equality; the collation of the database enters as a parameter where a search depends on it. The operations of a
  \<open>Promise.all\<close> run in the order they are listed, and one call runs to its end before the next begins; the order of a
  request, its job and a payment event is explicit in the statements. The framework runs the guards in its documented
  order (application, controller, handler).

  \<^bold>\<open>Not modelled.\<close> Logging, configuration, wiring of modules and connections (effects outside the state); uploads to the object store, image conversion, the ISBN lookup and the prompts to the language model (calls of
  outside services); the HTML of the mails; message texts; the texts of the seed and the upserts that copy them
  (suppliers, categories, users, books); the permission scan at start-up, which only prints.
\<close>

section \<open>From the checkout to the settled order\<close>

text \<open>
  C1: a bank transfer by a signed-in buyer runs through: after the request, the background job and an exact payment in
  time the order is paid with its total, every ordered copy has left the stock exactly once and the reserved copies are
  what they were before.
\<close>
theorem checkout_to_settlement:
  fixes later :: int
  assumes "create_checkout env body guest (Some user) d = (Inr (resp, job), d1)"
    and "\<not> cb_is_guest body" and "cb_gateway body \<noteq> COD" and "\<not> cj_is_error job"
    and "order_inv d" and "\<forall>a\<in>set (rows (order_addresses d)). oa_order_id a \<in> ord_id ` set (rows (orders d))"
    and "wf_table bv_id (variants d)" and "digests_tell sha (cr_variants resp) d" and "cr_variants resp \<noteq> []"
    and "\<forall>v\<in>set (cr_variants resp). 0 < the (cj_quantities job (bv_id v))
           \<and> the (cj_quantities job (bv_id v)) \<le> bv_stock v - bv_reserved v"
    and "sb_id pay \<noteq> 0" and "sb_content pay = Some c" and "js_trim c = cr_order_code resp" and "cr_order_code resp \<noteq> []"
    and "sb_amount pay = number_of_decimal (Some (cr_total resp))" and "now \<le> env_now env + 3600000"
  defines "d2 \<equiv> snd (process_checkout sha later job d1)"
  defines "d3 \<equiv> snd (handle_sepay_webhook now pay d2)"
  shows "fst (process_checkout sha later job d1) = Inr ()
    \<and> (\<exists>r. order_of d3 (cj_order_id job) = Some r \<and> ord_status r = Some Ord_PAID
         \<and> ord_payment_status r = Some Pay_SUCCESS \<and> ord_total r = Some (cr_total resp))
    \<and> (\<forall>k. stock_of d3 k = map_option (\<lambda>n. n - qty (ordered job) k) (stock_of d k)
         \<and> reserved_of d3 k = reserved_of d k)"
proof (rule checkout_of_user [OF assms(1-6)])
  fix order p
  assume order: "order_of d1 (cj_order_id job) = Some order" "ord_id order = cj_order_id job" "ord_total order = Some (cr_total resp)"
    and intent: "find_intent_by_content (cr_order_code resp) d1 = Some (p, Some order)"
    and p: "pi_status p = Some Pay_PENDING" "pi_expired_at p = env_now env + 3600000"
    and inv: "order_inv d1" and fresh: "items_of_order d1 (cj_order_id job) = []"
      "find_row (\<lambda>a. oa_order_id a = cj_order_id job) (order_addresses d1) = None"
    and frame: "variants d1 = variants d" "snapshots d1 = snapshots d"
    and job: "\<not> cj_is_guest job" "cj_variants job = find_variants_by_ids (map item_variant_id (cb_items body)) d"
      "cr_variants resp = cj_variants job"
  have digests: "digests_tell sha (cj_variants job) d1" using assms(8) unfolding digests_tell_def frame job(3) .
  have placed: "order_of d1 (cj_order_id job) \<noteq> None" "cj_variants job \<noteq> []" using order(1) assms(9) job(3) by simp_all
  obtain d2' where run: "process_checkout sha later job d1 = (Inr (), d2')"
    and items: "item_quantities d2' (items_of_order d2' (cj_order_id job)) = Inr (ordered job)"
    and vars: "variants d2' = variants (snd (update_reserved_by_ids (job_reservation job) d1))"
    and kept: "orders d2' = orders d1" "payment_intents d2' = payment_intents d1"
    and new: "\<forall>x\<in>set (rows (order_items d2')). x \<in> set (rows (order_items d1)) \<or> oi_order_id x = cj_order_id job"
    by (rule job_of_user [OF placed(1) fresh job(1) assms(4) placed(2) digests])
  have d2: "d2 = d2'" by (simp add: d2_def run)
  have known: "variant_of d (bv_id v) = Some v" if "v \<in> set (cj_variants job)" for v
    using that assms(7) find_row_key [of bv_id "variants d" v] by (simp add: job(2) find_variants_by_ids_def variant_of_def)
  have reserved: "stock_of d2 k = stock_of d k" "reserved_of d2 k = map_option (\<lambda>n. n + qty (ordered job) k) (reserved_of d k)" for k
    using job_reserves [OF vars placed(2)] known assms(10)
    by (simp_all add: d2 variant_of_def stock_of_def reserved_of_def frame job(3))
  have "order_inv d2" using inv new order(1) by (force simp: order_inv_def d2 kept dest: order_of_in)
  moreover have "find_intent_by_content (js_trim c) d2 = Some (p, Some order)"
    using intent assms(13) by (simp add: find_intent_by_content_def with_order_def order_by_code_def d2 kept)
  moreover have "settles now pay p order" using p assms(15,16) order(3) by (simp add: settles_def)
  moreover have "distinct (map fst (ordered job))"
    using assms(7) by (auto simp: ordered_def comp_def job(2) find_variants_by_ids_def select_rows_def wf_table_def
        intro: distinct_map_filter)
  moreover have "\<forall>(k, q)\<in>set (ordered job). q \<noteq> 0" using assms(10) by (force simp: ordered_def job(3))
  ultimately obtain w d4 where "handle_sepay_webhook now pay d2 = (Inr w, d4)"
    and "order_of d4 (ord_id order) = Some (paid_order order)"
    and "\<And>k. stock_of d4 k = map_option (\<lambda>n. n - qty (ordered job) k) (stock_of d2 k)"
    and "\<And>k. reserved_of d4 k = map_option (\<lambda>n. n - qty (ordered job) k) (reserved_of d2 k)"
    using exact_payment [of d2 pay c p order now "ordered job"] assms(11-14) items order(2) by (metis d2)
  then show ?thesis
    using run order by (simp add: d3_def paid_order_def reserved option.map_comp comp_def option.map_ident)
qed

lemma checkout_to_settlement_witness:
  "\<exists>resp job d1 d2. create_checkout (Checkout.sample_env True) member_body None (Some 1) member_shop = (Inr (resp, job), d1)
     \<and> process_checkout (\<lambda>s. s) 1 job d1 = (Inr (), d2)
     \<and> stock_of (snd (handle_sepay_webhook 2 (transfer_of resp) d2)) 1 = Some 2
     \<and> reserved_of (snd (handle_sepay_webhook 2 (transfer_of resp) d2)) 1 = Some 2"
proof (rule member_shop_checkout)
  fix resp job d1
  assume run: "create_checkout (Checkout.sample_env True) member_body None (Some 1) member_shop = (Inr (resp, job), d1)"
    and vs: "cr_variants resp = [Inventory.sample_variant 1 5 2]" "cj_variants job = [Inventory.sample_variant 1 5 2]"
    and q: "cj_quantities job = [1 \<mapsto> 3]" "\<not> cj_is_error job" and code: "cr_order_code resp = ''VLR260701012345''"
  have clean: "order_inv member_shop" "rows (order_addresses member_shop) = []" "wf_table bv_id (variants member_shop)"
    "digests_tell (\<lambda>s. s) (cr_variants resp) member_shop"
    by (simp_all add: member_shop_def Inventory.sample_stock_def empty_db_def empty_table_def order_inv_def wf_table_def digests_tell_def
        Inventory.sample_variant_def vs)
  have trim: "js_trim (cr_order_code resp) = cr_order_code resp" "cr_order_code resp \<noteq> []" by (simp_all add: code) code_simp
  have all: "\<forall>v\<in>set (cr_variants resp). 0 < the (cj_quantities job (bv_id v))
      \<and> the (cj_quantities job (bv_id v)) \<le> bv_stock v - bv_reserved v"
    by (simp add: vs q Inventory.sample_variant_def)
  have items: "qty (ordered job) 1 = 3" by (simp add: qty_def ordered_def vs q Inventory.sample_variant_def)
  have stock: "stock_of member_shop 1 = Some 5" "reserved_of member_shop 1 = Some 2"
    by (simp_all add: stock_of_def reserved_of_def member_shop_def Inventory.sample_stock_def variant_of_def find_row_def Inventory.sample_variant_def)
  have "fst (process_checkout (\<lambda>s. s) 1 job d1) = Inr ()
    \<and> stock_of (snd (handle_sepay_webhook 2 (transfer_of resp) (snd (process_checkout (\<lambda>s. s) 1 job d1)))) 1 = Some 2
    \<and> reserved_of (snd (handle_sepay_webhook 2 (transfer_of resp) (snd (process_checkout (\<lambda>s. s) 1 job d1)))) 1 = Some 2"
    using checkout_to_settlement [OF run _ _ q(2) clean(1) _ clean(3,4) _ all, of "transfer_of resp" "cr_order_code resp" 2 1]
    by (simp add: clean(2) items stock trim transfer_of_def member_body_def Checkout.sample_env_def vs)
  with run show ?thesis by (metis prod.collapse)
qed

end
